(* ===== verification/Moonkit_Prelude.thy ===== *)
theory Moonkit_Prelude
  imports Main "HOL-Library.Word"
begin

text \<open>
  Shared vocabulary of the development: the fixed-width integers of the Rust sources with
  their checked and saturating operations, the result type of fallible Rust code, and the
  generic lemmas on maps and lists the components use.
\<close>

section \<open>Lemma collections\<close>

named_theorems arith_ops \<open>definitions of the checked and saturating word operations\<close>
named_theorems inv_intros \<open>invariant preservation, one fact per operation\<close>

section \<open>Machine integers\<close>

type_synonym u8 = "8 word"
type_synonym u32 = "32 word"
type_synonym u64 = "64 word"
type_synonym u128 = "128 word"
type_synonym H160 = "160 word"
type_synonym H256 = "256 word"
type_synonym U256 = "256 word"

text \<open>The integer operations of the Rust standard library that the sources call.\<close>

definition checked_add :: "'a::len word \<Rightarrow> 'a word \<Rightarrow> 'a word option" where
  [arith_ops]: "checked_add a b =
     (if unat a + unat b < 2 ^ LENGTH('a) then Some (a + b) else None)"

definition checked_sub :: "'a::len word \<Rightarrow> 'a word \<Rightarrow> 'a word option" where
  [arith_ops]: "checked_sub a b = (if b \<le> a then Some (a - b) else None)"

definition saturating_add :: "'a::len word \<Rightarrow> 'a word \<Rightarrow> 'a word" where
  [arith_ops]: "saturating_add a b =
     (if unat a + unat b < 2 ^ LENGTH('a) then a + b else - 1)"

definition saturating_sub :: "'a::len word \<Rightarrow> 'a word \<Rightarrow> 'a word" where
  [arith_ops]: "saturating_sub a b = (if b \<le> a then a - b else 0)"

definition saturating_mul :: "'a::len word \<Rightarrow> 'a word \<Rightarrow> 'a word" where
  [arith_ops]: "saturating_mul a b =
     (if unat a * unat b < 2 ^ LENGTH('a) then a * b else - 1)"

lemma unat_max: "unat (- 1 :: 'a::len word) = 2 ^ LENGTH('a) - 1"
  by (simp add: unsigned_minus_1_eq_mask mask_eq_exp_minus_1)

lemma unat_le_max: "unat (a :: 'a::len word) \<le> 2 ^ LENGTH('a) - 1"
proof -
  have "unat a < 2 ^ LENGTH('a)" by simp
  then show ?thesis by linarith
qed

lemma word_eqI_unat: "unat a = unat b \<Longrightarrow> a = (b :: 'a::len word)"
  by (simp add: word_unat_eq_iff)

lemma unat_of_nat_small: "n < 2 ^ LENGTH('a) \<Longrightarrow> unat (of_nat n :: 'a::len word) = n"
  by (simp add: unat_of_nat take_bit_nat_eq_self)

lemma unat_add_no_wrap:
  "unat a + unat b < 2 ^ LENGTH('a) \<Longrightarrow> unat (a + b :: 'a::len word) = unat a + unat b"
  by (simp add: unat_word_ariths)

lemma unat_diff_no_wrap:
  "b \<le> a \<Longrightarrow> unat (a - b :: 'a::len word) = unat a - unat b"
  by (simp add: unat_sub)

lemma checked_add_Some:
  "checked_add a b = Some (c :: 'a::len word) \<longleftrightarrow>
     unat a + unat b < 2 ^ LENGTH('a) \<and> unat c = unat a + unat b"
  by (auto simp: checked_add_def unat_add_no_wrap intro: word_eqI_unat)

lemma checked_add_None:
  "checked_add a b = None \<longleftrightarrow> 2 ^ LENGTH('a) \<le> unat a + unat (b :: 'a::len word)"
  by (auto simp: checked_add_def)

lemma checked_sub_Some:
  "checked_sub a b = Some (c :: 'a::len word) \<longleftrightarrow> unat b \<le> unat a \<and> unat c = unat a - unat b"
  by (auto simp: checked_sub_def unat_diff_no_wrap word_le_nat_alt intro: word_eqI_unat)

lemma checked_sub_None:
  "checked_sub a b = None \<longleftrightarrow> unat a < unat (b :: 'a::len word)"
  by (auto simp: checked_sub_def word_le_nat_alt)

lemma unat_saturating_add:
  "unat (saturating_add a b :: 'a::len word) = min (unat a + unat b) (2 ^ LENGTH('a) - 1)"
  by (auto simp: saturating_add_def unat_add_no_wrap unat_max)

lemma unat_saturating_sub:
  "unat (saturating_sub a b :: 'a::len word) = unat a - unat b"
  by (auto simp: saturating_sub_def unat_diff_no_wrap word_le_nat_alt)

lemma unat_saturating_mul:
  "unat (saturating_mul a b :: 'a::len word) = min (unat a * unat b) (2 ^ LENGTH('a) - 1)"
  by (auto simp: saturating_mul_def unat_word_ariths unat_max)

lemmas unat_arith_ops = unat_saturating_add unat_saturating_sub unat_saturating_mul

section \<open>Results of fallible code\<close>

text \<open>
  \<open>Ok\<close> and \<open>Err\<close> are the constructors of Rust's \<^verbatim>\<open>Result\<close>; \<open>Panic\<close> is a panic, an
  \<^verbatim>\<open>assert!\<close> that fails or an \<^verbatim>\<open>expect\<close> on a missing value, with its message: in the
  runtime it makes the block invalid.
\<close>

datatype ('e, 'a) result = Ok 'a | Err 'e | Panic string

primrec and_then :: "('e, 'a) result \<Rightarrow> ('a \<Rightarrow> ('e, 'b) result) \<Rightarrow> ('e, 'b) result" where
  "and_then (Ok a) f = f a"
| "and_then (Err e) f = Err e"
| "and_then (Panic m) f = Panic m"

primrec map_err :: "('e \<Rightarrow> 'f) \<Rightarrow> ('e, 'a) result \<Rightarrow> ('f, 'a) result" where
  "map_err g (Ok a) = Ok a"
| "map_err g (Err e) = Err (g e)"
| "map_err g (Panic m) = Panic m"

primrec is_ok :: "('e, 'a) result \<Rightarrow> bool" where
  "is_ok (Ok a) = True"
| "is_ok (Err e) = False"
| "is_ok (Panic m) = False"

definition ok_or :: "'e \<Rightarrow> 'a option \<Rightarrow> ('e, 'a) result" where
  "ok_or e x = (case x of None \<Rightarrow> Err e | Some a \<Rightarrow> Ok a)"

definition expect :: "string \<Rightarrow> 'a option \<Rightarrow> ('e, 'a) result" where
  "expect m x = (case x of None \<Rightarrow> Panic m | Some a \<Rightarrow> Ok a)"

definition ensure :: "bool \<Rightarrow> 'e \<Rightarrow> ('e, unit) result" where
  "ensure b e = (if b then Ok () else Err e)"

definition assert_that :: "bool \<Rightarrow> string \<Rightarrow> ('e, unit) result" where
  "assert_that b m = (if b then Ok () else Panic m)"

lemma and_then_Ok_iff [simp]:
  "and_then r f = Ok b \<longleftrightarrow> (\<exists>a. r = Ok a \<and> f a = Ok b)"
  by (cases r) auto

lemma and_then_Err_iff:
  "and_then r f = Err e \<longleftrightarrow> r = Err e \<or> (\<exists>a. r = Ok a \<and> f a = Err e)"
  by (cases r) auto

lemma map_err_Ok_iff [simp]: "map_err g r = Ok a \<longleftrightarrow> r = Ok a"
  by (cases r) auto

lemma is_ok_iff: "is_ok r \<longleftrightarrow> (\<exists>a. r = Ok a)"
  by (cases r) auto

lemma ok_or_simps [simp]: "ok_or e None = Err e" "ok_or e (Some a) = Ok a"
  by (simp_all add: ok_or_def)

lemma expect_simps [simp]: "expect m None = Panic m" "expect m (Some a) = Ok a"
  by (simp_all add: expect_def)

lemma ok_or_Ok_iff [simp]: "ok_or e x = Ok a \<longleftrightarrow> x = Some a"
  by (cases x) auto

lemma expect_Ok_iff [simp]: "expect m x = Ok a \<longleftrightarrow> x = Some a"
  by (cases x) auto

lemma ensure_Ok_iff [simp]: "ensure b e = Ok u \<longleftrightarrow> b"
  by (simp add: ensure_def)

lemma ensure_simps [simp]: "ensure True e = Ok ()" "ensure False e = Err e"
  by (simp_all add: ensure_def)

lemma assert_Ok_iff [simp]: "assert_that b m = Ok u \<longleftrightarrow> b"
  by (simp add: assert_that_def)

lemma assert_simps [simp]: "assert_that True m = Ok ()" "assert_that False m = Panic m"
  by (simp_all add: assert_that_def)

text \<open>
  The error of a dispatchable: a variant of the pallet's own \<^verbatim>\<open>Error\<close> enum, or an error
  handed up from the framework or another pallet by the question-mark operator.
\<close>

datatype ('m, 'd) dispatch_error = ModuleError 'm | FrameError 'd

section \<open>Reachable states and invariants\<close>

text \<open>
  The states a component can reach from its initial states by its steps, and the interface
  between a component and the safety argument: the component provides an invariant that its
  initial states satisfy and each of its steps keeps, and gets it for every reachable state
  and every pair of states a run connects.
\<close>

inductive reachable :: "('s \<Rightarrow> bool) \<Rightarrow> ('s \<Rightarrow> 's \<Rightarrow> bool) \<Rightarrow> 's \<Rightarrow> bool"
  for init :: "'s \<Rightarrow> bool" and step :: "'s \<Rightarrow> 's \<Rightarrow> bool"
  where
    reach_init: "init s \<Longrightarrow> reachable init step s"
  | reach_step: "reachable init step s \<Longrightarrow> step s t \<Longrightarrow> reachable init step t"

locale invariant_system =
  fixes init :: "'s \<Rightarrow> bool"
    and step :: "'s \<Rightarrow> 's \<Rightarrow> bool"
    and invar :: "'s \<Rightarrow> bool"
  assumes invar_init: "init s \<Longrightarrow> invar s"
    and invar_step: "invar s \<Longrightarrow> step s t \<Longrightarrow> invar t"
begin

lemma invar_reachable: "reachable init step s \<Longrightarrow> invar s"
  by (induction rule: reachable.induct) (auto intro: invar_init invar_step)

lemma invar_run: "step\<^sup>*\<^sup>* s t \<Longrightarrow> invar s \<Longrightarrow> invar t"
  by (induction rule: rtranclp_induct) (auto intro: invar_step)

end

text \<open>
  A component that also implements an abstract one: through an abstraction of its states, each step is a step of the abstract
  component or leaves the abstract state alone. Reachable states are then mapped to reachable ones, runs to runs, and every
  invariant of the abstract component holds of the abstractions.
\<close>

locale refinement_system = invariant_system +
  fixes abs_init :: "'a \<Rightarrow> bool"
    and abs_step :: "'a \<Rightarrow> 'a \<Rightarrow> bool"
    and abs :: "'s \<Rightarrow> 'a"
  assumes refine_init: "init s \<Longrightarrow> abs_init (abs s)"
    and refine_step: "invar s \<Longrightarrow> step s t \<Longrightarrow> abs t = abs s \<or> abs_step (abs s) (abs t)"
begin

lemma refine_reachable: "reachable init step s \<Longrightarrow> reachable abs_init abs_step (abs s)"
proof (induction rule: reachable.induct)
  case (reach_step s t)
  from refine_step [OF invar_reachable [OF reach_step.hyps(1)] reach_step.hyps(2)] show ?case
    using reach_step.IH by (auto intro: reachable.reach_step)
qed (auto intro: reachable.reach_init refine_init)

lemma refine_run: "step\<^sup>*\<^sup>* s t \<Longrightarrow> invar s \<Longrightarrow> abs_step\<^sup>*\<^sup>* (abs s) (abs t)"
proof (induction rule: rtranclp_induct)
  case (step t u)
  from refine_step [OF invar_run [OF step.hyps(1) step.prems] step.hyps(2)] step.IH [OF step.prems] show ?case
    by (auto intro: rtranclp.rtrancl_into_rtrancl)
qed simp

lemma transfer_invariant:
  assumes "invariant_system abs_init abs_step abs_invar" "reachable init step s"
  shows "abs_invar (abs s)"
  using invariant_system.invar_reachable [OF assms(1) refine_reachable [OF assms(2)]] .

end

section \<open>Sums over finite maps\<close>

text \<open>Total of a measure over the entries of a finite map.\<close>

definition map_total :: "('v \<Rightarrow> nat) \<Rightarrow> ('k \<rightharpoonup> 'v) \<Rightarrow> nat" where
  "map_total f m = (\<Sum>k\<in>dom m. f (the (m k)))"

lemma map_total_empty [simp]: "map_total f Map.empty = 0"
  by (simp add: map_total_def)

lemma map_total_insert:
  assumes "finite (dom m)" "m k = None"
  shows "map_total f (m(k \<mapsto> v)) = f v + map_total f m"
proof -
  have k: "k \<notin> dom m" using assms(2) by auto
  have "map_total f (m(k \<mapsto> v)) = (\<Sum>x\<in>insert k (dom m). f (the ((m(k \<mapsto> v)) x)))"
    by (simp add: map_total_def)
  also have "\<dots> = f v + (\<Sum>x\<in>dom m. f (the ((m(k \<mapsto> v)) x)))"
    using assms(1) k by simp
  also have "(\<Sum>x\<in>dom m. f (the ((m(k \<mapsto> v)) x))) = map_total f m"
    unfolding map_total_def by (rule sum.cong) (use k in auto)
  finally show ?thesis .
qed

lemma map_total_remove:
  assumes "finite (dom m)" "m k = Some v"
  shows "map_total f m = f v + map_total f (m(k := None))"
proof -
  have "m = (m(k := None))(k \<mapsto> v)" using assms(2) by auto
  then have "map_total f m = map_total f ((m(k := None))(k \<mapsto> v))" by simp
  also have "\<dots> = f v + map_total f (m(k := None))"
    by (rule map_total_insert) (use assms(1) in simp_all)
  finally show ?thesis .
qed

lemma map_total_update:
  assumes "finite (dom m)" "m k = Some v"
  shows "map_total f (m(k \<mapsto> w)) + f v = f w + map_total f m"
proof -
  have "m(k \<mapsto> w) = (m(k := None))(k \<mapsto> w)" by simp
  then have "map_total f (m(k \<mapsto> w)) = f w + map_total f (m(k := None))"
    using map_total_insert [of "m(k := None)" k f w] assms(1) by simp
  then show ?thesis using map_total_remove [OF assms, of f] by simp
qed

lemma map_total_member:
  assumes "finite (dom m)" "m k = Some v"
  shows "f v \<le> map_total f m"
  using map_total_remove [OF assms, of f] by simp

end
