(* ===== verification/Frame_Interfaces.thy ===== *)
theory Frame_Interfaces
  imports Moonkit_Prelude
begin

text \<open>
  The framework services the pallets are generic over (\<^verbatim>\<open>frame_system\<close>, \<^verbatim>\<open>Currency\<close>, the
  SCALE codec). Their code is not part of the repository: they are records of functions that
  the definitions take as arguments, and what the pallets rely on is stated as predicates,
  from the documentation of the traits. The ledger at the end is a concrete currency that
  satisfies them.
\<close>

section \<open>Origins\<close>

record ('origin, 'acct, 'd) frame_system =
  ensure_signed :: "'origin \<Rightarrow> 'd + 'acct"
  ensure_root :: "'origin \<Rightarrow> 'd + unit"
  ensure_none :: "'origin \<Rightarrow> 'd + unit"

primrec from_frame :: "'d + 'a \<Rightarrow> (('m, 'd) dispatch_error, 'a) result" where
  "from_frame (Inl d) = Err (FrameError d)"
| "from_frame (Inr a) = Ok a"

lemma from_frame_Ok_iff [simp]: "from_frame x = Ok a \<longleftrightarrow> x = Inr a"
  by (cases x) auto

section \<open>The SCALE codec\<close>

text \<open>
  \<open>decode\<close> consumes a prefix of its input and returns the rest, as \<^verbatim>\<open>Decode::decode\<close> does on a
  mutable slice; \<open>size_of\<close> is Rust's \<^verbatim>\<open>size_of\<close> of the type.
\<close>

record 'a codec =
  encode :: "'a \<Rightarrow> u8 list"
  decode :: "u8 list \<Rightarrow> ('a \<times> u8 list) option"
  size_of :: nat

definition codec_ok :: "'a codec \<Rightarrow> bool" where
  "codec_ok c \<longleftrightarrow>
     (\<forall>x rest. decode c (encode c x @ rest) = Some (x, rest)) \<and>
     (\<forall>x. length (encode c x) = size_of c)"

section \<open>Weights\<close>

text \<open>
  The two dimensions of a \<^verbatim>\<open>Weight\<close>. Its saturating operations work on both; its subtraction is the
  unchecked one of \<^verbatim>\<open>u64\<close>, which wraps in the release profile.
\<close>

record weight =
  ref_time :: u64
  proof_size :: u64

definition weight_zero :: weight where
  "weight_zero = \<lparr>ref_time = 0, proof_size = 0\<rparr>"

definition from_parts :: "u64 \<Rightarrow> u64 \<Rightarrow> weight" where
  "from_parts rt ps = \<lparr>ref_time = rt, proof_size = ps\<rparr>"

definition weight_saturating_add :: "weight \<Rightarrow> weight \<Rightarrow> weight" where
  "weight_saturating_add a b =
     \<lparr>ref_time = saturating_add (ref_time a) (ref_time b), proof_size = saturating_add (proof_size a) (proof_size b)\<rparr>"

definition weight_saturating_mul :: "weight \<Rightarrow> u64 \<Rightarrow> weight" where
  "weight_saturating_mul a n =
     \<lparr>ref_time = saturating_mul (ref_time a) n, proof_size = saturating_mul (proof_size a) n\<rparr>"

definition weight_saturating_sub :: "weight \<Rightarrow> weight \<Rightarrow> weight" where
  "weight_saturating_sub a b =
     \<lparr>ref_time = saturating_sub (ref_time a) (ref_time b), proof_size = saturating_sub (proof_size a) (proof_size b)\<rparr>"

definition weight_sub :: "weight \<Rightarrow> weight \<Rightarrow> weight" where
  "weight_sub a b = \<lparr>ref_time = ref_time a - ref_time b, proof_size = proof_size a - proof_size b\<rparr>"

text \<open>
  \<^verbatim>\<open>RuntimeDbWeight\<close>: the cost of a database read and write, and the weights of several of them, which have no proof size
  and saturate.
\<close>

record db_weight =
  db_read :: u64
  db_write :: u64
  reads :: "u64 \<Rightarrow> weight"
  writes :: "u64 \<Rightarrow> weight"
  reads_and_writes :: "u64 \<Rightarrow> u64 \<Rightarrow> weight"

definition db_weight_ok :: "db_weight \<Rightarrow> bool" where
  "db_weight_ok db \<longleftrightarrow>
     (\<forall>n. reads db n = \<lparr>ref_time = saturating_mul (db_read db) n, proof_size = 0\<rparr>) \<and>
     (\<forall>n. writes db n = \<lparr>ref_time = saturating_mul (db_write db) n, proof_size = 0\<rparr>) \<and>
     (\<forall>r w. reads_and_writes db r w =
        \<lparr>ref_time = saturating_add (saturating_mul (db_read db) r) (saturating_mul (db_write db) w), proof_size = 0\<rparr>)"

definition flat_db_weight :: "u64 \<Rightarrow> u64 \<Rightarrow> db_weight" where
  "flat_db_weight rd wr = \<lparr>db_read = rd, db_write = wr,
     reads = (\<lambda>n. \<lparr>ref_time = saturating_mul rd n, proof_size = 0\<rparr>),
     writes = (\<lambda>n. \<lparr>ref_time = saturating_mul wr n, proof_size = 0\<rparr>),
     reads_and_writes = (\<lambda>r w. \<lparr>ref_time = saturating_add (saturating_mul rd r) (saturating_mul wr w), proof_size = 0\<rparr>)\<rparr>"

lemma flat_db_weight_ok [simp]: "db_weight_ok (flat_db_weight rd wr)" "db_write (flat_db_weight rd wr) = wr"
  by (simp_all add: db_weight_ok_def flat_db_weight_def)

section \<open>Currencies\<close>

text \<open>
  \<open>cur_transfer\<close> is \<^verbatim>\<open>Currency::transfer\<close> with \<^verbatim>\<open>KeepAlive\<close>; \<open>cur_unreserve\<close> drops the amount
  that could not be unreserved, which no caller reads.
\<close>

record ('acct, 'cur, 'd) currency =
  cur_transfer :: "'acct \<Rightarrow> 'acct \<Rightarrow> u128 \<Rightarrow> 'cur \<Rightarrow> 'd + 'cur"
  cur_free_balance :: "'cur \<Rightarrow> 'acct \<Rightarrow> u128"
  cur_reserve :: "'acct \<Rightarrow> u128 \<Rightarrow> 'cur \<Rightarrow> 'd + 'cur"
  cur_unreserve :: "'acct \<Rightarrow> u128 \<Rightarrow> 'cur \<Rightarrow> 'cur"
  cur_reserved_balance :: "'cur \<Rightarrow> 'acct \<Rightarrow> u128"

text \<open>
  \<^verbatim>\<open>ReservableCurrency\<close>: \<^verbatim>\<open>reserve\<close> moves exactly the amount from the free to the reserved balance
  of the account, \<^verbatim>\<open>unreserve\<close> moves as much of the amount as is reserved back, and no other
  account is touched.
\<close>

definition reservable_ok :: "('acct, 'cur, 'd) currency \<Rightarrow> bool" where
  "reservable_ok C \<longleftrightarrow>
     (\<forall>a v c c'. cur_reserve C a v c = Inr c' \<longrightarrow>
        unat (cur_reserved_balance C c' a) = unat (cur_reserved_balance C c a) + unat v \<and>
        unat (cur_free_balance C c' a) + unat v = unat (cur_free_balance C c a) \<and>
        (\<forall>b. b \<noteq> a \<longrightarrow> cur_reserved_balance C c' b = cur_reserved_balance C c b \<and>
                        cur_free_balance C c' b = cur_free_balance C c b)) \<and>
     (\<forall>a v c.
        unat (cur_reserved_balance C (cur_unreserve C a v c) a) =
          unat (cur_reserved_balance C c a) - unat v \<and>
        (\<forall>b. b \<noteq> a \<longrightarrow>
           cur_reserved_balance C (cur_unreserve C a v c) b = cur_reserved_balance C c b \<and>
           cur_free_balance C (cur_unreserve C a v c) b = cur_free_balance C c b) \<and>
        (unat (cur_free_balance C c a) + unat (cur_reserved_balance C c a) < 2 ^ 128 \<longrightarrow>
           unat (cur_free_balance C (cur_unreserve C a v c) a) =
             unat (cur_free_balance C c a) + min (unat v) (unat (cur_reserved_balance C c a))))"

text \<open>
  \<^verbatim>\<open>Currency::transfer\<close>: a successful transfer moves exactly the amount and touches no third
  account; a transfer to oneself changes nothing.
\<close>

definition transfer_ok :: "('acct, 'cur, 'd) currency \<Rightarrow> bool" where
  "transfer_ok C \<longleftrightarrow>
     (\<forall>a b v c c'. cur_transfer C a b v c = Inr c' \<longrightarrow>
        (\<forall>x. x \<noteq> a \<longrightarrow> x \<noteq> b \<longrightarrow> cur_free_balance C c' x = cur_free_balance C c x) \<and>
        (a = b \<longrightarrow> cur_free_balance C c' a = cur_free_balance C c a) \<and>
        (a \<noteq> b \<longrightarrow>
           unat (cur_free_balance C c' a) + unat v = unat (cur_free_balance C c a) \<and>
           unat (cur_free_balance C c' b) = unat (cur_free_balance C c b) + unat v))"

lemma reserve_self:
  assumes "reservable_ok C" "cur_reserve C a v c = Inr c'"
  shows "unat (cur_reserved_balance C c' a) = unat (cur_reserved_balance C c a) + unat v"
    and "unat (cur_free_balance C c' a) + unat v = unat (cur_free_balance C c a)"
  using assms by (auto simp: reservable_ok_def)

lemma reserve_other:
  assumes "reservable_ok C" "cur_reserve C a v c = Inr c'" "b \<noteq> a"
  shows "cur_reserved_balance C c' b = cur_reserved_balance C c b"
  using assms by (auto simp: reservable_ok_def)

lemma unreserve_self:
  assumes "reservable_ok C"
  shows "unat (cur_reserved_balance C (cur_unreserve C a v c) a) =
           unat (cur_reserved_balance C c a) - unat v"
  using assms by (simp add: reservable_ok_def)

lemma unreserve_free:
  assumes "reservable_ok C"
    and "unat (cur_free_balance C c a) + unat (cur_reserved_balance C c a) < 2 ^ 128"
  shows "unat (cur_free_balance C (cur_unreserve C a v c) a) =
           unat (cur_free_balance C c a) + min (unat v) (unat (cur_reserved_balance C c a))"
  using assms by (simp add: reservable_ok_def)

lemma unreserve_other:
  assumes "reservable_ok C" "b \<noteq> a"
  shows "cur_reserved_balance C (cur_unreserve C a v c) b = cur_reserved_balance C c b"
  using assms by (simp add: reservable_ok_def)

lemmas reservable_laws = reserve_self reserve_other unreserve_self unreserve_other

section \<open>A concrete ledger\<close>

text \<open>
  A currency that keeps a free and a reserved balance per account. It shows that the
  predicates above can hold, and the concrete runs of the development use it.
\<close>

type_synonym ledger = "nat \<Rightarrow> u128 \<times> u128"

definition ledger_transfer :: "nat \<Rightarrow> nat \<Rightarrow> u128 \<Rightarrow> ledger \<Rightarrow> string + ledger" where
  "ledger_transfer a b v c =
     (if a = b then Inr c
      else case (checked_sub (fst (c a)) v, checked_add (fst (c b)) v) of
        (Some x, Some y) \<Rightarrow> Inr (c(a := (x, snd (c a)), b := (y, snd (c b))))
      | _ \<Rightarrow> Inl ''InsufficientBalance'')"

definition ledger_reserve :: "nat \<Rightarrow> u128 \<Rightarrow> ledger \<Rightarrow> string + ledger" where
  "ledger_reserve a v c =
     (case (checked_sub (fst (c a)) v, checked_add (snd (c a)) v) of
        (Some x, Some y) \<Rightarrow> Inr (c(a := (x, y)))
      | _ \<Rightarrow> Inl ''InsufficientBalance'')"

definition ledger_unreserve :: "nat \<Rightarrow> u128 \<Rightarrow> ledger \<Rightarrow> ledger" where
  "ledger_unreserve a v c =
     (let moved = min v (snd (c a))
      in c(a := (saturating_add (fst (c a)) moved, snd (c a) - moved)))"

definition ledger_currency :: "(nat, ledger, string) currency" where
  "ledger_currency =
     \<lparr>cur_transfer = ledger_transfer, cur_free_balance = (\<lambda>c a. fst (c a)),
      cur_reserve = ledger_reserve, cur_unreserve = ledger_unreserve,
      cur_reserved_balance = (\<lambda>c a. snd (c a))\<rparr>"

lemma unat_min: "unat (min a b :: 'a::len word) = min (unat a) (unat b)"
  by (simp add: min_def word_le_nat_alt)

lemma ledger_transfer_ok: "transfer_ok ledger_currency"
  by (auto simp: transfer_ok_def ledger_currency_def ledger_transfer_def checked_sub_Some
      checked_add_Some split: if_splits option.splits)

lemma ledger_reservable_ok: "reservable_ok ledger_currency"
  by (auto simp: reservable_ok_def ledger_currency_def ledger_reserve_def ledger_unreserve_def
      checked_sub_Some checked_add_Some Let_def unat_min unat_diff_no_wrap unat_saturating_add
      split: option.splits)

text \<open>An origin type with its checks, for concrete runs.\<close>

datatype raw_origin = Root | Signed nat | Unsigned

definition raw_system :: "(raw_origin, nat, string) frame_system" where
  "raw_system =
     \<lparr>ensure_signed = (\<lambda>x. case x of Signed a \<Rightarrow> Inr a | _ \<Rightarrow> Inl ''BadOrigin''),
      ensure_root = (\<lambda>x. if x = Root then Inr () else Inl ''BadOrigin''),
      ensure_none = (\<lambda>x. if x = Unsigned then Inr () else Inl ''BadOrigin'')\<rparr>"

text \<open>A codec of single bytes, for concrete runs.\<close>

definition byte_codec :: "u8 codec" where
  "byte_codec =
     \<lparr>encode = (\<lambda>x. [x]),
      decode = (\<lambda>xs. case xs of [] \<Rightarrow> None | x # rest \<Rightarrow> Some (x, rest)),
      size_of = 1\<rparr>"

lemma byte_codec_ok: "codec_ok byte_codec"
  by (simp add: codec_ok_def byte_codec_def)

lemmas concrete_frame = ledger_currency_def ledger_transfer_def ledger_reserve_def
  ledger_unreserve_def raw_system_def byte_codec_def

end
