(* ===== verification/Author_Mapping.thy ===== *)
theory Author_Mapping
  imports Frame_Interfaces
begin

text \<open>
  The pallet of \<^verbatim>\<open>pallets/author-mapping/src/lib.rs\<close>: the map from the consensus keys
  (\<^verbatim>\<open>NimbusId\<close>) to accounts with their security deposits, the reverse lookup, its five
  dispatchables, the genesis build and the lookups other components use.
\<close>

section \<open>Storage, errors, events, configuration\<close>

record ('acct, 'keys) registration_info =
  account :: 'acct
  deposit :: u128
  keys :: 'keys

datatype am_error =
    AssociationNotFound
  | NotYourAssociation
  | CannotAffordSecurityDeposit
  | AlreadyAssociated
  | OldAuthorIdNotFound
  | WrongKeySize
  | DecodeNimbusFailed
  | DecodeKeysFailed

datatype ('nid, 'acct, 'keys) am_event =
    KeysRegistered 'nid 'acct 'keys
  | KeysRemoved 'nid 'acct 'keys
  | KeysRotated 'nid 'acct 'keys

record ('nid, 'acct, 'keys, 'cur) am_state =
  MappingWithDeposit :: "'nid \<rightharpoonup> ('acct, 'keys) registration_info"
  NimbusLookup :: "'acct \<rightharpoonup> 'nid"
  am_currency :: 'cur
  am_events :: "('nid, 'acct, 'keys) am_event list"

record ('origin, 'acct, 'cur, 'd, 'nid, 'keys) am_config =
  am_system :: "('origin, 'acct, 'd) frame_system"
  DepositCurrency :: "('acct, 'cur, 'd) currency"
  DepositAmount :: u128
  keys_from_nimbus :: "'nid \<Rightarrow> 'keys"
  NimbusId_codec :: "'nid codec"
  Keys_codec :: "'keys codec"

type_synonym ('nid, 'acct, 'keys, 'cur, 'd) am_result =
  "((am_error, 'd) dispatch_error, ('nid, 'acct, 'keys, 'cur) am_state) result"

section \<open>Operations\<close>

definition keys_wrapper ::
    "('origin, 'acct, 'cur, 'd, 'nid, 'keys) am_config \<Rightarrow> 'nid \<Rightarrow> 'keys \<Rightarrow> u8 list" where
  "keys_wrapper cfg nimbus_id ks =
     encode (NimbusId_codec cfg) nimbus_id @ encode (Keys_codec cfg) ks"

definition keys_size :: "('origin, 'acct, 'cur, 'd, 'nid, 'keys) am_config \<Rightarrow> nat" where
  "keys_size cfg = size_of (NimbusId_codec cfg) + size_of (Keys_codec cfg)"

definition account_id_of :: "('nid, 'acct, 'keys, 'cur) am_state \<Rightarrow> 'nid \<Rightarrow> 'acct option" where
  "account_id_of s nimbus_id = map_option account (MappingWithDeposit s nimbus_id)"

definition keys_of :: "('nid, 'acct, 'keys, 'cur) am_state \<Rightarrow> 'nid \<Rightarrow> 'keys option" where
  "keys_of s nimbus_id = map_option keys (MappingWithDeposit s nimbus_id)"

definition nimbus_id_of :: "('nid, 'acct, 'keys, 'cur) am_state \<Rightarrow> 'acct \<Rightarrow> 'nid option" where
  "nimbus_id_of s account_id = NimbusLookup s account_id"

definition deposit_event_am ::
    "('nid, 'acct, 'keys) am_event \<Rightarrow> ('nid, 'acct, 'keys, 'cur) am_state
      \<Rightarrow> ('nid, 'acct, 'keys, 'cur) am_state" where
  "deposit_event_am e s = s\<lparr>am_events := am_events s @ [e]\<rparr>"

definition enact_registration ::
    "('origin, 'acct, 'cur, 'd, 'nid, 'keys) am_config \<Rightarrow> 'nid \<Rightarrow> 'acct \<Rightarrow> 'keys
      \<Rightarrow> ('nid, 'acct, 'keys, 'cur) am_state \<Rightarrow> ('nid, 'acct, 'keys, 'cur, 'd) am_result" where
  "enact_registration cfg nimbus_id account_id ks s =
     (case cur_reserve (DepositCurrency cfg) account_id (DepositAmount cfg) (am_currency s) of
        Inl _ \<Rightarrow> Err (ModuleError CannotAffordSecurityDeposit)
      | Inr c \<Rightarrow>
          let info = \<lparr>account = account_id, deposit = DepositAmount cfg, keys = ks\<rparr>
          in Ok (s\<lparr>am_currency := c,
                   MappingWithDeposit := (MappingWithDeposit s)(nimbus_id \<mapsto> info),
                   NimbusLookup := (NimbusLookup s)(account_id \<mapsto> nimbus_id)\<rparr>))"

definition rm_keys ::
    "('origin, 'acct, 'cur, 'd, 'nid, 'keys) am_config \<Rightarrow> 'nid \<Rightarrow> 'acct
      \<Rightarrow> ('nid, 'acct, 'keys, 'cur) am_state \<Rightarrow> ('nid, 'acct, 'keys, 'cur, 'd) am_result" where
  "rm_keys cfg nimbus_id account_id s =
     (case MappingWithDeposit s nimbus_id of
        None \<Rightarrow> Err (ModuleError AssociationNotFound)
      | Some stored_info \<Rightarrow>
          if account_id \<noteq> account stored_info then Err (ModuleError NotYourAssociation)
          else Ok (deposit_event_am (KeysRemoved nimbus_id account_id (keys stored_info))
                 (s\<lparr>MappingWithDeposit := (MappingWithDeposit s)(nimbus_id := None),
                    NimbusLookup := (NimbusLookup s)(account_id := None),
                    am_currency := cur_unreserve (DepositCurrency cfg) account_id
                                     (deposit stored_info) (am_currency s)\<rparr>)))"

definition register_keys ::
    "('origin, 'acct, 'cur, 'd, 'nid, 'keys) am_config \<Rightarrow> 'nid \<Rightarrow> 'acct \<Rightarrow> 'keys
      \<Rightarrow> ('nid, 'acct, 'keys, 'cur) am_state \<Rightarrow> ('nid, 'acct, 'keys, 'cur, 'd) am_result" where
  "register_keys cfg nimbus_id account_id ks s =
     and_then (ensure (MappingWithDeposit s nimbus_id = None) (ModuleError AlreadyAssociated))
       (\<lambda>_. and_then (enact_registration cfg nimbus_id account_id ks s)
         (\<lambda>s'. Ok (deposit_event_am (KeysRegistered nimbus_id account_id ks) s')))"

definition rotate_keys ::
    "('origin, 'acct, 'cur, 'd, 'nid, 'keys) am_config \<Rightarrow> 'nid \<Rightarrow> 'nid \<Rightarrow> 'acct \<Rightarrow> 'keys
      \<Rightarrow> ('nid, 'acct, 'keys, 'cur) am_state \<Rightarrow> ('nid, 'acct, 'keys, 'cur, 'd) am_result" where
  "rotate_keys cfg old_nimbus_id new_nimbus_id account_id new_keys s =
     (case MappingWithDeposit s old_nimbus_id of
        None \<Rightarrow> Err (ModuleError AssociationNotFound)
      | Some stored_info \<Rightarrow>
          if account_id \<noteq> account stored_info then Err (ModuleError NotYourAssociation)
          else if old_nimbus_id \<noteq> new_nimbus_id \<and> MappingWithDeposit s new_nimbus_id \<noteq> None
          then Err (ModuleError AlreadyAssociated)
          else Ok (deposit_event_am (KeysRotated new_nimbus_id account_id new_keys)
                 (s\<lparr>MappingWithDeposit :=
                      ((MappingWithDeposit s)(old_nimbus_id := None))
                        (new_nimbus_id \<mapsto> stored_info\<lparr>keys := new_keys\<rparr>),
                    NimbusLookup := (NimbusLookup s)(account_id \<mapsto> new_nimbus_id)\<rparr>)))"

definition add_association ::
    "('origin, 'acct, 'cur, 'd, 'nid, 'keys) am_config \<Rightarrow> 'origin \<Rightarrow> 'nid
      \<Rightarrow> ('nid, 'acct, 'keys, 'cur) am_state \<Rightarrow> ('nid, 'acct, 'keys, 'cur, 'd) am_result" where
  "add_association cfg origin nimbus_id s =
     and_then (from_frame (ensure_signed (am_system cfg) origin))
       (\<lambda>account_id. register_keys cfg nimbus_id account_id (keys_from_nimbus cfg nimbus_id) s)"

definition update_association ::
    "('origin, 'acct, 'cur, 'd, 'nid, 'keys) am_config \<Rightarrow> 'origin \<Rightarrow> 'nid \<Rightarrow> 'nid
      \<Rightarrow> ('nid, 'acct, 'keys, 'cur) am_state \<Rightarrow> ('nid, 'acct, 'keys, 'cur, 'd) am_result" where
  "update_association cfg origin old_nimbus_id new_nimbus_id s =
     and_then (from_frame (ensure_signed (am_system cfg) origin))
       (\<lambda>account_id. rotate_keys cfg old_nimbus_id new_nimbus_id account_id
          (keys_from_nimbus cfg new_nimbus_id) s)"

definition clear_association ::
    "('origin, 'acct, 'cur, 'd, 'nid, 'keys) am_config \<Rightarrow> 'origin \<Rightarrow> 'nid
      \<Rightarrow> ('nid, 'acct, 'keys, 'cur) am_state \<Rightarrow> ('nid, 'acct, 'keys, 'cur, 'd) am_result" where
  "clear_association cfg origin nimbus_id s =
     and_then (from_frame (ensure_signed (am_system cfg) origin))
       (\<lambda>account_id. rm_keys cfg nimbus_id account_id s)"

definition remove_keys ::
    "('origin, 'acct, 'cur, 'd, 'nid, 'keys) am_config \<Rightarrow> 'origin
      \<Rightarrow> ('nid, 'acct, 'keys, 'cur) am_state \<Rightarrow> ('nid, 'acct, 'keys, 'cur, 'd) am_result" where
  "remove_keys cfg origin s =
     and_then (from_frame (ensure_signed (am_system cfg) origin))
       (\<lambda>account_id. and_then (ok_or (ModuleError OldAuthorIdNotFound) (nimbus_id_of s account_id))
         (\<lambda>nimbus_id. rm_keys cfg nimbus_id account_id s))"

definition set_keys ::
    "('origin, 'acct, 'cur, 'd, 'nid, 'keys) am_config \<Rightarrow> 'origin \<Rightarrow> u8 list
      \<Rightarrow> ('nid, 'acct, 'keys, 'cur) am_state \<Rightarrow> ('nid, 'acct, 'keys, 'cur, 'd) am_result" where
  "set_keys cfg origin ks s =
     and_then (from_frame (ensure_signed (am_system cfg) origin))
       (\<lambda>account_id. and_then (ensure (length ks = keys_size cfg) (ModuleError WrongKeySize))
         (\<lambda>_. and_then (ok_or (ModuleError DecodeNimbusFailed) (decode (NimbusId_codec cfg) ks))
           (\<lambda>(new_nimbus_id, rest).
              and_then (ok_or (ModuleError DecodeKeysFailed) (decode (Keys_codec cfg) rest))
             (\<lambda>(new_keys, _).
                case nimbus_id_of s account_id of
                  Some old_nimbus_id \<Rightarrow>
                    rotate_keys cfg old_nimbus_id new_nimbus_id account_id new_keys s
                | None \<Rightarrow> register_keys cfg new_nimbus_id account_id new_keys s))))"

text \<open>
  The lookups that other pallets use. The setter is compiled for benchmarks only: it registers without a deposit and
  without the reverse lookup.
\<close>

definition lookup_account_am :: "('nid, 'acct, 'keys, 'cur) am_state \<Rightarrow> 'nid \<Rightarrow> 'acct option" where
  "lookup_account_am s author = account_id_of s author"

definition lookup_keys_am :: "('nid, 'acct, 'keys, 'cur) am_state \<Rightarrow> 'nid \<Rightarrow> 'keys option" where
  "lookup_keys_am s author = keys_of s author"

definition set_keys_for_benchmarks ::
    "'nid \<Rightarrow> 'acct \<Rightarrow> 'keys \<Rightarrow> ('nid, 'acct, 'keys, 'cur) am_state \<Rightarrow> ('nid, 'acct, 'keys, 'cur) am_state" where
  "set_keys_for_benchmarks nid account_id ks s =
     s\<lparr>MappingWithDeposit := (MappingWithDeposit s)(nid \<mapsto> \<lparr>account = account_id, deposit = 0, keys = ks\<rparr>)\<rparr>"

lemma set_keys_for_benchmarks_lookup:
  "lookup_account_am (set_keys_for_benchmarks nid a ks s) n = (if n = nid then Some a else lookup_account_am s n)"
  "lookup_keys_am (set_keys_for_benchmarks nid a ks s) n = (if n = nid then Some ks else lookup_keys_am s n)"
  by (simp_all add: lookup_account_am_def lookup_keys_am_def account_id_of_def keys_of_def set_keys_for_benchmarks_def)

text \<open>The genesis build registers each association and logs, without stopping, those that fail.\<close>

fun genesis_build_am ::
    "('origin, 'acct, 'cur, 'd, 'nid, 'keys) am_config \<Rightarrow> ('nid \<times> 'acct) list
      \<Rightarrow> ('nid, 'acct, 'keys, 'cur) am_state \<Rightarrow> ('nid, 'acct, 'keys, 'cur) am_state" where
  "genesis_build_am cfg [] s = s"
| "genesis_build_am cfg ((nimbus_id, account_id) # mappings) s =
     genesis_build_am cfg mappings
       (case enact_registration cfg nimbus_id account_id (keys_from_nimbus cfg nimbus_id) s of
          Ok s' \<Rightarrow> s'
        | _ \<Rightarrow> s)"

text \<open>The pallet's calls and their dispatch: an extrinsic that fails leaves the storage as it was.\<close>

datatype 'nid am_call =
    AddAssociation 'nid
  | UpdateAssociation 'nid 'nid
  | ClearAssociation 'nid
  | RemoveKeys
  | SetKeys "u8 list"

primrec am_dispatch ::
    "('origin, 'acct, 'cur, 'd, 'nid, 'keys) am_config \<Rightarrow> 'origin \<Rightarrow> 'nid am_call
      \<Rightarrow> ('nid, 'acct, 'keys, 'cur) am_state \<Rightarrow> ('nid, 'acct, 'keys, 'cur, 'd) am_result" where
  "am_dispatch cfg origin (AddAssociation n) = add_association cfg origin n"
| "am_dispatch cfg origin (UpdateAssociation old new) = update_association cfg origin old new"
| "am_dispatch cfg origin (ClearAssociation n) = clear_association cfg origin n"
| "am_dispatch cfg origin RemoveKeys = remove_keys cfg origin"
| "am_dispatch cfg origin (SetKeys ks) = set_keys cfg origin ks"

section \<open>Runs of the pallet\<close>

text \<open>The deposits that the pallet has recorded for an account.\<close>

definition deposit_of :: "'acct \<Rightarrow> ('acct, 'keys) registration_info \<Rightarrow> nat" where
  "deposit_of a info = (if account info = a then unat (deposit info) else 0)"

definition deposits :: "('nid, 'acct, 'keys, 'cur) am_state \<Rightarrow> 'acct \<Rightarrow> nat" where
  "deposits s a = map_total (deposit_of a) (MappingWithDeposit s)"

text \<open>
  The initial states are the genesis builds over a list of associations, any list, from an empty storage. A step is
  a successful dispatch, or the rest of the runtime changing balances: other pallets reserve and unreserve on the same accounts, as long as
  they leave alone what this pallet has reserved, that is the deposits it has recorded.
\<close>

definition am_init ::
    "('origin, 'acct, 'cur, 'd, 'nid, 'keys) am_config \<Rightarrow> ('nid \<times> 'acct) list
      \<Rightarrow> ('nid, 'acct, 'keys, 'cur) am_state \<Rightarrow> bool" where
  "am_init cfg mappings s \<longleftrightarrow> (\<exists>c. s = genesis_build_am cfg mappings
           \<lparr>MappingWithDeposit = Map.empty, NimbusLookup = Map.empty, am_currency = c,
            am_events = []\<rparr>)"

inductive am_step ::
    "('origin, 'acct, 'cur, 'd, 'nid, 'keys) am_config
      \<Rightarrow> ('nid, 'acct, 'keys, 'cur) am_state \<Rightarrow> ('nid, 'acct, 'keys, 'cur) am_state \<Rightarrow> bool"
  for cfg :: "('origin, 'acct, 'cur, 'd, 'nid, 'keys) am_config"
  where
    am_extrinsic: "am_dispatch cfg origin call s = Ok t \<Longrightarrow> am_step cfg s t"
  | am_environment:
      "(\<And>a. deposits s a \<le> unat (cur_reserved_balance (DepositCurrency cfg) c a)) \<Longrightarrow>
       am_step cfg s (s\<lparr>am_currency := c\<rparr>)"

section \<open>The invariant\<close>

text \<open>
  The reverse lookup only points to registrations of the same account, unless the genesis gave the key to two accounts; the
  deposits recorded for an account are covered by its reserved balance.
\<close>

definition genesis_conflict :: "('nid \<times> 'acct) list \<Rightarrow> 'acct \<Rightarrow> 'nid \<Rightarrow> bool" where
  "genesis_conflict mappings a n \<longleftrightarrow> (n, a) \<in> set mappings \<and> (\<exists>b. b \<noteq> a \<and> (n, b) \<in> set mappings)"

definition lookup_consistent :: "('nid \<times> 'acct) list \<Rightarrow> ('nid, 'acct, 'keys, 'cur) am_state \<Rightarrow> bool" where
  "lookup_consistent mappings s \<longleftrightarrow>
     (\<forall>a n. NimbusLookup s a = Some n \<longrightarrow> account_id_of s n = Some a \<or> genesis_conflict mappings a n)"

definition am_inv ::
    "('origin, 'acct, 'cur, 'd, 'nid, 'keys) am_config \<Rightarrow> ('nid \<times> 'acct) list
      \<Rightarrow> ('nid, 'acct, 'keys, 'cur) am_state \<Rightarrow> bool" where
  "am_inv cfg mappings s \<longleftrightarrow> finite (dom (MappingWithDeposit s)) \<and> lookup_consistent mappings s \<and>
     (\<forall>a. deposits s a \<le> unat (cur_reserved_balance (DepositCurrency cfg) (am_currency s) a))"

lemma deposit_event_am_sel [simp]:
  "MappingWithDeposit (deposit_event_am e s) = MappingWithDeposit s"
  "NimbusLookup (deposit_event_am e s) = NimbusLookup s"
  "am_currency (deposit_event_am e s) = am_currency s"
  "am_events (deposit_event_am e s) = am_events s @ [e]"
  by (simp_all add: deposit_event_am_def)

lemma deposit_event_am_inv [simp]: "am_inv cfg mappings (deposit_event_am e s) = am_inv cfg mappings s"
  by (simp add: am_inv_def lookup_consistent_def account_id_of_def deposits_def)

lemma enact_registration_deposits:
  assumes "reservable_ok (DepositCurrency cfg)" "finite (dom (MappingWithDeposit s))"
    and "\<And>a. deposits s a \<le> unat (cur_reserved_balance (DepositCurrency cfg) (am_currency s) a)"
    and "enact_registration cfg n a ks s = Ok t"
  shows "finite (dom (MappingWithDeposit t))" "deposits t b \<le> unat (cur_reserved_balance (DepositCurrency cfg) (am_currency t) b)"
    "MappingWithDeposit t = (MappingWithDeposit s)(n \<mapsto> \<lparr>account = a, deposit = DepositAmount cfg, keys = ks\<rparr>)"
    "NimbusLookup t = (NimbusLookup s)(a \<mapsto> n)"
proof -
  let ?C = "DepositCurrency cfg"
  from assms(4) obtain c where c: "cur_reserve ?C a (DepositAmount cfg) (am_currency s) = Inr c"
    and t: "t = s\<lparr>am_currency := c,
      MappingWithDeposit := (MappingWithDeposit s)
        (n \<mapsto> \<lparr>account = a, deposit = DepositAmount cfg, keys = ks\<rparr>),
      NimbusLookup := (NimbusLookup s)(a \<mapsto> n)\<rparr>"
    by (auto simp: enact_registration_def Let_def split: sum.splits)
  then show "MappingWithDeposit t = (MappingWithDeposit s)(n \<mapsto> \<lparr>account = a, deposit = DepositAmount cfg, keys = ks\<rparr>)"
    "NimbusLookup t = (NimbusLookup s)(a \<mapsto> n)" "finite (dom (MappingWithDeposit t))" using assms(2) by simp_all
  let ?rest = "(MappingWithDeposit s)(n := None)"
  have fin: "finite (dom ?rest)" "?rest n = None" using assms(2) by simp_all
  have "deposits t b = (if a = b then unat (DepositAmount cfg) else 0) + map_total (deposit_of b) ?rest"
    using map_total_insert [OF fin, of "deposit_of b" "\<lparr>account = a, deposit = DepositAmount cfg, keys = ks\<rparr>"]
    by (simp only: t deposits_def fun_upd_upd am_state.simps) (simp add: deposit_of_def fun_upd_def)
  moreover have "map_total (deposit_of b) ?rest \<le> deposits s b"
    using map_total_remove [OF assms(2), of n] by (cases "MappingWithDeposit s n") (auto simp: deposits_def fun_upd_idem)
  ultimately show "deposits t b \<le> unat (cur_reserved_balance ?C (am_currency t) b)"
    using assms(3) [of b] reserve_self(1) [OF assms(1) c] reserve_other [OF assms(1) c] by (cases "a = b") (auto simp: t)
qed

lemma enact_registration_inv [inv_intros]:
  assumes "reservable_ok (DepositCurrency cfg)" "am_inv cfg mappings s"
    and "MappingWithDeposit s n = None" "enact_registration cfg n a ks s = Ok t"
  shows "am_inv cfg mappings t"
proof -
  have s: "finite (dom (MappingWithDeposit s))" "\<And>a. deposits s a \<le> unat (cur_reserved_balance (DepositCurrency cfg) (am_currency s) a)"
    using assms(2) by (simp_all add: am_inv_def)
  note t = enact_registration_deposits [OF assms(1) s assms(4)]
  have "lookup_consistent mappings t"
    using assms(2,3) by (fastforce simp: t(3,4) am_inv_def lookup_consistent_def account_id_of_def)
  with t(1,2) show ?thesis by (simp add: am_inv_def)
qed

lemma rm_keys_inv [inv_intros]:
  assumes "reservable_ok (DepositCurrency cfg)" "am_inv cfg mappings s" "rm_keys cfg n a s = Ok t"
  shows "am_inv cfg mappings t"
proof -
  let ?C = "DepositCurrency cfg"
  from assms(3) obtain info where info: "MappingWithDeposit s n = Some info" "account info = a"
    and t: "t = deposit_event_am (KeysRemoved n a (keys info))
      (s\<lparr>MappingWithDeposit := (MappingWithDeposit s)(n := None),
         NimbusLookup := (NimbusLookup s)(a := None),
         am_currency := cur_unreserve ?C a (deposit info) (am_currency s)\<rparr>)"
    by (auto simp: rm_keys_def split: option.splits if_splits)
  have fin: "finite (dom (MappingWithDeposit s))" using assms(2) by (simp add: am_inv_def)
  have "deposits t b \<le> unat (cur_reserved_balance ?C (am_currency t) b)" for b
  proof -
    have "deposits s b = (if a = b then unat (deposit info) else 0) + deposits t b"
      unfolding deposits_def map_total_remove [OF fin info(1)] by (simp add: t deposit_of_def info)
    moreover have "deposits s b \<le> unat (cur_reserved_balance ?C (am_currency s) b)"
      using assms(2) by (simp add: am_inv_def)
    ultimately show ?thesis
      using unreserve_self [OF assms(1)] unreserve_other [OF assms(1)]
      by (cases "a = b") (auto simp: t)
  qed
  moreover have "lookup_consistent mappings t"
    using assms(2) info by (fastforce simp: t am_inv_def lookup_consistent_def account_id_of_def)
  ultimately show ?thesis using fin by (simp add: am_inv_def t)
qed

lemma rotate_keys_OkE:
  assumes "rotate_keys cfg old new a ks s = Ok t"
  obtains info where "MappingWithDeposit s old = Some info" "account info = a"
    "old = new \<or> MappingWithDeposit s new = None"
    "t = deposit_event_am (KeysRotated new a ks)
      (s\<lparr>MappingWithDeposit := ((MappingWithDeposit s)(old := None))(new \<mapsto> info\<lparr>keys := ks\<rparr>),
         NimbusLookup := (NimbusLookup s)(a \<mapsto> new)\<rparr>)"
  using assms by (auto simp: rotate_keys_def split: option.splits if_splits)

lemma rotate_keys_inv [inv_intros]:
  assumes "am_inv cfg mappings s" "rotate_keys cfg old new a ks s = Ok t"
  shows "am_inv cfg mappings t"
proof -
  from rotate_keys_OkE [OF assms(2)] obtain info
    where info: "MappingWithDeposit s old = Some info" "account info = a"
    and new: "old = new \<or> MappingWithDeposit s new = None"
    and t: "t = deposit_event_am (KeysRotated new a ks)
      (s\<lparr>MappingWithDeposit := ((MappingWithDeposit s)(old := None))(new \<mapsto> info\<lparr>keys := ks\<rparr>),
         NimbusLookup := (NimbusLookup s)(a \<mapsto> new)\<rparr>)" .
  have fin: "finite (dom (MappingWithDeposit s))" using assms(1) by (simp add: am_inv_def)
  have "deposits t b = deposits s b" for b
  proof -
    have "map_total (deposit_of b) (MappingWithDeposit t) = deposit_of b (info\<lparr>keys := ks\<rparr>)
        + map_total (deposit_of b) ((MappingWithDeposit s)(old := None))"
      by (simp add: t) (rule map_total_insert, use fin new in auto)
    then show ?thesis
      unfolding deposits_def map_total_remove [OF fin info(1)] by (simp add: deposit_of_def)
  qed
  moreover have "lookup_consistent mappings t"
    using assms(1) info new by (fastforce simp: t am_inv_def lookup_consistent_def account_id_of_def)
  ultimately show ?thesis using assms(1) fin by (simp add: am_inv_def t)
qed

lemma register_keys_inv [inv_intros]:
  assumes "reservable_ok (DepositCurrency cfg)" "am_inv cfg mappings s" "register_keys cfg n a ks s = Ok t"
  shows "am_inv cfg mappings t"
  using assms by (auto simp: register_keys_def intro: enact_registration_inv)

lemma am_dispatch_inv:
  assumes "reservable_ok (DepositCurrency cfg)" "am_inv cfg mappings s" "am_dispatch cfg origin call s = Ok t"
  shows "am_inv cfg mappings t"
  using assms
  by (cases call) (auto simp: add_association_def update_association_def clear_association_def
      remove_keys_def set_keys_def split: option.splits intro: inv_intros)

text \<open>While the genesis is built: every registration and every lookup comes from the associations registered so far.\<close>

lemma genesis_build_am_inv:
  assumes "reservable_ok (DepositCurrency cfg)"
  shows "am_inv cfg mappings s \<Longrightarrow> mappings = before @ todo \<Longrightarrow>
    \<forall>n info. MappingWithDeposit s n = Some info \<longrightarrow> (n, account info) \<in> set before \<Longrightarrow>
    am_inv cfg mappings (genesis_build_am cfg todo s)"
proof (induction todo arbitrary: s before)
  case (Cons m todo)
  obtain n a where m: "m = (n, a)" by (cases m)
  show ?case
  proof (cases "enact_registration cfg n a (keys_from_nimbus cfg n) s")
    case (Ok t)
    have s: "finite (dom (MappingWithDeposit s))" "\<And>a. deposits s a \<le> unat (cur_reserved_balance (DepositCurrency cfg) (am_currency s) a)"
      and cons: "lookup_consistent mappings s" using Cons.prems(1) by (simp_all add: am_inv_def)
    note t = enact_registration_deposits [OF assms s Ok]
    have "genesis_conflict mappings b n" if "NimbusLookup s b = Some n" "b \<noteq> a" for b
    proof (cases "account_id_of s n = Some b")
      case True
      then have "(n, b) \<in> set before" using Cons.prems(3) by (auto simp: account_id_of_def)
      with that(2) show ?thesis using Cons.prems(2) m by (auto simp: genesis_conflict_def)
    qed (use cons that(1) in \<open>auto simp: lookup_consistent_def\<close>)
    then have "lookup_consistent mappings t"
      using cons by (auto simp: t(3,4) lookup_consistent_def account_id_of_def split: if_splits)
    with t(1,2) have "am_inv cfg mappings t" by (simp add: am_inv_def)
    then have "am_inv cfg mappings (genesis_build_am cfg todo t)"
      using Cons.prems(2,3) m by (intro Cons.IH [of t "before @ [m]"]) (auto simp: t(3) split: if_splits)
    with Ok m show ?thesis by simp
  qed (use Cons.prems Cons.IH [of s "before @ [m]"] m in auto)
qed simp

text \<open>The pallet is an invariant system whenever its currency keeps the documented laws.\<close>

interpretation am: invariant_system "am_init cfg mappings" "am_step cfg"
  "\<lambda>s. reservable_ok (DepositCurrency cfg) \<longrightarrow> am_inv cfg mappings s" for cfg mappings
proof (unfold_locales, goal_cases)
  case (1 s)
  then show ?case
    by (auto simp: am_init_def intro!: genesis_build_am_inv [where before = "[]"])
       (simp_all add: am_inv_def lookup_consistent_def deposits_def)
next
  case (2 s t)
  from 2(2) show ?case
  proof cases
    case (am_extrinsic origin call)
    with 2(1) show ?thesis by (blast intro: am_dispatch_inv)
  next
    case (am_environment c)
    then show ?thesis using 2(1)
      by (auto simp: am_inv_def lookup_consistent_def account_id_of_def deposits_def)
  qed
qed

section \<open>Properties\<close>

text \<open>A concrete configuration and start state for the witnesses.\<close>

definition am_demo_cfg :: "(raw_origin, nat, ledger, string, u8, u8) am_config" where
  "am_demo_cfg = \<lparr>am_system = raw_system, DepositCurrency = ledger_currency,
     DepositAmount = 100, keys_from_nimbus = id, NimbusId_codec = byte_codec,
     Keys_codec = byte_codec\<rparr>"

definition am_demo_start :: "(u8, nat, u8, ledger) am_state" where
  "am_demo_start = \<lparr>MappingWithDeposit = Map.empty, NimbusLookup = Map.empty,
     am_currency = (\<lambda>_. (1000, 0)), am_events = []\<rparr>"

lemmas am_ops = add_association_def update_association_def clear_association_def remove_keys_def
  set_keys_def register_keys_def enact_registration_def rm_keys_def rotate_keys_def
  nimbus_id_of_def account_id_of_def deposit_event_am_def Let_def

lemmas am_demo = am_demo_cfg_def am_demo_start_def am_ops concrete_frame checked_sub_def checked_add_def
  saturating_add_def

text \<open>What an operation of one account leaves alone: every registration and lookup of the others.\<close>

definition others_untouched ::
    "'acct \<Rightarrow> ('nid, 'acct, 'keys, 'cur) am_state \<Rightarrow> ('nid, 'acct, 'keys, 'cur) am_state \<Rightarrow> bool" where
  "others_untouched a s t \<longleftrightarrow>
     (\<forall>n b. account_id_of s n = Some b \<longrightarrow> b \<noteq> a \<longrightarrow>
        MappingWithDeposit t n = MappingWithDeposit s n) \<and>
     (\<forall>b. b \<noteq> a \<longrightarrow> NimbusLookup t b = NimbusLookup s b)"

lemma rm_keys_others: "rm_keys cfg n a s = Ok t \<Longrightarrow> others_untouched a s t"
  by (auto simp: rm_keys_def others_untouched_def account_id_of_def split: option.splits if_splits)

lemma register_keys_others: "register_keys cfg n a ks s = Ok t \<Longrightarrow> others_untouched a s t"
  by (auto simp: register_keys_def enact_registration_def others_untouched_def account_id_of_def
      Let_def split: sum.splits)

lemma rotate_keys_others: "rotate_keys cfg old new a ks s = Ok t \<Longrightarrow> others_untouched a s t"
  by (auto simp: rotate_keys_def others_untouched_def account_id_of_def
      split: option.splits if_splits)

lemmas am_others = rm_keys_others register_keys_others rotate_keys_others

lemma am_dispatch_others:
  assumes "am_dispatch cfg origin call s = Ok t" "ensure_signed (am_system cfg) origin = Inr a"
  shows "others_untouched a s t"
  using assms
  by (cases call) (auto simp: add_association_def update_association_def clear_association_def
      remove_keys_def set_keys_def split: option.splits dest: am_others)

text \<open>
  C1: In every state the pallet can reach, from the genesis over any list of associations, the reverse lookup of an account points to a registration
  that belongs to that account, with one exception: a key that the genesis itself gave to this and to another account. And the
  deposits recorded for an account are covered by the balance reserved on it, whatever other pallets reserve and unreserve on the same
  account, as long as they do not take what this pallet has recorded as its deposits.
\<close>

theorem am_reachable_sound:
  assumes "reachable (am_init cfg mappings) (am_step cfg) s" "reservable_ok (DepositCurrency cfg)"
  shows "(\<forall>a n. NimbusLookup s a = Some n \<longrightarrow> account_id_of s n = Some a \<or>
           (n, a) \<in> set mappings \<and> (\<exists>b. b \<noteq> a \<and> (n, b) \<in> set mappings)) \<and>
         (\<forall>a. deposits s a \<le> unat (cur_reserved_balance (DepositCurrency cfg) (am_currency s) a))"
  using am.invar_reachable [OF assms(1)] assms(2) by (simp add: am_inv_def lookup_consistent_def genesis_conflict_def)

theorem am_reachable_sound_witness:
  "NimbusLookup (genesis_build_am am_demo_cfg [(7, 1)] am_demo_start) 1 = Some 7 \<and>
   account_id_of (genesis_build_am am_demo_cfg [(7, 1)] am_demo_start) 7 = Some 1"
proof -
  define s where "s = genesis_build_am am_demo_cfg [(7, 1)] am_demo_start"
  have "am_init am_demo_cfg [(7, 1)] s"
    unfolding am_init_def am_demo_start_def s_def by (rule exI [of _ "\<lambda>_. (1000, 0)"]) simp
  from am_reachable_sound [OF reach_init, OF this] have sound: "NimbusLookup s 1 = Some 7 \<Longrightarrow> account_id_of s 7 = Some 1"
    by (auto simp: am_demo_cfg_def ledger_reservable_ok)
  moreover have "NimbusLookup s 1 = Some 7"
    by (simp add: s_def am_demo)
  ultimately show ?thesis by (simp only: s_def)
qed

text \<open>
  The exception occurs: a genesis with one key for two accounts gives it to the second, while the lookup of the first still points to
  it and its deposit stays reserved; the first account can neither remove nor rotate it.
\<close>

theorem duplicate_genesis_key:
  "NimbusLookup (genesis_build_am am_demo_cfg [(7, 1), (7, 2)] am_demo_start) 1 = Some 7 \<and>
   account_id_of (genesis_build_am am_demo_cfg [(7, 1), (7, 2)] am_demo_start) 7 = Some 2 \<and>
   deposits (genesis_build_am am_demo_cfg [(7, 1), (7, 2)] am_demo_start) 1 = 0 \<and>
   cur_reserved_balance (DepositCurrency am_demo_cfg) (am_currency (genesis_build_am am_demo_cfg [(7, 1), (7, 2)] am_demo_start)) 1 = 100 \<and>
   remove_keys am_demo_cfg (Signed 1) (genesis_build_am am_demo_cfg [(7, 1), (7, 2)] am_demo_start) = Err (ModuleError NotYourAssociation)"
  by (simp add: am_demo deposits_def map_total_def deposit_of_def)

text \<open>
  C2: A call signed by one account never touches the registration or the reverse lookup of
  another account, whatever the call.
\<close>

theorem am_no_theft:
  assumes "am_dispatch cfg origin call s = Ok t"
    and "ensure_signed (am_system cfg) origin = Inr a"
    and "account_id_of s n = Some b" "b \<noteq> a"
  shows "MappingWithDeposit t n = MappingWithDeposit s n \<and> NimbusLookup t b = NimbusLookup s b"
  using am_dispatch_others [OF assms(1,2)] assms(3,4) by (auto simp: others_untouched_def)

theorem am_no_theft_witness:
  "\<exists>s t. am_dispatch am_demo_cfg (Signed 2) (AddAssociation 9) s = Ok t \<and>
     account_id_of s 7 = Some 1 \<and> MappingWithDeposit t 7 = MappingWithDeposit s 7"
proof -
  define s where "s = genesis_build_am am_demo_cfg [(7, 1)] am_demo_start"
  obtain t where t: "am_dispatch am_demo_cfg (Signed 2) (AddAssociation 9) s = Ok t"
    by (simp add: s_def am_demo)
  moreover have a: "account_id_of s 7 = Some 1"
    by (simp add: s_def am_demo)
  moreover have "MappingWithDeposit t 7 = MappingWithDeposit s 7"
    using am_no_theft [OF t _ a, of 2] by (simp add: am_demo_cfg_def raw_system_def)
  ultimately show ?thesis by blast
qed

text \<open>The state after a successful \<^verbatim>\<open>add_association\<close>, as a function of the new balances.\<close>

definition registered ::
    "('origin, 'acct, 'cur, 'd, 'nid, 'keys) am_config \<Rightarrow> 'nid \<Rightarrow> 'acct \<Rightarrow> 'cur
      \<Rightarrow> ('nid, 'acct, 'keys, 'cur) am_state \<Rightarrow> ('nid, 'acct, 'keys, 'cur) am_state" where
  "registered cfg n a c s =
     deposit_event_am (KeysRegistered n a (keys_from_nimbus cfg n))
       (s\<lparr>am_currency := c, MappingWithDeposit := (MappingWithDeposit s)
           (n \<mapsto> \<lparr>account = a, deposit = DepositAmount cfg, keys = keys_from_nimbus cfg n\<rparr>),
          NimbusLookup := (NimbusLookup s)(a \<mapsto> n)\<rparr>)"

lemma add_association_OkE:
  assumes "add_association cfg origin n s = Ok t" "ensure_signed (am_system cfg) origin = Inr a"
  obtains c where "MappingWithDeposit s n = None"
    "cur_reserve (DepositCurrency cfg) a (DepositAmount cfg) (am_currency s) = Inr c"
    "t = registered cfg n a c s"
  using assms
  by (auto simp: add_association_def register_keys_def enact_registration_def Let_def
      registered_def split: sum.splits)

text \<open>
  Registering and then removing one's keys gives back the state before: the map and the free
  and reserved balances of the account are restored, the reverse lookup is cleared.
\<close>

theorem am_register_remove_roundtrip:
  assumes "reservable_ok (DepositCurrency cfg)"
    and "ensure_signed (am_system cfg) origin = Inr a"
    and "unat (cur_free_balance (DepositCurrency cfg) (am_currency s) a)
           + unat (cur_reserved_balance (DepositCurrency cfg) (am_currency s) a) < 2 ^ 128"
    and "add_association cfg origin n s = Ok t"
  shows "\<exists>u. remove_keys cfg origin t = Ok u \<and> MappingWithDeposit u = MappingWithDeposit s \<and>
     NimbusLookup u a = None \<and>
     cur_free_balance (DepositCurrency cfg) (am_currency u) a
       = cur_free_balance (DepositCurrency cfg) (am_currency s) a \<and>
     cur_reserved_balance (DepositCurrency cfg) (am_currency u) a
       = cur_reserved_balance (DepositCurrency cfg) (am_currency s) a"
proof -
  let ?C = "DepositCurrency cfg"
  from add_association_OkE [OF assms(4,2)] obtain c where none: "MappingWithDeposit s n = None"
    and c: "cur_reserve ?C a (DepositAmount cfg) (am_currency s) = Inr c"
    and t: "t = registered cfg n a c s" .
  note res = reserve_self [OF assms(1) c]
  have res': "unat (cur_reserved_balance ?C (cur_unreserve ?C a (DepositAmount cfg) c) a)
      = unat (cur_reserved_balance ?C (am_currency s) a)"
    using res(1) unreserve_self [OF assms(1)] by simp
  have free': "unat (cur_free_balance ?C (cur_unreserve ?C a (DepositAmount cfg) c) a)
      = unat (cur_free_balance ?C (am_currency s) a)"
    using res assms(3) by (subst unreserve_free [OF assms(1)]) linarith+
  have "(MappingWithDeposit s)(n := None) = MappingWithDeposit s"
    using none by auto
  then show ?thesis
    using assms(2) res' free'
    by (simp add: remove_keys_def nimbus_id_of_def rm_keys_def t registered_def word_eqI_unat)
qed

theorem am_register_remove_roundtrip_witness:
  "\<exists>t u. add_association am_demo_cfg (Signed 1) 7 am_demo_start = Ok t \<and>
     remove_keys am_demo_cfg (Signed 1) t = Ok u \<and>
     MappingWithDeposit u = MappingWithDeposit am_demo_start"
proof -
  obtain t where t: "add_association am_demo_cfg (Signed 1) 7 am_demo_start = Ok t"
    by (simp add: am_demo)
  have ok: "reservable_ok (DepositCurrency am_demo_cfg)"
    by (simp add: am_demo_cfg_def ledger_reservable_ok)
  have "\<exists>u. remove_keys am_demo_cfg (Signed 1) t = Ok u \<and>
      MappingWithDeposit u = MappingWithDeposit am_demo_start"
    using am_register_remove_roundtrip [OF ok _ _ t, of 1]
    by (auto simp: am_demo_cfg_def raw_system_def am_demo_start_def ledger_currency_def)
  with t show ?thesis by blast
qed

text \<open>
  \<^verbatim>\<open>set_keys\<close> on the encoding made by \<^verbatim>\<open>keys_wrapper\<close> decodes exactly the key pair that was
  wrapped: it rotates the caller's registration to it, or registers it when there is none.
\<close>

theorem set_keys_decodes_wrapper:
  assumes "codec_ok (NimbusId_codec cfg)" "codec_ok (Keys_codec cfg)"
    and "ensure_signed (am_system cfg) origin = Inr a"
  shows "set_keys cfg origin (keys_wrapper cfg n ks) s =
     (case nimbus_id_of s a of
        Some old \<Rightarrow> rotate_keys cfg old n a ks s
      | None \<Rightarrow> register_keys cfg n a ks s)"
proof -
  have "decode (Keys_codec cfg) (encode (Keys_codec cfg) ks) = Some (ks, [])"
    using assms(2) append_Nil2 unfolding codec_ok_def by metis
  moreover have "decode (NimbusId_codec cfg) (keys_wrapper cfg n ks)
      = Some (n, encode (Keys_codec cfg) ks)"
    using assms(1) by (simp add: codec_ok_def keys_wrapper_def)
  moreover have "length (keys_wrapper cfg n ks) = keys_size cfg"
    using assms(1,2) by (simp add: codec_ok_def keys_wrapper_def keys_size_def)
  ultimately show ?thesis using assms(3) by (simp add: set_keys_def split: option.split)
qed

theorem set_keys_decodes_wrapper_witness:
  "set_keys am_demo_cfg (Signed 1) (keys_wrapper am_demo_cfg 7 9) am_demo_start
     = register_keys am_demo_cfg 7 1 9 am_demo_start"
  using set_keys_decodes_wrapper [of am_demo_cfg "Signed 1" 1 7 9 am_demo_start]
  by (simp add: am_demo_cfg_def raw_system_def byte_codec_ok nimbus_id_of_def am_demo_start_def)

text \<open>
  Rotating keys takes no new deposit: balances are unchanged, the new key carries the
  deposit and the account of the old one, and every other key keeps its registration.
\<close>

theorem rotate_keys_keeps_deposit:
  assumes "update_association cfg origin old new s = Ok t"
  shows "am_currency t = am_currency s \<and>
     (\<exists>info. MappingWithDeposit s old = Some info \<and>
        ensure_signed (am_system cfg) origin = Inr (account info) \<and>
        MappingWithDeposit t new = Some (info\<lparr>keys := keys_from_nimbus cfg new\<rparr>) \<and>
        NimbusLookup t (account info) = Some new) \<and>
     (old \<noteq> new \<longrightarrow> MappingWithDeposit t old = None \<and> MappingWithDeposit s new = None) \<and>
     (\<forall>n. n \<noteq> old \<longrightarrow> n \<noteq> new \<longrightarrow> MappingWithDeposit t n = MappingWithDeposit s n)"
proof -
  from assms obtain a where a: "ensure_signed (am_system cfg) origin = Inr a"
    and rot: "rotate_keys cfg old new a (keys_from_nimbus cfg new) s = Ok t"
    by (auto simp: update_association_def)
  from rotate_keys_OkE [OF rot] a show ?thesis by fastforce
qed

theorem rotate_keys_keeps_deposit_witness:
  "\<exists>s t. update_association am_demo_cfg (Signed 1) 7 8 s = Ok t \<and> am_currency t = am_currency s"
proof -
  define s where "s = genesis_build_am am_demo_cfg [(7, 1)] am_demo_start"
  obtain t where t: "update_association am_demo_cfg (Signed 1) 7 8 s = Ok t"
    by (simp add: s_def am_demo)
  with rotate_keys_keeps_deposit [OF t] show ?thesis by blast
qed

text \<open>
  \<^verbatim>\<open>add_association\<close> does not look at the caller's existing registration: a second call with
  another key overwrites the reverse lookup, and after \<^verbatim>\<open>remove_keys\<close> the first key is still
  registered, with its deposit, while \<^verbatim>\<open>remove_keys\<close> fails as if there were none.
\<close>

theorem add_association_orphans_first_key:
  assumes "ensure_signed (am_system cfg) origin = Inr a"
    and "MappingWithDeposit s n1 = Some info" "account info = a"
    and "add_association cfg origin n2 s = Ok t"
  shows "\<exists>u. remove_keys cfg origin t = Ok u \<and> MappingWithDeposit u n1 = Some info \<and>
     NimbusLookup u a = None \<and>
     remove_keys cfg origin u = Err (ModuleError OldAuthorIdNotFound)"
proof -
  from add_association_OkE [OF assms(4,1)] obtain c where "MappingWithDeposit s n2 = None"
    and t: "t = registered cfg n2 a c s" .
  moreover have "n1 \<noteq> n2" using assms(2) calculation(1) by auto
  ultimately show ?thesis using assms(1,2)
    by (simp add: remove_keys_def nimbus_id_of_def rm_keys_def registered_def)
qed

theorem add_association_orphans_first_key_witness:
  "\<exists>s t u. add_association am_demo_cfg (Signed 1) 8 s = Ok t \<and>
     remove_keys am_demo_cfg (Signed 1) t = Ok u \<and> account_id_of u 7 = Some 1 \<and>
     NimbusLookup u 1 = None"
proof -
  define s where "s = genesis_build_am am_demo_cfg [(7, 1)] am_demo_start"
  obtain t where t: "add_association am_demo_cfg (Signed 1) 8 s = Ok t"
    by (simp add: s_def am_demo)
  have "ensure_signed (am_system am_demo_cfg) (Signed 1) = Inr 1"
    by (simp add: am_demo)
  moreover obtain info where "MappingWithDeposit s 7 = Some info" "account info = 1"
    by (simp add: s_def am_demo)
  ultimately show ?thesis
    using add_association_orphans_first_key [OF _ _ _ t] t by (fastforce simp: account_id_of_def)
qed

end
