(* ===== verification/Nimbus_Primitives.thy ===== *)
theory Nimbus_Primitives
  imports Frame_Interfaces
begin

text \<open>
  The primitive crates \<^verbatim>\<open>primitives/nimbus-primitives\<close> and \<^verbatim>\<open>primitives/session-keys\<close>: the
  digests that carry the author's identity, the seal and the VRF data, the inherent data
  providers, and the traits through which the pallets talk to each other, as locales.
\<close>

section \<open>Digest items\<close>

type_synonym engine_id = string
type_synonym inherent_id = string

definition NIMBUS_ENGINE_ID :: engine_id where
  "NIMBUS_ENGINE_ID = ''nmbs''"

definition VRF_ENGINE_ID :: engine_id where
  "VRF_ENGINE_ID = ''rand''"

text \<open>
  The variants of \<^verbatim>\<open>sp_runtime::generic::DigestItem\<close> that the sources construct or match on;
  \<open>OtherDigest\<close> stands for the ones they do not name.
\<close>

datatype digest_item =
    PreRuntime engine_id "u8 list"
  | Seal engine_id "u8 list"
  | Consensus engine_id "u8 list"
  | OtherDigest "u8 list"

text \<open>
  The accessors of \<^verbatim>\<open>DigestItem\<close> are not part of the repository. They are arguments, with their
  documented behaviour as a predicate: \<^verbatim>\<open>as_pre_runtime\<close> returns the payload of a pre-runtime item,
  and \<^verbatim>\<open>pre_runtime_try_to\<close> and \<^verbatim>\<open>seal_try_to\<close> decode the payload of an item of that kind and engine.
\<close>

record 'a digest_api =
  as_pre_runtime :: "digest_item \<Rightarrow> (engine_id \<times> u8 list) option"
  pre_runtime_try_to :: "digest_item \<Rightarrow> engine_id \<Rightarrow> 'a option"
  seal_try_to :: "digest_item \<Rightarrow> engine_id \<Rightarrow> 'a option"

definition digest_api_ok :: "'a codec \<Rightarrow> 'a digest_api \<Rightarrow> bool" where
  "digest_api_ok c api \<longleftrightarrow>
     (\<forall>d. as_pre_runtime api d = (case d of PreRuntime i b \<Rightarrow> Some (i, b) | _ \<Rightarrow> None)) \<and>
     (\<forall>d i. pre_runtime_try_to api d i =
        (case d of PreRuntime j b \<Rightarrow> if i = j then map_option fst (decode c b) else None
                 | _ \<Rightarrow> None)) \<and>
     (\<forall>d i. seal_try_to api d i =
        (case d of Seal j b \<Rightarrow> if i = j then map_option fst (decode c b) else None
                 | _ \<Rightarrow> None))"

definition nimbus_pre_digest :: "'nid codec \<Rightarrow> 'nid \<Rightarrow> digest_item" where
  "nimbus_pre_digest c author = PreRuntime NIMBUS_ENGINE_ID (encode c author)"

definition as_nimbus_pre_digest :: "'nid digest_api \<Rightarrow> digest_item \<Rightarrow> 'nid option" where
  "as_nimbus_pre_digest api d = pre_runtime_try_to api d NIMBUS_ENGINE_ID"

definition nimbus_seal :: "'sig codec \<Rightarrow> 'sig \<Rightarrow> digest_item" where
  "nimbus_seal c signature = Seal NIMBUS_ENGINE_ID (encode c signature)"

definition as_nimbus_seal :: "'sig digest_api \<Rightarrow> digest_item \<Rightarrow> 'sig option" where
  "as_nimbus_seal api d = seal_try_to api d NIMBUS_ENGINE_ID"

definition nimbus_consensus_digest :: "'nid codec \<Rightarrow> 'nid \<Rightarrow> digest_item" where
  "nimbus_consensus_digest c author = Consensus NIMBUS_ENGINE_ID (encode c author)"

definition as_nimbus_consensus_digest :: "'nid digest_api \<Rightarrow> digest_item \<Rightarrow> 'nid option" where
  "as_nimbus_consensus_digest api d = pre_runtime_try_to api d NIMBUS_ENGINE_ID"

text \<open>The VRF digests of \<^verbatim>\<open>session-keys/src/digest.rs\<close>.\<close>

record ('out, 'proof) PreDigest =
  vrf_output :: 'out
  vrf_proof :: 'proof

definition vrf_pre_digest :: "('out, 'proof) PreDigest codec \<Rightarrow> ('out, 'proof) PreDigest \<Rightarrow> digest_item" where
  "vrf_pre_digest c digest = PreRuntime VRF_ENGINE_ID (encode c digest)"

definition as_vrf_pre_digest ::
    "('out, 'proof) PreDigest digest_api \<Rightarrow> digest_item \<Rightarrow> ('out, 'proof) PreDigest option" where
  "as_vrf_pre_digest api d = pre_runtime_try_to api d VRF_ENGINE_ID"

definition vrf_seal :: "'sig codec \<Rightarrow> 'sig \<Rightarrow> digest_item" where
  "vrf_seal c signature = Seal VRF_ENGINE_ID (encode c signature)"

definition as_vrf_seal :: "'sig digest_api \<Rightarrow> digest_item \<Rightarrow> 'sig option" where
  "as_vrf_seal api d = seal_try_to api d VRF_ENGINE_ID"

section \<open>Inherent data providers\<close>

definition NIMBUS_INHERENT_IDENTIFIER :: inherent_id where
  "NIMBUS_INHERENT_IDENTIFIER = ''author__''"

definition SESSION_INHERENT_IDENTIFIER :: inherent_id where
  "SESSION_INHERENT_IDENTIFIER = ''baberand''"

text \<open>
  The data providers put an empty payload under their identifier (\<open>put_data\<close> is the method of
  \<^verbatim>\<open>InherentData\<close>), and report every error of their own inherent as fatal.
\<close>

definition provide_inherent_data_nimbus ::
    "(inherent_id \<Rightarrow> u8 list \<Rightarrow> 'data \<Rightarrow> 'e + 'data) \<Rightarrow> 'data \<Rightarrow> 'e + 'data" where
  "provide_inherent_data_nimbus put_data inherent_data =
     put_data NIMBUS_INHERENT_IDENTIFIER [] inherent_data"

definition try_handle_error_nimbus :: "inherent_id \<Rightarrow> (string + unit) option" where
  "try_handle_error_nimbus identifier =
     (if identifier \<noteq> NIMBUS_INHERENT_IDENTIFIER then None
      else Some (Inl ''Error processing dummy nimbus inherent''))"

definition provide_inherent_data_session ::
    "(inherent_id \<Rightarrow> u8 list \<Rightarrow> 'data \<Rightarrow> 'e + 'data) \<Rightarrow> 'data \<Rightarrow> 'e + 'data" where
  "provide_inherent_data_session put_data inherent_data =
     put_data SESSION_INHERENT_IDENTIFIER [] inherent_data"

definition try_handle_error_session :: "inherent_id \<Rightarrow> (string + unit) option" where
  "try_handle_error_session identifier =
     (if identifier \<noteq> SESSION_INHERENT_IDENTIFIER then None
      else Some (Inl ''Error processing dummy randomness inherent''))"

text \<open>The error type of the session inherent: every error is fatal, and it is recognised by its identifier.\<close>

datatype inherent_error = OtherError string

definition is_fatal_error :: "inherent_error \<Rightarrow> bool" where
  "is_fatal_error e = (case e of OtherError _ \<Rightarrow> True)"

definition inherent_error_try_from :: "inherent_error codec \<Rightarrow> inherent_id \<Rightarrow> u8 list \<Rightarrow> inherent_error option" where
  "inherent_error_try_from c identifier data =
     (if identifier = SESSION_INHERENT_IDENTIFIER then map_option fst (decode c data) else None)"

lemma inherent_error_roundtrip:
  assumes "codec_ok c"
  shows "inherent_error_try_from c identifier (encode c e) = (if identifier = SESSION_INHERENT_IDENTIFIER then Some e else None)"
  using assms append_Nil2 unfolding codec_ok_def inherent_error_try_from_def by (metis fst_conv option.simps(9))

section \<open>Digest providers, lookups and slots\<close>

text \<open>
  The implementations that the primitives give for \<^verbatim>\<open>()\<close> and for closures. A slot beacon is anything that knows a block
  number; the template uses the number of the relay block.
\<close>

definition provide_digests_unit :: "'id \<Rightarrow> 'hash \<Rightarrow> digest_item list" where
  "provide_digests_unit author parent = []"

definition provide_digests_fn :: "('id \<Rightarrow> 'hash \<Rightarrow> digest_item list) \<Rightarrow> 'id \<Rightarrow> 'hash \<Rightarrow> digest_item list" where
  "provide_digests_fn f author parent = f author parent"

definition note_author_unit :: "'acct \<Rightarrow> 's \<Rightarrow> 's" where
  "note_author_unit author s = s"

definition slot_beacon :: "('s \<Rightarrow> u32) \<Rightarrow> 's \<Rightarrow> u32" where
  "slot_beacon current_block_number s = current_block_number s"

definition lookup_account_unit :: "'nid \<Rightarrow> 'acct option" where
  "lookup_account_unit author = None"

definition lookup_keys_unit :: "'nid \<Rightarrow> 'keys option" where
  "lookup_keys_unit author = None"

text \<open>The VRF key with the bytes of a nimbus key (\<^verbatim>\<open>From<NimbusId> for VrfId\<close>).\<close>

definition vrf_id_from_nimbus :: "('nid \<Rightarrow> u8 list) \<Rightarrow> (u8 list \<Rightarrow> 'vid) \<Rightarrow> 'nid \<Rightarrow> 'vid" where
  "vrf_id_from_nimbus nimbus_bytes vrf_unchecked_from nid = vrf_unchecked_from (nimbus_bytes nid)"

lemma vrf_id_from_nimbus_bytes:
  assumes "\<And>bs. length bs = 32 \<Longrightarrow> vrf_bytes (vrf_unchecked_from bs) = bs" "length (nimbus_bytes nid) = 32"
  shows "vrf_bytes (vrf_id_from_nimbus nimbus_bytes vrf_unchecked_from nid) = nimbus_bytes nid"
  using assms by (simp add: vrf_id_from_nimbus_def)

section \<open>The author filters: \<^verbatim>\<open>CanAuthor\<close>\<close>

text \<open>
  What a filter promises to the pallet that validates authorship, in the states of the filter that
  satisfy its own invariant: it only accepts accounts of its set of potential authors, and unless
  that set is empty it accepts somebody in every slot. \<open>can_author\<close> is the answer of the filter,
  or its panic.
\<close>

locale author_filter =
  fixes can_author :: "'s \<Rightarrow> 'acct \<Rightarrow> u32 \<Rightarrow> (unit, bool) result"
    and potential :: "'s \<Rightarrow> 'acct set"
    and filter_invar :: "'s \<Rightarrow> bool"
  assumes filter_sound: "filter_invar s \<Longrightarrow> can_author s a slot = Ok True \<Longrightarrow> a \<in> potential s"
    and filter_live: "filter_invar s \<Longrightarrow> potential s \<noteq> {} \<Longrightarrow> \<exists>a. can_author s a slot = Ok True"
begin

lemma some_author_eligible:
  "filter_invar s \<Longrightarrow> p \<in> potential s \<Longrightarrow> \<exists>a\<in>potential s. can_author s a slot = Ok True"
  using filter_live filter_sound by blast

end

text \<open>The filter for \<^verbatim>\<open>()\<close>: anyone can author.\<close>

definition can_author_any :: "unit \<Rightarrow> 'acct \<Rightarrow> u32 \<Rightarrow> (unit, bool) result" where
  "can_author_any u a slot = Ok True"

interpretation any_filter: author_filter can_author_any "\<lambda>_. UNIV" "\<lambda>_. True"
  by unfold_locales (simp_all add: can_author_any_def)

section \<open>Properties\<close>

text \<open>
  The digest items written by a block author are read back by the runtime: pre-runtime author
  digest, seal, VRF pre-digest and VRF seal all decode to what was encoded, and no item is taken
  for one of another kind or engine.
\<close>

theorem digest_roundtrip:
  assumes "codec_ok nc" "digest_api_ok nc napi" "codec_ok sc" "digest_api_ok sc sapi"
    and "codec_ok pc" "digest_api_ok pc papi"
  shows "as_nimbus_pre_digest napi (nimbus_pre_digest nc author) = Some author \<and>
     as_nimbus_seal sapi (nimbus_seal sc signature) = Some signature \<and>
     as_vrf_pre_digest papi (vrf_pre_digest pc digest) = Some digest \<and>
     as_vrf_seal sapi (vrf_seal sc signature) = Some signature \<and>
     as_nimbus_pre_digest napi (vrf_pre_digest pc digest) = None \<and>
     as_nimbus_seal sapi (vrf_seal sc signature) = None \<and>
     as_nimbus_pre_digest napi (nimbus_seal sc signature) = None"
proof -
  have "decode nc (encode nc author) = Some (author, [])"
    using assms(1) append_Nil2 unfolding codec_ok_def by metis
  moreover have "decode sc (encode sc signature) = Some (signature, [])"
    using assms(3) append_Nil2 unfolding codec_ok_def by metis
  moreover have "decode pc (encode pc digest) = Some (digest, [])"
    using assms(5) append_Nil2 unfolding codec_ok_def by metis
  ultimately show ?thesis
    using assms(2,4,6)
    by (simp add: digest_api_ok_def as_nimbus_pre_digest_def nimbus_pre_digest_def
        as_nimbus_seal_def nimbus_seal_def as_vrf_pre_digest_def vrf_pre_digest_def
        as_vrf_seal_def vrf_seal_def NIMBUS_ENGINE_ID_def VRF_ENGINE_ID_def)
qed

text \<open>A concrete accessor table for a given codec.\<close>

definition demo_digest_api :: "'a codec \<Rightarrow> 'a digest_api" where
  "demo_digest_api c =
     \<lparr>as_pre_runtime = (\<lambda>d. case d of PreRuntime i b \<Rightarrow> Some (i, b) | _ \<Rightarrow> None),
      pre_runtime_try_to = (\<lambda>d i. case d of
         PreRuntime j b \<Rightarrow> if i = j then map_option fst (decode c b) else None | _ \<Rightarrow> None),
      seal_try_to = (\<lambda>d i. case d of
         Seal j b \<Rightarrow> if i = j then map_option fst (decode c b) else None | _ \<Rightarrow> None)\<rparr>"

definition demo_pre_digest_codec :: "(u8, u8) PreDigest codec" where
  "demo_pre_digest_codec =
     \<lparr>encode = (\<lambda>d. [vrf_output d, vrf_proof d]),
      decode = (\<lambda>xs. case xs of x # y # rest \<Rightarrow> Some (\<lparr>vrf_output = x, vrf_proof = y\<rparr>, rest)
                              | _ \<Rightarrow> None),
      size_of = 2\<rparr>"

lemma demo_digest_api_ok: "digest_api_ok c (demo_digest_api c)"
  by (simp add: digest_api_ok_def demo_digest_api_def)

lemma demo_pre_digest_codec_ok: "codec_ok demo_pre_digest_codec"
  by (simp add: codec_ok_def demo_pre_digest_codec_def)

theorem digest_roundtrip_witness:
  "as_nimbus_pre_digest (demo_digest_api byte_codec) (nimbus_pre_digest byte_codec 7) = Some 7 \<and>
   as_vrf_seal (demo_digest_api byte_codec) (vrf_seal byte_codec 9) = Some 9"
  using digest_roundtrip [OF byte_codec_ok demo_digest_api_ok byte_codec_ok demo_digest_api_ok
      demo_pre_digest_codec_ok demo_digest_api_ok] by blast

text \<open>
  The reader of the deprecated consensus digest looks for a pre-runtime item, so it never
  recognises the item its own constructor makes.
\<close>

theorem consensus_digest_not_recognised:
  assumes "digest_api_ok c api"
  shows "as_nimbus_consensus_digest api (nimbus_consensus_digest c author) = None"
  using assms
  by (simp add: digest_api_ok_def as_nimbus_consensus_digest_def nimbus_consensus_digest_def)

theorem consensus_digest_not_recognised_witness:
  "as_nimbus_consensus_digest (demo_digest_api byte_codec) (nimbus_consensus_digest byte_codec 7)
     = None"
  by (rule consensus_digest_not_recognised) (rule demo_digest_api_ok)

end
