(* ===== verification/Author_Filters.thy ===== *)
theory Author_Filters
  imports Nimbus_Primitives "HOL-Library.Multiset"
begin

text \<open>
  The two author filters: \<^verbatim>\<open>pallets/author-slot-filter\<close> (a pseudo-random subset of the potential
  authors per slot, with its non-zero counter type, its call and its migration) and
  \<^verbatim>\<open>pallets/aura-style-filter\<close> (round robin). Both implement the \<open>author_filter\<close> interface.
\<close>

section \<open>Non-zero counters (\<^verbatim>\<open>num.rs\<close>)\<close>

datatype NonZeroU32 = NonZeroU32 (nz_get: u32)

definition NonZeroU32_new :: "u32 \<Rightarrow> NonZeroU32 option" where
  "NonZeroU32_new n = (if n \<noteq> 0 then Some (NonZeroU32 n) else None)"

definition NonZeroU32_new_unchecked :: "u32 \<Rightarrow> NonZeroU32" where
  "NonZeroU32_new_unchecked n = NonZeroU32 n"

text \<open>The \<^verbatim>\<open>Default\<close> instance that the source derives: the default of the field.\<close>

definition NonZeroU32_derived_default :: NonZeroU32 where
  "NonZeroU32_derived_default = NonZeroU32 0"

definition NonZeroU32_encode :: "u32 codec \<Rightarrow> NonZeroU32 \<Rightarrow> u8 list" where
  "NonZeroU32_encode c n = encode c (nz_get n)"

definition NonZeroU32_decode :: "u32 codec \<Rightarrow> u8 list \<Rightarrow> (string, NonZeroU32 \<times> u8 list) result" where
  "NonZeroU32_decode c input =
     and_then (ok_or ''Not enough data to fill buffer'' (decode c input))
     (\<lambda>(n, rest). and_then (ok_or ''cannot create non-zero number from 0'' (NonZeroU32_new n))
     (\<lambda>nz. Ok (nz, rest)))"

definition NonZeroU32_serialize :: "(u32 \<Rightarrow> 'out) \<Rightarrow> NonZeroU32 \<Rightarrow> 'out" where
  "NonZeroU32_serialize serialize_u32 n = serialize_u32 (nz_get n)"

definition NonZeroU32_deserialize :: "u32 option \<Rightarrow> (string, NonZeroU32) result" where
  "NonZeroU32_deserialize parsed =
     and_then (ok_or ''invalid type'' parsed)
     (\<lambda>n. ok_or ''expected a non-zero value'' (NonZeroU32_new n))"

text \<open>The derived order: the order of the field.\<close>

instantiation NonZeroU32 :: linorder
begin

definition less_eq_NonZeroU32 :: "NonZeroU32 \<Rightarrow> NonZeroU32 \<Rightarrow> bool" where
  "less_eq_NonZeroU32 a b \<longleftrightarrow> nz_get a \<le> nz_get b"

definition less_NonZeroU32 :: "NonZeroU32 \<Rightarrow> NonZeroU32 \<Rightarrow> bool" where
  "less_NonZeroU32 a b \<longleftrightarrow> nz_get a < nz_get b"

instance
  by intro_classes (auto simp: less_eq_NonZeroU32_def less_NonZeroU32_def NonZeroU32.expand)

end

section \<open>The slot filter\<close>

record filter_state =
  EligibleRatio :: nat
  EligibleCount :: NonZeroU32
  IsFakeAuthor :: bool
  filter_events :: "NonZeroU32 list"

definition EligibilityValue_default :: NonZeroU32 where
  "EligibilityValue_default = NonZeroU32_new_unchecked 50"

definition Half :: nat where
  "Half = 50"

definition genesis_build_filter :: "NonZeroU32 \<Rightarrow> filter_state \<Rightarrow> filter_state" where
  "genesis_build_filter eligible_count s = s\<lparr>EligibleCount := eligible_count\<rparr>"

definition on_initialize_filter :: "bool \<Rightarrow> filter_state \<Rightarrow> filter_state" where
  "on_initialize_filter using_fake_author s = (if using_fake_author then s\<lparr>IsFakeAuthor := True\<rparr> else s)"

definition set_eligible ::
    "('origin, 'acct, 'd) frame_system \<Rightarrow> 'origin \<Rightarrow> NonZeroU32 \<Rightarrow> filter_state
      \<Rightarrow> ((unit, 'd) dispatch_error, filter_state) result" where
  "set_eligible sys origin new s =
     and_then (from_frame (ensure_root sys origin))
     (\<lambda>_. Ok (s\<lparr>EligibleCount := new, filter_events := filter_events s @ [new]\<rparr>))"

text \<open>Little- and big-endian bytes, and the twelve bytes that ask for the randomness of one draw.\<close>

definition le_bytes2 :: "nat \<Rightarrow> u8 list" where
  "le_bytes2 i = [word_of_nat i, word_of_nat (i div 256)]"

definition be_bytes4 :: "u32 \<Rightarrow> u8 list" where
  "be_bytes4 x = [word_of_nat (unat x div 2 ^ 24), word_of_nat (unat x div 2 ^ 16),
                  word_of_nat (unat x div 2 ^ 8), word_of_nat (unat x)]"

fun from_le_bytes :: "u8 list \<Rightarrow> nat" where
  "from_le_bytes [] = 0"
| "from_le_bytes (b # bs) = unat b + 256 * from_le_bytes bs"

definition filter_subject :: "nat \<Rightarrow> u32 \<Rightarrow> u8 list" where
  "filter_subject i seed = [102, 105, 108, 116, 101, 114] @ le_bytes2 i @ be_bytes4 seed"

text \<open>
  The draws: \<open>rnd\<close> is the randomness source, from a subject to the bytes of a hash; \<open>active\<close>
  shrinks by the author drawn. A remainder by zero would panic.
\<close>

fun draw_authors ::
    "(u8 list \<Rightarrow> u8 list) \<Rightarrow> u32 \<Rightarrow> nat list \<Rightarrow> 'acct list \<Rightarrow> 'acct list
      \<Rightarrow> (unit, 'acct list \<times> 'acct list) result" where
  "draw_authors rnd seed [] eligible active = Ok (eligible, active)"
| "draw_authors rnd seed (i # rest) eligible active =
     (if active = [] then Panic ''attempt to calculate the remainder with a divisor of zero''
      else let k = from_le_bytes (take 4 (rnd (filter_subject i seed))) mod length active
           in draw_authors rnd seed rest (eligible @ [active ! k]) (take k active @ drop (Suc k) active))"

definition compute_pseudo_random_subset ::
    "(u8 list \<Rightarrow> u8 list) \<Rightarrow> filter_state \<Rightarrow> 'acct list \<Rightarrow> u32
      \<Rightarrow> (unit, 'acct list \<times> 'acct list) result" where
  "compute_pseudo_random_subset rnd s active seed =
     (let num_eligible = min (unat (nz_get (EligibleCount s))) (length active)
      in draw_authors rnd seed [0..<num_eligible] [] active)"

definition can_author_filter ::
    "(u8 list \<Rightarrow> u8 list) \<Rightarrow> filter_state \<Rightarrow> 'acct list \<Rightarrow> 'acct \<Rightarrow> u32 \<Rightarrow> (unit, bool) result" where
  "can_author_filter rnd s potential_authors author slot =
     (if IsFakeAuthor s then Ok True
      else and_then (compute_pseudo_random_subset rnd s potential_authors slot)
           (\<lambda>(eligible, ineligible). Ok (author \<in> set eligible)))"

definition get_authors_filter ::
    "(u8 list \<Rightarrow> u8 list) \<Rightarrow> filter_state \<Rightarrow> 'acct list \<Rightarrow> u32 \<Rightarrow> (unit, 'acct list) result" where
  "get_authors_filter rnd s potential_authors slot =
     and_then (compute_pseudo_random_subset rnd s potential_authors slot) (\<lambda>(eligible, _). Ok eligible)"

text \<open>The migration from a ratio to a count; \<open>mul_ceil\<close> is \<^verbatim>\<open>Percent::mul_ceil\<close>.\<close>

definition percent_of_num :: "(nat \<Rightarrow> u32 \<Rightarrow> u32) \<Rightarrow> nat \<Rightarrow> u32 \<Rightarrow> u32" where
  "percent_of_num mul_ceil percent num = mul_ceil percent num"

definition EligibleRatioToEligibilityCount ::
    "(nat \<Rightarrow> u32 \<Rightarrow> u32) \<Rightarrow> 'acct list \<Rightarrow> filter_state \<Rightarrow> filter_state" where
  "EligibleRatioToEligibilityCount mul_ceil potential_authors s =
     (let total_authors = length potential_authors;
          new_value = percent_of_num mul_ceil (EligibleRatio s) (word_of_nat total_authors)
      in s\<lparr>EligibleCount := (case NonZeroU32_new new_value of
                               Some n \<Rightarrow> n
                             | None \<Rightarrow> EligibilityValue_default)\<rparr>)"

text \<open>The checks of the migration under \<^verbatim>\<open>try-runtime\<close>: the expected count, encoded before and compared after it.\<close>

definition eligible_pre_upgrade :: "u32 codec \<Rightarrow> (nat \<Rightarrow> u32 \<Rightarrow> u32) \<Rightarrow> 'acct list \<Rightarrow> filter_state \<Rightarrow> (string, u8 list) result" where
  "eligible_pre_upgrade c mul_ceil potential_authors s =
     (let new_value = percent_of_num mul_ceil (EligibleRatio s) (word_of_nat (length potential_authors));
          expected_value = (case NonZeroU32_new new_value of Some n \<Rightarrow> n | None \<Rightarrow> EligibilityValue_default)
      in Ok (NonZeroU32_encode c expected_value))"

definition eligible_post_upgrade :: "u32 codec \<Rightarrow> u8 list \<Rightarrow> filter_state \<Rightarrow> (string, unit) result" where
  "eligible_post_upgrade c state s =
     (case NonZeroU32_decode c state of
        Ok (expected, _) \<Rightarrow> assert_that (expected = EligibleCount s) ''assertion `left == right` failed''
      | _ \<Rightarrow> Panic ''pre_upgrade provides a valid state; qed'')"

section \<open>The round-robin filter\<close>

definition can_author_aura :: "'acct list \<Rightarrow> 'acct \<Rightarrow> u32 \<Rightarrow> (unit, bool) result" where
  "can_author_aura active account slot =
     (if active = [] then Panic ''attempt to calculate the remainder with a divisor of zero''
      else Ok (account = active ! (unat slot mod length active)))"

section \<open>Draws partition the authors\<close>

lemma remove_nth_mset:
  "k < length xs \<Longrightarrow> mset (take k xs @ drop (Suc k) xs) + {#xs ! k#} = mset xs"
  by (metis add_mset_add_single id_take_nth_drop mset.simps(2) mset_append union_mset_add_mset_right)

lemma draw_authors_ok:
  assumes "length is \<le> length active"
  shows "\<exists>el inel. draw_authors rnd seed is eligible active = Ok (eligible @ el, inel) \<and>
     length el = length is \<and> mset el + mset inel = mset active"
  using assms
proof (induction "is" arbitrary: eligible active)
  case (Cons i rest)
  let ?k = "from_le_bytes (take 4 (rnd (filter_subject i seed))) mod length active"
  let ?active = "take ?k active @ drop (Suc ?k) active"
  have ne: "active \<noteq> []" using Cons.prems by auto
  then have k: "?k < length active" by simp
  then have "length rest \<le> length ?active" using Cons.prems by simp
  from Cons.IH [OF this, of "eligible @ [active ! ?k]"] obtain el inel where
    "draw_authors rnd seed rest (eligible @ [active ! ?k]) ?active
       = Ok ((eligible @ [active ! ?k]) @ el, inel)"
    "length el = length rest" "mset el + mset inel = mset ?active"
    by blast
  then show ?case
    using ne remove_nth_mset [OF k]
    by (intro exI [of _ "(active ! ?k) # el"] exI [of _ inel]) (simp add: Let_def)
qed simp

lemma compute_subset_ok:
  "\<exists>eligible ineligible. compute_pseudo_random_subset rnd s active seed = Ok (eligible, ineligible) \<and>
     length eligible = min (unat (nz_get (EligibleCount s))) (length active) \<and>
     mset eligible + mset ineligible = mset active"
  using draw_authors_ok [of "[0..<min (unat (nz_get (EligibleCount s))) (length active)]" active rnd seed "[]"]
  by (auto simp: compute_pseudo_random_subset_def Let_def)

lemma can_author_filter_sound:
  assumes "\<not> IsFakeAuthor s" "can_author_filter rnd s active a slot = Ok True"
  shows "a \<in> set active"
proof -
  from assms obtain el inel where "compute_pseudo_random_subset rnd s active slot = Ok (el, inel)"
    "a \<in> set el"
    by (auto simp: can_author_filter_def)
  moreover have "mset el + mset inel = mset active"
    using compute_subset_ok [of rnd s active slot] calculation(1) by auto
  ultimately show ?thesis by (metis set_mset_mset union_iff)
qed

lemma can_author_filter_live:
  assumes "nz_get (EligibleCount s) \<noteq> 0" "active \<noteq> []"
  shows "\<exists>a. can_author_filter rnd s active a slot = Ok True"
proof -
  obtain el inel where el: "compute_pseudo_random_subset rnd s active slot = Ok (el, inel)"
    "length el = min (unat (nz_get (EligibleCount s))) (length active)"
    using compute_subset_ok by blast
  have "0 < length el" using assms by (simp add: el(2) unat_gt_0)
  then have "hd el \<in> set el" by (intro hd_in_set) simp
  with el show ?thesis by (auto simp: can_author_filter_def)
qed

text \<open>
  Both filters provide the interface. The slot filter does so with a non-zero count and outside
  the test mode that lets everyone author.
\<close>

definition slot_filter_invar :: "filter_state \<Rightarrow> bool" where
  "slot_filter_invar s \<longleftrightarrow> \<not> IsFakeAuthor s \<and> nz_get (EligibleCount s) \<noteq> 0"

interpretation slot_filter: author_filter
  "\<lambda>(s, active). can_author_filter rnd s active" "\<lambda>(s, active). set active"
  "\<lambda>(s, active). slot_filter_invar s" for rnd
proof (unfold_locales, goal_cases)
  case (1 s a slot)
  then show ?case using can_author_filter_sound by (cases s) (auto simp: slot_filter_invar_def)
next
  case (2 s slot)
  then show ?case using can_author_filter_live by (cases s) (auto simp: slot_filter_invar_def)
qed

interpretation aura_filter: author_filter can_author_aura set "\<lambda>_. True"
  by unfold_locales (auto simp: can_author_aura_def split: if_splits)

section \<open>Properties\<close>

text \<open>
  The slot filter never panics and splits the potential authors: the eligible ones are as many
  as the configured count, or all of them when there are fewer, and every author is in exactly
  one of the two parts, as often as in the input.
\<close>

theorem pseudo_random_subset_partition:
  "\<exists>eligible ineligible. compute_pseudo_random_subset rnd s active seed = Ok (eligible, ineligible) \<and>
     length eligible = min (unat (nz_get (EligibleCount s))) (length active) \<and>
     mset eligible + mset ineligible = mset active"
  by (rule compute_subset_ok)

lemma draw_authors_append:
  "draw_authors rnd seed (is @ js) eligible active =
     and_then (draw_authors rnd seed is eligible active) (\<lambda>(el, act). draw_authors rnd seed js el act)"
  by (induction rnd seed "is" eligible active rule: draw_authors.induct) (simp_all add: Let_def)

lemma draw_authors_prefix:
  "draw_authors rnd seed is eligible active = Ok (el, act) \<Longrightarrow> \<exists>ys. el = eligible @ ys"
  by (induction rnd seed "is" eligible active rule: draw_authors.induct)
     (auto simp: Let_def split: if_splits)

text \<open>
  Raising the count only adds eligible authors: for the same slot the authors drawn for a
  smaller count are the first ones drawn for a larger count.
\<close>

theorem eligible_monotone:
  assumes "EligibleCount s \<le> EligibleCount s'"
    and "compute_pseudo_random_subset rnd s active seed = Ok (el, inel)"
    and "compute_pseudo_random_subset rnd s' active seed = Ok (el', inel')"
  shows "\<exists>more. el' = el @ more"
proof -
  let ?n = "min (unat (nz_get (EligibleCount s))) (length active)"
  let ?n' = "min (unat (nz_get (EligibleCount s'))) (length active)"
  have "unat (nz_get (EligibleCount s)) \<le> unat (nz_get (EligibleCount s'))"
    using assms(1) by (simp add: less_eq_NonZeroU32_def word_le_nat_alt)
  then have "?n \<le> ?n'" by linarith
  then have "[0..<?n'] = [0..<?n] @ [?n..<?n']"
    using upt_add_eq_append [of 0 ?n "?n' - ?n"] by simp
  then have "compute_pseudo_random_subset rnd s' active seed =
      and_then (compute_pseudo_random_subset rnd s active seed)
        (\<lambda>(e, act). draw_authors rnd seed [?n..<?n'] e act)"
    by (simp add: compute_pseudo_random_subset_def Let_def draw_authors_append)
  with assms(2,3) show ?thesis by (auto dest: draw_authors_prefix)
qed

definition filter_demo :: "u32 \<Rightarrow> filter_state" where
  "filter_demo n = \<lparr>EligibleRatio = Half, EligibleCount = NonZeroU32 n, IsFakeAuthor = False,
     filter_events = []\<rparr>"

theorem eligible_monotone_witness:
  "\<exists>el inel el' inel' more.
     compute_pseudo_random_subset (\<lambda>_. [5, 0, 0, 0]) (filter_demo 1) [10, 20, 30 :: nat] 7 = Ok (el, inel) \<and>
     compute_pseudo_random_subset (\<lambda>_. [5, 0, 0, 0]) (filter_demo 2) [10, 20, 30 :: nat] 7 = Ok (el', inel') \<and>
     el' = el @ more"
proof -
  obtain el inel where a:
    "compute_pseudo_random_subset (\<lambda>_. [5, 0, 0, 0]) (filter_demo 1) [10, 20, 30 :: nat] 7 = Ok (el, inel)"
    using compute_subset_ok by blast
  obtain el' inel' where b:
    "compute_pseudo_random_subset (\<lambda>_. [5, 0, 0, 0]) (filter_demo 2) [10, 20, 30 :: nat] 7 = Ok (el', inel')"
    using compute_subset_ok by blast
  have "EligibleCount (filter_demo 1) \<le> EligibleCount (filter_demo 2)"
    by (simp add: filter_demo_def less_eq_NonZeroU32_def)
  from eligible_monotone [OF this a b] a b show ?thesis by blast
qed

text \<open>
  The eligible count is never zero once it comes from outside: a decoded value is non-zero and
  is the one that was encoded, a call with a decoded value stores a non-zero count, and so does
  the migration from the old ratio, whatever the ratio and the number of authors.
\<close>

theorem eligible_count_nonzero:
  assumes "NonZeroU32_decode c input = Ok (new, rest)" "set_eligible sys origin new s = Ok t"
  shows "nz_get (EligibleCount t) \<noteq> 0 \<and>
     nz_get (EligibleCount (EligibleRatioToEligibilityCount mul_ceil authors s)) \<noteq> 0 \<and>
     (codec_ok c \<longrightarrow> NonZeroU32_decode c (NonZeroU32_encode c new @ remaining) = Ok (new, remaining))"
  using assms
  by (auto simp: NonZeroU32_decode_def NonZeroU32_new_def NonZeroU32_encode_def set_eligible_def
      EligibleRatioToEligibilityCount_def percent_of_num_def EligibilityValue_default_def
      NonZeroU32_new_unchecked_def codec_ok_def Let_def split: if_splits option.splits)

definition u32_demo_codec :: "u32 codec" where
  "u32_demo_codec = \<lparr>encode = (\<lambda>x. [ucast x]),
     decode = (\<lambda>xs. case xs of [] \<Rightarrow> None | x # rest \<Rightarrow> Some (ucast x, rest)), size_of = 1\<rparr>"

theorem eligible_count_nonzero_witness:
  "\<exists>t. set_eligible raw_system Root (NonZeroU32 3) (filter_demo 1) = Ok t \<and> nz_get (EligibleCount t) \<noteq> 0"
proof -
  have d: "NonZeroU32_decode u32_demo_codec [3] = Ok (NonZeroU32 3, [])"
    by (simp add: NonZeroU32_decode_def NonZeroU32_new_def u32_demo_codec_def)
  obtain t where t: "set_eligible raw_system Root (NonZeroU32 3) (filter_demo 1) = Ok t"
    by (simp add: set_eligible_def raw_system_def)
  with eligible_count_nonzero [OF d t] show ?thesis by blast
qed

lemma mod_window_inj:
  assumes "(m + k) mod n = (m + k') mod n" "k < (n :: nat)" "k' < n" "k \<le> k'"
  shows "k = k'"
proof -
  have "n dvd (m + k') - (m + k)"
    using assms(1,4) by (intro mod_eq_dvd_iff_nat [THEN iffD1]) simp_all
  then have "n dvd k' - k" by simp
  then show ?thesis using assms(2-4) dvd_imp_le [of n "k' - k"] by fastforce
qed

lemma mod_window:
  assumes "i < (n :: nat)"
  shows "\<exists>!k. k < n \<and> (m + k) mod n = i"
proof (rule ex_ex1I)
  have "0 < n" using assms by simp
  have "(m + (n - m mod n + i) mod n) mod n = (m mod n + (n - m mod n + i)) mod n"
    by (simp add: mod_simps)
  also have "m mod n + (n - m mod n + i) = n + i" using mod_less_divisor [OF \<open>0 < n\<close>, of m] by linarith
  also have "(n + i) mod n = i" using assms by simp
  finally show "\<exists>k. k < n \<and> (m + k) mod n = i"
    using \<open>0 < n\<close> by (intro exI [of _ "(n - m mod n + i) mod n"]) simp
next
  fix k k' assume "k < n \<and> (m + k) mod n = i" "k' < n \<and> (m + k') mod n = i"
  then show "k = k'" using mod_window_inj by (metis nle_le)
qed

lemma unat_slot_add:
  "unat slot + n \<le> 2 ^ 32 \<Longrightarrow> k < n \<Longrightarrow> unat (slot + word_of_nat k :: u32) = unat slot + k"
  by (simp add: unat_word_ariths unat_of_nat)

text \<open>
  Round robin is fair: over as many consecutive slots as there are authors, each author is
  accepted in exactly one slot, and in every slot exactly one author is.
\<close>

theorem aura_round_robin:
  assumes "distinct active" "a \<in> set active" "unat slot + length active \<le> 2 ^ 32"
  shows "(\<exists>!k. k < length active \<and> can_author_aura active a (slot + word_of_nat k) = Ok True) \<and>
     (\<exists>!b. can_author_aura active b slot = Ok True)"
proof -
  from assms(2) obtain i where i: "i < length active" "active ! i = a" by (auto simp: in_set_conv_nth)
  have ne: "active \<noteq> []" using i by auto
  have "can_author_aura active a (slot + word_of_nat k) = Ok True \<longleftrightarrow>
      (unat slot + k) mod length active = i" if "k < length active" for k
    using that assms i ne
    by (auto simp: can_author_aura_def unat_slot_add nth_eq_iff_index_eq)
  with mod_window [OF i(1), of "unat slot"]
  have "\<exists>!k. k < length active \<and> can_author_aura active a (slot + word_of_nat k) = Ok True"
    by (metis (no_types, lifting))
  moreover have "\<exists>!b. can_author_aura active b slot = Ok True"
    using ne by (simp add: can_author_aura_def)
  ultimately show ?thesis ..
qed

theorem aura_round_robin_witness:
  "\<exists>!k. k < length [10, 20, 30 :: nat] \<and> can_author_aura [10, 20, 30 :: nat] 20 (5 + word_of_nat k) = Ok True"
  using aura_round_robin [of "[10, 20, 30 :: nat]" 20 5] by simp

text \<open>
  The \<^verbatim>\<open>Default\<close> instance derived for the non-zero type is zero, unlike the default of the
  eligibility value: a filter state built from it accepts nobody.
\<close>

theorem derived_default_is_zero:
  assumes "\<not> IsFakeAuthor s" "EligibleCount s = NonZeroU32_derived_default"
  shows "can_author_filter rnd s active a slot = Ok False \<and> nz_get EligibilityValue_default \<noteq> 0"
  using assms
  by (simp add: can_author_filter_def compute_pseudo_random_subset_def NonZeroU32_derived_default_def
      EligibilityValue_default_def NonZeroU32_new_unchecked_def)

theorem derived_default_is_zero_witness:
  "can_author_filter (\<lambda>_. []) (filter_demo 0) [10 :: nat] 10 7 = Ok False"
  using derived_default_is_zero [of "filter_demo 0" "\<lambda>_. []" "[10 :: nat]" 10 7]
  by (simp add: filter_demo_def NonZeroU32_derived_default_def)

lemma NonZeroU32_roundtrip:
  assumes "codec_ok c" "nz_get n \<noteq> 0"
  shows "NonZeroU32_decode c (NonZeroU32_encode c n) = Ok (n, [])"
proof -
  have "decode c (encode c (nz_get n) @ []) = Some (nz_get n, [])" using assms(1) unfolding codec_ok_def by blast
  then show ?thesis using assms(2) by (simp add: NonZeroU32_decode_def NonZeroU32_encode_def NonZeroU32_new_def)
qed

text \<open>The checks around the migration always pass: what was expected before it is what is stored after it.\<close>

theorem eligible_migration_checks:
  assumes "codec_ok c"
  shows "\<exists>state. eligible_pre_upgrade c mul_ceil authors s = Ok state \<and>
     eligible_post_upgrade c state (EligibleRatioToEligibilityCount mul_ceil authors s) = Ok ()"
proof -
  let ?n = "case NonZeroU32_new (percent_of_num mul_ceil (EligibleRatio s) (word_of_nat (length authors))) of
      Some n \<Rightarrow> n | None \<Rightarrow> EligibilityValue_default"
  have "nz_get ?n \<noteq> 0"
    by (auto simp: NonZeroU32_new_def EligibilityValue_default_def NonZeroU32_new_unchecked_def)
  from NonZeroU32_roundtrip [OF assms this] show ?thesis
    by (auto simp: eligible_pre_upgrade_def eligible_post_upgrade_def EligibleRatioToEligibilityCount_def Let_def)
qed

end
