(* ===== verification/Author_Inherent.thy ===== *)
theory Author_Inherent
  imports Author_Filters
begin

text \<open>
  \<^verbatim>\<open>pallets/author-inherent\<close>: the author named in the digest, the inherent that checks its
  eligibility, the hook that makes the inherent mandatory (\<^verbatim>\<open>lib.rs\<close>), and the block executor
  that checks and strips the seal (\<^verbatim>\<open>exec.rs\<close>).
\<close>

section \<open>The pallet\<close>

record 'acct ai_state =
  Author :: "'acct option"
  InherentIncluded :: bool

text \<open>
  \<open>find_author\<close> runs over the pre-runtime digests; \<open>decode_id\<close> decodes a \<^verbatim>\<open>NimbusId\<close> and
  \<open>lookup_account\<close> is the \<^verbatim>\<open>AccountLookup\<close> of the configuration.
\<close>

fun find_author ::
    "(u8 list \<Rightarrow> 'nid option) \<Rightarrow> ('nid \<Rightarrow> 'acct option) \<Rightarrow> (engine_id \<times> u8 list) list
      \<Rightarrow> (unit, 'acct option) result" where
  "find_author decode_id lookup_account [] = Ok None"
| "find_author decode_id lookup_account ((engine, data) # digests) =
     (if engine = NIMBUS_ENGINE_ID
      then and_then (expect ''NimbusId encoded in preruntime digest must be valid'' (decode_id data))
           (\<lambda>author_id. and_then (expect ''No Account Mapped to this NimbusId'' (lookup_account author_id))
           (\<lambda>author_account. Ok (Some author_account)))
      else find_author decode_id lookup_account digests)"

definition on_initialize_ai ::
    "(digest_item \<Rightarrow> (engine_id \<times> u8 list) option) \<Rightarrow> (u8 list \<Rightarrow> 'nid option) \<Rightarrow> ('nid \<Rightarrow> 'acct option)
      \<Rightarrow> digest_item list \<Rightarrow> 'acct ai_state \<Rightarrow> (unit, 'acct ai_state) result" where
  "on_initialize_ai pre_runtime_of decode_id lookup_account logs s =
     (let pre_runtime_digests = List.map_filter pre_runtime_of logs
      in and_then (find_author decode_id lookup_account pre_runtime_digests)
         (\<lambda>found. case found of
            Some author \<Rightarrow> Ok (s\<lparr>Author := Some author\<rparr>)
          | None \<Rightarrow> Ok s))"

definition get_ai :: "'acct ai_state \<Rightarrow> ('e, 'acct) result" where
  "get_ai s = expect ''Block author not inserted into Author Inherent Pallet'' (Author s)"

definition kick_off_authorship_validation ::
    "('origin, 'acct, 'd) frame_system \<Rightarrow> ('acct \<Rightarrow> u32 \<Rightarrow> (unit, bool) result) \<Rightarrow> u32 \<Rightarrow> 'origin
      \<Rightarrow> 'acct ai_state \<Rightarrow> ((unit, 'd) dispatch_error, 'acct ai_state) result" where
  "kick_off_authorship_validation sys can_author new_slot origin s =
     and_then (from_frame (ensure_none sys origin))
     (\<lambda>_. and_then (get_ai s)
     (\<lambda>author. and_then (map_err ModuleError (can_author author new_slot))
     (\<lambda>eligible. and_then (assert_that eligible ''Block invalid, supplied author is not eligible.'')
     (\<lambda>_. Ok (s\<lparr>InherentIncluded := True\<rparr>)))))"

definition on_finalize_ai :: "'acct ai_state \<Rightarrow> (unit, 'acct ai_state) result" where
  "on_finalize_ai s =
     and_then (assert_that (InherentIncluded s)
       ''Block invalid, missing inherent `kick_off_authorship_validation`'')
     (\<lambda>_. Ok (s\<lparr>InherentIncluded := False\<rparr>))"

text \<open>Eligibility of a consensus key: that of its account, and none without an account.\<close>

definition can_author_nimbus ::
    "('nid \<Rightarrow> 'acct option) \<Rightarrow> ('acct \<Rightarrow> u32 \<Rightarrow> (unit, bool) result) \<Rightarrow> 'nid \<Rightarrow> u32 \<Rightarrow> (unit, bool) result" where
  "can_author_nimbus lookup_account can_author author slot =
     (case lookup_account author of
        Some account \<Rightarrow> can_author account slot
      | None \<Rightarrow> Ok False)"

text \<open>The inherent is required in every block and its error is fatal.\<close>

datatype ai_call = KickOffAuthorshipValidation

definition is_inherent_required_ai :: "'data \<Rightarrow> (string, string option) result" where
  "is_inherent_required_ai data = Ok (Some ''Inherent required to manually initiate author validation'')"

definition create_inherent_ai :: "'data \<Rightarrow> ai_call option" where
  "create_inherent_ai data = Some KickOffAuthorshipValidation"

definition is_inherent_ai :: "ai_call \<Rightarrow> bool" where
  "is_inherent_ai call = (case call of KickOffAuthorshipValidation \<Rightarrow> True)"

text \<open>The error of the inherent, which a node recognises by the identifier of the author inherent.\<close>

datatype ai_inherent_error = OtherAuthorError string

definition is_fatal_error_ai :: "ai_inherent_error \<Rightarrow> bool" where
  "is_fatal_error_ai e = (case e of OtherAuthorError _ \<Rightarrow> True)"

definition inherent_error_try_from_ai :: "ai_inherent_error codec \<Rightarrow> inherent_id \<Rightarrow> u8 list \<Rightarrow> ai_inherent_error option" where
  "inherent_error_try_from_ai c identifier data =
     (if identifier = NIMBUS_INHERENT_IDENTIFIER then map_option fst (decode c data) else None)"

text \<open>
  The order in which the runtime runs these over a block: initialisation with the digest,
  the inherent extrinsics of the block, finalisation.
\<close>

fun run_inherents ::
    "('origin, 'acct, 'd) frame_system \<Rightarrow> ('acct \<Rightarrow> u32 \<Rightarrow> (unit, bool) result) \<Rightarrow> u32 \<Rightarrow> 'origin list
      \<Rightarrow> 'acct ai_state \<Rightarrow> ((unit, 'd) dispatch_error, 'acct ai_state) result" where
  "run_inherents sys can_author slot [] s = Ok s"
| "run_inherents sys can_author slot (origin # origins) s =
     and_then (kick_off_authorship_validation sys can_author slot origin s)
              (run_inherents sys can_author slot origins)"

definition run_block_ai ::
    "(digest_item \<Rightarrow> (engine_id \<times> u8 list) option) \<Rightarrow> (u8 list \<Rightarrow> 'nid option) \<Rightarrow> ('nid \<Rightarrow> 'acct option)
      \<Rightarrow> ('origin, 'acct, 'd) frame_system \<Rightarrow> ('acct \<Rightarrow> u32 \<Rightarrow> (unit, bool) result) \<Rightarrow> u32
      \<Rightarrow> digest_item list \<Rightarrow> 'origin list \<Rightarrow> 'acct ai_state
      \<Rightarrow> ((unit, 'd) dispatch_error, 'acct ai_state) result" where
  "run_block_ai pre_runtime_of decode_id lookup_account sys can_author slot logs origins s =
     and_then (map_err ModuleError (on_initialize_ai pre_runtime_of decode_id lookup_account logs s))
     (\<lambda>s1. and_then (run_inherents sys can_author slot origins s1)
     (\<lambda>s2. map_err ModuleError (on_finalize_ai s2)))"

section \<open>The block executor (\<^verbatim>\<open>exec.rs\<close>)\<close>

record 'body header =
  digest_logs :: "digest_item list"
  header_rest :: 'body

text \<open>\<open>find_map\<close> of the source: the payload of the first pre-runtime item of the engine.\<close>

fun claimed_author :: "digest_item list \<Rightarrow> u8 list option" where
  "claimed_author [] = None"
| "claimed_author (PreRuntime engine author_id # logs) =
     (if engine = NIMBUS_ENGINE_ID then Some author_id else claimed_author logs)"
| "claimed_author (_ # logs) = claimed_author logs"

record ('nid, 'sig, 'hash, 'body) seal_crypto =
  nimbus_from_slice :: "u8 list \<Rightarrow> 'nid option"
  sig_verify :: "'nid \<Rightarrow> 'hash \<Rightarrow> 'sig \<Rightarrow> bool"
  header_hash :: "'body header \<Rightarrow> 'hash"
  sig_api :: "'sig digest_api"

definition verify_and_remove_seal ::
    "('nid, 'sig, 'hash, 'body) seal_crypto \<Rightarrow> 'body header \<Rightarrow> (unit, 'body header) result" where
  "verify_and_remove_seal cr hdr =
     (if digest_logs hdr = [] then Panic ''Seal digest is present and is last item''
      else
        let seal = last (digest_logs hdr);
            stripped = hdr\<lparr>digest_logs := butlast (digest_logs hdr)\<rparr>
        in and_then (expect ''HeaderUnsealed'' (as_nimbus_seal (sig_api cr) seal))
           (\<lambda>signature. and_then (expect ''Expected pre-runtime digest that contains author id bytes''
                          (claimed_author (digest_logs stripped)))
           (\<lambda>bytes. and_then (expect ''Expected claimed author to be a valid NimbusId.''
                      (nimbus_from_slice cr bytes))
           (\<lambda>author. and_then (assert_that (sig_verify cr author (header_hash cr stripped) signature)
                                ''Block signature invalid'')
           (\<lambda>_. Ok stripped)))))"

definition execute_verified_block ::
    "('block \<Rightarrow> 'r) \<Rightarrow> 'block \<Rightarrow> 'r" where
  "execute_verified_block inner block = inner block"

section \<open>What validation gives\<close>

lemma kick_off_OkD:
  assumes "kick_off_authorship_validation sys can_author slot origin s = Ok t"
  obtains author where "Author s = Some author" "can_author author slot = Ok True"
    "t = s\<lparr>InherentIncluded := True\<rparr>"
  using assms by (auto simp: kick_off_authorship_validation_def get_ai_def)

lemma run_inherents_author: "run_inherents sys can_author slot origins s = Ok t \<Longrightarrow> Author t = Author s"
  by (induction origins arbitrary: s) (auto elim!: kick_off_OkD)

lemma run_inherents_eligible:
  assumes "run_inherents sys can_author slot origins s = Ok t" "origins \<noteq> []"
  shows "\<exists>author. Author s = Some author \<and> can_author author slot = Ok True"
  using assms by (cases origins) (auto elim!: kick_off_OkD)

lemma run_inherents_flag:
  "run_inherents sys can_author slot origins s = Ok t \<Longrightarrow>
   InherentIncluded t \<Longrightarrow> \<not> InherentIncluded s \<Longrightarrow> origins \<noteq> []"
  by (cases origins) auto

lemma on_initialize_ai_OkE:
  assumes "on_initialize_ai pre_runtime_of decode_id lookup_account logs s = Ok t"
  obtains found where
    "find_author decode_id lookup_account (List.map_filter pre_runtime_of logs) = Ok found"
    "t = (case found of Some author \<Rightarrow> s\<lparr>Author := Some author\<rparr> | None \<Rightarrow> s)"
  using assms by (auto simp: on_initialize_ai_def Let_def split: option.splits)

text \<open>
  The author of a block: the account mapped to the key in its first author digest, and without such a digest the author that an earlier
  block left behind.
\<close>

definition named_author where
  "named_author pre_runtime_of decode_id lookup_account logs previous author \<longleftrightarrow>
     (case map_of (List.map_filter pre_runtime_of logs) NIMBUS_ENGINE_ID of
        Some data \<Rightarrow> \<exists>nid. decode_id data = Some nid \<and> lookup_account nid = Some author
      | None \<Rightarrow> previous = Some author)"

lemma find_author_first:
  assumes "find_author decode_id lookup_account ds = Ok found"
  shows "case map_of ds NIMBUS_ENGINE_ID of
      Some data \<Rightarrow> \<exists>nid a. decode_id data = Some nid \<and> lookup_account nid = Some a \<and> found = Some a
    | None \<Rightarrow> found = None"
  using assms by (induction decode_id lookup_account ds rule: find_author.induct) (auto split: if_splits)

lemma initialize_names_author:
  assumes "on_initialize_ai pre_runtime_of decode_id lookup_account logs s = Ok t" "Author t = Some author"
  shows "named_author pre_runtime_of decode_id lookup_account logs (Author s) author"
proof -
  from on_initialize_ai_OkE [OF assms(1)] obtain found where
    "find_author decode_id lookup_account (List.map_filter pre_runtime_of logs) = Ok found"
    "t = (case found of Some author \<Rightarrow> s\<lparr>Author := Some author\<rparr> | None \<Rightarrow> s)" .
  with find_author_first [OF this(1)] assms(2) show ?thesis by (auto simp: named_author_def split: option.splits)
qed

text \<open>The author of a block that runs to its end is the named one and was accepted by the filter for its slot.\<close>

lemma run_block_author:
  assumes "run_block_ai pre_runtime_of decode_id lookup_account sys can_author slot logs origins s = Ok t"
    and "\<not> InherentIncluded s"
  obtains author where "Author t = Some author" "named_author pre_runtime_of decode_id lookup_account logs (Author s) author"
    "can_author author slot = Ok True" "\<not> InherentIncluded t" "origins \<noteq> []"
proof -
  from assms(1) obtain s1 s2 where
    s1: "on_initialize_ai pre_runtime_of decode_id lookup_account logs s = Ok s1"
    and s2: "run_inherents sys can_author slot origins s1 = Ok s2"
    and t: "on_finalize_ai s2 = Ok t"
    by (auto simp: run_block_ai_def)
  from on_initialize_ai_OkE [OF s1] obtain found
    where "s1 = (case found of Some author \<Rightarrow> s\<lparr>Author := Some author\<rparr> | None \<Rightarrow> s)" .
  then have "\<not> InherentIncluded s1" using assms(2) by (simp split: option.splits)
  with t run_inherents_flag [OF s2] have ne: "origins \<noteq> []" by (auto simp: on_finalize_ai_def)
  from run_inherents_eligible [OF s2 ne] obtain author
    where "Author s1 = Some author" "can_author author slot = Ok True" by blast
  moreover have "Author t = Author s1" "\<not> InherentIncluded t"
    using t run_inherents_author [OF s2] by (auto simp: on_finalize_ai_def)
  ultimately show thesis using that ne initialize_names_author [OF s1] by simp
qed

context author_filter
begin

lemma validated_author_potential:
  assumes "filter_invar f" "\<not> InherentIncluded s"
    and "run_block_ai pre_runtime_of decode_id lookup_account sys (can_author f) slot logs origins s = Ok t"
  shows "\<exists>author. Author t = Some author \<and> named_author pre_runtime_of decode_id lookup_account logs (Author s) author \<and>
     author \<in> potential f \<and> can_author f author slot = Ok True"
proof -
  from run_block_author [OF assms(3,2)] obtain author
    where "Author t = Some author" "named_author pre_runtime_of decode_id lookup_account logs (Author s) author"
      "can_author f author slot = Ok True" .
  with filter_sound [OF assms(1)] show ?thesis by blast
qed

end

section \<open>Properties\<close>

text \<open>
  C11: A block that runs to its end under the slot filter stores as its author the account mapped to the key in the first
  author digest of this very block, and this account is one of the potential authors and in the eligible subset of the slot. Only a
  block with no author digest at all is validated against another account, namely the author stored by an earlier block. The filter has
  a nonzero eligible count and no faked author, and the inherent flag is clear when the block starts.
\<close>

theorem validated_author_in_slot_filter:
  assumes "slot_filter_invar f" "\<not> InherentIncluded s"
    and "run_block_ai pre_runtime_of decode_id lookup_account sys (can_author_filter rnd f active)
           slot logs origins s = Ok t"
  shows "\<exists>author el inel. Author t = Some author \<and> author \<in> set active \<and>
     compute_pseudo_random_subset rnd f active slot = Ok (el, inel) \<and> author \<in> set el \<and>
     (case map_of (List.map_filter pre_runtime_of logs) NIMBUS_ENGINE_ID of
        Some data \<Rightarrow> \<exists>nid. decode_id data = Some nid \<and> lookup_account nid = Some author
      | None \<Rightarrow> Author s = Some author)"
proof -
  from slot_filter.validated_author_potential [of "(f, active)" s pre_runtime_of decode_id
      lookup_account sys rnd slot logs origins t] assms
  obtain author where "Author t = Some author" "author \<in> set active"
    "named_author pre_runtime_of decode_id lookup_account logs (Author s) author"
    "can_author_filter rnd f active author slot = Ok True" by auto
  with assms(1) show ?thesis by (auto simp: can_author_filter_def slot_filter_invar_def named_author_def)
qed

text \<open>A concrete block: one author digest, one inherent.\<close>

definition ai_demo_logs :: "digest_item list" where
  "ai_demo_logs = [nimbus_pre_digest byte_codec 7]"

definition ai_demo_start :: "nat ai_state" where
  "ai_demo_start = \<lparr>Author = None, InherentIncluded = False\<rparr>"

definition ai_demo_lookup :: "u8 \<Rightarrow> nat option" where
  "ai_demo_lookup n = (if n = 7 then Some 10 else None)"

lemmas ai_demo = ai_demo_logs_def ai_demo_start_def ai_demo_lookup_def nimbus_pre_digest_def
  demo_digest_api_def byte_codec_def raw_system_def run_block_ai_def on_initialize_ai_def
  kick_off_authorship_validation_def get_ai_def on_finalize_ai_def Let_def List.map_filter_def

theorem validated_author_in_slot_filter_witness:
  "\<exists>t. run_block_ai (as_pre_runtime (demo_digest_api byte_codec))
       (\<lambda>bs. map_option fst (decode byte_codec bs)) ai_demo_lookup raw_system
       (can_author_filter (\<lambda>_. [0, 0, 0, 0]) (filter_demo 2) [10, 20])
       5 ai_demo_logs [Unsigned] ai_demo_start = Ok t \<and>
     (\<exists>author nid. Author t = Some author \<and> author \<in> set [10, 20] \<and> ai_demo_lookup nid = Some author)"
    (is "\<exists>t. ?run = Ok t \<and> _")
proof -
  have "can_author_filter (\<lambda>_. [0, 0, 0, 0]) (filter_demo 2) [10, 20 :: nat] 10 5 = Ok True"
    by (simp add: can_author_filter_def compute_pseudo_random_subset_def filter_demo_def upt_rec Let_def)
  then obtain t where t: "?run = Ok t" by (simp add: ai_demo)
  have "slot_filter_invar (filter_demo 2)" "\<not> InherentIncluded ai_demo_start"
    by (simp_all add: slot_filter_invar_def filter_demo_def ai_demo_start_def)
  moreover have "map_of (List.map_filter (as_pre_runtime (demo_digest_api byte_codec)) ai_demo_logs) NIMBUS_ENGINE_ID = Some [7]"
    by (simp add: ai_demo)
  ultimately show ?thesis using validated_author_in_slot_filter [OF _ _ t] t by fastforce
qed

text \<open>
  The inherent is mandatory: a block in which it is missing never runs to its end, whatever its
  digest; a block with a digest that decodes panics at finalisation.
\<close>

theorem missing_inherent_invalid:
  assumes "\<not> InherentIncluded s"
  shows "\<not> is_ok (run_block_ai pre_runtime_of decode_id lookup_account sys can_author slot logs [] s) \<and>
     (\<forall>s1. on_initialize_ai pre_runtime_of decode_id lookup_account logs s = Ok s1 \<longrightarrow>
        run_block_ai pre_runtime_of decode_id lookup_account sys can_author slot logs [] s
          = Panic ''Block invalid, missing inherent `kick_off_authorship_validation`'')"
proof -
  have "\<not> InherentIncluded s1"
    if "on_initialize_ai pre_runtime_of decode_id lookup_account logs s = Ok s1" for s1
    using assms that by (auto simp: on_initialize_ai_def Let_def split: option.splits)
  then show ?thesis
    by (cases "on_initialize_ai pre_runtime_of decode_id lookup_account logs s")
       (auto simp: run_block_ai_def on_finalize_ai_def)
qed

theorem missing_inherent_invalid_witness:
  "\<not> is_ok (run_block_ai (as_pre_runtime (demo_digest_api byte_codec))
       (\<lambda>bs. map_option fst (decode byte_codec bs)) ai_demo_lookup raw_system (can_author_any ())
       5 ai_demo_logs [] ai_demo_start)"
proof -
  have "\<not> InherentIncluded ai_demo_start" by (simp add: ai_demo_start_def)
  from missing_inherent_invalid [OF this] show ?thesis by (rule conjunct1)
qed

text \<open>
  The author is not cleared between blocks: a block whose digest names no author is validated
  against the author stored by an earlier block.
\<close>

theorem stale_author_reused:
  assumes "\<forall>d\<in>set logs. \<forall>data. pre_runtime_of d \<noteq> Some (NIMBUS_ENGINE_ID, data)"
    and "Author s = Some previous" "can_author previous slot = Ok True"
    and "ensure_none sys origin = Inr ()"
  shows "\<exists>t. run_block_ai pre_runtime_of decode_id lookup_account sys can_author slot logs [origin] s = Ok t \<and>
     Author t = Some previous"
proof -
  have "find_author decode_id lookup_account ds = Ok None"
    if "\<forall>(e, b)\<in>set ds. e \<noteq> NIMBUS_ENGINE_ID" for ds
    using that by (induction ds) auto
  moreover have "\<forall>(e, b)\<in>set (List.map_filter pre_runtime_of logs). e \<noteq> NIMBUS_ENGINE_ID"
    using assms(1) by (fastforce simp: List.map_filter_def)
  ultimately have "find_author decode_id lookup_account (List.map_filter pre_runtime_of logs) = Ok None"
    by blast
  with assms(2-) show ?thesis
    by (simp add: run_block_ai_def on_initialize_ai_def kick_off_authorship_validation_def get_ai_def
        on_finalize_ai_def)
qed

theorem stale_author_reused_witness:
  "\<exists>t. run_block_ai (as_pre_runtime (demo_digest_api byte_codec))
       (\<lambda>bs. map_option fst (decode byte_codec bs)) ai_demo_lookup raw_system (can_author_any ())
       5 [] [Unsigned] (ai_demo_start\<lparr>Author := Some 10\<rparr>) = Ok t \<and> Author t = Some 10"
  by (rule stale_author_reused) (simp_all add: can_author_any_def raw_system_def)

text \<open>
  The executor accepts a block exactly when its last digest item is a seal over the header
  without that item, by the author the header names; sealing a header and stripping the seal
  gives the header back.
\<close>

theorem seal_verification:
  assumes "codec_ok sc" "digest_api_ok sc (sig_api cr)"
  shows "(verify_and_remove_seal cr hdr = Ok stripped \<longrightarrow>
       (\<exists>seal signature bytes author. digest_logs hdr = digest_logs stripped @ [seal] \<and>
          header_rest stripped = header_rest hdr \<and>
          as_nimbus_seal (sig_api cr) seal = Some signature \<and>
          claimed_author (digest_logs stripped) = Some bytes \<and>
          nimbus_from_slice cr bytes = Some author \<and>
          sig_verify cr author (header_hash cr stripped) signature)) \<and>
     (\<forall>bytes author signature. claimed_author (digest_logs hdr) = Some bytes \<longrightarrow>
        nimbus_from_slice cr bytes = Some author \<longrightarrow>
        sig_verify cr author (header_hash cr hdr) signature \<longrightarrow>
        verify_and_remove_seal cr (hdr\<lparr>digest_logs := digest_logs hdr @ [nimbus_seal sc signature]\<rparr>)
          = Ok hdr)"
proof -
  have dec: "decode sc (encode sc x) = Some (x, [])" for x
    using assms(1) append_Nil2 unfolding codec_ok_def by metis
  have seal: "as_nimbus_seal (sig_api cr) (nimbus_seal sc x) = Some x" for x
    using assms(2) dec by (simp add: as_nimbus_seal_def nimbus_seal_def digest_api_ok_def)
  have "digest_logs hdr = digest_logs stripped @ [last (digest_logs hdr)]"
      "header_rest stripped = header_rest hdr"
    if "verify_and_remove_seal cr hdr = Ok stripped"
    using that by (auto simp: verify_and_remove_seal_def Let_def split: if_splits)
  moreover have "\<exists>signature bytes author.
       as_nimbus_seal (sig_api cr) (last (digest_logs hdr)) = Some signature \<and>
       claimed_author (digest_logs stripped) = Some bytes \<and>
       nimbus_from_slice cr bytes = Some author \<and>
       sig_verify cr author (header_hash cr stripped) signature"
    if "verify_and_remove_seal cr hdr = Ok stripped"
    using that by (auto simp: verify_and_remove_seal_def Let_def split: if_splits)
  moreover have "verify_and_remove_seal cr
      (hdr\<lparr>digest_logs := digest_logs hdr @ [nimbus_seal sc signature]\<rparr>) = Ok hdr"
    if "claimed_author (digest_logs hdr) = Some bytes" "nimbus_from_slice cr bytes = Some author"
      "sig_verify cr author (header_hash cr hdr) signature" for bytes author signature
    using that seal by (simp add: verify_and_remove_seal_def Let_def)
  ultimately show ?thesis by blast
qed

definition demo_crypto :: "(u8, u8, nat, unit) seal_crypto" where
  "demo_crypto = \<lparr>nimbus_from_slice = (\<lambda>bs. map_option fst (decode byte_codec bs)),
     sig_verify = (\<lambda>a h sg. sg = a), header_hash = (\<lambda>h. length (digest_logs h)),
     sig_api = demo_digest_api byte_codec\<rparr>"

theorem seal_verification_witness:
  "verify_and_remove_seal demo_crypto
     \<lparr>digest_logs = [nimbus_pre_digest byte_codec 7, nimbus_seal byte_codec 7], header_rest = ()\<rparr>
   = Ok \<lparr>digest_logs = [nimbus_pre_digest byte_codec 7], header_rest = ()\<rparr>"
proof -
  have "digest_api_ok byte_codec (sig_api demo_crypto)"
    by (simp add: demo_crypto_def demo_digest_api_ok)
  from seal_verification [OF byte_codec_ok this,
      of "\<lparr>digest_logs = [nimbus_pre_digest byte_codec 7], header_rest = ()\<rparr>"]
  show ?thesis by (simp add: demo_crypto_def nimbus_pre_digest_def byte_codec_def)
qed

end
