(* ===== verification/Randomness.thy ===== *)
theory Randomness
  imports Nimbus_Primitives
begin

text \<open>
  The randomness pallet, \<^verbatim>\<open>pallets/randomness/src\<close>: the request types of \<^verbatim>\<open>types.rs\<close>, the VRF
  verification of \<^verbatim>\<open>vrf.rs\<close>, and the inherent, the hooks and the public functions of \<^verbatim>\<open>lib.rs\<close>.
  Balances are \<^verbatim>\<open>u128\<close> and block numbers \<^verbatim>\<open>u32\<close>, as in the template runtime.
\<close>

section \<open>Types\<close>

datatype request_type = BabeEpoch u64 | Local u32

datatype request_info = BabeEpochInfo u64 u64 | LocalInfo u32 u32

record 'h randomness_result =
  randomness :: "'h option"
  request_count :: u64

record 'info request =
  refund_address :: H160
  contract_address :: H160
  fee :: u128
  gas_limit :: u64
  num_words :: u8
  salt :: H256
  info :: 'info

record request_state =
  rs_request :: "request_info request"
  rs_deposit :: u128

record fulfill_args =
  fa_request :: "request_info request"
  fa_deposit :: u128
  fa_randomness :: "u8 list list"

datatype rand_error =
    RequestCounterOverflowed
  | RequestFeeOverflowed
  | MustRequestAtLeastOneWord
  | CannotRequestMoreWordsThanMax
  | CannotRequestRandomnessAfterMaxDelay
  | CannotRequestRandomnessBeforeMinDelay
  | RequestDNE
  | RequestCannotYetBeFulfilled
  | OnlyRequesterCanIncreaseFee
  | RequestHasNotExpired
  | RandomnessResultDNE
  | RandomnessResultNotFilled

datatype rand_event =
    RandomnessRequestedBabeEpoch u64 H160 H160 u128 u64 u8 H256 u64
  | RandomnessRequestedLocal u64 H160 H160 u128 u64 u8 H256 u32
  | RequestFulfilled u64
  | RequestFeeIncreased u64 u128
  | RequestExpirationExecuted u64

record ('h, 'cur) rand_state =
  Requests :: "u64 \<rightharpoonup> request_state"
  RequestCount :: u64
  LocalVrfOutput :: "'h option"
  RelayEpoch :: u64
  RandInherentIncluded :: "unit option"
  NotFirstBlock :: "unit option"
  RandomnessResults :: "request_type \<rightharpoonup> 'h randomness_result"
  PreviousLocalVrfOutput :: 'h
  block_number :: u32
  rand_currency :: 'cur
  rand_events :: "rand_event list"

record ('origin, 'acct, 'cur, 'd, 'h) rand_config =
  rand_system :: "('origin, 'acct, 'd) frame_system"
  AddressMapping :: "H160 \<Rightarrow> 'acct"
  Currency :: "('acct, 'cur, 'd) currency"
  Deposit :: u128
  MaxRandomWords :: u8
  MinBlockDelay :: u32
  MaxBlockDelay :: u32
  BlockExpirationDelay :: u32
  EpochExpirationDelay :: u64
  account_id :: 'acct
  hash_default :: 'h
  hash_bytes :: "'h \<Rightarrow> u8 list"
  salt_bytes :: "H256 \<Rightarrow> u8 list"
  Hashing :: "u8 list \<Rightarrow> 'h"
  blake2_256 :: "u8 list \<Rightarrow> u8 list"

type_synonym ('d, 'a) rand_result = "((rand_error, 'd) dispatch_error, 'a) result"

section \<open>Conversions and counters (\<^verbatim>\<open>types.rs\<close>)\<close>

text \<open>\<^verbatim>\<open>From<RequestType> for RequestInfo\<close> adds the expiration.\<close>

primrec info_of_type ::
    "('origin, 'acct, 'cur, 'd, 'h) rand_config \<Rightarrow> ('h, 'cur) rand_state \<Rightarrow> request_type \<Rightarrow> request_info" where
  "info_of_type cfg s (BabeEpoch epoch) =
     BabeEpochInfo epoch (saturating_add (RelayEpoch s) (EpochExpirationDelay cfg))"
| "info_of_type cfg s (Local block) =
     LocalInfo block (saturating_add (block_number s) (BlockExpirationDelay cfg))"

primrec type_of_info :: "request_info \<Rightarrow> request_type" where
  "type_of_info (BabeEpochInfo epoch _) = BabeEpoch epoch"
| "type_of_info (LocalInfo block _) = Local block"

definition randomness_result_new :: "'h randomness_result" where
  "randomness_result_new = \<lparr>randomness = None, request_count = 1\<rparr>"

definition randomness_result_default :: "'h randomness_result" where
  "randomness_result_default = randomness_result_new"

text \<open>
  The \<^verbatim>\<open>Debug\<close> output of a request, as the names and values of its fields. The contract address that it prints is the refund address.
\<close>

datatype debug_value = DebugAddress H160 | DebugU64 u64 | DebugU8 u8 | DebugHash H256

definition request_fmt :: "'info request \<Rightarrow> string \<times> (string \<times> debug_value) list" where
  "request_fmt r = (''Request'',
     [(''refund_address'', DebugAddress (refund_address r)), (''contract_address'', DebugAddress (refund_address r)),
      (''gas_limit'', DebugU64 (gas_limit r)), (''num_words'', DebugU8 (num_words r)), (''salt'', DebugHash (salt r))])"

lemma request_fmt_hides_contract:
  "request_fmt (r\<lparr>contract_address := c\<rparr>) = request_fmt r"
  by (simp add: request_fmt_def)

definition increment_request_count :: "'h randomness_result \<Rightarrow> 'h randomness_result" where
  "increment_request_count r =
     \<lparr>randomness = randomness r, request_count = saturating_add (request_count r) 1\<rparr>"

definition decrement_request_count :: "'h randomness_result \<Rightarrow> 'h randomness_result option" where
  "decrement_request_count r =
     (case checked_sub (request_count r) 1 of
        Some new_request_count \<Rightarrow>
          if new_request_count = 0 then None
          else Some \<lparr>randomness = randomness r, request_count = new_request_count\<rparr>
      | None \<Rightarrow> None)"

definition request_into ::
    "('origin, 'acct, 'cur, 'd, 'h) rand_config \<Rightarrow> ('h, 'cur) rand_state
      \<Rightarrow> request_type request \<Rightarrow> request_info request" where
  "request_into cfg s other =
     \<lparr>refund_address = refund_address other, contract_address = contract_address other,
      fee = fee other, gas_limit = gas_limit other, num_words = num_words other,
      salt = salt other, info = info_of_type cfg s (info other)\<rparr>"

section \<open>Requests (\<^verbatim>\<open>types.rs\<close>)\<close>

definition is_expired :: "('h, 'cur) rand_state \<Rightarrow> request_info request \<Rightarrow> bool" where
  "is_expired s req =
     (case info req of
        BabeEpochInfo _ expires \<Rightarrow> expires \<le> RelayEpoch s
      | LocalInfo _ expires \<Rightarrow> expires \<le> block_number s)"

definition can_be_fulfilled :: "('h, 'cur) rand_state \<Rightarrow> request_info request \<Rightarrow> bool" where
  "can_be_fulfilled s req =
     (case info req of
        BabeEpochInfo epoch_due _ \<Rightarrow> epoch_due \<le> RelayEpoch s
      | LocalInfo block_due _ \<Rightarrow> block_due \<le> block_number s)"

definition validate ::
    "('origin, 'acct, 'cur, 'd, 'h) rand_config \<Rightarrow> ('h, 'cur) rand_state
      \<Rightarrow> request_info request \<Rightarrow> ('d, unit) rand_result" where
  "validate cfg s req =
     and_then (ensure (num_words req \<le> MaxRandomWords cfg) (ModuleError CannotRequestMoreWordsThanMax))
     (\<lambda>_. and_then (ensure (1 \<le> num_words req) (ModuleError MustRequestAtLeastOneWord))
     (\<lambda>_. case info req of
        BabeEpochInfo _ _ \<Rightarrow> Ok ()
      | LocalInfo block_due _ \<Rightarrow>
          and_then (ok_or (ModuleError CannotRequestRandomnessAfterMaxDelay)
                     (checked_add (block_number s) (MaxBlockDelay cfg)))
          (\<lambda>latest. and_then (ensure (block_due \<le> latest)
                                (ModuleError CannotRequestRandomnessAfterMaxDelay))
          (\<lambda>_. and_then (ok_or (ModuleError CannotRequestRandomnessBeforeMinDelay)
                          (checked_add (block_number s) (MinBlockDelay cfg)))
          (\<lambda>earliest. ensure (earliest \<le> block_due)
                        (ModuleError CannotRequestRandomnessBeforeMinDelay))))))"

text \<open>The loop over \<open>index\<close> in \<open>0..num_words\<close>; each word hashes the seed, the salt and the index.\<close>

definition compute_random_words ::
    "('origin, 'acct, 'cur, 'd, 'h) rand_config \<Rightarrow> 'h \<Rightarrow> H256 \<Rightarrow> u8 \<Rightarrow> u8 list list" where
  "compute_random_words cfg random salt_value n =
     map (\<lambda>index. blake2_256 cfg (hash_bytes cfg random @ salt_bytes cfg salt_value @ [word_of_nat index]))
       [0..<unat n]"

definition get_random_words ::
    "('origin, 'acct, 'cur, 'd, 'h) rand_config \<Rightarrow> ('h, 'cur) rand_state
      \<Rightarrow> request_info request \<Rightarrow> ('d, u8 list list) rand_result" where
  "get_random_words cfg s req =
     and_then (ensure (can_be_fulfilled s req) (ModuleError RequestCannotYetBeFulfilled))
     (\<lambda>_. and_then (ok_or (ModuleError RandomnessResultDNE)
                     (RandomnessResults s (type_of_info (info req))))
     (\<lambda>r. and_then (ok_or (ModuleError RandomnessResultNotFilled) (randomness r))
     (\<lambda>random. Ok (compute_random_words cfg random (salt req) (num_words req)))))"

definition deposit_event_rand :: "rand_event \<Rightarrow> ('h, 'cur) rand_state \<Rightarrow> ('h, 'cur) rand_state" where
  "deposit_event_rand e s = s\<lparr>rand_events := rand_events s @ [e]\<rparr>"

definition emit_randomness_requested_event ::
    "request_info request \<Rightarrow> u64 \<Rightarrow> ('h, 'cur) rand_state \<Rightarrow> ('h, 'cur) rand_state" where
  "emit_randomness_requested_event req req_id =
     deposit_event_rand
       (case info req of
          BabeEpochInfo index _ \<Rightarrow>
            RandomnessRequestedBabeEpoch req_id (refund_address req) (contract_address req) (fee req)
              (gas_limit req) (num_words req) (salt req) index
        | LocalInfo block _ \<Rightarrow>
            RandomnessRequestedLocal req_id (refund_address req) (contract_address req) (fee req)
              (gas_limit req) (num_words req) (salt req) block)"

text \<open>The closure of \<^verbatim>\<open>finish_fulfill\<close>: a failed transfer is logged and changes nothing.\<close>

definition try_transfer_or_log_error ::
    "('origin, 'acct, 'cur, 'd, 'h) rand_config \<Rightarrow> 'acct \<Rightarrow> 'acct \<Rightarrow> u128 \<Rightarrow> 'cur \<Rightarrow> 'cur" where
  "try_transfer_or_log_error cfg from to amount c =
     (case cur_transfer (Currency cfg) from to amount c of Inl _ \<Rightarrow> c | Inr c' \<Rightarrow> c')"

definition finish_fulfill ::
    "('origin, 'acct, 'cur, 'd, 'h) rand_config \<Rightarrow> request_info request \<Rightarrow> u128 \<Rightarrow> H160 \<Rightarrow> u128
      \<Rightarrow> 'cur \<Rightarrow> 'cur" where
  "finish_fulfill cfg req dep caller cost_of_execution c =
     (let refundable_amount = saturating_add dep (fee req);
          pay = try_transfer_or_log_error cfg (account_id cfg)
      in case checked_sub refundable_amount cost_of_execution of
           Some excess \<Rightarrow>
             if refund_address req = caller
             then pay (AddressMapping cfg (refund_address req))
                    (saturating_add excess cost_of_execution) c
             else pay (AddressMapping cfg caller) cost_of_execution
                    (pay (AddressMapping cfg (refund_address req)) excess c)
         | None \<Rightarrow> pay (AddressMapping cfg caller) cost_of_execution c)"

text \<open>\<^verbatim>\<open>RequestState::new\<close>, \<^verbatim>\<open>prepare_fulfill\<close>, \<^verbatim>\<open>increase_fee\<close> and \<^verbatim>\<open>execute_expiration\<close>.\<close>

definition request_state_new ::
    "('origin, 'acct, 'cur, 'd, 'h) rand_config \<Rightarrow> ('h, 'cur) rand_state
      \<Rightarrow> request_info request \<Rightarrow> ('d, request_state) rand_result" where
  "request_state_new cfg s req =
     and_then (validate cfg s req) (\<lambda>_. Ok \<lparr>rs_request = req, rs_deposit = Deposit cfg\<rparr>)"

definition prepare_fulfill ::
    "('origin, 'acct, 'cur, 'd, 'h) rand_config \<Rightarrow> ('h, 'cur) rand_state
      \<Rightarrow> request_state \<Rightarrow> ('d, fulfill_args) rand_result" where
  "prepare_fulfill cfg s rs =
     and_then (get_random_words cfg s (rs_request rs))
     (\<lambda>words. Ok \<lparr>fa_request = rs_request rs, fa_deposit = rs_deposit rs, fa_randomness = words\<rparr>)"

definition increase_fee ::
    "('origin, 'acct, 'cur, 'd, 'h) rand_config \<Rightarrow> H160 \<Rightarrow> u128 \<Rightarrow> request_state \<Rightarrow> 'cur
      \<Rightarrow> ('d, u128 \<times> request_state \<times> 'cur) rand_result" where
  "increase_fee cfg caller fee_increase rs c =
     and_then (ensure (caller = contract_address (rs_request rs))
                 (ModuleError OnlyRequesterCanIncreaseFee))
     (\<lambda>_. and_then (ok_or (ModuleError RequestFeeOverflowed)
                     (checked_add (fee (rs_request rs)) fee_increase))
     (\<lambda>new_fee. and_then (from_frame (cur_transfer (Currency cfg) (AddressMapping cfg caller)
                            (account_id cfg) fee_increase c))
     (\<lambda>c'. Ok (new_fee, rs\<lparr>rs_request := (rs_request rs)\<lparr>fee := new_fee\<rparr>\<rparr>, c'))))"

text \<open>
  The second transfer can fail after the first went through, so the outcome comes with the
  balances at that point.
\<close>

definition execute_expiration ::
    "('origin, 'acct, 'cur, 'd, 'h) rand_config \<Rightarrow> ('h, 'cur) rand_state \<Rightarrow> 'acct \<Rightarrow> request_state
      \<Rightarrow> 'cur \<Rightarrow> ('d, unit) rand_result \<times> 'cur" where
  "execute_expiration cfg s caller rs c =
     (if \<not> is_expired s (rs_request rs) then (Err (ModuleError RequestHasNotExpired), c)
      else
        let contract = AddressMapping cfg (contract_address (rs_request rs))
        in if caller = contract
           then case cur_transfer (Currency cfg) (account_id cfg) contract
                       (saturating_add (rs_deposit rs) (fee (rs_request rs))) c of
                  Inl d \<Rightarrow> (Err (FrameError d), c)
                | Inr c' \<Rightarrow> (Ok (), c')
           else case cur_transfer (Currency cfg) (account_id cfg) contract (rs_deposit rs) c of
                  Inl d \<Rightarrow> (Err (FrameError d), c)
                | Inr c' \<Rightarrow>
                    (case cur_transfer (Currency cfg) (account_id cfg) caller
                            (fee (rs_request rs)) c' of
                       Inl d \<Rightarrow> (Err (FrameError d), c')
                     | Inr c'' \<Rightarrow> (Ok (), c'')))"

section \<open>Public functions (\<^verbatim>\<open>lib.rs\<close>)\<close>

text \<open>The bookkeeping of \<^verbatim>\<open>RandomnessResults\<close> when a request is added and when one goes away.\<close>

definition results_add_request ::
    "request_type \<Rightarrow> (request_type \<rightharpoonup> 'h randomness_result) \<Rightarrow> (request_type \<rightharpoonup> 'h randomness_result)" where
  "results_add_request key m =
     (case m key of
        Some existing \<Rightarrow> m(key \<mapsto> increment_request_count existing)
      | None \<Rightarrow> m(key \<mapsto> randomness_result_new))"

definition results_drop_request ::
    "request_type \<Rightarrow> (request_type \<rightharpoonup> 'h randomness_result) \<Rightarrow> (request_type \<rightharpoonup> 'h randomness_result)" where
  "results_drop_request key m =
     (case m key of
        Some result \<Rightarrow>
          (case decrement_request_count result of
             Some new_result \<Rightarrow> m(key \<mapsto> new_result)
           | None \<Rightarrow> m(key := None))
      | None \<Rightarrow> m)"

definition request_randomness ::
    "('origin, 'acct, 'cur, 'd, 'h) rand_config \<Rightarrow> request_type request
      \<Rightarrow> ('h, 'cur) rand_state \<Rightarrow> ('d, u64 \<times> ('h, 'cur) rand_state) rand_result" where
  "request_randomness cfg req s =
     and_then (request_state_new cfg s (request_into cfg s req))
     (\<lambda>rs. let total_to_reserve = saturating_add (Deposit cfg) (fee (rs_request rs));
               contract = AddressMapping cfg (contract_address (rs_request rs));
               request_id = RequestCount s;
               info_key = type_of_info (info (rs_request rs))
           in and_then (ok_or (ModuleError RequestCounterOverflowed) (checked_add request_id 1))
     (\<lambda>next_id. and_then (from_frame (cur_transfer (Currency cfg) contract (account_id cfg)
                             total_to_reserve (rand_currency s)))
     (\<lambda>c. Ok (request_id,
             (emit_randomness_requested_event (rs_request rs) request_id
                (s\<lparr>rand_currency := c,
                   RandomnessResults := results_add_request info_key (RandomnessResults s),
                   RequestCount := next_id\<rparr>))
             \<lparr>Requests := (Requests s)(request_id \<mapsto> rs)\<rparr>))))"

definition prepare_fulfillment ::
    "('origin, 'acct, 'cur, 'd, 'h) rand_config \<Rightarrow> u64 \<Rightarrow> ('h, 'cur) rand_state
      \<Rightarrow> ('d, fulfill_args) rand_result" where
  "prepare_fulfillment cfg req_id s =
     and_then (ok_or (ModuleError RequestDNE) (Requests s req_id)) (prepare_fulfill cfg s)"

definition finish_fulfillment ::
    "('origin, 'acct, 'cur, 'd, 'h) rand_config \<Rightarrow> u64 \<Rightarrow> request_info request \<Rightarrow> u128 \<Rightarrow> H160 \<Rightarrow> u128
      \<Rightarrow> ('h, 'cur) rand_state \<Rightarrow> ('h, 'cur) rand_state" where
  "finish_fulfillment cfg req_id req dep caller cost_of_execution s =
     deposit_event_rand (RequestFulfilled req_id)
       (s\<lparr>rand_currency := finish_fulfill cfg req dep caller cost_of_execution (rand_currency s),
          RandomnessResults := results_drop_request (type_of_info (info req)) (RandomnessResults s),
          Requests := (Requests s)(req_id := None)\<rparr>)"

definition increase_request_fee ::
    "('origin, 'acct, 'cur, 'd, 'h) rand_config \<Rightarrow> H160 \<Rightarrow> u64 \<Rightarrow> u128
      \<Rightarrow> ('h, 'cur) rand_state \<Rightarrow> ('d, ('h, 'cur) rand_state) rand_result" where
  "increase_request_fee cfg caller req_id fee_increase s =
     and_then (ok_or (ModuleError RequestDNE) (Requests s req_id))
     (\<lambda>rs. and_then (increase_fee cfg caller fee_increase rs (rand_currency s))
     (\<lambda>(new_fee, rs', c). Ok (deposit_event_rand (RequestFeeIncreased req_id new_fee)
        (s\<lparr>rand_currency := c, Requests := (Requests s)(req_id \<mapsto> rs')\<rparr>))))"

definition execute_request_expiration ::
    "('origin, 'acct, 'cur, 'd, 'h) rand_config \<Rightarrow> H160 \<Rightarrow> u64
      \<Rightarrow> ('h, 'cur) rand_state \<Rightarrow> ('d, unit) rand_result \<times> ('h, 'cur) rand_state" where
  "execute_request_expiration cfg caller req_id s =
     (case Requests s req_id of
        None \<Rightarrow> (Err (ModuleError RequestDNE), s)
      | Some rs \<Rightarrow>
          (case execute_expiration cfg s (AddressMapping cfg caller) rs (rand_currency s) of
             (Ok u, c) \<Rightarrow>
               (Ok u, deposit_event_rand (RequestExpirationExecuted req_id)
                  (s\<lparr>rand_currency := c,
                     RandomnessResults :=
                       results_drop_request (type_of_info (info (rs_request rs))) (RandomnessResults s),
                     Requests := (Requests s)(req_id := None)\<rparr>))
           | (r, c) \<Rightarrow> (r, s\<lparr>rand_currency := c\<rparr>)))"

section \<open>The inherent and the hooks\<close>

text \<open>
  \<^verbatim>\<open>set_babe_randomness_results\<close>; the epoch index and the epoch randomness are what the
  \<^verbatim>\<open>BabeDataGetter\<close> reads from the relay chain state proof of the block.
\<close>

definition set_babe_randomness_results ::
    "('origin, 'acct, 'cur, 'd, 'h) rand_config \<Rightarrow> 'origin \<Rightarrow> u64 \<Rightarrow> 'h option
      \<Rightarrow> ('h, 'cur) rand_state \<Rightarrow> ('d, ('h, 'cur) rand_state) rand_result" where
  "set_babe_randomness_results cfg origin get_epoch_index get_epoch_randomness s =
     and_then (from_frame (ensure_none (rand_system cfg) origin))
     (\<lambda>_. let relay_epoch_index = get_epoch_index;
              key = BabeEpoch relay_epoch_index;
              results =
                (if RelayEpoch s < relay_epoch_index
                 then case RandomnessResults s key of
                        Some r \<Rightarrow>
                          (case get_epoch_randomness of
                             Some random \<Rightarrow> (RandomnessResults s)(key \<mapsto> r\<lparr>randomness := Some random\<rparr>)
                           | None \<Rightarrow> RandomnessResults s)
                      | None \<Rightarrow> RandomnessResults s
                 else RandomnessResults s)
          in Ok (s\<lparr>RandomnessResults := results, RelayEpoch := relay_epoch_index,
                   RandInherentIncluded := Some ()\<rparr>))"

text \<open>The inherent is required in every block.\<close>

datatype rand_call = SetBabeRandomnessResults

definition is_inherent_required_rand :: "'data \<Rightarrow> (inherent_error, inherent_error option) result" where
  "is_inherent_required_rand data = Ok (Some (OtherError ''Inherent required to set babe randomness results''))"

definition create_inherent_rand :: "'data \<Rightarrow> rand_call option" where
  "create_inherent_rand data = Some SetBabeRandomnessResults"

definition is_inherent_rand :: "rand_call \<Rightarrow> bool" where
  "is_inherent_rand call = (case call of SetBabeRandomnessResults \<Rightarrow> True)"

text \<open>
  \<^verbatim>\<open>verify_and_set_output\<close>, given the randomness it computed: store it and fill the result of the
  current block.
\<close>

definition set_local_output :: "'h \<Rightarrow> ('h, 'cur) rand_state \<Rightarrow> ('h, 'cur) rand_state" where
  "set_local_output random s =
     (let key = Local (block_number s)
      in s\<lparr>LocalVrfOutput := Some random,
           RandomnessResults :=
             (case RandomnessResults s key of
                Some r \<Rightarrow> (RandomnessResults s)(key \<mapsto> r\<lparr>randomness := Some random\<rparr>)
              | None \<Rightarrow> RandomnessResults s)\<rparr>)"

text \<open>
  The VRF library (\<^verbatim>\<open>schnorrkel\<close>, \<^verbatim>\<open>VrfInput\<close>) and the digest of the block being executed are not
  part of the pallet: the former is a record of its functions, the latter an argument.
\<close>

record ('nid, 'vrfid, 'pk, 'transcript, 'out, 'proof, 'h) vrf_library =
  VrfInput_new :: "engine_id \<Rightarrow> (string \<times> u8 list) list \<Rightarrow> 'transcript"
  public_key_from_bytes :: "'vrfid \<Rightarrow> 'pk option"
  vrf_verify :: "'pk \<Rightarrow> 'transcript \<Rightarrow> 'out \<Rightarrow> 'proof \<Rightarrow> bool"
  make_bytes :: "'out \<Rightarrow> 'pk \<Rightarrow> 'transcript \<Rightarrow> string \<Rightarrow> u8 list option"
  hash_decode :: "u8 list \<Rightarrow> 'h option"
  pre_digest_decode :: "u8 list \<Rightarrow> ('out, 'proof) PreDigest option"
  nimbus_decode :: "u8 list \<Rightarrow> 'nid option"

definition VRF_INOUT_CONTEXT :: string where
  "VRF_INOUT_CONTEXT = ''VRFInOutContext''"

definition make_vrf_transcript ::
    "('nid, 'vrfid, 'pk, 'transcript, 'out, 'proof, 'h) vrf_library \<Rightarrow> ('h \<Rightarrow> u8 list) \<Rightarrow> 'h
      \<Rightarrow> 'transcript" where
  "make_vrf_transcript lib bytes_of last_vrf_output =
     VrfInput_new lib VRF_ENGINE_ID [(''last vrf output'', bytes_of last_vrf_output)]"

text \<open>The data that an author signs: the transcript, converted (\<open>into_sign_data\<close> is the conversion of \<^verbatim>\<open>VrfInput\<close>).\<close>

definition make_vrf_sign_data ::
    "('nid, 'vrfid, 'pk, 'transcript, 'out, 'proof, 'h) vrf_library \<Rightarrow> ('h \<Rightarrow> u8 list) \<Rightarrow> ('transcript \<Rightarrow> 'sd) \<Rightarrow> 'h \<Rightarrow> 'sd" where
  "make_vrf_sign_data lib bytes_of into_sign_data last_vrf_output = into_sign_data (make_vrf_transcript lib bytes_of last_vrf_output)"

text \<open>
  The lazy iteration over the pre-runtime digests: it stops at the first VRF digest and remembers
  the VRF key of the last author digest before it; a digest that does not decode and an author
  without a key panic.
\<close>

fun find_vrf_digest ::
    "('nid, 'vrfid, 'pk, 'transcript, 'out, 'proof, 'h) vrf_library \<Rightarrow> ('nid \<Rightarrow> 'vrfid option)
      \<Rightarrow> (engine_id \<times> u8 list) list \<Rightarrow> 'vrfid option
      \<Rightarrow> (unit, ('out, 'proof) PreDigest \<times> 'vrfid option) result" where
  "find_vrf_digest lib lookup_keys [] author_vrf_id =
     Panic ''VRF PreDigest was not included in the digests (check rand key is in keystore)''"
| "find_vrf_digest lib lookup_keys ((engine, data) # logs) author_vrf_id =
     (if engine = VRF_ENGINE_ID
      then case pre_digest_decode lib data of
             Some vrf_digest \<Rightarrow> Ok (vrf_digest, author_vrf_id)
           | None \<Rightarrow> Panic ''VRF digest encoded in pre-runtime digest must be valid''
      else if engine = NIMBUS_ENGINE_ID
      then and_then (expect ''NimbusId encoded in pre-runtime digest must be valid''
                      (nimbus_decode lib data))
           (\<lambda>nimbus_id. and_then (expect ''No VRF Key Mapped to this NimbusId'' (lookup_keys nimbus_id))
           (\<lambda>vrf_id. find_vrf_digest lib lookup_keys logs (Some vrf_id)))
      else find_vrf_digest lib lookup_keys logs author_vrf_id)"

definition get_and_verify_randomness ::
    "('origin, 'acct, 'cur, 'd, 'h) rand_config
      \<Rightarrow> ('nid, 'vrfid, 'pk, 'transcript, 'out, 'proof, 'h) vrf_library \<Rightarrow> ('nid \<Rightarrow> 'vrfid option)
      \<Rightarrow> (engine_id \<times> u8 list) list \<Rightarrow> ('h, 'cur) rand_state \<Rightarrow> (unit, 'h) result" where
  "get_and_verify_randomness cfg lib lookup_keys logs s =
     and_then (find_vrf_digest lib lookup_keys logs None)
     (\<lambda>(digest, author_vrf_id).
        and_then (expect ''VrfId encoded in pre-runtime digest must be valid'' author_vrf_id)
     (\<lambda>vrf_id. and_then (expect ''Expect VrfId to be valid schnorrkel public key''
                          (public_key_from_bytes lib vrf_id))
     (\<lambda>pk. let last_output = (case LocalVrfOutput s of Some h \<Rightarrow> h | None \<Rightarrow> hash_default cfg);
               transcript = make_vrf_transcript lib (hash_bytes cfg) last_output
           in and_then (assert_that (vrf_verify lib pk transcript (vrf_output digest) (vrf_proof digest))
                          ''VRF signature verification failed'')
     (\<lambda>_. and_then (expect ''Transforming VrfOutput into randomness bytes failed''
                     (make_bytes lib (vrf_output digest) pk transcript VRF_INOUT_CONTEXT))
     (\<lambda>bytes. expect ''Bytes can be decoded into T::Hash'' (hash_decode lib bytes))))))"

definition verify_and_set_output ::
    "('origin, 'acct, 'cur, 'd, 'h) rand_config
      \<Rightarrow> ('nid, 'vrfid, 'pk, 'transcript, 'out, 'proof, 'h) vrf_library \<Rightarrow> ('nid \<Rightarrow> 'vrfid option)
      \<Rightarrow> (engine_id \<times> u8 list) list \<Rightarrow> bool \<Rightarrow> ('h, 'cur) rand_state
      \<Rightarrow> (unit, ('h, 'cur) rand_state) result" where
  "verify_and_set_output cfg lib lookup_keys logs fake_vrf s =
     and_then (if fake_vrf then Ok (hash_default cfg)
               else get_and_verify_randomness cfg lib lookup_keys logs s)
     (\<lambda>random. Ok (set_local_output random s))"

definition on_initialize_rand ::
    "('origin, 'acct, 'cur, 'd, 'h) rand_config
      \<Rightarrow> ('nid, 'vrfid, 'pk, 'transcript, 'out, 'proof, 'h) vrf_library \<Rightarrow> ('nid \<Rightarrow> 'vrfid option)
      \<Rightarrow> (engine_id \<times> u8 list) list \<Rightarrow> bool \<Rightarrow> ('h, 'cur) rand_state
      \<Rightarrow> (unit, ('h, 'cur) rand_state) result" where
  "on_initialize_rand cfg lib lookup_keys logs fake_vrf s =
     (if NotFirstBlock s = None
      then Ok (s\<lparr>NotFirstBlock := Some (), LocalVrfOutput := Some (hash_default cfg)\<rparr>)
      else verify_and_set_output cfg lib lookup_keys logs fake_vrf s)"

definition on_finalize_rand :: "('h, 'cur) rand_state \<Rightarrow> (unit, ('h, 'cur) rand_state) result" where
  "on_finalize_rand s =
     and_then (assert_that (RandInherentIncluded s \<noteq> None)
       ''Mandatory randomness inherent not included; InherentIncluded storage item is empty'')
     (\<lambda>_. and_then (expect ''LocalVrfOutput must exist; qed'' (LocalVrfOutput s))
     (\<lambda>out. Ok (s\<lparr>RandInherentIncluded := None, PreviousLocalVrfOutput := out\<rparr>)))"

definition random ::
    "('origin, 'acct, 'cur, 'd, 'h) rand_config \<Rightarrow> ('h, 'cur) rand_state \<Rightarrow> u8 list \<Rightarrow> 'h \<times> u32" where
  "random cfg s subject =
     (Hashing cfg (hash_bytes cfg (PreviousLocalVrfOutput s) @ subject), block_number s)"

definition total_locked ::
    "('origin, 'acct, 'cur, 'd, 'h) rand_config \<Rightarrow> ('h, 'cur) rand_state \<Rightarrow> u128" where
  "total_locked cfg s = cur_free_balance (Currency cfg) (rand_currency s) (account_id cfg)"

end
