(* ===== verification/Randomness_Correct.thy ===== *)
theory Randomness_Correct
  imports Randomness
begin

text \<open>
  Correctness of the randomness pallet: the life of a block as a step relation, the reference
  counts of the randomness results, the funds behind the pending requests, and the guarantee
  that a local request that is due can be fulfilled.
\<close>

section \<open>Blocks and calls as steps\<close>

text \<open>
  A run of the chain: blocks start with \<^verbatim>\<open>on_initialize\<close> at the next height (a panic means there
  is no such block), then come the inherent and the calls of the precompile, then
  \<^verbatim>\<open>on_finalize\<close>. The flag \<open>bounded\<close> selects the runs in which the caller of \<^verbatim>\<open>finish_fulfillment\<close>
  never claims more than the deposit and the fee of the request. The last rule is the rest of
  the runtime, which may move any funds but those of the pallet account.
\<close>

inductive rand_step ::
    "('origin, 'acct, 'cur, 'd, 'h) rand_config
      \<Rightarrow> ('nid, 'vrfid, 'pk, 'transcript, 'out, 'proof, 'h) vrf_library \<Rightarrow> bool
      \<Rightarrow> ('h, 'cur) rand_state \<Rightarrow> ('h, 'cur) rand_state \<Rightarrow> bool"
  for cfg :: "('origin, 'acct, 'cur, 'd, 'h) rand_config"
    and lib :: "('nid, 'vrfid, 'pk, 'transcript, 'out, 'proof, 'h) vrf_library"
    and bounded :: bool
  where
    block_start:
      "unat (block_number s) + 1 < 2 ^ 32 \<Longrightarrow>
       on_initialize_rand cfg lib lookup_keys logs fake_vrf
         (s\<lparr>block_number := block_number s + 1\<rparr>) = Ok t \<Longrightarrow>
       rand_step cfg lib bounded s t"
  | babe_inherent:
      "NotFirstBlock s \<noteq> None \<Longrightarrow>
       set_babe_randomness_results cfg origin epoch random_opt s = Ok t \<Longrightarrow>
       rand_step cfg lib bounded s t"
  | request:
      "NotFirstBlock s \<noteq> None \<Longrightarrow> request_randomness cfg req s = Ok (new_id, t) \<Longrightarrow>
       rand_step cfg lib bounded s t"
  | fulfill:
      "NotFirstBlock s \<noteq> None \<Longrightarrow> Requests s req_id = Some rs \<Longrightarrow>
       prepare_fulfillment cfg req_id s = Ok args \<Longrightarrow>
       (bounded \<longrightarrow> unat cost \<le> unat (saturating_add (rs_deposit rs) (fee (rs_request rs)))) \<Longrightarrow>
       rand_step cfg lib bounded s
         (finish_fulfillment cfg req_id (rs_request rs) (rs_deposit rs) caller cost s)"
  | increase:
      "NotFirstBlock s \<noteq> None \<Longrightarrow> increase_request_fee cfg caller req_id fee_increase s = Ok t \<Longrightarrow>
       rand_step cfg lib bounded s t"
  | expire:
      "NotFirstBlock s \<noteq> None \<Longrightarrow> execute_request_expiration cfg caller req_id s = (Ok (), t) \<Longrightarrow>
       rand_step cfg lib bounded s t"
  | block_end: "on_finalize_rand s = Ok t \<Longrightarrow> rand_step cfg lib bounded s t"
  | rest_of_runtime:
      "cur_free_balance (Currency cfg) (rand_currency s) (account_id cfg)
         \<le> cur_free_balance (Currency cfg) c (account_id cfg) \<Longrightarrow>
       rand_step cfg lib bounded s (s\<lparr>rand_currency := c\<rparr>)"

definition rand_init :: "('h, 'cur) rand_state \<Rightarrow> bool" where
  "rand_init s \<longleftrightarrow> Requests s = Map.empty \<and> RandomnessResults s = Map.empty \<and> RequestCount s = 0 \<and>
     NotFirstBlock s = None"

section \<open>Reference counts\<close>

abbreviation request_key :: "request_state \<Rightarrow> request_type" where
  "request_key rs \<equiv> type_of_info (info (rs_request rs))"

definition keyed :: "(u64 \<rightharpoonup> request_state) \<Rightarrow> request_type \<Rightarrow> u64 set" where
  "keyed reqs k = {i. \<exists>rs. reqs i = Some rs \<and> request_key rs = k}"

definition ref_count :: "(request_type \<rightharpoonup> 'h randomness_result) \<Rightarrow> request_type \<Rightarrow> nat" where
  "ref_count m k = (case m k of None \<Rightarrow> 0 | Some r \<Rightarrow> unat (request_count r))"

definition counts_ok :: "('h, 'cur) rand_state \<Rightarrow> bool" where
  "counts_ok s \<longleftrightarrow> finite (dom (Requests s)) \<and> (\<forall>i\<in>dom (Requests s). i < RequestCount s) \<and>
     (\<forall>k. ref_count (RandomnessResults s) k = card (keyed (Requests s) k)) \<and>
     (\<forall>k r. RandomnessResults s k = Some r \<longrightarrow> request_count r \<noteq> 0)"

lemma deposit_event_rand_sel [simp]:
  "Requests (deposit_event_rand e s) = Requests s"
  "RequestCount (deposit_event_rand e s) = RequestCount s"
  "LocalVrfOutput (deposit_event_rand e s) = LocalVrfOutput s"
  "RelayEpoch (deposit_event_rand e s) = RelayEpoch s"
  "NotFirstBlock (deposit_event_rand e s) = NotFirstBlock s"
  "RandomnessResults (deposit_event_rand e s) = RandomnessResults s"
  "block_number (deposit_event_rand e s) = block_number s"
  "rand_currency (deposit_event_rand e s) = rand_currency s"
  by (simp_all add: deposit_event_rand_def)

lemma keyed_subset: "keyed reqs k \<subseteq> dom reqs"
  by (auto simp: keyed_def)

lemma finite_keyed [simp]: "finite (dom reqs) \<Longrightarrow> finite (keyed reqs k)"
  using keyed_subset by (rule finite_subset)

lemma card_bounded:
  assumes "finite A" "\<forall>i\<in>A. i < (n :: u64)"
  shows "card A \<le> unat n"
proof -
  have "card A = card (unat ` A)" by (simp add: card_image inj_on_def word_eqI_unat)
  also have "unat ` A \<subseteq> {..<unat n}" using assms(2) by (auto simp: word_less_nat_alt)
  then have "card (unat ` A) \<le> card {..<unat n}" by (intro card_mono) auto
  finally show ?thesis by simp
qed

lemma keyed_insert:
  "reqs i = None \<Longrightarrow> keyed (reqs(i \<mapsto> rs)) k
     = (if request_key rs = k then insert i (keyed reqs k) else keyed reqs k)"
  by (auto simp: keyed_def)

lemma keyed_update:
  "reqs i = Some rs \<Longrightarrow> request_key rs' = request_key rs \<Longrightarrow>
   keyed (reqs(i \<mapsto> rs')) k = keyed reqs k"
  by (auto simp: keyed_def)

lemma keyed_remove:
  "reqs i = Some rs \<Longrightarrow> keyed (reqs(i := None)) k
     = (if request_key rs = k then keyed reqs k - {i} else keyed reqs k)"
  by (auto simp: keyed_def)

lemma ref_count_add:
  "ref_count m key + 1 < 2 ^ 64 \<Longrightarrow>
   ref_count (results_add_request key m) k = ref_count m k + (if k = key then 1 else 0)"
  by (auto simp: ref_count_def results_add_request_def increment_request_count_def
      randomness_result_new_def unat_saturating_add split: option.splits)

lemma ref_count_drop:
  "ref_count (results_drop_request key m) k = ref_count m k - (if k = key then 1 else 0)"
  by (auto simp: ref_count_def results_drop_request_def decrement_request_count_def
      checked_sub_Some checked_sub_None split: option.splits if_splits)

lemma saturating_incr_nonzero: "saturating_add (a :: u64) 1 \<noteq> 0"
proof -
  have "unat (saturating_add a 1) \<noteq> 0" by (simp add: unat_saturating_add)
  then show ?thesis by auto
qed

lemma results_add_nonzero:
  "\<forall>k r. m k = Some r \<longrightarrow> request_count r \<noteq> 0 \<Longrightarrow>
   results_add_request key m k = Some r \<Longrightarrow> request_count r \<noteq> 0"
  by (auto simp: results_add_request_def increment_request_count_def randomness_result_new_def
      saturating_incr_nonzero split: option.splits if_splits)

lemma results_drop_nonzero:
  "\<forall>k r. m k = Some r \<longrightarrow> request_count r \<noteq> 0 \<Longrightarrow>
   results_drop_request key m k = Some r \<Longrightarrow> request_count r \<noteq> 0"
  by (auto simp: results_drop_request_def decrement_request_count_def split: option.splits if_splits)

lemma counts_ok_frame:
  assumes "counts_ok s" "Requests t = Requests s" "RequestCount t = RequestCount s"
    and "\<And>k. map_option request_count (RandomnessResults t k)
           = map_option request_count (RandomnessResults s k)"
  shows "counts_ok t"
proof -
  have "ref_count (RandomnessResults t) k = ref_count (RandomnessResults s) k" for k
    using assms(4) [of k] by (auto simp: ref_count_def split: option.splits)
  moreover have "request_count r \<noteq> 0" if "RandomnessResults t k = Some r" for k r
    using assms(1) assms(4) [of k] that by (cases "RandomnessResults s k") (auto simp: counts_ok_def)
  ultimately show ?thesis using assms(1-3) by (simp add: counts_ok_def)
qed

lemma counts_ok_add:
  assumes "counts_ok s" "RequestCount s < next_id" "unat next_id = unat (RequestCount s) + 1"
    and "Requests t = (Requests s)(RequestCount s \<mapsto> rs)" "RequestCount t = next_id"
    and "RandomnessResults t = results_add_request (request_key rs) (RandomnessResults s)"
  shows "counts_ok t"
proof -
  have fin: "finite (dom (Requests s))" and lt: "\<forall>i\<in>dom (Requests s). i < RequestCount s"
    and cnt: "\<And>k. ref_count (RandomnessResults s) k = card (keyed (Requests s) k)"
    using assms(1) by (auto simp: counts_ok_def)
  have fresh: "Requests s (RequestCount s) = None" using lt by (auto simp: dom_def)
  have "card (keyed (Requests s) k) \<le> unat (RequestCount s)" for k
    by (rule card_bounded) (use fin lt keyed_subset [of "Requests s" k] in auto)
  moreover have "unat next_id < 2 ^ 64" using unat_le_max [of next_id] by simp
  ultimately have "ref_count (RandomnessResults s) k + 1 < 2 ^ 64" for k
    using assms(3) cnt [of k] by (metis add_le_mono1 le_less_trans)
  then have "ref_count (RandomnessResults t) k = card (keyed (Requests t) k)" for k
  proof -
    have "RequestCount s \<notin> keyed (Requests s) k" using fresh by (auto simp: keyed_def)
    then show ?thesis
      using \<open>\<And>k. ref_count (RandomnessResults s) k + 1 < 2 ^ 64\<close> fin
      by (simp add: assms(4,6) ref_count_add cnt keyed_insert [of "Requests s", OF fresh])
  qed
  moreover have "\<forall>i\<in>dom (Requests t). i < RequestCount t"
    using lt assms(2,4,5) by (auto simp: dom_def intro: less_trans)
  moreover have "request_count r \<noteq> 0" if "RandomnessResults t k = Some r" for k r
    using results_add_nonzero [of "RandomnessResults s" "request_key rs" k r] that assms(1,6)
    by (simp add: counts_ok_def)
  ultimately show ?thesis using fin assms(4) by (simp add: counts_ok_def)
qed

lemma counts_ok_drop:
  assumes "counts_ok s" "Requests s i = Some rs" "RequestCount t = RequestCount s"
    and "Requests t = (Requests s)(i := None)"
    and "RandomnessResults t = results_drop_request (request_key rs) (RandomnessResults s)"
  shows "counts_ok t"
proof -
  have "i \<in> keyed (Requests s) (request_key rs)" using assms(2) by (auto simp: keyed_def)
  then have "ref_count (RandomnessResults t) k = card (keyed (Requests t) k)" for k
    using assms(1) by (auto simp: assms(4,5) ref_count_drop keyed_remove [of "Requests s", OF assms(2)] counts_ok_def)
  moreover have "request_count r \<noteq> 0" if "RandomnessResults t k = Some r" for k r
    using results_drop_nonzero [of "RandomnessResults s" "request_key rs" k r] that assms(1,5)
    by (simp add: counts_ok_def)
  ultimately show ?thesis using assms by (auto simp: counts_ok_def)
qed

lemma counts_ok_update:
  assumes "counts_ok s" "Requests s i = Some rs" "request_key rs' = request_key rs"
    and "Requests t = (Requests s)(i \<mapsto> rs')" "RequestCount t = RequestCount s"
    and "RandomnessResults t = RandomnessResults s"
  shows "counts_ok t"
  using assms by (auto simp: counts_ok_def keyed_update dom_def)

section \<open>What each operation does when it succeeds\<close>

lemma request_randomness_OkE:
  assumes "request_randomness cfg req s = Ok (new_id, t)"
  obtains rs c next_id where "rs = \<lparr>rs_request = request_into cfg s req, rs_deposit = Deposit cfg\<rparr>"
    "validate cfg s (request_into cfg s req) = Ok ()"
    "new_id = RequestCount s" "checked_add (RequestCount s) 1 = Some next_id"
    "cur_transfer (Currency cfg) (AddressMapping cfg (contract_address req)) (account_id cfg)
       (saturating_add (Deposit cfg) (fee req)) (rand_currency s) = Inr c"
    "t = (emit_randomness_requested_event (rs_request rs) new_id
            (s\<lparr>rand_currency := c,
               RandomnessResults := results_add_request (request_key rs) (RandomnessResults s),
               RequestCount := next_id\<rparr>))
          \<lparr>Requests := (Requests s)(new_id \<mapsto> rs)\<rparr>"
proof -
  have [simp]: "contract_address (request_into cfg s req) = contract_address req"
    "fee (request_into cfg s req) = fee req"
    by (simp_all add: request_into_def)
  show ?thesis
    using assms by (auto simp: request_randomness_def request_state_new_def Let_def intro!: that)
qed

lemma increase_request_fee_OkE:
  assumes "increase_request_fee cfg caller req_id fee_increase s = Ok t"
  obtains rs new_fee c where "Requests s req_id = Some rs" "caller = contract_address (rs_request rs)"
    "checked_add (fee (rs_request rs)) fee_increase = Some new_fee"
    "cur_transfer (Currency cfg) (AddressMapping cfg caller) (account_id cfg) fee_increase
       (rand_currency s) = Inr c"
    "t = deposit_event_rand (RequestFeeIncreased req_id new_fee)
       (s\<lparr>rand_currency := c, Requests := (Requests s)
          (req_id \<mapsto> rs\<lparr>rs_request := (rs_request rs)\<lparr>fee := new_fee\<rparr>\<rparr>)\<rparr>)"
  using assms by (auto simp: increase_request_fee_def increase_fee_def)

lemma execute_request_expiration_OkE:
  assumes "execute_request_expiration cfg caller req_id s = (Ok (), t)"
  obtains rs c where "Requests s req_id = Some rs"
    "execute_expiration cfg s (AddressMapping cfg caller) rs (rand_currency s) = (Ok (), c)"
    "t = deposit_event_rand (RequestExpirationExecuted req_id)
       (s\<lparr>rand_currency := c,
          RandomnessResults := results_drop_request (request_key rs) (RandomnessResults s),
          Requests := (Requests s)(req_id := None)\<rparr>)"
  using assms
  by (auto simp: execute_request_expiration_def split: option.splits prod.splits result.splits)

lemma set_babe_Ok:
  assumes "set_babe_randomness_results cfg origin epoch random_opt s = Ok t"
  shows "Requests t = Requests s" "RequestCount t = RequestCount s" "NotFirstBlock t = NotFirstBlock s"
    "block_number t = block_number s" "rand_currency t = rand_currency s" "RelayEpoch t = epoch"
    "map_option request_count (RandomnessResults t k) = map_option request_count (RandomnessResults s k)"
    "RandomnessResults t (Local b) = RandomnessResults s (Local b)"
  using assms
  by (auto simp: set_babe_randomness_results_def Let_def split: option.splits if_splits)

lemma on_initialize_OkE:
  assumes "on_initialize_rand cfg lib lookup_keys logs fake_vrf s = Ok t"
  obtains (first) "NotFirstBlock s = None"
      "t = s\<lparr>NotFirstBlock := Some (), LocalVrfOutput := Some (hash_default cfg)\<rparr>"
    | (later) h where "NotFirstBlock s \<noteq> None" "t = set_local_output h s"
  using assms by (auto simp: on_initialize_rand_def verify_and_set_output_def split: if_splits)

lemma on_finalize_OkE:
  assumes "on_finalize_rand s = Ok t"
  obtains h where "t = s\<lparr>RandInherentIncluded := None, PreviousLocalVrfOutput := h\<rparr>"
    "LocalVrfOutput s = Some h" "RandInherentIncluded s \<noteq> None"
  using assms by (auto simp: on_finalize_rand_def)

lemma set_local_output_counts:
  "map_option request_count (RandomnessResults (set_local_output h s) k)
     = map_option request_count (RandomnessResults s k)"
  by (auto simp: set_local_output_def Let_def split: option.splits)

lemma emit_sel [simp]:
  "Requests (emit_randomness_requested_event q i s) = Requests s"
  "RequestCount (emit_randomness_requested_event q i s) = RequestCount s"
  "NotFirstBlock (emit_randomness_requested_event q i s) = NotFirstBlock s"
  "RandomnessResults (emit_randomness_requested_event q i s) = RandomnessResults s"
  "block_number (emit_randomness_requested_event q i s) = block_number s"
  "rand_currency (emit_randomness_requested_event q i s) = rand_currency s"
  by (simp_all add: emit_randomness_requested_event_def)

lemma set_local_output_sel [simp]:
  "Requests (set_local_output h s) = Requests s"
  "RequestCount (set_local_output h s) = RequestCount s"
  "NotFirstBlock (set_local_output h s) = NotFirstBlock s"
  "block_number (set_local_output h s) = block_number s"
  "rand_currency (set_local_output h s) = rand_currency s"
  by (simp_all add: set_local_output_def Let_def)

lemma finish_fulfillment_sel [simp]:
  "Requests (finish_fulfillment cfg i q dep caller cost s) = (Requests s)(i := None)"
  "RequestCount (finish_fulfillment cfg i q dep caller cost s) = RequestCount s"
  "NotFirstBlock (finish_fulfillment cfg i q dep caller cost s) = NotFirstBlock s"
  "RandomnessResults (finish_fulfillment cfg i q dep caller cost s)
     = results_drop_request (type_of_info (info q)) (RandomnessResults s)"
  "block_number (finish_fulfillment cfg i q dep caller cost s) = block_number s"
  "rand_currency (finish_fulfillment cfg i q dep caller cost s)
     = finish_fulfill cfg q dep caller cost (rand_currency s)"
  by (simp_all add: finish_fulfillment_def)

lemmas rand_OkEs = request_randomness_OkE increase_request_fee_OkE execute_request_expiration_OkE
  on_finalize_OkE

lemma rand_step_counts [inv_intros]:
  assumes "rand_step cfg lib bounded s t" "counts_ok s"
  shows "counts_ok t"
  using assms(1)
proof cases
  case (block_start lookup_keys logs fake_vrf)
  from block_start(2) show ?thesis
  proof (cases rule: on_initialize_OkE)
    case first
    then show ?thesis by (intro counts_ok_frame [OF assms(2)]) simp_all
  next
    case (later h)
    then show ?thesis
      by (intro counts_ok_frame [OF assms(2)]) (simp_all add: set_local_output_counts)
  qed
next
  case (babe_inherent origin epoch random_opt)
  then show ?thesis by (intro counts_ok_frame [OF assms(2)]) (simp_all add: set_babe_Ok)
next
  case (request req new_id)
  from request(2) show ?thesis
  proof (cases rule: request_randomness_OkE)
    case (1 rs c next_id)
    then have "unat next_id = unat (RequestCount s) + 1" by (simp add: checked_add_Some)
    with 1 show ?thesis
      by (intro counts_ok_add [OF assms(2), of next_id _ rs]) (simp_all add: word_less_nat_alt)
  qed
next
  case (fulfill req_id rs args cost caller)
  then show ?thesis by (intro counts_ok_drop [OF assms(2) fulfill(3)]) simp_all
next
  case (increase caller req_id fee_increase)
  from increase(2) show ?thesis
  proof (cases rule: increase_request_fee_OkE)
    case (1 rs new_fee c)
    then show ?thesis by (intro counts_ok_update [OF assms(2) 1(1)]) simp_all
  qed
next
  case (expire caller req_id)
  from expire(2) show ?thesis
    by (cases rule: execute_request_expiration_OkE) (auto intro!: counts_ok_drop [OF assms(2)])
next
  case block_end
  then show ?thesis
    by (cases rule: on_finalize_OkE) (auto intro!: counts_ok_frame [OF assms(2)])
next
  case (rest_of_runtime c)
  then show ?thesis by (intro counts_ok_frame [OF assms(2)]) simp_all
qed

section \<open>Local results are filled when their block comes\<close>

definition local_filled :: "('h, 'cur) rand_state \<Rightarrow> bool" where
  "local_filled s \<longleftrightarrow>
     (NotFirstBlock s = None \<longrightarrow> RandomnessResults s = Map.empty) \<and>
     (\<forall>b r. RandomnessResults s (Local b) = Some r \<longrightarrow> unat b \<le> unat (block_number s) \<longrightarrow>
        randomness r \<noteq> None)"

lemma local_filledD:
  "local_filled s \<Longrightarrow> RandomnessResults s (Local b) = Some r \<Longrightarrow>
   unat b \<le> unat (block_number s) \<Longrightarrow> randomness r \<noteq> None"
  by (simp add: local_filled_def)

lemma local_filled_frame:
  assumes "local_filled s" "NotFirstBlock t = NotFirstBlock s" "block_number t = block_number s"
    and "\<And>b. RandomnessResults t (Local b) = RandomnessResults s (Local b)"
    and "NotFirstBlock t \<noteq> None \<or> RandomnessResults t = RandomnessResults s"
  shows "local_filled t"
  using assms by (auto simp: local_filled_def)

lemma results_drop_randomness:
  "results_drop_request key m k = Some r \<Longrightarrow> \<exists>r'. m k = Some r' \<and> randomness r' = randomness r"
  by (auto simp: results_drop_request_def decrement_request_count_def split: option.splits if_splits)

lemma local_filled_drop:
  assumes "local_filled s" "NotFirstBlock t = NotFirstBlock s" "block_number t = block_number s"
    and "NotFirstBlock s \<noteq> None"
    and "RandomnessResults t = results_drop_request key (RandomnessResults s)"
  shows "local_filled t"
  using assms unfolding local_filled_def by (metis results_drop_randomness)

lemma results_add_randomness:
  "results_add_request key m k = Some r \<Longrightarrow>
   (\<exists>r'. m k = Some r' \<and> randomness r' = randomness r) \<or> k = key"
  by (auto simp: results_add_request_def split: option.splits if_splits)

lemma results_add_filled:
  "results_add_request key m key = Some r \<Longrightarrow> m key = Some r' \<Longrightarrow> randomness r = randomness r'"
  by (auto simp: results_add_request_def increment_request_count_def)

lemma validate_local:
  assumes "validate cfg s q = Ok ()" "info q = LocalInfo b e"
  shows "unat (block_number s) + unat (MinBlockDelay cfg) \<le> unat b"
    and "unat b \<le> unat (block_number s) + unat (MaxBlockDelay cfg)"
  using assms by (auto simp: validate_def checked_add_Some word_le_nat_alt)

lemma local_filled_request:
  assumes "local_filled s" "request_randomness cfg req s = Ok (new_id, t)" "1 \<le> MinBlockDelay cfg"
    and "NotFirstBlock s \<noteq> None"
  shows "local_filled t"
  using assms(2)
proof (cases rule: request_randomness_OkE)
  case (1 rs c next_id)
  have min: "1 \<le> unat (MinBlockDelay cfg)" using assms(3) by (simp add: word_le_nat_alt)
  have "randomness r \<noteq> None"
    if r: "RandomnessResults t (Local b) = Some r" and le: "unat b \<le> unat (block_number t)" for b r
  proof (cases "Local b = request_key rs")
    case True
    then obtain e where "info (request_into cfg s req) = LocalInfo b e"
      using 1(1) by (cases "info (request_into cfg s req)") auto
    then have "unat (block_number s) + unat (MinBlockDelay cfg) \<le> unat b"
      using validate_local(1) 1(2) by blast
    with min le 1 show ?thesis by simp
  next
    case False
    with results_add_randomness [of "request_key rs" "RandomnessResults s" "Local b" r] r 1
    obtain r' where "RandomnessResults s (Local b) = Some r'" "randomness r' = randomness r"
      by auto
    moreover have "unat b \<le> unat (block_number s)" using le 1 by simp
    ultimately show ?thesis using local_filledD [OF assms(1), of b r'] by simp
  qed
  with 1 assms(4) show ?thesis by (simp add: local_filled_def)
qed

lemma local_filled_start:
  assumes "local_filled s" "unat (block_number s) + 1 < 2 ^ 32"
    and "on_initialize_rand cfg lib lookup_keys logs fake_vrf (s\<lparr>block_number := block_number s + 1\<rparr>) = Ok t"
  shows "local_filled t"
  using assms(3)
proof (cases rule: on_initialize_OkE)
  case first
  with assms(1) show ?thesis by (simp add: local_filled_def)
next
  case (later h)
  have next_block: "unat (block_number s + 1) = unat (block_number s) + 1"
    using assms(2) by (simp add: unat_add_no_wrap)
  have "randomness r \<noteq> None"
    if r: "RandomnessResults t (Local b) = Some r" and le: "unat b \<le> unat (block_number t)" for b r
  proof (cases "b = block_number s + 1")
    case True
    with r later show ?thesis by (auto simp: set_local_output_def Let_def split: option.splits)
  next
    case False
    then have "unat b \<noteq> unat (block_number s + 1)" using word_eqI_unat by blast
    with le next_block later have "unat b \<le> unat (block_number s)" by simp
    moreover have "RandomnessResults s (Local b) = Some r"
      using r False later by (auto simp: set_local_output_def Let_def split: option.splits)
    ultimately show ?thesis using local_filledD [OF assms(1)] by blast
  qed
  with later show ?thesis by (simp add: local_filled_def)
qed

lemma rand_step_filled [inv_intros]:
  assumes "rand_step cfg lib bounded s t" "local_filled s" "1 \<le> MinBlockDelay cfg"
  shows "local_filled t"
  using assms(1)
proof cases
  case (block_start lookup_keys logs fake_vrf)
  then show ?thesis by (rule local_filled_start [OF assms(2)])
next
  case (babe_inherent origin epoch random_opt)
  then show ?thesis by (intro local_filled_frame [OF assms(2)]) (simp_all add: set_babe_Ok)
next
  case (request req new_id)
  then show ?thesis using local_filled_request [OF assms(2)] assms(3) by blast
next
  case (fulfill req_id rs args cost caller)
  then show ?thesis by (intro local_filled_drop [OF assms(2)]) simp_all
next
  case (increase caller req_id fee_increase)
  from increase(2) show ?thesis
    by (cases rule: increase_request_fee_OkE) (auto intro!: local_filled_frame [OF assms(2)])
next
  case (expire caller req_id)
  from expire(2) show ?thesis
    by (cases rule: execute_request_expiration_OkE)
       (use expire(1) in \<open>auto intro!: local_filled_drop [OF assms(2)]\<close>)
next
  case block_end
  then show ?thesis
    by (cases rule: on_finalize_OkE) (auto intro!: local_filled_frame [OF assms(2)])
next
  case (rest_of_runtime c)
  then show ?thesis by (intro local_filled_frame [OF assms(2)]) simp_all
qed

section \<open>The pallet account holds the funds of the pending requests\<close>

definition locked :: "request_state \<Rightarrow> nat" where
  "locked rs = unat (saturating_add (rs_deposit rs) (fee (rs_request rs)))"

definition funds_ok :: "('origin, 'acct, 'cur, 'd, 'h) rand_config \<Rightarrow> ('h, 'cur) rand_state \<Rightarrow> bool" where
  "funds_ok cfg s \<longleftrightarrow> map_total locked (Requests s) \<le> unat (total_locked cfg s)"

text \<open>
  The currency keeps its documented laws and no user address maps to the account of the pallet,
  which is derived from the pallet id.
\<close>

definition funding_ok :: "('origin, 'acct, 'cur, 'd, 'h) rand_config \<Rightarrow> bool" where
  "funding_ok cfg \<longleftrightarrow> transfer_ok (Currency cfg) \<and> (\<forall>a. AddressMapping cfg a \<noteq> account_id cfg)"

abbreviation pallet_free :: "('origin, 'acct, 'cur, 'd, 'h) rand_config \<Rightarrow> 'cur \<Rightarrow> nat" where
  "pallet_free cfg c \<equiv> unat (cur_free_balance (Currency cfg) c (account_id cfg))"

lemma transfer_in:
  assumes "funding_ok cfg" "cur_transfer (Currency cfg) (AddressMapping cfg a) (account_id cfg) v c = Inr c'"
  shows "pallet_free cfg c' = pallet_free cfg c + unat v"
  using assms by (auto simp: funding_ok_def transfer_ok_def)

lemma transfer_out:
  assumes "funding_ok cfg" "cur_transfer (Currency cfg) (account_id cfg) (AddressMapping cfg a) v c = Inr c'"
  shows "pallet_free cfg c' + unat v = pallet_free cfg c"
  using assms unfolding funding_ok_def transfer_ok_def by metis

lemma try_transfer_out:
  assumes "funding_ok cfg"
  shows "pallet_free cfg c
    \<le> pallet_free cfg (try_transfer_or_log_error cfg (account_id cfg) (AddressMapping cfg a) v c) + unat v"
  using transfer_out [OF assms, of a v c]
  by (cases "cur_transfer (Currency cfg) (account_id cfg) (AddressMapping cfg a) v c")
     (auto simp: try_transfer_or_log_error_def)

text \<open>A fulfilment within the request's own funds takes no more than these out of the account.\<close>

lemma finish_fulfill_spends:
  assumes "funding_ok cfg" "unat cost \<le> unat (saturating_add dep (fee q))"
  shows "pallet_free cfg c
    \<le> pallet_free cfg (finish_fulfill cfg q dep caller cost c) + unat (saturating_add dep (fee q))"
proof -
  let ?total = "saturating_add dep (fee q)"
  from assms(2) obtain excess where ex: "checked_sub ?total cost = Some excess"
    and eq: "unat excess + unat cost = unat ?total"
    by (cases "checked_sub ?total cost") (auto simp: checked_sub_Some checked_sub_None)
  have "unat (saturating_add excess cost) = unat ?total"
    using eq unat_le_max [of ?total] by (simp add: unat_saturating_add)
  moreover let ?pay = "try_transfer_or_log_error cfg (account_id cfg)"
  let ?c1 = "?pay (AddressMapping cfg (refund_address q)) excess c"
  have "pallet_free cfg c
      \<le> pallet_free cfg (?pay (AddressMapping cfg caller) cost ?c1) + unat cost + unat excess"
    using try_transfer_out [OF assms(1), of c "refund_address q" excess]
      try_transfer_out [OF assms(1), of ?c1 caller cost] by linarith
  ultimately show ?thesis
    using try_transfer_out [OF assms(1), of c "refund_address q" "saturating_add excess cost"] ex eq
    by (cases "refund_address q = caller") (simp_all add: finish_fulfill_def Let_def)
qed

lemma execute_expiration_spends:
  assumes "funding_ok cfg"
    and "execute_expiration cfg s (AddressMapping cfg caller) rs c = (Ok (), c')"
  shows "pallet_free cfg c = pallet_free cfg c' + locked rs"
proof (cases "AddressMapping cfg caller = AddressMapping cfg (contract_address (rs_request rs))")
  case True
  with assms show ?thesis
    by (auto simp: execute_expiration_def Let_def locked_def transfer_out [OF assms(1), symmetric]
        split: if_splits sum.splits)
next
  case False
  with assms(2) obtain c1 where
    "cur_transfer (Currency cfg) (account_id cfg)
       (AddressMapping cfg (contract_address (rs_request rs))) (rs_deposit rs) c = Inr c1"
    "cur_transfer (Currency cfg) (account_id cfg) (AddressMapping cfg caller)
       (fee (rs_request rs)) c1 = Inr c'"
    by (auto simp: execute_expiration_def Let_def split: if_splits sum.splits)
  then have spent: "pallet_free cfg c1 + unat (rs_deposit rs) = pallet_free cfg c"
    "pallet_free cfg c' + unat (fee (rs_request rs)) = pallet_free cfg c1"
    using transfer_out [OF assms(1)] by blast+
  then have "unat (rs_deposit rs) + unat (fee (rs_request rs)) \<le> pallet_free cfg c" by linarith
  also have "\<dots> \<le> 2 ^ 128 - 1" using unat_le_max [where ?'a = 128] by simp
  finally show ?thesis using spent by (simp add: locked_def unat_saturating_add)
qed

lemma rand_step_funds [inv_intros]:
  assumes "rand_step cfg lib True s t" "funding_ok cfg" "counts_ok s" "funds_ok cfg s"
  shows "funds_ok cfg t"
proof -
  have fin: "finite (dom (Requests s))" using assms(3) by (simp add: counts_ok_def)
  have funds: "map_total locked (Requests s) \<le> pallet_free cfg (rand_currency s)"
    using assms(4) by (simp add: funds_ok_def total_locked_def)
  from assms(1) have "map_total locked (Requests t) \<le> pallet_free cfg (rand_currency t)"
  proof cases
    case (block_start lookup_keys logs fake_vrf)
    from block_start(2) funds show ?thesis by (cases rule: on_initialize_OkE) auto
  next
    case (babe_inherent origin epoch random_opt)
    with funds show ?thesis by (simp add: set_babe_Ok)
  next
    case (request req new_id)
    from request(2) show ?thesis
    proof (cases rule: request_randomness_OkE)
      case (1 rs c next_id)
      have "Requests s new_id = None" using assms(3) 1(3) by (auto simp: counts_ok_def dom_def)
      moreover have "locked rs = unat (saturating_add (Deposit cfg) (fee req))"
        by (simp add: 1(1) locked_def request_into_def)
      ultimately show ?thesis
        using funds transfer_in [OF assms(2) 1(5)] fin by (simp add: 1(6) map_total_insert)
    qed
  next
    case (fulfill req_id rs args cost caller)
    have "pallet_free cfg (rand_currency s) \<le> pallet_free cfg (rand_currency t) + locked rs"
      using finish_fulfill_spends [OF assms(2)] fulfill(1,5) by (simp add: locked_def)
    with funds map_total_remove [OF fin fulfill(3), of locked] fulfill(1) show ?thesis by simp
  next
    case (increase caller req_id fee_increase)
    from increase(2) show ?thesis
    proof (cases rule: increase_request_fee_OkE)
      case (1 rs new_fee c)
      let ?rs = "rs\<lparr>rs_request := (rs_request rs)\<lparr>fee := new_fee\<rparr>\<rparr>"
      have "locked ?rs \<le> locked rs + unat fee_increase"
        using 1(3) by (auto simp: locked_def unat_saturating_add checked_add_Some)
      with funds transfer_in [OF assms(2) 1(4)] map_total_update [OF fin 1(1), of locked ?rs]
      show ?thesis by (simp add: 1(5))
    qed
  next
    case (expire caller req_id)
    from expire(2) show ?thesis
    proof (cases rule: execute_request_expiration_OkE)
      case (1 rs c)
      from execute_expiration_spends [OF assms(2) 1(2)] funds map_total_remove [OF fin 1(1), of locked]
      show ?thesis by (simp add: 1(3))
    qed
  next
    case block_end
    then show ?thesis using funds by (cases rule: on_finalize_OkE) auto
  next
    case (rest_of_runtime c)
    with funds show ?thesis by (simp add: word_le_nat_alt)
  qed
  then show ?thesis by (simp add: funds_ok_def total_locked_def)
qed

text \<open>The pallet as an invariant system, with and without the bound on the claimed costs.\<close>

lemma rand_init_counts: "rand_init s \<Longrightarrow> counts_ok s"
  by (simp add: rand_init_def counts_ok_def ref_count_def keyed_def)

interpretation rand: invariant_system rand_init "rand_step cfg lib bounded"
  "\<lambda>s. counts_ok s \<and> (1 \<le> MinBlockDelay cfg \<longrightarrow> local_filled s)" for cfg lib bounded
proof (unfold_locales, goal_cases)
  case (1 s)
  then show ?case using rand_init_counts by (simp add: rand_init_def local_filled_def)
next
  case (2 s t)
  then show ?case using rand_step_counts rand_step_filled by blast
qed

interpretation rand_funds: invariant_system rand_init "rand_step cfg lib True"
  "\<lambda>s. counts_ok s \<and> (funding_ok cfg \<longrightarrow> funds_ok cfg s)" for cfg lib
proof (unfold_locales, goal_cases)
  case (1 s)
  then show ?case using rand_init_counts by (simp add: rand_init_def funds_ok_def)
next
  case (2 s t)
  then show ?case using rand_step_counts rand_step_funds by blast
qed

section \<open>A concrete chain for the witnesses\<close>

definition rd_cfg :: "(raw_origin, nat, ledger, string, u8) rand_config" where
  "rd_cfg = \<lparr>rand_system = raw_system, AddressMapping = (\<lambda>a. Suc (unat a)), Currency = ledger_currency,
     Deposit = 10, MaxRandomWords = 100, MinBlockDelay = 2, MaxBlockDelay = 2000,
     BlockExpirationDelay = 10000, EpochExpirationDelay = 10000, account_id = 0, hash_default = 5,
     hash_bytes = (\<lambda>h. [h]), salt_bytes = (\<lambda>_. [1]), Hashing = (\<lambda>_. 0), blake2_256 = (\<lambda>xs. xs)\<rparr>"

definition rd_lib :: "(u8, u8, u8, u8 list, u8, u8, u8) vrf_library" where
  "rd_lib = \<lparr>VrfInput_new = (\<lambda>_ items. concat (map snd items)), public_key_from_bytes = Some,
     vrf_verify = (\<lambda>_ _ _ _. True), make_bytes = (\<lambda>out _ _ _. Some [out]),
     hash_decode = (\<lambda>xs. case xs of [] \<Rightarrow> None | x # _ \<Rightarrow> Some x),
     pre_digest_decode = (\<lambda>xs. map_option fst (decode demo_pre_digest_codec xs)),
     nimbus_decode = (\<lambda>xs. map_option fst (decode byte_codec xs))\<rparr>"

definition rd_genesis :: "(u8, ledger) rand_state" where
  "rd_genesis = \<lparr>Requests = Map.empty, RequestCount = 0, LocalVrfOutput = None, RelayEpoch = 0,
     RandInherentIncluded = None, NotFirstBlock = None, RandomnessResults = Map.empty,
     PreviousLocalVrfOutput = 0, block_number = 0, rand_currency = (\<lambda>_. (1000, 0)), rand_events = []\<rparr>"

definition rd_block1 :: "(u8, ledger) rand_state" where
  "rd_block1 = rd_genesis\<lparr>block_number := 1, NotFirstBlock := Some (), LocalVrfOutput := Some 5\<rparr>"

definition rd_request :: "request_type request" where
  "rd_request = \<lparr>refund_address = 1, contract_address = 2, fee = 7, gas_limit = 100, num_words = 3,
     salt = 0, info = Local 3\<rparr>"

definition rd_pending :: "(u8, ledger) rand_state" where
  "rd_pending = rd_block1\<lparr>
     Requests := [0 \<mapsto> \<lparr>rs_request = request_into rd_cfg rd_block1 rd_request, rs_deposit = 10\<rparr>],
     RequestCount := 1, RandomnessResults := [Local 3 \<mapsto> \<lparr>randomness = None, request_count = 1\<rparr>],
     rand_currency := (\<lambda>_. (1000, 0))(3 := (983, 0), 0 := (1017, 0)),
     rand_events := [RandomnessRequestedLocal 0 1 2 7 100 3 0 3]\<rparr>"

definition rd_block2 :: "(u8, ledger) rand_state" where
  "rd_block2 = rd_pending\<lparr>block_number := 2\<rparr>"

definition rd_block3 :: "(u8, ledger) rand_state" where
  "rd_block3 = rd_pending\<lparr>block_number := 3,
     RandomnessResults := [Local 3 \<mapsto> \<lparr>randomness = Some 5, request_count = 1\<rparr>]\<rparr>"

lemmas rd_defs = rd_cfg_def rd_genesis_def rd_block1_def rd_request_def rd_pending_def rd_block2_def
  rd_block3_def request_into_def

lemma rd_funding_ok: "funding_ok rd_cfg"
  by (simp add: funding_ok_def rd_cfg_def ledger_transfer_ok)

lemma rd_step1: "rand_step rd_cfg rd_lib True rd_genesis rd_block1"
  by (rule rand_step.block_start [where lookup_keys = "\<lambda>_. None" and logs = "[]" and fake_vrf = True])
     (simp_all add: on_initialize_rand_def rd_defs)

lemma rd_step2: "rand_step rd_cfg rd_lib True rd_block1 rd_pending"
proof (rule rand_step.request)
  show "request_randomness rd_cfg rd_request rd_block1 = Ok (0, rd_pending)"
    by (simp add: request_randomness_def request_state_new_def validate_def rd_defs checked_add_def
        checked_sub_def saturating_add_def concrete_frame Let_def results_add_request_def
        randomness_result_new_def emit_randomness_requested_event_def deposit_event_rand_def
        word_le_nat_alt fun_upd_twist)
qed (simp add: rd_defs)

lemma rd_step3: "rand_step rd_cfg rd_lib True rd_pending rd_block2"
  by (rule rand_step.block_start [where lookup_keys = "\<lambda>_. None" and logs = "[]" and fake_vrf = True])
     (simp_all add: on_initialize_rand_def verify_and_set_output_def set_local_output_def rd_defs)

lemma rd_step4: "rand_step rd_cfg rd_lib True rd_block2 rd_block3"
  by (rule rand_step.block_start [where lookup_keys = "\<lambda>_. None" and logs = "[]" and fake_vrf = True])
     (simp_all add: on_initialize_rand_def verify_and_set_output_def set_local_output_def rd_defs)

lemma rd_reachable: "reachable rand_init (rand_step rd_cfg rd_lib True) rd_block3"
proof -
  let ?reach = "reachable rand_init (rand_step rd_cfg rd_lib True)"
  have "?reach rd_genesis" by (rule reach_init) (simp add: rand_init_def rd_genesis_def)
  then have "?reach rd_block1" using rd_step1 by (rule reach_step)
  then have "?reach rd_pending" using rd_step2 by (rule reach_step)
  then have "?reach rd_block2" using rd_step3 by (rule reach_step)
  then show ?thesis using rd_step4 by (rule reach_step)
qed

section \<open>Properties\<close>

text \<open>
  C4: The reference counts are exact: in every reachable state the count stored for a kind of
  randomness is the number of pending requests for it, and a result is stored exactly as long as
  one is pending.
\<close>

theorem request_counts_exact:
  assumes "reachable rand_init (rand_step cfg lib bounded) s"
  shows "ref_count (RandomnessResults s) k = card (keyed (Requests s) k) \<and>
     (RandomnessResults s k = None \<longleftrightarrow> keyed (Requests s) k = {})"
proof -
  have inv: "counts_ok s" using rand.invar_reachable [OF assms] by simp
  then have cnt: "ref_count (RandomnessResults s) k = card (keyed (Requests s) k)"
    and fin: "finite (keyed (Requests s) k)"
    by (auto simp: counts_ok_def)
  moreover have "RandomnessResults s k = None \<longleftrightarrow> ref_count (RandomnessResults s) k = 0"
    using inv by (cases "RandomnessResults s k") (auto simp: ref_count_def counts_ok_def unat_gt_0)
  ultimately show ?thesis by simp
qed

theorem request_counts_exact_witness:
  "ref_count (RandomnessResults rd_block3) (Local 3) = card (keyed (Requests rd_block3) (Local 3)) \<and>
   RandomnessResults rd_block3 (Local 3) \<noteq> None"
  using request_counts_exact [OF rd_reachable, of "Local 3"] by (simp add: rd_block3_def)

text \<open>
  C6: A pending local request that is due can always be fulfilled, and yields one word per word
  requested: the errors for a missing or unfilled result are never hit, as the comments in
  \<^verbatim>\<open>get_random_words\<close> expect. It needs a minimal delay of at least one block.
\<close>

theorem local_request_fulfillable:
  assumes "reachable rand_init (rand_step cfg lib bounded) s" "1 \<le> MinBlockDelay cfg"
    and "Requests s req_id = Some rs" "info (rs_request rs) = LocalInfo block_due expires"
    and "block_due \<le> block_number s"
  shows "\<exists>args. prepare_fulfillment cfg req_id s = Ok args \<and> fa_request args = rs_request rs \<and>
     fa_deposit args = rs_deposit rs \<and>
     length (fa_randomness args) = unat (num_words (rs_request rs))"
proof -
  have inv: "counts_ok s" "local_filled s"
    using rand.invar_reachable [OF assms(1)] assms(2) by simp_all
  have "keyed (Requests s) (Local block_due) \<noteq> {}"
    using assms(3,4) by (auto simp: keyed_def intro!: exI [of _ req_id])
  then have "ref_count (RandomnessResults s) (Local block_due) \<noteq> 0"
    using inv(1) by (simp add: counts_ok_def)
  then obtain r where r: "RandomnessResults s (Local block_due) = Some r"
    by (auto simp: ref_count_def split: option.splits)
  then obtain h where "randomness r = Some h"
    using local_filledD [OF inv(2) r] assms(5) by (auto simp: word_le_nat_alt)
  with r assms(3-5) show ?thesis
    by (simp add: prepare_fulfillment_def prepare_fulfill_def get_random_words_def
        can_be_fulfilled_def compute_random_words_def)
qed

theorem local_request_fulfillable_witness:
  "\<exists>args. prepare_fulfillment rd_cfg 0 rd_block3 = Ok args \<and> length (fa_randomness args) = 3"
proof -
  let ?rs = "\<lparr>rs_request = request_into rd_cfg rd_block1 rd_request, rs_deposit = 10\<rparr>"
  have "Requests rd_block3 0 = Some ?rs" "info (rs_request ?rs) = LocalInfo 3 (saturating_add 1 10000)"
    "1 \<le> MinBlockDelay rd_cfg" "3 \<le> block_number rd_block3"
    "unat (num_words (rs_request ?rs)) = 3"
    by (simp_all add: rd_defs)
  with local_request_fulfillable [OF rd_reachable, of 0 ?rs] show ?thesis by metis
qed

text \<open>
  C5: As long as no fulfiller claims more than the deposit and the fee of the request it fulfils,
  the pallet account holds at least the deposits and fees of all pending requests.
\<close>

theorem pending_funds_covered:
  assumes "reachable rand_init (rand_step cfg lib True) s" "funding_ok cfg"
  shows "map_total locked (Requests s) \<le> unat (total_locked cfg s)"
  using rand_funds.invar_reachable [OF assms(1)] assms(2) by (simp add: funds_ok_def)

theorem pending_funds_covered_witness:
  "map_total locked (Requests rd_block3) \<le> unat (total_locked rd_cfg rd_block3)"
  by (rule pending_funds_covered [OF rd_reachable rd_funding_ok])

text \<open>
  Executing an expiration pays out exactly what was locked for the request, from the pallet
  account, and removes the request; nothing else that is pending changes.
\<close>

theorem expiration_pays_out:
  assumes "execute_request_expiration cfg caller req_id s = (Ok (), t)" "funding_ok cfg"
  shows "\<exists>rs. Requests s req_id = Some rs \<and> is_expired s (rs_request rs) \<and>
     unat (total_locked cfg s) = unat (total_locked cfg t) + locked rs \<and>
     Requests t = (Requests s)(req_id := None)"
  using assms(1)
proof (cases rule: execute_request_expiration_OkE)
  case (1 rs c)
  have "is_expired s (rs_request rs)" using 1(2) by (auto simp: execute_expiration_def split: if_splits)
  with 1 execute_expiration_spends [OF assms(2) 1(2)] show ?thesis
    by (simp add: total_locked_def)
qed

theorem expiration_pays_out_witness:
  "\<exists>t. execute_request_expiration rd_cfg 8 0 (rd_block3\<lparr>block_number := 20000\<rparr>) = (Ok (), t) \<and>
     Requests t 0 = None"
proof -
  obtain t where t: "execute_request_expiration rd_cfg 8 0 (rd_block3\<lparr>block_number := 20000\<rparr>) = (Ok (), t)"
    by (simp add: execute_request_expiration_def execute_expiration_def is_expired_def rd_defs
        saturating_add_def checked_sub_def checked_add_def concrete_frame word_le_nat_alt)
  with expiration_pays_out [OF t rd_funding_ok] show ?thesis by auto
qed

text \<open>
  A claim above the deposit and the fee is still paid in full: a fulfiller of one request can
  be paid with the funds of another, after which the pending request is no longer covered.
\<close>

theorem overclaimed_cost_breaks_cover:
  "\<exists>cfg s cost caller. funding_ok cfg \<and> funds_ok cfg s \<and> dom (Requests s) = {0, 1} \<and>
     (let rs = the (Requests s 0);
          t = finish_fulfillment (cfg :: (raw_origin, nat, ledger, string, u8) rand_config)
                0 (rs_request rs) (rs_deposit rs) caller cost s
      in \<not> funds_ok cfg t \<and> Requests t 1 \<noteq> None)"
proof -
  define rs where "rs = \<lparr>rs_request = request_into rd_cfg rd_block1 rd_request, rs_deposit = 10\<rparr>"
  define s where "s = rd_block1\<lparr>Requests := [0 \<mapsto> rs, 1 \<mapsto> rs], RequestCount := 2,
    rand_currency := (\<lambda>_. (0, 0))(0 := (34, 0))\<rparr>"
  have lock: "locked rs = 17"
    by (simp add: locked_def rs_def rd_defs unat_saturating_add)
  have "map_total locked ([0 \<mapsto> rs, 1 \<mapsto> rs] :: u64 \<rightharpoonup> request_state) = 34"
    by (subst map_total_insert) (simp_all add: lock map_total_insert)
  then have "funds_ok rd_cfg s"
    by (simp add: funds_ok_def s_def total_locked_def rd_cfg_def ledger_currency_def)
  moreover have "\<not> funds_ok rd_cfg (finish_fulfillment rd_cfg 0 (rs_request rs) (rs_deposit rs) 9 30 s)"
  proof -
    have dom: "([0 \<mapsto> rs, 1 \<mapsto> rs] :: u64 \<rightharpoonup> request_state)(0 := None) = [1 \<mapsto> rs]" by auto
    have "map_total locked ([1 \<mapsto> rs] :: u64 \<rightharpoonup> request_state) = 17"
      by (subst map_total_insert) (simp_all add: lock)
    then show ?thesis
      by (simp add: funds_ok_def dom s_def total_locked_def finish_fulfill_def rs_def rd_defs Let_def
          checked_sub_def checked_add_def saturating_add_def try_transfer_or_log_error_def concrete_frame)
  qed
  moreover have "dom (Requests s) = {0, 1}" "Requests s 0 = Some rs" "Requests s 1 = Some rs"
    by (auto simp: s_def)
  ultimately show ?thesis using rd_funding_ok
    by (intro exI [of _ rd_cfg] exI [of _ s] exI [of _ 30] exI [of _ 9]) (simp add: Let_def)
qed

text \<open>
  The acceptance window: validation passes exactly when the number of words is between one and
  the maximum and, for local requests, the due block lies between the minimal and the maximal delay
  after the current block, with no overflow of the block number.
\<close>

theorem validate_window:
  "validate cfg s q = Ok () \<longleftrightarrow>
     1 \<le> unat (num_words q) \<and> unat (num_words q) \<le> unat (MaxRandomWords cfg) \<and>
     (case info q of
        BabeEpochInfo _ _ \<Rightarrow> True
      | LocalInfo b _ \<Rightarrow>
          unat (block_number s) + unat (MinBlockDelay cfg) \<le> unat b \<and>
          unat b \<le> unat (block_number s) + unat (MaxBlockDelay cfg) \<and>
          unat (block_number s) + unat (MaxBlockDelay cfg) < 2 ^ 32)"
proof (cases "info q")
  case (LocalInfo b e)
  have "unat b < 2 ^ 32" using unat_le_max [of b] by simp
  with LocalInfo show ?thesis
    by (auto simp: validate_def word_le_nat_alt checked_add_Some checked_add_def unat_add_no_wrap)
qed (auto simp: validate_def word_le_nat_alt)

text \<open>
  Nothing checks the epoch of a BABE request: one made for an epoch that has already started
  counts as due at once, but its result is not filled, and fulfilment fails with the error that
  the source calls a bug. The inherent of later epochs does not fill it either.
\<close>

theorem babe_request_for_started_epoch_stuck:
  assumes "request_randomness cfg req s = Ok (new_id, t)" "info req = BabeEpoch epoch"
    and "epoch \<le> RelayEpoch s" "RandomnessResults s (BabeEpoch epoch) = None"
  shows "prepare_fulfillment cfg new_id t = Err (ModuleError RandomnessResultNotFilled) \<and>
     (\<forall>origin index random_opt u. set_babe_randomness_results cfg origin index random_opt t = Ok u \<longrightarrow>
        RandomnessResults u (BabeEpoch epoch) = RandomnessResults t (BabeEpoch epoch))"
  using assms(1)
proof (cases rule: request_randomness_OkE)
  case (1 rs c next_id)
  have key: "request_key rs = BabeEpoch epoch" and inf: "\<exists>e. info (rs_request rs) = BabeEpochInfo epoch e"
    using assms(2) 1(1) by (simp_all add: request_into_def)
  have relay: "RelayEpoch t = RelayEpoch s"
    by (simp add: 1(6) emit_randomness_requested_event_def)
  have "RandomnessResults t (BabeEpoch epoch) = Some randomness_result_new"
    using assms(4) by (simp add: 1(6) key results_add_request_def)
  moreover have "Requests t new_id = Some rs" by (simp add: 1(6))
  ultimately have "prepare_fulfillment cfg new_id t = Err (ModuleError RandomnessResultNotFilled)"
    using inf assms(3) relay
    by (auto simp: prepare_fulfillment_def prepare_fulfill_def get_random_words_def
        can_be_fulfilled_def randomness_result_new_def)
  then show ?thesis
    using assms(3) relay
    by (auto simp: set_babe_randomness_results_def Let_def split: option.splits if_splits)
qed

theorem babe_request_for_started_epoch_stuck_witness:
  "\<exists>new_id t. request_randomness rd_cfg (rd_request\<lparr>info := BabeEpoch 0\<rparr>) rd_block1 = Ok (new_id, t) \<and>
     prepare_fulfillment rd_cfg new_id t = Err (ModuleError RandomnessResultNotFilled)"
proof -
  obtain new_id t where t: "request_randomness rd_cfg (rd_request\<lparr>info := BabeEpoch 0\<rparr>) rd_block1 = Ok (new_id, t)"
    by (simp add: request_randomness_def request_state_new_def validate_def rd_defs checked_add_def
        checked_sub_def saturating_add_def concrete_frame Let_def word_le_nat_alt)
  have "prepare_fulfillment rd_cfg new_id t = Err (ModuleError RandomnessResultNotFilled)"
    using babe_request_for_started_epoch_stuck [OF t, of 0] by (simp add: rd_defs)
  with t show ?thesis by blast
qed

text \<open>
  The digest that is found is the first VRF digest of the block, and the key is that of the last author digest before it.
\<close>

lemma find_vrf_digest_logs:
  assumes "find_vrf_digest lib lookup_keys logs acc = Ok (digest, key)"
  shows "\<exists>before vrf after. logs = before @ (VRF_ENGINE_ID, vrf) # after \<and> VRF_ENGINE_ID \<notin> fst ` set before \<and>
     pre_digest_decode lib vrf = Some digest \<and>
     (case map_of (rev before) NIMBUS_ENGINE_ID of
        Some data \<Rightarrow> \<exists>nid. nimbus_decode lib data = Some nid \<and> lookup_keys nid \<noteq> None \<and> key = lookup_keys nid
      | None \<Rightarrow> key = acc)"
  using assms
proof (induction lib lookup_keys logs acc rule: find_vrf_digest.induct)
  case (2 lib lookup_keys engine data logs acc)
  note prem = 2(3) and IH = 2(1,2)
  consider "engine = VRF_ENGINE_ID" | "engine \<noteq> VRF_ENGINE_ID" "engine = NIMBUS_ENGINE_ID"
    | "engine \<noteq> VRF_ENGINE_ID" "engine \<noteq> NIMBUS_ENGINE_ID" by blast
  then show ?case
  proof cases
    case 1
    with prem show ?thesis by (intro exI [of _ "[]"] exI [of _ data] exI [of _ logs]) (auto split: option.splits)
  next
    case 2
    with prem obtain nid vrf_id where nid: "nimbus_decode lib data = Some nid" "lookup_keys nid = Some vrf_id"
      and rest: "find_vrf_digest lib lookup_keys logs (Some vrf_id) = Ok (digest, key)" by (auto split: option.splits)
    from IH(1) [OF 2 rest] obtain before vrf after where
      "logs = before @ (VRF_ENGINE_ID, vrf) # after" "VRF_ENGINE_ID \<notin> fst ` set before" "pre_digest_decode lib vrf = Some digest"
      "case map_of (rev before) NIMBUS_ENGINE_ID of
         Some data \<Rightarrow> \<exists>nid. nimbus_decode lib data = Some nid \<and> lookup_keys nid \<noteq> None \<and> key = lookup_keys nid
       | None \<Rightarrow> key = Some vrf_id" by blast
    with nid 2 show ?thesis
      by (intro exI [of _ "(engine, data) # before"] exI [of _ vrf] exI [of _ after])
         (auto simp: map_add_def split: option.splits)
  next
    case 3
    with prem have rest: "find_vrf_digest lib lookup_keys logs acc = Ok (digest, key)" by simp
    from IH(2) [OF 3 rest] obtain before vrf after where
      "logs = before @ (VRF_ENGINE_ID, vrf) # after" "VRF_ENGINE_ID \<notin> fst ` set before" "pre_digest_decode lib vrf = Some digest"
      "case map_of (rev before) NIMBUS_ENGINE_ID of
         Some data \<Rightarrow> \<exists>nid. nimbus_decode lib data = Some nid \<and> lookup_keys nid \<noteq> None \<and> key = lookup_keys nid
       | None \<Rightarrow> key = acc" by blast
    with 3 show ?thesis
      by (intro exI [of _ "(engine, data) # before"] exI [of _ vrf] exI [of _ after])
         (auto simp: map_add_def split: option.splits)
  qed
qed simp

lemma get_and_verify_OkE:
  assumes "get_and_verify_randomness cfg lib lookup_keys logs s = Ok h"
  obtains digest vrf_id pk bytes where "find_vrf_digest lib lookup_keys logs None = Ok (digest, Some vrf_id)"
    "public_key_from_bytes lib vrf_id = Some pk"
    "vrf_verify lib pk (make_vrf_transcript lib (hash_bytes cfg) (case LocalVrfOutput s of Some x \<Rightarrow> x | None \<Rightarrow> hash_default cfg))
       (vrf_output digest) (vrf_proof digest)"
    "make_bytes lib (vrf_output digest) pk
       (make_vrf_transcript lib (hash_bytes cfg) (case LocalVrfOutput s of Some x \<Rightarrow> x | None \<Rightarrow> hash_default cfg)) VRF_INOUT_CONTEXT = Some bytes"
    "hash_decode lib bytes = Some h"
  using assms by (auto simp: get_and_verify_randomness_def Let_def)

text \<open>
  C36: A block past the first one, without a faked VRF, is only initialised with a verified VRF output: the output and the proof of the first VRF
  digest of the block verify, against the output of the block before, under the VRF key registered for the key in the last author digest
  before it (the author, in a block with one author digest), and the randomness derived from this output is stored and given
  to the requests of this block.
\<close>

theorem block_vrf_verified:
  assumes "on_initialize_rand cfg lib lookup_keys logs False s = Ok t" "NotFirstBlock s \<noteq> None"
  shows "\<exists>before vrf after digest data nid vrf_id pk h bytes transcript.
     logs = before @ (VRF_ENGINE_ID, vrf) # after \<and> VRF_ENGINE_ID \<notin> fst ` set before \<and> pre_digest_decode lib vrf = Some digest \<and>
     map_of (rev before) NIMBUS_ENGINE_ID = Some data \<and> nimbus_decode lib data = Some nid \<and>
     lookup_keys nid = Some vrf_id \<and> public_key_from_bytes lib vrf_id = Some pk \<and>
     transcript = make_vrf_transcript lib (hash_bytes cfg)
                    (case LocalVrfOutput s of Some x \<Rightarrow> x | None \<Rightarrow> hash_default cfg) \<and>
     vrf_verify lib pk transcript (vrf_output digest) (vrf_proof digest) \<and>
     make_bytes lib (vrf_output digest) pk transcript VRF_INOUT_CONTEXT = Some bytes \<and>
     hash_decode lib bytes = Some h \<and>
     LocalVrfOutput t = Some h \<and>
     (\<forall>r. RandomnessResults t (Local (block_number s)) = Some r \<longrightarrow> randomness r = Some h)"
proof -
  from assms obtain h where g: "get_and_verify_randomness cfg lib lookup_keys logs s = Ok h"
    and t: "t = set_local_output h s"
    by (auto simp: on_initialize_rand_def verify_and_set_output_def)
  have stored: "LocalVrfOutput t = Some h"
    "\<forall>r. RandomnessResults t (Local (block_number s)) = Some r \<longrightarrow> randomness r = Some h"
    by (auto simp: t set_local_output_def Let_def split: option.splits)
  from get_and_verify_OkE [OF g] obtain digest vrf_id pk bytes where v: "find_vrf_digest lib lookup_keys logs None = Ok (digest, Some vrf_id)"
    "public_key_from_bytes lib vrf_id = Some pk"
    "vrf_verify lib pk (make_vrf_transcript lib (hash_bytes cfg) (case LocalVrfOutput s of Some x \<Rightarrow> x | None \<Rightarrow> hash_default cfg))
       (vrf_output digest) (vrf_proof digest)"
    "make_bytes lib (vrf_output digest) pk
       (make_vrf_transcript lib (hash_bytes cfg) (case LocalVrfOutput s of Some x \<Rightarrow> x | None \<Rightarrow> hash_default cfg)) VRF_INOUT_CONTEXT = Some bytes"
    "hash_decode lib bytes = Some h" .
  from find_vrf_digest_logs [OF v(1)] obtain before vrf after data nid where
    "logs = before @ (VRF_ENGINE_ID, vrf) # after" "VRF_ENGINE_ID \<notin> fst ` set before" "pre_digest_decode lib vrf = Some digest"
    "map_of (rev before) NIMBUS_ENGINE_ID = Some data" "nimbus_decode lib data = Some nid" "lookup_keys nid = Some vrf_id"
    by (auto split: option.splits)
  with v(2-) stored show ?thesis by blast
qed

theorem block_vrf_verified_witness:
  "\<exists>t h. on_initialize_rand rd_cfg rd_lib (\<lambda>n. if n = 7 then Some 9 else None)
       [(NIMBUS_ENGINE_ID, [7]), (VRF_ENGINE_ID, [42, 1])] False rd_block1 = Ok t \<and>
     LocalVrfOutput t = Some h"
proof -
  let ?run = "on_initialize_rand rd_cfg rd_lib (\<lambda>n. if n = 7 then Some 9 else None)
       [(NIMBUS_ENGINE_ID, [7]), (VRF_ENGINE_ID, [42, 1])] False rd_block1"
  obtain t where t: "?run = Ok t"
    by (simp add: on_initialize_rand_def verify_and_set_output_def get_and_verify_randomness_def
        rd_lib_def rd_block1_def NIMBUS_ENGINE_ID_def VRF_ENGINE_ID_def byte_codec_def
        demo_pre_digest_codec_def Let_def)
  have "NotFirstBlock rd_block1 \<noteq> None" by (simp add: rd_block1_def)
  with block_vrf_verified [OF t] t show ?thesis by blast
qed

end
