(* ===== verification/Async_Backing.thy ===== *)
theory Async_Backing
  imports Frame_Interfaces
begin

text \<open>
  \<^verbatim>\<open>pallets/async-backing\<close>: the parachain slot providers and the stored slot information
  (\<^verbatim>\<open>lib.rs\<close>), and the consensus hook that bounds the number of parachain blocks per relay slot
  (\<^verbatim>\<open>consensus_hook.rs\<close>). Unchecked additions wrap, as in the release profile of the repository.
\<close>

section \<open>Slot providers\<close>

text \<open>\<open>from_timestamp\<close> is \<^verbatim>\<open>Slot::from_timestamp\<close> of \<^verbatim>\<open>sp_consensus_slots\<close>.\<close>

definition relay_slot_get_and_verify :: "u64 \<Rightarrow> (string, u64) result" where
  "relay_slot_get_and_verify relay_chain_slot = Ok relay_chain_slot"

definition para_slot_get_and_verify ::
    "(u64 \<Rightarrow> u64 \<Rightarrow> u64) \<Rightarrow> u32 \<Rightarrow> u64 \<times> u64 \<Rightarrow> u64 \<Rightarrow> (string, u64) result" where
  "para_slot_get_and_verify from_timestamp relay_millis provided relay_chain_slot =
     (let relay_chain_timestamp = saturating_mul (ucast relay_millis) relay_chain_slot;
          (new_slot, para_slot_duration) = provided;
          para_slot_from_relay = from_timestamp relay_chain_timestamp para_slot_duration
      in if new_slot = para_slot_from_relay then Ok new_slot else Err ''Unexpected slot'')"

section \<open>State and calls\<close>

record ab_state =
  SlotInfo :: "(u64 \<times> u32) option"
  RelayParentOffset :: u32

definition DefaultRelayParentOffset :: u32 where
  "DefaultRelayParentOffset = 1"

definition ab_genesis :: ab_state where
  "ab_genesis = \<lparr>SlotInfo = None, RelayParentOffset = DefaultRelayParentOffset\<rparr>"

record 'w ab_config =
  AllowMultipleBlocksPerSlot :: bool
  ab_SlotDuration :: u64
  slot_from_timestamp :: "u64 \<Rightarrow> u64 \<Rightarrow> u64"
  reads_writes :: "nat \<Rightarrow> nat \<Rightarrow> 'w"
  RELAY_CHAIN_SLOT_DURATION_MILLIS :: u32
  hook_V :: u32
  hook_C :: u32

definition set_relay_parent_offset ::
    "('origin, 'acct, 'd) frame_system \<Rightarrow> 'origin \<Rightarrow> u32 \<Rightarrow> ab_state
      \<Rightarrow> ((unit, 'd) dispatch_error, ab_state) result" where
  "set_relay_parent_offset sys origin new_offset s =
     and_then (from_frame (ensure_root sys origin))
     (\<lambda>_. Ok (s\<lparr>RelayParentOffset := new_offset\<rparr>))"

definition ab_get :: "ab_state \<Rightarrow> u32" where
  "ab_get s = RelayParentOffset s"

definition post_inherents :: "'w ab_config \<Rightarrow> u64 \<Rightarrow> ab_state \<Rightarrow> (unit, unit) result" where
  "post_inherents cfg now s =
     and_then (assert_that (ab_SlotDuration cfg \<noteq> 0) ''Nimbus slot duration cannot be zero.'')
     (\<lambda>_. let timestamp_slot = now div ab_SlotDuration cfg
          in and_then (expect ''Relay slot to exist'' (SlotInfo s))
     (\<lambda>(current_slot, _). assert_that (current_slot = timestamp_slot)
        ''The parachain timestamp slot must match the relay chain slot.''))"

section \<open>The consensus hook\<close>

definition velocity :: "'w ab_config \<Rightarrow> u32" where
  "velocity cfg = max (hook_V cfg) 1"

definition on_state_proof_inner ::
    "'w ab_config \<Rightarrow> (u64 \<Rightarrow> (string, u64) result) \<Rightarrow> u64 \<Rightarrow> ab_state
      \<Rightarrow> (unit, ('w \<times> u32) \<times> ab_state) result" where
  "on_state_proof_inner cfg get_and_verify_slot relay_chain_slot s =
     and_then
       (case SlotInfo s of
          Some (slot, authored) \<Rightarrow>
            if slot = relay_chain_slot then
              (if \<not> AllowMultipleBlocksPerSlot cfg
               then Panic ''Block invalid; Supplied slot number is not high enough''
               else Ok (slot, authored))
            else if slot < relay_chain_slot then Ok (relay_chain_slot, 0)
            else Panic ''Slot moved backwards''
        | None \<Rightarrow> Ok (relay_chain_slot, 0))
     (\<lambda>(relay_chain_slot, authored_in_relay).
        and_then (assert_that (\<not> authored_in_relay > velocity cfg)
                    ''authored blocks limit is reached for the slot'')
     (\<lambda>_. let s' = s\<lparr>SlotInfo := Some (relay_chain_slot, authored_in_relay + 1)\<rparr>
          in and_then (case get_and_verify_slot relay_chain_slot of
                         Ok p \<Rightarrow> Ok p
                       | _ \<Rightarrow> Panic ''slot number mismatch'')
     (\<lambda>para_slot.
        let relay_chain_timestamp =
              saturating_mul (ucast (RELAY_CHAIN_SLOT_DURATION_MILLIS cfg)) relay_chain_slot;
            para_slot_from_relay =
              slot_from_timestamp cfg relay_chain_timestamp (ab_SlotDuration cfg)
        in and_then (assert_that (\<not> para_slot > para_slot_from_relay)
                       ''Parachain slot is too far in the future'')
     (\<lambda>_. Ok ((reads_writes cfg 1 1, max (hook_C cfg) 1), s')))))"

text \<open>\<open>read_slot\<close> is the access to the relay chain state proof.\<close>

definition on_state_proof ::
    "'w ab_config \<Rightarrow> ('proof \<Rightarrow> u64 option) \<Rightarrow> (u64 \<Rightarrow> (string, u64) result) \<Rightarrow> 'proof \<Rightarrow> ab_state
      \<Rightarrow> (unit, ('w \<times> u32) \<times> ab_state) result" where
  "on_state_proof cfg read_slot get_and_verify_slot state_proof s =
     and_then (expect ''failed to read relay chain slot'' (read_slot state_proof))
     (\<lambda>relay_chain_slot. on_state_proof_inner cfg get_and_verify_slot relay_chain_slot s)"

text \<open>\<open>segment_size_after\<close> is \<^verbatim>\<open>unincluded_segment_size_after\<close> of the parachain-system pallet.\<close>

definition can_build_upon ::
    "'w ab_config \<Rightarrow> ('hash \<Rightarrow> u32) \<Rightarrow> 'hash \<Rightarrow> u64 \<Rightarrow> ab_state \<Rightarrow> bool" where
  "can_build_upon cfg segment_size_after included_hash new_slot s =
     (case SlotInfo s of
        None \<Rightarrow> True
      | Some (last_slot, authored_so_far) \<Rightarrow>
          let size_after_included = segment_size_after included_hash
          in if size_after_included \<ge> hook_C cfg then False
             else if last_slot = new_slot then authored_so_far < velocity cfg + 1
             else last_slot < new_slot)"

text \<open>
  The runtime API that collators ask (\<^verbatim>\<open>primitives/async-backing\<close>) is declared without a version attribute, which makes it version 1.
\<close>

definition UnincludedSegmentApi_version :: nat where
  "UnincludedSegmentApi_version = 1"

text \<open>
  The chain as the hook sees it: one state proof per block, with the value the slot provider
  returns in that block.
\<close>

fun run_state_proofs ::
    "'w ab_config \<Rightarrow> ('env \<Rightarrow> u64 \<Rightarrow> (string, u64) result) \<Rightarrow> ('env \<times> u64) list \<Rightarrow> ab_state
      \<Rightarrow> (unit, ab_state) result" where
  "run_state_proofs cfg verify [] s = Ok s"
| "run_state_proofs cfg verify ((env, slot) # blocks) s =
     and_then (on_state_proof_inner cfg (verify env) slot s)
              (\<lambda>(_, s'). run_state_proofs cfg verify blocks s')"

section \<open>One block\<close>

text \<open>The conditions under which the hook accepts a relay slot.\<close>

definition slot_accepted :: "'w ab_config \<Rightarrow> u64 \<Rightarrow> (u64 \<times> u32) option \<Rightarrow> bool" where
  "slot_accepted cfg slot info =
     (case info of
        None \<Rightarrow> True
      | Some (last_slot, authored) \<Rightarrow>
          last_slot < slot \<or>
          last_slot = slot \<and> AllowMultipleBlocksPerSlot cfg \<and> authored \<le> velocity cfg)"

definition para_slot_fits :: "'w ab_config \<Rightarrow> (u64 \<Rightarrow> (string, u64) result) \<Rightarrow> u64 \<Rightarrow> bool" where
  "para_slot_fits cfg verify slot =
     (case verify slot of
        Ok p \<Rightarrow> p \<le> slot_from_timestamp cfg
                 (saturating_mul (ucast (RELAY_CHAIN_SLOT_DURATION_MILLIS cfg)) slot) (ab_SlotDuration cfg)
      | _ \<Rightarrow> False)"

definition next_slot_info :: "u64 \<Rightarrow> (u64 \<times> u32) option \<Rightarrow> u64 \<times> u32" where
  "next_slot_info slot info =
     (case info of
        None \<Rightarrow> (slot, 1)
      | Some (last_slot, authored) \<Rightarrow> if last_slot = slot then (slot, authored + 1) else (slot, 1))"

lemma on_state_proof_inner_Ok_iff:
  "on_state_proof_inner cfg verify slot s = Ok (r, t) \<longleftrightarrow>
     slot_accepted cfg slot (SlotInfo s) \<and> para_slot_fits cfg verify slot \<and>
     r = (reads_writes cfg 1 1, max (hook_C cfg) 1) \<and>
     t = s\<lparr>SlotInfo := Some (next_slot_info slot (SlotInfo s))\<rparr>"
  by (cases "SlotInfo s"; cases "verify slot")
     (auto simp: on_state_proof_inner_def slot_accepted_def para_slot_fits_def next_slot_info_def
        Let_def not_less dest: leD split: if_splits)

lemma on_state_proof_inner_panics:
  "\<not> is_ok (on_state_proof_inner cfg verify slot s) \<Longrightarrow> \<exists>m. on_state_proof_inner cfg verify slot s = Panic m"
  by (auto simp: on_state_proof_inner_def Let_def assert_that_def split: option.splits result.splits if_splits)

section \<open>Sequences of blocks\<close>

text \<open>
  The specification: the relay slots never decrease, no slot has more blocks than allowed, and
  the parachain slot of each block fits.
\<close>

definition block_limit :: "'w ab_config \<Rightarrow> nat" where
  "block_limit cfg = (if AllowMultipleBlocksPerSlot cfg then Suc (unat (velocity cfg)) else 1)"

definition proofs_spec ::
    "'w ab_config \<Rightarrow> ('env \<Rightarrow> u64 \<Rightarrow> (string, u64) result) \<Rightarrow> ('env \<times> u64) list \<Rightarrow> bool" where
  "proofs_spec cfg verify blocks \<longleftrightarrow>
     sorted (map snd blocks) \<and>
     (\<forall>x. count_list (map snd blocks) x \<le> block_limit cfg) \<and>
     (\<forall>(env, slot)\<in>set blocks. para_slot_fits cfg (verify env) slot)"

text \<open>What the stored slot information records of the blocks seen so far.\<close>

definition slot_info_of :: "u64 list \<Rightarrow> (u64 \<times> u32) option" where
  "slot_info_of slots =
     (if slots = [] then None
      else Some (last slots, of_nat (count_list slots (last slots))))"

lemma run_state_proofs_append:
  "run_state_proofs cfg verify (xs @ ys) s =
     and_then (run_state_proofs cfg verify xs s) (run_state_proofs cfg verify ys)"
proof (induction xs arbitrary: s)
  case (Cons x xs)
  then show ?case
    by (cases x; cases "on_state_proof_inner cfg (verify (fst x)) (snd x) s") auto
qed simp

lemma sorted_snoc_iff:
  "xs \<noteq> [] \<Longrightarrow> sorted (xs @ [y]) \<longleftrightarrow> sorted xs \<and> last xs \<le> (y :: 'a::linorder)"
  by (induction xs rule: rev_induct) (auto simp: sorted_append)

lemma sorted_new_last:
  assumes "sorted xs" "xs \<noteq> []" "last xs < (y :: 'a::linorder)"
  shows "count_list xs y = 0"
proof -
  have "x \<le> last xs" if "x \<in> set xs" for x
    using that assms(1,2) by (induction xs rule: rev_induct) (auto simp: sorted_append)
  with assms(3) show ?thesis by (force simp: count_list_0_iff)
qed

lemma count_list_snoc: "count_list (xs @ [y]) x = count_list xs x + (if x = y then 1 else 0)"
  by simp

text \<open>One more block keeps the specification exactly when the hook accepts it.\<close>

lemma slots_snoc:
  assumes "sorted slots" "\<forall>x. count_list slots x \<le> block_limit cfg" "unat (velocity cfg) + 1 < 2 ^ 32"
  shows "sorted (slots @ [y]) \<and> (\<forall>x. count_list (slots @ [y]) x \<le> block_limit cfg) \<longleftrightarrow>
     slot_accepted cfg y (slot_info_of slots)"
proof (cases "slots = []")
  case True
  then show ?thesis by (simp add: slot_accepted_def slot_info_of_def block_limit_def)
next
  case ne: False
  let ?l = "last slots"
  have cnt: "unat (of_nat (count_list slots ?l) :: u32) = count_list slots ?l"
    using assms(2,3) le_less_trans [of "count_list slots ?l" "block_limit cfg" "2 ^ 32"]
    by (auto simp: block_limit_def unat_of_nat split: if_splits)
  have pos: "count_list slots ?l \<ge> 1"
    using ne by (metis count_list_0_iff last_in_set less_one linorder_not_less)
  consider "?l < y" | "?l = y" | "y < ?l" by (rule linorder_cases)
  then show ?thesis
  proof cases
    case 1
    then have "count_list slots y = 0" using sorted_new_last [OF assms(1) ne] by simp
    with 1 ne assms(1,2) show ?thesis
      by (auto simp: slot_accepted_def slot_info_of_def sorted_snoc_iff block_limit_def)
  next
    case 2
    have "(\<forall>x. count_list (slots @ [y]) x \<le> block_limit cfg) \<longleftrightarrow> count_list slots y < block_limit cfg"
      using assms(2) by (auto simp: Suc_le_eq)
    with 2 ne assms(1) cnt pos show ?thesis
      by (auto simp: slot_accepted_def slot_info_of_def sorted_snoc_iff block_limit_def word_le_nat_alt)
  next
    case 3
    with ne show ?thesis
      by (auto simp: slot_accepted_def slot_info_of_def sorted_snoc_iff)
  qed
qed

lemma next_slot_info_of:
  "sorted (slots @ [y]) \<Longrightarrow> Some (next_slot_info y (slot_info_of slots)) = slot_info_of (slots @ [y])"
  using sorted_new_last [of slots y]
  by (cases "slots = []") (auto simp: next_slot_info_def slot_info_of_def sorted_snoc_iff)

lemma run_from_genesis_iff:
  assumes "unat (velocity cfg) + 1 < 2 ^ 32"
  shows "run_state_proofs cfg verify blocks ab_genesis = Ok t \<longleftrightarrow>
     proofs_spec cfg verify blocks \<and> t = ab_genesis\<lparr>SlotInfo := slot_info_of (map snd blocks)\<rparr>"
proof (induction blocks arbitrary: t rule: rev_induct)
  case Nil
  then show ?case by (auto simp: proofs_spec_def slot_info_of_def ab_genesis_def)
next
  case (snoc b blocks)
  obtain env y where b: "b = (env, y)" by (cases b)
  let ?slots = "map snd blocks"
  let ?s = "ab_genesis\<lparr>SlotInfo := slot_info_of ?slots\<rparr>"
  have "run_state_proofs cfg verify (blocks @ [b]) ab_genesis = Ok t \<longleftrightarrow>
      proofs_spec cfg verify blocks \<and> (\<exists>r. on_state_proof_inner cfg (verify env) y ?s = Ok (r, t))"
    by (auto simp: run_state_proofs_append snoc.IH b)
  also have "\<dots> \<longleftrightarrow> proofs_spec cfg verify blocks \<and> slot_accepted cfg y (slot_info_of ?slots) \<and>
      para_slot_fits cfg (verify env) y \<and> t = ?s\<lparr>SlotInfo := Some (next_slot_info y (slot_info_of ?slots))\<rparr>"
    by (auto simp: on_state_proof_inner_Ok_iff)
  also have "\<dots> \<longleftrightarrow> proofs_spec cfg verify (blocks @ [b]) \<and>
      t = ab_genesis\<lparr>SlotInfo := slot_info_of (map snd (blocks @ [b]))\<rparr>"
  proof (cases "proofs_spec cfg verify blocks")
    case True
    then have base: "sorted ?slots" "\<forall>x. count_list ?slots x \<le> block_limit cfg"
      by (auto simp: proofs_spec_def)
    note step = slots_snoc [OF base assms, of y]
    show ?thesis
    proof (cases "slot_accepted cfg y (slot_info_of ?slots)")
      case acc: True
      with step have "sorted (?slots @ [y])" by blast
      from next_slot_info_of [OF this] step True acc show ?thesis
        unfolding proofs_spec_def b by auto
    next
      case False
      with step show ?thesis unfolding proofs_spec_def b by auto
    qed
  next
    case False
    moreover have "proofs_spec cfg verify (blocks @ [b]) \<Longrightarrow> proofs_spec cfg verify blocks"
    proof -
      assume "proofs_spec cfg verify (blocks @ [b])"
      moreover from this have "count_list ?slots x \<le> block_limit cfg" for x
        using count_list_snoc [of ?slots y x] unfolding proofs_spec_def b
        by (metis (no_types, lifting) add_leD1 map_append list.simps(8,9) snd_conv)
      ultimately show ?thesis by (auto simp: proofs_spec_def sorted_append)
    qed
    ultimately show ?thesis by blast
  qed
  finally show ?case .
qed

section \<open>The interface to collators\<close>

text \<open>
  The contract of \<^verbatim>\<open>UnincludedSegmentApi::can_build_upon\<close>. When the unincluded segment is empty, a slot later than that of the last block is
  never refused; a slot before the last one, and a block beyond the capacity of the segment, are never allowed. \<open>latest\<close> is the slot of
  the last block, \<open>seg\<close> the size of the segment after an included block.
\<close>

locale unincluded_segment_api =
  fixes can_build :: "'cfg \<Rightarrow> ('hash \<Rightarrow> u32) \<Rightarrow> 'hash \<Rightarrow> u64 \<Rightarrow> 's \<Rightarrow> bool"
    and latest :: "'s \<Rightarrow> u64 option"
    and capacity :: "'cfg \<Rightarrow> u32"
  assumes empty_segment: "0 < capacity c \<Longrightarrow> seg inc = 0 \<Longrightarrow> (\<And>l. latest s = Some l \<Longrightarrow> l < slot) \<Longrightarrow> can_build c seg inc slot s"
    and not_backwards: "can_build c seg inc slot s \<Longrightarrow> latest s = Some l \<Longrightarrow> l \<le> slot"
    and within_capacity: "can_build c seg inc slot s \<Longrightarrow> latest s = Some l \<Longrightarrow> seg inc < capacity c"
begin

lemma refuses_earlier_slot: "latest s = Some l \<Longrightarrow> slot < l \<Longrightarrow> \<not> can_build c seg inc slot s"
  using not_backwards by fastforce

end

interpretation hook_api: unincluded_segment_api can_build_upon "\<lambda>s. map_option fst (SlotInfo s)" hook_C
  by unfold_locales
     (force simp: can_build_upon_def Let_def not_le split: option.splits if_splits)+

section \<open>The slot provider interface\<close>

text \<open>
  \<^verbatim>\<open>GetAndVerifySlot\<close>: a provider only returns the parachain slot that belongs to the relay slot,
  and that slot does not move backwards when the relay slot moves forwards. \<open>env_ok\<close> holds the
  conditions on what the provider reads from the environment.
\<close>

locale slot_provider =
  fixes get_and_verify :: "'c \<Rightarrow> 'env \<Rightarrow> u64 \<Rightarrow> (string, u64) result"
    and expected :: "'c \<Rightarrow> u64 \<Rightarrow> u64"
    and env_ok :: "'c \<Rightarrow> 'env \<Rightarrow> bool"
  assumes verified: "env_ok c e \<Longrightarrow> get_and_verify c e r = Ok p \<Longrightarrow> p = expected c r"
    and expected_mono: "env_ok c e \<Longrightarrow> r \<le> r' \<Longrightarrow> expected c r \<le> expected c r'"
begin

lemma para_slots_sorted:
  assumes "sorted (map snd blocks)" "\<forall>(e, r)\<in>set blocks. env_ok c e \<and> get_and_verify c e r = Ok (para (e, r))"
  shows "sorted (map para blocks)"
  using assms
proof (induction blocks)
  case (Cons b blocks)
  obtain e r where b: "b = (e, r)" by (cases b)
  have e: "env_ok c e" "para (e, r) = expected c r"
    using Cons.prems(2) verified [of c e r "para (e, r)"] by (auto simp: b)
  have "para (e, r) \<le> para b'" if b': "b' \<in> set blocks" for b'
  proof -
    obtain e' r' where b'_def: "b' = (e', r')" by (cases b')
    have "para (e', r') = expected c r'"
      using Cons.prems(2) b' verified [of c e' r' "para (e', r')"] by (auto simp: b'_def)
    moreover have "r \<le> r'" using Cons.prems(1) b' by (force simp: b b'_def)
    ultimately show ?thesis using e expected_mono by (simp add: b'_def)
  qed
  moreover have "sorted (map para blocks)" using Cons by auto
  ultimately show ?case by (auto simp: b)
qed simp

end

definition from_timestamp_ok :: "(u64 \<Rightarrow> u64 \<Rightarrow> u64) \<Rightarrow> bool" where
  "from_timestamp_ok from_timestamp \<longleftrightarrow>
     (\<forall>t t' d. 0 < d \<longrightarrow> t \<le> t' \<longrightarrow> from_timestamp t d \<le> from_timestamp t' d)"

lemma saturating_mul_mono: "a \<le> b \<Longrightarrow> saturating_mul m a \<le> saturating_mul m (b :: 'a::len word)"
  by (auto simp: word_le_nat_alt unat_saturating_mul intro: min.coboundedI1 mult_le_mono2)

interpretation relay_slot: slot_provider "\<lambda>_ _. relay_slot_get_and_verify" "\<lambda>_ r. r" "\<lambda>_ _. True"
  by unfold_locales (auto simp: relay_slot_get_and_verify_def)

interpretation para_slot: slot_provider
  "\<lambda>(ft, millis, dur). para_slot_get_and_verify ft millis"
  "\<lambda>(ft, millis, dur) r. ft (saturating_mul (ucast millis) r) dur"
  "\<lambda>(ft, millis, dur) provided. from_timestamp_ok ft \<and> 0 < dur \<and> snd provided = dur"
  by unfold_locales
     (auto simp: para_slot_get_and_verify_def from_timestamp_ok_def Let_def saturating_mul_mono
       split: if_splits prod.splits)

section \<open>Properties\<close>

text \<open>
  C3: Starting from genesis, the consensus hook accepts exactly the sequences of blocks whose relay
  slots never decrease, of which no relay slot has more than \<open>V + 1\<close> blocks (one, when several
  blocks per slot are not allowed; a \<open>V\<close> of zero counts as one), and whose parachain slots fit; the
  stored slot information is then the last relay slot with its number of blocks. The bound is that of
  the code, which panics if more than \<open>V\<close> blocks are there already and comments that one additional
  block is allowed; the documentation of the type gives \<open>V\<close> itself as the maximum (for a \<open>V\<close> of 2, two
  blocks per slot), which is one less. \<open>V\<close> is below the largest 32 bit number, so the count never wraps.
\<close>

theorem accepted_blocks_iff:
  assumes "unat (hook_V cfg) < 2 ^ 32 - 1"
  shows "run_state_proofs cfg verify blocks ab_genesis = Ok t \<longleftrightarrow>
     sorted (map snd blocks) \<and>
     (\<forall>x. count_list (map snd blocks) x \<le>
            (if AllowMultipleBlocksPerSlot cfg then Suc (max (unat (hook_V cfg)) 1) else 1)) \<and>
     (\<forall>(env, slot)\<in>set blocks. para_slot_fits cfg (verify env) slot) \<and>
     t = ab_genesis\<lparr>SlotInfo := slot_info_of (map snd blocks)\<rparr>"
proof -
  have "unat (velocity cfg) = max (unat (hook_V cfg)) 1"
    by (simp add: velocity_def max_def word_le_nat_alt)
  then show ?thesis
    using run_from_genesis_iff [of cfg verify blocks t] assms
    by (simp add: proofs_spec_def block_limit_def)
qed

definition ab_demo :: "bool \<Rightarrow> nat ab_config" where
  "ab_demo multiple = \<lparr>AllowMultipleBlocksPerSlot = multiple, ab_SlotDuration = 6000,
     slot_from_timestamp = (\<lambda>t d. t div d), reads_writes = (\<lambda>r w. r + 2 * w),
     RELAY_CHAIN_SLOT_DURATION_MILLIS = 6000, hook_V = 1, hook_C = 3\<rparr>"

theorem accepted_blocks_iff_witness:
  "run_state_proofs (ab_demo True) (\<lambda>_. relay_slot_get_and_verify) [((), 4), ((), 4), ((), 9)] ab_genesis
     = Ok (ab_genesis\<lparr>SlotInfo := Some (9, 1)\<rparr>) \<and>
   \<not> is_ok (run_state_proofs (ab_demo True) (\<lambda>_. relay_slot_get_and_verify)
              [((), 4), ((), 4), ((), 4)] ab_genesis)"
proof -
  have v: "unat (hook_V (ab_demo True)) < 2 ^ 32 - 1" by (simp add: ab_demo_def)
  have fits: "para_slot_fits (ab_demo True) relay_slot_get_and_verify 4"
    "para_slot_fits (ab_demo True) relay_slot_get_and_verify 9"
    by (simp_all add: para_slot_fits_def relay_slot_get_and_verify_def ab_demo_def saturating_mul_def)
  have "count_list [4, 4, 4 :: u64] 4 = 3" by simp
  then have "\<not> (\<forall>x. count_list [4, 4, 4 :: u64] x \<le> 2)" by (metis Suc_n_not_le_n numeral_3_eq_3 numeral_2_eq_2)
  then have "run_state_proofs (ab_demo True) (\<lambda>_. relay_slot_get_and_verify)
      [((), 4), ((), 4), ((), 4)] ab_genesis \<noteq> Ok t" for t
    using accepted_blocks_iff [OF v, of "\<lambda>_. relay_slot_get_and_verify" "[((), 4), ((), 4), ((), 4)]" t]
    by (simp add: ab_demo_def)
  moreover have "run_state_proofs (ab_demo True) (\<lambda>_. relay_slot_get_and_verify)
      [((), 4), ((), 4), ((), 9)] ab_genesis = Ok (ab_genesis\<lparr>SlotInfo := Some (9, 1)\<rparr>)"
    using accepted_blocks_iff [OF v, of "\<lambda>_. relay_slot_get_and_verify" "[((), 4), ((), 4), ((), 9)]"]
      fits by (simp add: slot_info_of_def) (simp add: ab_demo_def)
  ultimately show ?thesis by (auto simp: is_ok_iff)
qed



text \<open>
  With the parachain slot provider, the parachain slots of an accepted sequence of blocks never
  move backwards, as long as the slot duration stays the same and \<open>from_timestamp\<close> is monotone.
\<close>

theorem para_slots_never_decrease:
  assumes "unat (hook_V cfg) < 2 ^ 32 - 1" "from_timestamp_ok from_timestamp" "0 < duration"
    and "\<forall>((new_slot, d), _)\<in>set blocks. d = duration"
    and "run_state_proofs cfg (para_slot_get_and_verify from_timestamp millis) blocks ab_genesis = Ok t"
  shows "sorted (map (\<lambda>((new_slot, _), _). new_slot) blocks)"
proof -
  have spec: "proofs_spec cfg (para_slot_get_and_verify from_timestamp millis) blocks"
    using assms(1,5) run_from_genesis_iff [of cfg "para_slot_get_and_verify from_timestamp millis" blocks t]
    by (simp add: velocity_def max_def split: if_splits)
  have "para_slot_get_and_verify from_timestamp millis e r = Ok (fst e)"
    if "para_slot_fits cfg (para_slot_get_and_verify from_timestamp millis e) r" for e r
    using that by (auto simp: para_slot_fits_def para_slot_get_and_verify_def Let_def
        split: prod.splits if_splits)
  moreover have "snd e = duration" if "(e, r) \<in> set blocks" for e r
    using assms(4) that by (cases e) auto
  moreover have "para_slot_fits cfg (para_slot_get_and_verify from_timestamp millis e) r"
    if "(e, r) \<in> set blocks" for e r
    using spec that by (auto simp: proofs_spec_def)
  ultimately have "\<forall>(e, r)\<in>set blocks. (from_timestamp_ok from_timestamp \<and> 0 < duration \<and> snd e = duration) \<and>
      para_slot_get_and_verify from_timestamp millis e r = Ok (fst (fst (e, r)))"
    using assms(2,3) by auto
  moreover have "sorted (map snd blocks)" using spec by (simp add: proofs_spec_def)
  ultimately have "sorted (map (\<lambda>b. fst (fst b)) blocks)"
    using para_slot.para_slots_sorted [of blocks "(from_timestamp, millis, duration)" "\<lambda>b. fst (fst b)"]
    by simp
  then show ?thesis by (simp add: case_prod_unfold)
qed

theorem para_slots_never_decrease_witness:
  "(\<exists>t. run_state_proofs (ab_demo True) (para_slot_get_and_verify (\<lambda>t d. t div d) 6000)
     [((4, 6000), 4), ((5, 6000), 5)] ab_genesis = Ok t) \<and> sorted [4, 5 :: u64]"
proof -
  have ft: "from_timestamp_ok (\<lambda>t d. t div d)"
    by (simp add: from_timestamp_ok_def word_le_nat_alt unat_div div_le_mono)
  have v: "unat (hook_V (ab_demo True)) < 2 ^ 32 - 1" by (simp add: ab_demo_def)
  have run: "run_state_proofs (ab_demo True) (para_slot_get_and_verify (\<lambda>t d. t div d) 6000)
     [((4, 6000), 4), ((5, 6000), 5)] ab_genesis = Ok (ab_genesis\<lparr>SlotInfo := Some (5, 1)\<rparr>)"
    by (simp add: on_state_proof_inner_def para_slot_get_and_verify_def ab_demo_def ab_genesis_def
        saturating_mul_def velocity_def Let_def)
  from para_slots_never_decrease [OF v ft _ _ run, of 6000] run show ?thesis by auto
qed

text \<open>
  Once the hook has recorded the relay slot and the post-inherents check has passed, the
  timestamp of the block lies within that slot.
\<close>

theorem timestamp_within_slot:
  assumes "on_state_proof_inner cfg verify slot s = Ok (r, t)" "post_inherents cfg now t = Ok ()"
  shows "unat slot * unat (ab_SlotDuration cfg) \<le> unat now \<and>
     unat now < Suc (unat slot) * unat (ab_SlotDuration cfg)"
proof -
  have "ab_SlotDuration cfg \<noteq> 0" "slot = now div ab_SlotDuration cfg"
    using assms by (auto simp: on_state_proof_inner_Ok_iff post_inherents_def next_slot_info_def
        split: option.splits if_splits)
  then have "unat slot = unat now div unat (ab_SlotDuration cfg)" "0 < unat (ab_SlotDuration cfg)"
    by (auto simp: unat_div unat_gt_0)
  then show ?thesis
    using dividend_less_div_times [of "unat (ab_SlotDuration cfg)" "unat now"] by (simp add: add.commute)
qed

theorem timestamp_within_slot_witness:
  "(24000 :: nat) \<le> unat (24500 :: u64) \<and>
   is_ok (post_inherents (ab_demo True) 24500 (ab_genesis\<lparr>SlotInfo := Some (4, 1)\<rparr>))"
proof -
  have p: "post_inherents (ab_demo True) 24500 (ab_genesis\<lparr>SlotInfo := Some (4, 1)\<rparr>) = Ok ()"
    by (simp add: post_inherents_def ab_demo_def)
  have h: "on_state_proof_inner (ab_demo True) relay_slot_get_and_verify 4 ab_genesis
      = Ok ((3, 3), ab_genesis\<lparr>SlotInfo := Some (4, 1)\<rparr>)"
    by (simp add: on_state_proof_inner_def relay_slot_get_and_verify_def ab_demo_def ab_genesis_def
        saturating_mul_def velocity_def Let_def)
  from timestamp_within_slot [OF h p] p show ?thesis by simp
qed

end
