(* ===== verification/Relay_Storage_Roots.thy ===== *)
theory Relay_Storage_Roots
  imports Moonkit_Prelude
begin

text \<open>
  \<^verbatim>\<open>pallets/relay-storage-roots\<close>: the bounded window of relay chain storage roots, with the queue
  of its keys.
\<close>

section \<open>The pallet\<close>

record rsr_state =
  RelayStorageRoot :: "u32 \<rightharpoonup> H256"
  RelayStorageRootKeys :: "u32 list"

record relay_chain_state =
  rc_number :: u32
  rc_state_root :: H256

definition rsr_empty :: rsr_state where
  "rsr_empty = \<lparr>RelayStorageRoot = Map.empty, RelayStorageRootKeys = []\<rparr>"

text \<open>\<^verbatim>\<open>u32::try_from(len).unwrap_or(u32::MAX)\<close>.\<close>

definition len_u32 :: "'a list \<Rightarrow> u32" where
  "len_u32 xs = (if length xs < 2 ^ 32 then of_nat (length xs) else - 1)"

text \<open>The corruption warning of the source only writes a log line and is left out.\<close>

definition set_relay_storage_root :: "u32 \<Rightarrow> relay_chain_state \<Rightarrow> rsr_state \<Rightarrow> rsr_state" where
  "set_relay_storage_root MaxStorageRoots relay_state s =
     (if RelayStorageRoot s (rc_number relay_state) \<noteq> None then s
      else
        let m = (RelayStorageRoot s)(rc_number relay_state \<mapsto> rc_state_root relay_state);
            keys = RelayStorageRootKeys s @ [rc_number relay_state];
            (m, keys) =
              (if len_u32 keys > MaxStorageRoots then
                 (case keys of
                    first_key # rest \<Rightarrow> (m(first_key := None), rest)
                  | [] \<Rightarrow> (m, keys))
               else (m, keys))
        in s\<lparr>RelayStorageRoot := m, RelayStorageRootKeys := take (unat MaxStorageRoots) keys\<rparr>)"

definition on_initialize_rsr :: "'w \<Rightarrow> 'w" where
  "on_initialize_rsr weight_of_set_relay_storage_root = weight_of_set_relay_storage_root"

definition on_finalize_rsr :: "u32 \<Rightarrow> relay_chain_state \<Rightarrow> rsr_state \<Rightarrow> rsr_state" where
  "on_finalize_rsr MaxStorageRoots relay_state s = set_relay_storage_root MaxStorageRoots relay_state s"

definition run_finalize :: "u32 \<Rightarrow> relay_chain_state list \<Rightarrow> rsr_state \<Rightarrow> rsr_state" where
  "run_finalize MaxStorageRoots blocks s = fold (on_finalize_rsr MaxStorageRoots) blocks s"

section \<open>Invariant\<close>

definition rsr_invar :: "u32 \<Rightarrow> rsr_state \<Rightarrow> bool" where
  "rsr_invar MaxStorageRoots s \<longleftrightarrow>
     distinct (RelayStorageRootKeys s) \<and>
     set (RelayStorageRootKeys s) = dom (RelayStorageRoot s) \<and>
     length (RelayStorageRootKeys s) \<le> unat MaxStorageRoots"

lemma len_u32_gt:
  assumes "unat mx < 2 ^ 32 - 1"
  shows "len_u32 xs > mx \<longleftrightarrow> length xs > unat mx"
  using assms by (auto simp: len_u32_def word_less_nat_alt unat_of_nat unat_max)

text \<open>The three cases of the operation: a known number, a free place, a full window.\<close>

lemma set_relay_storage_root_cases:
  assumes "unat mx < 2 ^ 32 - 1" "rsr_invar mx s"
  shows "set_relay_storage_root mx r s =
     (if rc_number r \<in> dom (RelayStorageRoot s) then s
      else
        let m = (RelayStorageRoot s)(rc_number r \<mapsto> rc_state_root r);
            keys = RelayStorageRootKeys s @ [rc_number r]
        in if length (RelayStorageRootKeys s) < unat mx
           then s\<lparr>RelayStorageRoot := m, RelayStorageRootKeys := keys\<rparr>
           else s\<lparr>RelayStorageRoot := m(hd keys := None), RelayStorageRootKeys := tl keys\<rparr>)"
proof -
  have len: "length (RelayStorageRootKeys s) \<le> unat mx"
    using assms(2) by (simp add: rsr_invar_def)
  note gt = len_u32_gt [OF assms(1), of "RelayStorageRootKeys s @ [rc_number r]"]
  show ?thesis
  proof (cases "RelayStorageRootKeys s")
    case Nil
    with len gt show ?thesis by (auto simp: set_relay_storage_root_def Let_def)
  next
    case (Cons k ks)
    with len gt show ?thesis by (auto simp: set_relay_storage_root_def Let_def)
  qed
qed

lemma rsr_invar_step:
  assumes "unat mx < 2 ^ 32 - 1" "rsr_invar mx s"
  shows "rsr_invar mx (on_finalize_rsr mx r s)"
proof (cases "RelayStorageRootKeys s")
  case Nil
  with assms(2) show ?thesis
    unfolding on_finalize_rsr_def set_relay_storage_root_cases [OF assms]
    by (auto simp: rsr_invar_def Let_def)
next
  case (Cons k ks)
  with assms(2) show ?thesis
    unfolding on_finalize_rsr_def set_relay_storage_root_cases [OF assms]
    by (auto simp: rsr_invar_def Let_def)
qed

text \<open>The pallet as a transition system, one step per block.\<close>

definition rsr_init :: "u32 \<times> rsr_state \<Rightarrow> bool" where
  "rsr_init c \<longleftrightarrow> unat (fst c) < 2 ^ 32 - 1 \<and> snd c = rsr_empty"

inductive rsr_step :: "u32 \<times> rsr_state \<Rightarrow> u32 \<times> rsr_state \<Rightarrow> bool" where
  finalize: "rsr_step (mx, s) (mx, on_finalize_rsr mx r s)"

inductive_cases rsr_stepE: "rsr_step c d"

interpretation rsr: invariant_system rsr_init rsr_step
  "\<lambda>(mx, s). unat mx < 2 ^ 32 - 1 \<and> rsr_invar mx s"
  by unfold_locales
     (auto simp: rsr_init_def rsr_empty_def rsr_invar_def[of _ rsr_empty] rsr_invar_step
       elim!: rsr_stepE, simp_all add: rsr_invar_def)

lemma rsr_step_run: "rsr_step\<^sup>*\<^sup>* (mx, s) (mx, run_finalize mx blocks s)"
proof (induction blocks arbitrary: s)
  case (Cons b blocks)
  from Cons.IH [of "on_finalize_rsr mx b s"] show ?case
    by (auto simp: run_finalize_def intro: converse_rtranclp_into_rtranclp rsr_step.finalize)
qed (simp add: run_finalize_def)

lemma rsr_run_reachable:
  "unat mx < 2 ^ 32 - 1 \<Longrightarrow> rsr_invar mx (run_finalize mx blocks rsr_empty)"
  using rsr.invar_run [OF rsr_step_run, of mx rsr_empty blocks]
  by (simp add: rsr_empty_def rsr_invar_def)

section \<open>The window\<close>

text \<open>The abstract window: the last entries of a list.\<close>

definition last_n :: "nat \<Rightarrow> 'a list \<Rightarrow> 'a list" where
  "last_n n xs = drop (length xs - n) xs"

lemma last_n_snoc:
  "last_n n (xs @ [x]) =
     (if length (last_n n xs) < n then last_n n xs @ [x] else tl (last_n n xs @ [x]))"
proof (cases "length xs < n")
  case True
  then show ?thesis by (simp add: last_n_def)
next
  case False
  let ?d = "length xs - n"
  have "tl (drop ?d xs @ [x]) = tl (drop ?d (xs @ [x]))" by simp
  also have "\<dots> = drop (Suc ?d) (xs @ [x])" by (simp only: drop_Suc tl_drop)
  finally show ?thesis using False by (simp add: last_n_def Suc_diff_le)
qed

lemma set_last_n: "set (last_n n xs) \<subseteq> set xs"
  by (auto simp: last_n_def dest: in_set_dropD)

lemma last_in_last_n: "xs \<noteq> [] \<Longrightarrow> 0 < n \<Longrightarrow> last xs \<in> set (last_n n xs)"
  by (metis last_n_def diff_less drop_eq_Nil last_drop last_in_set leD length_greater_0_conv)

lemma remdups_adj_snoc:
  "remdups_adj (xs @ [x]) =
     (if xs \<noteq> [] \<and> last xs = x then remdups_adj xs else remdups_adj xs @ [x])"
  by (induction xs rule: remdups_adj.induct) auto

lemma last_remdups_adj: "last (remdups_adj xs) = last xs"
  by (induction xs rule: remdups_adj.induct) auto

lemma sorted_remdups_adj_distinct: "sorted xs \<Longrightarrow> distinct (remdups_adj xs)"
  by (induction xs rule: remdups_adj.induct) auto

lemma sorted_last_new:
  assumes "sorted (xs @ [x])" "xs = [] \<or> last xs \<noteq> x"
  shows "x \<notin> set xs"
  using assms by (induction xs rule: rev_induct) (auto simp: sorted_append)

definition root_entries :: "relay_chain_state list \<Rightarrow> (u32 \<times> H256) list" where
  "root_entries blocks = map (\<lambda>r. (rc_number r, rc_state_root r)) blocks"

definition window_spec :: "nat \<Rightarrow> relay_chain_state list \<Rightarrow> rsr_state" where
  "window_spec n blocks =
     (let keys = last_n n (remdups_adj (map rc_number blocks))
      in \<lparr>RelayStorageRoot = map_of (root_entries blocks) |` set keys, RelayStorageRootKeys = keys\<rparr>)"

lemma dom_root_entries: "dom (map_of (root_entries blocks)) = set (map rc_number blocks)"
  by (simp add: root_entries_def dom_map_of_conv_image_fst image_image)

lemma dom_window: "dom (RelayStorageRoot (window_spec n blocks)) = set (RelayStorageRootKeys (window_spec n blocks))"
  using set_last_n [of n "remdups_adj (map rc_number blocks)"]
  by (auto simp: window_spec_def Let_def dom_root_entries)

lemma root_entries_snoc: "map_of (root_entries (blocks @ [r])) =
    [rc_number r \<mapsto> rc_state_root r] ++ map_of (root_entries blocks)"
  by (simp add: root_entries_def)

lemma window_snoc_seen:
  assumes "blocks \<noteq> []" "last (map rc_number blocks) = rc_number r"
  shows "window_spec n (blocks @ [r]) = window_spec n blocks"
proof -
  have "rc_number r \<in> set (map rc_number blocks)"
    using assms by (metis last_in_set map_is_Nil_conv)
  then have "map_of (root_entries (blocks @ [r])) = map_of (root_entries blocks)"
    unfolding root_entries_snoc dom_root_entries [symmetric]
    by (auto simp: map_add_def fun_eq_iff split: option.splits)
  with assms show ?thesis by (simp add: window_spec_def remdups_adj_snoc Let_def)
qed

lemma window_snoc_new:
  fixes n :: nat
  assumes "rc_number r \<notin> set (map rc_number blocks)"
    and "distinct (remdups_adj (map rc_number blocks))"
  defines "w \<equiv> window_spec n blocks"
  shows "window_spec n (blocks @ [r]) =
     (let m = (RelayStorageRoot w)(rc_number r \<mapsto> rc_state_root r);
          keys = RelayStorageRootKeys w @ [rc_number r]
      in if length (RelayStorageRootKeys w) < n
         then \<lparr>RelayStorageRoot = m, RelayStorageRootKeys = keys\<rparr>
         else \<lparr>RelayStorageRoot = m(hd keys := None), RelayStorageRootKeys = tl keys\<rparr>)"
proof -
  let ?keys = "last_n n (remdups_adj (map rc_number blocks))"
  have rem: "remdups_adj (map rc_number blocks @ [rc_number r]) = remdups_adj (map rc_number blocks) @ [rc_number r]"
    using assms(1) by (auto simp: remdups_adj_snoc) (metis imageI last_in_set last_map)
  have new: "map_of (root_entries blocks) (rc_number r) = None" "rc_number r \<notin> set ?keys"
    using assms(1) set_last_n [of n "remdups_adj (map rc_number blocks)"] dom_root_entries [of blocks]
    by (metis domIff, auto)
  have dist: "distinct ?keys" using assms(2) by (simp add: last_n_def)
  have upd: "map_of (root_entries (blocks @ [r])) = (map_of (root_entries blocks))(rc_number r \<mapsto> rc_state_root r)"
    using new(1) by (auto simp: root_entries_snoc map_add_def fun_eq_iff split: option.splits)
  show ?thesis
  proof (cases "length ?keys < n")
    case True
    with new show ?thesis
      by (auto simp: window_spec_def w_def rem last_n_snoc upd Let_def restrict_map_def fun_eq_iff)
  next
    case False
    with new dist show ?thesis
      by (cases ?keys)
         (auto simp: window_spec_def w_def rem last_n_snoc upd Let_def restrict_map_def fun_eq_iff)
  qed
qed

lemma run_finalize_window:
  assumes "unat mx < 2 ^ 32 - 1" "sorted (map rc_number blocks)"
  shows "run_finalize mx blocks rsr_empty = window_spec (unat mx) blocks"
  using assms(2)
proof (induction blocks rule: rev_induct)
  case Nil
  then show ?case by (simp add: run_finalize_def rsr_empty_def window_spec_def last_n_def root_entries_def)
next
  case (snoc r blocks)
  let ?w = "window_spec (unat mx) blocks"
  have srt: "sorted (map rc_number blocks)" using snoc.prems by (simp add: sorted_append)
  have run: "run_finalize mx (blocks @ [r]) rsr_empty = set_relay_storage_root mx r ?w"
    using snoc.IH [OF srt] by (simp add: run_finalize_def on_finalize_rsr_def)
  have inv: "rsr_invar mx ?w"
    using rsr_run_reachable [OF assms(1), of blocks] snoc.IH [OF srt] by simp
  note step = set_relay_storage_root_cases [OF assms(1) inv, of r]
  have empty: "RelayStorageRootKeys ?w = []" if "unat mx = 0"
    using inv that by (simp add: rsr_invar_def)
  show ?case
  proof (cases "blocks \<noteq> [] \<and> last (map rc_number blocks) = rc_number r")
    case True
    have "rc_number r \<in> dom (RelayStorageRoot ?w)" if "0 < unat mx"
      using last_in_last_n [of "remdups_adj (map rc_number blocks)" "unat mx"] True that
      unfolding dom_window by (simp add: window_spec_def last_remdups_adj Let_def)
    moreover have "set_relay_storage_root mx r ?w = ?w" if "unat mx = 0"
      using empty [OF that] step that dom_window [of "unat mx" blocks]
      by (auto simp: Let_def fun_eq_iff)
    ultimately have "set_relay_storage_root mx r ?w = ?w"
      by (cases "unat mx = 0") (simp_all only: step if_True neq0_conv)
    with run True window_snoc_seen show ?thesis by simp
  next
    case False
    then have new: "rc_number r \<notin> set (map rc_number blocks)"
      using sorted_last_new [of "map rc_number blocks" "rc_number r"] snoc.prems by auto
    then have "rc_number r \<notin> dom (RelayStorageRoot ?w)"
      using set_last_n [of "unat mx" "remdups_adj (map rc_number blocks)"]
      unfolding dom_window by (auto simp: window_spec_def Let_def)
    with run step window_snoc_new [OF new sorted_remdups_adj_distinct [OF srt], of "unat mx"]
    show ?thesis by (simp add: Let_def)
  qed
qed

section \<open>Properties\<close>

text \<open>
  C39: In every state the pallet reaches, whatever relay blocks it sees, the queue lists exactly the
  keys of the map, without duplicates, and holds at most \<open>MaxStorageRoots\<close> of them.
\<close>

theorem roots_queue_invariant:
  assumes "reachable rsr_init rsr_step (mx, s)"
  shows "distinct (RelayStorageRootKeys s) \<and> set (RelayStorageRootKeys s) = dom (RelayStorageRoot s) \<and>
     length (RelayStorageRootKeys s) \<le> unat mx \<and> card (dom (RelayStorageRoot s)) \<le> unat mx"
proof -
  from rsr.invar_reachable [OF assms] have inv: "rsr_invar mx s" by simp
  then show ?thesis by (metis distinct_card rsr_invar_def)
qed

theorem roots_queue_invariant_witness:
  "card (dom (RelayStorageRoot (on_finalize_rsr 1 \<lparr>rc_number = 7, rc_state_root = 3\<rparr> rsr_empty))) \<le> 1"
proof -
  have "reachable rsr_init rsr_step (1, rsr_empty)"
    by (rule reach_init) (simp add: rsr_init_def)
  then have "reachable rsr_init rsr_step (1, on_finalize_rsr 1 \<lparr>rc_number = 7, rc_state_root = 3\<rparr> rsr_empty)"
    by (rule reach_step) (rule rsr_step.finalize)
  from roots_queue_invariant [OF this] show ?thesis by simp
qed

text \<open>
  C26: As relay block numbers do not decrease, the storage after any number of blocks is the window of
  the last \<open>MaxStorageRoots\<close> distinct relay block numbers, in order, and each of them maps to the
  root of the first block that reported it; every older number is gone.
\<close>

theorem roots_are_latest_window:
  assumes "unat MaxStorageRoots < 2 ^ 32 - 1" "sorted (map rc_number blocks)"
  defines "numbers \<equiv> remdups_adj (map rc_number blocks)"
  defines "s \<equiv> run_finalize MaxStorageRoots blocks rsr_empty"
  shows "RelayStorageRootKeys s = drop (length numbers - unat MaxStorageRoots) numbers \<and>
     RelayStorageRoot s n =
       (if n \<in> set (drop (length numbers - unat MaxStorageRoots) numbers)
        then map_of (map (\<lambda>r. (rc_number r, rc_state_root r)) blocks) n else None)"
  using run_finalize_window [OF assms(1,2)]
  by (simp add: s_def numbers_def window_spec_def Let_def last_n_def root_entries_def restrict_map_def)

theorem roots_are_latest_window_witness:
  "RelayStorageRootKeys (run_finalize 2
     [\<lparr>rc_number = 5, rc_state_root = 50\<rparr>, \<lparr>rc_number = 5, rc_state_root = 51\<rparr>,
      \<lparr>rc_number = 8, rc_state_root = 80\<rparr>, \<lparr>rc_number = 9, rc_state_root = 90\<rparr>] rsr_empty) = [8, 9]"
proof -
  let ?bs = "[\<lparr>rc_number = 5, rc_state_root = 50\<rparr>, \<lparr>rc_number = 5, rc_state_root = 51\<rparr>,
      \<lparr>rc_number = 8, rc_state_root = 80\<rparr>, \<lparr>rc_number = 9, rc_state_root = 90\<rparr>]"
  have "unat (2 :: u32) < 2 ^ 32 - 1" "sorted (map rc_number ?bs)" by simp_all
  from roots_are_latest_window [OF this, THEN conjunct1] show ?thesis by simp
qed

end
