(* ===== verification/Foreign_Asset_Creator.thy ===== *)
theory Foreign_Asset_Creator
  imports Frame_Interfaces
begin

text \<open>
  \<^verbatim>\<open>pallets/foreign-asset-creator\<close>: the association of foreign assets with local asset ids, kept in
  two maps that the dispatchables update together.
\<close>

section \<open>The pallet\<close>

datatype fac_error = AssetAlreadyExists | AssetDoesNotExist

datatype ('id, 'fa) fac_event =
    ForeignAssetCreated 'id 'fa
  | ForeignAssetTypeChanged 'id 'fa
  | ForeignAssetRemoved 'id 'fa
  | ForeignAssetDestroyed 'id 'fa

record ('id, 'fa, 'fs, 'hs) fac_state =
  AssetIdToForeignAsset :: "'id \<rightharpoonup> 'fa"
  ForeignAssetToAssetId :: "'fa \<rightharpoonup> 'id"
  fac_fungibles :: 'fs
  fac_hooks :: 'hs
  fac_events :: "('id, 'fa) fac_event list"

text \<open>
  The configuration: the three privileged origins, the fungibles implementation with its state
  \<open>'fs\<close>, and the two hooks, which may change state \<open>'hs\<close> of other pallets.
\<close>

record ('origin, 'acct, 'id, 'fa, 'bal, 'fs, 'hs, 'd) fac_config =
  ForeignAssetCreatorOrigin :: "'origin \<Rightarrow> 'd + unit"
  ForeignAssetModifierOrigin :: "'origin \<Rightarrow> 'd + unit"
  ForeignAssetDestroyerOrigin :: "'origin \<Rightarrow> 'd + unit"
  fungibles_create :: "'id \<Rightarrow> 'acct \<Rightarrow> bool \<Rightarrow> 'bal \<Rightarrow> 'fs \<Rightarrow> 'd + 'fs"
  fungibles_start_destroy :: "'id \<Rightarrow> 'acct option \<Rightarrow> 'fs \<Rightarrow> 'd + 'fs"
  on_asset_created :: "'fa \<Rightarrow> 'id \<Rightarrow> 'bal \<Rightarrow> 'hs \<Rightarrow> 'hs"
  on_asset_destroyed :: "'fa \<Rightarrow> 'id \<Rightarrow> 'hs \<Rightarrow> 'hs"

text \<open>The unit implementations of the two hook traits.\<close>

definition on_asset_created_unit :: "'fa \<Rightarrow> 'id \<Rightarrow> 'bal \<Rightarrow> 'hs \<Rightarrow> 'hs" where
  "on_asset_created_unit foreign_asset asset_id min_balance h = h"

definition on_asset_destroyed_unit :: "'fa \<Rightarrow> 'id \<Rightarrow> 'hs \<Rightarrow> 'hs" where
  "on_asset_destroyed_unit foreign_asset asset_id h = h"

definition fac_deposit :: "('id, 'fa) fac_event \<Rightarrow> ('id, 'fa, 'fs, 'hs) fac_state
    \<Rightarrow> ('id, 'fa, 'fs, 'hs) fac_state" where
  "fac_deposit e s = s\<lparr>fac_events := fac_events s @ [e]\<rparr>"

fun genesis_build_fac ::
    "('origin, 'acct, 'id, 'fa, 'bal, 'fs, 'hs, 'd) fac_config
      \<Rightarrow> ('fa \<times> 'id \<times> 'acct \<times> bool \<times> 'bal) list \<Rightarrow> ('id, 'fa, 'fs, 'hs) fac_state
      \<Rightarrow> (unit, ('id, 'fa, 'fs, 'hs) fac_state) result" where
  "genesis_build_fac cfg [] s = Ok s"
| "genesis_build_fac cfg ((foreign_asset, asset_id, admin, is_sufficient, min_balance) # assets) s =
     and_then (assert_that (AssetIdToForeignAsset s asset_id = None) ''asset id already exists'')
     (\<lambda>_. and_then
        (case fungibles_create cfg asset_id admin is_sufficient min_balance (fac_fungibles s) of
           Inr fs \<Rightarrow> Ok fs
         | Inl _ \<Rightarrow> Panic ''failed to create fungible'')
     (\<lambda>fs. genesis_build_fac cfg assets
        (s\<lparr>fac_fungibles := fs,
           AssetIdToForeignAsset := (AssetIdToForeignAsset s)(asset_id \<mapsto> foreign_asset),
           ForeignAssetToAssetId := (ForeignAssetToAssetId s)(foreign_asset \<mapsto> asset_id),
           fac_hooks := on_asset_created cfg foreign_asset asset_id min_balance (fac_hooks s)\<rparr>)))"

definition create_foreign_asset ::
    "('origin, 'acct, 'id, 'fa, 'bal, 'fs, 'hs, 'd) fac_config
      \<Rightarrow> 'origin \<Rightarrow> 'fa \<Rightarrow> 'id \<Rightarrow> 'acct \<Rightarrow> bool \<Rightarrow> 'bal \<Rightarrow> ('id, 'fa, 'fs, 'hs) fac_state
      \<Rightarrow> ((fac_error, 'd) dispatch_error, ('id, 'fa, 'fs, 'hs) fac_state) result" where
  "create_foreign_asset cfg origin foreign_asset asset_id admin is_sufficient min_balance s =
     and_then (from_frame (ForeignAssetCreatorOrigin cfg origin))
     (\<lambda>_. and_then (ensure (AssetIdToForeignAsset s asset_id = None) (ModuleError AssetAlreadyExists))
     (\<lambda>_. and_then (from_frame (fungibles_create cfg asset_id admin is_sufficient min_balance (fac_fungibles s)))
     (\<lambda>fs. Ok (fac_deposit (ForeignAssetCreated asset_id foreign_asset)
        (s\<lparr>fac_fungibles := fs,
           AssetIdToForeignAsset := (AssetIdToForeignAsset s)(asset_id \<mapsto> foreign_asset),
           ForeignAssetToAssetId := (ForeignAssetToAssetId s)(foreign_asset \<mapsto> asset_id),
           fac_hooks := on_asset_created cfg foreign_asset asset_id min_balance (fac_hooks s)\<rparr>)))))"

definition change_existing_asset_type ::
    "('origin, 'acct, 'id, 'fa, 'bal, 'fs, 'hs, 'd) fac_config
      \<Rightarrow> 'origin \<Rightarrow> 'id \<Rightarrow> 'fa \<Rightarrow> ('id, 'fa, 'fs, 'hs) fac_state
      \<Rightarrow> ((fac_error, 'd) dispatch_error, ('id, 'fa, 'fs, 'hs) fac_state) result" where
  "change_existing_asset_type cfg origin asset_id new_foreign_asset s =
     and_then (from_frame (ForeignAssetModifierOrigin cfg origin))
     (\<lambda>_. and_then (ok_or (ModuleError AssetDoesNotExist) (AssetIdToForeignAsset s asset_id))
     (\<lambda>previous_foreign_asset. Ok (fac_deposit (ForeignAssetTypeChanged asset_id new_foreign_asset)
        (s\<lparr>AssetIdToForeignAsset := (AssetIdToForeignAsset s)(asset_id \<mapsto> new_foreign_asset),
           ForeignAssetToAssetId :=
             ((ForeignAssetToAssetId s)(new_foreign_asset \<mapsto> asset_id))(previous_foreign_asset := None)\<rparr>))))"

definition remove_existing_asset_type ::
    "('origin, 'acct, 'id, 'fa, 'bal, 'fs, 'hs, 'd) fac_config
      \<Rightarrow> 'origin \<Rightarrow> 'id \<Rightarrow> ('id, 'fa, 'fs, 'hs) fac_state
      \<Rightarrow> ((fac_error, 'd) dispatch_error, ('id, 'fa, 'fs, 'hs) fac_state) result" where
  "remove_existing_asset_type cfg origin asset_id s =
     and_then (from_frame (ForeignAssetDestroyerOrigin cfg origin))
     (\<lambda>_. and_then (ok_or (ModuleError AssetDoesNotExist) (AssetIdToForeignAsset s asset_id))
     (\<lambda>foreign_asset. Ok (fac_deposit (ForeignAssetRemoved asset_id foreign_asset)
        (s\<lparr>AssetIdToForeignAsset := (AssetIdToForeignAsset s)(asset_id := None),
           ForeignAssetToAssetId := (ForeignAssetToAssetId s)(foreign_asset := None)\<rparr>))))"

definition destroy_foreign_asset ::
    "('origin, 'acct, 'id, 'fa, 'bal, 'fs, 'hs, 'd) fac_config
      \<Rightarrow> 'origin \<Rightarrow> 'id \<Rightarrow> ('id, 'fa, 'fs, 'hs) fac_state
      \<Rightarrow> ((fac_error, 'd) dispatch_error, ('id, 'fa, 'fs, 'hs) fac_state) result" where
  "destroy_foreign_asset cfg origin asset_id s =
     and_then (from_frame (ForeignAssetDestroyerOrigin cfg origin))
     (\<lambda>_. and_then (ok_or (ModuleError AssetDoesNotExist) (AssetIdToForeignAsset s asset_id))
     (\<lambda>foreign_asset. and_then (from_frame (fungibles_start_destroy cfg asset_id None (fac_fungibles s)))
     (\<lambda>fs. Ok (fac_deposit (ForeignAssetDestroyed asset_id foreign_asset)
        (s\<lparr>fac_fungibles := fs,
           AssetIdToForeignAsset := (AssetIdToForeignAsset s)(asset_id := None),
           ForeignAssetToAssetId := (ForeignAssetToAssetId s)(foreign_asset := None),
           fac_hooks := on_asset_destroyed cfg foreign_asset asset_id (fac_hooks s)\<rparr>)))))"

definition fac_convert :: "('id, 'fa, 'fs, 'hs) fac_state \<Rightarrow> 'fa \<Rightarrow> 'id option" where
  "fac_convert s foreign_asset = ForeignAssetToAssetId s foreign_asset"

definition fac_convert_back :: "('id, 'fa, 'fs, 'hs) fac_state \<Rightarrow> 'id \<Rightarrow> 'fa option" where
  "fac_convert_back s asset_id = AssetIdToForeignAsset s asset_id"

section \<open>Invariants\<close>

text \<open>What a lookup by foreign asset promises, and what it promises with the converse.\<close>

definition fac_sound :: "('id, 'fa, 'fs, 'hs) fac_state \<Rightarrow> bool" where
  "fac_sound s \<longleftrightarrow> (\<forall>f a. ForeignAssetToAssetId s f = Some a \<longrightarrow> AssetIdToForeignAsset s a = Some f)"

definition inverse_maps :: "('b \<rightharpoonup> 'a) \<Rightarrow> ('a \<rightharpoonup> 'b) \<Rightarrow> bool" where
  "inverse_maps n m \<longleftrightarrow> (\<forall>f a. n f = Some a \<longleftrightarrow> m a = Some f)"

definition fac_inverse :: "('id, 'fa, 'fs, 'hs) fac_state \<Rightarrow> bool" where
  "fac_inverse s \<longleftrightarrow> inverse_maps (ForeignAssetToAssetId s) (AssetIdToForeignAsset s)"

lemma genesis_build_fac_sound [inv_intros]:
  "genesis_build_fac cfg assets s = Ok t \<Longrightarrow> fac_sound s \<Longrightarrow> fac_sound t"
proof (induction cfg assets s rule: genesis_build_fac.induct)
  case (2 cfg f a admin suf bal assets s)
  from 2(2) obtain fs where
    none: "AssetIdToForeignAsset s a = None"
    and fs: "fungibles_create cfg a admin suf bal (fac_fungibles s) = Inr fs"
    and rest: "genesis_build_fac cfg assets
        (s\<lparr>fac_fungibles := fs, AssetIdToForeignAsset := (AssetIdToForeignAsset s)(a \<mapsto> f),
           ForeignAssetToAssetId := (ForeignAssetToAssetId s)(f \<mapsto> a),
           fac_hooks := on_asset_created cfg f a bal (fac_hooks s)\<rparr>) = Ok t"
    by (auto split: sum.splits)
  show ?case
    by (rule 2(1) [OF rest])
       (use none 2(3) in \<open>auto simp: fac_sound_def split: if_splits\<close>)
qed simp

lemma create_foreign_asset_sound [inv_intros]:
  "create_foreign_asset cfg origin f a admin suf bal s = Ok t \<Longrightarrow> fac_sound s \<Longrightarrow> fac_sound t"
  by (auto simp: create_foreign_asset_def fac_deposit_def fac_sound_def split: if_splits)

lemma change_existing_asset_type_sound [inv_intros]:
  "change_existing_asset_type cfg origin a f s = Ok t \<Longrightarrow> fac_sound s \<Longrightarrow> fac_sound t"
  by (auto simp: change_existing_asset_type_def fac_deposit_def fac_sound_def split: if_splits)

lemma remove_existing_asset_type_sound [inv_intros]:
  "remove_existing_asset_type cfg origin a s = Ok t \<Longrightarrow> fac_sound s \<Longrightarrow> fac_sound t"
  by (auto simp: remove_existing_asset_type_def fac_deposit_def fac_sound_def split: if_splits)

lemma destroy_foreign_asset_sound [inv_intros]:
  "destroy_foreign_asset cfg origin a s = Ok t \<Longrightarrow> fac_sound s \<Longrightarrow> fac_sound t"
  by (auto simp: destroy_foreign_asset_def fac_deposit_def fac_sound_def split: if_splits)

text \<open>
  The steps of the pallet. A step is fresh when the foreign asset it associates has no asset id
  yet; the dispatchables do not check this.
\<close>

inductive fac_step ::
    "('origin, 'acct, 'id, 'fa, 'bal, 'fs, 'hs, 'd) fac_config
      \<Rightarrow> ('id, 'fa, 'fs, 'hs) fac_state \<Rightarrow> ('id, 'fa, 'fs, 'hs) fac_state \<Rightarrow> bool"
  for cfg :: "('origin, 'acct, 'id, 'fa, 'bal, 'fs, 'hs, 'd) fac_config"
  where
    create: "create_foreign_asset cfg origin f a admin suf bal s = Ok t \<Longrightarrow> fac_step cfg s t"
  | change: "change_existing_asset_type cfg origin a f s = Ok t \<Longrightarrow> fac_step cfg s t"
  | remove: "remove_existing_asset_type cfg origin a s = Ok t \<Longrightarrow> fac_step cfg s t"
  | destroy: "destroy_foreign_asset cfg origin a s = Ok t \<Longrightarrow> fac_step cfg s t"

inductive fac_fresh_step ::
    "('origin, 'acct, 'id, 'fa, 'bal, 'fs, 'hs, 'd) fac_config
      \<Rightarrow> ('id, 'fa, 'fs, 'hs) fac_state \<Rightarrow> ('id, 'fa, 'fs, 'hs) fac_state \<Rightarrow> bool"
  for cfg :: "('origin, 'acct, 'id, 'fa, 'bal, 'fs, 'hs, 'd) fac_config"
  where
    create: "ForeignAssetToAssetId s f = None \<Longrightarrow>
      create_foreign_asset cfg origin f a admin suf bal s = Ok t \<Longrightarrow> fac_fresh_step cfg s t"
  | change: "ForeignAssetToAssetId s f = None \<Longrightarrow>
      change_existing_asset_type cfg origin a f s = Ok t \<Longrightarrow> fac_fresh_step cfg s t"
  | remove: "remove_existing_asset_type cfg origin a s = Ok t \<Longrightarrow> fac_fresh_step cfg s t"
  | destroy: "destroy_foreign_asset cfg origin a s = Ok t \<Longrightarrow> fac_fresh_step cfg s t"

text \<open>Genesis may hold the assets listed in the genesis configuration.\<close>

definition fac_empty :: "'fs \<Rightarrow> 'hs \<Rightarrow> ('id, 'fa, 'fs, 'hs) fac_state" where
  "fac_empty fs hs = \<lparr>AssetIdToForeignAsset = Map.empty, ForeignAssetToAssetId = Map.empty,
     fac_fungibles = fs, fac_hooks = hs, fac_events = []\<rparr>"

definition fac_init ::
    "('origin, 'acct, 'id, 'fa, 'bal, 'fs, 'hs, 'd) fac_config \<Rightarrow> ('id, 'fa, 'fs, 'hs) fac_state \<Rightarrow> bool" where
  "fac_init cfg s \<longleftrightarrow> (\<exists>assets fs hs. genesis_build_fac cfg assets (fac_empty fs hs) = Ok s)"

lemma fac_step_sound: "fac_step cfg s t \<Longrightarrow> fac_sound s \<Longrightarrow> fac_sound t"
  by (induction rule: fac_step.induct) (auto intro: inv_intros)

text \<open>Insertion, deletion and replacement of a pair in two maps that are inverse to each other.\<close>

lemma inverse_maps_iff: "inverse_maps n m \<Longrightarrow> n f = Some a \<longleftrightarrow> m a = Some f"
  by (simp add: inverse_maps_def)

lemma inverse_insert:
  assumes "inverse_maps n m" "m a = None" "n f = None"
  shows "inverse_maps (n(f \<mapsto> a)) (m(a \<mapsto> f))"
  unfolding inverse_maps_def
proof (intro allI)
  fix g b
  have "n f \<noteq> Some b" "m a \<noteq> Some g" using assms(2,3) by simp_all
  with inverse_maps_iff [OF assms(1), of g b] show "(n(f \<mapsto> a)) g = Some b \<longleftrightarrow> (m(a \<mapsto> f)) b = Some g"
    using inverse_maps_iff [OF assms(1), of f b] inverse_maps_iff [OF assms(1), of g a]
    by (cases "g = f"; cases "b = a") simp_all
qed

lemma inverse_delete:
  assumes "inverse_maps n m" "m a = Some f"
  shows "inverse_maps (n(f := None)) (m(a := None))"
  unfolding inverse_maps_def
proof (intro allI)
  fix g b
  have "n f = Some a" using assms inverse_maps_iff by metis
  then show "(n(f := None)) g = Some b \<longleftrightarrow> (m(a := None)) b = Some g"
    using inverse_maps_iff [OF assms(1), of g b] assms(2)
      inverse_maps_iff [OF assms(1), of f b] inverse_maps_iff [OF assms(1), of g a]
    by (cases "g = f"; cases "b = a") auto
qed

lemma inverse_replace:
  assumes "inverse_maps n m" "m a = Some p" "n f = None"
  shows "inverse_maps (n(f \<mapsto> a, p := None)) (m(a \<mapsto> f))"
proof -
  have "n p = Some a" using assms(1,2) inverse_maps_iff by metis
  with assms(3) have "f \<noteq> p" by auto
  then have "n(f \<mapsto> a, p := None) = (n(p := None))(f \<mapsto> a)" by (simp add: fun_upd_twist)
  moreover have "m(a \<mapsto> f) = (m(a := None))(a \<mapsto> f)" by simp
  ultimately show ?thesis
    using inverse_insert [OF inverse_delete [OF assms(1,2)], of a f] assms(3) by simp
qed

lemma fac_fresh_step_inverse: "fac_fresh_step cfg s t \<Longrightarrow> fac_inverse s \<Longrightarrow> fac_inverse t"
  by (induction rule: fac_fresh_step.induct)
     (auto simp: fac_inverse_def create_foreign_asset_def change_existing_asset_type_def
       remove_existing_asset_type_def destroy_foreign_asset_def fac_deposit_def
       intro: inverse_insert inverse_delete inverse_replace)

interpretation fac: invariant_system "fac_init cfg" "fac_step cfg" fac_sound for cfg
proof
  show "fac_sound s" if "fac_init cfg s" for s
  proof -
    from that obtain assets fs hs where "genesis_build_fac cfg assets (fac_empty fs hs) = Ok s"
      by (auto simp: fac_init_def)
    then show ?thesis by (rule genesis_build_fac_sound) (simp add: fac_sound_def fac_empty_def)
  qed
qed (rule fac_step_sound)

interpretation fac_fresh: invariant_system "\<lambda>s. \<exists>fs hs. s = fac_empty fs hs" "fac_fresh_step cfg" fac_inverse for cfg
proof
  show "fac_inverse s" if "\<exists>fs hs. s = fac_empty fs hs" for s
    using that by (auto simp: fac_inverse_def inverse_maps_def fac_empty_def)
qed (rule fac_fresh_step_inverse)

section \<open>Properties\<close>

text \<open>A concrete configuration: assets are the ids that exist, every origin but \<open>Root\<close> is refused.\<close>

definition fac_demo :: "(raw_origin, nat, nat, string, nat, nat list, unit, string) fac_config" where
  "fac_demo = \<lparr>ForeignAssetCreatorOrigin = ensure_root raw_system,
     ForeignAssetModifierOrigin = ensure_root raw_system,
     ForeignAssetDestroyerOrigin = ensure_root raw_system,
     fungibles_create = (\<lambda>a admin suf bal fs. if a \<in> set fs then Inl ''InUse'' else Inr (a # fs)),
     fungibles_start_destroy = (\<lambda>a owner fs. Inr (remove1 a fs)),
     on_asset_created = on_asset_created_unit, on_asset_destroyed = on_asset_destroyed_unit\<rparr>"

lemmas fac_demo_simps = fac_demo_def raw_system_def create_foreign_asset_def
  change_existing_asset_type_def remove_existing_asset_type_def destroy_foreign_asset_def
  fac_deposit_def fac_empty_def on_asset_created_unit_def on_asset_destroyed_unit_def

text \<open>
  C28: In every reachable state a foreign asset that converts to an asset id is the one registered
  for that id, so no two foreign assets convert to the same id.
\<close>

theorem foreign_lookup_sound:
  assumes "reachable (fac_init cfg) (fac_step cfg) s" "fac_convert s f = Some a"
  shows "fac_convert_back s a = Some f \<and> (\<forall>g. fac_convert s g = Some a \<longrightarrow> g = f)"
proof -
  from fac.invar_reachable [OF assms(1)]
  have sound: "fac_convert s g = Some b \<Longrightarrow> fac_convert_back s b = Some g" for g b
    by (simp add: fac_sound_def fac_convert_def fac_convert_back_def)
  from sound [OF assms(2)] sound [of _ a] show ?thesis by auto
qed

theorem foreign_lookup_sound_witness:
  "\<exists>s. genesis_build_fac fac_demo [(''DOT'', 7, 1, True, 1)] (fac_empty [] ()) = Ok s \<and>
     fac_convert s ''DOT'' = Some 7 \<and> fac_convert_back s 7 = Some ''DOT''"
proof -
  let ?s = "\<lparr>AssetIdToForeignAsset = [7 :: nat \<mapsto> ''DOT''], ForeignAssetToAssetId = [''DOT'' \<mapsto> 7],
     fac_fungibles = [7 :: nat], fac_hooks = (), fac_events = []\<rparr>"
  have g: "genesis_build_fac fac_demo [(''DOT'', 7, 1, True, 1)] (fac_empty [] ()) = Ok ?s"
    by (simp add: fac_demo_simps)
  then have "fac_init fac_demo ?s" unfolding fac_init_def by blast
  then have "reachable (fac_init fac_demo) (fac_step fac_demo) ?s" by (rule reach_init)
  from foreign_lookup_sound [OF this, of "''DOT''" 7] have "fac_convert_back ?s 7 = Some ''DOT''"
    by (simp add: fac_convert_def)
  with g show ?thesis unfolding fac_convert_def by (intro exI [of _ ?s]) simp
qed

text \<open>
  As long as every association made is of a foreign asset that has none yet, the two maps stay
  inverse to each other: the two conversions are a bijection between the registered sides.
\<close>

theorem fresh_associations_inverse:
  assumes "reachable (\<lambda>s. \<exists>fs hs. s = fac_empty fs hs) (fac_fresh_step cfg) s"
  shows "(fac_convert s f = Some a) = (fac_convert_back s a = Some f)"
  using fac_fresh.invar_reachable [OF assms] by (simp add: fac_inverse_def inverse_maps_def fac_convert_def fac_convert_back_def)

definition fac_demo_one :: "(nat, string, nat list, unit) fac_state" where
  "fac_demo_one = \<lparr>AssetIdToForeignAsset = [7 \<mapsto> ''DOT''], ForeignAssetToAssetId = [''DOT'' \<mapsto> 7],
     fac_fungibles = [7], fac_hooks = (), fac_events = [ForeignAssetCreated 7 ''DOT'']\<rparr>"

lemma fac_demo_create: "create_foreign_asset fac_demo Root ''DOT'' 7 1 True 1 (fac_empty [] ()) = Ok fac_demo_one"
  by (simp add: fac_demo_simps fac_demo_one_def)

theorem fresh_associations_inverse_witness:
  "(fac_convert fac_demo_one ''DOT'' = Some 7) = (fac_convert_back fac_demo_one 7 = Some ''DOT'')"
proof (rule fresh_associations_inverse)
  have "ForeignAssetToAssetId (fac_empty [] () :: (nat, string, nat list, unit) fac_state) ''DOT'' = None"
    by (simp add: fac_empty_def)
  then have "fac_fresh_step fac_demo (fac_empty [] ()) fac_demo_one"
    using fac_demo_create by (rule fac_fresh_step.create)
  then show "reachable (\<lambda>s. \<exists>fs hs. s = fac_empty fs hs) (fac_fresh_step fac_demo) fac_demo_one"
    by (rule reach_step [rotated]) (auto intro!: reach_init)
qed

text \<open>
  Creating an asset for a new foreign asset and removing its type again gives back both maps.
\<close>

theorem create_remove_roundtrip:
  assumes "ForeignAssetCreatorOrigin cfg o1 = Inr ()" "ForeignAssetDestroyerOrigin cfg o2 = Inr ()"
    and "AssetIdToForeignAsset s a = None" "ForeignAssetToAssetId s f = None"
    and "fungibles_create cfg a admin suf bal (fac_fungibles s) = Inr fs"
  shows "\<exists>t u. create_foreign_asset cfg o1 f a admin suf bal s = Ok t \<and>
     fac_convert t f = Some a \<and> fac_convert_back t a = Some f \<and>
     remove_existing_asset_type cfg o2 a t = Ok u \<and>
     AssetIdToForeignAsset u = AssetIdToForeignAsset s \<and> ForeignAssetToAssetId u = ForeignAssetToAssetId s"
proof -
  have "(AssetIdToForeignAsset s)(a := None) = AssetIdToForeignAsset s"
    "(ForeignAssetToAssetId s)(f := None) = ForeignAssetToAssetId s"
    using assms(3,4) by auto
  with assms show ?thesis
    by (simp add: create_foreign_asset_def remove_existing_asset_type_def fac_deposit_def
        fac_convert_def fac_convert_back_def)
qed

theorem create_remove_roundtrip_witness:
  "\<exists>t u. create_foreign_asset fac_demo Root ''DOT'' 7 1 True 1 (fac_empty [] ()) = Ok t \<and>
     fac_convert t ''DOT'' = Some 7 \<and> fac_convert_back t 7 = Some ''DOT'' \<and>
     remove_existing_asset_type fac_demo Root 7 t = Ok u \<and>
     AssetIdToForeignAsset u = AssetIdToForeignAsset (fac_empty [] () :: (nat, string, nat list, unit) fac_state) \<and>
     ForeignAssetToAssetId u = ForeignAssetToAssetId (fac_empty [] () :: (nat, string, nat list, unit) fac_state)"
  by (rule create_remove_roundtrip) (simp_all add: fac_demo_def raw_system_def fac_empty_def)

text \<open>
  Changing the type of an asset to the type it already has succeeds and deletes the reverse
  association: the foreign asset no longer converts, although the id is still registered for it.
\<close>

theorem change_to_same_type_loses_asset:
  assumes "ForeignAssetModifierOrigin cfg origin = Inr ()" "AssetIdToForeignAsset s a = Some f"
  shows "\<exists>t. change_existing_asset_type cfg origin a f s = Ok t \<and>
     fac_convert_back t a = Some f \<and> fac_convert t f = None"
  using assms
  by (simp add: change_existing_asset_type_def fac_deposit_def fac_convert_def fac_convert_back_def)

theorem change_to_same_type_loses_asset_witness:
  "\<exists>t. change_existing_asset_type fac_demo Root 7 ''DOT'' fac_demo_one = Ok t \<and>
     fac_convert_back t 7 = Some ''DOT'' \<and> fac_convert t ''DOT'' = None"
  by (rule change_to_same_type_loses_asset) (simp_all add: fac_demo_def raw_system_def fac_demo_one_def)

end
