(* ===== verification/Xcm_Primitives.thy ===== *)
theory Xcm_Primitives
  imports Moonkit_Prelude
begin

text \<open>
  \<^verbatim>\<open>primitives/xcm\<close>: the switch that pauses XCM execution (\<^verbatim>\<open>lib.rs\<close>), the generators of locations
  (\<^verbatim>\<open>generators.rs\<close>) and the matchers that turn the address of a token contract into the location of
  its asset (\<^verbatim>\<open>location_matcher.rs\<close>).
\<close>

section \<open>Locations\<close>

text \<open>
  The locations of the \<^verbatim>\<open>xcm\<close> crate: a number of parents and a list of junctions. The junctions the
  sources build or match have constructors of their own (a plurality with the body it speaks for); \<open>OtherJunction\<close>
  stands for the rest.
\<close>

datatype body_id = ExecutiveBody | OtherBody nat

datatype junction =
    Parachain u32
  | PalletInstance u8
  | AccountKey20 "nat option" H160
  | AccountId32 "nat option" H256
  | Plurality body_id
  | OtherJunction nat

record location =
  parents :: u8
  interior :: "junction list"

definition location_new :: "u8 \<Rightarrow> junction list \<Rightarrow> location" where
  "location_new p js = \<lparr>parents = p, interior = js\<rparr>"

lemma location_new_eq_iff [simp]: "location_new p js = location_new q ks \<longleftrightarrow> p = q \<and> js = ks"
  by (simp add: location_new_def)

definition generate_sibling_destination :: "u32 \<Rightarrow> location" where
  "generate_sibling_destination para_id = location_new 1 [Parachain para_id]"

definition generate_local_beneficiary20 :: "H160 \<Rightarrow> location" where
  "generate_local_beneficiary20 key = location_new 0 [AccountKey20 None key]"

definition generate_local_beneficiary32 :: "H256 \<Rightarrow> location" where
  "generate_local_beneficiary32 account_id = location_new 0 [AccountId32 None account_id]"

section \<open>Pausing XCM execution\<close>

text \<open>
  \<^verbatim>\<open>PauseXcmExecution\<close>: both calls may change the state \<open>'xs\<close> of the XCM executor, also when they
  report an error.
\<close>

record ('xs, 'd) pause_xcm =
  suspend_xcm_execution :: "'xs \<Rightarrow> ('d + unit) \<times> 'xs"
  resume_xcm_execution :: "'xs \<Rightarrow> ('d + unit) \<times> 'xs"

definition pause_xcm_unit :: "('xs, 'd) pause_xcm" where
  "pause_xcm_unit = \<lparr>suspend_xcm_execution = (\<lambda>x. (Inr (), x)), resume_xcm_execution = (\<lambda>x. (Inr (), x))\<rparr>"

text \<open>An executor that is either suspended or not, for concrete runs.\<close>

definition pause_flag :: "(bool, string) pause_xcm" where
  "pause_flag = \<lparr>suspend_xcm_execution = (\<lambda>_. (Inr (), True)), resume_xcm_execution = (\<lambda>_. (Inr (), False))\<rparr>"

section \<open>Location matchers\<close>

text \<open>The tuple implementation: the first matcher that answers.\<close>

fun tuple_convert :: "('acct \<Rightarrow> location option) list \<Rightarrow> 'acct \<Rightarrow> location option" where
  "tuple_convert [] account = None"
| "tuple_convert (m # ms) account =
     (case m account of Some l \<Rightarrow> Some l | None \<Rightarrow> tuple_convert ms account)"

text \<open>\<open>from_h160\<close> and \<open>into_h160\<close> convert between the account type and addresses.\<close>

definition single_address_convert :: "(H160 \<Rightarrow> 'acct) \<Rightarrow> u64 \<Rightarrow> nat \<Rightarrow> 'acct \<Rightarrow> location option" where
  "single_address_convert from_h160 ADDRESS pallet_index account =
     (if account = from_h160 (ucast ADDRESS)
      then Some (location_new 0 [PalletInstance (of_nat pallet_index)])
      else None)"

definition foreign_asset_convert ::
    "('acct \<Rightarrow> (u8 list \<times> 'id) option) \<Rightarrow> ('id \<Rightarrow> location option) \<Rightarrow> 'acct \<Rightarrow> location option" where
  "foreign_asset_convert account_to_asset_id convert_back account =
     (case account_to_asset_id account of
        Some (prefix, asset_id) \<Rightarrow> convert_back asset_id
      | None \<Rightarrow> None)"

definition erc20_pallet_convert :: "('acct \<Rightarrow> H160) \<Rightarrow> nat \<Rightarrow> 'acct \<Rightarrow> location option" where
  "erc20_pallet_convert into_h160 pallet_index account =
     (let h160_account = into_h160 account
      in Some (location_new 0 [PalletInstance (of_nat pallet_index), AccountKey20 None h160_account]))"

text \<open>
  \<^verbatim>\<open>AccountIdToLocationMatcher\<close> as an interface: a matcher resolves different accounts to different
  locations, all of them in \<open>targets\<close>. \<open>matcher_ok\<close> collects what it needs of its parameters.
\<close>

locale location_matcher =
  fixes convert :: "'c \<Rightarrow> 'acct \<Rightarrow> location option"
    and targets :: "'c \<Rightarrow> location set"
    and matcher_ok :: "'c \<Rightarrow> bool"
  assumes convert_target: "matcher_ok c \<Longrightarrow> convert c a = Some l \<Longrightarrow> l \<in> targets c"
    and convert_inj: "matcher_ok c \<Longrightarrow> convert c a = Some l \<Longrightarrow> convert c b = Some l \<Longrightarrow> a = b"
begin

text \<open>A matcher may be put in front of another one whose locations are different.\<close>

lemma tuple_Cons_inj:
  assumes "matcher_ok c"
    and "\<And>a b l. tuple_convert ms a = Some l \<Longrightarrow> tuple_convert ms b = Some l \<Longrightarrow> a = b"
    and "\<And>a l. tuple_convert ms a = Some l \<Longrightarrow> l \<notin> targets c"
    and "tuple_convert (convert c # ms) a = Some l" "tuple_convert (convert c # ms) b = Some l"
  shows "a = b"
  using assms by (auto split: option.splits dest: convert_target convert_inj)

end

definition injective_on_some :: "('a \<Rightarrow> 'b option) \<Rightarrow> bool" where
  "injective_on_some f \<longleftrightarrow> (\<forall>a b l. f a = Some l \<longrightarrow> f b = Some l \<longrightarrow> a = b)"

lemma injective_on_someD: "injective_on_some f \<Longrightarrow> f a = Some l \<Longrightarrow> f b = Some l \<Longrightarrow> a = b"
  by (auto simp: injective_on_some_def)

interpretation single_address: location_matcher
  "\<lambda>(from_h160, ADDRESS, index). single_address_convert from_h160 ADDRESS index"
  "\<lambda>(_, _, index). {location_new 0 [PalletInstance (of_nat index)]}" "\<lambda>_. True"
  by unfold_locales (auto simp: single_address_convert_def split: if_splits)

interpretation erc20_pallet: location_matcher
  "\<lambda>(into_h160, index). erc20_pallet_convert into_h160 index"
  "\<lambda>(_, index). {location_new 0 [PalletInstance (of_nat index), AccountKey20 None k] |k. True}"
  "\<lambda>(into_h160, _). inj into_h160"
  by unfold_locales (auto simp: erc20_pallet_convert_def Let_def inj_eq)

interpretation foreign_asset: location_matcher
  "\<lambda>(to_id, conv). foreign_asset_convert to_id conv" "\<lambda>(_, conv). {l. \<exists>i. conv i = Some l}"
  "\<lambda>(to_id, conv). injective_on_some (map_option snd \<circ> to_id) \<and> injective_on_some conv"
proof (unfold_locales, goal_cases)
  case (1 c a l)
  then show ?case by (auto simp: foreign_asset_convert_def split: option.splits)
next
  case (2 c a l b)
  obtain to_id conv where c: "c = (to_id, conv)" by (cases c)
  from 2(2,3) obtain p i q j where "to_id a = Some (p, i)" "to_id b = Some (q, j)"
    "conv i = Some l" "conv j = Some l"
    by (auto simp: c foreign_asset_convert_def split: option.splits)
  moreover from this have "i = j" using 2(1) by (auto simp: c dest: injective_on_someD)
  ultimately show ?case
    using 2(1) injective_on_someD [of "map_option snd \<circ> to_id" a i b] by (simp add: c)
qed

section \<open>Composition of the matchers\<close>

text \<open>
  With a self-reserve matcher, a foreign asset matcher and an ERC20 matcher in front of each
  other, as runtimes compose them, two token addresses never resolve to the same location,
  provided no foreign asset is registered at one of the pallets' own locations.
\<close>

lemma token_locations_injective:
  assumes "inj into_h160" "injective_on_some (map_option snd \<circ> account_to_asset_id)"
    and "injective_on_some convert_back"
    and "\<forall>i l. convert_back i = Some l \<longrightarrow> l \<noteq> location_new 0 [PalletInstance (of_nat self_index)] \<and>
          (\<forall>k. l \<noteq> location_new 0 [PalletInstance (of_nat erc20_index), AccountKey20 None k])"
    and "tuple_convert [single_address_convert from_h160 ADDRESS self_index,
           foreign_asset_convert account_to_asset_id convert_back,
           erc20_pallet_convert into_h160 erc20_index] a = Some l"
    and "tuple_convert [single_address_convert from_h160 ADDRESS self_index,
           foreign_asset_convert account_to_asset_id convert_back,
           erc20_pallet_convert into_h160 erc20_index] b = Some l"
  shows "a = b"
proof -
  let ?e = "erc20_pallet_convert into_h160 erc20_index"
  let ?f = "foreign_asset_convert account_to_asset_id convert_back"
  have e: "l' = location_new 0 [PalletInstance (of_nat erc20_index), AccountKey20 None (into_h160 x)]"
    if "tuple_convert [?e] x = Some l'" for x l'
    using that by (simp add: erc20_pallet_convert_def Let_def)
  have e_inj: "x = y" if "tuple_convert [?e] x = Some l'" "tuple_convert [?e] y = Some l'" for x y l'
    using e [OF that(1)] e [OF that(2)] assms(1) by (simp add: inj_eq)
  have f_inj: "x = y" if "tuple_convert [?f, ?e] x = Some l'" "tuple_convert [?f, ?e] y = Some l'" for x y l'
    by (rule foreign_asset.tuple_Cons_inj [of "(account_to_asset_id, convert_back)" "[?e]" x l' y])
       (use assms(2,3,4) that e e_inj in \<open>auto simp del: tuple_convert.simps(2)\<close>)
  have f: "l' \<noteq> location_new 0 [PalletInstance (of_nat self_index)]"
    if "tuple_convert [?f, ?e] x = Some l'" for x l'
    using that assms(4)
    by (auto simp: foreign_asset_convert_def erc20_pallet_convert_def Let_def split: option.splits)
  show ?thesis
    by (rule single_address.tuple_Cons_inj [of "[?f, ?e]" "(from_h160, ADDRESS, self_index)" a l b])
       (use assms(5,6) f f_inj in \<open>auto simp del: tuple_convert.simps(2)\<close>)
qed

end
