(* ===== verification/Maintenance_Mode.thy ===== *)
theory Maintenance_Mode
  imports Frame_Interfaces Xcm_Primitives
begin

text \<open>
  \<^verbatim>\<open>pallets/maintenance-mode\<close> (with its \<^verbatim>\<open>xcm-support\<close> feature) and \<^verbatim>\<open>pallets/emergency-para-xcm\<close>: the
  two switches that stop the processing of XCM messages, and the interface through which the message
  queue asks them.
\<close>

section \<open>Maintenance mode\<close>

datatype 'd mm_event =
    EnteredMaintenanceMode
  | NormalOperationResumed
  | FailedToSuspendIdleXcmExecution 'd
  | FailedToResumeIdleXcmExecution 'd

datatype mm_error = AlreadyInMaintenanceMode | NotInMaintenanceMode

record ('xs, 'd) mm_state =
  MaintenanceMode :: bool
  mm_xcm :: 'xs
  mm_events :: "'d mm_event list"

record ('origin, 'call, 'xs, 'd) mm_config =
  NormalCallFilter :: "'call \<Rightarrow> bool"
  MaintenanceCallFilter :: "'call \<Rightarrow> bool"
  MaintenanceOrigin :: "'origin \<Rightarrow> 'd + unit"
  XcmExecutionManager :: "('xs, 'd) pause_xcm"

definition mm_deposit :: "'d mm_event \<Rightarrow> ('xs, 'd) mm_state \<Rightarrow> ('xs, 'd) mm_state" where
  "mm_deposit e s = s\<lparr>mm_events := mm_events s @ [e]\<rparr>"

definition do_enter_maintenance_mode ::
    "('origin, 'call, 'xs, 'd) mm_config \<Rightarrow> ('xs, 'd) mm_state \<Rightarrow> ('xs, 'd) mm_state" where
  "do_enter_maintenance_mode cfg s =
     (let s1 = s\<lparr>MaintenanceMode := True\<rparr>;
          (r, x) = suspend_xcm_execution (XcmExecutionManager cfg) (mm_xcm s1);
          s2 = s1\<lparr>mm_xcm := x\<rparr>;
          s3 = (case r of Inl error \<Rightarrow> mm_deposit (FailedToSuspendIdleXcmExecution error) s2 | Inr _ \<Rightarrow> s2)
      in mm_deposit EnteredMaintenanceMode s3)"

definition enter_maintenance_mode ::
    "('origin, 'call, 'xs, 'd) mm_config \<Rightarrow> 'origin \<Rightarrow> ('xs, 'd) mm_state
      \<Rightarrow> ((mm_error, 'd) dispatch_error, ('xs, 'd) mm_state) result" where
  "enter_maintenance_mode cfg origin s =
     and_then (from_frame (MaintenanceOrigin cfg origin))
     (\<lambda>_. and_then (ensure (\<not> MaintenanceMode s) (ModuleError AlreadyInMaintenanceMode))
     (\<lambda>_. Ok (do_enter_maintenance_mode cfg s)))"

definition resume_normal_operation ::
    "('origin, 'call, 'xs, 'd) mm_config \<Rightarrow> 'origin \<Rightarrow> ('xs, 'd) mm_state
      \<Rightarrow> ((mm_error, 'd) dispatch_error, ('xs, 'd) mm_state) result" where
  "resume_normal_operation cfg origin s =
     and_then (from_frame (MaintenanceOrigin cfg origin))
     (\<lambda>_. and_then (ensure (MaintenanceMode s) (ModuleError NotInMaintenanceMode))
     (\<lambda>_. let s1 = s\<lparr>MaintenanceMode := False\<rparr>;
              (r, x) = resume_xcm_execution (XcmExecutionManager cfg) (mm_xcm s1);
              s2 = s1\<lparr>mm_xcm := x\<rparr>;
              s3 = (case r of Inl error \<Rightarrow> mm_deposit (FailedToResumeIdleXcmExecution error) s2 | Inr _ \<Rightarrow> s2)
          in Ok (mm_deposit NormalOperationResumed s3)))"

definition genesis_build_mm :: "bool \<Rightarrow> ('xs, 'd) mm_state \<Rightarrow> ('xs, 'd) mm_state" where
  "genesis_build_mm start_in_maintenance_mode s =
     (if start_in_maintenance_mode then s\<lparr>MaintenanceMode := True\<rparr> else s)"

definition mm_contains :: "('origin, 'call, 'xs, 'd) mm_config \<Rightarrow> ('xs, 'd) mm_state \<Rightarrow> 'call \<Rightarrow> bool" where
  "mm_contains cfg s call =
     (if MaintenanceMode s then MaintenanceCallFilter cfg call else NormalCallFilter cfg call)"

definition mm_is_paused :: "('xs, 'd) mm_state \<Rightarrow> 'o \<Rightarrow> bool" where
  "mm_is_paused s origin = MaintenanceMode s"

text \<open>The answers of \<^verbatim>\<open>FailedMigrationHandler\<close>; this pallet always gives the first.\<close>

datatype failed_migration_handling = ForceUnstuck | KeepStuck | Ignore

definition mm_failed ::
    "('origin, 'call, 'xs, 'd) mm_config \<Rightarrow> u32 option \<Rightarrow> ('xs, 'd) mm_state
      \<Rightarrow> failed_migration_handling \<times> ('xs, 'd) mm_state" where
  "mm_failed cfg migration s = (ForceUnstuck, do_enter_maintenance_mode cfg s)"

section \<open>Emergency pause of incoming XCM\<close>

datatype xcm_mode = Normal | Paused

datatype em_event = EnteredPausedXcmMode | NormalXcmOperationResumed

datatype em_error = NotInPausedMode

text \<open>\<open>em_system\<close> is the state of \<^verbatim>\<open>frame_system\<close>, which holds the authorized upgrade.\<close>

record 'ss em_state =
  Mode :: xcm_mode
  em_system :: 'ss
  em_events :: "em_event list"

record ('origin, 'hash, 'ss, 'd) em_config =
  CheckAssociatedRelayNumber :: "u32 \<Rightarrow> u32 \<Rightarrow> (unit, unit) result"
  PausedThreshold :: u32
  FastAuthorizeUpgradeOrigin :: "'origin \<Rightarrow> 'd + unit"
  PausedToNormalOrigin :: "'origin \<Rightarrow> 'd + unit"
  system_authorize_upgrade :: "'hash \<Rightarrow> 'ss \<Rightarrow> 'd + 'ss"

definition on_initialize_em :: "(nat \<Rightarrow> nat \<Rightarrow> 'w) \<Rightarrow> 'w" where
  "on_initialize_em db_reads_writes = db_reads_writes 1 1"

definition paused_to_normal ::
    "('origin, 'hash, 'ss, 'd) em_config \<Rightarrow> 'origin \<Rightarrow> 'ss em_state
      \<Rightarrow> ((em_error, 'd) dispatch_error, 'ss em_state) result" where
  "paused_to_normal cfg origin s =
     and_then (from_frame (PausedToNormalOrigin cfg origin))
     (\<lambda>_. and_then (ensure (Mode s = Paused) (ModuleError NotInPausedMode))
     (\<lambda>_. Ok (s\<lparr>Mode := Normal, em_events := em_events s @ [NormalXcmOperationResumed]\<rparr>)))"

definition fast_authorize_upgrade ::
    "('origin, 'hash, 'ss, 'd) em_config \<Rightarrow> 'origin \<Rightarrow> 'hash \<Rightarrow> 'ss em_state
      \<Rightarrow> ((em_error, 'd) dispatch_error, 'ss em_state) result" where
  "fast_authorize_upgrade cfg origin code_hash s =
     and_then (from_frame (FastAuthorizeUpgradeOrigin cfg origin))
     (\<lambda>_. and_then (ensure (Mode s = Paused) (ModuleError NotInPausedMode))
     (\<lambda>_. and_then (from_frame (system_authorize_upgrade cfg code_hash (em_system s)))
     (\<lambda>ss. Ok (s\<lparr>em_system := ss\<rparr>))))"

text \<open>The addition is the unchecked one of \<^verbatim>\<open>u32\<close> and wraps in the release profile.\<close>

definition check_associated_relay_number ::
    "('origin, 'hash, 'ss, 'd) em_config \<Rightarrow> u32 \<Rightarrow> u32 \<Rightarrow> 'ss em_state \<Rightarrow> (unit, 'ss em_state) result" where
  "check_associated_relay_number cfg current previous s =
     and_then (CheckAssociatedRelayNumber cfg current previous)
     (\<lambda>_. if previous \<noteq> 0 \<and> current > previous + PausedThreshold cfg
          then Ok (s\<lparr>Mode := Paused, em_events := em_events s @ [EnteredPausedXcmMode]\<rparr>)
          else Ok s)"

definition em_is_paused :: "('o \<Rightarrow> bool) \<Rightarrow> 'ss em_state \<Rightarrow> 'o \<Rightarrow> bool" where
  "em_is_paused inner s origin = (if Mode s = Normal then inner origin else True)"

section \<open>The pause query\<close>

text \<open>
  \<^verbatim>\<open>QueuePausedQuery\<close> as an interface: a provider in a halted state answers that every queue is
  paused. The emergency pallet wraps such a provider and keeps its promise.
\<close>

locale queue_paused_query =
  fixes is_paused :: "'s \<Rightarrow> 'o \<Rightarrow> bool"
    and halted :: "'s \<Rightarrow> bool"
  assumes halted_paused: "halted s \<Longrightarrow> is_paused s origin"
begin

lemma wrapped_paused: "halted s \<or> Mode e = Paused \<Longrightarrow> em_is_paused (is_paused s) e origin"
  using halted_paused by (cases "Mode e") (auto simp: em_is_paused_def)

lemma wrapped_transparent: "Mode e = Normal \<Longrightarrow> em_is_paused (is_paused s) e = is_paused s"
  by (simp add: em_is_paused_def fun_eq_iff)

end

interpretation mm_query: queue_paused_query mm_is_paused MaintenanceMode
  by unfold_locales (simp add: mm_is_paused_def)

interpretation em_query: queue_paused_query "\<lambda>(inner, e). em_is_paused inner e" "\<lambda>(_, e). Mode e = Paused"
  by unfold_locales (auto simp: em_is_paused_def)

section \<open>Runs of the emergency pallet\<close>

datatype ('origin, 'hash) em_op =
    CheckRelayNumber u32 u32
  | PausedToNormal 'origin
  | FastAuthorizeUpgrade 'origin 'hash

text \<open>A failing dispatch changes nothing; a panic of the relay number check ends the run.\<close>

definition em_apply ::
    "('origin, 'hash, 'ss, 'd) em_config \<Rightarrow> ('origin, 'hash) em_op \<Rightarrow> 'ss em_state \<Rightarrow> (unit, 'ss em_state) result" where
  "em_apply cfg op s =
     (case op of
        CheckRelayNumber c p \<Rightarrow> check_associated_relay_number cfg c p s
      | PausedToNormal origin \<Rightarrow> (case paused_to_normal cfg origin s of Ok t \<Rightarrow> Ok t | _ \<Rightarrow> Ok s)
      | FastAuthorizeUpgrade origin h \<Rightarrow>
          (case fast_authorize_upgrade cfg origin h s of Ok t \<Rightarrow> Ok t | _ \<Rightarrow> Ok s))"

primrec em_run ::
    "('origin, 'hash, 'ss, 'd) em_config \<Rightarrow> ('origin, 'hash) em_op list \<Rightarrow> 'ss em_state \<Rightarrow> (unit, 'ss em_state) result" where
  "em_run cfg [] s = Ok s"
| "em_run cfg (op # ops) s = and_then (em_apply cfg op s) (em_run cfg ops)"

definition resumes :: "('origin, 'hash, 'ss, 'd) em_config \<Rightarrow> ('origin, 'hash) em_op \<Rightarrow> bool" where
  "resumes cfg op = (case op of PausedToNormal origin \<Rightarrow> PausedToNormalOrigin cfg origin = Inr () | _ \<Rightarrow> False)"

definition authorizes :: "('origin, 'hash, 'ss, 'd) em_config \<Rightarrow> ('origin, 'hash) em_op \<Rightarrow> bool" where
  "authorizes cfg op =
     (case op of FastAuthorizeUpgrade origin h \<Rightarrow> FastAuthorizeUpgradeOrigin cfg origin = Inr () | _ \<Rightarrow> False)"

definition late_relay_number :: "('origin, 'hash, 'ss, 'd) em_config \<Rightarrow> ('origin, 'hash) em_op \<Rightarrow> bool" where
  "late_relay_number cfg op =
     (case op of CheckRelayNumber c p \<Rightarrow> p \<noteq> 0 \<and> c > p + PausedThreshold cfg | _ \<Rightarrow> False)"

lemma em_apply_mode:
  assumes "em_apply cfg op s = Ok t"
  shows "Mode t = (if late_relay_number cfg op then Paused else if resumes cfg op then Normal else Mode s)"
  using assms
  by (cases "Mode s"; cases op)
     (auto simp: em_apply_def resumes_def late_relay_number_def check_associated_relay_number_def
       paused_to_normal_def fast_authorize_upgrade_def split: result.splits if_splits,
      (metis old.unit.exhaust)?)

lemma em_apply_system:
  assumes "em_apply cfg op s = Ok t" "em_system t \<noteq> em_system s"
  shows "authorizes cfg op \<and> Mode s = Paused"
  using assms
  by (cases op)
     (auto simp: em_apply_def authorizes_def check_associated_relay_number_def paused_to_normal_def
       fast_authorize_upgrade_def split: result.splits if_splits)

text \<open>The first step of a run that changes the system state.\<close>

lemma em_run_system:
  assumes "em_run cfg ops s = Ok t" "em_system t \<noteq> em_system s"
  shows "\<exists>before op after mid. ops = before @ op # after \<and> em_run cfg before s = Ok mid \<and>
     Mode mid = Paused \<and> authorizes cfg op"
  using assms
proof (induction ops arbitrary: s)
  case (Cons op ops)
  from Cons.prems(1) obtain u where u: "em_apply cfg op s = Ok u" "em_run cfg ops u = Ok t" by auto
  show ?case
  proof (cases "em_system u = em_system s")
    case True
    with Cons.IH [OF u(2)] Cons.prems(2) obtain before op' after mid
      where "ops = before @ op' # after" "em_run cfg before u = Ok mid" "Mode mid = Paused" "authorizes cfg op'"
      by auto
    with u(1) show ?thesis
      by (intro exI [of _ "op # before"] exI [of _ op'] exI [of _ after] exI [of _ mid]) simp
  next
    case False
    with em_apply_system [OF u(1)] show ?thesis
      by (intro exI [of _ "[]"] exI [of _ op] exI [of _ ops] exI [of _ s]) simp
  qed
qed simp

lemma em_run_stays_paused:
  "em_run cfg ops s = Ok t \<Longrightarrow> Mode s = Paused \<Longrightarrow> \<forall>op\<in>set ops. \<not> resumes cfg op \<Longrightarrow> Mode t = Paused"
  by (induction ops arbitrary: s) (auto dest: em_apply_mode)

lemma em_run_stays_normal:
  "em_run cfg ops s = Ok t \<Longrightarrow> Mode s = Normal \<Longrightarrow> \<forall>op\<in>set ops. \<not> late_relay_number cfg op \<Longrightarrow> Mode t = Normal"
  by (induction ops arbitrary: s) (auto dest: em_apply_mode)

section \<open>Properties\<close>

text \<open>
  The emergency pause is a latch: it is entered only by a relay block number that is too far
  ahead, it stays over any number of blocks and calls until the privileged origin resumes, and the
  system state (the authorized upgrade) only changes through a fast upgrade by its own origin at a
  moment when the mode is paused.
\<close>

theorem emergency_pause_latched:
  assumes "em_run cfg ops s = Ok t"
  shows "(Mode s = Paused \<longrightarrow> (\<forall>op\<in>set ops. \<not> resumes cfg op) \<longrightarrow> Mode t = Paused) \<and>
     (Mode s = Normal \<longrightarrow> (\<forall>op\<in>set ops. \<not> late_relay_number cfg op) \<longrightarrow> Mode t = Normal) \<and>
     (em_system t \<noteq> em_system s \<longrightarrow>
        (\<exists>before op after mid. ops = before @ op # after \<and> em_run cfg before s = Ok mid \<and>
           Mode mid = Paused \<and> authorizes cfg op))"
  using em_run_stays_paused [OF assms] em_run_stays_normal [OF assms] em_run_system [OF assms] by blast

definition em_demo :: "(raw_origin, nat, nat list, string) em_config" where
  "em_demo = \<lparr>CheckAssociatedRelayNumber = (\<lambda>c p. assert_that (c \<ge> p) ''relay number went back''),
     PausedThreshold = 10, FastAuthorizeUpgradeOrigin = ensure_root raw_system,
     PausedToNormalOrigin = ensure_root raw_system, system_authorize_upgrade = (\<lambda>h ss. Inr (h # ss))\<rparr>"

definition em_demo_normal :: "nat list em_state" where
  "em_demo_normal = \<lparr>Mode = Normal, em_system = [], em_events = []\<rparr>"

lemmas em_demo_simps = em_demo_def em_demo_normal_def em_apply_def check_associated_relay_number_def
  paused_to_normal_def fast_authorize_upgrade_def raw_system_def resumes_def

theorem emergency_pause_latched_witness:
  "\<exists>t. em_run em_demo [PausedToNormal (Signed 4), FastAuthorizeUpgrade Root 9]
        (em_demo_normal\<lparr>Mode := Paused\<rparr>) = Ok t \<and> Mode t = Paused \<and> em_system t = [9]"
proof -
  let ?ops = "[PausedToNormal (Signed 4), FastAuthorizeUpgrade Root 9]"
  let ?t = "\<lparr>Mode = Paused, em_system = [9], em_events = []\<rparr>"
  have run: "em_run em_demo ?ops (em_demo_normal\<lparr>Mode := Paused\<rparr>) = Ok ?t"
    by (simp add: em_demo_simps)
  have "\<forall>op\<in>set ?ops. \<not> resumes em_demo op" by (simp add: em_demo_simps)
  with emergency_pause_latched [OF run] have "Mode ?t = Paused" by simp
  with run show ?thesis by (intro exI [of _ ?t]) simp
qed

text \<open>
  As long as the sum does not wrap, the relay number check pauses exactly when the relay chain
  moved on by more than the threshold since the previous block (and never on the first block);
  when it wraps, it pauses although the relay chain did not move at all.
\<close>

theorem relay_gap_pauses:
  assumes "CheckAssociatedRelayNumber cfg current previous = Ok ()" "previous \<le> current"
  shows "(unat previous + unat (PausedThreshold cfg) < 2 ^ 32 \<longrightarrow>
        (\<exists>t. check_associated_relay_number cfg current previous s = Ok t \<and>
           (Mode t = Paused \<longleftrightarrow> Mode s = Paused \<or>
              previous \<noteq> 0 \<and> unat current - unat previous > unat (PausedThreshold cfg)))) \<and>
     (previous \<noteq> 0 \<longrightarrow> 2 ^ 32 \<le> unat previous + unat (PausedThreshold cfg) \<longrightarrow>
        (\<exists>t. check_associated_relay_number cfg current previous s = Ok t \<and> Mode t = Paused))"
proof (intro conjI impI)
  assume "unat previous + unat (PausedThreshold cfg) < 2 ^ 32"
  then have "previous + PausedThreshold cfg < current \<longleftrightarrow>
      unat current - unat previous > unat (PausedThreshold cfg)"
    using unat_add_no_wrap [of previous "PausedThreshold cfg"] assms(2)
    by (auto simp: word_less_nat_alt word_le_nat_alt)
  with assms(1) show "\<exists>t. check_associated_relay_number cfg current previous s = Ok t \<and>
      (Mode t = Paused \<longleftrightarrow> Mode s = Paused \<or>
         previous \<noteq> 0 \<and> unat current - unat previous > unat (PausedThreshold cfg))"
    by (auto simp: check_associated_relay_number_def)
next
  assume nz: "previous \<noteq> 0" and wrap: "2 ^ 32 \<le> unat previous + unat (PausedThreshold cfg)"
  have "unat (previous + PausedThreshold cfg) = unat previous + unat (PausedThreshold cfg) - 2 ^ 32"
  proof -
    have "unat previous + unat (PausedThreshold cfg) < 2 * 2 ^ 32"
      using unat_le_max [of previous] unat_le_max [of "PausedThreshold cfg"] by simp
    with wrap show ?thesis by (simp add: unat_word_ariths mod_if)
  qed
  then have "unat (previous + PausedThreshold cfg) < unat previous"
    using unat_le_max [of "PausedThreshold cfg"] wrap by simp
  with assms nz show "\<exists>t. check_associated_relay_number cfg current previous s = Ok t \<and> Mode t = Paused"
    by (auto simp: check_associated_relay_number_def word_less_nat_alt word_le_nat_alt)
qed

theorem relay_gap_pauses_witness:
  "\<exists>t. check_associated_relay_number em_demo 111 100 em_demo_normal = Ok t \<and>
     (Mode t = Paused) = (Mode em_demo_normal = Paused \<or> True)"
proof -
  have "CheckAssociatedRelayNumber em_demo 111 100 = Ok ()" "(100 :: u32) \<le> 111"
    by (simp_all add: em_demo_def)
  from relay_gap_pauses [OF this, THEN conjunct1, of em_demo_normal] show ?thesis
    by (simp add: em_demo_def)
qed

text \<open>
  The maintenance origin can always enter maintenance mode, whether or not the XCM executor can
  be suspended; from then on only the calls of the maintenance filter pass and every message queue
  is paused, entering again is refused, and resuming brings back the normal filter.
\<close>

theorem maintenance_mode_effective:
  assumes "MaintenanceOrigin cfg origin = Inr ()" "\<not> MaintenanceMode s"
  shows "\<exists>t u. enter_maintenance_mode cfg origin s = Ok t \<and>
     mm_contains cfg t = MaintenanceCallFilter cfg \<and> mm_is_paused t = (\<lambda>queue. True) \<and>
     enter_maintenance_mode cfg origin t = Err (ModuleError AlreadyInMaintenanceMode) \<and>
     resume_normal_operation cfg origin t = Ok u \<and>
     mm_contains cfg u = NormalCallFilter cfg \<and> mm_is_paused u = (\<lambda>queue. False)"
  using assms
  by (auto simp: enter_maintenance_mode_def resume_normal_operation_def do_enter_maintenance_mode_def
      mm_contains_def mm_is_paused_def mm_deposit_def Let_def fun_eq_iff split: sum.splits prod.splits)

definition mm_demo :: "(raw_origin, nat, bool, string) mm_config" where
  "mm_demo = \<lparr>NormalCallFilter = (\<lambda>_. True), MaintenanceCallFilter = (\<lambda>c. c = 0),
     MaintenanceOrigin = ensure_root raw_system, XcmExecutionManager = pause_flag\<rparr>"

definition mm_demo_normal :: "(bool, string) mm_state" where
  "mm_demo_normal = \<lparr>MaintenanceMode = False, mm_xcm = False, mm_events = []\<rparr>"

theorem maintenance_mode_effective_witness:
  "\<exists>t u. enter_maintenance_mode mm_demo Root mm_demo_normal = Ok t \<and>
     mm_contains mm_demo t = MaintenanceCallFilter mm_demo \<and> mm_is_paused t = (\<lambda>queue :: nat. True) \<and>
     enter_maintenance_mode mm_demo Root t = Err (ModuleError AlreadyInMaintenanceMode) \<and>
     resume_normal_operation mm_demo Root t = Ok u \<and>
     mm_contains mm_demo u = NormalCallFilter mm_demo \<and> mm_is_paused u = (\<lambda>queue :: nat. False)"
  by (rule maintenance_mode_effective) (simp_all add: mm_demo_def mm_demo_normal_def raw_system_def)

end
