(* ===== verification/Migrations.thy ===== *)
theory Migrations
  imports Frame_Interfaces Xcm_Primitives
begin

text \<open>
  \<^verbatim>\<open>pallets/migrations\<close>: the migrations that run on a runtime upgrade, each of them once, and the
  suspension of XCM execution in the block of the upgrade.
\<close>

section \<open>The pallet\<close>

text \<open>\<^verbatim>\<open>dyn Migration\<close>, over the chain state \<open>'st\<close> it migrates; its name is the byte string of the key.\<close>

record ('st, 'd) migration =
  friendly_name :: "u8 list"
  migrate :: "weight \<Rightarrow> 'st \<Rightarrow> weight \<times> 'st"
  mig_pre_upgrade :: "'st \<Rightarrow> ('d, u8 list) result"
  mig_post_upgrade :: "u8 list \<Rightarrow> 'st \<Rightarrow> ('d, unit) result"

text \<open>The default bodies of the two checks of the trait.\<close>

definition default_pre_upgrade :: "'st \<Rightarrow> ('d, u8 list) result" where
  "default_pre_upgrade st = Ok []"

definition default_post_upgrade :: "u8 list \<Rightarrow> 'st \<Rightarrow> ('d, unit) result" where
  "default_post_upgrade state st = Ok ()"

definition tuple_get_migrations :: "('st, 'd) migration list list \<Rightarrow> ('st, 'd) migration list" where
  "tuple_get_migrations tuple = fold (\<lambda>ms migrations. migrations @ ms) tuple []"

datatype 'd mg_event =
    RuntimeUpgradeStarted
  | RuntimeUpgradeCompleted weight
  | MigrationStarted "u8 list"
  | MigrationCompleted "u8 list" weight
  | MgFailedToSuspendIdleXcmExecution 'd
  | MgFailedToResumeIdleXcmExecution 'd

record ('st, 'xs, 'd) mg_state =
  FullyUpgraded :: bool
  MigrationState :: "u8 list \<Rightarrow> bool"
  ShouldPauseXcm :: bool
  mg_chain :: 'st
  mg_xcm :: 'xs
  mg_events :: "'d mg_event list"

record ('st, 'xs, 'd) mg_config =
  MigrationsList :: "('st, 'd) migration list"
  mg_XcmExecutionManager :: "('xs, 'd) pause_xcm"
  max_block :: weight
  db_reads :: "nat \<Rightarrow> weight"
  db_writes :: "nat \<Rightarrow> weight"
  db_reads_writes :: "nat \<Rightarrow> nat \<Rightarrow> weight"

definition mg_deposit :: "'d mg_event \<Rightarrow> ('st, 'xs, 'd) mg_state \<Rightarrow> ('st, 'xs, 'd) mg_state" where
  "mg_deposit e s = s\<lparr>mg_events := mg_events s @ [e]\<rparr>"

text \<open>
  The body of the loop over the migrations; log messages are left out. A migration changes the state \<open>mg_chain\<close> of the other pallets: the
  marks of this pallet, its flag and its events are written by this pallet only.
\<close>

definition perform_migration ::
    "weight \<Rightarrow> ('st, 'd) migration \<Rightarrow> weight \<times> ('st, 'xs, 'd) mg_state \<Rightarrow> weight \<times> ('st, 'xs, 'd) mg_state" where
  "perform_migration available_weight migration ws =
     (let (weight, s) = ws;
          migration_name_as_bytes = friendly_name migration;
          migration_done = MigrationState s migration_name_as_bytes
      in if \<not> migration_done then
           let s1 = mg_deposit (MigrationStarted migration_name_as_bytes) s;
               available_for_step =
                 (if ref_time available_weight > ref_time weight then weight_sub available_weight weight
                  else weight_zero);
               (consumed_weight, chain) = migrate migration available_for_step (mg_chain s1);
               s2 = mg_deposit (MigrationCompleted migration_name_as_bytes consumed_weight) (s1\<lparr>mg_chain := chain\<rparr>);
               s3 = s2\<lparr>MigrationState := (MigrationState s2)(migration_name_as_bytes := True)\<rparr>
           in (weight_saturating_add weight consumed_weight, s3)
         else (weight, s))"

definition perform_runtime_upgrades ::
    "('st, 'xs, 'd) mg_config \<Rightarrow> weight \<Rightarrow> ('st, 'xs, 'd) mg_state \<Rightarrow> weight \<times> ('st, 'xs, 'd) mg_state" where
  "perform_runtime_upgrades cfg available_weight s =
     (let (weight, s1) = fold (perform_migration available_weight) (MigrationsList cfg) (weight_zero, s);
          s2 = s1\<lparr>FullyUpgraded := True\<rparr>;
          weight = weight_saturating_add weight (db_writes cfg 1)
      in (weight, mg_deposit (RuntimeUpgradeCompleted weight) s2))"

definition on_runtime_upgrade ::
    "('st, 'xs, 'd) mg_config \<Rightarrow> ('st, 'xs, 'd) mg_state \<Rightarrow> weight \<times> ('st, 'xs, 'd) mg_state" where
  "on_runtime_upgrade cfg s =
     (let s1 = s\<lparr>ShouldPauseXcm := True\<rparr>;
          available_weight = max_block cfg;
          s2 = s1\<lparr>FullyUpgraded := False\<rparr>;
          weight = weight_saturating_add weight_zero (db_writes cfg 1);
          s3 = mg_deposit RuntimeUpgradeStarted s2;
          (w, s4) = perform_runtime_upgrades cfg (weight_saturating_sub available_weight weight) s3
      in (max_block cfg, s4))"

definition on_initialize_mg ::
    "('st, 'xs, 'd) mg_config \<Rightarrow> ('st, 'xs, 'd) mg_state \<Rightarrow> weight \<times> ('st, 'xs, 'd) mg_state" where
  "on_initialize_mg cfg s =
     (if ShouldPauseXcm s then
        let (r, x) = suspend_xcm_execution (mg_XcmExecutionManager cfg) (mg_xcm s);
            s1 = s\<lparr>mg_xcm := x\<rparr>;
            s2 = (case r of Inl error \<Rightarrow> mg_deposit (MgFailedToSuspendIdleXcmExecution error) s1 | Inr _ \<Rightarrow> s1)
        in (db_reads_writes cfg 1 1, s2)
      else (db_reads cfg 1, s))"

definition on_finalize_mg ::
    "('st, 'xs, 'd) mg_config \<Rightarrow> ('st, 'xs, 'd) mg_state \<Rightarrow> ('st, 'xs, 'd) mg_state" where
  "on_finalize_mg cfg s =
     (if ShouldPauseXcm s then
        let (r, x) = resume_xcm_execution (mg_XcmExecutionManager cfg) (mg_xcm s);
            s1 = s\<lparr>mg_xcm := x\<rparr>;
            s2 = (case r of Inl error \<Rightarrow> mg_deposit (MgFailedToResumeIdleXcmExecution error) s1 | Inr _ \<Rightarrow> s1)
        in s2\<lparr>ShouldPauseXcm := False\<rparr>
      else s)"

definition genesis_build_mg ::
    "('st, 'xs, 'd) mg_config \<Rightarrow> ('st, 'xs, 'd) mg_state \<Rightarrow> ('st, 'xs, 'd) mg_state" where
  "genesis_build_mg cfg s =
     fold (\<lambda>migration_name s. s\<lparr>MigrationState := (MigrationState s)(migration_name := True)\<rparr>)
       (map friendly_name (MigrationsList cfg)) s"

subsection \<open>The try-runtime checks\<close>

text \<open>
  The hand-over between the two checks is a pair of maps from names, encoded by the SCALE codec \<open>cd\<close>.
\<close>

type_synonym try_state = "(u8 list \<rightharpoonup> bool) \<times> (u8 list \<rightharpoonup> u8 list)"

definition pre_upgrade_migration ::
    "('st, 'xs, 'd) mg_state \<Rightarrow> ('st, 'd) migration \<Rightarrow> try_state \<Rightarrow> ('d, try_state) result" where
  "pre_upgrade_migration s migration maps =
     (let (state_map, migration_states_map) = maps
      in if MigrationState s (friendly_name migration) then Ok maps
         else case mig_pre_upgrade migration (mg_chain s) of
                Ok state \<Rightarrow> Ok (state_map(friendly_name migration \<mapsto> True),
                               migration_states_map(friendly_name migration \<mapsto> state))
              | _ \<Rightarrow> Panic ''migration pre_upgrade()'')"

fun pre_upgrade_loop ::
    "('st, 'xs, 'd) mg_state \<Rightarrow> ('st, 'd) migration list \<Rightarrow> try_state \<Rightarrow> ('d, try_state) result" where
  "pre_upgrade_loop s [] maps = Ok maps"
| "pre_upgrade_loop s (m # ms) maps = and_then (pre_upgrade_migration s m maps) (pre_upgrade_loop s ms)"

definition pre_upgrade ::
    "('st, 'xs, 'd) mg_config \<Rightarrow> try_state codec \<Rightarrow> ('st, 'xs, 'd) mg_state \<Rightarrow> ('d, u8 list) result" where
  "pre_upgrade cfg cd s =
     and_then (pre_upgrade_loop s (MigrationsList cfg) (Map.empty, Map.empty)) (\<lambda>maps. Ok (encode cd maps))"

fun post_upgrade_loop ::
    "('st, 'xs, 'd) mg_state \<Rightarrow> try_state \<Rightarrow> ('st, 'd) migration list \<Rightarrow> bool \<Rightarrow> ('d, bool) result" where
  "post_upgrade_loop s maps [] failed = Ok failed"
| "post_upgrade_loop s maps (m # ms) failed =
     (case fst maps (friendly_name m) of
        None \<Rightarrow> post_upgrade_loop s maps ms failed
      | Some value \<Rightarrow>
          and_then (assert_that value ''our dummy value might as well be true'')
          (\<lambda>_. case snd maps (friendly_name m) of
                 Some state \<Rightarrow>
                   (case mig_post_upgrade m state (mg_chain s) of
                      Ok _ \<Rightarrow> post_upgrade_loop s maps ms failed
                    | Err _ \<Rightarrow> post_upgrade_loop s maps ms True
                    | Panic msg \<Rightarrow> Panic msg)
               | None \<Rightarrow> post_upgrade_loop s maps ms failed))"

datatype 'd try_error = OtherError string | MigrationError 'd

definition post_upgrade ::
    "('st, 'xs, 'd) mg_config \<Rightarrow> try_state codec \<Rightarrow> u8 list \<Rightarrow> ('st, 'xs, 'd) mg_state
      \<Rightarrow> ('d try_error, unit) result" where
  "post_upgrade cfg cd state s =
     and_then (expect ''pre_upgrade provides a valid state; qed'' (decode cd state))
     (\<lambda>(maps, _). and_then (map_err MigrationError (post_upgrade_loop s maps (MigrationsList cfg) False))
     (\<lambda>failed. if failed then Err (OtherError ''One or more post_upgrade tests failed; see output above.'')
               else Ok ()))"

section \<open>What an upgrade does\<close>

text \<open>
  The specification: the pending migrations are those whose name is not marked, each name once and
  in the order of the list; running them threads the chain state and the consumed weight.
\<close>

fun pending :: "(u8 list \<Rightarrow> bool) \<Rightarrow> ('st, 'd) migration list \<Rightarrow> ('st, 'd) migration list" where
  "pending marked [] = []"
| "pending marked (m # ms) =
     (if marked (friendly_name m) then pending marked ms
      else m # pending (\<lambda>n. n = friendly_name m \<or> marked n) ms)"

fun run_pending :: "weight \<Rightarrow> ('st, 'd) migration list \<Rightarrow> weight \<times> 'st \<Rightarrow> weight \<times> 'st" where
  "run_pending available [] ws = ws"
| "run_pending available (m # ms) (w, st) =
     (let (c, st') = migrate m (if ref_time available > ref_time w then weight_sub available w else weight_zero) st
      in run_pending available ms (weight_saturating_add w c, st'))"

definition started_names :: "'d mg_event list \<Rightarrow> u8 list list" where
  "started_names es = List.map_filter (\<lambda>e. case e of MigrationStarted n \<Rightarrow> Some n | _ \<Rightarrow> None) es"

lemma started_names_append [simp]: "started_names (es @ fs) = started_names es @ started_names fs"
  by (simp add: started_names_def List.map_filter_def)

lemma started_names_simps [simp]:
  "started_names [] = []"
  "started_names [MigrationStarted n] = [n]"
  "started_names [MigrationCompleted n w] = []"
  "started_names [RuntimeUpgradeStarted] = []"
  "started_names [RuntimeUpgradeCompleted w] = []"
  by (simp_all add: started_names_def List.map_filter_def)

lemma set_pending: "friendly_name ` set (pending marked ms) = {n \<in> friendly_name ` set ms. \<not> marked n}"
proof (induction ms arbitrary: marked)
  case (Cons m ms)
  from Cons.IH [of marked] Cons.IH [of "\<lambda>n. n = friendly_name m \<or> marked n"] show ?case by auto
qed simp

lemma pending_distinct: "distinct (map friendly_name (pending marked ms))"
proof (induction ms arbitrary: marked)
  case (Cons m ms)
  have "friendly_name m \<notin> friendly_name ` set (pending (\<lambda>n. n = friendly_name m \<or> marked n) ms)"
    by (simp add: set_pending)
  with Cons.IH show ?case by simp
qed simp

lemma pending_empty: "(\<forall>m\<in>set ms. marked (friendly_name m)) \<Longrightarrow> pending marked ms = []"
  by (induction ms) auto

text \<open>The loop refines the specification.\<close>

lemma perform_loop:
  fixes s :: "('st, 'xs, 'd) mg_state"
  assumes "fold (perform_migration avail) ms (w, s) = (w', t)"
  defines "p \<equiv> pending (MigrationState s) ms"
  shows "(w', mg_chain t) = run_pending avail p (w, mg_chain s) \<and>
     MigrationState t = (\<lambda>n. MigrationState s n \<or> n \<in> friendly_name ` set ms) \<and>
     started_names (mg_events t) = started_names (mg_events s) @ map friendly_name p \<and>
     ShouldPauseXcm t = ShouldPauseXcm s \<and> mg_xcm t = mg_xcm s"
  using assms(1) unfolding p_def
proof (induction ms arbitrary: w s)
  case (Cons m ms)
  show ?case
  proof (cases "MigrationState s (friendly_name m)")
    case True
    then have "perform_migration avail m (w, s) = (w, s)" by (simp add: perform_migration_def)
    with Cons.prems have "fold (perform_migration avail) ms (w, s) = (w', t)" by simp
    from Cons.IH [OF this] True show ?thesis by (auto simp: fun_eq_iff)
  next
    case False
    let ?av = "if ref_time avail > ref_time w then weight_sub avail w else weight_zero"
    obtain c st where m: "migrate m ?av (mg_chain s) = (c, st)" by (cases "migrate m ?av (mg_chain s)")
    let ?s = "s\<lparr>mg_events := mg_events s @ [MigrationStarted (friendly_name m), MigrationCompleted (friendly_name m) c],
       mg_chain := st, MigrationState := (\<lambda>n. n = friendly_name m \<or> MigrationState s n)\<rparr>"
    have "(MigrationState s)(friendly_name m := True) = (\<lambda>n. n = friendly_name m \<or> MigrationState s n)"
      by (simp add: fun_eq_iff)
    then have "perform_migration avail m (w, s) = (weight_saturating_add w c, ?s)"
      using False m by (simp add: perform_migration_def mg_deposit_def Let_def)
    with Cons.prems have "fold (perform_migration avail) ms (weight_saturating_add w c, ?s) = (w', t)" by simp
    from Cons.IH [OF this] False m show ?thesis
      by (auto simp: fun_eq_iff started_names_def List.map_filter_def)
  qed
qed simp

text \<open>The whole hook, as one step on the components of the state.\<close>

lemma on_runtime_upgrade_effect:
  fixes s :: "('st, 'xs, 'd) mg_state"
  assumes "on_runtime_upgrade cfg s = (w, t)"
  defines "avail \<equiv> weight_saturating_sub (max_block cfg) (weight_saturating_add weight_zero (db_writes cfg 1))"
    and "p \<equiv> pending (MigrationState s) (MigrationsList cfg)"
  shows "w = max_block cfg \<and> FullyUpgraded t \<and> ShouldPauseXcm t \<and> mg_xcm t = mg_xcm s \<and>
     mg_chain t = snd (run_pending avail p (weight_zero, mg_chain s)) \<and>
     MigrationState t = (\<lambda>n. MigrationState s n \<or> n \<in> friendly_name ` set (MigrationsList cfg)) \<and>
     started_names (mg_events t) = started_names (mg_events s) @ map friendly_name p"
proof -
  let ?s = "s\<lparr>ShouldPauseXcm := True, FullyUpgraded := False, mg_events := mg_events s @ [RuntimeUpgradeStarted]\<rparr>"
  obtain w' u where u: "fold (perform_migration avail) (MigrationsList cfg) (weight_zero, ?s) = (w', u)"
    by (cases "fold (perform_migration avail) (MigrationsList cfg) (weight_zero, ?s)")
  have "w = max_block cfg" "t = mg_deposit (RuntimeUpgradeCompleted (weight_saturating_add w' (db_writes cfg 1)))
      (u\<lparr>FullyUpgraded := True\<rparr>)"
    using assms(1) u
    by (simp_all add: on_runtime_upgrade_def perform_runtime_upgrades_def avail_def mg_deposit_def Let_def)
  with perform_loop [OF u] show ?thesis
    by (simp add: p_def mg_deposit_def) (metis snd_conv)
qed

lemma genesis_marks:
  "MigrationState (genesis_build_mg cfg s) n \<longleftrightarrow>
     MigrationState s n \<or> n \<in> friendly_name ` set (MigrationsList cfg)"
proof -
  have "MigrationState (fold (\<lambda>n s. s\<lparr>MigrationState := (MigrationState s)(n := True)\<rparr>) ns s) n \<longleftrightarrow>
      MigrationState s n \<or> n \<in> set ns" for ns and s :: "('a, 'b, 'c) mg_state"
    by (induction ns arbitrary: s) auto
  then show ?thesis by (simp add: genesis_build_mg_def)
qed

lemma no_pending:
  fixes s :: "('st, 'xs, 'd) mg_state"
  assumes "on_runtime_upgrade cfg s = (w, t)" "\<forall>m\<in>set (MigrationsList cfg). MigrationState s (friendly_name m)"
  shows "mg_chain t = mg_chain s \<and> MigrationState t = MigrationState s \<and>
     started_names (mg_events t) = started_names (mg_events s)"
  using on_runtime_upgrade_effect [OF assms(1)] pending_empty [OF assms(2)] assms(2)
  by (auto simp: fun_eq_iff)

section \<open>Properties\<close>

text \<open>
  C25: A runtime upgrade runs the migrations whose names are not yet marked, each name exactly once
  and in the order of the list, threading the chain state and the remaining weight through them; it
  marks every listed migration, marks nothing else, flags the chain as fully upgraded and consumes
  the whole block.
\<close>

theorem upgrade_runs_pending_once:
  fixes s :: "('st, 'xs, 'd) mg_state"
  assumes "on_runtime_upgrade cfg s = (w, t)"
  defines "p \<equiv> pending (MigrationState s) (MigrationsList cfg)"
  shows "w = max_block cfg \<and> FullyUpgraded t \<and>
     started_names (mg_events t) = started_names (mg_events s) @ map friendly_name p \<and>
     distinct (map friendly_name p) \<and>
     set (map friendly_name p) = {n \<in> friendly_name ` set (MigrationsList cfg). \<not> MigrationState s n} \<and>
     mg_chain t = snd (run_pending (weight_saturating_sub (max_block cfg)
        (weight_saturating_add weight_zero (db_writes cfg 1))) p (weight_zero, mg_chain s)) \<and>
     (\<forall>n. MigrationState t n = (MigrationState s n \<or> n \<in> friendly_name ` set (MigrationsList cfg)))"
  using on_runtime_upgrade_effect [OF assms(1)]
  by (simp add: p_def pending_distinct set_pending)

definition mg_demo_migration :: "u8 list \<Rightarrow> nat \<Rightarrow> (nat list, string) migration" where
  "mg_demo_migration name k = \<lparr>friendly_name = name, migrate = (\<lambda>w st. (weight_zero, k # st)),
     mig_pre_upgrade = default_pre_upgrade, mig_post_upgrade = default_post_upgrade\<rparr>"

definition mg_demo :: "(nat list, bool, string) mg_config" where
  "mg_demo = \<lparr>MigrationsList = tuple_get_migrations [[mg_demo_migration [1] 10], [mg_demo_migration [2] 20]],
     mg_XcmExecutionManager = pause_flag, max_block = \<lparr>ref_time = 1000, proof_size = 1000\<rparr>,
     db_reads = (\<lambda>_. weight_zero), db_writes = (\<lambda>_. weight_zero), db_reads_writes = (\<lambda>_ _. weight_zero)\<rparr>"

definition mg_demo_state :: "(nat list, bool, string) mg_state" where
  "mg_demo_state = \<lparr>FullyUpgraded = True, MigrationState = (\<lambda>n. n = [1]), ShouldPauseXcm = False,
     mg_chain = [], mg_xcm = False, mg_events = []\<rparr>"

theorem upgrade_runs_pending_once_witness:
  "mg_chain (snd (on_runtime_upgrade mg_demo mg_demo_state)) = [20] \<and>
   started_names (mg_events (snd (on_runtime_upgrade mg_demo mg_demo_state))) = [[2]]"
proof -
  obtain w t where "on_runtime_upgrade mg_demo mg_demo_state = (w, t)"
    by (cases "on_runtime_upgrade mg_demo mg_demo_state")
  from upgrade_runs_pending_once [OF this] this show ?thesis
    by (simp add: mg_demo_state_def mg_demo_def mg_demo_migration_def tuple_get_migrations_def)
qed

text \<open>
  Migrations never run again: an upgrade to the same list after an upgrade, or on a chain whose
  genesis was built with the list, changes neither the chain state nor the marks and starts no
  migration.
\<close>

theorem upgrade_idempotent:
  fixes s :: "('st, 'xs, 'd) mg_state"
  assumes "t = snd (on_runtime_upgrade cfg s) \<or> t = genesis_build_mg cfg s"
    and "u = snd (on_runtime_upgrade cfg t)"
  shows "mg_chain u = mg_chain t \<and> MigrationState u = MigrationState t \<and>
     started_names (mg_events u) = started_names (mg_events t)"
proof -
  have "\<forall>m\<in>set (MigrationsList cfg). MigrationState t (friendly_name m)"
    using assms(1)
  proof
    assume "t = snd (on_runtime_upgrade cfg s)"
    then show ?thesis
      using on_runtime_upgrade_effect [of cfg s "fst (on_runtime_upgrade cfg s)" t] by simp
  qed (simp add: genesis_marks)
  with no_pending [of cfg t "fst (on_runtime_upgrade cfg t)" u] assms(2) show ?thesis by simp
qed

theorem upgrade_idempotent_witness:
  "mg_chain (snd (on_runtime_upgrade mg_demo (genesis_build_mg mg_demo mg_demo_state)))
     = mg_chain (genesis_build_mg mg_demo mg_demo_state)"
  using upgrade_idempotent [OF disjI2 [OF refl] refl, of mg_demo mg_demo_state] by blast

text \<open>
  XCM execution is suspended in the block of a runtime upgrade and resumed at its end; the
  hooks of other blocks leave it alone.
\<close>

theorem upgrade_block_suspends_xcm:
  assumes "t = snd (on_initialize_mg cfg (snd (on_runtime_upgrade cfg s)))"
  shows "mg_xcm t = snd (suspend_xcm_execution (mg_XcmExecutionManager cfg) (mg_xcm s)) \<and>
     mg_xcm (on_finalize_mg cfg t) = snd (resume_xcm_execution (mg_XcmExecutionManager cfg) (mg_xcm t)) \<and>
     snd (on_initialize_mg cfg (on_finalize_mg cfg t)) = on_finalize_mg cfg t \<and>
     on_finalize_mg cfg (on_finalize_mg cfg t) = on_finalize_mg cfg t"
proof -
  let ?u = "snd (on_runtime_upgrade cfg s)"
  have "ShouldPauseXcm ?u" "mg_xcm ?u = mg_xcm s"
    using on_runtime_upgrade_effect [of cfg s "fst (on_runtime_upgrade cfg s)" ?u] by simp_all
  with assms have "mg_xcm t = snd (suspend_xcm_execution (mg_XcmExecutionManager cfg) (mg_xcm s))"
    "ShouldPauseXcm t"
    by (auto simp: on_initialize_mg_def mg_deposit_def Let_def split: prod.splits sum.splits)
  moreover from this have "\<not> ShouldPauseXcm (on_finalize_mg cfg t)"
    "mg_xcm (on_finalize_mg cfg t) = snd (resume_xcm_execution (mg_XcmExecutionManager cfg) (mg_xcm t))"
    by (auto simp: on_finalize_mg_def mg_deposit_def Let_def split: prod.splits sum.splits)
  ultimately show ?thesis
    by (auto simp: on_initialize_mg_def on_finalize_mg_def [of cfg "on_finalize_mg cfg t"])
qed

theorem upgrade_block_suspends_xcm_witness:
  "mg_xcm (snd (on_initialize_mg mg_demo (snd (on_runtime_upgrade mg_demo mg_demo_state))))"
  using upgrade_block_suspends_xcm [OF refl, of mg_demo mg_demo_state]
  by (simp add: mg_demo_def pause_flag_def)

end
