(* ===== verification/Evm_Interfaces.thy ===== *)
theory Evm_Interfaces
  imports Moonkit_Prelude
begin

text \<open>
  What the EVM precompiles share: the handle through which they pay for gas, log and call other
  contracts, the results of a precompile, the cryptography behind signed permits, and the contract
  of a nonce-guarded permit. The handle and the cryptographic functions are not part of the
  repository: they are records of functions that the precompiles take as arguments.
\<close>

section \<open>Results\<close>

text \<open>
  \<^verbatim>\<open>PrecompileFailure\<close>: a revert with a message or with the output of a subcall, an error, a fatal
  error. Every failure makes the EVM drop the state changes of the precompile, so the failing
  results below carry no state.
\<close>

datatype evm_failure =
    Revert string
  | RevertOutput "u8 list"
  | ExitErr string
  | ExitFatalErr string

datatype exit_reason =
    ExitSucceed
  | ExitRevert
  | ExitError string
  | ExitFatal string

record evm_context =
  ctx_address :: H160
  ctx_caller :: H160
  ctx_apparent_value :: U256

record evm_transfer =
  transfer_source :: H160
  transfer_target :: H160
  transfer_value :: U256

record evm_log =
  log_address :: H160
  log_topics :: "H256 list"
  log_data :: "u8 list"

text \<open>The state a precompile sees: the handle \<open>'h\<close> (gas and logs) and the storage \<open>'st\<close> of the chain.\<close>

record ('h, 'st) world =
  whandle :: 'h
  wstate :: 'st

type_synonym ('w, 'a) evm = "'w \<Rightarrow> (evm_failure, 'a \<times> 'w) result"

definition evm_ret :: "'a \<Rightarrow> ('w, 'a) evm" where
  "evm_ret a w = Ok (a, w)"

definition evm_fail :: "evm_failure \<Rightarrow> ('w, 'a) evm" where
  "evm_fail e w = Err e"

definition evm_bind :: "('w, 'a) evm \<Rightarrow> ('a \<Rightarrow> ('w, 'b) evm) \<Rightarrow> ('w, 'b) evm" where
  "evm_bind m k w = and_then (m w) (\<lambda>(a, w'). k a w')"

definition evm_lift :: "(evm_failure, 'a) result \<Rightarrow> ('w, 'a) evm" where
  "evm_lift r w = and_then r (\<lambda>a. Ok (a, w))"

definition on_handle :: "('h \<Rightarrow> (evm_failure, 'h) result) \<Rightarrow> (('h, 'st) world, unit) evm" where
  "on_handle f w = and_then (f (whandle w)) (\<lambda>h. Ok ((), w\<lparr>whandle := h\<rparr>))"

definition evm_ensure :: "bool \<Rightarrow> string \<Rightarrow> ('w, unit) evm" where
  "evm_ensure b message w = (if b then Ok ((), w) else Err (Revert message))"

definition evm_modify :: "('st \<Rightarrow> 'st) \<Rightarrow> (('h, 'st) world, unit) evm" where
  "evm_modify f w = Ok ((), w\<lparr>wstate := f (wstate w)\<rparr>)"

definition evm_get :: "('st \<Rightarrow> 'a) \<Rightarrow> (('h, 'st) world, 'a) evm" where
  "evm_get f w = Ok (f (wstate w), w)"

named_theorems evm_iff \<open>when a step of a precompile succeeds, and with what\<close>

lemma evm_bind_Ok_iff [evm_iff]:
  "evm_bind m k w = Ok r \<longleftrightarrow> (\<exists>a w'. m w = Ok (a, w') \<and> k a w' = Ok r)"
  by (cases "m w") (auto simp: evm_bind_def)

lemma evm_ret_Ok_iff [evm_iff]: "evm_ret a w = Ok (b, w') \<longleftrightarrow> b = a \<and> w' = w"
  by (auto simp: evm_ret_def)

lemma evm_fail_Ok_iff [evm_iff]: "evm_fail e w = Ok r \<longleftrightarrow> False"
  by (simp add: evm_fail_def)

lemma evm_lift_Ok_iff [evm_iff]: "evm_lift r w = Ok (a, w') \<longleftrightarrow> r = Ok a \<and> w' = w"
  by (auto simp: evm_lift_def)

lemma on_handle_Ok_iff [evm_iff]:
  "on_handle f w = Ok (u, w') \<longleftrightarrow> (\<exists>h. f (whandle w) = Ok h \<and> w' = w\<lparr>whandle := h\<rparr>)"
  by (auto simp: on_handle_def)

lemma evm_ensure_Ok_iff [evm_iff]: "evm_ensure b message w = Ok (u, w') \<longleftrightarrow> b \<and> w' = w"
  by (auto simp: evm_ensure_def)

lemma evm_modify_Ok_iff [evm_iff]: "evm_modify f w = Ok (u, w') \<longleftrightarrow> w' = w\<lparr>wstate := f (wstate w)\<rparr>"
  by (auto simp: evm_modify_def)

lemma evm_get_Ok_iff [evm_iff]: "evm_get f w = Ok (a, w') \<longleftrightarrow> a = f (wstate w) \<and> w' = w"
  by (auto simp: evm_get_def)

text \<open>\<^verbatim>\<open>in_field\<close>: the message of a revert is prefixed with the name of the argument.\<close>

definition in_field :: "string \<Rightarrow> (evm_failure, 'a) result \<Rightarrow> (evm_failure, 'a) result" where
  "in_field field = map_err (\<lambda>e. case e of Revert message \<Rightarrow> Revert (field @ '': '' @ message) | _ \<Rightarrow> e)"

lemma in_field_Ok_iff [evm_iff]: "in_field field r = Ok a \<longleftrightarrow> r = Ok a"
  by (simp add: in_field_def)

lemmas evm_defs = evm_ret_def evm_fail_def evm_bind_def evm_lift_def on_handle_def evm_ensure_def
  evm_modify_def evm_get_def

section \<open>The handle\<close>

text \<open>
  \<^verbatim>\<open>PrecompileHandle\<close> with the helpers of \<^verbatim>\<open>precompile_utils\<close> on it: each operation charges the
  handle and fails when the gas does not suffice.
\<close>

record 'h precompile_handle =
  remaining_gas :: "'h \<Rightarrow> u64"
  record_cost :: "u64 \<Rightarrow> 'h \<Rightarrow> (evm_failure, 'h) result"
  record_db_read :: "nat \<Rightarrow> 'h \<Rightarrow> (evm_failure, 'h) result"
  record_log_costs_manual :: "nat \<Rightarrow> nat \<Rightarrow> 'h \<Rightarrow> (evm_failure, 'h) result"
  record_log_costs :: "evm_log \<Rightarrow> 'h \<Rightarrow> (evm_failure, 'h) result"
  record_log :: "evm_log \<Rightarrow> 'h \<Rightarrow> (evm_failure, 'h) result"
  db_write_gas_cost :: u64

section \<open>Bytes and hashes\<close>

definition be_bytes32 :: "256 word \<Rightarrow> u8 list" where
  "be_bytes32 x = map (\<lambda>i. ucast (drop_bit (8 * (31 - i)) x)) [0..<32]"

text \<open>A small number is its last byte.\<close>

lemma be_bytes32_small: "x < 256 \<Longrightarrow> be_bytes32 x = replicate 31 0 @ [ucast x]"
proof -
  assume x: "x < 256"
  have "drop_bit (8 * (31 - i)) x = 0" if "i < 31" for i :: nat
  proof -
    have "unat x < 2 ^ 8" using x by (simp add: word_less_nat_alt)
    also have "(2 :: nat) ^ 8 \<le> 2 ^ (8 * (31 - i))" using that by (intro power_increasing) auto
    finally have "drop_bit (8 * (31 - i)) (unat x) = 0" by (simp add: drop_bit_eq_div)
    moreover have "take_bit LENGTH(256) (unat x) = unat x"
      by (rule take_bit_nat_eq_self) (rule unsigned_less)
    ultimately have "unat (drop_bit (8 * (31 - i)) x) = 0" by (simp add: unsigned_drop_bit_eq)
    then show ?thesis by (simp only: unat_eq_0)
  qed
  then have "map (\<lambda>i. ucast (drop_bit (8 * (31 - i)) x) :: u8) [0..<31] = map (\<lambda>_. 0) [0..<31]"
    by (intro map_cong) auto
  moreover have "[0..<32] = [0..<31] @ [31]" by (simp add: upt_rec)
  ultimately show ?thesis by (simp add: be_bytes32_def map_replicate_const)
qed

lemma length_be_bytes32 [simp]: "length (be_bytes32 x) = 32"
  by (simp add: be_bytes32_def)

lemma last_be_bytes32: "last (be_bytes32 x) = ucast x"
  by (simp add: be_bytes32_def last_conv_nth)

lemma be_bytes32_inject [simp]: "be_bytes32 x = be_bytes32 y \<longleftrightarrow> x = y"
proof
  assume eq: "be_bytes32 x = be_bytes32 y"
  have byte: "(ucast (drop_bit (8 * j) x) :: u8) = ucast (drop_bit (8 * j) y)" if "j < 32" for j
  proof -
    have "be_bytes32 x ! (31 - j) = be_bytes32 y ! (31 - j)" using eq by simp
    moreover have "[0..<32] ! (31 - j) = 31 - j" using nth_upt [of 0 "31 - j" 32] by simp
    ultimately show ?thesis using that by (simp add: be_bytes32_def)
  qed
  show "x = y"
  proof (rule bit_word_eqI)
    fix k assume k: "k < LENGTH(256)"
    have "bit (ucast (drop_bit (8 * (k div 8)) x) :: u8) (k mod 8) = bit (ucast (drop_bit (8 * (k div 8)) y) :: u8) (k mod 8)"
      using byte [of "k div 8"] k by simp
    then show "bit x k = bit y k" by (simp add: bit_ucast_iff bit_drop_bit_eq)
  qed
qed simp

definition string_bytes :: "string \<Rightarrow> u8 list" where
  "string_bytes s = map of_char s"

text \<open>The arguments of \<^verbatim>\<open>solidity::encode_arguments\<close> that the precompiles encode.\<close>

datatype sol_arg = ArgH256 H256 | ArgAddress H160 | ArgU256 U256 | ArgU64 u64

record evm_crypto =
  keccak_256 :: "u8 list \<Rightarrow> H256"
  encode_arguments :: "sol_arg list \<Rightarrow> u8 list"
  encode_event_data :: "U256 \<Rightarrow> u8 list"
  secp256k1_ecdsa_recover :: "u8 list \<Rightarrow> H256 \<Rightarrow> u8 list option"

text \<open>
  The encoding of arguments, as documented: given the types of the arguments, the bytes determine the values. A hash does
  not collide on some byte strings.
\<close>

fun arg_type :: "sol_arg \<Rightarrow> nat" where
  "arg_type (ArgH256 _) = 0"
| "arg_type (ArgAddress _) = 1"
| "arg_type (ArgU256 _) = 2"
| "arg_type (ArgU64 _) = 3"

definition abi_ok :: "evm_crypto \<Rightarrow> bool" where
  "abi_ok cr \<longleftrightarrow> (\<forall>xs ys. map arg_type xs = map arg_type ys \<longrightarrow> encode_arguments cr xs = encode_arguments cr ys \<longrightarrow> xs = ys)"

definition no_collision :: "evm_crypto \<Rightarrow> u8 list set \<Rightarrow> bool" where
  "no_collision cr strings \<longleftrightarrow> inj_on (keccak_256 cr) strings"

text \<open>
  The recovery of the signer of a permit, which the three permit precompiles spell out in the same
  way: the 65 bytes of the signature, and the low 20 bytes of the hash of the recovered key.
\<close>

definition recover_signer :: "evm_crypto \<Rightarrow> u8 \<Rightarrow> H256 \<Rightarrow> H256 \<Rightarrow> H256 \<Rightarrow> H160 option" where
  "recover_signer cr v r s permit =
     map_option (\<lambda>signer. ucast (keccak_256 cr signer))
       (secp256k1_ecdsa_recover cr (be_bytes32 r @ be_bytes32 s @ [v]) permit)"

text \<open>\<^verbatim>\<open>nonce + U256::one()\<close>, which panics when it overflows.\<close>

definition next_nonce :: "U256 \<Rightarrow> ('w, U256) evm" where
  "next_nonce nonce w =
     (if nonce = - 1 then Panic ''arithmetic operation overflow'' else Ok (nonce + 1, w))"

lemma next_nonce_Ok_iff [evm_iff]: "next_nonce n w = Ok (m, w') \<longleftrightarrow> n \<noteq> - 1 \<and> m = n + 1 \<and> w' = w"
  by (auto simp: next_nonce_def)

lemma unat_next_nonce: "n \<noteq> - 1 \<Longrightarrow> unat (n + 1 :: 'a::len word) = Suc (unat n)"
proof -
  assume "n \<noteq> - 1"
  then have "n + 1 \<noteq> 0" by (metis add.commute add_eq_0_iff)
  then show ?thesis by (simp add: unatSuc add.commute)
qed

section \<open>Nonce-guarded permits\<close>

text \<open>
  The contract of a permit precompile: \<open>accept p w w'\<close> says that it accepts the permit \<open>p\<close> in the
  state \<open>w\<close>, leaving \<open>w'\<close>. It checks that the owner signed the digest for the current nonce, which
  is stored under the key of the permit, and the nonce grows by at least one. \<open>sane\<close> collects what it needs of its environment.
\<close>

locale permit_scheme =
  fixes accept :: "'c \<Rightarrow> 'p \<Rightarrow> 'w \<Rightarrow> 'w \<Rightarrow> bool"
    and nonce_of :: "'w \<Rightarrow> 'k \<Rightarrow> U256"
    and key :: "'p \<Rightarrow> 'k"
    and owner :: "'p \<Rightarrow> H160"
    and digest :: "'c \<Rightarrow> 'p \<Rightarrow> 'w \<Rightarrow> H256"
    and signer :: "'c \<Rightarrow> 'p \<Rightarrow> H256 \<Rightarrow> H160 option"
    and sane :: "'c \<Rightarrow> bool"
  assumes accept_signed: "accept c p w w' \<Longrightarrow> signer c p (digest c p w) = Some (owner p)"
    and accept_nonce: "sane c \<Longrightarrow> accept c p w w' \<Longrightarrow> unat (nonce_of w (key p)) < unat (nonce_of w' (key p))"
begin

text \<open>
  An accepted permit is used up: it is refused in every state with a higher nonce, and so in every
  later state, if the digests for the two nonces differ and a signature is valid for one digest
  only.
\<close>

lemma refused_at_higher_nonce:
  assumes "accept c p w w'" "unat (nonce_of w (key p)) < unat (nonce_of u (key p))"
    and "digest c p w \<noteq> digest c p u"
    and "\<And>d e. signer c p d = Some (owner p) \<Longrightarrow> signer c p e = Some (owner p) \<Longrightarrow> d = e"
  shows "\<not> accept c p u u'"
  using assms accept_signed by blast

lemma no_replay:
  assumes "sane c" "accept c p w w'"
    and "nonce_of w (key p) \<noteq> nonce_of u (key p) \<Longrightarrow>
          digest c p w \<noteq> digest c p u"
    and "\<And>d e. signer c p d = Some (owner p) \<Longrightarrow> signer c p e = Some (owner p) \<Longrightarrow> d = e"
    and "unat (nonce_of w' (key p)) \<le> unat (nonce_of u (key p))"
  shows "\<not> accept c p u u'"
proof -
  have "unat (nonce_of w (key p)) < unat (nonce_of u (key p))"
    using accept_nonce [OF assms(1,2)] assms(5) by simp
  then show ?thesis by (intro refused_at_higher_nonce [OF assms(2) _ assms(3) assms(4)]) auto
qed

end

section \<open>Allowances\<close>

text \<open>The sum of a quantity over the calls of a run, each taken in the state it is made in.\<close>

fun total_over :: "('call \<Rightarrow> 's \<Rightarrow> nat) \<Rightarrow> ('call \<Rightarrow> 's \<Rightarrow> 's) \<Rightarrow> 'call list \<Rightarrow> 's \<Rightarrow> nat" where
  "total_over f step [] s = 0"
| "total_over f step (call # calls) s = f call s + total_over f step calls (step call s)"

text \<open>
  The contract of a token with allowances: a call spends at most what is allowed or granted, for
  every holder and spender \<open>k\<close> that \<open>sane\<close> admits. Over any sequence of calls, spending is then
  bounded by the initial allowance and the grants.
\<close>

locale allowance_ledger =
  fixes after :: "'c \<Rightarrow> 'call \<Rightarrow> 's \<Rightarrow> 's"
    and granted :: "'c \<Rightarrow> 'k \<Rightarrow> 'call \<Rightarrow> 's \<Rightarrow> nat"
    and spent :: "'c \<Rightarrow> 'k \<Rightarrow> 'call \<Rightarrow> 's \<Rightarrow> nat"
    and allowed :: "'c \<Rightarrow> 's \<Rightarrow> 'k \<Rightarrow> nat"
    and sane :: "'c \<Rightarrow> 'k \<Rightarrow> bool"
  assumes step_bounded: "sane c k \<Longrightarrow>
      allowed c (after c call s) k + spent c k call s \<le> allowed c s k + granted c k call s"
begin

lemma run_bounded:
  assumes "sane c k"
  shows "total_over (spent c k) (after c) calls s + allowed c (fold (after c) calls s) k
     \<le> allowed c s k + total_over (granted c k) (after c) calls s"
proof (induction calls arbitrary: s)
  case (Cons call calls)
  show ?case using Cons.IH [of "after c call s"] step_bounded [OF assms, of call s] by simp
qed simp

end

section \<open>A concrete handle and concrete cryptography\<close>

text \<open>A gas counter with a list of logs, for concrete runs: every operation costs a fixed amount.\<close>

type_synonym gas_meter = "u64 \<times> evm_log list"

definition charge :: "u64 \<Rightarrow> gas_meter \<Rightarrow> (evm_failure, gas_meter) result" where
  "charge c h = (case checked_sub (fst h) c of None \<Rightarrow> Err (ExitErr ''OutOfGas'') | Some g \<Rightarrow> Ok (g, snd h))"

definition gas_handle :: "gas_meter precompile_handle" where
  "gas_handle = \<lparr>remaining_gas = fst, record_cost = charge, record_db_read = (\<lambda>_. charge 1),
     record_log_costs_manual = (\<lambda>_ _. charge 1), record_log_costs = (\<lambda>_. charge 1),
     record_log = (\<lambda>l h. Ok (fst h, snd h @ [l])), db_write_gas_cost = 2\<rparr>"

text \<open>
  Cryptography for concrete runs: a hash that adds up the bytes, and a signature scheme in which
  exactly one digest has been signed. It only shows that the assumptions on digests and signatures
  can hold.
\<close>

definition demo_crypto_evm :: "H256 \<Rightarrow> evm_crypto" where
  "demo_crypto_evm signed_digest =
     \<lparr>keccak_256 = (\<lambda>bs. sum_list (map ucast bs)),
      encode_arguments = concat \<circ> map (\<lambda>a. case a of ArgU256 u \<Rightarrow> [ucast u] | _ \<Rightarrow> []),
      encode_event_data = (\<lambda>u. [ucast u]),
      secp256k1_ecdsa_recover = (\<lambda>sg d. if d = signed_digest then Some [last sg] else None)\<rparr>"

end
