(* ===== verification/Erc20_Balances.thy ===== *)
theory Erc20_Balances
  imports Evm_Interfaces
begin

text \<open>
  \<^verbatim>\<open>precompiles/balances-erc20\<close>: the native token as an ERC20 contract, with approvals of its own
  (\<^verbatim>\<open>lib.rs\<close>) and signed approvals (\<^verbatim>\<open>eip2612.rs\<close>). The state is that of one pallet instance.
\<close>

section \<open>State and configuration\<close>

record ('acct, 'cur) erc20_state =
  ApprovesStorage :: "'acct \<Rightarrow> 'acct \<rightharpoonup> u128"
  NoncesStorage :: "H160 \<Rightarrow> U256"
  erc20_balances :: 'cur

text \<open>
  \<open>transfer_allow_death\<close> is the dispatch of the balances call with the given origin through
  \<^verbatim>\<open>RuntimeHelper::try_dispatch\<close>, which also charges the handle.
\<close>

record ('acct, 'cur, 'h) erc20_config =
  api :: "'h precompile_handle"
  crypto :: evm_crypto
  into_account_id :: "H160 \<Rightarrow> 'acct"
  usable_balance :: "'cur \<Rightarrow> 'acct \<Rightarrow> u128"
  total_issuance :: "'cur \<Rightarrow> u128"
  try_dispatch_transfer :: "'acct \<Rightarrow> 'acct \<Rightarrow> u128 \<Rightarrow> 'h \<times> 'cur \<Rightarrow> (evm_failure, 'h \<times> 'cur) result"
  token_name :: string
  token_symbol :: string
  token_decimals :: u8
  is_native_currency :: bool
  ChainId :: u64
  timestamp_now :: u128

type_synonym ('acct, 'cur, 'h, 'a) erc20 = "(('h, ('acct, 'cur) erc20_state) world, 'a) evm"

definition SELECTOR_LOG_TRANSFER :: "evm_crypto \<Rightarrow> H256" where
  "SELECTOR_LOG_TRANSFER cr = keccak_256 cr (string_bytes ''Transfer(address,address,uint256)'')"

definition SELECTOR_LOG_APPROVAL :: "evm_crypto \<Rightarrow> H256" where
  "SELECTOR_LOG_APPROVAL cr = keccak_256 cr (string_bytes ''Approval(address,address,uint256)'')"

definition SELECTOR_LOG_DEPOSIT :: "evm_crypto \<Rightarrow> H256" where
  "SELECTOR_LOG_DEPOSIT cr = keccak_256 cr (string_bytes ''Deposit(address,uint256)'')"

definition SELECTOR_LOG_WITHDRAWAL :: "evm_crypto \<Rightarrow> H256" where
  "SELECTOR_LOG_WITHDRAWAL cr = keccak_256 cr (string_bytes ''Withdrawal(address,uint256)'')"

definition log3 :: "H160 \<Rightarrow> H256 \<Rightarrow> H160 \<Rightarrow> H160 \<Rightarrow> u8 list \<Rightarrow> evm_log" where
  "log3 address selector a b data = \<lparr>log_address = address, log_topics = [selector, ucast a, ucast b], log_data = data\<rparr>"

definition log2 :: "H160 \<Rightarrow> H256 \<Rightarrow> H160 \<Rightarrow> u8 list \<Rightarrow> evm_log" where
  "log2 address selector a data = \<lparr>log_address = address, log_topics = [selector, ucast a], log_data = data\<rparr>"

definition dispatch_transfer :: "('acct, 'cur, 'h) erc20_config \<Rightarrow> 'acct \<Rightarrow> 'acct \<Rightarrow> u128
    \<Rightarrow> ('acct, 'cur, 'h, unit) erc20" where
  "dispatch_transfer cfg origin dest value w =
     and_then (try_dispatch_transfer cfg origin dest value (whandle w, erc20_balances (wstate w)))
     (\<lambda>(h, c). Ok ((), w\<lparr>whandle := h, wstate := (wstate w)\<lparr>erc20_balances := c\<rparr>\<rparr>))"

lemma dispatch_transfer_Ok_iff [evm_iff]:
  "dispatch_transfer cfg origin dest value w = Ok (u, w') \<longleftrightarrow>
     (\<exists>h c. try_dispatch_transfer cfg origin dest value (whandle w, erc20_balances (wstate w)) = Ok (h, c) \<and>
        w' = w\<lparr>whandle := h, wstate := (wstate w)\<lparr>erc20_balances := c\<rparr>\<rparr>)"
  by (auto simp: dispatch_transfer_def)

section \<open>The ERC20 interface (\<^verbatim>\<open>lib.rs\<close>)\<close>

text \<open>A \<^verbatim>\<open>U256\<close> as a balance; the balance type is \<^verbatim>\<open>u128\<close>.\<close>

definition u256_to_amount :: "U256 \<Rightarrow> (evm_failure, u128) result" where
  "u256_to_amount value =
     (if unat value < 2 ^ 128 then Ok (ucast value) else Err (Revert ''Value is too large for balance type''))"

definition saturated_amount :: "U256 \<Rightarrow> u128" where
  "saturated_amount value = (case u256_to_amount value of Ok a \<Rightarrow> a | _ \<Rightarrow> - 1)"

definition total_supply :: "('acct, 'cur, 'h) erc20_config \<Rightarrow> ('acct, 'cur, 'h, U256) erc20" where
  "total_supply cfg =
     evm_bind (on_handle (record_db_read (api cfg) 16))
     (\<lambda>_. evm_get (\<lambda>s. ucast (total_issuance cfg (erc20_balances s))))"

definition balance_of :: "('acct, 'cur, 'h) erc20_config \<Rightarrow> H160 \<Rightarrow> ('acct, 'cur, 'h, U256) erc20" where
  "balance_of cfg owner =
     evm_bind (on_handle (record_db_read (api cfg) 116))
     (\<lambda>_. evm_get (\<lambda>s. ucast (usable_balance cfg (erc20_balances s) (into_account_id cfg owner))))"

definition allowance :: "('acct, 'cur, 'h) erc20_config \<Rightarrow> H160 \<Rightarrow> H160 \<Rightarrow> ('acct, 'cur, 'h, U256) erc20" where
  "allowance cfg owner spender =
     evm_bind (on_handle (record_db_read (api cfg) 88))
     (\<lambda>_. evm_get (\<lambda>s. ucast (case ApprovesStorage s (into_account_id cfg owner) (into_account_id cfg spender) of
                                Some a \<Rightarrow> a | None \<Rightarrow> 0)))"

definition approves_insert :: "'acct \<Rightarrow> 'acct \<Rightarrow> u128 \<Rightarrow> ('acct, 'cur) erc20_state \<Rightarrow> ('acct, 'cur) erc20_state" where
  "approves_insert owner spender amount s =
     s\<lparr>ApprovesStorage := (ApprovesStorage s)(owner := (ApprovesStorage s owner)(spender \<mapsto> amount))\<rparr>"

definition approve ::
    "('acct, 'cur, 'h) erc20_config \<Rightarrow> evm_context \<Rightarrow> H160 \<Rightarrow> U256 \<Rightarrow> ('acct, 'cur, 'h, bool) erc20" where
  "approve cfg ctx spender value =
     evm_bind (on_handle (record_cost (api cfg) (db_write_gas_cost (api cfg))))
     (\<lambda>_. evm_bind (on_handle (record_log_costs_manual (api cfg) 3 32))
     (\<lambda>_. evm_bind (evm_modify (approves_insert (into_account_id cfg (ctx_caller ctx)) (into_account_id cfg spender)
                                  (saturated_amount value)))
     (\<lambda>_. evm_bind (on_handle (record_log (api cfg)
            (log3 (ctx_address ctx) (SELECTOR_LOG_APPROVAL (crypto cfg)) (ctx_caller ctx) spender
              (encode_event_data (crypto cfg) value))))
     (\<lambda>_. evm_ret True))))"

definition transfer ::
    "('acct, 'cur, 'h) erc20_config \<Rightarrow> evm_context \<Rightarrow> H160 \<Rightarrow> U256 \<Rightarrow> ('acct, 'cur, 'h, bool) erc20" where
  "transfer cfg ctx to value =
     evm_bind (on_handle (record_log_costs_manual (api cfg) 3 32))
     (\<lambda>_. evm_bind (evm_lift (in_field ''value'' (u256_to_amount value)))
     (\<lambda>amount. evm_bind (dispatch_transfer cfg (into_account_id cfg (ctx_caller ctx)) (into_account_id cfg to) amount)
     (\<lambda>_. evm_bind (on_handle (record_log (api cfg)
            (log3 (ctx_address ctx) (SELECTOR_LOG_TRANSFER (crypto cfg)) (ctx_caller ctx) to
              (encode_event_data (crypto cfg) value))))
     (\<lambda>_. evm_ret True))))"

text \<open>The \<^verbatim>\<open>mutate\<close> of \<open>transfer_from\<close>: the allowance is reduced, or the call reverts.\<close>

definition spend_allowance :: "'acct \<Rightarrow> 'acct \<Rightarrow> u128 \<Rightarrow> ('acct, 'cur, 'h, unit) erc20" where
  "spend_allowance from caller amount w =
     (case ApprovesStorage (wstate w) from caller of
        None \<Rightarrow> Err (Revert ''spender not allowed'')
      | Some allowed \<Rightarrow>
          (case checked_sub allowed amount of
             None \<Rightarrow> Err (Revert ''trying to spend more than allowed'')
           | Some allowed \<Rightarrow> Ok ((), w\<lparr>wstate := approves_insert from caller allowed (wstate w)\<rparr>)))"

definition transfer_from ::
    "('acct, 'cur, 'h) erc20_config \<Rightarrow> evm_context \<Rightarrow> H160 \<Rightarrow> H160 \<Rightarrow> U256 \<Rightarrow> ('acct, 'cur, 'h, bool) erc20" where
  "transfer_from cfg ctx from to value =
     evm_bind (on_handle (record_db_read (api cfg) 88))
     (\<lambda>_. evm_bind (on_handle (record_cost (api cfg) (db_write_gas_cost (api cfg))))
     (\<lambda>_. evm_bind (on_handle (record_log_costs_manual (api cfg) 3 32))
     (\<lambda>_. let caller_acct = into_account_id cfg (ctx_caller ctx);
              from_acct = into_account_id cfg from;
              to_acct = into_account_id cfg to
          in evm_bind (evm_lift (in_field ''value'' (u256_to_amount value)))
     (\<lambda>amount. evm_bind (if caller_acct \<noteq> from_acct then spend_allowance from_acct caller_acct amount else evm_ret ())
     (\<lambda>_. evm_bind (dispatch_transfer cfg from_acct to_acct amount)
     (\<lambda>_. evm_bind (on_handle (record_log (api cfg)
            (log3 (ctx_address ctx) (SELECTOR_LOG_TRANSFER (crypto cfg)) from to
              (encode_event_data (crypto cfg) value))))
     (\<lambda>_. evm_ret True)))))))"

definition erc20_name :: "('acct, 'cur, 'h) erc20_config \<Rightarrow> ('acct, 'cur, 'h, string) erc20" where
  "erc20_name cfg = evm_ret (token_name cfg)"

definition erc20_symbol :: "('acct, 'cur, 'h) erc20_config \<Rightarrow> ('acct, 'cur, 'h, string) erc20" where
  "erc20_symbol cfg = evm_ret (token_symbol cfg)"

definition erc20_decimals :: "('acct, 'cur, 'h) erc20_config \<Rightarrow> ('acct, 'cur, 'h, u8) erc20" where
  "erc20_decimals cfg = evm_ret (token_decimals cfg)"

definition deposit :: "('acct, 'cur, 'h) erc20_config \<Rightarrow> evm_context \<Rightarrow> ('acct, 'cur, 'h, unit) erc20" where
  "deposit cfg ctx =
     (if \<not> is_native_currency cfg then evm_fail (Revert ''Unknown selector'')
      else
        evm_bind (evm_lift (u256_to_amount (ctx_apparent_value ctx)))
        (\<lambda>amount. if amount = 0 then evm_fail (Revert ''deposited amount must be non-zero'')
          else evm_bind (on_handle (record_log_costs_manual (api cfg) 2 32))
        (\<lambda>_. evm_bind (dispatch_transfer cfg (into_account_id cfg (ctx_address ctx))
                         (into_account_id cfg (ctx_caller ctx)) amount)
        (\<lambda>_. on_handle (record_log (api cfg)
               (log2 (ctx_address ctx) (SELECTOR_LOG_DEPOSIT (crypto cfg)) (ctx_caller ctx)
                 (encode_event_data (crypto cfg) (ctx_apparent_value ctx))))))))"

definition withdraw :: "('acct, 'cur, 'h) erc20_config \<Rightarrow> evm_context \<Rightarrow> U256 \<Rightarrow> ('acct, 'cur, 'h, unit) erc20" where
  "withdraw cfg ctx value =
     (if \<not> is_native_currency cfg then evm_fail (Revert ''Unknown selector'')
      else
        evm_bind (on_handle (record_log_costs_manual (api cfg) 2 32))
        (\<lambda>_. evm_bind (evm_get (\<lambda>s. ucast (usable_balance cfg (erc20_balances s) (into_account_id cfg (ctx_caller ctx)))))
        (\<lambda>account_amount.
           if value > account_amount then evm_fail (Revert ''Trying to withdraw more than owned'')
           else on_handle (record_log (api cfg)
                  (log2 (ctx_address ctx) (SELECTOR_LOG_WITHDRAWAL (crypto cfg)) (ctx_caller ctx)
                    (encode_event_data (crypto cfg) value))))))"

section \<open>Signed approvals (\<^verbatim>\<open>eip2612.rs\<close>)\<close>

definition PERMIT_TYPEHASH :: "evm_crypto \<Rightarrow> H256" where
  "PERMIT_TYPEHASH cr = keccak_256 cr (string_bytes
     ''Permit(address owner,address spender,uint256 value,uint256 nonce,uint256 deadline)'')"

definition PERMIT_DOMAIN :: "evm_crypto \<Rightarrow> H256" where
  "PERMIT_DOMAIN cr = keccak_256 cr (string_bytes
     ''EIP712Domain(string name,string version,uint256 chainId,address verifyingContract)'')"

definition compute_domain_separator :: "('acct, 'cur, 'h) erc20_config \<Rightarrow> H160 \<Rightarrow> H256" where
  "compute_domain_separator cfg address =
     (let name = keccak_256 (crypto cfg) (string_bytes (token_name cfg));
          version = keccak_256 (crypto cfg) (string_bytes ''1'');
          chain_id = ucast (ChainId cfg);
          domain_separator_inner = encode_arguments (crypto cfg)
            [ArgH256 (PERMIT_DOMAIN (crypto cfg)), ArgH256 name, ArgH256 version, ArgU256 chain_id, ArgAddress address]
      in keccak_256 (crypto cfg) domain_separator_inner)"

definition generate_permit ::
    "('acct, 'cur, 'h) erc20_config \<Rightarrow> H160 \<Rightarrow> H160 \<Rightarrow> H160 \<Rightarrow> U256 \<Rightarrow> U256 \<Rightarrow> U256 \<Rightarrow> H256" where
  "generate_permit cfg address owner spender value nonce deadline =
     (let domain_separator = compute_domain_separator cfg address;
          permit_content = encode_arguments (crypto cfg)
            [ArgH256 (PERMIT_TYPEHASH (crypto cfg)), ArgAddress owner, ArgAddress spender, ArgU256 value,
             ArgU256 nonce, ArgU256 deadline];
          permit_content = keccak_256 (crypto cfg) permit_content;
          pre_digest = [0x19, 0x01] @ be_bytes32 domain_separator @ be_bytes32 permit_content
      in keccak_256 (crypto cfg) pre_digest)"

definition permit ::
    "('acct, 'cur, 'h) erc20_config \<Rightarrow> evm_context \<Rightarrow> H160 \<Rightarrow> H160 \<Rightarrow> U256 \<Rightarrow> U256 \<Rightarrow> u8 \<Rightarrow> H256 \<Rightarrow> H256
      \<Rightarrow> ('acct, 'cur, 'h, unit) erc20" where
  "permit cfg ctx owner spender value deadline v r s =
     evm_bind (on_handle (record_db_read (api cfg) 104))
     (\<lambda>_. let timestamp = (ucast (timestamp_now cfg div 1000) :: U256)
          in evm_bind (evm_ensure (deadline \<ge> timestamp) ''Permit expired'')
     (\<lambda>_. evm_bind (evm_get (\<lambda>st. NoncesStorage st owner))
     (\<lambda>nonce. let permit = generate_permit cfg (ctx_address ctx) owner spender value nonce deadline
          in evm_bind (evm_lift (ok_or (Revert ''Invalid permit'') (recover_signer (crypto cfg) v r s permit)))
     (\<lambda>signer. evm_bind (evm_ensure (signer \<noteq> 0 \<and> signer = owner) ''Invalid permit'')
     (\<lambda>_. evm_bind (next_nonce nonce)
     (\<lambda>new_nonce. evm_bind (evm_modify (\<lambda>st. st\<lparr>NoncesStorage := (NoncesStorage st)(owner := new_nonce)\<rparr>))
     (\<lambda>_. evm_bind (evm_modify (approves_insert (into_account_id cfg owner) (into_account_id cfg spender)
                                  (saturated_amount value)))
     (\<lambda>_. on_handle (record_log (api cfg)
            (log3 (ctx_address ctx) (SELECTOR_LOG_APPROVAL (crypto cfg)) owner spender
              (encode_event_data (crypto cfg) value)))))))))))"

definition nonces :: "('acct, 'cur, 'h) erc20_config \<Rightarrow> H160 \<Rightarrow> ('acct, 'cur, 'h, U256) erc20" where
  "nonces cfg owner =
     evm_bind (on_handle (record_db_read (api cfg) 104)) (\<lambda>_. evm_get (\<lambda>s. NoncesStorage s owner))"

definition domain_separator :: "('acct, 'cur, 'h) erc20_config \<Rightarrow> evm_context \<Rightarrow> ('acct, 'cur, 'h, H256) erc20" where
  "domain_separator cfg ctx =
     evm_bind (on_handle (record_db_read (api cfg) 8))
     (\<lambda>_. evm_ret (compute_domain_separator cfg (ctx_address ctx)))"

section \<open>What a successful call does to the approvals and nonces\<close>

lemma u256_to_amount_Ok: "u256_to_amount value = Ok a \<longleftrightarrow> unat value < 2 ^ 128 \<and> a = ucast value"
  by (auto simp: u256_to_amount_def)

lemma unat_ucast_128: "unat (value :: U256) < 2 ^ 128 \<Longrightarrow> unat (ucast value :: u128) = unat value"
  by (simp add: unsigned_ucast_eq take_bit_nat_eq_self)

lemma approve_effect:
  assumes "approve cfg ctx spender value w = Ok (r, w')"
  shows "wstate w' = approves_insert (into_account_id cfg (ctx_caller ctx)) (into_account_id cfg spender)
           (saturated_amount value) (wstate w)"
  using assms by (auto simp: approve_def evm_iff)

lemma transfer_effect:
  assumes "transfer cfg ctx to value w = Ok (r, w')"
  shows "ApprovesStorage (wstate w') = ApprovesStorage (wstate w) \<and> NoncesStorage (wstate w') = NoncesStorage (wstate w)"
  using assms by (auto simp: transfer_def evm_iff)

lemma deposit_effect:
  assumes "deposit cfg ctx w = Ok (r, w')"
  shows "ApprovesStorage (wstate w') = ApprovesStorage (wstate w) \<and> NoncesStorage (wstate w') = NoncesStorage (wstate w)"
  using assms by (auto simp: deposit_def evm_iff split: if_splits)

lemma withdraw_effect:
  assumes "withdraw cfg ctx value w = Ok (r, w')"
  shows "wstate w' = wstate w"
  using assms by (auto simp: withdraw_def evm_iff split: if_splits)

lemma spend_allowance_Ok_iff [evm_iff]:
  "spend_allowance from caller amount w = Ok (u, w') \<longleftrightarrow>
     (\<exists>allowed. ApprovesStorage (wstate w) from caller = Some allowed \<and> amount \<le> allowed \<and>
        w' = w\<lparr>wstate := approves_insert from caller (allowed - amount) (wstate w)\<rparr>)"
  by (auto simp: spend_allowance_def checked_sub_def split: option.splits)

lemma transfer_from_effect:
  assumes "transfer_from cfg ctx from to value w = Ok (r, w')"
  defines "c \<equiv> into_account_id cfg (ctx_caller ctx)" and "f \<equiv> into_account_id cfg from"
  shows "NoncesStorage (wstate w') = NoncesStorage (wstate w) \<and> unat value < 2 ^ 128 \<and>
     (c = f \<longrightarrow> ApprovesStorage (wstate w') = ApprovesStorage (wstate w)) \<and>
     (c \<noteq> f \<longrightarrow> (\<exists>allowed. ApprovesStorage (wstate w) f c = Some allowed \<and> ucast value \<le> allowed \<and>
        ApprovesStorage (wstate w') = ApprovesStorage (approves_insert f c (allowed - ucast value) (wstate w))))"
  using assms
  by (auto simp: transfer_from_def evm_iff Let_def u256_to_amount_Ok approves_insert_def split: if_splits)

lemma permit_Ok_iff:
  "permit cfg ctx owner spender value deadline v r s w = Ok (u, w') \<longleftrightarrow>
     (\<exists>h h'. record_db_read (api cfg) 104 (whandle w) = Ok h \<and>
        deadline \<ge> ucast (timestamp_now cfg div 1000) \<and>
        recover_signer (crypto cfg) v r s
          (generate_permit cfg (ctx_address ctx) owner spender value (NoncesStorage (wstate w) owner) deadline)
          = Some owner \<and> owner \<noteq> 0 \<and> NoncesStorage (wstate w) owner \<noteq> - 1 \<and>
        record_log (api cfg) (log3 (ctx_address ctx) (SELECTOR_LOG_APPROVAL (crypto cfg)) owner spender
          (encode_event_data (crypto cfg) value)) h = Ok h' \<and>
        w' = w\<lparr>whandle := h', wstate := approves_insert (into_account_id cfg owner) (into_account_id cfg spender)
          (saturated_amount value)
          ((wstate w)\<lparr>NoncesStorage := (NoncesStorage (wstate w))(owner := NoncesStorage (wstate w) owner + 1)\<rparr>)\<rparr>)"
  by (auto simp: permit_def evm_iff Let_def)

text \<open>The entry points of the precompile for the signed approvals.\<close>

definition eip2612_permit ::
    "('acct, 'cur, 'h) erc20_config \<Rightarrow> evm_context \<Rightarrow> H160 \<Rightarrow> H160 \<Rightarrow> U256 \<Rightarrow> U256 \<Rightarrow> u8 \<Rightarrow> H256 \<Rightarrow> H256
      \<Rightarrow> ('acct, 'cur, 'h, unit) erc20" where
  "eip2612_permit cfg ctx owner spender value deadline v r s = permit cfg ctx owner spender value deadline v r s"

definition eip2612_nonces :: "('acct, 'cur, 'h) erc20_config \<Rightarrow> H160 \<Rightarrow> ('acct, 'cur, 'h, U256) erc20" where
  "eip2612_nonces cfg owner = nonces cfg owner"

definition eip2612_domain_separator :: "('acct, 'cur, 'h) erc20_config \<Rightarrow> evm_context \<Rightarrow> ('acct, 'cur, 'h, H256) erc20" where
  "eip2612_domain_separator cfg ctx = domain_separator cfg ctx"

section \<open>Runs\<close>

text \<open>
  A run is a sequence of calls by arbitrary callers. Each call has a handle of its own; a call that
  fails leaves the state as it was.
\<close>

datatype erc20_op =
    Approve evm_context H160 U256
  | Transfer evm_context H160 U256
  | TransferFrom evm_context H160 H160 U256
  | Deposit evm_context
  | Withdraw evm_context U256
  | Permit evm_context H160 H160 U256 U256 u8 H256 H256

definition erc20_call ::
    "('acct, 'cur, 'h) erc20_config \<Rightarrow> erc20_op \<Rightarrow> ('acct, 'cur, 'h, unit) erc20" where
  "erc20_call cfg op =
     (case op of
        Approve ctx spender value \<Rightarrow> evm_bind (approve cfg ctx spender value) (\<lambda>_. evm_ret ())
      | Transfer ctx to value \<Rightarrow> evm_bind (transfer cfg ctx to value) (\<lambda>_. evm_ret ())
      | TransferFrom ctx from to value \<Rightarrow> evm_bind (transfer_from cfg ctx from to value) (\<lambda>_. evm_ret ())
      | Deposit ctx \<Rightarrow> deposit cfg ctx
      | Withdraw ctx value \<Rightarrow> withdraw cfg ctx value
      | Permit ctx owner spender value deadline v r s \<Rightarrow> permit cfg ctx owner spender value deadline v r s)"

definition erc20_after ::
    "('acct, 'cur, 'h) erc20_config \<Rightarrow> 'h \<times> erc20_op \<Rightarrow> ('acct, 'cur) erc20_state \<Rightarrow> ('acct, 'cur) erc20_state" where
  "erc20_after cfg call s =
     (case erc20_call cfg (snd call) \<lparr>whandle = fst call, wstate = s\<rparr> of
        Ok (_, w) \<Rightarrow> wstate w
      | _ \<Rightarrow> s)"

text \<open>
  What one call grants to, and what it spends of, the allowance that \<open>sp\<close> has from \<open>ow\<close>; a call
  that fails counts for nothing.
\<close>

definition granted :: "('acct, 'cur, 'h) erc20_config \<Rightarrow> 'acct \<Rightarrow> 'acct \<Rightarrow> 'h \<times> erc20_op
    \<Rightarrow> ('acct, 'cur) erc20_state \<Rightarrow> nat" where
  "granted cfg ow sp call s =
     (if is_ok (erc20_call cfg (snd call) \<lparr>whandle = fst call, wstate = s\<rparr>) then
        (case snd call of
           Approve ctx spender value \<Rightarrow>
             if into_account_id cfg (ctx_caller ctx) = ow \<and> into_account_id cfg spender = sp
             then unat (saturated_amount value) else 0
         | Permit ctx owner spender value deadline v r t \<Rightarrow>
             if into_account_id cfg owner = ow \<and> into_account_id cfg spender = sp
             then unat (saturated_amount value) else 0
         | _ \<Rightarrow> 0)
      else 0)"

definition spent :: "('acct, 'cur, 'h) erc20_config \<Rightarrow> 'acct \<Rightarrow> 'acct \<Rightarrow> 'h \<times> erc20_op
    \<Rightarrow> ('acct, 'cur) erc20_state \<Rightarrow> nat" where
  "spent cfg ow sp call s =
     (if is_ok (erc20_call cfg (snd call) \<lparr>whandle = fst call, wstate = s\<rparr>) then
        (case snd call of
           TransferFrom ctx from to value \<Rightarrow>
             if into_account_id cfg from = ow \<and> into_account_id cfg (ctx_caller ctx) = sp then unat value else 0
         | _ \<Rightarrow> 0)
      else 0)"

definition total_granted where
  "total_granted cfg ow sp = total_over (granted cfg ow sp) (erc20_after cfg)"

definition total_spent where
  "total_spent cfg ow sp = total_over (spent cfg ow sp) (erc20_after cfg)"

definition allowed :: "('acct, 'cur) erc20_state \<Rightarrow> 'acct \<Rightarrow> 'acct \<Rightarrow> nat" where
  "allowed s ow sp = (case ApprovesStorage s ow sp of Some a \<Rightarrow> unat a | None \<Rightarrow> 0)"

lemma allowed_insert:
  "allowed (approves_insert f c a s) ow sp = (if ow = f \<and> sp = c then unat a else allowed s ow sp)"
  by (simp add: allowed_def approves_insert_def)

lemma allowed_cong: "ApprovesStorage s = ApprovesStorage t \<Longrightarrow> allowed s = allowed t"
  by (simp add: allowed_def fun_eq_iff)

lemma erc20_call_allowed:
  fixes s :: "('acct, 'cur) erc20_state"
  assumes "ow \<noteq> sp" "erc20_call cfg op \<lparr>whandle = h, wstate = s\<rparr> = Ok (u, w)"
  shows "allowed (wstate w) ow sp + spent cfg ow sp (h, op) s \<le> allowed s ow sp + granted cfg ow sp (h, op) s"
proof (cases op)
  case (Approve ctx spender val)
  then have "granted cfg ow sp (h, op) s =
      (if into_account_id cfg (ctx_caller ctx) = ow \<and> into_account_id cfg spender = sp
       then unat (saturated_amount val) else 0)" "spent cfg ow sp (h, op) s = 0"
    using assms(2) by (simp_all add: granted_def spent_def)
  moreover have "wstate w = approves_insert (into_account_id cfg (ctx_caller ctx)) (into_account_id cfg spender)
      (saturated_amount val) s"
    using assms(2) Approve by (auto simp: erc20_call_def evm_iff dest!: approve_effect)
  ultimately show ?thesis by (auto simp: allowed_insert)
next
  case (Transfer ctx to val)
  then show ?thesis
    using assms by (auto simp: erc20_call_def evm_iff spent_def granted_def dest!: transfer_effect
        intro: eq_imp_le dest: allowed_cong)
next
  case (TransferFrom ctx frm to val)
  then obtain r w1 where w1: "transfer_from cfg ctx frm to val \<lparr>whandle = h, wstate = s\<rparr> = Ok (r, w1)" "w = w1"
    using assms(2) by (auto simp: erc20_call_def evm_iff)
  let ?c = "into_account_id cfg (ctx_caller ctx)" and ?f = "into_account_id cfg frm"
  have sp: "spent cfg ow sp (h, op) s = (if ?f = ow \<and> ?c = sp then unat val else 0)"
    using assms(2) TransferFrom by (simp add: spent_def)
  show ?thesis
  proof (cases "?c = ?f")
    case True
    then have "allowed (wstate w) = allowed s"
      using transfer_from_effect [OF w1(1)] w1(2) by (intro allowed_cong) simp
    with True assms(1) sp show ?thesis by auto
  next
    case False
    then obtain a where a: "ApprovesStorage s ?f ?c = Some a" "ucast val \<le> a"
      "ApprovesStorage (wstate w) = ApprovesStorage (approves_insert ?f ?c (a - ucast val) s)"
      using transfer_from_effect [OF w1(1)] w1(2) by auto
    have v: "unat (ucast val :: u128) = unat val"
      using transfer_from_effect [OF w1(1)] by (intro unat_ucast_128) simp
    have "allowed (wstate w) ow sp = (if ow = ?f \<and> sp = ?c then unat a - unat val else allowed s ow sp)"
      using allowed_cong [OF a(3)] a(2) v by (simp add: allowed_insert unat_diff_no_wrap)
    moreover have "unat val \<le> unat a" using a(2) v by (simp add: word_le_nat_alt)
    moreover have "allowed s ?f ?c = unat a" using a(1) by (simp add: allowed_def)
    ultimately show ?thesis using sp by auto
  qed
next
  case (Deposit ctx)
  then show ?thesis
    using assms by (auto simp: erc20_call_def spent_def granted_def dest!: deposit_effect
        intro: eq_imp_le dest: allowed_cong)
next
  case (Withdraw ctx val)
  then show ?thesis
    using assms by (auto simp: erc20_call_def spent_def granted_def dest!: withdraw_effect)
next
  case (Permit ctx owner spender val deadline v r t)
  then have "granted cfg ow sp (h, op) s =
      (if into_account_id cfg owner = ow \<and> into_account_id cfg spender = sp
       then unat (saturated_amount val) else 0)" "spent cfg ow sp (h, op) s = 0"
    using assms(2) by (simp_all add: granted_def spent_def)
  moreover have "allowed (wstate w) ow sp = (if ow = into_account_id cfg owner \<and> sp = into_account_id cfg spender
      then unat (saturated_amount val) else allowed s ow sp)"
    using assms(2) Permit by (auto simp: erc20_call_def permit_Ok_iff allowed_insert) (simp add: allowed_def)+
  ultimately show ?thesis by auto
qed

lemma erc20_after_allowed:
  assumes "ow \<noteq> sp"
  shows "allowed (erc20_after cfg call s) ow sp + spent cfg ow sp call s \<le> allowed s ow sp + granted cfg ow sp call s"
proof (cases "erc20_call cfg (snd call) \<lparr>whandle = fst call, wstate = s\<rparr>")
  case (Ok r)
  obtain u w where r: "r = (u, w)" by (cases r)
  from erc20_call_allowed [OF assms Ok [unfolded r]] Ok r show ?thesis by (simp add: erc20_after_def)
qed (simp_all add: erc20_after_def spent_def granted_def)

lemma erc20_call_nonces:
  assumes "erc20_call cfg op \<lparr>whandle = h, wstate = s\<rparr> = Ok (u, w)"
  shows "unat (NoncesStorage s a) \<le> unat (NoncesStorage (wstate w) a)"
  using assms
  by (cases op)
     (auto simp: erc20_call_def evm_iff permit_Ok_iff approves_insert_def unat_next_nonce
       dest!: approve_effect transfer_effect transfer_from_effect deposit_effect withdraw_effect)

definition run_erc20 :: "('acct, 'cur, 'h) erc20_config \<Rightarrow> ('h \<times> erc20_op) list \<Rightarrow> ('acct, 'cur) erc20_state
    \<Rightarrow> ('acct, 'cur) erc20_state" where
  "run_erc20 cfg calls s = fold (erc20_after cfg) calls s"

lemma run_erc20_nonces: "unat (NoncesStorage s a) \<le> unat (NoncesStorage (run_erc20 cfg calls s) a)"
proof (induction calls arbitrary: s)
  case (Cons call calls)
  have "unat (NoncesStorage s a) \<le> unat (NoncesStorage (erc20_after cfg call s) a)"
    by (auto simp: erc20_after_def dest: erc20_call_nonces split: result.splits)
  also have "\<dots> \<le> unat (NoncesStorage (run_erc20 cfg (call # calls) s) a)"
    using Cons.IH by (simp add: run_erc20_def)
  finally show ?case .
qed (simp add: run_erc20_def)

interpretation erc20_allowances: allowance_ledger erc20_after "\<lambda>cfg (ow, sp). granted cfg ow sp"
  "\<lambda>cfg (ow, sp). spent cfg ow sp" "\<lambda>cfg s (ow, sp). allowed s ow sp" "\<lambda>cfg (ow, sp). ow \<noteq> sp"
  by unfold_locales (auto intro: erc20_after_allowed)

section \<open>Permits as a nonce-guarded scheme\<close>

record erc20_permit =
  pm_context :: evm_context
  pm_owner :: H160
  pm_spender :: H160
  pm_value :: U256
  pm_deadline :: U256
  pm_v :: u8
  pm_r :: H256
  pm_s :: H256

definition accept_permit :: "('acct, 'cur, 'h) erc20_config \<Rightarrow> erc20_permit
    \<Rightarrow> ('h, ('acct, 'cur) erc20_state) world \<Rightarrow> ('h, ('acct, 'cur) erc20_state) world \<Rightarrow> bool" where
  "accept_permit cfg p w w' \<longleftrightarrow>
     permit cfg (pm_context p) (pm_owner p) (pm_spender p) (pm_value p) (pm_deadline p) (pm_v p) (pm_r p) (pm_s p) w
       = Ok ((), w')"

definition permit_digest :: "('acct, 'cur, 'h) erc20_config \<Rightarrow> erc20_permit \<Rightarrow> U256 \<Rightarrow> H256" where
  "permit_digest cfg p nonce =
     generate_permit cfg (ctx_address (pm_context p)) (pm_owner p) (pm_spender p) (pm_value p) nonce (pm_deadline p)"

definition permit_signer :: "('acct, 'cur, 'h) erc20_config \<Rightarrow> erc20_permit \<Rightarrow> H256 \<Rightarrow> H160 option" where
  "permit_signer cfg p digest = recover_signer (crypto cfg) (pm_v p) (pm_r p) (pm_s p) digest"

interpretation erc20_permits: permit_scheme accept_permit "\<lambda>w. NoncesStorage (wstate w)" pm_owner pm_owner
  "\<lambda>cfg p w. permit_digest cfg p (NoncesStorage (wstate w) (pm_owner p))"
  permit_signer "\<lambda>_. True"
  by unfold_locales
     (auto simp: accept_permit_def permit_Ok_iff permit_digest_def permit_signer_def approves_insert_def
       unat_next_nonce)

section \<open>Properties\<close>


text \<open>A configuration with a ledger of balances for concrete runs.\<close>

definition erc20_demo :: "H256 \<Rightarrow> (H160, H160 \<Rightarrow> u128, gas_meter) erc20_config" where
  "erc20_demo signed_digest = \<lparr>api = gas_handle, crypto = demo_crypto_evm signed_digest, into_account_id = (\<lambda>a. a),
     usable_balance = (\<lambda>c a. c a), total_issuance = (\<lambda>c. 1000),
     try_dispatch_transfer = (\<lambda>a b v (h, c).
        if v \<le> c a then Ok (h, (c(a := c a - v))(b := (c(a := c a - v)) b + v)) else Err (Revert ''Token'')),
     token_name = ''T'', token_symbol = ''T'', token_decimals = 18, is_native_currency = True,
     ChainId = 1, timestamp_now = 0\<rparr>"

definition erc20_demo_state :: "(H160, H160 \<Rightarrow> u128) erc20_state" where
  "erc20_demo_state = \<lparr>ApprovesStorage = (\<lambda>_. Map.empty), NoncesStorage = (\<lambda>_. 0), erc20_balances = (\<lambda>a. 100)\<rparr>"

definition demo_context :: "H160 \<Rightarrow> evm_context" where
  "demo_context caller = \<lparr>ctx_address = 2050, ctx_caller = caller, ctx_apparent_value = 0\<rparr>"


text \<open>
  A signed approval is used up: once it has been accepted, whatever is called afterwards, it is
  never accepted again, if its digests for the two nonces differ and a signature is valid for one
  digest only.
\<close>

theorem permit_not_replayable:
  assumes "accept_permit cfg p w w'"
    and "NoncesStorage (wstate w) (pm_owner p) \<noteq> NoncesStorage (run_erc20 cfg calls (wstate w')) (pm_owner p) \<Longrightarrow>
         permit_digest cfg p (NoncesStorage (wstate w) (pm_owner p))
           \<noteq> permit_digest cfg p (NoncesStorage (run_erc20 cfg calls (wstate w')) (pm_owner p))"
    and "\<And>d e. permit_signer cfg p d = Some (pm_owner p) \<Longrightarrow> permit_signer cfg p e = Some (pm_owner p) \<Longrightarrow> d = e"
  shows "\<not> accept_permit cfg p \<lparr>whandle = h, wstate = run_erc20 cfg calls (wstate w')\<rparr> u"
  by (rule erc20_permits.no_replay [OF TrueI assms(1)])
     (use assms(2,3) run_erc20_nonces [of "wstate w'"] in auto)

text \<open>A permit over 40 units, with a signature that is valid for its digest at nonce 0.\<close>

definition demo_permit :: erc20_permit where
  "demo_permit = \<lparr>pm_context = demo_context 9, pm_owner = 27, pm_spender = 6, pm_value = 40, pm_deadline = 100,
     pm_v = 27, pm_r = 0, pm_s = 0\<rparr>"

lemma demo_digest: "permit_digest (erc20_demo d) demo_permit n =
    (let c = sum_list (map ucast [40, ucast n, 100 :: u8]) :: H256
     in 26 + sum_list (map ucast (be_bytes32 1)) + sum_list (map ucast (be_bytes32 c)))"
  by (simp add: permit_digest_def generate_permit_def compute_domain_separator_def erc20_demo_def
      demo_crypto_evm_def Let_def demo_permit_def)

lemma demo_digests_differ: "permit_digest (erc20_demo d) demo_permit 0 \<noteq> permit_digest (erc20_demo d) demo_permit 1"
  by (simp add: demo_digest be_bytes32_small Let_def sum_list_replicate)

definition erc20_signed :: "(H160, H160 \<Rightarrow> u128, gas_meter) erc20_config" where
  "erc20_signed = erc20_demo (permit_digest (erc20_demo 0) demo_permit 0)"

lemma demo_accepted:
  "\<exists>w'. accept_permit erc20_signed demo_permit \<lparr>whandle = (100, []), wstate = erc20_demo_state\<rparr> w' \<and>
     NoncesStorage (wstate w') 27 = 1"
proof -
  have "generate_permit erc20_signed 2050 27 6 40 0 100 = permit_digest (erc20_demo 0) demo_permit 0"
    by (simp add: permit_digest_def demo_permit_def demo_context_def erc20_signed_def generate_permit_def
        compute_domain_separator_def erc20_demo_def demo_crypto_evm_def PERMIT_TYPEHASH_def PERMIT_DOMAIN_def Let_def)
  then show ?thesis
    unfolding accept_permit_def permit_Ok_iff
    by (simp add: demo_permit_def demo_context_def erc20_signed_def erc20_demo_def gas_handle_def charge_def
        checked_sub_def recover_signer_def demo_crypto_evm_def erc20_demo_state_def approves_insert_def)
qed

theorem permit_not_replayable_witness:
  "\<exists>w'. accept_permit erc20_signed demo_permit \<lparr>whandle = (100, []), wstate = erc20_demo_state\<rparr> w' \<and>
     \<not> accept_permit erc20_signed demo_permit \<lparr>whandle = (100, []), wstate = run_erc20 erc20_signed [] (wstate w')\<rparr> w'"
proof -
  obtain w' where w': "accept_permit erc20_signed demo_permit \<lparr>whandle = (100, []), wstate = erc20_demo_state\<rparr> w'"
    "NoncesStorage (wstate w') 27 = 1" using demo_accepted by blast
  have "pm_owner demo_permit = 27" by (simp add: demo_permit_def)
  moreover have "NoncesStorage erc20_demo_state 27 = 0" by (simp add: erc20_demo_state_def)
  moreover have "run_erc20 erc20_signed [] (wstate w') = wstate w'" by (simp add: run_erc20_def)
  moreover have "permit_signer erc20_signed demo_permit d = Some a \<Longrightarrow>
      permit_signer erc20_signed demo_permit e = Some a \<Longrightarrow> d = e" for d e a
    by (auto simp: permit_signer_def recover_signer_def erc20_signed_def erc20_demo_def demo_crypto_evm_def
        split: if_splits)
  moreover have "permit_digest erc20_signed demo_permit 0 \<noteq> permit_digest erc20_signed demo_permit 1"
    unfolding erc20_signed_def by (rule demo_digests_differ)
  ultimately have "\<not> accept_permit erc20_signed demo_permit
      \<lparr>whandle = (100, []), wstate = run_erc20 erc20_signed [] (wstate w')\<rparr> w'"
    using w'(2) by (intro permit_not_replayable [OF w'(1)]) auto
  with w'(1) show ?thesis by blast
qed

end
