(* ===== verification/Assets_Erc20.thy ===== *)
theory Assets_Erc20
  imports Erc20_Balances
begin

text \<open>
  \<^verbatim>\<open>precompiles/assets-erc20\<close>: the assets of the assets pallet as ERC20 contracts, one address per
  asset (\<^verbatim>\<open>lib.rs\<close>), with signed approvals (\<^verbatim>\<open>eip2612.rs\<close>). Approvals are those of the assets pallet;
  the only storage of the precompile are the nonces, per contract address and owner. The log
  selectors, the permit type hashes and \<^verbatim>\<open>u256_to_amount\<close> are written here as in the precompile for
  balances, and are shared with it.
\<close>

section \<open>State and configuration\<close>

record 'as as_state =
  as_nonces :: "H160 \<Rightarrow> H160 \<Rightarrow> U256"
  assets :: 'as

text \<open>The calls of the assets pallet that the precompile dispatches.\<close>

datatype ('id, 'acct) assets_call =
    CancelApproval 'id 'acct
  | ApproveTransfer 'id 'acct u128
  | TransferAsset 'id 'acct u128
  | TransferApproved 'id 'acct 'acct u128

text \<open>
  The assets pallet (reads and the dispatch of calls through \<^verbatim>\<open>RuntimeHelper::try_dispatch\<close>, which
  also charges the handle), the address conversions of the runtime, and the display of asset ids.
\<close>

record ('acct, 'id, 'as, 'h) as_config =
  as_api :: "'h precompile_handle"
  as_crypto :: evm_crypto
  as_into_account_id :: "H160 \<Rightarrow> 'acct"
  as_into_h160 :: "'acct \<Rightarrow> H160"
  account_to_asset_id :: "'acct \<Rightarrow> (u8 list \<times> 'id) option"
  db_read_gas_cost :: u64
  maybe_total_supply :: "'as \<Rightarrow> 'id \<Rightarrow> u128 option"
  asset_total_issuance :: "'as \<Rightarrow> 'id \<Rightarrow> u128"
  asset_balance :: "'as \<Rightarrow> 'id \<Rightarrow> 'acct \<Rightarrow> u128"
  asset_allowance :: "'as \<Rightarrow> 'id \<Rightarrow> 'acct \<Rightarrow> 'acct \<Rightarrow> u128"
  asset_name :: "'as \<Rightarrow> 'id \<Rightarrow> u8 list"
  asset_symbol :: "'as \<Rightarrow> 'id \<Rightarrow> u8 list"
  asset_decimals :: "'as \<Rightarrow> 'id \<Rightarrow> u8"
  asset_owner :: "'as \<Rightarrow> 'id \<Rightarrow> 'acct option"
  asset_issuer :: "'as \<Rightarrow> 'id \<Rightarrow> 'acct option"
  asset_admin :: "'as \<Rightarrow> 'id \<Rightarrow> 'acct option"
  asset_freezer :: "'as \<Rightarrow> 'id \<Rightarrow> 'acct option"
  StringLimit :: u32
  Extra_max_encoded_len :: nat
  id_to_string :: "'id \<Rightarrow> string"
  as_try_dispatch :: "'acct \<Rightarrow> ('id, 'acct) assets_call \<Rightarrow> u64 \<Rightarrow> 'h \<times> 'as \<Rightarrow> (evm_failure, 'h \<times> 'as) result"
  as_ChainId :: u64
  as_timestamp_now :: u128

type_synonym ('as, 'h, 'a) as_evm = "(('h, 'as as_state) world, 'a) evm"

definition SYSTEM_ACCOUNT_SIZE :: u64 where
  "SYSTEM_ACCOUNT_SIZE = 148"

definition dispatch_asset ::
    "('acct, 'id, 'as, 'h) as_config \<Rightarrow> 'acct \<Rightarrow> ('id, 'acct) assets_call \<Rightarrow> u64 \<Rightarrow> ('as, 'h, unit) as_evm" where
  "dispatch_asset cfg origin call storage_growth w =
     and_then (as_try_dispatch cfg origin call storage_growth (whandle w, assets (wstate w)))
     (\<lambda>(h, a). Ok ((), w\<lparr>whandle := h, wstate := (wstate w)\<lparr>assets := a\<rparr>\<rparr>))"

lemma dispatch_asset_Ok_iff:
  "dispatch_asset cfg origin call g w = Ok (u, w') \<longleftrightarrow>
     (\<exists>h a. as_try_dispatch cfg origin call g (whandle w, assets (wstate w)) = Ok (h, a) \<and>
        w' = w\<lparr>whandle := h, wstate := (wstate w)\<lparr>assets := a\<rparr>\<rparr>)"
  by (auto simp: dispatch_asset_def)

section \<open>Which address is an asset\<close>

datatype 'id discriminant_result =
    DiscriminantSome 'id u64
  | DiscriminantNone u64
  | DiscriminantOutOfGas

definition discriminant ::
    "('acct, 'id, 'as, 'h) as_config \<Rightarrow> 'as as_state \<Rightarrow> H160 \<Rightarrow> u64 \<Rightarrow> 'id discriminant_result" where
  "discriminant cfg s address gas =
     (let extra_cost = db_read_gas_cost cfg
      in if gas < extra_cost then DiscriminantOutOfGas
         else
           let account_id = as_into_account_id cfg address
           in (case account_to_asset_id cfg account_id of
                 None \<Rightarrow> DiscriminantNone extra_cost
               | Some (_, asset_id) \<Rightarrow>
                   if maybe_total_supply cfg (assets s) asset_id \<noteq> None then DiscriminantSome asset_id extra_cost
                   else DiscriminantNone extra_cost))"

section \<open>The ERC20 interface (\<^verbatim>\<open>lib.rs\<close>)\<close>

definition as_total_supply :: "('acct, 'id, 'as, 'h) as_config \<Rightarrow> 'id \<Rightarrow> ('as, 'h, U256) as_evm" where
  "as_total_supply cfg asset_id =
     evm_bind (on_handle (record_db_read (as_api cfg) 175))
     (\<lambda>_. evm_get (\<lambda>s. ucast (asset_total_issuance cfg (assets s) asset_id)))"

definition as_balance_of :: "('acct, 'id, 'as, 'h) as_config \<Rightarrow> 'id \<Rightarrow> H160 \<Rightarrow> ('as, 'h, U256) as_evm" where
  "as_balance_of cfg asset_id who =
     evm_bind (on_handle (record_db_read (as_api cfg) (87 + Extra_max_encoded_len cfg)))
     (\<lambda>_. evm_get (\<lambda>s. ucast (asset_balance cfg (assets s) asset_id (as_into_account_id cfg who))))"

definition as_allowance :: "('acct, 'id, 'as, 'h) as_config \<Rightarrow> 'id \<Rightarrow> H160 \<Rightarrow> H160 \<Rightarrow> ('as, 'h, U256) as_evm" where
  "as_allowance cfg asset_id owner spender =
     evm_bind (on_handle (record_db_read (as_api cfg) 136))
     (\<lambda>_. evm_get (\<lambda>s. ucast (asset_allowance cfg (assets s) asset_id
            (as_into_account_id cfg owner) (as_into_account_id cfg spender))))"

text \<open>
  \<^verbatim>\<open>approve_inner\<close>: the assets pallet adds an approval to an existing one, so an existing one is
  cancelled first. The amount saturates.
\<close>

definition approve_inner ::
    "('acct, 'id, 'as, 'h) as_config \<Rightarrow> 'id \<Rightarrow> H160 \<Rightarrow> H160 \<Rightarrow> U256 \<Rightarrow> ('as, 'h, unit) as_evm" where
  "approve_inner cfg asset_id owner spender value =
     (let owner = as_into_account_id cfg owner;
          spender = as_into_account_id cfg spender;
          amount = saturated_amount value
      in evm_bind (on_handle (record_db_read (as_api cfg) 136))
     (\<lambda>_. evm_bind (evm_get (\<lambda>s. asset_allowance cfg (assets s) asset_id owner spender))
     (\<lambda>previous. evm_bind (if previous \<noteq> 0 then dispatch_asset cfg owner (CancelApproval asset_id spender) 0
                           else evm_ret ())
     (\<lambda>_. dispatch_asset cfg owner (ApproveTransfer asset_id spender amount) 0))))"

definition as_approve ::
    "('acct, 'id, 'as, 'h) as_config \<Rightarrow> 'id \<Rightarrow> evm_context \<Rightarrow> H160 \<Rightarrow> U256 \<Rightarrow> ('as, 'h, bool) as_evm" where
  "as_approve cfg asset_id ctx spender value =
     evm_bind (on_handle (record_log_costs_manual (as_api cfg) 3 32))
     (\<lambda>_. evm_bind (approve_inner cfg asset_id (ctx_caller ctx) spender value)
     (\<lambda>_. evm_bind (on_handle (record_log (as_api cfg)
            (log3 (ctx_address ctx) (SELECTOR_LOG_APPROVAL (as_crypto cfg)) (ctx_caller ctx) spender
              (encode_event_data (as_crypto cfg) value))))
     (\<lambda>_. evm_ret True)))"

definition as_transfer ::
    "('acct, 'id, 'as, 'h) as_config \<Rightarrow> 'id \<Rightarrow> evm_context \<Rightarrow> H160 \<Rightarrow> U256 \<Rightarrow> ('as, 'h, bool) as_evm" where
  "as_transfer cfg asset_id ctx to value =
     evm_bind (on_handle (record_log_costs_manual (as_api cfg) 3 32))
     (\<lambda>_. evm_bind (evm_lift (in_field ''value'' (u256_to_amount value)))
     (\<lambda>amount. evm_bind (dispatch_asset cfg (as_into_account_id cfg (ctx_caller ctx))
            (TransferAsset asset_id (as_into_account_id cfg to) amount) SYSTEM_ACCOUNT_SIZE)
     (\<lambda>_. evm_bind (on_handle (record_log (as_api cfg)
            (log3 (ctx_address ctx) (SELECTOR_LOG_TRANSFER (as_crypto cfg)) (ctx_caller ctx) to
              (encode_event_data (as_crypto cfg) (ucast amount)))))
     (\<lambda>_. evm_ret True))))"

definition as_transfer_from ::
    "('acct, 'id, 'as, 'h) as_config \<Rightarrow> 'id \<Rightarrow> evm_context \<Rightarrow> H160 \<Rightarrow> H160 \<Rightarrow> U256 \<Rightarrow> ('as, 'h, bool) as_evm" where
  "as_transfer_from cfg asset_id ctx from to value =
     evm_bind (on_handle (record_log_costs_manual (as_api cfg) 3 32))
     (\<lambda>_. evm_bind (evm_lift (in_field ''value'' (u256_to_amount value)))
     (\<lambda>amount. let caller_acct = as_into_account_id cfg (ctx_caller ctx);
                   from_acct = as_into_account_id cfg from;
                   to_acct = as_into_account_id cfg to
          in evm_bind (if caller_acct \<noteq> from_acct
                       then dispatch_asset cfg caller_acct (TransferApproved asset_id from_acct to_acct amount)
                              SYSTEM_ACCOUNT_SIZE
                       else dispatch_asset cfg from_acct (TransferAsset asset_id to_acct amount) SYSTEM_ACCOUNT_SIZE)
     (\<lambda>_. evm_bind (on_handle (record_log (as_api cfg)
            (log3 (ctx_address ctx) (SELECTOR_LOG_TRANSFER (as_crypto cfg)) from to
              (encode_event_data (as_crypto cfg) (ucast amount)))))
     (\<lambda>_. evm_ret True))))"

text \<open>\<^verbatim>\<open>50 + (2 * StringLimit::get()) as usize\<close>, the product taken in \<^verbatim>\<open>u32\<close>.\<close>

definition metadata_size :: "('acct, 'id, 'as, 'h) as_config \<Rightarrow> nat" where
  "metadata_size cfg = 50 + unat (2 * StringLimit cfg)"

definition as_name :: "('acct, 'id, 'as, 'h) as_config \<Rightarrow> 'id \<Rightarrow> ('as, 'h, u8 list) as_evm" where
  "as_name cfg asset_id =
     evm_bind (on_handle (record_db_read (as_api cfg) (metadata_size cfg)))
     (\<lambda>_. evm_get (\<lambda>s. asset_name cfg (assets s) asset_id))"

definition as_symbol :: "('acct, 'id, 'as, 'h) as_config \<Rightarrow> 'id \<Rightarrow> ('as, 'h, u8 list) as_evm" where
  "as_symbol cfg asset_id =
     evm_bind (on_handle (record_db_read (as_api cfg) (metadata_size cfg)))
     (\<lambda>_. evm_get (\<lambda>s. asset_symbol cfg (assets s) asset_id))"

definition as_decimals :: "('acct, 'id, 'as, 'h) as_config \<Rightarrow> 'id \<Rightarrow> ('as, 'h, u8) as_evm" where
  "as_decimals cfg asset_id =
     evm_bind (on_handle (record_db_read (as_api cfg) (metadata_size cfg)))
     (\<lambda>_. evm_get (\<lambda>s. asset_decimals cfg (assets s) asset_id))"

text \<open>The four roles are read in the same way.\<close>

definition read_role ::
    "('acct, 'id, 'as, 'h) as_config \<Rightarrow> ('as \<Rightarrow> 'acct option) \<Rightarrow> string \<Rightarrow> ('as, 'h, H160) as_evm" where
  "read_role cfg role message =
     evm_bind (on_handle (record_db_read (as_api cfg) 175))
     (\<lambda>_. evm_bind (evm_get (\<lambda>s. role (assets s)))
     (\<lambda>found. evm_lift (and_then (ok_or (Revert message) found) (\<lambda>a. Ok (as_into_h160 cfg a)))))"

definition as_owner :: "('acct, 'id, 'as, 'h) as_config \<Rightarrow> 'id \<Rightarrow> ('as, 'h, H160) as_evm" where
  "as_owner cfg asset_id = read_role cfg (\<lambda>a. asset_owner cfg a asset_id) ''No owner set''"

definition as_issuer :: "('acct, 'id, 'as, 'h) as_config \<Rightarrow> 'id \<Rightarrow> ('as, 'h, H160) as_evm" where
  "as_issuer cfg asset_id = read_role cfg (\<lambda>a. asset_issuer cfg a asset_id) ''No issuer set''"

definition as_admin :: "('acct, 'id, 'as, 'h) as_config \<Rightarrow> 'id \<Rightarrow> ('as, 'h, H160) as_evm" where
  "as_admin cfg asset_id = read_role cfg (\<lambda>a. asset_admin cfg a asset_id) ''No admin set''"

definition as_freezer :: "('acct, 'id, 'as, 'h) as_config \<Rightarrow> 'id \<Rightarrow> ('as, 'h, H160) as_evm" where
  "as_freezer cfg asset_id = read_role cfg (\<lambda>a. asset_freezer cfg a asset_id) ''No freezer set''"

section \<open>Signed approvals (\<^verbatim>\<open>eip2612.rs\<close>)\<close>

text \<open>
  The digest is bound to the address of the asset's contract (\<open>address\<close>, the code address of the
  call) and to the asset's name at the time, or a name made from its id.
\<close>

definition as_compute_domain_separator ::
    "('acct, 'id, 'as, 'h) as_config \<Rightarrow> 'as \<Rightarrow> H160 \<Rightarrow> 'id \<Rightarrow> H256" where
  "as_compute_domain_separator cfg a address asset_id =
     (let stored_name = asset_name cfg a asset_id;
          name = (if stored_name = [] then string_bytes ''Unnamed XC20 #'' @ string_bytes (id_to_string cfg asset_id)
                  else stored_name);
          name = keccak_256 (as_crypto cfg) name;
          version = keccak_256 (as_crypto cfg) (string_bytes ''1'');
          chain_id = ucast (as_ChainId cfg);
          domain_separator_inner = encode_arguments (as_crypto cfg)
            [ArgH256 (PERMIT_DOMAIN (as_crypto cfg)), ArgH256 name, ArgH256 version, ArgU256 chain_id, ArgAddress address]
      in keccak_256 (as_crypto cfg) domain_separator_inner)"

definition as_generate_permit ::
    "('acct, 'id, 'as, 'h) as_config \<Rightarrow> 'as \<Rightarrow> H160 \<Rightarrow> 'id \<Rightarrow> H160 \<Rightarrow> H160 \<Rightarrow> U256 \<Rightarrow> U256 \<Rightarrow> U256 \<Rightarrow> H256" where
  "as_generate_permit cfg a address asset_id owner spender value nonce deadline =
     (let domain_separator = as_compute_domain_separator cfg a address asset_id;
          permit_content = encode_arguments (as_crypto cfg)
            [ArgH256 (PERMIT_TYPEHASH (as_crypto cfg)), ArgAddress owner, ArgAddress spender, ArgU256 value,
             ArgU256 nonce, ArgU256 deadline];
          permit_content = keccak_256 (as_crypto cfg) permit_content;
          pre_digest = [0x19, 0x01] @ be_bytes32 domain_separator @ be_bytes32 permit_content
      in keccak_256 (as_crypto cfg) pre_digest)"

definition as_permit ::
    "('acct, 'id, 'as, 'h) as_config \<Rightarrow> 'id \<Rightarrow> H160 \<Rightarrow> H160 \<Rightarrow> H160 \<Rightarrow> U256 \<Rightarrow> U256 \<Rightarrow> u8 \<Rightarrow> H256 \<Rightarrow> H256
      \<Rightarrow> ('as, 'h, unit) as_evm" where
  "as_permit cfg asset_id address owner spender value deadline v r s =
     evm_bind (on_handle (record_db_read (as_api cfg) 104))
     (\<lambda>_. let timestamp = (ucast (as_timestamp_now cfg div 1000) :: U256)
          in evm_bind (evm_ensure (deadline \<ge> timestamp) ''Permit expired'')
     (\<lambda>_. evm_bind (evm_get (\<lambda>st. as_nonces st address owner))
     (\<lambda>nonce. evm_bind (evm_get (\<lambda>st. as_generate_permit cfg (assets st) address asset_id owner spender value nonce deadline))
     (\<lambda>permit. evm_bind (evm_lift (ok_or (Revert ''Invalid permit'') (recover_signer (as_crypto cfg) v r s permit)))
     (\<lambda>signer. evm_bind (evm_ensure (signer \<noteq> 0 \<and> signer = owner) ''Invalid permit'')
     (\<lambda>_. evm_bind (next_nonce nonce)
     (\<lambda>new_nonce. evm_bind (evm_modify (\<lambda>st. st\<lparr>as_nonces :=
            (as_nonces st)(address := (as_nonces st address)(owner := new_nonce))\<rparr>))
     (\<lambda>_. evm_bind (approve_inner cfg asset_id owner spender value)
     (\<lambda>_. on_handle (record_log (as_api cfg)
            (log3 address (SELECTOR_LOG_APPROVAL (as_crypto cfg)) owner spender
              (encode_event_data (as_crypto cfg) value))))))))))))"

definition as_get_nonces :: "('acct, 'id, 'as, 'h) as_config \<Rightarrow> H160 \<Rightarrow> H160 \<Rightarrow> ('as, 'h, U256) as_evm" where
  "as_get_nonces cfg code_address owner =
     evm_bind (on_handle (record_db_read (as_api cfg) 104)) (\<lambda>_. evm_get (\<lambda>s. as_nonces s code_address owner))"

definition as_domain_separator :: "('acct, 'id, 'as, 'h) as_config \<Rightarrow> H160 \<Rightarrow> 'id \<Rightarrow> ('as, 'h, H256) as_evm" where
  "as_domain_separator cfg code_address asset_id =
     evm_bind (on_handle (record_db_read (as_api cfg) (metadata_size cfg)))
     (\<lambda>_. evm_get (\<lambda>s. as_compute_domain_separator cfg (assets s) code_address asset_id))"

text \<open>The entry points of the precompile for the signed approvals.\<close>

definition as_eip2612_permit ::
    "('acct, 'id, 'as, 'h) as_config \<Rightarrow> 'id \<Rightarrow> H160 \<Rightarrow> H160 \<Rightarrow> H160 \<Rightarrow> U256 \<Rightarrow> U256 \<Rightarrow> u8 \<Rightarrow> H256 \<Rightarrow> H256
      \<Rightarrow> ('as, 'h, unit) as_evm" where
  "as_eip2612_permit cfg asset_id address owner spender value deadline v r s =
     as_permit cfg asset_id address owner spender value deadline v r s"

definition as_eip2612_nonces :: "('acct, 'id, 'as, 'h) as_config \<Rightarrow> H160 \<Rightarrow> H160 \<Rightarrow> ('as, 'h, U256) as_evm" where
  "as_eip2612_nonces cfg code_address owner = as_get_nonces cfg code_address owner"

definition as_eip2612_domain_separator :: "('acct, 'id, 'as, 'h) as_config \<Rightarrow> H160 \<Rightarrow> 'id \<Rightarrow> ('as, 'h, H256) as_evm" where
  "as_eip2612_domain_separator cfg code_address asset_id = as_domain_separator cfg code_address asset_id"

section \<open>What the assets pallet promises\<close>

text \<open>
  The approvals of the assets pallet: an approval is added to an existing one, cancelling removes it,
  a transfer by a delegate is paid from the approval it has and reduces it, and a transfer by the
  holder does not touch approvals. \<open>approvals_after\<close> is \<open>None\<close> where the pallet refuses.
\<close>

type_synonym ('id, 'acct) approvals = "'id \<Rightarrow> 'acct \<Rightarrow> 'acct \<Rightarrow> u128"

definition set_approval :: "'id \<Rightarrow> 'acct \<Rightarrow> 'acct \<Rightarrow> u128 \<Rightarrow> ('id, 'acct) approvals \<Rightarrow> ('id, 'acct) approvals" where
  "set_approval i ow sp n A = A(i := (A i)(ow := (A i ow)(sp := n)))"

lemma set_approval_apply [simp]:
  "set_approval i ow sp n A j x y = (if j = i \<and> x = ow \<and> y = sp then n else A j x y)"
  by (simp add: set_approval_def)

lemma set_approval_twice [simp]: "set_approval i ow sp n (set_approval i ow sp m A) = set_approval i ow sp n A"
  by (simp add: fun_eq_iff)

fun approvals_after :: "'acct \<Rightarrow> ('id, 'acct) assets_call \<Rightarrow> ('id, 'acct) approvals \<Rightarrow> ('id, 'acct) approvals option" where
  "approvals_after origin (CancelApproval i delegate) A = Some (set_approval i origin delegate 0 A)"
| "approvals_after origin (ApproveTransfer i delegate n) A =
     Some (set_approval i origin delegate (saturating_add (A i origin delegate) n) A)"
| "approvals_after origin (TransferAsset i target n) A = Some A"
| "approvals_after origin (TransferApproved i ow target n) A =
     (case checked_sub (A i ow origin) n of
        None \<Rightarrow> None
      | Some rest \<Rightarrow> Some (set_approval i ow origin rest A))"

definition assets_pallet_ok :: "('acct, 'id, 'as, 'h) as_config \<Rightarrow> bool" where
  "assets_pallet_ok cfg \<longleftrightarrow> (\<forall>origin call g h a h' a'. as_try_dispatch cfg origin call g (h, a) = Ok (h', a') \<longrightarrow>
     approvals_after origin call (asset_allowance cfg a) = Some (asset_allowance cfg a'))"

lemma assets_pallet_okD:
  "assets_pallet_ok cfg \<Longrightarrow> as_try_dispatch cfg origin call g (h, a) = Ok (h', a') \<Longrightarrow>
     approvals_after origin call (asset_allowance cfg a) = Some (asset_allowance cfg a')"
  unfolding assets_pallet_ok_def by blast

lemma saturating_add_0 [simp]: "saturating_add 0 n = (n :: 'a::len word)"
  by (simp add: saturating_add_def)

section \<open>What a successful call does to the approvals and nonces\<close>

lemma dispatch_asset_effect:
  assumes "assets_pallet_ok cfg" "dispatch_asset cfg origin call g w = Ok (u, w')"
  shows "as_nonces (wstate w') = as_nonces (wstate w) \<and>
     approvals_after origin call (asset_allowance cfg (assets (wstate w))) = Some (asset_allowance cfg (assets (wstate w')))"
  using assms by (auto simp: dispatch_asset_Ok_iff dest: assets_pallet_okD)

lemma approve_inner_effect:
  assumes "assets_pallet_ok cfg" "approve_inner cfg i owner spender value w = Ok (u, w')"
  shows "as_nonces (wstate w') = as_nonces (wstate w) \<and>
     asset_allowance cfg (assets (wstate w')) =
       set_approval i (as_into_account_id cfg owner) (as_into_account_id cfg spender) (saturated_amount value)
         (asset_allowance cfg (assets (wstate w)))"
proof -
  let ?o = "as_into_account_id cfg owner" and ?d = "as_into_account_id cfg spender"
  let ?A = "\<lambda>w. asset_allowance cfg (assets (wstate w))"
  from assms(2) obtain h w1 where step:
      "(if ?A w i ?o ?d \<noteq> 0 then dispatch_asset cfg ?o (CancelApproval i ?d) 0 else evm_ret ())
         (w\<lparr>whandle := h\<rparr>) = Ok ((), w1)"
      "dispatch_asset cfg ?o (ApproveTransfer i ?d (saturated_amount value)) 0 w1 = Ok (u, w')"
    by (simp only: approve_inner_def Let_def evm_bind_Ok_iff on_handle_Ok_iff evm_get_Ok_iff) force
  have "as_nonces (wstate w1) = as_nonces (wstate w) \<and> ?A w1 = set_approval i ?o ?d 0 (?A w)"
  proof (cases "?A w i ?o ?d = 0")
    case True
    then have "set_approval i ?o ?d 0 (?A w) = ?A w" by (simp add: fun_eq_iff)
    with True step(1) show ?thesis by (simp add: evm_ret_def) force
  next
    case False
    with step(1) show ?thesis by (auto dest!: dispatch_asset_effect [OF assms(1)])
  qed
  with dispatch_asset_effect [OF assms(1) step(2)] show ?thesis by simp
qed

lemma as_approve_effect:
  assumes "assets_pallet_ok cfg" "as_approve cfg i ctx spender value w = Ok (r, w')"
  shows "as_nonces (wstate w') = as_nonces (wstate w) \<and>
     asset_allowance cfg (assets (wstate w')) =
       set_approval i (as_into_account_id cfg (ctx_caller ctx)) (as_into_account_id cfg spender) (saturated_amount value)
         (asset_allowance cfg (assets (wstate w)))"
  using assms(2) by (auto simp: as_approve_def evm_iff dest!: approve_inner_effect [OF assms(1)])

lemma as_transfer_effect:
  assumes "assets_pallet_ok cfg" "as_transfer cfg i ctx to value w = Ok (r, w')"
  shows "as_nonces (wstate w') = as_nonces (wstate w) \<and>
     asset_allowance cfg (assets (wstate w')) = asset_allowance cfg (assets (wstate w))"
  using assms(2)
  by (auto simp: as_transfer_def evm_iff dest!: dispatch_asset_effect [OF assms(1)])

lemma as_transfer_from_effect:
  assumes "assets_pallet_ok cfg" "as_transfer_from cfg i ctx from to value w = Ok (r, w')"
  defines "c \<equiv> as_into_account_id cfg (ctx_caller ctx)" and "f \<equiv> as_into_account_id cfg from"
  shows "as_nonces (wstate w') = as_nonces (wstate w) \<and> unat value < 2 ^ 128 \<and>
     (if c = f then asset_allowance cfg (assets (wstate w')) = asset_allowance cfg (assets (wstate w))
      else ucast value \<le> asset_allowance cfg (assets (wstate w)) i f c \<and>
        asset_allowance cfg (assets (wstate w')) =
          set_approval i f c (asset_allowance cfg (assets (wstate w)) i f c - ucast value)
            (asset_allowance cfg (assets (wstate w))))"
  using assms(2-)
  by (auto simp: as_transfer_from_def evm_iff Let_def u256_to_amount_Ok checked_sub_def
      split: if_splits dest!: dispatch_asset_effect [OF assms(1)])

lemma as_permit_Ok:
  assumes "as_permit cfg i address owner spender value deadline v r s w = Ok (u, w')"
  obtains h w1 where
    "recover_signer (as_crypto cfg) v r s (as_generate_permit cfg (assets (wstate w)) address i owner spender value
        (as_nonces (wstate w) address owner) deadline) = Some owner" "owner \<noteq> 0"
    "ucast (as_timestamp_now cfg div 1000) \<le> deadline" "as_nonces (wstate w) address owner \<noteq> - 1"
    "approve_inner cfg i owner spender value \<lparr>whandle = h, wstate = (wstate w)\<lparr>as_nonces := (as_nonces (wstate w))
        (address := (as_nonces (wstate w) address)(owner := as_nonces (wstate w) address owner + 1))\<rparr>\<rparr> = Ok ((), w1)"
    "wstate w' = wstate w1"
  using assms by (cases w) (auto simp: as_permit_def evm_iff Let_def)

lemma as_permit_effect:
  assumes "assets_pallet_ok cfg" "as_permit cfg i address owner spender value deadline v r s w = Ok (u, w')"
  shows "as_nonces (wstate w') = (as_nonces (wstate w))
        (address := (as_nonces (wstate w) address)(owner := as_nonces (wstate w) address owner + 1)) \<and>
     as_nonces (wstate w) address owner \<noteq> - 1 \<and>
     asset_allowance cfg (assets (wstate w')) =
       set_approval i (as_into_account_id cfg owner) (as_into_account_id cfg spender) (saturated_amount value)
         (asset_allowance cfg (assets (wstate w)))"
  using assms(2) by (rule as_permit_Ok) (auto dest!: approve_inner_effect [OF assms(1)])

section \<open>Runs\<close>

text \<open>
  Calls to the contracts of any assets by arbitrary callers. Each call has a handle of its own; a
  call that fails leaves the state as it was.
\<close>

record 'id as_permit_msg =
  ap_asset :: 'id
  ap_address :: H160
  ap_owner :: H160
  ap_spender :: H160
  ap_value :: U256
  ap_deadline :: U256
  ap_v :: u8
  ap_r :: H256
  ap_s :: H256

definition run_permit :: "('acct, 'id, 'as, 'h) as_config \<Rightarrow> 'id as_permit_msg \<Rightarrow> ('as, 'h, unit) as_evm" where
  "run_permit cfg p = as_permit cfg (ap_asset p) (ap_address p) (ap_owner p) (ap_spender p) (ap_value p)
     (ap_deadline p) (ap_v p) (ap_r p) (ap_s p)"

datatype 'id as_op =
    AsApprove 'id evm_context H160 U256
  | AsTransfer 'id evm_context H160 U256
  | AsTransferFrom 'id evm_context H160 H160 U256
  | AsPermit "'id as_permit_msg"

definition as_call :: "('acct, 'id, 'as, 'h) as_config \<Rightarrow> 'id as_op \<Rightarrow> ('as, 'h, unit) as_evm" where
  "as_call cfg op =
     (case op of
        AsApprove i ctx spender value \<Rightarrow> evm_bind (as_approve cfg i ctx spender value) (\<lambda>_. evm_ret ())
      | AsTransfer i ctx to value \<Rightarrow> evm_bind (as_transfer cfg i ctx to value) (\<lambda>_. evm_ret ())
      | AsTransferFrom i ctx from to value \<Rightarrow> evm_bind (as_transfer_from cfg i ctx from to value) (\<lambda>_. evm_ret ())
      | AsPermit p \<Rightarrow> run_permit cfg p)"

definition as_after :: "('acct, 'id, 'as, 'h) as_config \<Rightarrow> 'h \<times> 'id as_op \<Rightarrow> 'as as_state \<Rightarrow> 'as as_state" where
  "as_after cfg call s =
     (case as_call cfg (snd call) \<lparr>whandle = fst call, wstate = s\<rparr> of
        Ok (_, w) \<Rightarrow> wstate w
      | _ \<Rightarrow> s)"

text \<open>
  What one call grants to, and what it spends of, the allowance in the asset \<open>i\<close> that \<open>sp\<close> has from
  \<open>ow\<close>; a call that fails counts for nothing.
\<close>

definition as_granted :: "('acct, 'id, 'as, 'h) as_config \<Rightarrow> 'id \<times> 'acct \<times> 'acct \<Rightarrow> 'h \<times> 'id as_op
    \<Rightarrow> 'as as_state \<Rightarrow> nat" where
  "as_granted cfg k call s =
     (if is_ok (as_call cfg (snd call) \<lparr>whandle = fst call, wstate = s\<rparr>) then
        (case snd call of
           AsApprove i ctx spender value \<Rightarrow>
             if k = (i, as_into_account_id cfg (ctx_caller ctx), as_into_account_id cfg spender)
             then unat (saturated_amount value) else 0
         | AsPermit p \<Rightarrow>
             if k = (ap_asset p, as_into_account_id cfg (ap_owner p), as_into_account_id cfg (ap_spender p))
             then unat (saturated_amount (ap_value p)) else 0
         | _ \<Rightarrow> 0)
      else 0)"

definition as_spent :: "('acct, 'id, 'as, 'h) as_config \<Rightarrow> 'id \<times> 'acct \<times> 'acct \<Rightarrow> 'h \<times> 'id as_op
    \<Rightarrow> 'as as_state \<Rightarrow> nat" where
  "as_spent cfg k call s =
     (if is_ok (as_call cfg (snd call) \<lparr>whandle = fst call, wstate = s\<rparr>) then
        (case snd call of
           AsTransferFrom i ctx from to value \<Rightarrow>
             if k = (i, as_into_account_id cfg from, as_into_account_id cfg (ctx_caller ctx)) then unat value else 0
         | _ \<Rightarrow> 0)
      else 0)"

definition as_allowed :: "('acct, 'id, 'as, 'h) as_config \<Rightarrow> 'as as_state \<Rightarrow> 'id \<times> 'acct \<times> 'acct \<Rightarrow> nat" where
  "as_allowed cfg s k = (case k of (i, ow, sp) \<Rightarrow> unat (asset_allowance cfg (assets s) i ow sp))"

lemma as_call_allowed:
  fixes s :: "'as as_state"
  assumes ok: "assets_pallet_ok cfg" and "k = (i, ow, sp)" "ow \<noteq> sp"
    and call: "as_call cfg op \<lparr>whandle = h, wstate = s\<rparr> = Ok (u, w)"
  shows "as_allowed cfg (wstate w) k + as_spent cfg k (h, op) s \<le> as_allowed cfg s k + as_granted cfg k (h, op) s"
proof (cases op)
  case (AsApprove j ctx spender val)
  then have "as_granted cfg k (h, op) s =
      (if k = (j, as_into_account_id cfg (ctx_caller ctx), as_into_account_id cfg spender)
       then unat (saturated_amount val) else 0)" "as_spent cfg k (h, op) s = 0"
    using call by (simp_all add: as_granted_def as_spent_def)
  moreover have "asset_allowance cfg (assets (wstate w)) =
      set_approval j (as_into_account_id cfg (ctx_caller ctx)) (as_into_account_id cfg spender) (saturated_amount val)
        (asset_allowance cfg (assets s))"
    using call AsApprove by (auto simp: as_call_def evm_iff dest!: as_approve_effect [OF ok])
  ultimately show ?thesis using assms(2) by (auto simp: as_allowed_def)
next
  case (AsTransfer j ctx to val)
  then show ?thesis using call assms(2)
    by (auto simp: as_call_def evm_iff as_spent_def as_granted_def as_allowed_def dest!: as_transfer_effect [OF ok])
next
  case (AsTransferFrom j ctx frm to val)
  then obtain r where tf: "as_transfer_from cfg j ctx frm to val \<lparr>whandle = h, wstate = s\<rparr> = Ok (r, w)"
    using call by (auto simp: as_call_def evm_iff)
  let ?c = "as_into_account_id cfg (ctx_caller ctx)" and ?f = "as_into_account_id cfg frm"
  have spent: "as_spent cfg k (h, op) s = (if k = (j, ?f, ?c) then unat val else 0)"
    using call AsTransferFrom by (simp add: as_spent_def)
  note eff = as_transfer_from_effect [OF ok tf]
  have v: "unat (ucast val :: u128) = unat val" using eff by (intro unat_ucast_128) simp
  show ?thesis
  proof (cases "?c = ?f")
    case True
    then show ?thesis using eff spent assms(2,3) by (auto simp: as_allowed_def)
  next
    case False
    let ?a = "asset_allowance cfg (assets s) j ?f ?c"
    have le: "ucast val \<le> ?a" and new: "asset_allowance cfg (assets (wstate w)) =
        set_approval j ?f ?c (?a - ucast val) (asset_allowance cfg (assets s))"
      using eff False by simp_all
    have "unat (?a - ucast val) = unat ?a - unat val" "unat val \<le> unat ?a"
      using le v by (simp_all add: unat_diff_no_wrap word_le_nat_alt)
    then show ?thesis using new spent assms(2) by (auto simp: as_allowed_def)
  qed
next
  case (AsPermit p)
  then have "as_granted cfg k (h, op) s =
      (if k = (ap_asset p, as_into_account_id cfg (ap_owner p), as_into_account_id cfg (ap_spender p))
       then unat (saturated_amount (ap_value p)) else 0)" "as_spent cfg k (h, op) s = 0"
    using call by (simp_all add: as_granted_def as_spent_def)
  moreover have "asset_allowance cfg (assets (wstate w)) =
      set_approval (ap_asset p) (as_into_account_id cfg (ap_owner p)) (as_into_account_id cfg (ap_spender p))
        (saturated_amount (ap_value p)) (asset_allowance cfg (assets s))"
    using call AsPermit by (auto simp: as_call_def run_permit_def dest!: as_permit_effect [OF ok])
  ultimately show ?thesis using assms(2) by (auto simp: as_allowed_def)
qed

interpretation asset_allowances: allowance_ledger as_after as_granted as_spent as_allowed
  "\<lambda>cfg (i, ow, sp). assets_pallet_ok cfg \<and> ow \<noteq> sp"
proof
  fix cfg :: "('acct, 'id, 'as, 'h) as_config" and k :: "'id \<times> 'acct \<times> 'acct" and call s
  assume sane: "case k of (i, ow, sp) \<Rightarrow> assets_pallet_ok cfg \<and> ow \<noteq> sp"
  obtain i ow sp where k: "k = (i, ow, sp)" by (cases k)
  show "as_allowed cfg (as_after cfg call s) k + as_spent cfg k call s
      \<le> as_allowed cfg s k + as_granted cfg k call s"
  proof (cases "as_call cfg (snd call) \<lparr>whandle = fst call, wstate = s\<rparr>")
    case (Ok r)
    obtain u w where r: "r = (u, w)" by (cases r)
    have "assets_pallet_ok cfg" "ow \<noteq> sp" using sane k by simp_all
    from as_call_allowed [OF this(1) k this(2) Ok [unfolded r]] Ok r show ?thesis by (simp add: as_after_def)
  qed (simp_all add: as_after_def as_spent_def as_granted_def)
qed

lemma as_call_nonces:
  assumes "assets_pallet_ok cfg" "as_call cfg op \<lparr>whandle = h, wstate = s\<rparr> = Ok (u, w)"
  shows "unat (as_nonces s a b) \<le> unat (as_nonces (wstate w) a b)"
  using assms(2)
  by (cases op)
     (auto simp: as_call_def run_permit_def evm_iff unat_next_nonce dest!: as_approve_effect [OF assms(1)]
       as_transfer_effect [OF assms(1)] as_transfer_from_effect [OF assms(1)] as_permit_effect [OF assms(1)])

definition run_assets :: "('acct, 'id, 'as, 'h) as_config \<Rightarrow> ('h \<times> 'id as_op) list \<Rightarrow> 'as as_state \<Rightarrow> 'as as_state" where
  "run_assets cfg calls s = fold (as_after cfg) calls s"

lemma run_assets_nonces:
  assumes "assets_pallet_ok cfg"
  shows "unat (as_nonces s a b) \<le> unat (as_nonces (run_assets cfg calls s) a b)"
proof (induction calls arbitrary: s)
  case (Cons call calls)
  have "unat (as_nonces s a b) \<le> unat (as_nonces (as_after cfg call s) a b)"
    by (auto simp: as_after_def dest: as_call_nonces [OF assms] split: result.splits)
  also have "\<dots> \<le> unat (as_nonces (run_assets cfg (call # calls) s) a b)"
    using Cons.IH by (simp add: run_assets_def)
  finally show ?case .
qed (simp add: run_assets_def)

section \<open>Permits as a nonce-guarded scheme\<close>

definition accept_as_permit :: "('acct, 'id, 'as, 'h) as_config \<Rightarrow> 'id as_permit_msg
    \<Rightarrow> ('h, 'as as_state) world \<Rightarrow> ('h, 'as as_state) world \<Rightarrow> bool" where
  "accept_as_permit cfg p w w' \<longleftrightarrow> run_permit cfg p w = Ok ((), w')"

definition as_permit_nonce :: "'as as_state \<Rightarrow> 'id as_permit_msg \<Rightarrow> U256" where
  "as_permit_nonce s p = as_nonces s (ap_address p) (ap_owner p)"

text \<open>The digest a permit must be signed for in a given state: it depends on its nonce there.\<close>

definition as_permit_digest :: "('acct, 'id, 'as, 'h) as_config \<Rightarrow> 'id as_permit_msg \<Rightarrow> 'as as_state \<Rightarrow> H256" where
  "as_permit_digest cfg p s = as_generate_permit cfg (assets s) (ap_address p) (ap_asset p) (ap_owner p) (ap_spender p)
     (ap_value p) (as_permit_nonce s p) (ap_deadline p)"

definition as_permit_signer :: "('acct, 'id, 'as, 'h) as_config \<Rightarrow> 'id as_permit_msg \<Rightarrow> H256 \<Rightarrow> H160 option" where
  "as_permit_signer cfg p digest = recover_signer (as_crypto cfg) (ap_v p) (ap_r p) (ap_s p) digest"

interpretation asset_permits: permit_scheme accept_as_permit "\<lambda>w p. as_permit_nonce (wstate w) p" "\<lambda>p. p" ap_owner
  "\<lambda>cfg p w. as_permit_digest cfg p (wstate w)" as_permit_signer assets_pallet_ok
proof
  show "as_permit_signer c p (as_permit_digest c p (wstate w)) = Some (ap_owner p)"
    if "accept_as_permit c p w w'" for c :: "('acct, 'id, 'as, 'h) as_config" and p w w'
    using that unfolding accept_as_permit_def run_permit_def
    by (rule as_permit_Ok) (simp add: as_permit_signer_def as_permit_digest_def as_permit_nonce_def)
  show "unat (as_permit_nonce (wstate w) p) < unat (as_permit_nonce (wstate w') p)"
    if "assets_pallet_ok c" "accept_as_permit c p w w'" for c :: "('acct, 'id, 'as, 'h) as_config" and p w w'
    using as_permit_effect [OF that(1) that(2) [unfolded accept_as_permit_def run_permit_def]]
    by (simp add: as_permit_nonce_def unat_next_nonce)
qed

section \<open>Properties\<close>

lemma unat_ucast_256: "unat (ucast (n :: u128) :: U256) = unat n"
proof -
  have "unat n < 2 ^ 128" using unsigned_less [of n] by simp
  then have "unat n < 2 ^ 256" by (rule less_le_trans) simp
  then show ?thesis by (simp add: unsigned_ucast_eq take_bit_nat_eq_self)
qed

lemma unat_max_128: "unat (- 1 :: u128) = 2 ^ 128 - 1"
  by (simp add: unsigned_minus_1_eq_mask mask_eq_exp_minus_1)

text \<open>
  An approval replaces the one before, although the assets pallet adds up approvals: after
  \<open>approve\<close> the allowance of the spender is the value, or the largest balance if the value does not
  fit, whatever it was; every other allowance, of this asset and of others, is unchanged.
\<close>

theorem approve_replaces_allowance:
  assumes "assets_pallet_ok cfg" "as_approve cfg i ctx spender value w = Ok (r, w')"
    and "as_allowance cfg i (ctx_caller ctx) spender w' = Ok (amount, w'')"
  shows "unat amount = min (unat value) (2 ^ 128 - 1) \<and>
     ((j, x, y) \<noteq> (i, as_into_account_id cfg (ctx_caller ctx), as_into_account_id cfg spender) \<longrightarrow>
        asset_allowance cfg (assets (wstate w')) j x y = asset_allowance cfg (assets (wstate w)) j x y)"
proof -
  note eff = as_approve_effect [OF assms(1,2)]
  have "amount = ucast (saturated_amount value)"
    using assms(3) eff by (auto simp: as_allowance_def evm_iff)
  then have "unat amount = unat (saturated_amount value)" by (simp add: unat_ucast_256)
  moreover have "unat (saturated_amount value) = min (unat value) (2 ^ 128 - 1)"
    by (auto simp: saturated_amount_def u256_to_amount_def unat_ucast_128 unat_max_128 min_def)
  ultimately show ?thesis using eff by auto
qed


text \<open>
  A signed approval for an asset is used up once it has been accepted: whatever is called
  afterwards, on whatever asset, it is never accepted again, if its digests in the two states differ
  when its nonces do and a signature is valid for one digest only.
\<close>

theorem asset_permit_not_replayable:
  assumes "assets_pallet_ok cfg" "accept_as_permit cfg p w w'"
    and "as_permit_nonce (wstate w) p \<noteq> as_permit_nonce (run_assets cfg calls (wstate w')) p \<Longrightarrow>
         as_permit_digest cfg p (wstate w) \<noteq> as_permit_digest cfg p (run_assets cfg calls (wstate w'))"
    and "\<And>d e. as_permit_signer cfg p d = Some (ap_owner p) \<Longrightarrow> as_permit_signer cfg p e = Some (ap_owner p) \<Longrightarrow> d = e"
  shows "\<not> accept_as_permit cfg p \<lparr>whandle = h, wstate = run_assets cfg calls (wstate w')\<rparr> u"
  by (rule asset_permits.no_replay [OF assms(1,2)])
     (use assms(3,4) run_assets_nonces [OF assms(1), of "wstate w'"] in \<open>auto simp: as_permit_nonce_def\<close>)

section \<open>Concrete runs\<close>

text \<open>An assets pallet that keeps approvals only, for concrete runs.\<close>

definition as_demo :: "H256 \<Rightarrow> (H160, nat, (nat, H160) approvals, gas_meter) as_config" where
  "as_demo signed_digest = \<lparr>as_api = gas_handle, as_crypto = demo_crypto_evm signed_digest,
     as_into_account_id = (\<lambda>a. a), as_into_h160 = (\<lambda>a. a),
     account_to_asset_id = (\<lambda>a. if a < 10 then Some ([], unat a) else None), db_read_gas_cost = 1,
     maybe_total_supply = (\<lambda>_ i. if i < 5 then Some 1000 else None), asset_total_issuance = (\<lambda>_ _. 1000),
     asset_balance = (\<lambda>_ _ _. 10), asset_allowance = (\<lambda>A. A), asset_name = (\<lambda>_ _. []), asset_symbol = (\<lambda>_ _. []),
     asset_decimals = (\<lambda>_ _. 0), asset_owner = (\<lambda>_ _. Some 1), asset_issuer = (\<lambda>_ _. None),
     asset_admin = (\<lambda>_ _. None), asset_freezer = (\<lambda>_ _. None), StringLimit = 50, Extra_max_encoded_len = 0,
     id_to_string = (\<lambda>_. ''1''),
     as_try_dispatch = (\<lambda>origin call _ (h, A). case approvals_after origin call A of
        None \<Rightarrow> Err (Revert ''Unapproved'') | Some A' \<Rightarrow> Ok (h, A')),
     as_ChainId = 1, as_timestamp_now = 0\<rparr>"

lemma as_demo_ok: "assets_pallet_ok (as_demo d)"
  by (auto simp: assets_pallet_ok_def as_demo_def split: option.splits)

definition as_demo_world :: "(gas_meter, (nat, H160) approvals as_state) world" where
  "as_demo_world = \<lparr>whandle = (100, []), wstate = \<lparr>as_nonces = (\<lambda>_ _. 0), assets = (\<lambda>_ _ _. 7)\<rparr>\<rparr>"

lemmas as_demo_simps = as_demo_def as_demo_world_def gas_handle_def charge_def checked_sub_def evm_defs
  as_approve_def approve_inner_def dispatch_asset_def as_allowance_def demo_context_def saturated_amount_def
  u256_to_amount_def Let_def

theorem approve_replaces_allowance_witness:
  "\<exists>w' w''. as_approve (as_demo 0) 3 (demo_context 5) 6 40 as_demo_world = Ok (True, w') \<and>
     as_allowance (as_demo 0) 3 5 6 w' = Ok (40, w'') \<and>
     unat (40 :: U256) = min (unat (40 :: U256)) (2 ^ 128 - 1)"
proof -
  obtain w' where w': "as_approve (as_demo 0) 3 (demo_context 5) 6 40 as_demo_world = Ok (True, w')"
    "asset_allowance (as_demo 0) (assets (wstate w')) 3 5 6 = 40" "\<exists>g l. whandle w' = (g, l) \<and> 1 \<le> g"
    by (simp add: as_demo_simps)
  then obtain w'' where w'': "as_allowance (as_demo 0) 3 (ctx_caller (demo_context 5)) 6 w' = Ok (40, w'')"
    by (auto simp: as_demo_simps)
  from approve_replaces_allowance [OF as_demo_ok w'(1) w'', of 0 0 0] w'(1) w'' show ?thesis
    by (auto simp: demo_context_def)
qed


text \<open>A permit over 40 units of an asset, with a signature that is valid for its digest at nonce 0.\<close>

definition as_demo_permit :: "nat as_permit_msg" where
  "as_demo_permit = \<lparr>ap_asset = 3, ap_address = 3, ap_owner = 27, ap_spender = 6, ap_value = 40, ap_deadline = 100,
     ap_v = 27, ap_r = 0, ap_s = 0\<rparr>"

lemma as_demo_digest:
  "as_permit_digest (as_demo d) as_demo_permit s =
    (let c = sum_list (map ucast [40, ucast (as_nonces s 3 27), 100 :: u8]) :: H256
     in 26 + sum_list (map ucast (be_bytes32 1)) + sum_list (map ucast (be_bytes32 c)))"
  by (simp add: as_permit_digest_def as_permit_nonce_def as_generate_permit_def as_compute_domain_separator_def
      as_demo_def demo_crypto_evm_def Let_def as_demo_permit_def)

definition as_signed :: "(H160, nat, (nat, H160) approvals, gas_meter) as_config" where
  "as_signed = as_demo (as_permit_digest (as_demo 0) as_demo_permit (wstate as_demo_world))"

lemma as_demo_accepted:
  "\<exists>w'. accept_as_permit as_signed as_demo_permit as_demo_world w' \<and> as_nonces (wstate w') 3 27 = 1"
proof -
  have "as_generate_permit as_signed (assets (wstate as_demo_world)) 3 3 27 6 40 0 100
      = as_permit_digest (as_demo 0) as_demo_permit (wstate as_demo_world)"
    by (simp add: as_permit_digest_def as_permit_nonce_def as_generate_permit_def as_compute_domain_separator_def
        as_demo_permit_def as_signed_def as_demo_def demo_crypto_evm_def PERMIT_TYPEHASH_def PERMIT_DOMAIN_def
        as_demo_world_def Let_def)
  then show ?thesis
    by (simp add: accept_as_permit_def run_permit_def as_permit_def as_demo_permit_def as_signed_def as_demo_simps
        next_nonce_def recover_signer_def demo_crypto_evm_def)
qed

theorem asset_permit_not_replayable_witness:
  "\<exists>w'. accept_as_permit as_signed as_demo_permit as_demo_world w' \<and>
     \<not> accept_as_permit as_signed as_demo_permit \<lparr>whandle = (100, []), wstate = run_assets as_signed [] (wstate w')\<rparr> w'"
proof -
  obtain w' where w': "accept_as_permit as_signed as_demo_permit as_demo_world w'" "as_nonces (wstate w') 3 27 = 1"
    using as_demo_accepted by blast
  have "as_nonces (wstate as_demo_world) 3 27 = 0" by (simp add: as_demo_world_def)
  then have "as_permit_digest as_signed as_demo_permit (wstate as_demo_world)
      \<noteq> as_permit_digest as_signed as_demo_permit (run_assets as_signed [] (wstate w'))"
    using w'(2) unfolding as_signed_def
    by (simp add: as_demo_digest run_assets_def be_bytes32_small Let_def sum_list_replicate)
  moreover have "as_permit_signer as_signed as_demo_permit d = Some a \<Longrightarrow>
      as_permit_signer as_signed as_demo_permit e = Some a \<Longrightarrow> d = e" for d e a
    by (auto simp: as_permit_signer_def recover_signer_def as_signed_def as_demo_def demo_crypto_evm_def split: if_splits)
  moreover have "assets_pallet_ok as_signed" unfolding as_signed_def by (rule as_demo_ok)
  ultimately have "\<not> accept_as_permit as_signed as_demo_permit
      \<lparr>whandle = (100, []), wstate = run_assets as_signed [] (wstate w')\<rparr> w'"
    by (intro asset_permit_not_replayable [OF _ w'(1)]) auto
  with w'(1) show ?thesis by blast
qed

end
