(* ===== verification/Call_Permit.thy ===== *)
theory Call_Permit
  imports Evm_Interfaces
begin

text \<open>
  \<^verbatim>\<open>precompiles/call-permit\<close>: calls signed by one account and dispatched by another, guarded by a
  nonce per signer. The subcall runs in the middle of the precompile and may call it again.
\<close>

section \<open>State and configuration\<close>

record 'ev cp_state =
  cp_nonces :: "H160 \<Rightarrow> U256"
  cp_evm :: 'ev

text \<open>
  \<open>sub_call\<close> is \<^verbatim>\<open>PrecompileHandle::call\<close>: target, transfer, input, gas limit, static flag and
  context; it returns the exit reason and the output, and may change the whole state.
\<close>

record ('ev, 'h) cp_config =
  cp_api :: "'h precompile_handle"
  cp_crypto :: evm_crypto
  cp_ChainId :: u64
  cp_timestamp_now :: u128
  cp_call_cost :: "U256 \<Rightarrow> u64"
  sub_call :: "H160 \<Rightarrow> evm_transfer option \<Rightarrow> u8 list \<Rightarrow> u64 option \<Rightarrow> bool \<Rightarrow> evm_context
    \<Rightarrow> ('h, 'ev cp_state) world \<Rightarrow> (exit_reason \<times> u8 list) \<times> ('h, 'ev cp_state) world"

definition CALL_PERMIT_TYPEHASH :: "evm_crypto \<Rightarrow> H256" where
  "CALL_PERMIT_TYPEHASH cr = keccak_256 cr (string_bytes
     (''CallPermit(address from,address to,uint256 value,bytes data,uint64 gaslimit'' @
      '',uint256 nonce,uint256 deadline)''))"

definition CALL_PERMIT_DOMAIN :: "evm_crypto \<Rightarrow> H256" where
  "CALL_PERMIT_DOMAIN cr = keccak_256 cr (string_bytes
     ''EIP712Domain(string name,string version,uint256 chainId,address verifyingContract)'')"

definition cp_compute_domain_separator :: "('ev, 'h) cp_config \<Rightarrow> H160 \<Rightarrow> H256" where
  "cp_compute_domain_separator cfg address =
     (let name = keccak_256 (cp_crypto cfg) (string_bytes ''Call Permit Precompile'');
          version = keccak_256 (cp_crypto cfg) (string_bytes ''1'');
          chain_id = ucast (cp_ChainId cfg);
          domain_separator_inner = encode_arguments (cp_crypto cfg)
            [ArgH256 (CALL_PERMIT_DOMAIN (cp_crypto cfg)), ArgH256 name, ArgH256 version, ArgU256 chain_id,
             ArgAddress address]
      in keccak_256 (cp_crypto cfg) domain_separator_inner)"

text \<open>The bytes that are hashed for a permit: its content and, with the hash of the content, the digest that is signed.\<close>

definition cp_permit_content ::
    "('ev, 'h) cp_config \<Rightarrow> H160 \<Rightarrow> H160 \<Rightarrow> U256 \<Rightarrow> u8 list \<Rightarrow> u64 \<Rightarrow> U256 \<Rightarrow> U256 \<Rightarrow> u8 list" where
  "cp_permit_content cfg from to value data gaslimit nonce deadline =
     encode_arguments (cp_crypto cfg)
       [ArgH256 (CALL_PERMIT_TYPEHASH (cp_crypto cfg)), ArgAddress from, ArgAddress to, ArgU256 value,
        ArgH256 (keccak_256 (cp_crypto cfg) data), ArgU64 gaslimit, ArgU256 nonce, ArgU256 deadline]"

definition cp_pre_digest :: "('ev, 'h) cp_config \<Rightarrow> H160 \<Rightarrow> H256 \<Rightarrow> u8 list" where
  "cp_pre_digest cfg address permit_content =
     [0x19, 0x01] @ be_bytes32 (cp_compute_domain_separator cfg address) @ be_bytes32 permit_content"

definition cp_generate_permit ::
    "('ev, 'h) cp_config \<Rightarrow> H160 \<Rightarrow> H160 \<Rightarrow> H160 \<Rightarrow> U256 \<Rightarrow> u8 list \<Rightarrow> u64 \<Rightarrow> U256 \<Rightarrow> U256 \<Rightarrow> H256" where
  "cp_generate_permit cfg address from to value data gaslimit nonce deadline =
     (let permit_content = cp_permit_content cfg from to value data gaslimit nonce deadline;
          permit_content = keccak_256 (cp_crypto cfg) permit_content
      in keccak_256 (cp_crypto cfg) (cp_pre_digest cfg address permit_content))"

definition dispatch_inherent_cost :: "('ev, 'h) cp_config \<Rightarrow> u64" where
  "dispatch_inherent_cost cfg = 3000 + db_write_gas_cost (cp_api cfg)"

text \<open>The exit of the subcall becomes the exit of the precompile.\<close>

definition forward_exit :: "exit_reason \<times> u8 list \<Rightarrow> (evm_failure, u8 list) result" where
  "forward_exit r =
     (case fst r of
        ExitError exit_status \<Rightarrow> Err (ExitErr exit_status)
      | ExitFatal exit_status \<Rightarrow> Err (ExitFatalErr exit_status)
      | ExitRevert \<Rightarrow> Err (RevertOutput (snd r))
      | ExitSucceed \<Rightarrow> Ok (snd r))"

definition dispatch ::
    "('ev, 'h) cp_config \<Rightarrow> evm_context \<Rightarrow> H160 \<Rightarrow> H160 \<Rightarrow> U256 \<Rightarrow> u8 list \<Rightarrow> u64 \<Rightarrow> U256 \<Rightarrow> u8 \<Rightarrow> H256 \<Rightarrow> H256
      \<Rightarrow> (('h, 'ev cp_state) world, u8 list) evm" where
  "dispatch cfg ctx from to value data gas_limit deadline v r s =
     evm_bind (on_handle (record_db_read (cp_api cfg) 8))
     (\<lambda>_. evm_bind (on_handle (record_db_read (cp_api cfg) 104))
     (\<lambda>_. evm_bind (on_handle (record_cost (cp_api cfg) (dispatch_inherent_cost cfg)))
     (\<lambda>_. let call_cost = cp_call_cost cfg value
          in evm_bind (evm_lift (ok_or (Revert ''Call require too much gas (uint64 overflow)'')
                (checked_add gas_limit call_cost)))
     (\<lambda>total_cost. evm_bind (\<lambda>w. evm_ensure (\<not> total_cost > remaining_gas (cp_api cfg) (whandle w))
                ''Gaslimit is too low to dispatch provided call'' w)
     (\<lambda>_. let timestamp = (ucast (cp_timestamp_now cfg div 1000) :: U256)
          in evm_bind (evm_ensure (deadline \<ge> timestamp) ''Permit expired'')
     (\<lambda>_. evm_bind (evm_get (\<lambda>st. cp_nonces st from))
     (\<lambda>nonce. let permit = cp_generate_permit cfg (ctx_address ctx) from to value data gas_limit nonce deadline
          in evm_bind (evm_lift (ok_or (Revert ''Invalid permit'') (recover_signer (cp_crypto cfg) v r s permit)))
     (\<lambda>signer. evm_bind (evm_ensure (signer \<noteq> 0 \<and> signer = from) ''Invalid permit'')
     (\<lambda>_. evm_bind (next_nonce nonce)
     (\<lambda>new_nonce. evm_bind (evm_modify (\<lambda>st. st\<lparr>cp_nonces := (cp_nonces st)(from := new_nonce)\<rparr>))
     (\<lambda>_. let sub_context = \<lparr>ctx_address = to, ctx_caller = from, ctx_apparent_value = value\<rparr>;
              transfer = (if value = 0 then None
                else Some \<lparr>transfer_source = from, transfer_target = to, transfer_value = value\<rparr>)
          in evm_bind (\<lambda>w. Ok (sub_call cfg to transfer data (Some gas_limit) False sub_context w))
     (\<lambda>exit. evm_lift (forward_exit exit)))))))))))))"

definition cp_get_nonces :: "('ev, 'h) cp_config \<Rightarrow> H160 \<Rightarrow> (('h, 'ev cp_state) world, U256) evm" where
  "cp_get_nonces cfg owner =
     evm_bind (on_handle (record_db_read (cp_api cfg) 104)) (\<lambda>_. evm_get (\<lambda>st. cp_nonces st owner))"

definition cp_domain_separator :: "('ev, 'h) cp_config \<Rightarrow> evm_context \<Rightarrow> (('h, 'ev cp_state) world, H256) evm" where
  "cp_domain_separator cfg ctx =
     evm_bind (on_handle (record_db_read (cp_api cfg) 8))
     (\<lambda>_. evm_ret (cp_compute_domain_separator cfg (ctx_address ctx)))"

section \<open>Permits\<close>

record call_permit =
  cl_context :: evm_context
  cl_from :: H160
  cl_to :: H160
  cl_value :: U256
  cl_data :: "u8 list"
  cl_gas_limit :: u64
  cl_deadline :: U256
  cl_v :: u8
  cl_r :: H256
  cl_s :: H256

definition dispatch_permit :: "('ev, 'h) cp_config \<Rightarrow> call_permit \<Rightarrow> (('h, 'ev cp_state) world, u8 list) evm" where
  "dispatch_permit cfg p =
     dispatch cfg (cl_context p) (cl_from p) (cl_to p) (cl_value p) (cl_data p) (cl_gas_limit p) (cl_deadline p)
       (cl_v p) (cl_r p) (cl_s p)"

definition call_digest :: "('ev, 'h) cp_config \<Rightarrow> call_permit \<Rightarrow> U256 \<Rightarrow> H256" where
  "call_digest cfg p nonce =
     cp_generate_permit cfg (ctx_address (cl_context p)) (cl_from p) (cl_to p) (cl_value p) (cl_data p)
       (cl_gas_limit p) nonce (cl_deadline p)"

text \<open>The byte strings that are hashed for the digest of a permit at a nonce.\<close>

definition call_content :: "('ev, 'h) cp_config \<Rightarrow> call_permit \<Rightarrow> U256 \<Rightarrow> u8 list" where
  "call_content cfg p nonce =
     cp_permit_content cfg (cl_from p) (cl_to p) (cl_value p) (cl_data p) (cl_gas_limit p) nonce (cl_deadline p)"

definition call_preimages :: "('ev, 'h) cp_config \<Rightarrow> call_permit \<Rightarrow> U256 \<Rightarrow> u8 list set" where
  "call_preimages cfg p nonce =
     {call_content cfg p nonce,
      cp_pre_digest cfg (ctx_address (cl_context p)) (keccak_256 (cp_crypto cfg) (call_content cfg p nonce))}"

text \<open>The digest depends on the nonce, because the nonce is part of the content.\<close>

lemma call_digest_nonce:
  assumes "abi_ok (cp_crypto cfg)" "no_collision (cp_crypto cfg) (call_preimages cfg p n \<union> call_preimages cfg p m)"
    and "call_digest cfg p n = call_digest cfg p m"
  shows "n = m"
proof -
  let ?h = "keccak_256 (cp_crypto cfg)" and ?pre = "cp_pre_digest cfg (ctx_address (cl_context p))"
  have inj: "inj_on ?h (call_preimages cfg p n \<union> call_preimages cfg p m)" using assms(2) by (simp add: no_collision_def)
  have "?h (?pre (?h (call_content cfg p n))) = ?h (?pre (?h (call_content cfg p m)))"
    using assms(3) by (simp add: call_digest_def cp_generate_permit_def call_content_def Let_def)
  then have "?pre (?h (call_content cfg p n)) = ?pre (?h (call_content cfg p m))"
    by (rule inj_onD [OF inj]) (simp_all add: call_preimages_def)
  then have "?h (call_content cfg p n) = ?h (call_content cfg p m)" by (simp add: cp_pre_digest_def)
  then have "call_content cfg p n = call_content cfg p m" by (rule inj_onD [OF inj]) (simp_all add: call_preimages_def)
  then have "[ArgH256 (CALL_PERMIT_TYPEHASH (cp_crypto cfg)), ArgAddress (cl_from p), ArgAddress (cl_to p), ArgU256 (cl_value p),
        ArgH256 (?h (cl_data p)), ArgU64 (cl_gas_limit p), ArgU256 n, ArgU256 (cl_deadline p)]
      = [ArgH256 (CALL_PERMIT_TYPEHASH (cp_crypto cfg)), ArgAddress (cl_from p), ArgAddress (cl_to p), ArgU256 (cl_value p),
        ArgH256 (?h (cl_data p)), ArgU64 (cl_gas_limit p), ArgU256 m, ArgU256 (cl_deadline p)]"
    unfolding call_content_def cp_permit_content_def by (intro assms(1) [unfolded abi_ok_def, rule_format]) simp_all
  then show ?thesis by simp
qed

definition call_signer :: "('ev, 'h) cp_config \<Rightarrow> call_permit \<Rightarrow> H256 \<Rightarrow> H160 option" where
  "call_signer cfg p digest = recover_signer (cp_crypto cfg) (cl_v p) (cl_r p) (cl_s p) digest"

text \<open>The call that the signer signed.\<close>

definition signed_call :: "('ev, 'h) cp_config \<Rightarrow> call_permit \<Rightarrow> ('h, 'ev cp_state) world
    \<Rightarrow> (exit_reason \<times> u8 list) \<times> ('h, 'ev cp_state) world" where
  "signed_call cfg p =
     sub_call cfg (cl_to p)
       (if cl_value p = 0 then None
        else Some \<lparr>transfer_source = cl_from p, transfer_target = cl_to p, transfer_value = cl_value p\<rparr>)
       (cl_data p) (Some (cl_gas_limit p)) False
       \<lparr>ctx_address = cl_to p, ctx_caller = cl_from p, ctx_apparent_value = cl_value p\<rparr>"

lemma forward_exit_Ok: "forward_exit r = Ok out \<longleftrightarrow> r = (ExitSucceed, out)"
  by (cases r) (auto simp: forward_exit_def split: exit_reason.splits)

lemma dispatch_permit_Ok:
  assumes "dispatch_permit cfg p w = Ok (out, w')"
  obtains h where
    "call_signer cfg p (call_digest cfg p (cp_nonces (wstate w) (cl_from p))) = Some (cl_from p)"
    "cl_from p \<noteq> 0" "cp_nonces (wstate w) (cl_from p) \<noteq> - 1"
    "cl_deadline p \<ge> ucast (cp_timestamp_now cfg div 1000)"
    "unat (cl_gas_limit p) + unat (cp_call_cost cfg (cl_value p)) \<le> unat (remaining_gas (cp_api cfg) h)"
    "signed_call cfg p \<lparr>whandle = h, wstate = (wstate w)\<lparr>cp_nonces :=
       (cp_nonces (wstate w))(cl_from p := cp_nonces (wstate w) (cl_from p) + 1)\<rparr>\<rparr> = ((ExitSucceed, out), w')"
proof -
  from assms obtain h total where
    "checked_add (cl_gas_limit p) (cp_call_cost cfg (cl_value p)) = Some total"
    "\<not> total > remaining_gas (cp_api cfg) h"
    "cl_deadline p \<ge> ucast (cp_timestamp_now cfg div 1000)"
    "call_signer cfg p (call_digest cfg p (cp_nonces (wstate w) (cl_from p))) = Some (cl_from p)"
    "cl_from p \<noteq> 0" "cp_nonces (wstate w) (cl_from p) \<noteq> - 1"
    "signed_call cfg p (w\<lparr>whandle := h, wstate := (wstate w)\<lparr>cp_nonces :=
       (cp_nonces (wstate w))(cl_from p := cp_nonces (wstate w) (cl_from p) + 1)\<rparr>\<rparr>) = ((ExitSucceed, out), w')"
    by (auto simp: dispatch_permit_def dispatch_def evm_iff Let_def forward_exit_Ok call_signer_def call_digest_def
        signed_call_def)
  then show thesis
    using that [of h] by (cases w) (auto simp: checked_add_Some word_le_nat_alt not_less)
qed

text \<open>
  The nonces live in the storage of this precompile, and only \<open>dispatch\<close> writes them: a subcall,
  which may dispatch again, does not lower any of them.
\<close>

definition calls_keep_nonces :: "('ev, 'h) cp_config \<Rightarrow> bool" where
  "calls_keep_nonces cfg \<longleftrightarrow>
     (\<forall>target tr data gas st ctx w a. unat (cp_nonces (wstate w) a)
        \<le> unat (cp_nonces (wstate (snd (sub_call cfg target tr data gas st ctx w))) a))"

lemma signed_call_nonces:
  assumes "calls_keep_nonces cfg" "signed_call cfg p w = (exit, w')"
  shows "unat (cp_nonces (wstate w) a) \<le> unat (cp_nonces (wstate w') a)"
  using assms unfolding calls_keep_nonces_def signed_call_def by (metis snd_conv)

definition accept_call :: "('ev, 'h) cp_config \<Rightarrow> call_permit \<Rightarrow> ('h, 'ev cp_state) world \<Rightarrow> ('h, 'ev cp_state) world \<Rightarrow> bool" where
  "accept_call cfg p w w' \<longleftrightarrow> (\<exists>out. dispatch_permit cfg p w = Ok (out, w'))"

lemma accept_call_nonce:
  assumes "calls_keep_nonces cfg" "accept_call cfg p w w'"
  shows "unat (cp_nonces (wstate w) (cl_from p)) < unat (cp_nonces (wstate w') (cl_from p))"
proof -
  from assms(2) obtain out where "dispatch_permit cfg p w = Ok (out, w')" by (auto simp: accept_call_def)
  then obtain h where max: "cp_nonces (wstate w) (cl_from p) \<noteq> - 1"
    and call: "signed_call cfg p \<lparr>whandle = h, wstate = (wstate w)\<lparr>cp_nonces :=
       (cp_nonces (wstate w))(cl_from p := cp_nonces (wstate w) (cl_from p) + 1)\<rparr>\<rparr> = ((ExitSucceed, out), w')"
    by (rule dispatch_permit_Ok)
  from signed_call_nonces [OF assms(1) call, of "cl_from p"] unat_next_nonce [OF max] show ?thesis by simp
qed

interpretation call_permits: permit_scheme accept_call "\<lambda>w. cp_nonces (wstate w)" cl_from cl_from
  "\<lambda>cfg p w. call_digest cfg p (cp_nonces (wstate w) (cl_from p))" call_signer
  calls_keep_nonces
proof
  show "call_signer c p (call_digest c p (cp_nonces (wstate w) (cl_from p))) = Some (cl_from p)"
    if "accept_call c p w w'" for c :: "('ev, 'h) cp_config" and p w w'
    using that by (auto simp: accept_call_def elim: dispatch_permit_Ok)
qed (rule accept_call_nonce)

section \<open>Properties\<close>

text \<open>
  A successful dispatch ran exactly the call that the signer signed, with the signer as caller,
  the signed gas limit (which was available) and the nonce already raised, before the deadline, and
  returns its output.
\<close>

theorem dispatch_runs_signed_call:
  assumes "dispatch_permit cfg p w = Ok (out, w')"
  shows "\<exists>h. call_signer cfg p (call_digest cfg p (cp_nonces (wstate w) (cl_from p))) = Some (cl_from p) \<and>
     cl_from p \<noteq> 0 \<and> ucast (cp_timestamp_now cfg div 1000) \<le> cl_deadline p \<and>
     unat (cl_gas_limit p) + unat (cp_call_cost cfg (cl_value p)) \<le> unat (remaining_gas (cp_api cfg) h) \<and>
     signed_call cfg p \<lparr>whandle = h, wstate = (wstate w)\<lparr>cp_nonces :=
       (cp_nonces (wstate w))(cl_from p := cp_nonces (wstate w) (cl_from p) + 1)\<rparr>\<rparr> = ((ExitSucceed, out), w')"
  using assms by (rule dispatch_permit_Ok) blast

text \<open>
  C13: A call permit is used up before its subcall starts: in every state with a higher nonce of the
  signer, and so in the state the subcall starts in (when it calls back into the precompile) and in
  every state after the dispatch, the same permit is refused. Of the cryptography this only takes that the encoding of arguments is
  injective, that the hash does not collide on the byte strings that are hashed for this permit at the two nonces, and
  that the signature is valid for one digest only.
\<close>

theorem call_permit_not_replayable:
  assumes "calls_keep_nonces cfg" "dispatch_permit cfg p w = Ok (out, w')"
    and "abi_ok (cp_crypto cfg)"
    and "no_collision (cp_crypto cfg)
       (call_preimages cfg p (cp_nonces (wstate w) (cl_from p)) \<union> call_preimages cfg p (cp_nonces (wstate u) (cl_from p)))"
    and "\<forall>d e. call_signer cfg p d = Some (cl_from p) \<longrightarrow> call_signer cfg p e = Some (cl_from p) \<longrightarrow> d = e"
  shows "(\<exists>w1. signed_call cfg p w1 = ((ExitSucceed, out), w') \<and>
        unat (cp_nonces (wstate w1) (cl_from p)) = Suc (unat (cp_nonces (wstate w) (cl_from p)))) \<and>
     unat (cp_nonces (wstate w) (cl_from p)) < unat (cp_nonces (wstate w') (cl_from p)) \<and>
     (unat (cp_nonces (wstate w) (cl_from p)) < unat (cp_nonces (wstate u) (cl_from p)) \<longrightarrow>
        \<not> is_ok (dispatch_permit cfg p u))"
proof -
  have acc: "accept_call cfg p w w'" using assms(2) by (auto simp: accept_call_def)
  from assms(2) obtain h where max: "cp_nonces (wstate w) (cl_from p) \<noteq> - 1"
    and call: "signed_call cfg p \<lparr>whandle = h, wstate = (wstate w)\<lparr>cp_nonces :=
       (cp_nonces (wstate w))(cl_from p := cp_nonces (wstate w) (cl_from p) + 1)\<rparr>\<rparr> = ((ExitSucceed, out), w')"
    by (rule dispatch_permit_Ok)
  have "\<not> is_ok (dispatch_permit cfg p u)"
    if "unat (cp_nonces (wstate w) (cl_from p)) < unat (cp_nonces (wstate u) (cl_from p))"
  proof -
    have "call_digest cfg p (cp_nonces (wstate w) (cl_from p)) \<noteq> call_digest cfg p (cp_nonces (wstate u) (cl_from p))"
      using call_digest_nonce [OF assms(3,4)] that by auto
    then have "\<not> accept_call cfg p u u'" for u'
      using assms(5) by (intro call_permits.refused_at_higher_nonce [OF acc that]) blast+
    then show ?thesis by (auto simp: accept_call_def is_ok_iff)
  qed
  moreover have "unat (cp_nonces (wstate \<lparr>whandle = h, wstate = (wstate w)\<lparr>cp_nonces :=
       (cp_nonces (wstate w))(cl_from p := cp_nonces (wstate w) (cl_from p) + 1)\<rparr>\<rparr>) (cl_from p))
     = Suc (unat (cp_nonces (wstate w) (cl_from p)))"
    using unat_next_nonce [OF max] by simp
  ultimately show ?thesis using call accept_call_nonce [OF assms(1) acc] by blast
qed

text \<open>
  A permit for a call with a payload of one byte, signed at nonce 0; the subcall echoes its input. Arguments are encoded in words, and
  the hash takes the length of the string and one byte: of a long string the last byte of the seventh word, the nonce.
\<close>

fun arg_word :: "sol_arg \<Rightarrow> u8 list" where
  "arg_word (ArgH256 h) = be_bytes32 h"
| "arg_word (ArgAddress a) = be_bytes32 (ucast a)"
| "arg_word (ArgU256 u) = be_bytes32 u"
| "arg_word (ArgU64 u) = be_bytes32 (ucast u)"

definition demo_abi_crypto :: "H256 \<Rightarrow> evm_crypto" where
  "demo_abi_crypto signed_digest =
     \<lparr>keccak_256 = (\<lambda>bs. of_nat (256 * length bs) + ucast (if length bs = 256 then bs ! 223 else last bs)),
      encode_arguments = concat \<circ> map arg_word, encode_event_data = (\<lambda>u. [ucast u]),
      secp256k1_ecdsa_recover = (\<lambda>sg d. if d = signed_digest then Some [last sg] else None)\<rparr>"

lemma arg_word_inject:
  assumes "arg_type x = arg_type y" "arg_word x = arg_word y"
  shows "x = y"
proof -
  have up: "ucast (ucast a :: U256) = a" "ucast (ucast b :: U256) = b" for a :: H160 and b :: u64
    by (rule ucast_up_ucast_id; simp add: is_up)+
  then have "(ucast a :: U256) = ucast a' \<Longrightarrow> a = a'" "(ucast b :: U256) = ucast b' \<Longrightarrow> b = b'" for a a' :: H160 and b b' :: u64
    by metis+
  with assms show ?thesis by (cases x; cases y) auto
qed

lemma demo_abi_ok: "abi_ok (demo_abi_crypto d)"
proof -
  have len: "length (arg_word x) = 32" for x by (cases x) simp_all
  have "map arg_type xs = map arg_type ys \<Longrightarrow> concat (map arg_word xs) = concat (map arg_word ys) \<Longrightarrow> xs = ys" for xs ys
  proof (induction xs arbitrary: ys)
    case (Cons x xs)
    then obtain y ys' where ys: "ys = y # ys'" by (cases ys) auto
    with Cons len [of x] len [of y] show ?case by (auto intro: arg_word_inject)
  qed simp
  then show ?thesis by (simp add: abi_ok_def demo_abi_crypto_def)
qed

definition cp_demo :: "H256 \<Rightarrow> (unit, gas_meter) cp_config" where
  "cp_demo signed_digest = \<lparr>cp_api = gas_handle, cp_crypto = demo_abi_crypto signed_digest, cp_ChainId = 1,
     cp_timestamp_now = 0, cp_call_cost = (\<lambda>_. 700),
     sub_call = (\<lambda>target tr data gas st ctx w. ((ExitSucceed, data), w))\<rparr>"

definition cp_demo_permit :: call_permit where
  "cp_demo_permit = \<lparr>cl_context = \<lparr>ctx_address = 2058, ctx_caller = 9, ctx_apparent_value = 0\<rparr>, cl_from = 283,
     cl_to = 6, cl_value = 40, cl_data = [3], cl_gas_limit = 1000, cl_deadline = 100, cl_v = 27, cl_r = 0, cl_s = 0\<rparr>"

definition cp_demo_world :: "U256 \<Rightarrow> (gas_meter, unit cp_state) world" where
  "cp_demo_world n = \<lparr>whandle = (10000, []), wstate = \<lparr>cp_nonces = (\<lambda>_. n), cp_evm = ()\<rparr>\<rparr>"

lemma cp_demo_content:
  "length (call_content (cp_demo d) cp_demo_permit n) = 256" "call_content (cp_demo d) cp_demo_permit n ! 223 = ucast n"
proof -
  have nth: "be_bytes32 n ! 31 = ucast n" using last_be_bytes32 [of n] by (simp add: last_conv_nth flip: length_greater_0_conv)
  show "length (call_content (cp_demo d) cp_demo_permit n) = 256" "call_content (cp_demo d) cp_demo_permit n ! 223 = ucast n"
    by (simp_all add: call_content_def cp_permit_content_def cp_demo_def demo_abi_crypto_def nth_append nth)
qed

lemma cp_demo_hashes:
  "keccak_256 (cp_crypto (cp_demo d)) (call_content (cp_demo d) cp_demo_permit n) = 65536 + ucast (ucast n :: u8)"
  "keccak_256 (cp_crypto (cp_demo d)) (cp_pre_digest (cp_demo d) a h) = 16896 + ucast (ucast h :: u8)"
proof -
  show "keccak_256 (cp_crypto (cp_demo d)) (call_content (cp_demo d) cp_demo_permit n) = 65536 + ucast (ucast n :: u8)"
    using cp_demo_content [of d n] by (simp add: cp_demo_def demo_abi_crypto_def)
  have ne: "be_bytes32 h \<noteq> []" using length_be_bytes32 [of h] by fastforce
  then have "length (cp_pre_digest (cp_demo d) a h) = 66" "last (cp_pre_digest (cp_demo d) a h) = ucast h"
    by (simp_all add: cp_pre_digest_def last_be_bytes32)
  then show "keccak_256 (cp_crypto (cp_demo d)) (cp_pre_digest (cp_demo d) a h) = 16896 + ucast (ucast h :: u8)"
    by (simp add: cp_demo_def demo_abi_crypto_def)
qed

lemma cp_demo_digest: "call_digest (cp_demo d) cp_demo_permit 0 = 16896"
  using cp_demo_hashes(1) [of d 0] cp_demo_hashes(2) [of d "ctx_address (cl_context cp_demo_permit)" 65536]
  by (simp add: call_digest_def cp_generate_permit_def call_content_def Let_def)

definition cp_signed :: "(unit, gas_meter) cp_config" where
  "cp_signed = cp_demo 16896"

lemma cp_signed_signer:
  "call_signer cp_signed cp_demo_permit d = (if d = 16896 then Some 283 else None)"
  by (simp add: call_signer_def recover_signer_def cp_signed_def cp_demo_def demo_abi_crypto_def cp_demo_permit_def)

lemma cp_demo_dispatch: "\<exists>w'. dispatch_permit cp_signed cp_demo_permit (cp_demo_world 0) = Ok ([3], w')"
proof -
  have "recover_signer (cp_crypto cp_signed) 27 0 0 (cp_generate_permit cp_signed 2058 283 6 40 [3] 1000 0 100) = Some 283"
    using cp_signed_signer [of "call_digest cp_signed cp_demo_permit 0"] cp_demo_digest [of 16896]
    by (simp add: call_signer_def call_digest_def cp_demo_permit_def cp_signed_def)
  moreover have "cp_api cp_signed = gas_handle" "cp_timestamp_now cp_signed = 0" "cp_call_cost cp_signed = (\<lambda>_. 700)"
    "sub_call cp_signed = (\<lambda>target tr data gas st ctx w. ((ExitSucceed, data), w))"
    by (simp_all add: cp_signed_def cp_demo_def)
  ultimately show ?thesis
    by (simp add: dispatch_permit_def dispatch_def evm_defs cp_demo_permit_def cp_demo_world_def Let_def
        next_nonce_def dispatch_inherent_cost_def forward_exit_def gas_handle_def charge_def checked_sub_def
        checked_add_def)
qed

theorem dispatch_runs_signed_call_witness:
  "\<exists>h w'. signed_call cp_signed cp_demo_permit \<lparr>whandle = h, wstate = (wstate (cp_demo_world 0))\<lparr>cp_nonces :=
       (cp_nonces (wstate (cp_demo_world 0)))(283 := cp_nonces (wstate (cp_demo_world 0)) 283 + 1)\<rparr>\<rparr>
     = ((ExitSucceed, [3]), w')"
proof -
  obtain w' where "dispatch_permit cp_signed cp_demo_permit (cp_demo_world 0) = Ok ([3], w')"
    using cp_demo_dispatch by blast
  from dispatch_runs_signed_call [OF this] show ?thesis by (auto simp: cp_demo_permit_def)
qed

lemma cp_demo_no_collision:
  "no_collision (cp_crypto cp_signed) (call_preimages cp_signed cp_demo_permit 0 \<union> call_preimages cp_signed cp_demo_permit 1)"
  unfolding no_collision_def call_preimages_def cp_signed_def by (rule inj_onI) (auto simp: cp_demo_hashes)

theorem call_permit_not_replayable_witness:
  "\<not> is_ok (dispatch_permit cp_signed cp_demo_permit (cp_demo_world 1))"
proof -
  obtain w' where ok: "dispatch_permit cp_signed cp_demo_permit (cp_demo_world 0) = Ok ([3], w')"
    using cp_demo_dispatch by blast
  have keep: "calls_keep_nonces cp_signed" and abi: "abi_ok (cp_crypto cp_signed)"
    by (simp_all add: calls_keep_nonces_def cp_signed_def cp_demo_def demo_abi_ok)
  have hash: "no_collision (cp_crypto cp_signed)
      (call_preimages cp_signed cp_demo_permit (cp_nonces (wstate (cp_demo_world 0)) (cl_from cp_demo_permit)) \<union>
       call_preimages cp_signed cp_demo_permit (cp_nonces (wstate (cp_demo_world 1)) (cl_from cp_demo_permit)))"
    using cp_demo_no_collision by (simp add: cp_demo_world_def)
  have binding: "\<forall>d e. call_signer cp_signed cp_demo_permit d = Some (cl_from cp_demo_permit) \<longrightarrow>
      call_signer cp_signed cp_demo_permit e = Some (cl_from cp_demo_permit) \<longrightarrow> d = e"
    by (simp add: cp_signed_signer)
  have higher: "unat (cp_nonces (wstate (cp_demo_world 0)) (cl_from cp_demo_permit))
      < unat (cp_nonces (wstate (cp_demo_world 1)) (cl_from cp_demo_permit))"
    by (simp add: cp_demo_world_def)
  have "unat (cp_nonces (wstate (cp_demo_world 0)) (cl_from cp_demo_permit))
      < unat (cp_nonces (wstate (cp_demo_world 1)) (cl_from cp_demo_permit)) \<longrightarrow>
      \<not> is_ok (dispatch_permit cp_signed cp_demo_permit (cp_demo_world 1))"
    using call_permit_not_replayable [OF keep ok abi hash binding] by (elim conjE)
  with higher show ?thesis by (rule rev_mp)
qed

end
