(* ===== verification/Batch.thy ===== *)
theory Batch
  imports Evm_Interfaces
begin

text \<open>
  \<^verbatim>\<open>precompiles/batch\<close>: several subcalls in one, with three ways to go on after a failure. Each
  subcall may change the whole state, the batch itself only pays gas and writes logs.
\<close>

section \<open>The precompile\<close>

datatype batch_mode = BatchSome | BatchSomeUntilFailure | BatchAll

definition CALL_DATA_LIMIT :: nat where
  "CALL_DATA_LIMIT = 2 ^ 16"

definition ARRAY_LIMIT :: nat where
  "ARRAY_LIMIT = 2 ^ 9"

text \<open>
  \<open>compute_log_cost\<close> is \<^verbatim>\<open>LogExt::compute_cost\<close> and \<open>batch_call\<close> is \<^verbatim>\<open>PrecompileHandle::call\<close>.
\<close>

record ('st, 'h) batch_config =
  bt_api :: "'h precompile_handle"
  bt_crypto :: evm_crypto
  bt_call_cost :: "U256 \<Rightarrow> u64"
  compute_log_cost :: "evm_log \<Rightarrow> u64 option"
  batch_call :: "H160 \<Rightarrow> evm_transfer option \<Rightarrow> u8 list \<Rightarrow> u64 option \<Rightarrow> bool \<Rightarrow> evm_context
    \<Rightarrow> ('h, 'st) world \<Rightarrow> (exit_reason \<times> u8 list) \<times> ('h, 'st) world"

definition LOG_SUBCALL_SUCCEEDED :: "evm_crypto \<Rightarrow> H256" where
  "LOG_SUBCALL_SUCCEEDED cr = keccak_256 cr (string_bytes ''SubcallSucceeded(uint256)'')"

definition LOG_SUBCALL_FAILED :: "evm_crypto \<Rightarrow> H256" where
  "LOG_SUBCALL_FAILED cr = keccak_256 cr (string_bytes ''SubcallFailed(uint256)'')"

definition log_subcall_succeeded :: "evm_crypto \<Rightarrow> H160 \<Rightarrow> nat \<Rightarrow> evm_log" where
  "log_subcall_succeeded cr address index =
     \<lparr>log_address = address, log_topics = [LOG_SUBCALL_SUCCEEDED cr],
      log_data = encode_event_data cr (of_nat index)\<rparr>"

definition log_subcall_failed :: "evm_crypto \<Rightarrow> H160 \<Rightarrow> nat \<Rightarrow> evm_log" where
  "log_subcall_failed cr address index =
     \<lparr>log_address = address, log_topics = [LOG_SUBCALL_FAILED cr],
      log_data = encode_event_data cr (of_nat index)\<rparr>"

text \<open>One subcall of the batch: its index, target, and what is left of the other arrays at the index.\<close>

record batch_item =
  bi_index :: nat
  bi_address :: H160
  bi_value :: "U256 option"
  bi_call_data :: "u8 list option"
  bi_gas_limit :: "u64 option"

text \<open>\<open>arr_at\<close> is the iterator \<^verbatim>\<open>.map(Some).chain(repeat(None))\<close> of the source at one index.\<close>

definition arr_at :: "'a list \<Rightarrow> nat \<Rightarrow> 'a option" where
  "arr_at xs i = (if i < length xs then Some (xs ! i) else None)"

definition batch_items :: "H160 list \<Rightarrow> U256 list \<Rightarrow> u8 list list \<Rightarrow> u64 list \<Rightarrow> batch_item list" where
  "batch_items to values calls_data gas_limits =
     map (\<lambda>(i, address). \<lparr>bi_index = i, bi_address = address, bi_value = arr_at values i,
        bi_call_data = arr_at calls_data i,
        bi_gas_limit = (case arr_at gas_limits i of
           Some x \<Rightarrow> if x = 0 then None else Some x | None \<Rightarrow> None)\<rparr>) (enumerate 0 to)"

text \<open>Whether the loop goes on with the next item or returns.\<close>

datatype loop_control = Continue | Return

definition log_and_record :: "('st, 'h) batch_config \<Rightarrow> evm_log \<Rightarrow> (('h, 'st) world, unit) evm" where
  "log_and_record cfg lg =
     evm_bind (on_handle (record_log_costs (bt_api cfg) lg)) (\<lambda>_. on_handle (record_log (bt_api cfg) lg))"

text \<open>A subcall that cannot be paid for: it is logged as failed, and the mode decides.\<close>

definition subcall_out_of_gas ::
    "('st, 'h) batch_config \<Rightarrow> batch_mode \<Rightarrow> H160 \<Rightarrow> nat \<Rightarrow> (('h, 'st) world, loop_control) evm" where
  "subcall_out_of_gas cfg mode code_address i =
     evm_bind (log_and_record cfg (log_subcall_failed (bt_crypto cfg) code_address i))
     (\<lambda>_. case mode of
            BatchAll \<Rightarrow> evm_fail (ExitErr ''OutOfGas'')
          | BatchSomeUntilFailure \<Rightarrow> evm_ret Return
          | BatchSome \<Rightarrow> evm_ret Continue)"

text \<open>The logs after a subcall and how to proceed.\<close>

definition subcall_log ::
    "('st, 'h) batch_config \<Rightarrow> H160 \<Rightarrow> nat \<Rightarrow> exit_reason \<Rightarrow> (('h, 'st) world, unit) evm" where
  "subcall_log cfg code_address i reason =
     (case reason of
        ExitRevert \<Rightarrow> log_and_record cfg (log_subcall_failed (bt_crypto cfg) code_address i)
      | ExitError _ \<Rightarrow> log_and_record cfg (log_subcall_failed (bt_crypto cfg) code_address i)
      | ExitSucceed \<Rightarrow> log_and_record cfg (log_subcall_succeeded (bt_crypto cfg) code_address i)
      | ExitFatal _ \<Rightarrow> evm_ret ())"

definition subcall_proceed :: "batch_mode \<Rightarrow> exit_reason \<times> u8 list \<Rightarrow> ('w, loop_control) evm" where
  "subcall_proceed mode exit =
     (case (mode, fst exit) of
        (_, ExitFatal exit_status) \<Rightarrow> evm_fail (ExitFatalErr exit_status)
      | (BatchAll, ExitRevert) \<Rightarrow> evm_fail (RevertOutput (snd exit))
      | (BatchAll, ExitError exit_status) \<Rightarrow> evm_fail (ExitErr exit_status)
      | (BatchSomeUntilFailure, ExitRevert) \<Rightarrow> evm_ret Return
      | (BatchSomeUntilFailure, ExitError _) \<Rightarrow> evm_ret Return
      | (_, _) \<Rightarrow> evm_ret Continue)"

definition item_value :: "batch_item \<Rightarrow> U256" where
  "item_value item = (case bi_value item of Some v \<Rightarrow> v | None \<Rightarrow> 0)"

definition item_data :: "batch_item \<Rightarrow> u8 list" where
  "item_data item = (case bi_call_data item of Some d \<Rightarrow> d | None \<Rightarrow> [])"

definition run_subcall ::
    "('st, 'h) batch_config \<Rightarrow> evm_context \<Rightarrow> batch_item \<Rightarrow> u64 \<Rightarrow> ('h, 'st) world
      \<Rightarrow> (exit_reason \<times> u8 list) \<times> ('h, 'st) world" where
  "run_subcall cfg ctx item forwarded_gas =
     (let address = bi_address item; value = item_value item;
          sub_context = \<lparr>ctx_address = address, ctx_caller = ctx_caller ctx, ctx_apparent_value = value\<rparr>;
          transfer = (if value = 0 then None
            else Some \<lparr>transfer_source = ctx_caller ctx, transfer_target = address, transfer_value = value\<rparr>)
      in batch_call cfg address transfer (item_data item) (Some forwarded_gas) False sub_context)"

text \<open>The body of the loop.\<close>

definition batch_step ::
    "('st, 'h) batch_config \<Rightarrow> batch_mode \<Rightarrow> evm_context \<Rightarrow> H160 \<Rightarrow> u64 \<Rightarrow> batch_item
      \<Rightarrow> (('h, 'st) world, loop_control) evm" where
  "batch_step cfg mode ctx code_address log_cost item w =
     (case checked_sub (remaining_gas (bt_api cfg) (whandle w)) log_cost of
        None \<Rightarrow>
          (case mode of BatchAll \<Rightarrow> evm_fail (ExitErr ''OutOfGas'') w | _ \<Rightarrow> evm_ret Return w)
      | Some forwarded_gas \<Rightarrow>
          (case checked_sub forwarded_gas (bt_call_cost cfg (item_value item)) of
             None \<Rightarrow> subcall_out_of_gas cfg mode code_address (bi_index item) w
           | Some forwarded_gas \<Rightarrow>
               (case bi_gas_limit item of
                  Some limit \<Rightarrow>
                    if limit > forwarded_gas then subcall_out_of_gas cfg mode code_address (bi_index item) w
                    else evm_bind (\<lambda>w. Ok (run_subcall cfg ctx item limit w))
                         (\<lambda>exit. evm_bind (subcall_log cfg code_address (bi_index item) (fst exit))
                         (\<lambda>_. subcall_proceed mode exit)) w
                | None \<Rightarrow>
                    evm_bind (\<lambda>w. Ok (run_subcall cfg ctx item forwarded_gas w))
                    (\<lambda>exit. evm_bind (subcall_log cfg code_address (bi_index item) (fst exit))
                    (\<lambda>_. subcall_proceed mode exit)) w)))"

fun batch_loop ::
    "('st, 'h) batch_config \<Rightarrow> batch_mode \<Rightarrow> evm_context \<Rightarrow> H160 \<Rightarrow> u64 \<Rightarrow> batch_item list
      \<Rightarrow> (('h, 'st) world, unit) evm" where
  "batch_loop cfg mode ctx code_address log_cost [] w = Ok ((), w)"
| "batch_loop cfg mode ctx code_address log_cost (item # items) w =
     and_then (batch_step cfg mode ctx code_address log_cost item w)
     (\<lambda>(control, w'). case control of
        Return \<Rightarrow> Ok ((), w')
      | Continue \<Rightarrow> batch_loop cfg mode ctx code_address log_cost items w')"

definition inner_batch ::
    "('st, 'h) batch_config \<Rightarrow> batch_mode \<Rightarrow> evm_context \<Rightarrow> H160 \<Rightarrow> H160 list \<Rightarrow> U256 list \<Rightarrow> u8 list list \<Rightarrow> u64 list
      \<Rightarrow> (('h, 'st) world, unit) evm" where
  "inner_batch cfg mode ctx code_address to value call_data gas_limit =
     evm_bind (evm_lift (ok_or (Revert ''Failed to compute log cost'')
       (compute_log_cost cfg (log_subcall_failed (bt_crypto cfg) code_address 0))))
     (\<lambda>log_cost. batch_loop cfg mode ctx code_address log_cost (batch_items to value call_data gas_limit))"

definition batch_some where "batch_some cfg = inner_batch cfg BatchSome"

definition batch_some_until_failure where
  "batch_some_until_failure cfg = inner_batch cfg BatchSomeUntilFailure"

definition batch_all where "batch_all cfg = inner_batch cfg BatchAll"

text \<open>The calls of the precompile, and the call for a mode.\<close>

datatype batch_call =
    BatchSomeCall "H160 list" "U256 list" "u8 list list" "u64 list"
  | BatchSomeUntilFailureCall "H160 list" "U256 list" "u8 list list" "u64 list"
  | BatchAllCall "H160 list" "U256 list" "u8 list list" "u64 list"

definition batch_from_mode :: "batch_mode \<Rightarrow> H160 list \<Rightarrow> U256 list \<Rightarrow> u8 list list \<Rightarrow> u64 list \<Rightarrow> batch_call" where
  "batch_from_mode mode to value call_data gas_limit =
     (case mode of
        BatchSome \<Rightarrow> BatchSomeCall to value call_data gas_limit
      | BatchSomeUntilFailure \<Rightarrow> BatchSomeUntilFailureCall to value call_data gas_limit
      | BatchAll \<Rightarrow> BatchAllCall to value call_data gas_limit)"

primrec run_batch_call ::
    "('st, 'h) batch_config \<Rightarrow> evm_context \<Rightarrow> H160 \<Rightarrow> batch_call \<Rightarrow> (('h, 'st) world, unit) evm" where
  "run_batch_call cfg ctx code_address (BatchSomeCall to value call_data gas_limit) =
     batch_some cfg ctx code_address to value call_data gas_limit"
| "run_batch_call cfg ctx code_address (BatchSomeUntilFailureCall to value call_data gas_limit) =
     batch_some_until_failure cfg ctx code_address to value call_data gas_limit"
| "run_batch_call cfg ctx code_address (BatchAllCall to value call_data gas_limit) =
     batch_all cfg ctx code_address to value call_data gas_limit"

lemma batch_from_mode_runs:
  "run_batch_call cfg ctx code_address (batch_from_mode mode to value call_data gas_limit) =
     inner_batch cfg mode ctx code_address to value call_data gas_limit"
  by (cases mode) (simp_all add: batch_from_mode_def batch_some_def batch_some_until_failure_def batch_all_def)

section \<open>Specification\<close>

text \<open>
  The gas of a subcall: the cost of its log and of the call are kept back, and of the rest it gets its limit, which must be available, or all.
\<close>

definition subcall_gas :: "('st, 'h) batch_config \<Rightarrow> u64 \<Rightarrow> batch_item \<Rightarrow> ('h, 'st) world \<Rightarrow> u64 \<Rightarrow> bool" where
  "subcall_gas cfg log_cost item w gas \<longleftrightarrow>
     (case bi_gas_limit item of
        None \<Rightarrow> unat gas + unat log_cost + unat (bt_call_cost cfg (item_value item)) = unat (remaining_gas (bt_api cfg) (whandle w))
      | Some limit \<Rightarrow> gas = limit \<and>
          unat limit + unat log_cost + unat (bt_call_cost cfg (item_value item)) \<le> unat (remaining_gas (bt_api cfg) (whandle w)))"

text \<open>
  A subcall goes through: it is paid for, it runs with the gas it is given, it succeeds, and its
  success is logged.
\<close>

inductive subcall_succeeds ::
    "('st, 'h) batch_config \<Rightarrow> evm_context \<Rightarrow> H160 \<Rightarrow> u64 \<Rightarrow> batch_item \<Rightarrow> ('h, 'st) world \<Rightarrow> ('h, 'st) world \<Rightarrow> bool"
  for cfg :: "('st, 'h) batch_config" and ctx :: evm_context and code_address :: H160 and log_cost :: u64
  where
    "subcall_gas cfg log_cost item w gas \<Longrightarrow>
     run_subcall cfg ctx item gas w = ((ExitSucceed, out), w1) \<Longrightarrow>
     log_and_record cfg (log_subcall_succeeded (bt_crypto cfg) code_address (bi_index item)) w1 = Ok ((), w2) \<Longrightarrow>
     subcall_succeeds cfg ctx code_address log_cost item w w2"

inductive all_succeed ::
    "('st, 'h) batch_config \<Rightarrow> evm_context \<Rightarrow> H160 \<Rightarrow> u64 \<Rightarrow> batch_item list \<Rightarrow> ('h, 'st) world \<Rightarrow> ('h, 'st) world \<Rightarrow> bool"
  for cfg :: "('st, 'h) batch_config" and ctx :: evm_context and code_address :: H160 and log_cost :: u64
  where
    none: "all_succeed cfg ctx code_address log_cost [] w w"
  | more: "subcall_succeeds cfg ctx code_address log_cost item w w1 \<Longrightarrow> all_succeed cfg ctx code_address log_cost items w1 w2 \<Longrightarrow>
      all_succeed cfg ctx code_address log_cost (item # items) w w2"

inductive_simps all_succeed_Nil_iff: "all_succeed cfg ctx code_address log_cost [] w w'"
inductive_simps all_succeed_Cons_iff: "all_succeed cfg ctx code_address log_cost (item # items) w w'"

lemma subcall_proceed_Continue:
  "subcall_proceed mode exit w = Ok (Continue, w') \<longleftrightarrow>
     w' = w \<and> (fst exit = ExitSucceed \<or> mode = BatchSome \<and> (\<forall>m. fst exit \<noteq> ExitFatal m))"
  by (cases mode; cases "fst exit") (auto simp: subcall_proceed_def evm_iff)

lemma subcall_proceed_Return:
  "subcall_proceed mode exit w = Ok (Return, w') \<longleftrightarrow>
     w' = w \<and> mode = BatchSomeUntilFailure \<and> (fst exit = ExitRevert \<or> (\<exists>m. fst exit = ExitError m))"
  by (cases mode; cases "fst exit") (auto simp: subcall_proceed_def evm_iff)

text \<open>In the two strict modes the loop goes on exactly after a subcall that went through.\<close>

lemma call_and_log_Continue:
  assumes "mode \<noteq> BatchSome"
  shows "evm_bind (\<lambda>w. Ok (run_subcall cfg ctx item gas w))
       (\<lambda>exit. evm_bind (subcall_log cfg code_address (bi_index item) (fst exit)) (\<lambda>_. subcall_proceed mode exit)) w = Ok (Continue, w') \<longleftrightarrow>
     (\<exists>out w1. run_subcall cfg ctx item gas w = ((ExitSucceed, out), w1) \<and>
        log_and_record cfg (log_subcall_succeeded (bt_crypto cfg) code_address (bi_index item)) w1 = Ok ((), w'))"
  using assms by (cases "run_subcall cfg ctx item gas w") (auto simp: evm_iff subcall_proceed_Continue subcall_log_def)

lemma out_of_gas_stops: "mode \<noteq> BatchSome \<Longrightarrow> subcall_out_of_gas cfg mode code_address i w \<noteq> Ok (Continue, w')"
  by (cases mode) (auto simp: subcall_out_of_gas_def evm_iff)

lemma batch_step_Continue_iff:
  assumes "mode \<noteq> BatchSome"
  shows "batch_step cfg mode ctx code_address log_cost item w = Ok (Continue, w') \<longleftrightarrow>
     subcall_succeeds cfg ctx code_address log_cost item w w'"
proof -
  let ?r = "remaining_gas (bt_api cfg) (whandle w)" and ?c = "bt_call_cost cfg (item_value item)"
  let ?call = "\<lambda>gas. evm_bind (\<lambda>w. Ok (run_subcall cfg ctx item gas w))
      (\<lambda>exit. evm_bind (subcall_log cfg code_address (bi_index item) (fst exit)) (\<lambda>_. subcall_proceed mode exit)) w = Ok (Continue, w')"
  have stop: "(case mode of BatchAll \<Rightarrow> evm_fail (ExitErr ''OutOfGas'') w | _ \<Rightarrow> evm_ret Return w) \<noteq> Ok (Continue, w')"
    by (cases mode) (auto simp: evm_iff)
  have oog: "subcall_out_of_gas cfg mode code_address (bi_index item) w \<noteq> Ok (Continue, w')" by (rule out_of_gas_stops [OF assms])
  have "batch_step cfg mode ctx code_address log_cost item w = Ok (Continue, w') \<longleftrightarrow> (\<exists>gas. subcall_gas cfg log_cost item w gas \<and> ?call gas)"
  proof (cases "checked_sub ?r log_cost")
    case None
    then have "\<not> subcall_gas cfg log_cost item w gas" for gas by (auto simp: subcall_gas_def checked_sub_None split: option.splits)
    with None stop show ?thesis by (simp add: batch_step_def)
  next
    case (Some g)
    then have g: "unat log_cost \<le> unat ?r" "unat g = unat ?r - unat log_cost" by (auto simp: checked_sub_Some)
    show ?thesis
    proof (cases "checked_sub g ?c")
      case None
      with g have "\<not> subcall_gas cfg log_cost item w gas" for gas by (auto simp: subcall_gas_def checked_sub_None split: option.splits)
      with Some None oog show ?thesis by (simp add: batch_step_def)
    next
      case (Some f)
      with g have f: "unat f + unat log_cost + unat ?c = unat ?r" by (auto simp: checked_sub_Some)
      note step = \<open>checked_sub ?r log_cost = Some g\<close> Some
      show ?thesis
      proof (cases "bi_gas_limit item")
        case None
        then have "subcall_gas cfg log_cost item w gas \<longleftrightarrow> gas = f" for gas
          using f by (auto simp: subcall_gas_def intro: word_eqI_unat)
        with None step show ?thesis by (simp add: batch_step_def)
      next
        case (Some limit)
        then have "subcall_gas cfg log_cost item w gas \<longleftrightarrow> gas = limit \<and> \<not> limit > f" for gas
          using f by (auto simp: subcall_gas_def word_less_nat_alt)
        with Some step oog show ?thesis by (simp add: batch_step_def)
      qed
    qed
  qed
  then show ?thesis unfolding call_and_log_Continue [OF assms] by (auto simp: subcall_succeeds.simps)
qed

lemma batch_step_Return:
  "batch_step cfg mode ctx code_address log_cost item w = Ok (Return, w') \<Longrightarrow> mode \<noteq> BatchAll"
  by (auto simp: batch_step_def subcall_out_of_gas_def evm_iff subcall_proceed_Return evm_fail_def
      evm_ret_def split: option.splits if_splits)

lemma batch_all_loop:
  "batch_loop cfg BatchAll ctx code_address log_cost items w = Ok ((), w') \<longleftrightarrow> all_succeed cfg ctx code_address log_cost items w w'"
proof (induction items arbitrary: w)
  case (Cons item items)
  have "batch_loop cfg BatchAll ctx code_address log_cost (item # items) w = Ok ((), w') \<longleftrightarrow>
      (\<exists>w1. batch_step cfg BatchAll ctx code_address log_cost item w = Ok (Continue, w1) \<and>
         batch_loop cfg BatchAll ctx code_address log_cost items w1 = Ok ((), w'))"
    by (auto dest: batch_step_Return split: loop_control.splits) (use loop_control.exhaust in blast)
  then show ?case by (simp add: batch_step_Continue_iff all_succeed_Cons_iff Cons.IH)
qed (auto simp: all_succeed_Nil_iff)

lemma batch_until_failure_loop:
  assumes "batch_loop cfg BatchSomeUntilFailure ctx code_address log_cost items w = Ok ((), w')"
  shows "\<exists>k w1. k \<le> length items \<and> all_succeed cfg ctx code_address log_cost (take k items) w w1 \<and>
     (k = length items \<and> w' = w1 \<or>
      k < length items \<and>
        batch_step cfg BatchSomeUntilFailure ctx code_address log_cost (items ! k) w1 = Ok (Return, w'))"
  using assms
proof (induction items arbitrary: w)
  case Nil
  then show ?case by (intro exI [of _ 0] exI [of _ w]) (auto intro: all_succeed.none)
next
  case (Cons item items)
  then obtain control w1 where step: "batch_step cfg BatchSomeUntilFailure ctx code_address log_cost item w = Ok (control, w1)"
    and rest: "(case control of Return \<Rightarrow> Ok ((), w1)
       | Continue \<Rightarrow> batch_loop cfg BatchSomeUntilFailure ctx code_address log_cost items w1) = Ok ((), w')" by auto
  show ?case
  proof (cases control)
    case Return
    with step rest show ?thesis by (intro exI [of _ 0] exI [of _ w]) (auto intro: all_succeed.none)
  next
    case Continue
    with rest Cons.IH [of w1] obtain k w2 where "k \<le> length items" "all_succeed cfg ctx code_address log_cost (take k items) w1 w2"
      "k = length items \<and> w' = w2 \<or> k < length items \<and>
        batch_step cfg BatchSomeUntilFailure ctx code_address log_cost (items ! k) w2 = Ok (Return, w')" by auto
    moreover have "subcall_succeeds cfg ctx code_address log_cost item w w1"
      using step Continue by (simp add: batch_step_Continue_iff)
    ultimately show ?thesis
      by (intro exI [of _ "Suc k"] exI [of _ w2]) (auto intro: all_succeed.more)
  qed
qed

subsection \<open>Gas\<close>

text \<open>
  What the batch relies on: a log can be recorded while its cost is available; its cost does not
  depend on the index or the outcome; and a subcall uses at most the gas forwarded to it and the
  cost of the call.
\<close>

definition batch_gas_ok :: "('st, 'h) batch_config \<Rightarrow> H160 \<Rightarrow> u64 \<Rightarrow> bool" where
  "batch_gas_ok cfg code_address log_cost \<longleftrightarrow>
     (\<forall>i. compute_log_cost cfg (log_subcall_failed (bt_crypto cfg) code_address i) = Some log_cost \<and>
          compute_log_cost cfg (log_subcall_succeeded (bt_crypto cfg) code_address i) = Some log_cost) \<and>
     (\<forall>lg h c. compute_log_cost cfg lg = Some c \<longrightarrow> c \<le> remaining_gas (bt_api cfg) h \<longrightarrow>
        (\<exists>h'. record_log_costs (bt_api cfg) lg h = Ok h' \<and> is_ok (record_log (bt_api cfg) lg h'))) \<and>
     (\<forall>target tr data gas st ctx w. unat (remaining_gas (bt_api cfg) (whandle w))
        \<le> unat (remaining_gas (bt_api cfg) (whandle (snd (batch_call cfg target tr data (Some gas) st ctx w)))) +
          unat gas + unat (bt_call_cost cfg (ctx_apparent_value ctx)))"

lemma log_and_record_ok:
  assumes "batch_gas_ok cfg code_address log_cost" "log_cost \<le> remaining_gas (bt_api cfg) (whandle w)"
  shows "\<exists>w'. log_and_record cfg (log_subcall_failed (bt_crypto cfg) code_address i) w = Ok ((), w')"
    and "\<exists>w'. log_and_record cfg (log_subcall_succeeded (bt_crypto cfg) code_address i) w = Ok ((), w')"
proof -
  have "\<exists>w'. log_and_record cfg lg w = Ok ((), w')" if "compute_log_cost cfg lg = Some log_cost" for lg
  proof -
    from assms that obtain h' where "record_log_costs (bt_api cfg) lg (whandle w) = Ok h'"
      "is_ok (record_log (bt_api cfg) lg h')" unfolding batch_gas_ok_def by blast
    then show ?thesis by (auto simp: log_and_record_def evm_bind_def on_handle_def is_ok_iff)
  qed
  with assms(1) show "\<exists>w'. log_and_record cfg (log_subcall_failed (bt_crypto cfg) code_address i) w = Ok ((), w')"
    "\<exists>w'. log_and_record cfg (log_subcall_succeeded (bt_crypto cfg) code_address i) w = Ok ((), w')"
    unfolding batch_gas_ok_def by auto
qed

lemma run_subcall_gas:
  assumes "batch_gas_ok cfg code_address log_cost" "run_subcall cfg ctx item gas w = (exit, w')"
    and "unat log_cost + unat (bt_call_cost cfg (item_value item)) + unat gas
           \<le> unat (remaining_gas (bt_api cfg) (whandle w))"
  shows "log_cost \<le> remaining_gas (bt_api cfg) (whandle w')"
proof -
  have "unat (remaining_gas (bt_api cfg) (whandle w)) \<le> unat (remaining_gas (bt_api cfg) (whandle w')) +
      unat gas + unat (bt_call_cost cfg (item_value item))"
    using assms(1,2) unfolding batch_gas_ok_def run_subcall_def Let_def
    by (metis (no_types, lifting) evm_context.select_convs(3) snd_conv)
  with assms(3) show ?thesis by (simp add: word_le_nat_alt)
qed

lemma subcall_log_ok:
  assumes "batch_gas_ok cfg code_address log_cost" "log_cost \<le> remaining_gas (bt_api cfg) (whandle w)"
  shows "\<exists>w'. subcall_log cfg code_address i reason w = Ok ((), w')"
  using log_and_record_ok [OF assms] by (cases reason) (auto simp: subcall_log_def evm_ret_def)

text \<open>The gas left for a subcall, and the two ways a step of the loop can go.\<close>

lemma batch_some_step_ok:
  assumes ok: "batch_gas_ok cfg code_address log_cost"
    and calls: "\<And>gas w' out m. run_subcall cfg ctx item gas w \<noteq> ((ExitFatal m, out), w')"
  shows "\<exists>control w'. batch_step cfg BatchSome ctx code_address log_cost item w = Ok (control, w')"
proof (cases "checked_sub (remaining_gas (bt_api cfg) (whandle w)) log_cost")
  case None
  then show ?thesis by (simp add: batch_step_def evm_ret_def)
next
  case (Some g)
  then have g: "unat g = unat (remaining_gas (bt_api cfg) (whandle w)) - unat log_cost"
    "log_cost \<le> remaining_gas (bt_api cfg) (whandle w)"
    by (auto simp: checked_sub_Some word_le_nat_alt)
  have oog: "\<exists>control w'. subcall_out_of_gas cfg BatchSome code_address i w = Ok (control, w')" for i
    using log_and_record_ok(1) [OF ok g(2), of i] by (auto simp: subcall_out_of_gas_def evm_bind_def evm_ret_def)
  have call: "\<exists>control w'. evm_bind (\<lambda>w. Ok (run_subcall cfg ctx item gas w))
       (\<lambda>exit. evm_bind (subcall_log cfg code_address (bi_index item) (fst exit))
          (\<lambda>_. subcall_proceed BatchSome exit)) w = Ok (control, w')"
    if "unat (bt_call_cost cfg (item_value item)) + unat gas \<le> unat g" for gas
  proof -
    obtain reason out w1 where run: "run_subcall cfg ctx item gas w = ((reason, out), w1)"
      by (metis surj_pair)
    have "log_cost \<le> remaining_gas (bt_api cfg) (whandle w1)"
      using g that by (intro run_subcall_gas [OF ok run]) (auto simp: word_le_nat_alt)
    from subcall_log_ok [OF ok this] obtain w2
      where "subcall_log cfg code_address (bi_index item) reason w1 = Ok ((), w2)" by blast
    moreover have "reason \<noteq> ExitFatal m" for m using calls run by metis
    ultimately show ?thesis using run
      by (cases reason) (auto simp: evm_bind_def subcall_proceed_def evm_ret_def)
  qed
  show ?thesis
  proof (cases "checked_sub g (bt_call_cost cfg (item_value item))")
    case None
    with Some oog show ?thesis by (simp add: batch_step_def)
  next
    case (Some f)
    then have f: "unat (bt_call_cost cfg (item_value item)) + unat f = unat g" by (auto simp: checked_sub_Some)
    show ?thesis
    proof (cases "bi_gas_limit item")
      case None
      with Some \<open>checked_sub (remaining_gas (bt_api cfg) (whandle w)) log_cost = Some g\<close> call [of f] f
      show ?thesis by (simp add: batch_step_def)
    next
      case (Some limit)
      note limit = this
      show ?thesis
      proof (cases "limit > f")
        case True
        with limit \<open>checked_sub g _ = Some f\<close> \<open>checked_sub _ log_cost = Some g\<close> oog
        show ?thesis by (simp add: batch_step_def)
      next
        case False
        then have "unat (bt_call_cost cfg (item_value item)) + unat limit \<le> unat g"
          using f by (simp add: word_le_nat_alt not_less)
        with False limit \<open>checked_sub g _ = Some f\<close> \<open>checked_sub _ log_cost = Some g\<close> call [of limit]
        show ?thesis by (simp add: batch_step_def)
      qed
    qed
  qed
qed

lemma batch_some_loop_ok:
  assumes "batch_gas_ok cfg code_address log_cost"
    and "\<And>item gas w w' out m. run_subcall cfg ctx item gas w \<noteq> ((ExitFatal m, out), w')"
  shows "\<exists>w'. batch_loop cfg BatchSome ctx code_address log_cost items w = Ok ((), w')"
proof (induction items arbitrary: w)
  case (Cons item items)
  from batch_some_step_ok [OF assms(1), of ctx item w] assms(2) obtain control w1
    where "batch_step cfg BatchSome ctx code_address log_cost item w = Ok (control, w1)" by blast
  with Cons.IH [of w1] show ?case by (cases control) auto
qed simp

section \<open>Properties\<close>

definition batch_demo :: "(H160 list, gas_meter) batch_config" where
  "batch_demo = \<lparr>bt_api = gas_handle, bt_crypto = demo_crypto_evm 0, bt_call_cost = (\<lambda>_. 10),
     compute_log_cost = (\<lambda>_. Some 1),
     batch_call = (\<lambda>target tr data gas st ctx w.
        if target = 13 then ((ExitRevert, []), w) else ((ExitSucceed, data), w\<lparr>wstate := target # wstate w\<rparr>))\<rparr>"

definition batch_demo_world :: "(gas_meter, H160 list) world" where
  "batch_demo_world = \<lparr>whandle = (1000, []), wstate = []\<rparr>"

definition batch_demo_context :: evm_context where
  "batch_demo_context = \<lparr>ctx_address = 2056, ctx_caller = 5, ctx_apparent_value = 0\<rparr>"

lemmas batch_demo_simps = batch_demo_def batch_demo_world_def batch_demo_context_def inner_batch_def
  batch_items_def arr_at_def batch_step_def run_subcall_def subcall_log_def subcall_proceed_def
  log_and_record_def item_value_def item_data_def evm_defs Let_def gas_handle_def charge_def checked_sub_def

text \<open>
  C27: \<open>batchAll\<close> is all or nothing: it returns exactly if the cost of a log is known and all subcalls of the arrays, in order, have the gas they
  need (their limit, or all that is left after the log and the call are paid for), run with it and succeed, each with its success
  logged; it then leaves the state after the last one. In every other case the whole batch fails.
\<close>

theorem batch_all_or_nothing:
  "(batch_all cfg ctx code_address to values call_data gas_limit w = Ok ((), w') \<longleftrightarrow>
     (\<exists>log_cost. compute_log_cost cfg (log_subcall_failed (bt_crypto cfg) code_address 0) = Some log_cost \<and>
        all_succeed cfg ctx code_address log_cost (batch_items to values call_data gas_limit) w w')) \<and>
   map bi_address (batch_items to values call_data gas_limit) = to"
proof -
  have "map bi_address (batch_items to values call_data gas_limit) = to"
    by (simp add: batch_items_def case_prod_unfold comp_def)
  then show ?thesis by (auto simp: batch_all_def inner_batch_def evm_iff batch_all_loop)
qed

theorem batch_all_or_nothing_witness:
  "\<exists>w' log_cost. batch_all batch_demo batch_demo_context 2056 [7, 8] [] [] [] batch_demo_world = Ok ((), w') \<and>
     wstate w' = [8, 7] \<and>
     all_succeed batch_demo batch_demo_context 2056 log_cost (batch_items [7, 8] [] [] []) batch_demo_world w'"
proof -
  obtain w' where w': "batch_all batch_demo batch_demo_context 2056 [7, 8] [] [] [] batch_demo_world = Ok ((), w')"
    "wstate w' = [8, 7]"
    by (simp add: batch_all_def batch_demo_simps)
  with batch_all_or_nothing [THEN conjunct1, THEN iffD1, OF w'(1)] show ?thesis by blast
qed

text \<open>
  \<open>batchSome\<close> never fails and never runs out of gas itself: the gas it holds back always pays for
  its logs, as long as a subcall uses no more than it is given and none is fatal.
\<close>

theorem batch_some_never_fails:
  assumes "batch_gas_ok cfg code_address log_cost"
    and "\<forall>item gas w w' out m. run_subcall cfg ctx item gas w \<noteq> ((ExitFatal m, out), w')"
  shows "is_ok (batch_some cfg ctx code_address to values call_data gas_limit w)"
proof -
  have "compute_log_cost cfg (log_subcall_failed (bt_crypto cfg) code_address 0) = Some log_cost"
    using assms(1) by (simp add: batch_gas_ok_def)
  then show ?thesis
    using batch_some_loop_ok [OF assms(1), of ctx "batch_items to values call_data gas_limit" w] assms(2)
    by (auto simp: batch_some_def inner_batch_def evm_bind_def evm_lift_def is_ok_iff)
qed

theorem batch_some_never_fails_witness:
  "is_ok (batch_some batch_demo batch_demo_context 2056 [13, 8] [] [] [] batch_demo_world)"
proof (rule batch_some_never_fails)
  show "batch_gas_ok batch_demo 2056 1"
    by (auto simp: batch_gas_ok_def batch_demo_def gas_handle_def charge_def checked_sub_def)
  show "\<forall>item gas w w' out m. run_subcall batch_demo batch_demo_context item gas w \<noteq> ((ExitFatal m, out), w')"
    by (auto simp: run_subcall_def batch_demo_def Let_def)
qed

text \<open>
  \<open>batchSomeUntilFailure\<close> runs a prefix of the subcalls, all of which succeeded, and then stops:
  at the end of the arrays, or at the first subcall that failed or could not be paid for; nothing
  after it runs.
\<close>

theorem batch_until_failure_prefix:
  assumes "batch_some_until_failure cfg ctx code_address to values call_data gas_limit w = Ok ((), w')"
  defines "items \<equiv> batch_items to values call_data gas_limit"
  shows "\<exists>k w1 log_cost. k \<le> length items \<and> all_succeed cfg ctx code_address log_cost (take k items) w w1 \<and>
     (k = length items \<and> w' = w1 \<or>
      k < length items \<and>
        batch_step cfg BatchSomeUntilFailure ctx code_address log_cost (items ! k) w1 = Ok (Return, w'))"
proof -
  from assms obtain log_cost
    where "batch_loop cfg BatchSomeUntilFailure ctx code_address log_cost items w = Ok ((), w')"
    by (auto simp: batch_some_until_failure_def inner_batch_def evm_iff)
  from batch_until_failure_loop [OF this] show ?thesis by blast
qed

theorem batch_until_failure_prefix_witness:
  "\<exists>w'. batch_some_until_failure batch_demo batch_demo_context 2056 [7, 13, 8] [] [] [] batch_demo_world = Ok ((), w') \<and>
     wstate w' = [7] \<and>
     (\<exists>k w1 log_cost. all_succeed batch_demo batch_demo_context 2056 log_cost (take k (batch_items [7, 13, 8] [] [] [])) batch_demo_world w1)"
proof -
  obtain w' where w': "batch_some_until_failure batch_demo batch_demo_context 2056 [7, 13, 8] [] [] [] batch_demo_world = Ok ((), w')"
    "wstate w' = [7]"
    by (simp add: batch_some_until_failure_def batch_demo_simps)
  with batch_until_failure_prefix [OF w'(1)] show ?thesis by blast
qed

end
