(* ===== verification/Proxy.thy ===== *)
theory Proxy
  imports Evm_Interfaces
begin

text \<open>
  \<^verbatim>\<open>precompiles/proxy\<close>: the proxy pallet as a precompile, and EVM calls on behalf of an account by one
  of its proxies. The proxy pallet and the EVM are not part of the repository; their storage is the
  state \<open>'st\<close>.
\<close>

section \<open>The precompile\<close>

datatype address_type = AtEOA | AtContract | AtPrecompile | AtUnknown

record ('acct, 'pt) proxy_definition =
  pd_delegate :: 'acct
  pd_proxy_type :: 'pt
  pd_delay :: u32

record evm_sub_call =
  sc_to :: H160
  sc_value :: U256
  sc_call_data :: "u8 list"

datatype ('acct, 'pt) proxy_call =
    AddProxy 'acct 'pt u32
  | RemoveProxy 'acct 'pt u32
  | RemoveProxies

text \<open>
  \<open>px_try_dispatch\<close> and \<open>px_transfer\<close> are the dispatches of the proxy call and of the balances call
  through \<^verbatim>\<open>RuntimeHelper::try_dispatch\<close>; \<open>find_proxy\<close> and \<open>proxies\<close> read the proxy pallet;
  \<open>is_evm_proxy_call_allowed\<close> is the filter that the runtime implements for its proxy type.
\<close>

record ('acct, 'pt, 'st, 'h) proxy_config =
  px_api :: "'h precompile_handle"
  px_into_account_id :: "H160 \<Rightarrow> 'acct"
  MaxProxies :: u32
  decode_proxy_type :: "u8 list \<Rightarrow> 'pt option"
  px_try_dispatch :: "'acct \<Rightarrow> ('acct, 'pt) proxy_call \<Rightarrow> 'h \<times> 'st \<Rightarrow> (evm_failure, 'h \<times> 'st) result"
  px_transfer :: "'acct \<Rightarrow> 'acct \<Rightarrow> u128 \<Rightarrow> 'h \<times> 'st \<Rightarrow> (evm_failure, 'h \<times> 'st) result"
  proxies :: "'st \<Rightarrow> 'acct \<Rightarrow> ('acct, 'pt) proxy_definition list"
  find_proxy :: "'st \<Rightarrow> 'acct \<Rightarrow> 'acct \<Rightarrow> 'pt option \<Rightarrow> ('acct, 'pt) proxy_definition option"
  get_address_type :: "H160 \<Rightarrow> 'h \<times> 'st \<Rightarrow> (evm_failure, address_type \<times> 'h) result"
  account_code_len :: "'st \<Rightarrow> H160 \<Rightarrow> nat option"
  is_evm_proxy_call_allowed :: "'pt \<Rightarrow> evm_sub_call \<Rightarrow> bool \<Rightarrow> u64 \<Rightarrow> (evm_failure, bool) result"
  proxy_sub_call :: "H160 \<Rightarrow> evm_transfer option \<Rightarrow> u8 list \<Rightarrow> u64 option \<Rightarrow> bool \<Rightarrow> evm_context
    \<Rightarrow> ('h, 'st) world \<Rightarrow> (exit_reason \<times> u8 list) \<times> ('h, 'st) world"

text \<open>The default of the filter trait refuses every call.\<close>

definition default_is_evm_proxy_call_allowed :: "'pt \<Rightarrow> evm_sub_call \<Rightarrow> bool \<Rightarrow> u64 \<Rightarrow> (evm_failure, bool) result" where
  "default_is_evm_proxy_call_allowed proxy_type call recipient_has_code gas = Ok False"

text \<open>The two selector filters; the selector lists are generated from the function signatures.\<close>

definition only_is_proxy :: "u32 list \<Rightarrow> H160 \<Rightarrow> u32 option \<Rightarrow> bool" where
  "only_is_proxy is_proxy_selectors caller selector =
     (case selector of None \<Rightarrow> False | Some s \<Rightarrow> s \<in> set is_proxy_selectors)"

definition only_is_proxy_and_proxy :: "u32 list \<Rightarrow> u32 list \<Rightarrow> u32 list \<Rightarrow> H160 \<Rightarrow> u32 option \<Rightarrow> bool" where
  "only_is_proxy_and_proxy is_proxy_selectors proxy_selectors proxy_force_type_selectors caller selector =
     (case selector of
        None \<Rightarrow> False
      | Some s \<Rightarrow> s \<in> set is_proxy_selectors \<or> s \<in> set proxy_selectors \<or> s \<in> set proxy_force_type_selectors)"

type_synonym ('h, 'st, 'a) px = "(('h, 'st) world, 'a) evm"

definition on_world :: "('h \<times> 'st \<Rightarrow> (evm_failure, 'h \<times> 'st) result) \<Rightarrow> ('h, 'st, unit) px" where
  "on_world f w = and_then (f (whandle w, wstate w)) (\<lambda>(h, st). Ok ((), \<lparr>whandle = h, wstate = st\<rparr>))"

lemma on_world_Ok_iff [evm_iff]:
  "on_world f w = Ok (u, w') \<longleftrightarrow> (\<exists>h st. f (whandle w, wstate w) = Ok (h, st) \<and> w' = \<lparr>whandle = h, wstate = st\<rparr>)"
  by (auto simp: on_world_def)

definition read_proxies_cost :: "('acct, 'pt, 'st, 'h) proxy_config \<Rightarrow> nat" where
  "read_proxies_cost cfg = 28 + 29 * unat (MaxProxies cfg) + 8"

definition decode_type :: "('acct, 'pt, 'st, 'h) proxy_config \<Rightarrow> string \<Rightarrow> u8 \<Rightarrow> ('h, 'st, 'pt) px" where
  "decode_type cfg field proxy_type =
     evm_lift (ok_or (Revert (field @ '': Failed decoding value to ProxyType'')) (decode_proxy_type cfg [proxy_type]))"

definition add_proxy ::
    "('acct, 'pt, 'st, 'h) proxy_config \<Rightarrow> evm_context \<Rightarrow> H160 \<Rightarrow> u8 \<Rightarrow> u32 \<Rightarrow> ('h, 'st, unit) px" where
  "add_proxy cfg ctx delegate proxy_type delay =
     (let delegate = px_into_account_id cfg delegate
      in evm_bind (decode_type cfg ''proxyType'' proxy_type)
     (\<lambda>proxy_type. let origin = px_into_account_id cfg (ctx_caller ctx)
      in evm_bind (on_handle (record_db_read (px_api cfg) (read_proxies_cost cfg)))
     (\<lambda>_. evm_bind (evm_get (\<lambda>st. list_ex (\<lambda>pd. pd_delegate pd = delegate) (proxies cfg st origin)))
     (\<lambda>found. if found then evm_fail (Revert ''Cannot add more than one proxy'')
        else on_world (px_try_dispatch cfg origin (AddProxy delegate proxy_type delay))))))"

definition remove_proxy ::
    "('acct, 'pt, 'st, 'h) proxy_config \<Rightarrow> evm_context \<Rightarrow> H160 \<Rightarrow> u8 \<Rightarrow> u32 \<Rightarrow> ('h, 'st, unit) px" where
  "remove_proxy cfg ctx delegate proxy_type delay =
     (let delegate = px_into_account_id cfg delegate
      in evm_bind (decode_type cfg ''proxyType'' proxy_type)
     (\<lambda>proxy_type. let origin = px_into_account_id cfg (ctx_caller ctx)
      in on_world (px_try_dispatch cfg origin (RemoveProxy delegate proxy_type delay))))"

definition remove_proxies :: "('acct, 'pt, 'st, 'h) proxy_config \<Rightarrow> evm_context \<Rightarrow> ('h, 'st, unit) px" where
  "remove_proxies cfg ctx =
     (let origin = px_into_account_id cfg (ctx_caller ctx) in on_world (px_try_dispatch cfg origin RemoveProxies))"

definition is_proxy ::
    "('acct, 'pt, 'st, 'h) proxy_config \<Rightarrow> H160 \<Rightarrow> H160 \<Rightarrow> u8 \<Rightarrow> u32 \<Rightarrow> ('h, 'st, bool) px" where
  "is_proxy cfg real delegate proxy_type delay =
     (let delegate = px_into_account_id cfg delegate
      in evm_bind (decode_type cfg ''proxyType'' proxy_type)
     (\<lambda>proxy_type. let real = px_into_account_id cfg real
      in evm_bind (on_handle (record_db_read (px_api cfg) (read_proxies_cost cfg)))
     (\<lambda>_. evm_get (\<lambda>st. list_ex (\<lambda>pd. pd_delegate pd = delegate \<and> pd_proxy_type pd = proxy_type \<and> pd_delay pd = delay)
            (proxies cfg st real)))))"

definition address_type_of :: "('acct, 'pt, 'st, 'h) proxy_config \<Rightarrow> H160 \<Rightarrow> ('h, 'st, address_type) px" where
  "address_type_of cfg address w =
     and_then (get_address_type cfg address (whandle w, wstate w)) (\<lambda>(t, h). Ok (t, w\<lparr>whandle := h\<rparr>))"

lemma address_type_of_Ok_iff [evm_iff]:
  "address_type_of cfg address w = Ok (t, w') \<longleftrightarrow>
     (\<exists>h. get_address_type cfg address (whandle w, wstate w) = Ok (t, h) \<and> w' = w\<lparr>whandle := h\<rparr>)"
  by (auto simp: address_type_of_def)

text \<open>The value of the call goes back to the proxy; the call itself is paid by the real account.\<close>

definition return_value ::
    "('acct, 'pt, 'st, 'h) proxy_config \<Rightarrow> evm_context \<Rightarrow> 'acct \<Rightarrow> U256 \<Rightarrow> H160 \<Rightarrow> H160
      \<Rightarrow> ('h, 'st, evm_transfer option) px" where
  "return_value cfg ctx who value real address =
     (if value = 0 then evm_ret None
      else evm_bind (evm_lift (if unat value < 2 ^ 128 then Ok (ucast value) else Err (RevertOutput [])))
       (\<lambda>balance. evm_bind (on_world (px_transfer cfg (px_into_account_id cfg (ctx_address ctx)) who balance))
       (\<lambda>_. evm_ret (Some \<lparr>transfer_source = real, transfer_target = address, transfer_value = value\<rparr>))))"

definition subcall_result :: "exit_reason \<times> u8 list \<Rightarrow> (evm_failure, unit) result" where
  "subcall_result exit =
     (case fst exit of
        ExitFatal exit_status \<Rightarrow> Err (ExitFatalErr exit_status)
      | ExitRevert \<Rightarrow> Err (RevertOutput (snd exit))
      | ExitError exit_status \<Rightarrow> Err (ExitErr exit_status)
      | ExitSucceed \<Rightarrow> Ok ())"

lemma subcall_result_Ok_iff: "subcall_result exit = Ok u \<longleftrightarrow> (\<exists>out. exit = (ExitSucceed, out))"
  by (cases exit) (auto simp: subcall_result_def split: exit_reason.splits)

definition inner_proxy ::
    "('acct, 'pt, 'st, 'h) proxy_config \<Rightarrow> evm_context \<Rightarrow> H160 \<Rightarrow> 'pt option \<Rightarrow> evm_sub_call \<Rightarrow> ('h, 'st, unit) px" where
  "inner_proxy cfg ctx real force_proxy_type evm_subcall =
     evm_bind (address_type_of cfg real)
     (\<lambda>t. if t \<noteq> AtEOA then evm_fail (Revert ''real address must be EOA'')
      else
        let real_account_id = px_into_account_id cfg real;
            who = px_into_account_id cfg (ctx_caller ctx)
        in evm_bind (on_handle (record_db_read (px_api cfg) (read_proxies_cost cfg)))
     (\<lambda>_. evm_bind (evm_get (\<lambda>st. find_proxy cfg st real_account_id who force_proxy_type))
     (\<lambda>found. evm_bind (evm_lift (ok_or (Revert ''Not proxy'') found))
     (\<lambda>def. evm_bind (evm_ensure (pd_delay def = 0) ''Unannounced'')
     (\<lambda>_. evm_bind (on_handle (record_db_read (px_api cfg) 41))
     (\<lambda>_. evm_bind (evm_get (\<lambda>st. case account_code_len cfg st (sc_to evm_subcall) of Some n \<Rightarrow> n > 0 | None \<Rightarrow> False))
     (\<lambda>recipient_has_code. evm_bind (\<lambda>w. evm_lift (is_evm_proxy_call_allowed cfg (pd_proxy_type def) evm_subcall
            recipient_has_code (remaining_gas (px_api cfg) (whandle w))) w)
     (\<lambda>permitted. evm_bind (evm_ensure permitted ''CallFiltered'')
     (\<lambda>_. evm_bind (return_value cfg ctx who (sc_value evm_subcall) real (sc_to evm_subcall))
     (\<lambda>transfer. evm_bind (\<lambda>w. Ok (proxy_sub_call cfg (sc_to evm_subcall) transfer (sc_call_data evm_subcall)
            (Some (remaining_gas (px_api cfg) (whandle w))) False
            \<lparr>ctx_address = sc_to evm_subcall, ctx_caller = real, ctx_apparent_value = sc_value evm_subcall\<rparr> w))
     (\<lambda>exit. evm_lift (subcall_result exit))))))))))))"

definition proxy ::
    "('acct, 'pt, 'st, 'h) proxy_config \<Rightarrow> evm_context \<Rightarrow> H160 \<Rightarrow> H160 \<Rightarrow> u8 list \<Rightarrow> ('h, 'st, unit) px" where
  "proxy cfg ctx real call_to call_data =
     (let evm_subcall = \<lparr>sc_to = call_to, sc_value = ctx_apparent_value ctx, sc_call_data = call_data\<rparr>
      in inner_proxy cfg ctx real None evm_subcall)"

definition proxy_force_type ::
    "('acct, 'pt, 'st, 'h) proxy_config \<Rightarrow> evm_context \<Rightarrow> H160 \<Rightarrow> u8 \<Rightarrow> H160 \<Rightarrow> u8 list \<Rightarrow> ('h, 'st, unit) px" where
  "proxy_force_type cfg ctx real force_proxy_type call_to call_data =
     evm_bind (decode_type cfg ''forceProxyType'' force_proxy_type)
     (\<lambda>proxy_type.
        let evm_subcall = \<lparr>sc_to = call_to, sc_value = ctx_apparent_value ctx, sc_call_data = call_data\<rparr>
        in inner_proxy cfg ctx real (Some proxy_type) evm_subcall)"

section \<open>What the proxy pallet promises\<close>

text \<open>
  \<^verbatim>\<open>find_proxy\<close> of the proxy pallet returns one of the definitions of the real account, for the given
  delegate and, when one is asked for, of the given type. Adding a proxy inserts the definition into
  the list of the origin; removing only takes definitions away; and neither touches the list of
  anybody else.
\<close>

definition proxy_pallet_ok :: "('acct, 'pt, 'st, 'h) proxy_config \<Rightarrow> bool" where
  "proxy_pallet_ok cfg \<longleftrightarrow>
     (\<forall>st real who ft def. find_proxy cfg st real who ft = Some def \<longrightarrow>
        def \<in> set (proxies cfg st real) \<and> pd_delegate def = who \<and>
        (\<forall>t. ft = Some t \<longrightarrow> pd_proxy_type def = t)) \<and>
     (\<forall>origin call h st h' st'. px_try_dispatch cfg origin call (h, st) = Ok (h', st') \<longrightarrow>
        (\<forall>other. other \<noteq> origin \<longrightarrow> proxies cfg st' other = proxies cfg st other) \<and>
        (case call of
           AddProxy d t del \<Rightarrow> \<exists>xs ys. proxies cfg st origin = xs @ ys \<and>
             proxies cfg st' origin = xs @ \<lparr>pd_delegate = d, pd_proxy_type = t, pd_delay = del\<rparr> # ys
         | RemoveProxy d t del \<Rightarrow>
             proxies cfg st' origin = filter (\<lambda>pd. pd \<noteq> \<lparr>pd_delegate = d, pd_proxy_type = t, pd_delay = del\<rparr>)
               (proxies cfg st origin)
         | RemoveProxies \<Rightarrow> proxies cfg st' origin = []))"

definition one_proxy_per_delegate :: "('acct, 'pt, 'st, 'h) proxy_config \<Rightarrow> 'st \<Rightarrow> bool" where
  "one_proxy_per_delegate cfg st \<longleftrightarrow> (\<forall>a. distinct (map pd_delegate (proxies cfg st a)))"

datatype px_op =
    OpAddProxy evm_context H160 u8 u32
  | OpRemoveProxy evm_context H160 u8 u32
  | OpRemoveProxies evm_context

definition px_call :: "('acct, 'pt, 'st, 'h) proxy_config \<Rightarrow> px_op \<Rightarrow> ('h, 'st, unit) px" where
  "px_call cfg op =
     (case op of
        OpAddProxy ctx d t del \<Rightarrow> add_proxy cfg ctx d t del
      | OpRemoveProxy ctx d t del \<Rightarrow> remove_proxy cfg ctx d t del
      | OpRemoveProxies ctx \<Rightarrow> remove_proxies cfg ctx)"

lemma proxy_dispatch_laws:
  assumes "proxy_pallet_ok cfg" "px_try_dispatch cfg origin call (h, st) = Ok (h', st')"
  shows "other \<noteq> origin \<Longrightarrow> proxies cfg st' other = proxies cfg st other"
    and "call = AddProxy d t del \<Longrightarrow> \<exists>xs ys. proxies cfg st origin = xs @ ys \<and>
           proxies cfg st' origin = xs @ \<lparr>pd_delegate = d, pd_proxy_type = t, pd_delay = del\<rparr> # ys"
    and "call = RemoveProxy d t del \<Longrightarrow> proxies cfg st' origin =
           filter (\<lambda>pd. pd \<noteq> \<lparr>pd_delegate = d, pd_proxy_type = t, pd_delay = del\<rparr>) (proxies cfg st origin)"
    and "call = RemoveProxies \<Longrightarrow> proxies cfg st' origin = []"
  using assms(1) [unfolded proxy_pallet_ok_def, THEN conjunct2, rule_format, OF assms(2)] by simp_all

lemma distinct_map_filter: "distinct (map f xs) \<Longrightarrow> distinct (map f (filter P xs))"
  by (induction xs) auto

lemma one_proxy_dispatch:
  assumes "proxy_pallet_ok cfg" "one_proxy_per_delegate cfg st"
    and "px_try_dispatch cfg origin call (h, st) = Ok (h', st')"
    and "\<And>d t del. call = AddProxy d t del \<Longrightarrow> d \<notin> pd_delegate ` set (proxies cfg st origin)"
  shows "one_proxy_per_delegate cfg st'"
  unfolding one_proxy_per_delegate_def
proof
  note laws = proxy_dispatch_laws [OF assms(1,3)]
  have dist: "distinct (map pd_delegate (proxies cfg st a))" for a
    using assms(2) by (simp add: one_proxy_per_delegate_def)
  fix a
  show "distinct (map pd_delegate (proxies cfg st' a))"
  proof (cases "a = origin")
    case False
    with laws(1) dist show ?thesis by simp
  next
    case True
    show ?thesis
    proof (cases call)
      case (AddProxy d t del)
      from laws(2) [OF AddProxy] obtain xs ys where "proxies cfg st origin = xs @ ys"
        "proxies cfg st' origin = xs @ \<lparr>pd_delegate = d, pd_proxy_type = t, pd_delay = del\<rparr> # ys" by blast
      with True assms(4) [OF AddProxy] dist [of origin] show ?thesis by auto
    next
      case (RemoveProxy d t del)
      with True laws(3) [OF RemoveProxy] dist [of origin] show ?thesis by (simp add: distinct_map_filter)
    next
      case RemoveProxies
      with True laws(4) show ?thesis by simp
    qed
  qed
qed

lemma px_call_dispatches:
  assumes "px_call cfg op w = Ok ((), w')"
  shows "\<exists>origin call h h'. px_try_dispatch cfg origin call (h, wstate w) = Ok (h', wstate w') \<and>
     (\<forall>d t del. call = AddProxy d t del \<longrightarrow> d \<notin> pd_delegate ` set (proxies cfg (wstate w) origin))"
  using assms
  by (cases op)
     (force simp: px_call_def add_proxy_def remove_proxy_def remove_proxies_def decode_type_def evm_iff Let_def
       list_ex_iff split: if_splits)+

text \<open>The precompile's calls that change the proxies, as a transition system over the state.\<close>

inductive px_step :: "('acct, 'pt, 'st, 'h) proxy_config \<Rightarrow> 'st \<Rightarrow> 'st \<Rightarrow> bool"
  for cfg :: "('acct, 'pt, 'st, 'h) proxy_config"
  where
    "px_call cfg op \<lparr>whandle = h, wstate = st\<rparr> = Ok ((), w') \<Longrightarrow> px_step cfg st (wstate w')"

definition px_init :: "('acct, 'pt, 'st, 'h) proxy_config \<Rightarrow> 'st \<Rightarrow> bool" where
  "px_init cfg st \<longleftrightarrow> proxy_pallet_ok cfg \<and> (\<forall>a. proxies cfg st a = [])"

lemma px_step_keeps_one:
  assumes "px_step cfg st st'" "proxy_pallet_ok cfg" "one_proxy_per_delegate cfg st"
  shows "one_proxy_per_delegate cfg st'"
  using assms(1)
proof cases
  case (1 op h w')
  from px_call_dispatches [OF 1(2)] obtain origin call h1 h2
    where "px_try_dispatch cfg origin call (h1, st) = Ok (h2, st')"
      "\<forall>d t del. call = AddProxy d t del \<longrightarrow> d \<notin> pd_delegate ` set (proxies cfg st origin)"
    using 1(1) by auto
  then show ?thesis by (intro one_proxy_dispatch [OF assms(2,3)]) auto
qed

interpretation px: invariant_system "px_init cfg" "px_step cfg"
  "\<lambda>st. proxy_pallet_ok cfg \<and> one_proxy_per_delegate cfg st" for cfg
proof
  show "proxy_pallet_ok cfg \<and> one_proxy_per_delegate cfg st" if "px_init cfg st" for st
    using that by (simp add: px_init_def one_proxy_per_delegate_def)
  show "proxy_pallet_ok cfg \<and> one_proxy_per_delegate cfg st'"
    if "proxy_pallet_ok cfg \<and> one_proxy_per_delegate cfg st" "px_step cfg st st'" for st st'
    using px_step_keeps_one [OF that(2)] that(1) by simp
qed

section \<open>Properties\<close>

text \<open>
  C19: A proxied call that goes through was authorised: the account it acts for is externally owned
  and has, at that moment, a proxy definition without delay for the caller, of the forced type if
  one is given, whose filter allowed exactly this call; the call ran with that account as caller and
  succeeded.
\<close>

theorem proxied_call_authorised:
  assumes "proxy_pallet_ok cfg" "inner_proxy cfg ctx real force evm_subcall w = Ok ((), w')"
  shows "\<exists>def gas has_code. def \<in> set (proxies cfg (wstate w) (px_into_account_id cfg real)) \<and>
     pd_delegate def = px_into_account_id cfg (ctx_caller ctx) \<and> pd_delay def = 0 \<and>
     (force = None \<or> force = Some (pd_proxy_type def)) \<and>
     is_evm_proxy_call_allowed cfg (pd_proxy_type def) evm_subcall has_code gas = Ok True \<and>
     (\<exists>h. get_address_type cfg real (whandle w, wstate w) = Ok (AtEOA, h)) \<and>
     (\<exists>w1 transfer limit out. proxy_sub_call cfg (sc_to evm_subcall) transfer (sc_call_data evm_subcall) limit False
        \<lparr>ctx_address = sc_to evm_subcall, ctx_caller = real, ctx_apparent_value = sc_value evm_subcall\<rparr> w1
        = ((ExitSucceed, out), w'))"
proof -
  let ?real = "px_into_account_id cfg real" and ?who = "px_into_account_id cfg (ctx_caller ctx)"
  from assms(2) obtain h def gas has_code where
    eoa: "get_address_type cfg real (whandle w, wstate w) = Ok (AtEOA, h)"
    and def: "find_proxy cfg (wstate w) ?real ?who force = Some def" "pd_delay def = 0"
    and allowed: "is_evm_proxy_call_allowed cfg (pd_proxy_type def) evm_subcall has_code gas = Ok True"
    by (auto simp: inner_proxy_def evm_iff Let_def split: if_splits)
  have "\<exists>w1 transfer limit out. proxy_sub_call cfg (sc_to evm_subcall) transfer (sc_call_data evm_subcall) limit False
        \<lparr>ctx_address = sc_to evm_subcall, ctx_caller = real, ctx_apparent_value = sc_value evm_subcall\<rparr> w1
        = ((ExitSucceed, out), w')"
    using assms(2) by (auto simp: inner_proxy_def evm_iff Let_def subcall_result_Ok_iff split: if_splits)
  moreover have "def \<in> set (proxies cfg (wstate w) ?real) \<and> pd_delegate def = ?who \<and>
      (force = None \<or> force = Some (pd_proxy_type def))"
    using assms(1) [unfolded proxy_pallet_ok_def, THEN conjunct1, rule_format, OF def(1)] by (cases force) auto
  ultimately show ?thesis using eoa def(2) allowed by blast
qed

text \<open>
  Through the precompile no account ever gets two proxy definitions for the same delegate, so a
  proxy type that is found is the only one the delegate has.
\<close>

theorem one_proxy_definition_per_delegate:
  assumes "reachable (px_init cfg) (px_step cfg) st"
    and "pd \<in> set (proxies cfg st a)" "pd' \<in> set (proxies cfg st a)" "pd_delegate pd = pd_delegate pd'"
  shows "pd = pd'"
proof -
  have "distinct (map pd_delegate (proxies cfg st a))"
    using px.invar_reachable [OF assms(1)] by (simp add: one_proxy_per_delegate_def)
  with assms(2-) show ?thesis by (auto simp: distinct_map inj_on_def)
qed

text \<open>A proxy pallet with lists of definitions, for concrete runs; every call succeeds.\<close>

type_synonym demo_proxies = "H160 \<Rightarrow> (H160, u8) proxy_definition list"

definition proxy_demo :: "(H160, u8, demo_proxies, gas_meter) proxy_config" where
  "proxy_demo = \<lparr>px_api = gas_handle, px_into_account_id = (\<lambda>a. a), MaxProxies = 4,
     decode_proxy_type = (\<lambda>bs. case bs of [b] \<Rightarrow> if b < 3 then Some b else None | _ \<Rightarrow> None),
     px_try_dispatch = (\<lambda>origin call (h, st). Ok (h, st(origin := (case call of
        AddProxy d t del \<Rightarrow> \<lparr>pd_delegate = d, pd_proxy_type = t, pd_delay = del\<rparr> # st origin
      | RemoveProxy d t del \<Rightarrow> filter (\<lambda>pd. pd \<noteq> \<lparr>pd_delegate = d, pd_proxy_type = t, pd_delay = del\<rparr>) (st origin)
      | RemoveProxies \<Rightarrow> [])))),
     px_transfer = (\<lambda>a b v w. Ok w), proxies = (\<lambda>st a. st a),
     find_proxy = (\<lambda>st real who ft. List.find (\<lambda>pd. pd_delegate pd = who \<and>
        (case ft of None \<Rightarrow> True | Some t \<Rightarrow> pd_proxy_type pd = t)) (st real)),
     get_address_type = (\<lambda>a (h, st). Ok (if a < 100 then AtEOA else AtContract, h)),
     account_code_len = (\<lambda>st a. None),
     is_evm_proxy_call_allowed = (\<lambda>t sc has_code gas. Ok (t = 0)),
     proxy_sub_call = (\<lambda>target tr data gas st ctx w. ((ExitSucceed, []), w))\<rparr>"

lemma proxy_demo_ok: "proxy_pallet_ok proxy_demo"
  unfolding proxy_pallet_ok_def
proof (intro conjI allI impI, goal_cases)
  case (1 st real who ft def)
  then show ?case by (auto simp: proxy_demo_def find_Some_iff)
next
  case (2 st real who ft def)
  then show ?case by (auto simp: proxy_demo_def find_Some_iff)
next
  case (3 st real who ft def t)
  then show ?case by (auto simp: proxy_demo_def find_Some_iff)
next
  case (4 origin call h st h' st' other)
  then show ?case by (auto simp: proxy_demo_def)
next
  case (5 origin call h st h' st')
  have "\<exists>xs ys. zs = xs @ ys \<and> pd # zs = xs @ pd # ys" for pd and zs :: "(H160, u8) proxy_definition list"
    by (intro exI [of _ "[]"] exI [of _ zs]) simp
  with 5 show ?case by (cases call) (auto simp: proxy_demo_def)
qed

definition proxy_demo_context :: evm_context where
  "proxy_demo_context = \<lparr>ctx_address = 2059, ctx_caller = 5, ctx_apparent_value = 0\<rparr>"

definition proxy_demo_world :: "(gas_meter, demo_proxies) world" where
  "proxy_demo_world = \<lparr>whandle = (1000, []), wstate = (\<lambda>_. [])(9 := [\<lparr>pd_delegate = 5, pd_proxy_type = 0, pd_delay = 0\<rparr>])\<rparr>"

theorem proxied_call_authorised_witness:
  "\<exists>w'. proxy proxy_demo proxy_demo_context 9 70 [] proxy_demo_world = Ok ((), w') \<and>
     (\<exists>def. def \<in> set (proxies proxy_demo (wstate proxy_demo_world) 9) \<and> pd_delegate def = 5 \<and> pd_delay def = 0)"
proof -
  let ?sc = "\<lparr>sc_to = 70, sc_value = 0, sc_call_data = []\<rparr>"
  have eq: "proxy proxy_demo proxy_demo_context 9 70 [] = inner_proxy proxy_demo proxy_demo_context 9 None ?sc"
    by (simp add: proxy_def proxy_demo_context_def)
  obtain w' where w': "inner_proxy proxy_demo proxy_demo_context 9 None ?sc proxy_demo_world = Ok ((), w')"
    by (simp add: inner_proxy_def return_value_def address_type_of_def subcall_result_def evm_defs proxy_demo_def proxy_demo_world_def
        proxy_demo_context_def gas_handle_def charge_def checked_sub_def Let_def)
  from proxied_call_authorised [OF proxy_demo_ok w'] have
    "\<exists>def. def \<in> set (proxies proxy_demo (wstate proxy_demo_world) 9) \<and> pd_delegate def = 5 \<and> pd_delay def = 0"
    by (auto simp: proxy_demo_def proxy_demo_context_def)
  with w' eq show ?thesis by auto
qed

theorem one_proxy_definition_per_delegate_witness:
  "\<lparr>pd_delegate = 5, pd_proxy_type = 1, pd_delay = 0\<rparr> \<in> set (proxies proxy_demo
     ((\<lambda>_. [])(9 := [\<lparr>pd_delegate = 5, pd_proxy_type = 1, pd_delay = 0\<rparr>])) 9) \<and>
   \<lparr>pd_delegate = 5, pd_proxy_type = 2, pd_delay = 0\<rparr> \<notin> set (proxies proxy_demo
     ((\<lambda>_. [])(9 := [\<lparr>pd_delegate = 5, pd_proxy_type = 1, pd_delay = 0\<rparr>])) 9)"
proof -
  let ?st = "(\<lambda>_. [])(9 := [\<lparr>pd_delegate = 5, pd_proxy_type = 1, pd_delay = 0\<rparr>]) :: demo_proxies"
  let ?ctx = "\<lparr>ctx_address = 2059, ctx_caller = 9, ctx_apparent_value = 0\<rparr>"
  have "px_call proxy_demo (OpAddProxy ?ctx 5 1 0) \<lparr>whandle = (1000, []), wstate = \<lambda>_. []\<rparr>
      = Ok ((), \<lparr>whandle = (999, []), wstate = ?st\<rparr>)"
    by (simp add: px_call_def add_proxy_def decode_type_def on_world_def evm_defs proxy_demo_def gas_handle_def
        charge_def checked_sub_def Let_def)
  from px_step.intros [OF this] have "px_step proxy_demo (\<lambda>_. []) ?st" by simp
  moreover have "reachable (px_init proxy_demo) (px_step proxy_demo) (\<lambda>_. [])"
    by (rule reach_init) (simp add: px_init_def proxy_demo_ok, simp add: proxy_demo_def)
  ultimately have r: "reachable (px_init proxy_demo) (px_step proxy_demo) ?st" by (rule reach_step [rotated])
  have in_st: "\<lparr>pd_delegate = 5, pd_proxy_type = 1, pd_delay = 0\<rparr> \<in> set (proxies proxy_demo ?st 9)"
    by (simp add: proxy_demo_def)
  have "(1 :: u8) \<noteq> 2" by simp
  with one_proxy_definition_per_delegate [OF r in_st, of "\<lparr>pd_delegate = 5, pd_proxy_type = 2, pd_delay = 0\<rparr>"] in_st
  show ?thesis by auto
qed

end
