(* ===== verification/Xcm_Precompiles.thy ===== *)
theory Xcm_Precompiles
  imports Evm_Interfaces Xcm_Primitives "HOL-Library.Multiset"
begin

text \<open>
  \<^verbatim>\<open>precompiles/pallet-xcm\<close>: asset transfers to other chains, with assets given by location or by the
  address of their token contract; and \<^verbatim>\<open>precompiles/xcm-utils\<close>: queries about locations, fees and
  weights, and the execution and sending of raw messages, with the holding register of
  \<^verbatim>\<open>holding.rs\<close>. The XCM pallet and the \<^verbatim>\<open>xcm\<close> crate are parameters.
\<close>

section \<open>Data\<close>

text \<open>A fungible asset: the location that is its id, and an amount.\<close>

record xcm_asset =
  xa_id :: location
  xa_amount :: u128

datatype transfer_type =
    Teleport
  | LocalReserve
  | DestinationReserve
  | RemoteReserve location

datatype transfer_type_helper = HelperTeleport | HelperLocalReserve | HelperDestinationReserve

text \<open>
  The calls of the XCM pallet that are dispatched; transfers always with an unlimited weight.
  \<open>'xcm\<close> are decoded messages for other chains, \<open>'lxcm\<close> messages with calls of this chain.
\<close>

datatype ('xcm, 'lxcm) pallet_xcm_call =
    TransferAssets location location "xcm_asset list" u32
  | TransferAssetsUsingTypeAndThen location "xcm_asset list" transfer_type location transfer_type 'xcm
  | Execute 'lxcm "u64 \<times> u64"
  | Send location 'xcm

text \<open>
  \<open>assets_from\<close> is the conversion of a vector into \<^verbatim>\<open>Assets\<close> (it sorts the assets and merges those with
  the same id), \<open>matcher_convert\<close> the location matcher of the runtime, which reads its storage.
\<close>

record ('acct, 'xcm, 'lxcm, 'st, 'h) xcm_config =
  xc_api :: "'h precompile_handle"
  xc_into_account_id :: "H160 \<Rightarrow> 'acct"
  location_max_encoded_len :: nat
  matcher_convert :: "'st \<Rightarrow> 'acct \<Rightarrow> location option"
  assets_from :: "xcm_asset list \<Rightarrow> xcm_asset list"
  decode_xcm :: "u8 list \<Rightarrow> 'xcm option"
  decode_lxcm :: "u8 list \<Rightarrow> 'lxcm option"
  xc_try_dispatch :: "'acct \<Rightarrow> ('xcm, 'lxcm) pallet_xcm_call \<Rightarrow> u64 \<Rightarrow> 'h \<times> 'st \<Rightarrow> (evm_failure, 'h \<times> 'st) result"

type_synonym ('h, 'st, 'a) xc = "(('h, 'st) world, 'a) evm"

text \<open>
  The limits of the arguments. They are enforced by the decoder of \<^verbatim>\<open>precompile_utils\<close>; the functions
  below take decoded arguments.
\<close>

definition MAX_ASSETS_ARRAY_LIMIT :: nat where
  "MAX_ASSETS_ARRAY_LIMIT = 2"

definition XCM_SIZE_LIMIT :: nat where
  "XCM_SIZE_LIMIT = 2 ^ 16"

definition dispatch_xcm ::
    "('acct, 'xcm, 'lxcm, 'st, 'h) xcm_config \<Rightarrow> 'acct \<Rightarrow> ('xcm, 'lxcm) pallet_xcm_call \<Rightarrow> u64 \<Rightarrow> ('h, 'st, unit) xc" where
  "dispatch_xcm cfg origin call storage_growth w =
     and_then (xc_try_dispatch cfg origin call storage_growth (whandle w, wstate w))
     (\<lambda>(h, st). Ok ((), \<lparr>whandle = h, wstate = st\<rparr>))"

lemma dispatch_xcm_Ok_iff [evm_iff]:
  "dispatch_xcm cfg origin call g w = Ok (u, w') \<longleftrightarrow>
     xc_try_dispatch cfg origin call g (whandle w, wstate w) = Ok (whandle w', wstate w')"
  by (cases w') (auto simp: dispatch_xcm_def)

section \<open>The helpers of \<^verbatim>\<open>pallet-xcm\<close>\<close>

text \<open>\<^verbatim>\<open>convert_assets\<close>: the loop stops with a revert at the first address that is not an asset.\<close>

fun convert_assets :: "(H160 \<Rightarrow> location option) \<Rightarrow> (H160 \<times> u128) list \<Rightarrow> (evm_failure, (location \<times> u128) list) result" where
  "convert_assets resolve [] = Ok []"
| "convert_assets resolve ((address, amount) # rest) =
     (case resolve address of
        Some asset_loc \<Rightarrow> and_then (convert_assets resolve rest) (\<lambda>done. Ok ((asset_loc, amount) # done))
      | None \<Rightarrow> Err (Revert ''Asset not found''))"

definition resolve_address :: "('acct, 'xcm, 'lxcm, 'st, 'h) xcm_config \<Rightarrow> 'st \<Rightarrow> H160 \<Rightarrow> location option" where
  "resolve_address cfg st address = matcher_convert cfg st (xc_into_account_id cfg address)"

text \<open>\<^verbatim>\<open>Asset::from((location, amount))\<close>.\<close>

definition fungible_asset :: "location \<times> u128 \<Rightarrow> xcm_asset" where
  "fungible_asset a = \<lparr>xa_id = fst a, xa_amount = snd a\<rparr>"

definition get_assets_to_send_and_remote_fees ::
    "('acct, 'xcm, 'lxcm, 'st, 'h) xcm_config \<Rightarrow> (location \<times> u128) list \<Rightarrow> nat option
      \<Rightarrow> (evm_failure, xcm_asset list \<times> location option) result" where
  "get_assets_to_send_and_remote_fees cfg asset_list remote_fees_id_index =
     (let assets_to_send = assets_from cfg (map fungible_asset asset_list)
      in (case remote_fees_id_index of
            Some index \<Rightarrow>
              if index < length assets_to_send then Ok (assets_to_send, Some (xa_id (assets_to_send ! index)))
              else Err (Revert ''remote_fees_id not found'')
          | None \<Rightarrow> Ok (assets_to_send, None)))"

definition decode_transfer_type_helper :: "u8 \<Rightarrow> transfer_type_helper option" where
  "decode_transfer_type_helper b =
     (if b = 0 then Some HelperTeleport else if b = 1 then Some HelperLocalReserve
      else if b = 2 then Some HelperDestinationReserve else None)"

definition parse_transfer_type :: "u8 \<Rightarrow> (evm_failure, transfer_type) result" where
  "parse_transfer_type b =
     and_then (ok_or (Revert ''Failed decoding value for TransferTypeHelper'') (decode_transfer_type_helper b))
     (\<lambda>helper. case helper of
        HelperTeleport \<Rightarrow> Ok Teleport
      | HelperLocalReserve \<Rightarrow> Ok LocalReserve
      | HelperDestinationReserve \<Rightarrow> Ok DestinationReserve)"

section \<open>Transfers (\<^verbatim>\<open>pallet-xcm\<close>)\<close>

definition transfer_assets_location ::
    "('acct, 'xcm, 'lxcm, 'st, 'h) xcm_config \<Rightarrow> evm_context \<Rightarrow> location \<Rightarrow> location \<Rightarrow> (location \<times> u128) list \<Rightarrow> u32
      \<Rightarrow> ('h, 'st, unit) xc" where
  "transfer_assets_location cfg ctx dest beneficiary asset_list fee_asset_item =
     evm_bind (on_handle (record_cost (xc_api cfg) 1000))
     (\<lambda>_. let origin = xc_into_account_id cfg (ctx_caller ctx)
          in evm_bind (evm_lift (get_assets_to_send_and_remote_fees cfg asset_list None))
     (\<lambda>(assets_to_send, _).
        dispatch_xcm cfg origin (TransferAssets dest beneficiary assets_to_send fee_asset_item) 0))"

text \<open>
  The part that the transfers to a parachain (with 20 or 32 byte accounts) and to the relay chain
  share: they differ in the destination and the beneficiary they generate.
\<close>

definition transfer_assets_to ::
    "('acct, 'xcm, 'lxcm, 'st, 'h) xcm_config \<Rightarrow> evm_context \<Rightarrow> location \<Rightarrow> location \<Rightarrow> (H160 \<times> u128) list \<Rightarrow> u32
      \<Rightarrow> ('h, 'st, unit) xc" where
  "transfer_assets_to cfg ctx dest beneficiary asset_list fee_asset_item =
     evm_bind (on_handle (record_db_read (xc_api cfg) (32 + location_max_encoded_len cfg)))
     (\<lambda>_. evm_bind (on_handle (record_cost (xc_api cfg) 1000))
     (\<lambda>_. let origin = xc_into_account_id cfg (ctx_caller ctx)
          in evm_bind (evm_get (\<lambda>st. convert_assets (resolve_address cfg st) asset_list))
     (\<lambda>converted. evm_bind (evm_lift converted)
     (\<lambda>assets_converted. evm_bind (evm_lift (get_assets_to_send_and_remote_fees cfg assets_converted None))
     (\<lambda>(assets_to_send, _).
        dispatch_xcm cfg origin (TransferAssets dest beneficiary assets_to_send fee_asset_item) 0)))))"

definition transfer_assets_to_para_20 ::
    "('acct, 'xcm, 'lxcm, 'st, 'h) xcm_config \<Rightarrow> evm_context \<Rightarrow> u32 \<Rightarrow> H160 \<Rightarrow> (H160 \<times> u128) list \<Rightarrow> u32
      \<Rightarrow> ('h, 'st, unit) xc" where
  "transfer_assets_to_para_20 cfg ctx para_id beneficiary asset_list fee_asset_item =
     transfer_assets_to cfg ctx (generate_sibling_destination para_id) (generate_local_beneficiary20 beneficiary)
       asset_list fee_asset_item"

definition transfer_assets_to_para_32 ::
    "('acct, 'xcm, 'lxcm, 'st, 'h) xcm_config \<Rightarrow> evm_context \<Rightarrow> u32 \<Rightarrow> H256 \<Rightarrow> (H160 \<times> u128) list \<Rightarrow> u32
      \<Rightarrow> ('h, 'st, unit) xc" where
  "transfer_assets_to_para_32 cfg ctx para_id beneficiary asset_list fee_asset_item =
     transfer_assets_to cfg ctx (generate_sibling_destination para_id) (generate_local_beneficiary32 beneficiary)
       asset_list fee_asset_item"

definition transfer_assets_to_relay ::
    "('acct, 'xcm, 'lxcm, 'st, 'h) xcm_config \<Rightarrow> evm_context \<Rightarrow> H256 \<Rightarrow> (H160 \<times> u128) list \<Rightarrow> u32
      \<Rightarrow> ('h, 'st, unit) xc" where
  "transfer_assets_to_relay cfg ctx beneficiary asset_list fee_asset_item =
     transfer_assets_to cfg ctx (location_new 1 []) (generate_local_beneficiary32 beneficiary) asset_list fee_asset_item"

text \<open>
  The four functions with explicit transfer types end in the same way: the fee asset is picked by its
  index, the transfer types are parsed or given, and the message for the destination is decoded.
\<close>

definition send_using_type_and_then ::
    "('acct, 'xcm, 'lxcm, 'st, 'h) xcm_config \<Rightarrow> evm_context \<Rightarrow> location \<Rightarrow> (location \<times> u128) list \<Rightarrow> u8
      \<Rightarrow> (evm_failure, transfer_type \<times> transfer_type) result \<Rightarrow> u8 list \<Rightarrow> ('h, 'st, unit) xc" where
  "send_using_type_and_then cfg ctx dest asset_list remote_fees_id_index types custom_xcm_on_dest =
     (let origin = xc_into_account_id cfg (ctx_caller ctx)
      in evm_bind (evm_lift (get_assets_to_send_and_remote_fees cfg asset_list (Some (unat remote_fees_id_index))))
     (\<lambda>(assets_to_send, remote_fees_id).
        evm_bind (evm_lift (ok_or (Revert ''remote_fees_id not found'') remote_fees_id))
     (\<lambda>remote_fees_id. evm_bind (evm_lift types)
     (\<lambda>(assets_transfer_type, fees_transfer_type).
        evm_bind (evm_lift (ok_or (Revert ''Failed decoding custom XCM message'') (decode_xcm cfg custom_xcm_on_dest)))
     (\<lambda>xcm. dispatch_xcm cfg origin
        (TransferAssetsUsingTypeAndThen dest assets_to_send assets_transfer_type remote_fees_id fees_transfer_type xcm) 0)))))"

definition parse_transfer_types :: "u8 \<Rightarrow> u8 \<Rightarrow> (evm_failure, transfer_type \<times> transfer_type) result" where
  "parse_transfer_types assets_transfer_type fees_transfer_type =
     and_then (parse_transfer_type assets_transfer_type)
     (\<lambda>a. and_then (parse_transfer_type fees_transfer_type) (\<lambda>f. Ok (a, f)))"

definition transfer_assets_using_type_and_then_location_no_remote_reserve ::
    "('acct, 'xcm, 'lxcm, 'st, 'h) xcm_config \<Rightarrow> evm_context \<Rightarrow> location \<Rightarrow> (location \<times> u128) list \<Rightarrow> u8 \<Rightarrow> u8 \<Rightarrow> u8
      \<Rightarrow> u8 list \<Rightarrow> ('h, 'st, unit) xc" where
  "transfer_assets_using_type_and_then_location_no_remote_reserve cfg ctx dest asset_list assets_transfer_type
       remote_fees_id_index fees_transfer_type custom_xcm_on_dest =
     evm_bind (on_handle (record_cost (xc_api cfg) 1000))
     (\<lambda>_. send_using_type_and_then cfg ctx dest asset_list remote_fees_id_index
            (parse_transfer_types assets_transfer_type fees_transfer_type) custom_xcm_on_dest)"

definition transfer_assets_using_type_and_then_location_remote_reserve ::
    "('acct, 'xcm, 'lxcm, 'st, 'h) xcm_config \<Rightarrow> evm_context \<Rightarrow> location \<Rightarrow> (location \<times> u128) list \<Rightarrow> u8
      \<Rightarrow> u8 list \<Rightarrow> location \<Rightarrow> ('h, 'st, unit) xc" where
  "transfer_assets_using_type_and_then_location_remote_reserve cfg ctx dest asset_list remote_fees_id_index
       custom_xcm_on_dest remote_reserve =
     evm_bind (on_handle (record_cost (xc_api cfg) 1000))
     (\<lambda>_. send_using_type_and_then cfg ctx dest asset_list remote_fees_id_index
            (Ok (RemoteReserve remote_reserve, RemoteReserve remote_reserve)) custom_xcm_on_dest)"

text \<open>The two functions that take token addresses convert them first.\<close>

definition convert_then ::
    "('acct, 'xcm, 'lxcm, 'st, 'h) xcm_config \<Rightarrow> (H160 \<times> u128) list \<Rightarrow> ((location \<times> u128) list \<Rightarrow> ('h, 'st, unit) xc)
      \<Rightarrow> ('h, 'st, unit) xc" where
  "convert_then cfg asset_list continue =
     evm_bind (on_handle (record_db_read (xc_api cfg) (32 + location_max_encoded_len cfg)))
     (\<lambda>_. evm_bind (on_handle (record_cost (xc_api cfg) 1000))
     (\<lambda>_. evm_bind (evm_get (\<lambda>st. convert_assets (resolve_address cfg st) asset_list))
     (\<lambda>converted. evm_bind (evm_lift converted) continue)))"

definition transfer_assets_using_type_and_then_address_no_remote_reserve ::
    "('acct, 'xcm, 'lxcm, 'st, 'h) xcm_config \<Rightarrow> evm_context \<Rightarrow> location \<Rightarrow> (H160 \<times> u128) list \<Rightarrow> u8 \<Rightarrow> u8 \<Rightarrow> u8
      \<Rightarrow> u8 list \<Rightarrow> ('h, 'st, unit) xc" where
  "transfer_assets_using_type_and_then_address_no_remote_reserve cfg ctx dest asset_list assets_transfer_type
       remote_fees_id_index fees_transfer_type custom_xcm_on_dest =
     convert_then cfg asset_list
     (\<lambda>assets_converted. send_using_type_and_then cfg ctx dest assets_converted remote_fees_id_index
            (parse_transfer_types assets_transfer_type fees_transfer_type) custom_xcm_on_dest)"

definition transfer_assets_using_type_and_then_address_remote_reserve ::
    "('acct, 'xcm, 'lxcm, 'st, 'h) xcm_config \<Rightarrow> evm_context \<Rightarrow> location \<Rightarrow> (H160 \<times> u128) list \<Rightarrow> u8
      \<Rightarrow> u8 list \<Rightarrow> location \<Rightarrow> ('h, 'st, unit) xc" where
  "transfer_assets_using_type_and_then_address_remote_reserve cfg ctx dest asset_list remote_fees_id_index
       custom_xcm_on_dest remote_reserve =
     convert_then cfg asset_list
     (\<lambda>assets_converted. send_using_type_and_then cfg ctx dest assets_converted remote_fees_id_index
            (Ok (RemoteReserve remote_reserve, RemoteReserve remote_reserve)) custom_xcm_on_dest)"

section \<open>The holding register (\<^verbatim>\<open>xcm-utils/src/holding.rs\<close>)\<close>

text \<open>
  A credit is its amount. The operations that take \<^verbatim>\<open>&mut self\<close> return their result and the new credit.
\<close>

datatype HoldingCredit = HoldingCredit u128

fun unsafe_clone :: "HoldingCredit \<Rightarrow> HoldingCredit" where
  "unsafe_clone (HoldingCredit n) = HoldingCredit n"

fun forget_imbalance :: "HoldingCredit \<Rightarrow> u128 \<times> HoldingCredit" where
  "forget_imbalance (HoldingCredit amount) = (amount, HoldingCredit 0)"

fun saturating_subsume :: "HoldingCredit \<Rightarrow> HoldingCredit \<Rightarrow> HoldingCredit" where
  "saturating_subsume (HoldingCredit n) other = HoldingCredit (saturating_add n (fst (forget_imbalance other)))"

fun credit_amount :: "HoldingCredit \<Rightarrow> u128" where
  "credit_amount (HoldingCredit n) = n"

fun saturating_take :: "u128 \<Rightarrow> HoldingCredit \<Rightarrow> HoldingCredit \<times> HoldingCredit" where
  "saturating_take amount (HoldingCredit n) =
     (let taken = min n amount in (HoldingCredit taken, HoldingCredit (n - taken)))"

text \<open>Taking from a credit neither creates nor destroys an amount, and takes all that was asked for if it is there.\<close>

lemma saturating_take_conserves:
  assumes "saturating_take amount c = (taken, rest)"
  shows "unat (credit_amount taken) + unat (credit_amount rest) = unat (credit_amount c) \<and>
     unat (credit_amount taken) = min (unat (credit_amount c)) (unat amount)"
proof (cases c)
  case (HoldingCredit n)
  have "min n amount \<le> n" by simp
  then have "unat (n - min n amount) = unat n - unat (min n amount)" by (rule unat_diff_no_wrap)
  moreover have "unat (min n amount) = min (unat n) (unat amount)"
    by (auto simp: min_def word_le_nat_alt)
  ultimately show ?thesis using assms HoldingCredit by (auto simp: Let_def)
qed

text \<open>Putting back what was taken restores the credit.\<close>

lemma subsume_take: "saturating_take amount c = (taken, rest) \<Longrightarrow> saturating_subsume rest taken = c"
proof -
  assume a: "saturating_take amount c = (taken, rest)"
  obtain n t r where c: "c = HoldingCredit n" "taken = HoldingCredit t" "rest = HoldingCredit r"
    by (metis HoldingCredit.exhaust)
  have "unat t + unat r = unat n" using saturating_take_conserves [OF a] c by simp
  then have "unat (saturating_add r t) = unat n"
    using unat_le_max [of n] by (simp add: unat_saturating_add)
  then show ?thesis using c by (auto intro: word_eqI_unat)
qed

section \<open>\<^verbatim>\<open>xcm-utils\<close>\<close>

text \<open>
  What the precompile takes from the XCM configuration of the runtime: the origin converter with the
  conversion to a signer's address, the trader (as the outcome of buying weight with a fresh trader),
  the weigher, and the holding \<open>'hold\<close> of the executor. Messages are decoded to \<open>'lxcm\<close> in
  any version; \<open>xcm_try_from\<close> converts them to the current version.
\<close>

record ('lxcm, 'hold, 'origin) xcm_utils_config =
  convert_origin :: "location \<Rightarrow> 'origin option"
  into_signer_address :: "'origin \<Rightarrow> H160 option"
  new_from_fungible_credit :: "location \<Rightarrow> HoldingCredit \<Rightarrow> 'hold"
  new_from_non_fungible :: "location \<Rightarrow> nat \<Rightarrow> 'hold"
  holding_fungible :: "'hold \<Rightarrow> location \<Rightarrow> HoldingCredit option"
  buy_weight :: "u64 \<times> u64 \<Rightarrow> 'hold \<Rightarrow> location \<Rightarrow> 'hold option"
  xcm_try_from :: "'lxcm \<Rightarrow> 'lxcm option"
  weigh :: "'lxcm \<Rightarrow> (u64 \<times> u64) option"
  xu_storage_growth :: u64

definition DEFAULT_PROOF_SIZE :: u64 where
  "DEFAULT_PROOF_SIZE = 256 * 1024"

datatype fungibility = Fungible u128 | NonFungible nat

definition asset_to_holding :: "('lxcm, 'hold, 'origin) xcm_utils_config \<Rightarrow> location \<times> fungibility \<Rightarrow> 'hold" where
  "asset_to_holding ucfg asset =
     (case snd asset of
        Fungible amount \<Rightarrow> new_from_fungible_credit ucfg (fst asset) (HoldingCredit amount)
      | NonFungible inst \<Rightarrow> new_from_non_fungible ucfg (fst asset) inst)"

text \<open>\<^verbatim>\<open>AllExceptXcmExecute::is_allowed\<close>, with the selectors that the precompile macro derives for \<^verbatim>\<open>xcm_execute\<close>.\<close>

definition all_except_xcm_execute :: "u32 list \<Rightarrow> H160 \<Rightarrow> u32 option \<Rightarrow> bool" where
  "all_except_xcm_execute xcm_execute_selectors caller selector =
     (case selector of
        None \<Rightarrow> True
      | Some selector \<Rightarrow> selector \<notin> set xcm_execute_selectors)"

definition multilocation_to_address ::
    "('acct, 'xcm, 'lxcm, 'st, 'h) xcm_config \<Rightarrow> ('lxcm, 'hold, 'origin) xcm_utils_config \<Rightarrow> location \<Rightarrow> ('h, 'st, H160) xc" where
  "multilocation_to_address cfg ucfg location =
     evm_bind (on_handle (record_db_read (xc_api cfg) (32 + location_max_encoded_len cfg)))
     (\<lambda>_. evm_bind (evm_lift (in_field ''location''
            (ok_or (Revert ''Failed location conversion'') (convert_origin ucfg location))))
     (\<lambda>origin. evm_lift (in_field ''location''
            (ok_or (Revert ''Failed location conversion'') (into_signer_address ucfg origin)))))"

definition get_units_per_second ::
    "('acct, 'xcm, 'lxcm, 'st, 'h) xcm_config \<Rightarrow> ('lxcm, 'hold, 'origin) xcm_utils_config \<Rightarrow> location \<Rightarrow> ('h, 'st, U256) xc" where
  "get_units_per_second cfg ucfg location =
     evm_bind (on_handle (record_db_read (xc_api cfg) (32 + location_max_encoded_len cfg)))
     (\<lambda>_. let multiasset = (location, Fungible (- 1));
              weight_per_second = 1000000000000
          in evm_bind (evm_lift (in_field ''location''
               (ok_or (Revert ''Asset not supported as fee payment'')
                 (buy_weight ucfg (weight_per_second, DEFAULT_PROOF_SIZE) (asset_to_holding ucfg multiasset) location))))
     (\<lambda>unused. case map_option (\<lambda>credit. saturating_sub (- 1) (credit_amount credit))
                       (holding_fungible ucfg unused (fst multiasset)) of
          Some amount \<Rightarrow> evm_ret (ucast amount)
        | None \<Rightarrow> evm_fail (Revert ''Weight was too expensive to be bought with this asset'')))"

definition weight_message ::
    "('acct, 'xcm, 'lxcm, 'st, 'h) xcm_config \<Rightarrow> ('lxcm, 'hold, 'origin) xcm_utils_config \<Rightarrow> u8 list \<Rightarrow> ('h, 'st, u64) xc" where
  "weight_message cfg ucfg message =
     evm_bind (evm_lift
        (case map_option (xcm_try_from ucfg) (decode_lxcm cfg message) of
           Some (Some x) \<Rightarrow> ok_or (Revert ''failed weighting'') (weigh ucfg x)
         | _ \<Rightarrow> in_field ''message'' (Err (Revert ''Failed decoding''))))
     (\<lambda>result. evm_ret (fst result))"

definition xcm_execute ::
    "('acct, 'xcm, 'lxcm, 'st, 'h) xcm_config \<Rightarrow> ('lxcm, 'hold, 'origin) xcm_utils_config \<Rightarrow> evm_context
      \<Rightarrow> u8 list \<Rightarrow> u64 \<Rightarrow> ('h, 'st, unit) xc" where
  "xcm_execute cfg ucfg ctx message weight =
     (let origin = xc_into_account_id cfg (ctx_caller ctx)
      in evm_bind (evm_lift (in_field ''message''
           (ok_or (Revert ''Failed xcm decoding'') (decode_lxcm cfg message))))
     (\<lambda>xcm. dispatch_xcm cfg origin (Execute xcm (weight, DEFAULT_PROOF_SIZE)) (xu_storage_growth ucfg)))"

definition xcm_send ::
    "('acct, 'xcm, 'lxcm, 'st, 'h) xcm_config \<Rightarrow> ('lxcm, 'hold, 'origin) xcm_utils_config \<Rightarrow> evm_context
      \<Rightarrow> location \<Rightarrow> u8 list \<Rightarrow> ('h, 'st, unit) xc" where
  "xcm_send cfg ucfg ctx dest message =
     (let origin = xc_into_account_id cfg (ctx_caller ctx)
      in evm_bind (evm_lift (in_field ''message''
           (ok_or (Revert ''Failed xcm decoding'') (decode_xcm cfg message))))
     (\<lambda>xcm. dispatch_xcm cfg origin (Send dest xcm) (xu_storage_growth ucfg)))"

section \<open>What is dispatched\<close>

text \<open>The conversion of token addresses succeeds exactly if each of them is an asset.\<close>

lemma convert_assets_Ok_iff:
  "convert_assets resolve xs = Ok ys \<longleftrightarrow> list_all2 (\<lambda>(a, n) (l, m). resolve a = Some l \<and> m = n) xs ys"
proof (induction xs arbitrary: ys)
  case (Cons x xs)
  obtain a n where x: "x = (a, n)" by (cases x)
  show ?case
  proof (cases ys)
    case Nil
    then show ?thesis by (simp add: x split: option.splits)
  next
    case (Cons y ys')
    then show ?thesis by (cases y) (auto simp: x Cons.IH split: option.splits)
  qed
qed auto

lemma convert_assets_eq:
  assumes "convert_assets resolve xs = Ok ys"
  shows "ys = map (\<lambda>(a, n). (the (resolve a), n)) xs \<and> (\<forall>a \<in> fst ` set xs. resolve a \<noteq> None)"
proof -
  from assms have "list_all2 (\<lambda>(a, n) (l, m). resolve a = Some l \<and> m = n) xs ys"
    by (simp add: convert_assets_Ok_iff)
  then show ?thesis by (induction rule: list_all2_induct) auto
qed

lemma get_assets_None [evm_iff]:
  "get_assets_to_send_and_remote_fees cfg xs None = Ok r \<longleftrightarrow> r = (assets_from cfg (map fungible_asset xs), None)"
  by (auto simp: get_assets_to_send_and_remote_fees_def Let_def)

lemma get_assets_Some [evm_iff]:
  "get_assets_to_send_and_remote_fees cfg xs (Some i) = Ok r \<longleftrightarrow>
     i < length (assets_from cfg (map fungible_asset xs)) \<and>
     r = (assets_from cfg (map fungible_asset xs), Some (xa_id (assets_from cfg (map fungible_asset xs) ! i)))"
  by (auto simp: get_assets_to_send_and_remote_fees_def Let_def)

text \<open>The shared part of the transfers by address dispatches one transfer of all the resolved assets.\<close>

lemma transfer_assets_to_dispatches:
  assumes "transfer_assets_to cfg ctx dest beneficiary asset_list fee_asset_item w = Ok (u, w')"
  shows "\<exists>h. (\<forall>a \<in> fst ` set asset_list. resolve_address cfg (wstate w) a \<noteq> None) \<and>
     xc_try_dispatch cfg (xc_into_account_id cfg (ctx_caller ctx))
       (TransferAssets dest beneficiary (assets_from cfg
          (map (\<lambda>(a, n). fungible_asset (the (resolve_address cfg (wstate w) a), n)) asset_list)) fee_asset_item)
       0 (h, wstate w) = Ok (whandle w', wstate w')"
  using assms
  by (fastforce simp: transfer_assets_to_def Let_def evm_iff case_prod_beta' comp_def dest!: convert_assets_eq)

text \<open>
  The list of assets of the \<^verbatim>\<open>xcm\<close> crate: assets with different ids are only reordered.
\<close>

definition assets_from_ok :: "('acct, 'xcm, 'lxcm, 'st, 'h) xcm_config \<Rightarrow> bool" where
  "assets_from_ok cfg \<longleftrightarrow> (\<forall>v. distinct (map xa_id v) \<longrightarrow> mset (assets_from cfg v) = mset v)"

text \<open>
  C35: A transfer to a parachain names the token contracts by address. If different addresses stand for
  different assets and each is named once, the one call that is dispatched, for the caller, to the
  parachain and the account given, moves every named token in exactly the amount given and nothing
  else.
\<close>

theorem para_20_transfer_exact:
  assumes "transfer_assets_to_para_20 cfg ctx para_id beneficiary asset_list fee_asset_item w = Ok (u, w')"
    and "assets_from_ok cfg" "distinct (map fst asset_list)"
    and "injective_on_some (resolve_address cfg (wstate w))"
  shows "\<exists>h sent. xc_try_dispatch cfg (xc_into_account_id cfg (ctx_caller ctx))
       (TransferAssets (location_new 1 [Parachain para_id]) (location_new 0 [AccountKey20 None beneficiary]) sent fee_asset_item)
       0 (h, wstate w) = Ok (whandle w', wstate w') \<and>
     mset sent = image_mset (\<lambda>(a, n). \<lparr>xa_id = the (resolve_address cfg (wstate w) a), xa_amount = n\<rparr>) (mset asset_list)"
proof -
  let ?r = "resolve_address cfg (wstate w)"
  let ?v = "map (\<lambda>(a, n). fungible_asset (the (?r a), n)) asset_list"
  from transfer_assets_to_dispatches [OF assms(1) [unfolded transfer_assets_to_para_20_def]] obtain h where
    some: "\<forall>a \<in> fst ` set asset_list. ?r a \<noteq> None" and
    call: "xc_try_dispatch cfg (xc_into_account_id cfg (ctx_caller ctx))
       (TransferAssets (generate_sibling_destination para_id) (generate_local_beneficiary20 beneficiary)
          (assets_from cfg ?v) fee_asset_item) 0 (h, wstate w) = Ok (whandle w', wstate w')" by blast
  have ids: "map xa_id ?v = map (\<lambda>a. the (?r a)) (map fst asset_list)"
    by (simp add: fungible_asset_def case_prod_beta')
  have "inj_on (\<lambda>a. the (?r a)) (set (map fst asset_list))"
  proof (rule inj_onI)
    fix a b assume ab: "a \<in> set (map fst asset_list)" "b \<in> set (map fst asset_list)" "the (?r a) = the (?r b)"
    then obtain l where "?r a = Some l" "?r b = Some l" using some by force
    then show "a = b" using assms(4) by (rule injective_on_someD [rotated])
  qed
  then have "distinct (map xa_id ?v)" unfolding ids using assms(3) by (simp only: distinct_map)
  then have "mset (assets_from cfg ?v) = mset ?v" using assms(2) by (simp add: assets_from_ok_def)
  also have "mset ?v = image_mset (\<lambda>(a, n). \<lparr>xa_id = the (?r a), xa_amount = n\<rparr>) (mset asset_list)"
    by (simp add: fungible_asset_def)
  finally show ?thesis
    using call by (auto simp: generate_sibling_destination_def generate_local_beneficiary20_def)
qed

text \<open>
  A transfer with explicit transfer types pays the remote fees with one of the assets that are
  transferred: the one at the given index of the sorted assets. It is the asset at this index of
  the caller's list if that list is sorted already, and out of range indices, unknown transfer
  types and messages that do not decode are refused.
\<close>

theorem typed_transfer_fee_asset:
  assumes "transfer_assets_using_type_and_then_location_no_remote_reserve cfg ctx dest asset_list at i ft message w = Ok (u, w')"
  shows "\<exists>h sent a f xcm. sent = assets_from cfg (map fungible_asset asset_list) \<and>
     unat i < length sent \<and> parse_transfer_type at = Ok a \<and> parse_transfer_type ft = Ok f \<and>
     decode_xcm cfg message = Some xcm \<and>
     xc_try_dispatch cfg (xc_into_account_id cfg (ctx_caller ctx))
       (TransferAssetsUsingTypeAndThen dest sent a (xa_id (sent ! unat i)) f xcm) 0 (h, wstate w) = Ok (whandle w', wstate w') \<and>
     (sent = map fungible_asset asset_list \<longrightarrow> xa_id (sent ! unat i) = fst (asset_list ! unat i))"
  using assms
  by (auto simp: transfer_assets_using_type_and_then_location_no_remote_reserve_def send_using_type_and_then_def
      parse_transfer_types_def Let_def evm_iff fungible_asset_def)

text \<open>
  The price that \<^verbatim>\<open>get_units_per_second\<close> reports. A trader that charges \<open>price\<close> takes it from the credit of
  the asset, and the credit stays in the holding when something is left of it.
\<close>

definition trader_charges ::
    "('lxcm, 'hold, 'origin) xcm_utils_config \<Rightarrow> location \<Rightarrow> u64 \<times> u64 \<Rightarrow> u128 \<Rightarrow> bool" where
  "trader_charges ucfg l weight price \<longleftrightarrow>
     (\<forall>c. price < credit_amount c \<longrightarrow>
        (\<exists>hold. buy_weight ucfg weight (new_from_fungible_credit ucfg l c) l = Some hold \<and>
           holding_fungible ucfg hold l = Some (snd (saturating_take price c))))"

text \<open>
  What \<^verbatim>\<open>get_units_per_second\<close> returns is the price that the trader of the runtime charges for a second of
  execution, for every price below the largest amount, and it leaves the state as it is.
\<close>

theorem get_units_per_second_price:
  assumes "trader_charges ucfg l (1000000000000, 262144) price" "price < - 1"
    and "record_db_read (xc_api cfg) (32 + location_max_encoded_len cfg) (whandle w) = Ok h"
  shows "get_units_per_second cfg ucfg l w = Ok (ucast price, w\<lparr>whandle := h\<rparr>)"
proof -
  obtain hold where "buy_weight ucfg (1000000000000, 262144) (new_from_fungible_credit ucfg l (HoldingCredit (- 1))) l = Some hold"
    "holding_fungible ucfg hold l = Some (snd (saturating_take price (HoldingCredit (- 1))))"
    using assms(1,2) unfolding trader_charges_def by (metis credit_amount.simps)
  moreover have "min (- 1) price = price" by (simp add: min_def word_order.extremum_unique)
  moreover have "saturating_sub (- 1) (- 1 - price) = price" by (simp add: saturating_sub_def)
  ultimately show ?thesis
    using assms(3)
    by (simp add: get_units_per_second_def evm_defs asset_to_holding_def DEFAULT_PROOF_SIZE_def in_field_def)
qed

section \<open>Concrete runs\<close>

text \<open>
  A runtime for concrete runs: the state collects the dispatched calls, addresses below 100 resolve
  to sibling parachains, assets are sorted by their number of parents and then by parachain.
\<close>

definition asset_key :: "xcm_asset \<Rightarrow> nat" where
  "asset_key x = (case interior (xa_id x) of
     Parachain p # _ \<Rightarrow> 1000 * unat (parents (xa_id x)) + unat p | _ \<Rightarrow> 1000 * unat (parents (xa_id x)))"

fun insert_asset :: "xcm_asset \<Rightarrow> xcm_asset list \<Rightarrow> xcm_asset list" where
  "insert_asset x [] = [x]"
| "insert_asset x (y # ys) = (if asset_key x \<le> asset_key y then x # y # ys else y # insert_asset x ys)"

lemma mset_insert_asset: "mset (insert_asset x ys) = mset (x # ys)"
  by (induction ys) auto

definition sort_assets :: "xcm_asset list \<Rightarrow> xcm_asset list" where
  "sort_assets xs = foldr insert_asset xs []"

lemma mset_sort_assets: "mset (sort_assets xs) = mset xs"
  by (induction xs) (auto simp: sort_assets_def mset_insert_asset)

definition xcm_demo ::
    "(H160, u8 list, u8 list, (H160 \<times> (u8 list, u8 list) pallet_xcm_call) list, gas_meter) xcm_config" where
  "xcm_demo = \<lparr>xc_api = gas_handle, xc_into_account_id = id, location_max_encoded_len = 600,
     matcher_convert = (\<lambda>_ a. if a < 100 then Some (location_new 1 [Parachain (ucast a)]) else None),
     assets_from = sort_assets, decode_xcm = Some, decode_lxcm = Some,
     xc_try_dispatch = (\<lambda>origin call _ (h, st). Ok (h, st @ [(origin, call)]))\<rparr>"

lemma xcm_demo_sorts: "assets_from_ok xcm_demo"
  by (simp add: assets_from_ok_def xcm_demo_def mset_sort_assets)

lemma xcm_demo_resolves_injectively: "injective_on_some (resolve_address xcm_demo st)"
proof -
  have "a = b" if "a < 100" "b < 100" "(ucast a :: u32) = ucast b" for a b :: H160
  proof -
    have "unat (ucast a :: u32) = unat a" "unat (ucast b :: u32) = unat b"
      using that(1,2) by (simp_all add: unsigned_ucast_eq unsigned_take_bit_eq take_bit_nat_eq_self_iff word_less_nat_alt)
    then show ?thesis using that(3) by (metis word_eqI_unat)
  qed
  then show ?thesis
    by (auto simp: injective_on_some_def resolve_address_def xcm_demo_def split: if_splits)
qed

definition xcm_ctx :: evm_context where
  "xcm_ctx = \<lparr>ctx_address = 2070, ctx_caller = 7, ctx_apparent_value = 0\<rparr>"

definition xcm_world :: "(gas_meter, (H160 \<times> (u8 list, u8 list) pallet_xcm_call) list) world" where
  "xcm_world = \<lparr>whandle = (5000, []), wstate = []\<rparr>"

lemmas xcm_demo_simps = xcm_demo_def xcm_ctx_def xcm_world_def gas_handle_def charge_def checked_sub_def
  resolve_address_def sort_assets_def asset_key_def fungible_asset_def location_new_def

theorem para_20_transfer_exact_witness:
  "\<exists>sent w'. transfer_assets_to_para_20 xcm_demo xcm_ctx 2000 9 [(6, 60), (5, 50)] 0 xcm_world = Ok ((), w') \<and>
     wstate w' = [(7, TransferAssets (location_new 1 [Parachain 2000]) (location_new 0 [AccountKey20 None 9]) sent 0)] \<and>
     mset sent = {#\<lparr>xa_id = location_new 1 [Parachain 6], xa_amount = 60\<rparr>, \<lparr>xa_id = location_new 1 [Parachain 5], xa_amount = 50\<rparr>#}"
proof -
  let ?run = "transfer_assets_to_para_20 xcm_demo xcm_ctx 2000 9 [(6, 60), (5, 50)] 0 xcm_world"
  obtain w' where w': "?run = Ok ((), w')"
    by (simp add: transfer_assets_to_para_20_def transfer_assets_to_def Let_def evm_defs xcm_demo_simps
        get_assets_to_send_and_remote_fees_def dispatch_xcm_def)
  from para_20_transfer_exact [OF w' xcm_demo_sorts _ xcm_demo_resolves_injectively] obtain h sent where
    "xc_try_dispatch xcm_demo (xc_into_account_id xcm_demo (ctx_caller xcm_ctx))
       (TransferAssets (location_new 1 [Parachain 2000]) (location_new 0 [AccountKey20 None 9]) sent 0)
       0 (h, wstate xcm_world) = Ok (whandle w', wstate w')"
    "mset sent = image_mset (\<lambda>(a, n). \<lparr>xa_id = the (resolve_address xcm_demo (wstate xcm_world) a), xa_amount = n\<rparr>)
        (mset [(6, 60), (5, 50)])"
    by auto
  then show ?thesis
    using w' by (auto simp: xcm_demo_def xcm_ctx_def xcm_world_def resolve_address_def intro!: exI [of _ sent])
qed

text \<open>
  The caller asks to pay the fees with the asset at index 0 of its list, the one of parachain 6; the
  fees are paid with the asset of parachain 5, which is first after sorting.
\<close>

lemma fee_index_is_of_sorted_list:
  "\<exists>w'. transfer_assets_using_type_and_then_location_no_remote_reserve xcm_demo xcm_ctx (location_new 1 [Parachain 2000])
       [(location_new 1 [Parachain 6], 60), (location_new 1 [Parachain 5], 50)] 1 0 1 [] xcm_world = Ok ((), w') \<and>
     (\<exists>sent. wstate w' = [(7, TransferAssetsUsingTypeAndThen (location_new 1 [Parachain 2000]) sent LocalReserve
        (location_new 1 [Parachain 5]) LocalReserve [])])"
  by (simp add: transfer_assets_using_type_and_then_location_no_remote_reserve_def send_using_type_and_then_def Let_def
      evm_defs xcm_demo_simps get_assets_to_send_and_remote_fees_def dispatch_xcm_def parse_transfer_types_def
      parse_transfer_type_def decode_transfer_type_helper_def)

theorem typed_transfer_fee_asset_witness:
  "\<exists>sent w'. transfer_assets_using_type_and_then_location_no_remote_reserve xcm_demo xcm_ctx (location_new 1 [Parachain 2000])
       [(location_new 1 [Parachain 6], 60), (location_new 1 [Parachain 5], 50)] 1 0 1 [] xcm_world = Ok ((), w') \<and>
     wstate w' = [(7, TransferAssetsUsingTypeAndThen (location_new 1 [Parachain 2000]) sent LocalReserve
        (location_new 1 [Parachain 5]) LocalReserve [])]"
proof -
  obtain w' where w': "transfer_assets_using_type_and_then_location_no_remote_reserve xcm_demo xcm_ctx (location_new 1 [Parachain 2000])
       [(location_new 1 [Parachain 6], 60), (location_new 1 [Parachain 5], 50)] 1 0 1 [] xcm_world = Ok ((), w')"
    using fee_index_is_of_sorted_list by blast
  from typed_transfer_fee_asset [OF this] obtain sent where
    "wstate w' = [(7, TransferAssetsUsingTypeAndThen (location_new 1 [Parachain 2000]) sent LocalReserve
        (location_new 1 [Parachain 5]) LocalReserve [])]"
    by (auto simp: xcm_demo_simps parse_transfer_type_def decode_transfer_type_helper_def dest: sym)
  with w' show ?thesis by blast
qed

definition xcm_utils_demo :: "(u8 list, location \<Rightarrow> HoldingCredit option, H160) xcm_utils_config" where
  "xcm_utils_demo = \<lparr>convert_origin = (\<lambda>l. None), into_signer_address = Some,
     new_from_fungible_credit = (\<lambda>l c. [l \<mapsto> c]), new_from_non_fungible = (\<lambda>_ _. Map.empty),
     holding_fungible = (\<lambda>hold. hold),
     buy_weight = (\<lambda>_ hold l. case hold l of None \<Rightarrow> None | Some c \<Rightarrow> Some (hold(l \<mapsto> snd (saturating_take 1234 c)))),
     xcm_try_from = Some, weigh = (\<lambda>_. Some (1, 1)), xu_storage_growth = 0\<rparr>"

theorem get_units_per_second_price_witness:
  "get_units_per_second xcm_demo xcm_utils_demo (location_new 1 [Parachain 5]) xcm_world
     = Ok (1234, xcm_world\<lparr>whandle := (4999, [])\<rparr>)"
proof -
  have "trader_charges xcm_utils_demo (location_new 1 [Parachain 5]) (1000000000000, 262144) 1234"
    by (simp add: trader_charges_def xcm_utils_demo_def)
  moreover have "(1234 :: u128) < - 1" by simp
  moreover have "record_db_read (xc_api xcm_demo) (32 + location_max_encoded_len xcm_demo) (whandle xcm_world) = Ok (4999, [])"
    by (simp add: xcm_demo_simps)
  ultimately show ?thesis
    using get_units_per_second_price [of xcm_utils_demo "location_new 1 [Parachain 5]" 1234 xcm_demo xcm_world "(4999, [])"]
    by simp
qed

end
