(* ===== verification/Precompile_Storage.thy ===== *)
theory Precompile_Storage
  imports Frame_Interfaces Erc20_Balances Assets_Erc20 Call_Permit
begin

text \<open>
  The storage of the precompiles. They keep approvals and nonces of their own in the storage of the chain, below prefixes that
  macros generate for \<^verbatim>\<open>()\<close> and the sixteen instances of a pallet (\<^verbatim>\<open>balances-erc20/src/lib.rs\<close>, \<^verbatim>\<open>assets-erc20/src/eip2612.rs\<close>,
  \<^verbatim>\<open>call-permit/src/lib.rs\<close>). The other theories have a map for each of them; here they live in one storage, a map from
  byte strings to byte strings, and the maps are shown to be views of it that do not overlap.
\<close>

section \<open>Prefixes\<close>

datatype pallet_instance = Instance0 | Instance1 | Instance2 | Instance3 | Instance4 | Instance5 | Instance6 | Instance7 | Instance8
  | Instance9 | Instance10 | Instance11 | Instance12 | Instance13 | Instance14 | Instance15 | Instance16

primrec balances_pallet_prefix :: "pallet_instance \<Rightarrow> string" where
  "balances_pallet_prefix Instance0 = ''Erc20Instance0Balances''"
| "balances_pallet_prefix Instance1 = ''Erc20Instance1Balances''"
| "balances_pallet_prefix Instance2 = ''Erc20Instance2Balances''"
| "balances_pallet_prefix Instance3 = ''Erc20Instance3Balances''"
| "balances_pallet_prefix Instance4 = ''Erc20Instance4Balances''"
| "balances_pallet_prefix Instance5 = ''Erc20Instance5Balances''"
| "balances_pallet_prefix Instance6 = ''Erc20Instance6Balances''"
| "balances_pallet_prefix Instance7 = ''Erc20Instance7Balances''"
| "balances_pallet_prefix Instance8 = ''Erc20Instance8Balances''"
| "balances_pallet_prefix Instance9 = ''Erc20Instance9Balances''"
| "balances_pallet_prefix Instance10 = ''Erc20Instance10Balances''"
| "balances_pallet_prefix Instance11 = ''Erc20Instance11Balances''"
| "balances_pallet_prefix Instance12 = ''Erc20Instance12Balances''"
| "balances_pallet_prefix Instance13 = ''Erc20Instance13Balances''"
| "balances_pallet_prefix Instance14 = ''Erc20Instance14Balances''"
| "balances_pallet_prefix Instance15 = ''Erc20Instance15Balances''"
| "balances_pallet_prefix Instance16 = ''Erc20Instance16Balances''"

primrec assets_pallet_prefix :: "pallet_instance \<Rightarrow> string" where
  "assets_pallet_prefix Instance0 = ''Erc20Instance0Assets''"
| "assets_pallet_prefix Instance1 = ''Erc20Instance1Assets''"
| "assets_pallet_prefix Instance2 = ''Erc20Instance2Assets''"
| "assets_pallet_prefix Instance3 = ''Erc20Instance3Assets''"
| "assets_pallet_prefix Instance4 = ''Erc20Instance4Assets''"
| "assets_pallet_prefix Instance5 = ''Erc20Instance5Assets''"
| "assets_pallet_prefix Instance6 = ''Erc20Instance6Assets''"
| "assets_pallet_prefix Instance7 = ''Erc20Instance7Assets''"
| "assets_pallet_prefix Instance8 = ''Erc20Instance8Assets''"
| "assets_pallet_prefix Instance9 = ''Erc20Instance9Assets''"
| "assets_pallet_prefix Instance10 = ''Erc20Instance10Assets''"
| "assets_pallet_prefix Instance11 = ''Erc20Instance11Assets''"
| "assets_pallet_prefix Instance12 = ''Erc20Instance12Assets''"
| "assets_pallet_prefix Instance13 = ''Erc20Instance13Assets''"
| "assets_pallet_prefix Instance14 = ''Erc20Instance14Assets''"
| "assets_pallet_prefix Instance15 = ''Erc20Instance15Assets''"
| "assets_pallet_prefix Instance16 = ''Erc20Instance16Assets''"

definition call_permit_pallet_prefix :: string where
  "call_permit_pallet_prefix = ''PrecompileCallPermit''"

definition APPROVES_STORAGE_PREFIX :: string where
  "APPROVES_STORAGE_PREFIX = ''Approves''"

definition NONCES_STORAGE_PREFIX :: string where
  "NONCES_STORAGE_PREFIX = ''Nonces''"

lemma balances_prefix_inject [simp]: "balances_pallet_prefix a = balances_pallet_prefix b \<longleftrightarrow> a = b"
  by (cases a; cases b) simp_all

lemma assets_prefix_inject [simp]: "assets_pallet_prefix a = assets_pallet_prefix b \<longleftrightarrow> a = b"
  by (cases a; cases b) simp_all

lemma prefixes_apart [simp]:
  "balances_pallet_prefix a \<noteq> assets_pallet_prefix b" "assets_pallet_prefix b \<noteq> balances_pallet_prefix a"
  by (cases a; cases b; simp)+

lemma balances_prefix_apart [simp]:
  "balances_pallet_prefix a \<noteq> call_permit_pallet_prefix" "call_permit_pallet_prefix \<noteq> balances_pallet_prefix a"
  by (cases a; simp add: call_permit_pallet_prefix_def)+

lemma assets_prefix_apart [simp]:
  "assets_pallet_prefix a \<noteq> call_permit_pallet_prefix" "call_permit_pallet_prefix \<noteq> assets_pallet_prefix a"
  by (cases a; simp add: call_permit_pallet_prefix_def)+

lemma item_prefixes_apart [simp]:
  "APPROVES_STORAGE_PREFIX \<noteq> NONCES_STORAGE_PREFIX" "NONCES_STORAGE_PREFIX \<noteq> APPROVES_STORAGE_PREFIX"
  by (simp_all add: APPROVES_STORAGE_PREFIX_def NONCES_STORAGE_PREFIX_def)

section \<open>Keys\<close>

text \<open>
  The hashes and encodings. A storage item lies below the hashes of the two parts of its prefix; its keys are hashed with
  \<^verbatim>\<open>Blake2_128Concat\<close>, the hash of the encoded key followed by the encoded key.
\<close>

record 'acct storage_lib =
  twox_128 :: "u8 list \<Rightarrow> u8 list"
  blake2_128 :: "u8 list \<Rightarrow> u8 list"
  acct_codec :: "'acct codec"
  h160_codec :: "H160 codec"
  balance_codec :: "u128 codec"
  u256_codec :: "U256 codec"

definition prefix_names :: "string set" where
  "prefix_names = range balances_pallet_prefix \<union> range assets_pallet_prefix \<union>
     {call_permit_pallet_prefix, APPROVES_STORAGE_PREFIX, NONCES_STORAGE_PREFIX}"

text \<open>
  Both hashes have sixteen bytes and the prefixes that are in use do not collide. Nothing is assumed about collisions of the hash
  of the keys.
\<close>

definition storage_lib_ok :: "'acct storage_lib \<Rightarrow> bool" where
  "storage_lib_ok lib \<longleftrightarrow> (\<forall>x. length (twox_128 lib x) = 16) \<and> (\<forall>x. length (blake2_128 lib x) = 16) \<and>
     inj_on (twox_128 lib \<circ> string_bytes) prefix_names \<and>
     codec_ok (acct_codec lib) \<and> codec_ok (h160_codec lib) \<and> codec_ok (balance_codec lib) \<and> codec_ok (u256_codec lib)"

definition storage_prefix :: "'acct storage_lib \<Rightarrow> string \<Rightarrow> string \<Rightarrow> u8 list" where
  "storage_prefix lib pallet item = twox_128 lib (string_bytes pallet) @ twox_128 lib (string_bytes item)"

definition blake2_128_concat :: "'acct storage_lib \<Rightarrow> u8 list \<Rightarrow> u8 list" where
  "blake2_128_concat lib k = blake2_128 lib k @ k"

datatype 'acct storage_item =
    BalancesApproves pallet_instance 'acct 'acct
  | BalancesNonces pallet_instance H160
  | AssetsNonces pallet_instance H160 H160
  | CallPermitNonces H160

primrec storage_key :: "'acct storage_lib \<Rightarrow> 'acct storage_item \<Rightarrow> u8 list" where
  "storage_key lib (BalancesApproves i owner spender) =
     storage_prefix lib (balances_pallet_prefix i) APPROVES_STORAGE_PREFIX @
       blake2_128_concat lib (encode (acct_codec lib) owner) @ blake2_128_concat lib (encode (acct_codec lib) spender)"
| "storage_key lib (BalancesNonces i owner) =
     storage_prefix lib (balances_pallet_prefix i) NONCES_STORAGE_PREFIX @ blake2_128_concat lib (encode (h160_codec lib) owner)"
| "storage_key lib (AssetsNonces i contract owner) =
     storage_prefix lib (assets_pallet_prefix i) NONCES_STORAGE_PREFIX @
       blake2_128_concat lib (encode (h160_codec lib) contract) @ blake2_128_concat lib (encode (h160_codec lib) owner)"
| "storage_key lib (CallPermitNonces from) =
     storage_prefix lib call_permit_pallet_prefix NONCES_STORAGE_PREFIX @ blake2_128_concat lib (encode (h160_codec lib) from)"

section \<open>Keys do not overlap\<close>

lemma encode_inject: "codec_ok c \<Longrightarrow> encode c x = encode c y \<longleftrightarrow> x = y"
  unfolding codec_ok_def by (metis option.inject prod.inject)

lemma storage_prefix_eq:
  assumes "storage_lib_ok lib" "{p, n, p', n'} \<subseteq> prefix_names"
  shows "storage_prefix lib p n @ r = storage_prefix lib p' n' @ r' \<longleftrightarrow> p = p' \<and> n = n' \<and> r = r'"
proof -
  have len: "length (twox_128 lib x) = length (twox_128 lib y)" for x y
    using assms(1) by (simp add: storage_lib_ok_def)
  have inj: "twox_128 lib (string_bytes x) = twox_128 lib (string_bytes y) \<longleftrightarrow> x = y" if "x \<in> prefix_names" "y \<in> prefix_names" for x y
    using assms(1) that by (auto simp: storage_lib_ok_def inj_on_def)
  show ?thesis using assms(2) by (auto simp: storage_prefix_def len append_eq_append_conv inj)
qed

lemma concat_eq:
  assumes "storage_lib_ok lib" "codec_ok c"
  shows "blake2_128_concat lib (encode c x) @ r = blake2_128_concat lib (encode c y) @ r' \<longleftrightarrow> x = y \<and> r = r'"
proof -
  have len: "length (blake2_128 lib a) = length (blake2_128 lib b)" "length (encode c x) = length (encode c y)" for a b
    using assms by (simp_all add: storage_lib_ok_def codec_ok_def)
  show ?thesis by (auto simp: blake2_128_concat_def len append_eq_append_conv encode_inject [OF assms(2)])
qed

lemma concat_eq_last:
  assumes "storage_lib_ok lib" "codec_ok c"
  shows "blake2_128_concat lib (encode c x) = blake2_128_concat lib (encode c y) \<longleftrightarrow> x = y"
  using concat_eq [OF assms, of x "[]" y "[]"] by simp

lemma prefix_names_simps [simp]:
  "balances_pallet_prefix i \<in> prefix_names" "assets_pallet_prefix i \<in> prefix_names" "call_permit_pallet_prefix \<in> prefix_names"
  "APPROVES_STORAGE_PREFIX \<in> prefix_names" "NONCES_STORAGE_PREFIX \<in> prefix_names"
  by (auto simp: prefix_names_def)

lemma storage_key_inject:
  assumes "storage_lib_ok lib"
  shows "storage_key lib a = storage_key lib b \<longleftrightarrow> a = b"
proof -
  have codecs: "codec_ok (acct_codec lib)" "codec_ok (h160_codec lib)" using assms by (simp_all add: storage_lib_ok_def)
  show ?thesis
    by (cases a; cases b)
       (simp_all add: storage_prefix_eq [OF assms] concat_eq [OF assms] concat_eq_last [OF assms] codecs)
qed

section \<open>The maps as views of one storage\<close>

definition storage_get :: "('k \<Rightarrow> u8 list) \<Rightarrow> 'v codec \<Rightarrow> (u8 list \<rightharpoonup> u8 list) \<Rightarrow> 'k \<rightharpoonup> 'v" where
  "storage_get key c raw k = (case raw (key k) of None \<Rightarrow> None | Some bytes \<Rightarrow> map_option fst (decode c bytes))"

definition storage_insert :: "('k \<Rightarrow> u8 list) \<Rightarrow> 'v codec \<Rightarrow> 'k \<Rightarrow> 'v \<Rightarrow> (u8 list \<rightharpoonup> u8 list) \<Rightarrow> u8 list \<rightharpoonup> u8 list" where
  "storage_insert key c k v raw = raw(key k \<mapsto> encode c v)"

text \<open>A map below keys that do not collide: what is written is read back, and no other entry changes.\<close>

locale storage_map =
  fixes key :: "'lib \<Rightarrow> 'k \<Rightarrow> u8 list"
    and codec :: "'lib \<Rightarrow> 'v codec"
    and lib_ok :: "'lib \<Rightarrow> bool"
  assumes key_inject: "lib_ok lib \<Longrightarrow> key lib a = key lib b \<longleftrightarrow> a = b"
    and codec: "lib_ok lib \<Longrightarrow> codec_ok (codec lib)"
begin

lemma decode_encode: "lib_ok lib \<Longrightarrow> decode (codec lib) (encode (codec lib) v) = Some (v, [])"
  using codec unfolding codec_ok_def by (metis append_Nil2)

lemma get_insert:
  "lib_ok lib \<Longrightarrow> storage_get (key lib) (codec lib) (storage_insert (key lib) (codec lib) k v raw) = (storage_get (key lib) (codec lib) raw)(k \<mapsto> v)"
  by (auto simp: storage_get_def storage_insert_def fun_eq_iff key_inject decode_encode)

lemma get_insert_other:
  "lib_ok lib \<Longrightarrow> j \<noteq> k \<Longrightarrow> storage_get (key lib) d (storage_insert (key lib) (codec lib) k v raw) j = storage_get (key lib) d raw j"
  by (simp add: storage_get_def storage_insert_def key_inject)

end

interpretation approvals: storage_map storage_key balance_codec storage_lib_ok
  by unfold_locales (simp_all add: storage_key_inject, simp add: storage_lib_ok_def)

interpretation permit_nonces: storage_map storage_key u256_codec storage_lib_ok
  by unfold_locales (simp_all add: storage_key_inject, simp add: storage_lib_ok_def)

definition erc20_view :: "'acct storage_lib \<Rightarrow> pallet_instance \<Rightarrow> 'cur \<Rightarrow> (u8 list \<rightharpoonup> u8 list) \<Rightarrow> ('acct, 'cur) erc20_state" where
  "erc20_view lib i balances raw =
     \<lparr>ApprovesStorage = (\<lambda>owner spender. storage_get (storage_key lib) (balance_codec lib) raw (BalancesApproves i owner spender)),
      NoncesStorage = (\<lambda>owner. case storage_get (storage_key lib) (u256_codec lib) raw (BalancesNonces i owner) of Some n \<Rightarrow> n | None \<Rightarrow> 0),
      erc20_balances = balances\<rparr>"

definition assets_nonces_view :: "'acct storage_lib \<Rightarrow> pallet_instance \<Rightarrow> (u8 list \<rightharpoonup> u8 list) \<Rightarrow> H160 \<Rightarrow> H160 \<Rightarrow> U256" where
  "assets_nonces_view lib i raw contract owner =
     (case storage_get (storage_key lib) (u256_codec lib) raw (AssetsNonces i contract owner) of Some n \<Rightarrow> n | None \<Rightarrow> 0)"

definition call_permit_nonces_view :: "'acct storage_lib \<Rightarrow> (u8 list \<rightharpoonup> u8 list) \<Rightarrow> H160 \<Rightarrow> U256" where
  "call_permit_nonces_view lib raw from =
     (case storage_get (storage_key lib) (u256_codec lib) raw (CallPermitNonces from) of Some n \<Rightarrow> n | None \<Rightarrow> 0)"

text \<open>
  The writes of the precompiles into the storage, and what they mean for the maps: an approval or a permit changes one entry of one
  instance.
\<close>

datatype 'acct storage_write =
    WriteApproval pallet_instance 'acct 'acct u128
  | WriteNonce pallet_instance H160 U256
  | WriteAssetNonce pallet_instance H160 H160 U256
  | WriteCallNonce H160 U256

primrec raw_write :: "'acct storage_lib \<Rightarrow> 'acct storage_write \<Rightarrow> (u8 list \<rightharpoonup> u8 list) \<Rightarrow> u8 list \<rightharpoonup> u8 list" where
  "raw_write lib (WriteApproval i owner spender v) =
     storage_insert (storage_key lib) (balance_codec lib) (BalancesApproves i owner spender) v"
| "raw_write lib (WriteNonce i owner n) = storage_insert (storage_key lib) (u256_codec lib) (BalancesNonces i owner) n"
| "raw_write lib (WriteAssetNonce i contract owner n) =
     storage_insert (storage_key lib) (u256_codec lib) (AssetsNonces i contract owner) n"
| "raw_write lib (WriteCallNonce from n) = storage_insert (storage_key lib) (u256_codec lib) (CallPermitNonces from) n"

type_synonym ('acct, 'cur) precompile_maps =
  "(pallet_instance \<Rightarrow> ('acct, 'cur) erc20_state) \<times> (pallet_instance \<Rightarrow> H160 \<Rightarrow> H160 \<Rightarrow> U256) \<times> (H160 \<Rightarrow> U256)"

fun map_write :: "'acct storage_write \<Rightarrow> ('acct, 'cur) precompile_maps \<Rightarrow> ('acct, 'cur) precompile_maps" where
  "map_write (WriteApproval i owner spender v) (e, a, c) = (e(i := approves_insert owner spender v (e i)), a, c)"
| "map_write (WriteNonce i owner n) (e, a, c) = (e(i := (e i)\<lparr>NoncesStorage := (NoncesStorage (e i))(owner := n)\<rparr>), a, c)"
| "map_write (WriteAssetNonce i contract owner n) (e, a, c) = (e, a(i := (a i)(contract := (a i contract)(owner := n))), c)"
| "map_write (WriteCallNonce from n) (e, a, c) = (e, a, c(from := n))"

definition precompile_views :: "'acct storage_lib \<Rightarrow> (pallet_instance \<Rightarrow> 'cur) \<Rightarrow> (u8 list \<rightharpoonup> u8 list) \<Rightarrow> ('acct, 'cur) precompile_maps" where
  "precompile_views lib balances raw =
     (\<lambda>i. erc20_view lib i (balances i) raw, \<lambda>i. assets_nonces_view lib i raw, call_permit_nonces_view lib raw)"

lemma raw_write_refines:
  assumes "storage_lib_ok lib"
  shows "precompile_views lib balances (raw_write lib w raw) = map_write w (precompile_views lib balances raw)"
  by (cases w)
     (auto simp: precompile_views_def erc20_view_def assets_nonces_view_def call_permit_nonces_view_def approves_insert_def fun_eq_iff
       approvals.get_insert [OF assms] approvals.get_insert_other [OF assms]
       permit_nonces.get_insert [OF assms] permit_nonces.get_insert_other [OF assms])

text \<open>
  C23: The approvals and nonces of the seventeen instances of both ERC20 precompiles and the nonces of the call permits never get into each
  other's way: after any sequence of writes to the one storage of the chain, each of the maps is what the writes to it alone make of it.
\<close>

theorem precompile_storage_separate:
  assumes "storage_lib_ok lib"
  shows "precompile_views lib balances (fold (raw_write lib) ws raw) = fold map_write ws (precompile_views lib balances raw)"
  by (induction ws arbitrary: raw) (simp_all add: raw_write_refines [OF assms])

section \<open>Concrete storage\<close>

text \<open>Integers of a fixed size in little-endian bytes, as SCALE encodes them.\<close>

primrec le_digits :: "nat \<Rightarrow> nat \<Rightarrow> u8 list" where
  "le_digits 0 n = []"
| "le_digits (Suc k) n = of_nat n # le_digits k (n div 256)"

primrec le_value :: "u8 list \<Rightarrow> nat" where
  "le_value [] = 0"
| "le_value (x # xs) = unat x + 256 * le_value xs"

lemma le_digits_length [simp]: "length (le_digits k n) = k"
  by (induction k arbitrary: n) simp_all

lemma le_value_digits: "le_value (le_digits k n) = n mod 256 ^ k"
proof (induction k arbitrary: n)
  case (Suc k)
  have "unat (of_nat n :: u8) = n mod 256" by (simp add: unat_of_nat take_bit_eq_mod)
  with Suc show ?case by (simp add: mod_mult2_eq)
qed simp

definition le_codec :: "nat \<Rightarrow> 'a::len word codec" where
  "le_codec k = \<lparr>encode = (\<lambda>x. le_digits k (unat x)),
     decode = (\<lambda>xs. if length xs < k then None else Some (of_nat (le_value (take k xs)), drop k xs)), size_of = k\<rparr>"

lemma le_codec_ok:
  assumes "LENGTH('a::len) = 8 * k"
  shows "codec_ok (le_codec k :: 'a word codec)"
proof -
  have "(256 :: nat) ^ k = 2 ^ LENGTH('a)" by (simp add: assms power_mult)
  then have "unat (x :: 'a word) mod 256 ^ k = unat x" for x by simp
  then show ?thesis by (simp add: codec_ok_def le_codec_def le_value_digits)
qed

definition demo_hash :: "u8 list \<Rightarrow> u8 list" where
  "demo_hash x = take 16 (drop 5 x @ replicate 16 0)"

definition demo_storage_lib :: "H160 storage_lib" where
  "demo_storage_lib = \<lparr>twox_128 = demo_hash, blake2_128 = (\<lambda>_. replicate 16 7), acct_codec = le_codec 20, h160_codec = le_codec 20,
     balance_codec = le_codec 16, u256_codec = le_codec 32\<rparr>"

definition all_instances :: "pallet_instance list" where
  "all_instances = [Instance0, Instance1, Instance2, Instance3, Instance4, Instance5, Instance6, Instance7, Instance8, Instance9,
     Instance10, Instance11, Instance12, Instance13, Instance14, Instance15, Instance16]"

lemma prefix_names_list:
  "prefix_names = set (map balances_pallet_prefix all_instances @ map assets_pallet_prefix all_instances @
     [call_permit_pallet_prefix, APPROVES_STORAGE_PREFIX, NONCES_STORAGE_PREFIX])"
proof -
  have "UNIV = set all_instances"
  proof -
    have "i \<in> set all_instances" for i by (cases i) (simp_all add: all_instances_def)
    then show ?thesis by blast
  qed
  then show ?thesis by (simp add: prefix_names_def Un_assoc)
qed

lemma demo_prefixes_distinct:
  "distinct (map (demo_hash \<circ> string_bytes) (map balances_pallet_prefix all_instances @ map assets_pallet_prefix all_instances @
     [call_permit_pallet_prefix, APPROVES_STORAGE_PREFIX, NONCES_STORAGE_PREFIX]))"
  by code_simp

lemma demo_storage_lib_ok: "storage_lib_ok demo_storage_lib"
proof -
  have "inj_on (demo_hash \<circ> string_bytes) prefix_names"
    unfolding prefix_names_list using demo_prefixes_distinct by (simp only: distinct_map)
  then show ?thesis
    by (simp add: storage_lib_ok_def demo_storage_lib_def le_codec_ok) (simp add: demo_hash_def min_def)
qed

theorem precompile_storage_separate_witness:
  "\<exists>e a c. precompile_views demo_storage_lib (\<lambda>_. ())
       (fold (raw_write demo_storage_lib) [WriteNonce Instance1 5 3, WriteCallNonce 5 9, WriteAssetNonce Instance1 5 5 4] Map.empty) = (e, a, c) \<and>
     NoncesStorage (e Instance1) 5 = 3 \<and> NoncesStorage (e Instance2) 5 = 0 \<and> c 5 = 9 \<and> a Instance1 5 5 = 4"
  unfolding precompile_storage_separate [OF demo_storage_lib_ok]
  by (simp add: precompile_views_def erc20_view_def assets_nonces_view_def call_permit_nonces_view_def storage_get_def)

end
