(* ===== verification/Nimbus_Client.thy ===== *)
theory Nimbus_Client
  imports Author_Inherent
begin

text \<open>
  \<^verbatim>\<open>client/consensus/nimbus-consensus/src\<close>: claiming a slot with a key of the keystore (\<^verbatim>\<open>lib.rs\<close>), the
  helpers of the collators (\<^verbatim>\<open>collators.rs\<close>), building, sealing and importing a block
  (\<^verbatim>\<open>collator.rs\<close>, \<^verbatim>\<open>proposer.rs\<close>) and the same for manual seal (\<^verbatim>\<open>manual_seal.rs\<close>). The keystore, the
  runtime API, the relay chain and the client database are parameters; asynchronous calls are
  modelled by their results.
\<close>

section \<open>What the client uses\<close>

text \<open>
  \<open>keystore_keys\<close> are the nimbus keys of the keystore, \<open>sign_with\<close> signs with one of them: both may
  fail, and the key may be missing. \<open>runtime_version\<close> and \<open>api_can_author\<close> are calls into the runtime
  at a block.
\<close>

record ('nid, 'sig, 'hash, 'body) nimbus_client =
  nc_crypto :: "('nid, 'sig, 'hash, 'body) seal_crypto"
  nc_id_codec :: "'nid codec"
  nc_sig_codec :: "'sig codec"
  to_raw_vec :: "'nid \<Rightarrow> u8 list"
  keystore_keys :: "u8 list list option"
  sign_with :: "u8 list \<Rightarrow> 'hash \<Rightarrow> u8 list option option"
  sig_try_from :: "u8 list \<Rightarrow> 'sig option"
  hdr_number :: "'body header \<Rightarrow> nat"
  hdr_parent_hash :: "'body header \<Rightarrow> 'hash"
  runtime_version :: "'hash \<Rightarrow> nat option"
  api_can_author :: "'hash \<Rightarrow> 'nid \<Rightarrow> u32 \<Rightarrow> 'body header \<Rightarrow> bool option"

section \<open>Claiming a slot (\<^verbatim>\<open>lib.rs\<close>)\<close>

definition first_available_key :: "('nid, 'sig, 'hash, 'body) nimbus_client \<Rightarrow> u8 list option" where
  "first_available_key cl =
     (case keystore_keys cl of
        Some available_keys \<Rightarrow> if available_keys = [] then None else Some (available_keys ! 0)
      | None \<Rightarrow> None)"

definition key_eligible :: "('nid, 'sig, 'hash, 'body) nimbus_client \<Rightarrow> 'body header \<Rightarrow> u32 \<Rightarrow> u8 list \<Rightarrow> bool" where
  "key_eligible cl parent slot_number key =
     (case nimbus_from_slice (nc_crypto cl) key of
        Some nimbus_id \<Rightarrow>
          (case api_can_author cl (header_hash (nc_crypto cl) parent) nimbus_id slot_number parent of
             Some b \<Rightarrow> b
           | None \<Rightarrow> False)
      | None \<Rightarrow> False)"

definition first_eligible_key ::
    "('nid, 'sig, 'hash, 'body) nimbus_client \<Rightarrow> 'body header \<Rightarrow> u32 \<Rightarrow> u8 list option" where
  "first_eligible_key cl parent slot_number =
     (case keystore_keys cl of
        None \<Rightarrow> None
      | Some available_keys \<Rightarrow>
          if available_keys = [] then None
          else find (key_eligible cl parent slot_number) available_keys)"

definition claim_slot ::
    "('nid, 'sig, 'hash, 'body) nimbus_client \<Rightarrow> 'body header \<Rightarrow> u32 \<Rightarrow> bool \<Rightarrow> (string, 'nid option) result" where
  "claim_slot cl parent relay_parent_number skip_prediction =
     and_then
       (if hdr_number cl parent > 0 then
          and_then (ok_or ''runtime api'' (runtime_version cl (hdr_parent_hash cl parent)))
          (\<lambda>previous_runtime_version. and_then (ok_or ''runtime api'' (runtime_version cl (header_hash (nc_crypto cl) parent)))
          (\<lambda>version. Ok (previous_runtime_version \<noteq> version)))
        else Ok False)
     (\<lambda>runtime_upgraded.
        let maybe_key =
          (if skip_prediction \<or> runtime_upgraded then first_available_key cl
           else first_eligible_key cl parent relay_parent_number)
        in (case maybe_key of
              Some key \<Rightarrow> and_then (ok_or ''invalid nimbus id (wrong length)'' (nimbus_from_slice (nc_crypto cl) key)) (Ok \<circ> Some)
            | None \<Rightarrow> Ok None))"

section \<open>Sealing (\<^verbatim>\<open>collators.rs\<close>, \<^verbatim>\<open>collator.rs\<close>)\<close>

text \<open>
  \<^verbatim>\<open>check_validation_code_or_log\<close>: the check of the code of a new block against the one that the relay chain has for the parachain. It only
  logs: what it logs is its result here, and no round depends on it.
\<close>

datatype 'vch code_check_log = CodeAsExpected | FetchCodeFailed string | CodeDiffers 'vch 'vch | CodeNotFound

definition check_validation_code_or_log :: "('rhash \<Rightarrow> u32 \<Rightarrow> string + 'vch option) \<Rightarrow> 'vch \<Rightarrow> u32 \<Rightarrow> 'rhash \<Rightarrow> 'vch code_check_log" where
  "check_validation_code_or_log validation_code_hash local_validation_code_hash para_id relay_parent =
     (case validation_code_hash relay_parent para_id of
        Inl error \<Rightarrow> FetchCodeFailed error
      | Inr (Some state) \<Rightarrow> if state \<noteq> local_validation_code_hash then CodeDiffers local_validation_code_hash state else CodeAsExpected
      | Inr None \<Rightarrow> CodeNotFound)"

lemma code_check_silent_iff:
  "check_validation_code_or_log vc loc para relay = CodeAsExpected \<longleftrightarrow> vc relay para = Inr (Some loc)"
  by (auto simp: check_validation_code_or_log_def split: sum.splits option.splits)

definition seal_header ::
    "('nid, 'sig, 'hash, 'body) nimbus_client \<Rightarrow> 'body header \<Rightarrow> u8 list \<Rightarrow> (string, digest_item) result" where
  "seal_header cl hdr public_pair =
     (let pre_hash = header_hash (nc_crypto cl) hdr
      in and_then (expect ''Keystore should be able to sign'' (sign_with cl public_pair pre_hash))
     (\<lambda>signed_with. and_then (expect ''We already checked that the key was present'' signed_with)
     (\<lambda>raw_sig. and_then (expect ''signature bytes produced by keystore should be right length'' (sig_try_from cl raw_sig))
     (\<lambda>signature. Ok (nimbus_seal (nc_sig_codec cl) signature)))))"

text \<open>
  The parts of \<^verbatim>\<open>BlockImportParams\<close> that the sources read or write. A state action \<open>'sa\<close> and the changes
  of a proposal are opaque; \<open>import_lib\<close> has the functions of \<^verbatim>\<open>sc_consensus\<close> on them.
\<close>

datatype block_origin = Genesis | NetworkInitialSync | NetworkBroadcast | ConsensusBroadcast | OwnBlock | FileBlock

datatype fork_choice_strategy = LongestChain | CustomChoice bool

record ('body, 'ext, 'sa) block_import_params =
  bip_origin :: block_origin
  bip_header :: "'body header"
  post_digests :: "digest_item list"
  bip_body :: "'ext option"
  state_action :: 'sa
  fork_choice :: "fork_choice_strategy option"
  create_gap :: bool

record ('body, 'ext, 'sa, 'sc) import_lib =
  params_new :: "block_origin \<Rightarrow> 'body header \<Rightarrow> ('body, 'ext, 'sa) block_import_params"
  post_header :: "('body, 'ext, 'sa) block_import_params \<Rightarrow> 'body header"
  with_state :: "('body, 'ext, 'sa) block_import_params \<Rightarrow> bool"
  skip_execution_checks :: "'sa \<Rightarrow> bool"
  apply_changes :: "'sc \<Rightarrow> 'sa"

text \<open>
  What the client relies on: new parameters carry the header and no digests, the full header has the
  post-digests after the digests of the header.
\<close>

definition import_lib_ok :: "('body, 'ext, 'sa, 'sc) import_lib \<Rightarrow> bool" where
  "import_lib_ok lib \<longleftrightarrow>
     (\<forall>origin h. bip_origin (params_new lib origin h) = origin \<and> bip_header (params_new lib origin h) = h \<and>
        post_digests (params_new lib origin h) = []) \<and>
     (\<forall>p. post_header lib p = (bip_header p)\<lparr>digest_logs := digest_logs (bip_header p) @ post_digests p\<rparr>)"

definition seal ::
    "('nid, 'sig, 'hash, 'body) nimbus_client \<Rightarrow> ('body, 'ext, 'sa, 'sc) import_lib \<Rightarrow> 'body header \<times> 'ext \<Rightarrow> 'sc \<Rightarrow> 'nid
      \<Rightarrow> (string, ('body, 'ext, 'sa) block_import_params) result" where
  "seal cl lib pre_sealed storage_changes author_pub =
     (let (pre_header, body) = pre_sealed
      in and_then (seal_header cl pre_header (to_raw_vec cl author_pub))
     (\<lambda>seal_digest.
        let params = params_new lib OwnBlock pre_header
        in Ok (params\<lparr>post_digests := post_digests params @ [seal_digest], bip_body := Some body,
             state_action := apply_changes lib storage_changes, fork_choice := Some LongestChain\<rparr>)))"

record 'nid slot_claim =
  sc_author_id :: 'nid
  sc_timestamp :: u64

definition slot_claim_unchecked :: "'nid \<Rightarrow> u64 \<Rightarrow> 'nid slot_claim" where
  "slot_claim_unchecked author_id timestamp = \<lparr>sc_author_id = author_id, sc_timestamp = timestamp\<rparr>"

section \<open>Building and importing a block (\<^verbatim>\<open>collator.rs\<close>)\<close>

text \<open>
  The services of a collator: the block import works on the client's state \<open>'st\<close>; the proposer builds
  on a parent with inherent data \<open>'inh\<close> and returns a block with its storage changes; the
  collator service packs a candidate into a collation. \<open>proposer_init\<close> and \<open>provide_inherent_data\<close> are the
  steps of \<^verbatim>\<open>proposer.rs\<close> before the proposal.
\<close>

record ('body, 'ext, 'sa, 'sc, 'st, 'pinh, 'inh, 'collation, 'rh) collator_services =
  proposer_init :: "'body header \<Rightarrow> string option"
  provide_paras_inherent :: "'pinh \<Rightarrow> 'inh \<Rightarrow> string + 'inh"
  basic_propose :: "'body header \<Rightarrow> 'inh \<Rightarrow> digest_item list \<Rightarrow> nat \<Rightarrow> nat \<Rightarrow> string + (('body header \<times> 'ext) \<times> 'sc)"
  import_block :: "('body, 'ext, 'sa) block_import_params \<Rightarrow> 'st \<Rightarrow> (string + unit) \<times> 'st"
  build_collation :: "'body header \<Rightarrow> 'body header \<times> 'ext \<Rightarrow> 'collation option"
  paras_inherent_create_at :: "'rh list \<Rightarrow> u8 list list \<Rightarrow> 'pinh option"
  create_other_inherent_data :: "'body header \<Rightarrow> string + 'inh"
  replace_timestamp :: "u64 \<Rightarrow> 'inh \<Rightarrow> 'inh"

primrec from_sum :: "'e + 'a \<Rightarrow> ('e, 'a) result" where
  "from_sum (Inl e) = Err e"
| "from_sum (Inr a) = Ok a"

lemma from_sum_Ok_iff [simp]: "from_sum x = Ok a \<longleftrightarrow> x = Inr a"
  by (cases x) auto

text \<open>\<^verbatim>\<open>ProposerInterface::propose\<close> for the standard proposer factory.\<close>

definition propose ::
    "('body, 'ext, 'sa, 'sc, 'st, 'pinh, 'inh, 'collation, 'rh) collator_services \<Rightarrow> 'body header \<Rightarrow> 'pinh \<Rightarrow> 'inh
      \<Rightarrow> digest_item list \<Rightarrow> nat \<Rightarrow> nat \<Rightarrow> (string, ('body header \<times> 'ext) \<times> 'sc) result" where
  "propose srv parent_header paras_inherent_data other_inherent_data inherent_digests max_duration block_size_limit =
     and_then (case proposer_init srv parent_header of Some e \<Rightarrow> Err (''Proposer Creation: '' @ e) | None \<Rightarrow> Ok ())
     (\<lambda>_. and_then (map_err (\<lambda>e. ''Proposing: '' @ e) (from_sum (provide_paras_inherent srv paras_inherent_data other_inherent_data)))
     (\<lambda>inherent_data. map_err (\<lambda>e. ''Proposing: '' @ e)
        (from_sum (basic_propose srv parent_header inherent_data inherent_digests max_duration block_size_limit))))"

definition build_sealed_block ::
    "('nid, 'sig, 'hash, 'body) nimbus_client \<Rightarrow> ('body, 'ext, 'sa, 'sc) import_lib
      \<Rightarrow> ('body, 'ext, 'sa, 'sc, 'st, 'pinh, 'inh, 'collation, 'rh) collator_services
      \<Rightarrow> 'body header \<Rightarrow> 'nid slot_claim \<Rightarrow> digest_item list option \<Rightarrow> 'pinh \<times> 'inh \<Rightarrow> nat \<Rightarrow> nat
      \<Rightarrow> (string, ('body, 'ext, 'sa) block_import_params \<times> ('body header \<times> 'ext)) result" where
  "build_sealed_block cl lib srv parent_header claim additional_pre_digest inherent_data proposal_duration max_pov_size =
     (let logs = nimbus_pre_digest (nc_id_codec cl) (sc_author_id claim) #
                   (case additional_pre_digest of Some ds \<Rightarrow> ds | None \<Rightarrow> [])
      in and_then (propose srv parent_header (fst inherent_data) (snd inherent_data) logs proposal_duration max_pov_size)
     (\<lambda>(block, storage_changes). and_then (seal cl lib block storage_changes (sc_author_id claim))
     (\<lambda>sealed_importable. and_then (expect ''body always created with this `propose` fn; qed'' (bip_body sealed_importable))
     (\<lambda>body. Ok (sealed_importable, (post_header lib sealed_importable, body))))))"

text \<open>The block is imported last; the state of the client is returned with every outcome.\<close>

definition build_block_and_import ::
    "('nid, 'sig, 'hash, 'body) nimbus_client \<Rightarrow> ('body, 'ext, 'sa, 'sc) import_lib
      \<Rightarrow> ('body, 'ext, 'sa, 'sc, 'st, 'pinh, 'inh, 'collation, 'rh) collator_services
      \<Rightarrow> 'body header \<Rightarrow> 'nid slot_claim \<Rightarrow> digest_item list option \<Rightarrow> 'pinh \<times> 'inh \<Rightarrow> nat \<Rightarrow> nat \<Rightarrow> 'st
      \<Rightarrow> (string, ('body header \<times> 'ext) option) result \<times> 'st" where
  "build_block_and_import cl lib srv parent_header claim additional_pre_digest inherent_data proposal_duration max_pov_size st =
     (case build_sealed_block cl lib srv parent_header claim additional_pre_digest inherent_data proposal_duration max_pov_size of
        Ok (sealed_importable, block) \<Rightarrow>
          (case import_block srv sealed_importable st of
             (Inr u, st') \<Rightarrow> (Ok (Some block), st')
           | (Inl e, st') \<Rightarrow> (Err e, st'))
      | Err e \<Rightarrow> (Err e, st)
      | Panic m \<Rightarrow> (Panic m, st))"

definition collate ::
    "('nid, 'sig, 'hash, 'body) nimbus_client \<Rightarrow> ('body, 'ext, 'sa, 'sc) import_lib
      \<Rightarrow> ('body, 'ext, 'sa, 'sc, 'st, 'pinh, 'inh, 'collation, 'rh) collator_services
      \<Rightarrow> 'body header \<Rightarrow> 'nid slot_claim \<Rightarrow> digest_item list option \<Rightarrow> 'pinh \<times> 'inh \<Rightarrow> nat \<Rightarrow> nat \<Rightarrow> 'st
      \<Rightarrow> (string, 'collation option) result \<times> 'st" where
  "collate cl lib srv parent_header claim additional_pre_digest inherent_data proposal_duration max_pov_size st =
     (case build_block_and_import cl lib srv parent_header claim additional_pre_digest inherent_data
             proposal_duration max_pov_size st of
        (Ok (Some candidate), st') \<Rightarrow>
          (case build_collation srv parent_header candidate of
             Some collation \<Rightarrow> (Ok (Some collation), st')
           | None \<Rightarrow> (Err ''Unable to produce collation'', st'))
      | (Ok None, st') \<Rightarrow> (Ok None, st')
      | (Err e, st') \<Rightarrow> (Err e, st')
      | (Panic m, st') \<Rightarrow> (Panic m, st'))"

section \<open>Relay parents and inherent data\<close>

record 'rh relay_parent_data =
  rpd_relay_parent :: 'rh
  rpd_descendants :: "'rh list"

definition relay_parent_data_new :: "'rh \<Rightarrow> 'rh relay_parent_data" where
  "relay_parent_data_new relay_parent = \<lparr>rpd_relay_parent = relay_parent, rpd_descendants = []\<rparr>"

definition new_with_descendants :: "'rh \<Rightarrow> 'rh list \<Rightarrow> 'rh relay_parent_data" where
  "new_with_descendants relay_parent descendants = \<lparr>rpd_relay_parent = relay_parent, rpd_descendants = descendants\<rparr>"

definition into_inherent_descendant_list :: "'rh relay_parent_data \<Rightarrow> 'rh list" where
  "into_inherent_descendant_list d =
     (if rpd_descendants d = [] then [] else [rpd_relay_parent d] @ rpd_descendants d)"

definition create_inherent_data_with_rp_offset ::
    "('body, 'ext, 'sa, 'sc, 'st, 'pinh, 'inh, 'collation, 'rh) collator_services \<Rightarrow> 'body header
      \<Rightarrow> u64 option \<Rightarrow> 'rh relay_parent_data option \<Rightarrow> u8 list list
      \<Rightarrow> (string, 'pinh \<times> 'inh) result" where
  "create_inherent_data_with_rp_offset srv parent timestamp relay_parent_descendants additional_relay_state_keys =
     and_then (ok_or ''Could not create paras inherent data''
        (paras_inherent_create_at srv
           (case relay_parent_descendants of Some d \<Rightarrow> into_inherent_descendant_list d | None \<Rightarrow> [])
           additional_relay_state_keys))
     (\<lambda>paras_inherent_data. and_then (from_sum (create_other_inherent_data srv parent))
     (\<lambda>other_inherent_data. Ok (paras_inherent_data,
        case timestamp of Some t \<Rightarrow> replace_timestamp srv t other_inherent_data | None \<Rightarrow> other_inherent_data)))"

definition create_inherent_data ::
    "('body, 'ext, 'sa, 'sc, 'st, 'pinh, 'inh, 'collation, 'rh) collator_services \<Rightarrow> 'body header
      \<Rightarrow> u64 option \<Rightarrow> u8 list list \<Rightarrow> (string, 'pinh \<times> 'inh) result" where
  "create_inherent_data srv parent timestamp additional_relay_state_keys =
     create_inherent_data_with_rp_offset srv parent timestamp None additional_relay_state_keys"

section \<open>Finding a parent (\<^verbatim>\<open>collators.rs\<close>)\<close>

text \<open>
  A header of the relay chain, with the slot of its BABE pre-digest and whether it announces a new epoch.
\<close>

record 'rhash relay_header =
  rh_hash :: 'rhash
  rh_parent_hash :: 'rhash
  rh_number :: u32
  rh_state_root :: 'rhash
  rh_babe_slot :: "u64 option"
  rh_epoch_change :: bool

text \<open>
  The relay chain at one of its blocks. \<open>relay_version\<close> is the version of the \<^verbatim>\<open>ParachainHost\<close> API, if the
  call succeeds; \<open>SCHEDULING_LOOKAHEAD_RUNTIME_REQUIREMENT\<close> and \<open>DEFAULT_SCHEDULING_LOOKAHEAD\<close> are
  constants of the \<^verbatim>\<open>polkadot\<close> crates; \<open>find_parent_for_building\<close> is a function of \<^verbatim>\<open>cumulus\<close> from the ancestry
  lookback to the included and the best parent header. \<open>relay_max_pov_size\<close> is read from the persisted
  validation data, and \<open>claims_at_depth\<close> lists the cores claimed by the parachain in a claim queue \<open>'cq\<close>.
  The outer option is a failed call.
\<close>

record ('rhash, 'hdr, 'cq) relay_client =
  relay_version :: "'rhash \<Rightarrow> nat option option"
  relay_scheduling_lookahead :: "'rhash \<Rightarrow> u32 option"
  SCHEDULING_LOOKAHEAD_RUNTIME_REQUIREMENT :: nat
  DEFAULT_SCHEDULING_LOOKAHEAD :: u32
  find_parent_for_building :: "'rhash \<Rightarrow> nat \<Rightarrow> string + ('hdr \<times> 'hdr) option"
  relay_claim_queue :: "'rhash \<Rightarrow> 'cq option"
  default_claim_queue :: 'cq
  relay_header_at :: "'rhash \<Rightarrow> 'rhash relay_header option option"
  relay_max_pov_size :: "'rhash \<Rightarrow> u32 option option"
  claims_at_depth :: "'cq \<Rightarrow> nat \<Rightarrow> u32 list"

definition scheduling_lookahead :: "('rhash, 'hdr, 'cq) relay_client \<Rightarrow> 'rhash \<Rightarrow> u32 option" where
  "scheduling_lookahead rc relay_parent =
     (case relay_version rc relay_parent of
        None \<Rightarrow> None
      | Some api_version \<Rightarrow>
          let parachain_host_runtime_api_version = (case api_version of Some v \<Rightarrow> v | None \<Rightarrow> 0)
          in if parachain_host_runtime_api_version < SCHEDULING_LOOKAHEAD_RUNTIME_REQUIREMENT rc then None
             else relay_scheduling_lookahead rc relay_parent)"

definition find_parent :: "('rhash, 'hdr, 'cq) relay_client \<Rightarrow> 'rhash \<Rightarrow> ('hdr \<times> 'hdr) option" where
  "find_parent rc relay_parent =
     (let lookahead = (case scheduling_lookahead rc relay_parent of
                         Some n \<Rightarrow> n | None \<Rightarrow> DEFAULT_SCHEDULING_LOOKAHEAD rc);
          ancestry_lookback = unat (saturating_sub lookahead 1)
      in (case find_parent_for_building rc relay_parent ancestry_lookback of
            Inr (Some result) \<Rightarrow> Some result
          | Inr None \<Rightarrow> None
          | Inl e \<Rightarrow> None))"

definition claim_queue_at :: "('rhash, 'hdr, 'cq) relay_client \<Rightarrow> 'rhash \<Rightarrow> 'cq" where
  "claim_queue_at rc relay_parent =
     (case relay_claim_queue rc relay_parent of Some q \<Rightarrow> q | None \<Rightarrow> default_claim_queue rc)"

text \<open>
  \<^verbatim>\<open>can_build_upon\<close>: \<open>segment_api_version\<close> and \<open>api_can_build_upon\<close> are calls to the runtime at the parent
  block.
\<close>

definition client_can_build_upon ::
    "('nid, 'sig, 'hash, 'body) nimbus_client \<Rightarrow> ('hash \<Rightarrow> nat option option) \<Rightarrow> ('hash \<Rightarrow> 'hash \<Rightarrow> u64 \<Rightarrow> bool option)
      \<Rightarrow> u64 \<Rightarrow> u64 \<Rightarrow> u64 \<Rightarrow> u32 \<Rightarrow> 'body header \<Rightarrow> 'hash \<Rightarrow> bool \<Rightarrow> (string, 'nid slot_claim option) result" where
  "client_can_build_upon cl segment_api_version api_can_build_upon para_slot relay_slot timestamp relay_parent_number
       parent_header included_block force_authoring =
     (case claim_slot cl parent_header relay_parent_number force_authoring of
        Panic m \<Rightarrow> Panic m
      | Err e \<Rightarrow> Ok None
      | Ok None \<Rightarrow> Ok None
      | Ok (Some author_pub) \<Rightarrow>
          let parent_hash = header_hash (nc_crypto cl) parent_header
          in if parent_hash = included_block then Ok (Some (slot_claim_unchecked author_pub timestamp))
             else (case segment_api_version parent_hash of
                     Some (Some api_version) \<Rightarrow>
                       let slot = (if api_version > 1 then relay_slot else para_slot)
                       in (case api_can_build_upon parent_hash included_block slot of
                             Some True \<Rightarrow> Ok (Some (slot_claim_unchecked author_pub timestamp))
                           | _ \<Rightarrow> Ok None)
                   | _ \<Rightarrow> Ok None))"

section \<open>Connections to the backing groups (\<^verbatim>\<open>collators.rs\<close>)\<close>

text \<open>\<open>bg_messages\<close> are the messages sent to the overseer, oldest first.\<close>

datatype collator_protocol_message = ConnectToBackingGroups | DisconnectFromBackingGroups

record backing_helper =
  bg_last_slot :: "u64 option"
  bg_connected :: bool
  bg_messages :: "collator_protocol_message list"

definition backing_helper_new :: backing_helper where
  "backing_helper_new = \<lparr>bg_last_slot = None, bg_connected = False, bg_messages = []\<rparr>"

definition backing_update :: "u8 list list option \<Rightarrow> u64 \<Rightarrow> backing_helper \<Rightarrow> backing_helper" where
  "backing_update keys current_slot b =
     (if bg_last_slot b = Some current_slot then b
      else
        let b = b\<lparr>bg_last_slot := Some current_slot\<rparr>;
            has_keys = (case keys of Some ks \<Rightarrow> ks \<noteq> [] | None \<Rightarrow> False)
        in if has_keys \<and> \<not> bg_connected b
           then b\<lparr>bg_messages := bg_messages b @ [ConnectToBackingGroups], bg_connected := True\<rparr>
           else if \<not> has_keys \<and> bg_connected b
           then b\<lparr>bg_messages := bg_messages b @ [DisconnectFromBackingGroups], bg_connected := False\<rparr>
           else b)"

section \<open>Manual seal (\<^verbatim>\<open>manual_seal.rs\<close>)\<close>

text \<open>
  \<open>relay_parent_number\<close> is the result of reading the parachain inherent: it may fail to decode or be missing.
\<close>

definition create_digest ::
    "('nid, 'sig, 'hash, 'body) nimbus_client \<Rightarrow> ('nid \<Rightarrow> 'hash \<Rightarrow> digest_item list) \<Rightarrow> 'body header \<Rightarrow> u32 option option
      \<Rightarrow> (string, digest_item list) result" where
  "create_digest cl provide_digests parent relay_parent_number =
     and_then (expect ''Parachain inherent should decode correctly'' relay_parent_number)
     (\<lambda>inherent_data. and_then (expect ''Parachain inherent should be present because we are mocking it'' inherent_data)
     (\<lambda>slot_number. case first_eligible_key cl parent slot_number of
        Some key \<Rightarrow>
          and_then (ok_or ''invalid nimbus id (wrong length)'' (nimbus_from_slice (nc_crypto cl) key))
          (\<lambda>nimbus_id. Ok (nimbus_pre_digest (nc_id_codec cl) nimbus_id #
             provide_digests nimbus_id (header_hash (nc_crypto cl) parent)))
      | None \<Rightarrow> Err ''no nimbus keys available to manual seal''))"

definition append_block_import ::
    "('nid, 'sig, 'hash, 'body) nimbus_client \<Rightarrow> ('body, 'ext, 'sa) block_import_params
      \<Rightarrow> (string, ('body, 'ext, 'sa) block_import_params) result" where
  "append_block_import cl params =
     and_then (expect ''Expected one pre-runtime digest that contains author id bytes''
        (claimed_author (digest_logs (bip_header params))))
     (\<lambda>bytes. and_then (ok_or ''invalid nimbus id (wrong length)'' (nimbus_from_slice (nc_crypto cl) bytes))
     (\<lambda>nimbus_public. and_then (seal_header cl (bip_header params) (to_raw_vec cl nimbus_public))
     (\<lambda>sig_digest. Ok (params\<lparr>post_digests := post_digests params @ [sig_digest]\<rparr>))))"

section \<open>What the overseer is told\<close>

text \<open>The messages alternate, beginning with a connection, and the flag says which one was the last.\<close>

definition backing_inv :: "backing_helper \<Rightarrow> bool" where
  "backing_inv b \<longleftrightarrow>
     (\<forall>i < length (bg_messages b). bg_messages b ! i = (if even i then ConnectToBackingGroups else DisconnectFromBackingGroups)) \<and>
     (bg_connected b \<longleftrightarrow> odd (length (bg_messages b)))"

lemma backing_inv_update: "backing_inv b \<Longrightarrow> backing_inv (backing_update keys slot b)"
  by (auto simp: backing_inv_def backing_update_def Let_def nth_append less_Suc_eq)

interpretation backing: invariant_system "\<lambda>b. b = backing_helper_new" "\<lambda>b b'. \<exists>keys slot. b' = backing_update keys slot b" backing_inv
  by unfold_locales (auto simp: backing_inv_update, simp add: backing_inv_def backing_helper_new_def)

text \<open>
  Whatever the keystore holds in the slots that pass, the connection helper never sends the overseer
  the same request twice in a row, and after the update for a new slot it is connected exactly if
  the keystore holds a nimbus key.
\<close>

theorem backing_requests_alternate:
  assumes "reachable (\<lambda>b. b = backing_helper_new) (\<lambda>b b'. \<exists>keys slot. b' = backing_update keys slot b) b"
  shows "backing_inv b \<and>
     (bg_last_slot b \<noteq> Some slot \<longrightarrow>
       bg_connected (backing_update keys slot b) = (\<exists>k ks. keys = Some (k # ks)) \<and>
       length (bg_messages (backing_update keys slot b)) \<le> length (bg_messages b) + 1)"
  using backing.invar_reachable [OF assms]
  by (auto simp: backing_update_def Let_def neq_Nil_conv split: option.splits)

theorem backing_requests_alternate_witness:
  "bg_messages (backing_update (Some []) 6 (backing_update (Some [[1]]) 5 backing_helper_new)) =
     [ConnectToBackingGroups, DisconnectFromBackingGroups] \<and>
   \<not> bg_connected (backing_update (Some []) 6 (backing_update (Some [[1]]) 5 backing_helper_new))"
proof -
  let ?b = "backing_update (Some [[1]]) 5 backing_helper_new"
  have "reachable (\<lambda>b. b = backing_helper_new) (\<lambda>b b'. \<exists>keys slot. b' = backing_update keys slot b) ?b"
    by (rule reach_step [OF reach_init]) auto
  from backing_requests_alternate [OF this, of 6 "Some []"]
  have "\<not> bg_connected (backing_update (Some []) 6 ?b)" by (simp add: backing_update_def backing_helper_new_def)
  then show ?thesis by (simp add: backing_update_def backing_helper_new_def)
qed

end
