(* ===== verification/Slot_Timer.thy ===== *)
theory Slot_Timer
  imports Moonkit_Prelude
begin

text \<open>
  \<^verbatim>\<open>client/consensus/nimbus-consensus/src/collators/slot_based/slot_timer.rs\<close>: when the slot based
  collator wakes up to build a block, for which slot, and how long it may spend on it.
\<close>

section \<open>Durations\<close>

text \<open>
  \<^verbatim>\<open>std::time::Duration\<close> counts nanoseconds; \<open>as_millis\<close> rounds down. The clock is the time since the
  Unix epoch.
\<close>

type_synonym duration = nat

definition from_millis :: "nat \<Rightarrow> duration" where
  "from_millis n = n * 1000000"

definition as_millis :: "duration \<Rightarrow> nat" where
  "as_millis d = d div 1000000"

lemma as_millis_from_millis [simp]: "as_millis (from_millis n) = n"
  by (simp add: as_millis_def from_millis_def)

lemma from_millis_0 [simp]: "from_millis 0 = 0"
  by (simp add: from_millis_def)

lemma from_millis_le_iff [simp]: "from_millis a \<le> from_millis b \<longleftrightarrow> a \<le> b"
  by (simp add: from_millis_def)

lemma as_millis_mono: "a \<le> b \<Longrightarrow> as_millis a \<le> as_millis b"
  by (simp add: as_millis_def div_le_mono)

lemma as_millis_add: "as_millis (a + from_millis n) = as_millis a + n"
  by (simp add: as_millis_def from_millis_def)

lemma from_as_millis: "from_millis (as_millis d) \<le> d"
  by (simp add: as_millis_def from_millis_def)

definition BLOCK_PRODUCTION_MINIMUM_INTERVAL_MS :: duration where
  "BLOCK_PRODUCTION_MINIMUM_INTERVAL_MS = from_millis 500"

definition BLOCK_PRODUCTION_THRESHOLD_MS :: duration where
  "BLOCK_PRODUCTION_THRESHOLD_MS = from_millis 100"

definition BLOCK_PRODUCTION_ADJUSTMENT_MS :: duration where
  "BLOCK_PRODUCTION_ADJUSTMENT_MS = from_millis 1000"

lemmas block_production_consts = BLOCK_PRODUCTION_MINIMUM_INTERVAL_MS_def BLOCK_PRODUCTION_THRESHOLD_MS_def
  BLOCK_PRODUCTION_ADJUSTMENT_MS_def

text \<open>
  The conversions between slots and timestamps of \<^verbatim>\<open>sp_consensus_slots\<close>; both take the slot duration
  in milliseconds.
\<close>

record slot_lib =
  from_timestamp :: "u64 \<Rightarrow> u64 \<Rightarrow> u64"
  slot_timestamp :: "u64 \<Rightarrow> u64 \<Rightarrow> u64 option"

definition slot_lib_ok :: "slot_lib \<Rightarrow> bool" where
  "slot_lib_ok lib \<longleftrightarrow>
     (\<forall>t d. d \<noteq> 0 \<longrightarrow> unat (from_timestamp lib t d) = unat t div unat d) \<and>
     (\<forall>s d. slot_timestamp lib s d =
        (if unat s * unat d < 2 ^ 64 then Some (s * d) else None))"

lemma slot_lib_ok_timestamp:
  "slot_lib_ok lib \<Longrightarrow> d \<noteq> 0 \<Longrightarrow> unat (from_timestamp lib t d) = unat t div unat d"
  by (simp add: slot_lib_ok_def)

lemma slot_lib_ok_slot:
  "slot_lib_ok lib \<Longrightarrow> slot_timestamp lib s d = (if unat s * unat d < 2 ^ 64 then Some (s * d) else None)"
  by (simp add: slot_lib_ok_def)

section \<open>Wake-up times\<close>

text \<open>A division by zero panics.\<close>

definition time_until_next_attempt :: "duration \<Rightarrow> duration \<Rightarrow> duration \<Rightarrow> (unit, duration \<times> u64) result" where
  "time_until_next_attempt now block_production_interval offset =
     (let now = as_millis now - as_millis offset;
          interval = as_millis block_production_interval
      in and_then (assert_that (interval \<noteq> 0) ''attempt to divide by zero'')
     (\<lambda>_. let next_slot_time = (now + interval) div interval * interval;
              remaining_millis = next_slot_time - now
          in Ok (from_millis (unat (of_nat remaining_millis :: u64)), of_nat next_slot_time)))"

text \<open>The interval between two attempts to build a block, the first half of \<^verbatim>\<open>compute_next_wake_up_time\<close>.\<close>

definition production_interval :: "u64 \<Rightarrow> duration \<Rightarrow> u32 option \<Rightarrow> (unit, duration) result" where
  "production_interval para_slot_duration relay_slot_duration core_count =
     and_then (assert_that (para_slot_duration \<noteq> 0) ''attempt to divide by zero'')
     (\<lambda>_. let para_slots_per_relay_block = of_nat (as_millis relay_slot_duration div unat para_slot_duration) :: u32;
              assigned_core_num = (case core_count of None \<Rightarrow> 1 | Some n \<Rightarrow> n);
              block_production_interval = min (from_millis (unat para_slot_duration)) relay_slot_duration
          in Ok (if assigned_core_num > para_slots_per_relay_block \<and> from_millis (unat para_slot_duration) \<ge> relay_slot_duration
                 then max (relay_slot_duration div unat assigned_core_num) BLOCK_PRODUCTION_MINIMUM_INTERVAL_MS
                 else block_production_interval))"

definition compute_next_wake_up_time ::
    "slot_lib \<Rightarrow> u64 \<Rightarrow> duration \<Rightarrow> u32 option \<Rightarrow> duration \<Rightarrow> duration \<Rightarrow> (unit, duration \<times> u64) result" where
  "compute_next_wake_up_time lib para_slot_duration relay_slot_duration core_count time_now time_offset =
     and_then (production_interval para_slot_duration relay_slot_duration core_count)
     (\<lambda>block_production_interval. and_then (time_until_next_attempt time_now block_production_interval time_offset)
     (\<lambda>(wait, timestamp). Ok (wait, from_timestamp lib timestamp para_slot_duration)))"

definition compute_time_until_next_slot_change ::
    "slot_lib \<Rightarrow> u64 \<Rightarrow> duration \<Rightarrow> duration \<Rightarrow> u64 \<Rightarrow> (duration \<times> u64) option" where
  "compute_time_until_next_slot_change lib para_slot_duration time_now time_offset last_reported_slot =
     (let now = time_now - time_offset;
          next_slot = last_reported_slot + 1
      in (case slot_timestamp lib next_slot para_slot_duration of
            None \<Rightarrow> None
          | Some next_slot_timestamp \<Rightarrow> Some (from_millis (unat next_slot_timestamp) - now, next_slot)))"

definition adjust_authoring_duration ::
    "duration \<Rightarrow> duration \<times> u64 \<Rightarrow> duration \<times> u64 \<Rightarrow> bool \<Rightarrow> duration option" where
  "adjust_authoring_duration authoring_duration next_block next_slot_change different_authors =
     (let (wait, next_block_slot) = next_block;
          (duration_until_next_slot, next_slot) = next_slot_change;
          duration_until_deadline = duration_until_next_slot - BLOCK_PRODUCTION_ADJUSTMENT_MS
      in if duration_until_deadline = 0 then
           (if different_authors then None else Some (min authoring_duration wait))
         else if different_authors \<and> authoring_duration \<ge> duration_until_deadline then
           (let authoring_duration = duration_until_deadline
            in if authoring_duration < BLOCK_PRODUCTION_MINIMUM_INTERVAL_MS - BLOCK_PRODUCTION_THRESHOLD_MS
               then None else Some (min authoring_duration wait))
         else Some (min authoring_duration wait))"

section \<open>The timer\<close>

record slot_timer =
  time_offset :: duration
  last_reported_core_num :: "u32 option"
  relay_slot_duration :: duration
  para_slot_duration :: "duration option"
  last_reported_slot :: "u64 option"

definition new_with_offset :: "duration \<Rightarrow> duration \<Rightarrow> duration option \<Rightarrow> slot_timer" where
  "new_with_offset offset relay para =
     \<lparr>time_offset = offset, last_reported_core_num = None, relay_slot_duration = relay,
      para_slot_duration = para, last_reported_slot = None\<rparr>"

definition slot_duration :: "slot_timer \<Rightarrow> duration" where
  "slot_duration t = (case para_slot_duration t of Some d \<Rightarrow> d | None \<Rightarrow> relay_slot_duration t)"

definition slot_millis :: "slot_timer \<Rightarrow> u64" where
  "slot_millis t = of_nat (as_millis (slot_duration t))"

definition update_scheduling :: "u32 \<Rightarrow> slot_timer \<Rightarrow> slot_timer" where
  "update_scheduling num_cores_next_block t = t\<lparr>last_reported_core_num := Some num_cores_next_block\<rparr>"

lemma slot_millis_update [simp]:
  "slot_millis (t\<lparr>last_reported_slot := s\<rparr>) = slot_millis t" "slot_millis (update_scheduling n t) = slot_millis t"
  "time_offset (update_scheduling n t) = time_offset t" "last_reported_slot (update_scheduling n t) = last_reported_slot t"
  "relay_slot_duration (update_scheduling n t) = relay_slot_duration t"
  by (simp_all add: slot_millis_def slot_duration_def update_scheduling_def split: option.split)

text \<open>\<open>now\<close> is the reading of the clock by \<^verbatim>\<open>duration_now\<close>.\<close>

definition time_until_next_block :: "slot_lib \<Rightarrow> duration \<Rightarrow> u64 \<Rightarrow> slot_timer \<Rightarrow> (unit, duration \<times> u64) result" where
  "time_until_next_block lib now slot_dur t =
     compute_next_wake_up_time lib slot_dur (relay_slot_duration t) (last_reported_core_num t) now (time_offset t)"

definition time_until_next_slot_change :: "slot_lib \<Rightarrow> duration \<Rightarrow> u64 \<Rightarrow> slot_timer \<Rightarrow> (duration \<times> u64) option" where
  "time_until_next_slot_change lib now slot_dur t =
     compute_time_until_next_slot_change lib slot_dur now (time_offset t)
       (case last_reported_slot t of None \<Rightarrow> 0 | Some s \<Rightarrow> s)"

text \<open>The method reads the clock twice: at \<open>now\<close> and at \<open>now'\<close>.\<close>

definition timer_adjust_authoring_duration ::
    "slot_lib \<Rightarrow> duration \<Rightarrow> duration \<Rightarrow> duration \<Rightarrow> slot_timer \<Rightarrow> (unit, duration option) result" where
  "timer_adjust_authoring_duration lib now now' authoring_duration t =
     and_then (time_until_next_block lib now (slot_millis t) t)
     (\<lambda>next_block. case time_until_next_slot_change lib now' (slot_millis t) t of
        None \<Rightarrow> Ok (Some authoring_duration)
      | Some next_slot_change \<Rightarrow>
          Ok (adjust_authoring_duration authoring_duration next_block next_slot_change True))"

text \<open>
  \<^verbatim>\<open>wait_until_next_slot\<close>: how long it sleeps (not at all when it catches up), and the timer after it.
\<close>

definition wait_until_next_slot :: "slot_lib \<Rightarrow> duration \<Rightarrow> slot_timer \<Rightarrow> (unit, duration \<times> slot_timer) result" where
  "wait_until_next_slot lib now t =
     and_then (time_until_next_block lib now (slot_millis t) t)
     (\<lambda>(wait, next_para_slot).
        let (sleep, next_para_slot) =
          (case last_reported_slot t of
             Some ls \<Rightarrow> if ls + 1 < next_para_slot \<and> next_para_slot \<le> ls + 3 then (0, ls + 1) else (wait, next_para_slot)
           | None \<Rightarrow> (wait, next_para_slot))
        in Ok (sleep, t\<lparr>last_reported_slot := Some next_para_slot\<rparr>))"

lemma wait_keeps_durations:
  assumes "wait_until_next_slot lib now t = Ok (sleep, t')"
  shows "slot_millis t' = slot_millis t \<and> para_slot_duration t' = para_slot_duration t"
  using assms by (auto simp: wait_until_next_slot_def split: option.splits if_splits prod.splits)

section \<open>Wake-up times are the multiples of the interval\<close>

lemma next_multiple:
  assumes "0 < (i :: nat)"
  shows "n < (n + i) div i * i \<and> (n + i) div i * i \<le> n + i \<and> i dvd (n + i) div i * i"
proof -
  have "n = n div i * i + n mod i" "n mod i < i" using assms by simp_all
  then have "n < (n div i + 1) * i" unfolding distrib_right by linarith
  moreover have "(n + i) div i = n div i + 1" using assms by (simp add: div_add_self2)
  moreover have "n div i * i \<le> n" by simp
  ultimately show ?thesis by simp
qed

lemma time_until_next_attempt_spec:
  assumes "0 < as_millis interval" "as_millis now - as_millis offset + as_millis interval < 2 ^ 64"
  obtains d where "time_until_next_attempt now interval offset =
        Ok (from_millis d, of_nat (as_millis now - as_millis offset + d))"
    and "0 < d" "d \<le> as_millis interval" "as_millis interval dvd as_millis now - as_millis offset + d"
proof -
  let ?n = "as_millis now - as_millis offset" and ?i = "as_millis interval"
  define m where "m = (?n + ?i) div ?i * ?i"
  have m: "?n < m" "m \<le> ?n + ?i" "?i dvd m" using next_multiple [OF assms(1)] by (auto simp: m_def)
  then have "m - ?n < 2 ^ 64" using assms(2) by linarith
  then have "unat (of_nat (m - ?n) :: u64) = m - ?n" by (intro unat_of_nat_small) simp
  then have "time_until_next_attempt now interval offset = Ok (from_millis (m - ?n), of_nat (?n + (m - ?n)))"
    using assms(1) m(1) unfolding time_until_next_attempt_def Let_def m_def [symmetric] by simp
  then show ?thesis by (rule that) (use m in simp_all)
qed

text \<open>
  The interval is at most a slot of either chain and at least half a second, except for shorter parachain slots.
\<close>

lemma production_interval_bounds:
  assumes "production_interval para relay cores = Ok i" "from_millis 500 \<le> relay"
  shows "i \<le> from_millis (unat para) \<and> i \<le> relay \<and> min (from_millis (unat para)) (from_millis 500) \<le> i \<and> para \<noteq> 0"
proof (cases "(case cores of None \<Rightarrow> 1 | Some n \<Rightarrow> n) > (of_nat (as_millis relay div unat para) :: u32)
    \<and> from_millis (unat para) \<ge> relay")
  case True
  let ?c = "unat (case cores of None \<Rightarrow> 1 | Some n \<Rightarrow> n)"
  have i: "i = max (relay div ?c) (from_millis 500)" "para \<noteq> 0"
    using True assms(1) by (auto simp: production_interval_def Let_def block_production_consts)
  have "relay div ?c \<le> relay" by simp
  then have "i \<le> relay" "from_millis 500 \<le> i" using assms(2) unfolding i(1) by simp_all
  then show ?thesis using True i(2) by (auto simp del: from_millis_le_iff)
next
  case False
  with assms show ?thesis by (auto simp: production_interval_def Let_def)
qed

lemma production_interval_total: "para \<noteq> 0 \<Longrightarrow> \<exists>i. production_interval para relay cores = Ok i"
  by (simp add: production_interval_def Let_def)

lemma production_interval_positive:
  assumes "production_interval para relay cores = Ok i" "from_millis 500 \<le> relay"
  shows "0 < as_millis i \<and> as_millis i \<le> unat para"
proof -
  from production_interval_bounds [OF assms] have i: "i \<le> from_millis (unat para)"
    "min (from_millis (unat para)) (from_millis 500) \<le> i" "para \<noteq> 0" by auto
  have "0 < unat para" using i(3) by (simp add: unat_gt_0)
  then have "from_millis 1 \<le> min (from_millis (unat para)) (from_millis 500)" by simp
  then have "from_millis 1 \<le> i" using i(2) by linarith
  then show ?thesis using as_millis_mono [of "from_millis 1" i] as_millis_mono [OF i(1)] by simp
qed

text \<open>
  With a relay slot of at least half a second and a clock that fits its type, the timer always finds
  a next attempt: a positive number of milliseconds that does not exceed a parachain slot.
\<close>

lemma compute_next_wake_up_time_spec:
  assumes "slot_lib_ok lib" "para \<noteq> 0" "from_millis 500 \<le> relay"
    and "as_millis now - as_millis offset + unat para < 2 ^ 64"
  obtains d i where "production_interval para relay cores = Ok i"
    "compute_next_wake_up_time lib para relay cores now offset =
        Ok (from_millis d, from_timestamp lib (of_nat (as_millis now - as_millis offset + d)) para)"
    "unat (from_timestamp lib (of_nat (as_millis now - as_millis offset + d)) para) =
        (as_millis now - as_millis offset + d) div unat para"
    "0 < d" "d \<le> as_millis i" "as_millis i \<le> unat para" "as_millis i dvd as_millis now - as_millis offset + d"
proof -
  obtain i where i: "production_interval para relay cores = Ok i"
    using production_interval_total [OF assms(2)] by blast
  have pos: "0 < as_millis i" "as_millis i \<le> unat para"
    using production_interval_positive [OF i assms(3)] by auto
  then have "as_millis now - as_millis offset + as_millis i < 2 ^ 64" using assms(4) by linarith
  from time_until_next_attempt_spec [OF pos(1) this] obtain d where
    d: "time_until_next_attempt now i offset = Ok (from_millis d, of_nat (as_millis now - as_millis offset + d))"
    "0 < d" "d \<le> as_millis i" "as_millis i dvd as_millis now - as_millis offset + d" .
  have "unat (of_nat (as_millis now - as_millis offset + d) :: u64) = as_millis now - as_millis offset + d"
    by (intro unat_of_nat_small) (use d(3) pos(2) assms(4) in simp)
  then have "unat (from_timestamp lib (of_nat (as_millis now - as_millis offset + d)) para) =
      (as_millis now - as_millis offset + d) div unat para"
    using slot_lib_ok_timestamp [OF assms(1,2)] by simp
  with i d pos show ?thesis by (intro that) (auto simp: compute_next_wake_up_time_def)
qed

text \<open>
  The table of timing examples in the documentation of the slot based collator (\<^verbatim>\<open>slot_based/mod.rs\<close>), for relay slots of six
  seconds: the interval between production attempts for each slot duration and number of cores, and the slots of the first four attempts.
\<close>

theorem production_timing_table:
  assumes "slot_lib_ok lib"
  shows "map (\<lambda>(para, cores). production_interval para (from_millis 6000) (Some cores))
       [(2000, 3), (6000, 1), (6000, 3), (12000, 1), (12000, 3)] =
     map (\<lambda>i. Ok (from_millis i)) [2000, 6000, 2000, 6000, 2000] \<and>
     map (\<lambda>(para, i). map (\<lambda>k. unat (from_timestamp lib (of_nat (k * i)) para)) [0, 1, 2, 3])
       [(2000, 2000), (6000, 6000), (6000, 2000), (12000, 6000), (12000, 2000)] =
     [[0, 1, 2, 3], [0, 1, 2, 3], [0, 0, 0, 1], [0, 0, 1, 1], [0, 0, 0, 0]]"
proof -
  have "unat (from_timestamp lib t 2000) = unat t div 2000" "unat (from_timestamp lib t 6000) = unat t div 6000"
    "unat (from_timestamp lib t 12000) = unat t div 12000" for t
    using slot_lib_ok_timestamp [OF assms, of 2000] slot_lib_ok_timestamp [OF assms, of 6000]
      slot_lib_ok_timestamp [OF assms, of 12000] by simp_all
  then show ?thesis
    by (simp add: production_interval_def block_production_consts from_millis_def as_millis_def)
qed

section \<open>The authoring duration\<close>

text \<open>
  The exact outcome when the author of the next slot may be another one: the deadline is one second
  before the slot changes; with less than 400 milliseconds to it the attempt is skipped if the whole
  time would be needed.
\<close>

lemma adjust_authoring_duration_different:
  "adjust_authoring_duration authoring (wait, s) (until, s') True =
     (if until \<le> from_millis 1000 \<or> (until - from_millis 1000 \<le> authoring \<and> until - from_millis 1000 < from_millis 400)
      then None else Some (min (min authoring (until - from_millis 1000)) wait))"
  by (auto simp: adjust_authoring_duration_def block_production_consts from_millis_def Let_def min_def)

lemma timer_adjust_Ok:
  assumes "slot_lib_ok lib"
    and "timer_adjust_authoring_duration lib now now' authoring t = Ok (Some d)"
    and "last_reported_slot t = Some ls" "(unat ls + 1) * unat (slot_millis t) < 2 ^ 64" "ls \<noteq> - 1"
  shows "d \<le> authoring \<and> (now' - time_offset t) + d + from_millis 1000 \<le> from_millis ((unat ls + 1) * unat (slot_millis t))"
proof -
  have ls: "unat (ls + 1) = unat ls + 1" using assms(5) by (simp add: unatSuc add.commute add_eq_0_iff)
  then have "slot_timestamp lib (ls + 1) (slot_millis t) = Some ((ls + 1) * slot_millis t)"
    using assms(1,4) by (simp add: slot_lib_ok_slot)
  moreover have "unat ((ls + 1) * slot_millis t) = (unat ls + 1) * unat (slot_millis t)"
    using assms(4) ls by (simp add: unat_mult_lem [THEN iffD1])
  ultimately have "time_until_next_slot_change lib now' (slot_millis t) t =
      Some (from_millis ((unat ls + 1) * unat (slot_millis t)) - (now' - time_offset t), ls + 1)"
    using assms(3) by (simp add: time_until_next_slot_change_def compute_time_until_next_slot_change_def)
  with assms(2) obtain wait where
    "d = min (min authoring (from_millis ((unat ls + 1) * unat (slot_millis t)) - (now' - time_offset t) - from_millis 1000)) wait"
    "from_millis 1000 < from_millis ((unat ls + 1) * unat (slot_millis t)) - (now' - time_offset t)"
    by (auto simp: timer_adjust_authoring_duration_def adjust_authoring_duration_different not_le split: if_splits)
  then show ?thesis by linarith
qed

section \<open>The timer over time\<close>

text \<open>
  The timer and the clock: the clock never goes back, a wait ends no earlier than its sleep, and the
  number of cores is reported at any time. The clock is assumed to stay below \<open>2 ^ 62\<close> milliseconds.
\<close>

record timer_world =
  tw_timer :: slot_timer
  tw_clock :: duration

definition timer_now :: "timer_world \<Rightarrow> nat" where
  "timer_now w = as_millis (tw_clock w) - as_millis (time_offset (tw_timer w))"

inductive timer_step :: "slot_lib \<Rightarrow> timer_world \<Rightarrow> timer_world \<Rightarrow> bool" for lib where
  tick: "tw_clock w \<le> c \<Longrightarrow> as_millis c < 2 ^ 62 \<Longrightarrow> timer_step lib w (w\<lparr>tw_clock := c\<rparr>)"
| cores: "timer_step lib w (w\<lparr>tw_timer := update_scheduling n (tw_timer w)\<rparr>)"
| wait: "wait_until_next_slot lib (tw_clock w) (tw_timer w) = Ok (sleep, t) \<Longrightarrow> tw_clock w + sleep \<le> c \<Longrightarrow>
    as_millis c < 2 ^ 62 \<Longrightarrow> timer_step lib w \<lparr>tw_timer = t, tw_clock = c\<rparr>"

definition timer_config_ok :: "timer_world \<Rightarrow> bool" where
  "timer_config_ok w \<longleftrightarrow> from_millis 500 \<le> relay_slot_duration (tw_timer w) \<and> slot_millis (tw_timer w) \<noteq> 0 \<and>
     unat (slot_millis (tw_timer w)) < 2 ^ 62 \<and> time_offset (tw_timer w) \<le> tw_clock w \<and> as_millis (tw_clock w) < 2 ^ 62"

definition timer_init :: "timer_world \<Rightarrow> bool" where
  "timer_init w \<longleftrightarrow> timer_config_ok w \<and> (\<exists>offset relay para. tw_timer w = new_with_offset offset relay para)"

definition current_slot :: "timer_world \<Rightarrow> nat" where
  "current_slot w = timer_now w div unat (slot_millis (tw_timer w))"

definition timer_inv :: "timer_world \<Rightarrow> bool" where
  "timer_inv w \<longleftrightarrow> timer_config_ok w \<and>
     (case last_reported_slot (tw_timer w) of None \<Rightarrow> True | Some s \<Rightarrow> unat s \<le> current_slot w)"

lemma timer_next_block:
  assumes "slot_lib_ok lib" "timer_config_ok w"
  obtains d s where "time_until_next_block lib (tw_clock w) (slot_millis (tw_timer w)) (tw_timer w) = Ok (from_millis d, s)"
    "unat s = (timer_now w + d) div unat (slot_millis (tw_timer w))" "0 < d" "d \<le> unat (slot_millis (tw_timer w))"
proof -
  let ?t = "tw_timer w"
  have lt: "as_millis (tw_clock w) - as_millis (time_offset ?t) + unat (slot_millis ?t) < 2 ^ 64"
    and cfg: "slot_millis ?t \<noteq> 0" "from_millis 500 \<le> relay_slot_duration ?t"
    using assms(2) by (auto simp: timer_config_ok_def)
  obtain d i where next_attempt: "compute_next_wake_up_time lib (slot_millis ?t) (relay_slot_duration ?t)
        (last_reported_core_num ?t) (tw_clock w) (time_offset ?t) =
        Ok (from_millis d, from_timestamp lib (of_nat (timer_now w + d)) (slot_millis ?t))"
    "unat (from_timestamp lib (of_nat (timer_now w + d)) (slot_millis ?t)) = (timer_now w + d) div unat (slot_millis ?t)"
    "0 < d" "d \<le> as_millis i" "as_millis i \<le> unat (slot_millis ?t)"
    by (rule compute_next_wake_up_time_spec [OF assms(1) cfg lt, of "last_reported_core_num ?t"])
       (simp only: timer_now_def)
  define s where "s = from_timestamp lib (of_nat (timer_now w + d)) (slot_millis ?t)"
  have d: "time_until_next_block lib (tw_clock w) (slot_millis ?t) ?t = Ok (from_millis d, s)"
    "unat s = (timer_now w + d) div unat (slot_millis ?t)" "0 < d" "d \<le> unat (slot_millis ?t)"
    using next_attempt unfolding s_def [symmetric] by (simp_all add: time_until_next_block_def)
  show ?thesis by (rule that [OF d])
qed

text \<open>One wait: the slot it reports, from the slot of the next attempt.\<close>

lemma wait_until_next_slot_cases:
  assumes "slot_lib_ok lib" "timer_config_ok w"
    and "wait_until_next_slot lib (tw_clock w) (tw_timer w) = Ok (sleep, t)"
  obtains (sleep) d s where "sleep = from_millis d" "t = (tw_timer w)\<lparr>last_reported_slot := Some s\<rparr>"
      "unat s = (timer_now w + d) div unat (slot_millis (tw_timer w))" "0 < d"
      "\<And>ls. last_reported_slot (tw_timer w) = Some ls \<Longrightarrow> \<not> (ls + 1 < s \<and> s \<le> ls + 3)"
    | (catch_up) d s ls where "sleep = 0" "last_reported_slot (tw_timer w) = Some ls"
      "t = (tw_timer w)\<lparr>last_reported_slot := Some (ls + 1)\<rparr>"
      "unat s = (timer_now w + d) div unat (slot_millis (tw_timer w))" "d \<le> unat (slot_millis (tw_timer w))"
      "ls + 1 < s" "s \<le> ls + 3"
proof -
  let ?t = "tw_timer w"
  obtain d s where d: "time_until_next_block lib (tw_clock w) (slot_millis ?t) ?t = Ok (from_millis d, s)"
    "unat s = (timer_now w + d) div unat (slot_millis ?t)" "0 < d" "d \<le> unat (slot_millis ?t)"
    by (rule timer_next_block [OF assms(1,2)])
  show ?thesis
  proof (cases "\<exists>ls. last_reported_slot ?t = Some ls \<and> ls + 1 < s \<and> s \<le> ls + 3")
    case True
    then obtain ls where ls: "last_reported_slot ?t = Some ls" "ls + 1 < s" "s \<le> ls + 3" by blast
    then show ?thesis using assms(3) d(1)
      by (intro catch_up [OF _ ls(1) _ d(2,4) ls(2,3)]) (auto simp: wait_until_next_slot_def)
  next
    case False
    then have "sleep = from_millis d" "t = ?t\<lparr>last_reported_slot := Some s\<rparr>"
      using assms(3) d(1) by (auto simp: wait_until_next_slot_def split: option.splits if_splits)
    from sleep [OF this d(2,3)] False show ?thesis by blast
  qed
qed

lemma current_slot_mono:
  assumes "timer_now w \<le> timer_now v" "slot_millis (tw_timer v) = slot_millis (tw_timer w)"
  shows "current_slot w \<le> current_slot v"
  using assms by (simp add: current_slot_def div_le_mono)

lemma timer_now_elapsed:
  assumes "time_offset t \<le> c" "c + from_millis d \<le> c'"
  shows "as_millis c - as_millis (time_offset t) + d \<le> as_millis c' - as_millis (time_offset t)"
proof -
  have "as_millis (time_offset t) \<le> as_millis c" using assms(1) by (rule as_millis_mono)
  moreover have "as_millis c + d \<le> as_millis c'" using as_millis_mono [OF assms(2)] by (simp add: as_millis_add)
  ultimately show ?thesis by linarith
qed

text \<open>A reported slot stays far below the largest one.\<close>

lemma timer_inv_small:
  assumes "timer_inv w" "last_reported_slot (tw_timer w) = Some ls"
  shows "unat (ls + 1) = unat ls + 1 \<and> unat (ls + 3) = unat ls + 3"
proof -
  have "unat ls \<le> timer_now w div unat (slot_millis (tw_timer w))"
    using assms by (simp add: timer_inv_def current_slot_def)
  also have "\<dots> \<le> timer_now w" by simp
  also have "\<dots> < 2 ^ 62" using assms(1) by (auto simp: timer_inv_def timer_config_ok_def timer_now_def)
  finally have "unat ls < 2 ^ 62" .
  then have "unat ls + unat (1 :: u64) < 2 ^ LENGTH(64)" "unat ls + unat (3 :: u64) < 2 ^ LENGTH(64)" by simp_all
  from this [THEN unat_add_no_wrap] show ?thesis by simp
qed

lemma wait_keeps_inv:
  assumes "slot_lib_ok lib" "timer_inv w"
    and "wait_until_next_slot lib (tw_clock w) (tw_timer w) = Ok (sleep, t)"
    and "tw_clock w + sleep \<le> c" "as_millis c < 2 ^ 62"
  shows "timer_inv \<lparr>tw_timer = t, tw_clock = c\<rparr>"
proof -
  have cfg: "timer_config_ok w" using assms(2) by (simp add: timer_inv_def)
  then have off: "time_offset (tw_timer w) \<le> tw_clock w" by (simp add: timer_config_ok_def)
  from assms(1) cfg assms(3) show ?thesis
  proof (cases rule: wait_until_next_slot_cases)
    case (sleep d s)
    have "timer_now w + d \<le> as_millis c - as_millis (time_offset (tw_timer w))"
      using timer_now_elapsed [OF off, of d c] assms(4) sleep(1) by (simp add: timer_now_def)
    then have "unat s \<le> (as_millis c - as_millis (time_offset (tw_timer w))) div unat (slot_millis (tw_timer w))"
      using sleep(3) div_le_mono by simp
    then show ?thesis using cfg assms(4,5) sleep(2)
      by (auto simp: timer_inv_def timer_config_ok_def current_slot_def timer_now_def)
  next
    case (catch_up d s ls)
    let ?p = "unat (slot_millis (tw_timer w))"
    have p: "0 < ?p" using cfg by (simp add: timer_config_ok_def unat_gt_0)
    have "unat ls + 1 < unat s" using catch_up(6) timer_inv_small [OF assms(2) catch_up(2)] by (simp add: word_less_nat_alt)
    moreover have "(timer_now w + d) div ?p \<le> (timer_now w + ?p) div ?p" using catch_up(5) by (intro div_le_mono) simp
    moreover have "(timer_now w + ?p) div ?p = timer_now w div ?p + 1" using p by (simp add: div_add_self2)
    ultimately have "unat ls + 1 \<le> timer_now w div ?p" using catch_up(4) by linarith
    also have "\<dots> \<le> (as_millis c - as_millis (time_offset (tw_timer w))) div ?p"
      using timer_now_elapsed [OF off, of 0 c] assms(4) by (intro div_le_mono) (simp add: timer_now_def)
    finally show ?thesis using cfg assms(4,5) catch_up(3) timer_inv_small [OF assms(2) catch_up(2)]
      by (auto simp: timer_inv_def timer_config_ok_def current_slot_def timer_now_def)
  qed
qed

lemma timer_step_inv:
  assumes "slot_lib_ok lib" "timer_inv w" "timer_step lib w v"
  shows "timer_inv v"
  using assms(3)
proof cases
  case (tick c)
  have "current_slot w \<le> current_slot v"
    by (rule current_slot_mono) (use tick as_millis_mono [OF tick(2)] in \<open>auto simp: timer_now_def\<close>)
  then show ?thesis using assms(2) tick
    by (auto simp: timer_inv_def timer_config_ok_def intro: le_trans split: option.splits)
next
  case (cores n)
  then have "current_slot v = current_slot w" by (simp add: current_slot_def timer_now_def)
  then show ?thesis using assms(2) cores
    by (auto simp: timer_inv_def timer_config_ok_def split: option.splits)
next
  case (wait sleep t c)
  then show ?thesis using wait_keeps_inv [OF assms(1,2)] by blast
qed

interpretation timer: invariant_system timer_init "\<lambda>w v. slot_lib_ok lib \<and> timer_step lib w v" timer_inv for lib
  by unfold_locales (use timer_step_inv in \<open>auto simp: timer_init_def new_with_offset_def timer_inv_def\<close>)

section \<open>Properties of the timer\<close>

definition timer_reachable :: "slot_lib \<Rightarrow> timer_world \<Rightarrow> bool" where
  "timer_reachable lib = reachable timer_init (\<lambda>w v. slot_lib_ok lib \<and> timer_step lib w v)"

lemma timer_reachable_inv: "timer_reachable lib w \<Longrightarrow> timer_inv w"
  by (simp add: timer_reachable_def timer.invar_reachable)

text \<open>
  C22: However the number of cores and the clock develop, a wait of the slot timer ends, after at most a
  slot, with a slot that has begun; slots are reported in order, and none is skipped unless the
  collator is more than three slots behind.
\<close>

theorem reported_slots_in_order:
  assumes "slot_lib_ok lib" "timer_reachable lib w"
  shows "\<exists>sleep t s. wait_until_next_slot lib (tw_clock w) (tw_timer w) = Ok (sleep, t) \<and>
     sleep \<le> from_millis (unat (slot_millis (tw_timer w))) \<and> last_reported_slot t = Some s \<and>
     (\<forall>c. tw_clock w + sleep \<le> c \<and> as_millis c < 2 ^ 62 \<longrightarrow> unat s \<le> current_slot \<lparr>tw_timer = t, tw_clock = c\<rparr>) \<and>
     (\<forall>ls. last_reported_slot (tw_timer w) = Some ls \<longrightarrow>
        unat ls \<le> unat s \<and> (unat s \<le> unat ls + 1 \<or> unat ls + 3 < unat s))"
proof -
  have inv: "timer_inv w" using assms(2) by (rule timer_reachable_inv)
  then have cfg: "timer_config_ok w" by (simp add: timer_inv_def)
  obtain d s where "time_until_next_block lib (tw_clock w) (slot_millis (tw_timer w)) (tw_timer w) = Ok (from_millis d, s)"
    "d \<le> unat (slot_millis (tw_timer w))" by (rule timer_next_block [OF assms(1) cfg])
  then have "\<exists>sleep t. wait_until_next_slot lib (tw_clock w) (tw_timer w) = Ok (sleep, t) \<and>
      sleep \<le> from_millis (unat (slot_millis (tw_timer w)))"
    by (simp add: wait_until_next_slot_def split: option.split)
  then obtain sleep t where wait: "wait_until_next_slot lib (tw_clock w) (tw_timer w) = Ok (sleep, t)"
    "sleep \<le> from_millis (unat (slot_millis (tw_timer w)))" by blast
  have begun: "timer_inv \<lparr>tw_timer = t, tw_clock = c\<rparr>" if "tw_clock w + sleep \<le> c" "as_millis c < 2 ^ 62" for c
    using wait_keeps_inv [OF assms(1) inv wait(1) that] .
  from assms(1) cfg wait(1) show ?thesis
  proof (cases rule: wait_until_next_slot_cases)
    case (sleep d s)
    have "unat ls \<le> unat s" if "last_reported_slot (tw_timer w) = Some ls" for ls
    proof -
      have "unat ls \<le> timer_now w div unat (slot_millis (tw_timer w))"
        using inv that by (simp add: timer_inv_def current_slot_def)
      also have "\<dots> \<le> unat s" unfolding sleep(3) by (rule div_le_mono) simp
      finally show ?thesis .
    qed
    moreover have "unat s \<le> unat ls + 1 \<or> unat ls + 3 < unat s" if "last_reported_slot (tw_timer w) = Some ls" for ls
      using sleep(5) [OF that] timer_inv_small [OF inv that] by (auto simp: word_less_nat_alt word_le_nat_alt)
    ultimately show ?thesis using wait begun sleep(2) by (auto simp: timer_inv_def)
  next
    case (catch_up d s ls)
    then show ?thesis using wait begun timer_inv_small [OF inv catch_up(2)] by (auto simp: timer_inv_def)
  qed
qed

text \<open>
  C30: When the timer allows a duration for building a block in the slot it reported last, the block is
  finished at least one second before that slot ends, and the duration is at most the one asked for.
\<close>

theorem authoring_ends_before_slot:
  assumes "slot_lib_ok lib" "timer_reachable lib w" "last_reported_slot (tw_timer w) = Some s"
    and "timer_adjust_authoring_duration lib now now' authoring (tw_timer w) = Ok (Some d)"
  shows "d \<le> authoring \<and>
     (now' - time_offset (tw_timer w)) + d + from_millis 1000 \<le> from_millis ((unat s + 1) * unat (slot_millis (tw_timer w)))"
proof -
  let ?p = "unat (slot_millis (tw_timer w))"
  have inv: "timer_inv w" using assms(2) by (rule timer_reachable_inv)
  have "unat s \<le> timer_now w div ?p" using inv assms(3) by (simp add: timer_inv_def current_slot_def)
  then have "unat s * ?p \<le> timer_now w div ?p * ?p" by (rule mult_le_mono1)
  also have "\<dots> \<le> timer_now w" by simp
  finally have "unat s * ?p \<le> timer_now w" .
  moreover have "timer_now w < 2 ^ 62" "?p < 2 ^ 62" using inv by (auto simp: timer_inv_def timer_config_ok_def timer_now_def)
  ultimately have "(unat s + 1) * ?p < 2 ^ 64" by simp
  moreover have "s \<noteq> - 1" using timer_inv_small [OF inv assms(3)] by auto
  ultimately show ?thesis by (rule timer_adjust_Ok [OF assms(1,4,3)])
qed

text \<open>
  A parachain with slots as long as the relay chain's that is assigned several cores gets at least as
  many attempts in a relay slot as it has cores, while they are at least half a second apart.
\<close>

theorem attempt_for_every_core:
  assumes "production_interval para relay (Some cores) = Ok i"
    and "as_millis relay div unat para < unat cores" "relay \<le> from_millis (unat para)" "unat cores * from_millis 500 \<le> relay"
  shows "unat cores * as_millis i \<le> as_millis relay \<and> from_millis 500 \<le> i"
proof -
  have "(of_nat (as_millis relay div unat para) :: u32) < cores"
    using assms(2) by (simp add: word_less_nat_alt unat_of_nat take_bit_eq_mod mod_less_eq_dividend le_less_trans)
  then have i: "i = max (relay div unat cores) (from_millis 500)"
    using assms(1,3) by (auto simp: production_interval_def block_production_consts Let_def)
  have c: "0 < unat cores" using assms(2) by simp
  then have "from_millis 500 \<le> relay div unat cores" using assms(4) by (simp add: less_eq_div_iff_mult_less_eq mult.commute)
  then have "i = relay div unat cores" using i by simp
  then have "unat cores * i \<le> relay" by simp
  moreover have "unat cores * as_millis i \<le> as_millis (unat cores * i)"
    using from_as_millis [of i] by (simp add: as_millis_def from_millis_def less_eq_div_iff_mult_less_eq)
  ultimately show ?thesis using as_millis_mono [of "unat cores * i" relay] i by simp
qed

section \<open>Concrete runs\<close>

definition demo_slot_lib :: slot_lib where
  "demo_slot_lib = \<lparr>from_timestamp = (\<lambda>t d. t div d),
     slot_timestamp = (\<lambda>s d. if unat s * unat d < 2 ^ 64 then Some (s * d) else None)\<rparr>"

lemma demo_slot_lib_ok: "slot_lib_ok demo_slot_lib"
  by (simp add: slot_lib_ok_def demo_slot_lib_def unat_div)

text \<open>A timer with slots of six seconds, first one second after the epoch, then after its first wait.\<close>

definition timer_start :: timer_world where
  "timer_start = \<lparr>tw_timer = new_with_offset 0 (from_millis 6000) None, tw_clock = from_millis 1000\<rparr>"

definition timer_running :: timer_world where
  "timer_running = \<lparr>tw_timer = (tw_timer timer_start)\<lparr>last_reported_slot := Some 1\<rparr>, tw_clock = from_millis 6000\<rparr>"

lemmas timer_demo_simps = timer_start_def timer_running_def new_with_offset_def slot_millis_def slot_duration_def
  time_until_next_block_def compute_next_wake_up_time_def production_interval_def time_until_next_attempt_def
  demo_slot_lib_def block_production_consts

lemma timer_start_wait:
  "wait_until_next_slot demo_slot_lib (tw_clock timer_start) (tw_timer timer_start) = Ok (from_millis 5000, tw_timer timer_running)"
  by (simp add: timer_demo_simps wait_until_next_slot_def as_millis_def from_millis_def)

lemma timer_running_reachable: "timer_reachable demo_slot_lib timer_running"
  unfolding timer_reachable_def
proof (rule reach_step)
  have "timer_config_ok timer_start" by (simp add: timer_config_ok_def timer_start_def new_with_offset_def slot_millis_def slot_duration_def)
  moreover have "\<exists>offset relay para. tw_timer timer_start = new_with_offset offset relay para"
    unfolding timer_start_def timer_world.simps by blast
  ultimately show "reachable timer_init (\<lambda>w v. slot_lib_ok demo_slot_lib \<and> timer_step demo_slot_lib w v) timer_start"
    by (intro reach_init) (simp add: timer_init_def)
  have "timer_running = \<lparr>tw_timer = tw_timer timer_running, tw_clock = from_millis 6000\<rparr>" by (simp add: timer_running_def)
  moreover have "timer_step demo_slot_lib timer_start \<lparr>tw_timer = tw_timer timer_running, tw_clock = from_millis 6000\<rparr>"
    by (rule timer_step.wait [OF timer_start_wait]) (simp_all add: timer_start_def from_millis_def as_millis_def)
  ultimately show "slot_lib_ok demo_slot_lib \<and> timer_step demo_slot_lib timer_start timer_running"
    using demo_slot_lib_ok by simp
qed

theorem reported_slots_in_order_witness:
  "\<exists>sleep t s. wait_until_next_slot demo_slot_lib (tw_clock timer_running) (tw_timer timer_running) = Ok (sleep, t) \<and>
     sleep \<le> from_millis 6000 \<and> last_reported_slot t = Some s \<and> 1 \<le> unat s"
proof -
  have "last_reported_slot (tw_timer timer_running) = Some 1" "unat (slot_millis (tw_timer timer_running)) = 6000"
    by (simp_all add: timer_running_def timer_start_def new_with_offset_def slot_millis_def slot_duration_def)
  with reported_slots_in_order [OF demo_slot_lib_ok timer_running_reachable] show ?thesis by auto
qed

theorem authoring_ends_before_slot_witness:
  "timer_adjust_authoring_duration demo_slot_lib (from_millis 9500) (from_millis 9500) (from_millis 2000) (tw_timer timer_running)
     = Ok (Some (from_millis 1500)) \<and> from_millis 9500 + from_millis 1500 + from_millis 1000 \<le> from_millis (2 * 6000)"
proof -
  have run: "timer_adjust_authoring_duration demo_slot_lib (from_millis 9500) (from_millis 9500) (from_millis 2000) (tw_timer timer_running)
     = Ok (Some (from_millis 1500))"
    by (simp add: timer_demo_simps timer_adjust_authoring_duration_def time_until_next_slot_change_def
        compute_time_until_next_slot_change_def adjust_authoring_duration_def as_millis_def from_millis_def)
  have "last_reported_slot (tw_timer timer_running) = Some 1" by (simp add: timer_running_def)
  from authoring_ends_before_slot [OF demo_slot_lib_ok timer_running_reachable this run]
  have "from_millis 9500 + from_millis 1500 + from_millis 1000 \<le> from_millis (2 * 6000)"
    by (simp add: timer_running_def timer_start_def new_with_offset_def slot_millis_def slot_duration_def)
  with run show ?thesis by simp
qed

theorem attempt_for_every_core_witness:
  "\<exists>i. production_interval 6000 (from_millis 6000) (Some 3) = Ok i \<and> 3 * as_millis i \<le> 6000 \<and> from_millis 500 \<le> i"
proof -
  obtain i where i: "production_interval 6000 (from_millis 6000) (Some 3) = Ok i"
    by (simp add: production_interval_def)
  from attempt_for_every_core [OF i] have "3 * as_millis i \<le> 6000 \<and> from_millis 500 \<le> i"
    by (simp add: from_millis_def as_millis_def)
  with i show ?thesis by blast
qed

end
