(* ===== verification/Relay_Chain_Data.thy ===== *)
theory Relay_Chain_Data
  imports Nimbus_Client Slot_Timer
begin

text \<open>
  \<^verbatim>\<open>client/consensus/nimbus-consensus/src/collators/slot_based\<close>: the cache of relay chain data
  (\<^verbatim>\<open>relay_chain_data_cache.rs\<close>) and the helpers of the block builder that work on it: the relay parent
  at an offset from the best block, the core to build for and the slot of the parachain
  (\<^verbatim>\<open>block_builder_task.rs\<close>).
\<close>

section \<open>The cache\<close>

record ('rhash, 'cq) relay_chain_data =
  relay_parent_header :: "'rhash relay_header"
  claim_queue :: 'cq
  max_pov_size :: u32
  last_claimed_core_selector :: "u8 option"

definition update_for_relay_parent ::
    "('rhash, 'hdr, 'cq) relay_client \<Rightarrow> 'rhash \<Rightarrow> (unit, ('rhash, 'cq) relay_chain_data) result" where
  "update_for_relay_parent rc relay_parent =
     (let queue = claim_queue_at rc relay_parent
      in (case relay_header_at rc relay_parent of
            Some (Some hdr) \<Rightarrow>
              (case relay_max_pov_size rc relay_parent of
                 Some (Some pov_size) \<Rightarrow> Ok \<lparr>relay_parent_header = hdr, claim_queue = queue, max_pov_size = pov_size,
                                        last_claimed_core_selector = None\<rparr>
               | Some None \<Rightarrow> Err ()
               | None \<Rightarrow> Err ())
          | _ \<Rightarrow> Err ()))"

text \<open>
  The LRU map of the \<^verbatim>\<open>schnellru\<close> crate: \<open>lru_get_or_insert\<close> returns the value of a key, inserting the given one
  if there is none, and may evict other keys; \<open>lru_set\<close> writes through the reference it returned.
\<close>

record ('k, 'v, 'm) lru_map =
  lru_new :: "nat \<Rightarrow> 'm"
  lru_peek :: "'m \<Rightarrow> 'k \<Rightarrow> 'v option"
  lru_get_or_insert :: "'k \<Rightarrow> 'v \<Rightarrow> 'm \<Rightarrow> 'm"
  lru_set :: "'k \<Rightarrow> 'v \<Rightarrow> 'm \<Rightarrow> 'm"

definition lru_ok :: "('k, 'v, 'm) lru_map \<Rightarrow> bool" where
  "lru_ok lru \<longleftrightarrow>
     (\<forall>n k. lru_peek lru (lru_new lru n) k = None) \<and>
     (\<forall>m k v. lru_peek lru (lru_get_or_insert lru k v m) k = Some (case lru_peek lru m k of Some w \<Rightarrow> w | None \<Rightarrow> v)) \<and>
     (\<forall>m k v j. j \<noteq> k \<longrightarrow> lru_peek lru (lru_get_or_insert lru k v m) j \<in> {None, lru_peek lru m j}) \<and>
     (\<forall>m k v j. lru_peek lru (lru_set lru k v m) j =
        (if j = k \<and> lru_peek lru m k \<noteq> None then Some v else lru_peek lru m j))"

definition cache_new :: "('rhash, ('rhash, 'cq) relay_chain_data, 'm) lru_map \<Rightarrow> 'm" where
  "cache_new lru = lru_new lru 50"

definition get_mut_relay_chain_data ::
    "('rhash, ('rhash, 'cq) relay_chain_data, 'm) lru_map \<Rightarrow> ('rhash, 'hdr, 'cq) relay_client \<Rightarrow> 'rhash \<Rightarrow> 'm
      \<Rightarrow> (unit, ('rhash, 'cq) relay_chain_data \<times> 'm) result" where
  "get_mut_relay_chain_data lru rc relay_parent m =
     and_then (case lru_peek lru m relay_parent of
                 Some d \<Rightarrow> Ok None
               | None \<Rightarrow> and_then (update_for_relay_parent rc relay_parent) (\<lambda>d. Ok (Some d)))
     (\<lambda>insert_data.
        and_then (case lru_peek lru m relay_parent of
                    Some d \<Rightarrow> Ok d
                  | None \<Rightarrow> expect ''`insert_data` exists if not cached yet; qed'' insert_data)
     (\<lambda>d. let m' = lru_get_or_insert lru relay_parent d m
        in and_then (expect ''There is space for at least one element; qed'' (lru_peek lru m' relay_parent))
     (\<lambda>d. Ok (d, m'))))"

section \<open>The relay parent (\<^verbatim>\<open>block_builder_task.rs\<close>)\<close>

text \<open>The loop of \<^verbatim>\<open>offset_relay_parent_find_descendants\<close>: \<open>n\<close> is the number of ancestors still required.\<close>

fun collect_ancestors ::
    "('rhash, ('rhash, 'cq) relay_chain_data, 'm) lru_map \<Rightarrow> ('rhash, 'hdr, 'cq) relay_client \<Rightarrow> nat
      \<Rightarrow> 'rhash relay_header list \<Rightarrow> 'rhash relay_header \<Rightarrow> 'm
      \<Rightarrow> (unit, ('rhash relay_header list \<times> 'rhash relay_header) option \<times> 'm) result" where
  "collect_ancestors lru rc 0 required_ancestors relay_header m = Ok (Some (required_ancestors, relay_header), m)"
| "collect_ancestors lru rc (Suc n) required_ancestors relay_header m =
     and_then (get_mut_relay_chain_data lru rc (rh_parent_hash relay_header) m)
     (\<lambda>(d, m). let next_header = relay_parent_header d
        in if rh_epoch_change next_header then Ok (None, m)
           else collect_ancestors lru rc n (next_header # required_ancestors) next_header m)"

definition offset_relay_parent_find_descendants ::
    "('rhash, ('rhash, 'cq) relay_chain_data, 'm) lru_map \<Rightarrow> ('rhash, 'hdr, 'cq) relay_client \<Rightarrow> 'rhash \<Rightarrow> u32 \<Rightarrow> 'm
      \<Rightarrow> (unit, 'rhash relay_header relay_parent_data option \<times> 'm) result" where
  "offset_relay_parent_find_descendants lru rc relay_best_block relay_parent_offset m =
     and_then (get_mut_relay_chain_data lru rc relay_best_block m)
     (\<lambda>(d, m). let relay_header = relay_parent_header d
        in if relay_parent_offset = 0 then Ok (Some (relay_parent_data_new relay_header), m)
           else if rh_epoch_change relay_header then Ok (None, m)
           else and_then (collect_ancestors lru rc (unat relay_parent_offset - 1) [relay_header] relay_header m)
     (\<lambda>(found, m). case found of
        None \<Rightarrow> Ok (None, m)
      | Some (required_ancestors, relay_header) \<Rightarrow>
          and_then (get_mut_relay_chain_data lru rc (rh_parent_hash relay_header) m)
          (\<lambda>(d, m). Ok (Some (new_with_descendants (relay_parent_header d) required_ancestors), m))))"

section \<open>The core\<close>

record core =
  core_selector :: u8
  claim_queue_offset :: u8
  core_index :: u32
  number_of_cores :: "16 word"

text \<open>
  The digests of a parachain block that \<^verbatim>\<open>cumulus\<close> reads: the relay parent or its storage root, and the
  core selector the block was built for.
\<close>

record 'rhash para_digests =
  extract_relay_parent :: "digest_item list \<Rightarrow> 'rhash option"
  extract_relay_parent_storage_root :: "digest_item list \<Rightarrow> 'rhash option"
  find_core_info :: "digest_item list \<Rightarrow> u8 option"

definition is_new_relay_parent ::
    "'rhash para_digests \<Rightarrow> 'rhash relay_header \<Rightarrow> nat \<Rightarrow> digest_item list \<Rightarrow> (unit, bool) result" where
  "is_new_relay_parent pd relay_parent para_parent_number para_parent_logs =
     (if para_parent_number = 0 then Ok True
      else (case extract_relay_parent pd para_parent_logs of
              Some last_relay_parent \<Rightarrow> Ok (last_relay_parent \<noteq> rh_hash relay_parent)
            | None \<Rightarrow> and_then (ok_or () (extract_relay_parent_storage_root pd para_parent_logs))
                (\<lambda>root. Ok (root \<noteq> rh_state_root relay_parent))))"

definition determine_core ::
    "('rhash, ('rhash, 'cq) relay_chain_data, 'm) lru_map \<Rightarrow> ('rhash, 'hdr, 'cq) relay_client \<Rightarrow> 'rhash para_digests
      \<Rightarrow> 'rhash relay_header \<Rightarrow> nat \<Rightarrow> digest_item list \<Rightarrow> u32 \<Rightarrow> 'm \<Rightarrow> (unit, core option \<times> 'm) result" where
  "determine_core lru rc pd relay_parent para_parent_number para_parent_logs relay_parent_offset m =
     and_then (get_mut_relay_chain_data lru rc (rh_hash relay_parent) m)
     (\<lambda>(d, m). let cores_at_offset = claims_at_depth rc (claim_queue d) (unat relay_parent_offset)
        in and_then (is_new_relay_parent pd relay_parent para_parent_number para_parent_logs)
     (\<lambda>is_new. and_then
        (if is_new then Ok (0, m)
         else (case find_core_info pd para_parent_logs of
                 Some selector \<Rightarrow> Ok (unat selector + 1, m)
               | None \<Rightarrow> and_then (get_mut_relay_chain_data lru rc (rh_hash relay_parent) m)
                   (\<lambda>(d, m). Ok ((case last_claimed_core_selector d of None \<Rightarrow> 0 | Some cs \<Rightarrow> unat cs) + 1, m))))
     (\<lambda>(selector, m).
        if selector < length cores_at_offset
        then Ok (Some \<lparr>core_selector = of_nat selector, claim_queue_offset = ucast relay_parent_offset,
                   core_index = cores_at_offset ! selector, number_of_cores = of_nat (length cores_at_offset)\<rparr>, m)
        else Ok (None, m))))"

section \<open>The slot\<close>

record slot_info =
  si_timestamp :: u64
  si_slot :: u64

definition adjust_para_to_relay_parent_slot ::
    "slot_lib \<Rightarrow> 'rhash relay_header \<Rightarrow> duration \<Rightarrow> u64 \<Rightarrow> slot_info option" where
  "adjust_para_to_relay_parent_slot lib relay_hdr relay_chain_slot_duration para_slot_dur =
     (case rh_babe_slot relay_hdr of
        None \<Rightarrow> None
      | Some relay_slot \<Rightarrow>
          (case slot_timestamp lib relay_slot (of_nat (as_millis relay_chain_slot_duration)) of
             None \<Rightarrow> None
           | Some relay_timestamp \<Rightarrow>
               let new_slot = from_timestamp lib relay_timestamp para_slot_dur
               in (case slot_timestamp lib new_slot para_slot_dur of
                     None \<Rightarrow> None
                   | Some timestamp \<Rightarrow> Some \<lparr>si_timestamp = timestamp, si_slot = new_slot\<rparr>)))"

section \<open>The cache is transparent\<close>

text \<open>Every cached entry is what the relay chain answers for its key, up to the claimed selector.\<close>

definition cache_ok ::
    "('rhash, ('rhash, 'cq) relay_chain_data, 'm) lru_map \<Rightarrow> ('rhash, 'hdr, 'cq) relay_client \<Rightarrow> 'm \<Rightarrow> bool" where
  "cache_ok lru rc m \<longleftrightarrow>
     (\<forall>h d. lru_peek lru m h = Some d \<longrightarrow> update_for_relay_parent rc h = Ok (d\<lparr>last_claimed_core_selector := None\<rparr>))"

lemma update_no_panic: "update_for_relay_parent rc h \<noteq> Panic e"
  by (auto simp: update_for_relay_parent_def Let_def split: option.splits)

lemma update_selector:
  "update_for_relay_parent rc h = Ok d \<Longrightarrow> d\<lparr>last_claimed_core_selector := None\<rparr> = d"
  by (auto simp: update_for_relay_parent_def Let_def split: option.splits)

lemma update_fresh: "update_for_relay_parent rc h = Ok d \<Longrightarrow> last_claimed_core_selector d = None"
  by (auto simp: update_for_relay_parent_def Let_def split: option.splits)

lemma get_mut_Ok:
  assumes "lru_ok lru" "cache_ok lru rc m" "update_for_relay_parent rc h = Ok d0"
  obtains d m' where "get_mut_relay_chain_data lru rc h m = Ok (d, m')" "d\<lparr>last_claimed_core_selector := None\<rparr> = d0"
    "cache_ok lru rc m'" "lru_peek lru m' h = Some d" "lru_peek lru m h \<in> {None, Some d}"
proof -
  define d where "d = (case lru_peek lru m h of Some w \<Rightarrow> w | None \<Rightarrow> d0)"
  define m' where "m' = lru_get_or_insert lru h d m"
  have peek: "lru_peek lru m' h = Some d"
    using assms(1) unfolding lru_ok_def m'_def d_def by (auto split: option.splits)
  have d: "d\<lparr>last_claimed_core_selector := None\<rparr> = d0"
    using assms(2,3) update_selector [OF assms(3)] unfolding cache_ok_def d_def by (auto split: option.splits)
  have "lru_peek lru m' j \<in> {None, lru_peek lru m j}" if "j \<noteq> h" for j
    using assms(1) that unfolding lru_ok_def m'_def by blast
  then have "cache_ok lru rc m'"
    unfolding cache_ok_def using peek d assms(2,3) [unfolded cache_ok_def]
    by (metis insert_iff option.distinct(1) option.inject singletonD)
  moreover have "get_mut_relay_chain_data lru rc h m = Ok (d, m')"
    using assms(3) peek by (auto simp: get_mut_relay_chain_data_def d_def m'_def Let_def split: option.splits)
  ultimately show ?thesis using that d peek by (auto simp: d_def split: option.splits)
qed

lemma lru_fresh: "lru_ok lru \<Longrightarrow> lru_peek lru m k = None \<Longrightarrow> lru_peek lru (lru_get_or_insert lru k v m) k = Some v"
  unfolding lru_ok_def by (auto split: option.splits)

lemma get_mut_Err:
  assumes "cache_ok lru rc m" "update_for_relay_parent rc h = Err ()"
  shows "get_mut_relay_chain_data lru rc h m = Err ()"
proof -
  have "lru_peek lru m h = None" using assms unfolding cache_ok_def by (cases "lru_peek lru m h") auto
  then show ?thesis using assms(2) by (simp add: get_mut_relay_chain_data_def)
qed

lemma get_mut_keeps:
  assumes "lru_ok lru" "cache_ok lru rc m" "get_mut_relay_chain_data lru rc h m = Ok (d, m')"
  shows "cache_ok lru rc m'"
proof (cases "update_for_relay_parent rc h")
  case (Ok d0)
  from get_mut_Ok [OF assms(1,2) Ok] assms(3) show ?thesis by force
next
  case (Err e)
  then show ?thesis using get_mut_Err [OF assms(2)] assms(3) by simp
next
  case (Panic e)
  then show ?thesis using update_no_panic by metis
qed

section \<open>The relay parent at an offset\<close>

text \<open>\<open>fetchable\<close> headers are those the relay chain returns; \<open>ancestry\<close> follows the parents of a header, newest first.\<close>

definition fetchable :: "('rhash, 'hdr, 'cq) relay_client \<Rightarrow> 'rhash \<Rightarrow> 'rhash relay_header \<Rightarrow> bool" where
  "fetchable rc h hdr \<longleftrightarrow> (\<exists>d. update_for_relay_parent rc h = Ok d \<and> relay_parent_header d = hdr)"

fun ancestry :: "('rhash, 'hdr, 'cq) relay_client \<Rightarrow> 'rhash relay_header \<Rightarrow> 'rhash relay_header list \<Rightarrow> bool" where
  "ancestry rc hdr [] \<longleftrightarrow> True"
| "ancestry rc hdr (p # ps) \<longleftrightarrow> fetchable rc (rh_parent_hash hdr) p \<and> ancestry rc p ps"

lemma get_mut_fetchable:
  assumes "lru_ok lru" "cache_ok lru rc m" "fetchable rc h hdr"
  obtains d m' where "get_mut_relay_chain_data lru rc h m = Ok (d, m')" "relay_parent_header d = hdr" "cache_ok lru rc m'"
proof -
  from assms(3) obtain d0 where d0: "update_for_relay_parent rc h = Ok d0" "relay_parent_header d0 = hdr"
    by (auto simp: fetchable_def)
  from get_mut_Ok [OF assms(1,2) d0(1)] obtain d m' where
    "get_mut_relay_chain_data lru rc h m = Ok (d, m')" "d\<lparr>last_claimed_core_selector := None\<rparr> = d0" "cache_ok lru rc m'" .
  moreover from this(2) d0(2) have "relay_parent_header d = hdr" by auto
  ultimately show ?thesis by (intro that)
qed

lemma collect_ancestors_spec:
  assumes "lru_ok lru" "cache_ok lru rc m" "ancestry rc hdr ps" "length ps = n"
  shows "\<exists>m'. collect_ancestors lru rc n acc hdr m =
      Ok (if \<exists>x \<in> set ps. rh_epoch_change x then None else Some (rev ps @ acc, last (hdr # ps)), m') \<and> cache_ok lru rc m'"
  using assms
proof (induction ps arbitrary: n acc hdr m)
  case (Cons p ps)
  then obtain k where n: "n = Suc k" "length ps = k" by (cases n) auto
  from Cons.prems(3) have p: "fetchable rc (rh_parent_hash hdr) p" "ancestry rc p ps" by simp_all
  from get_mut_fetchable [OF Cons.prems(1,2) p(1)] obtain d m1 where
    m1: "get_mut_relay_chain_data lru rc (rh_parent_hash hdr) m = Ok (d, m1)" "relay_parent_header d = p" "cache_ok lru rc m1" .
  from Cons.IH [OF Cons.prems(1) m1(3) p(2) n(2), of "p # acc"] show ?case
    using m1 by (auto simp: n)
qed simp

lemma collect_ancestors_keeps:
  assumes "lru_ok lru" "cache_ok lru rc m" "collect_ancestors lru rc n acc hdr m = Ok (r, m')"
  shows "cache_ok lru rc m'"
  using assms
proof (induction n arbitrary: acc hdr m)
  case (Suc n)
  from Suc.prems(3) obtain d m1 where m1: "get_mut_relay_chain_data lru rc (rh_parent_hash hdr) m = Ok (d, m1)"
    "(if rh_epoch_change (relay_parent_header d) then Ok (None, m1)
      else collect_ancestors lru rc n (relay_parent_header d # acc) (relay_parent_header d) m1) = Ok (r, m')"
    by (auto simp: Let_def)
  from get_mut_keeps [OF Suc.prems(1,2) m1(1)] show ?case
    using m1(2) Suc.IH [OF Suc.prems(1)] by (auto split: if_splits)
qed auto

lemma offset_relay_parent_keeps:
  assumes "lru_ok lru" "cache_ok lru rc m" "offset_relay_parent_find_descendants lru rc best offset m = Ok (r, m')"
  shows "cache_ok lru rc m'"
proof -
  from assms(3) obtain d m1 where m1: "get_mut_relay_chain_data lru rc best m = Ok (d, m1)"
    and rest: "m' = m1 \<or> (\<exists>found m2. collect_ancestors lru rc (unat offset - 1) [relay_parent_header d] (relay_parent_header d) m1 = Ok (found, m2) \<and>
       (m' = m2 \<or> (\<exists>h d'. get_mut_relay_chain_data lru rc h m2 = Ok (d', m'))))"
    by (auto simp: offset_relay_parent_find_descendants_def Let_def split: if_splits option.splits) blast
  have ok1: "cache_ok lru rc m1" using get_mut_keeps [OF assms(1,2) m1] .
  from rest show ?thesis
  proof (elim disjE exE conjE)
    fix found m2 assume "collect_ancestors lru rc (unat offset - 1) [relay_parent_header d] (relay_parent_header d) m1 = Ok (found, m2)"
    from collect_ancestors_keeps [OF assms(1) ok1 this] show "m' = m2 \<Longrightarrow> ?thesis" by simp
  next
    fix found m2 h d' assume "collect_ancestors lru rc (unat offset - 1) [relay_parent_header d] (relay_parent_header d) m1 = Ok (found, m2)"
    from collect_ancestors_keeps [OF assms(1) ok1 this]
    show "get_mut_relay_chain_data lru rc h m2 = Ok (d', m') \<Longrightarrow> ?thesis" by (rule get_mut_keeps [OF assms(1)])
  qed (simp add: ok1)
qed

text \<open>
  C33: The search for the relay parent always comes to an end: if the best relay block and as many of its ancestors
  as the offset says can be fetched, it returns the last of them with the blocks after it, oldest first, as
  descendants, or nothing if one of these descendants starts a new epoch. What the cache holds makes
  no difference, and it keeps agreeing with the relay chain.
\<close>

theorem relay_parent_found:
  assumes "lru_ok lru" "cache_ok lru rc m" "fetchable rc best b" "ancestry rc b ps" "length ps = unat offset"
  shows "\<exists>m'. offset_relay_parent_find_descendants lru rc best offset m =
      Ok (if \<exists>x \<in> set (butlast (b # ps)). rh_epoch_change x then None
          else Some \<lparr>rpd_relay_parent = last (b # ps), rpd_descendants = rev (butlast (b # ps))\<rparr>, m') \<and> cache_ok lru rc m'"
proof -
  from get_mut_fetchable [OF assms(1,2,3)] obtain d m1 where
    m1: "get_mut_relay_chain_data lru rc best m = Ok (d, m1)" "relay_parent_header d = b" "cache_ok lru rc m1" .
  show ?thesis
  proof (cases "offset = 0")
    case True
    then have "ps = []" using assms(5) by simp
    then show ?thesis using True m1 by (simp add: offset_relay_parent_find_descendants_def relay_parent_data_new_def)
  next
    case False
    then have "ps \<noteq> []" using assms(5) by (auto simp: unat_eq_0 [symmetric])
    then obtain as p where ps: "ps = as @ [p]" by (cases ps rule: rev_cases) auto
    have anc: "ancestry rc b as" "fetchable rc (rh_parent_hash (last (b # as))) p" if "ancestry rc b (as @ [p])" for b as
      using that by (induction as arbitrary: b) auto
    have a: "ancestry rc b as" "fetchable rc (rh_parent_hash (last (b # as))) p" "length as = unat offset - 1"
      using anc [of b as] assms(4,5) by (auto simp: ps)
    from collect_ancestors_spec [OF assms(1) m1(3) a(1,3), of "[b]"] obtain m2 where
      m2: "collect_ancestors lru rc (unat offset - 1) [b] b m1 =
        Ok (if \<exists>x \<in> set as. rh_epoch_change x then None else Some (rev as @ [b], last (b # as)), m2)" "cache_ok lru rc m2"
      by blast
    from get_mut_fetchable [OF assms(1) m2(2) a(2)] obtain d3 m3 where
      m3: "get_mut_relay_chain_data lru rc (rh_parent_hash (last (b # as))) m2 = Ok (d3, m3)" "relay_parent_header d3 = p"
      "cache_ok lru rc m3" .
    have "butlast (b # ps) = b # as" "last (b # ps) = p" by (simp_all add: ps)
    then show ?thesis using False m1 m2 m3
      by (auto simp: offset_relay_parent_find_descendants_def new_with_descendants_def simp del: butlast.simps(2) last.simps)
  qed
qed

section \<open>Claiming cores\<close>

text \<open>The cores claimed by the parachain at a relay parent.\<close>

definition scheduled_cores :: "('rhash, 'hdr, 'cq) relay_client \<Rightarrow> 'rhash relay_header \<Rightarrow> u32 \<Rightarrow> u32 list" where
  "scheduled_cores rc relay_parent offset = claims_at_depth rc (claim_queue_at rc (rh_hash relay_parent)) (unat offset)"

lemma update_claim_queue:
  "update_for_relay_parent rc h = Ok d \<Longrightarrow> claim_queue d = claim_queue_at rc h"
  by (auto simp: update_for_relay_parent_def Let_def split: option.splits)

lemma determine_core_Ok:
  assumes "lru_ok lru" "cache_ok lru rc m" "determine_core lru rc pd rp number logs offset m = Ok (Some c, m')"
  obtains selector is_new where "is_new_relay_parent pd rp number logs = Ok is_new"
    "selector < length (scheduled_cores rc rp offset)"
    "c = \<lparr>core_selector = of_nat selector, claim_queue_offset = ucast offset,
         core_index = scheduled_cores rc rp offset ! selector, number_of_cores = of_nat (length (scheduled_cores rc rp offset))\<rparr>"
    "is_new \<Longrightarrow> selector = 0" "\<And>s. \<not> is_new \<Longrightarrow> find_core_info pd logs = Some s \<Longrightarrow> selector = unat s + 1"
proof -
  from assms(3) obtain d m1 is_new selector where r: "get_mut_relay_chain_data lru rc (rh_hash rp) m = Ok (d, m1)"
    "is_new_relay_parent pd rp number logs = Ok is_new" "selector < length (claims_at_depth rc (claim_queue d) (unat offset))"
    "c = \<lparr>core_selector = of_nat selector, claim_queue_offset = ucast offset,
         core_index = claims_at_depth rc (claim_queue d) (unat offset) ! selector,
         number_of_cores = of_nat (length (claims_at_depth rc (claim_queue d) (unat offset)))\<rparr>"
    "is_new \<Longrightarrow> selector = 0" "\<And>s. \<not> is_new \<Longrightarrow> find_core_info pd logs = Some s \<Longrightarrow> selector = unat s + 1"
    by (fastforce simp: determine_core_def Let_def split: if_splits option.splits)
  have "update_for_relay_parent rc (rh_hash rp) \<noteq> Err ()" using get_mut_Err [OF assms(2)] r(1) by auto
  then obtain d0 where d0: "update_for_relay_parent rc (rh_hash rp) = Ok d0"
    using update_no_panic [of rc "rh_hash rp"] by (cases "update_for_relay_parent rc (rh_hash rp)") auto
  from get_mut_Ok [OF assms(1,2) d0] r(1) have "d\<lparr>last_claimed_core_selector := None\<rparr> = d0" by force
  then have "claim_queue d = claim_queue_at rc (rh_hash rp)" using update_claim_queue [OF d0] by auto
  with r that show ?thesis by (simp add: scheduled_cores_def)
qed

text \<open>
  What the digests of the parent and the cache say: whether the relay parent is a new one (unknown, if the parent has neither the relay
  parent nor its storage root), and the selector of the last block on this relay parent. Without a record of it, that is the first core.
\<close>

definition relay_parent_new :: "'rhash para_digests \<Rightarrow> 'rhash relay_header \<Rightarrow> nat \<Rightarrow> digest_item list \<Rightarrow> bool option" where
  "relay_parent_new pd rp number logs =
     (if number = 0 then Some True
      else case extract_relay_parent pd logs of
        Some last_rp \<Rightarrow> Some (last_rp \<noteq> rh_hash rp)
      | None \<Rightarrow> map_option (\<lambda>root. root \<noteq> rh_state_root rp) (extract_relay_parent_storage_root pd logs))"

definition last_selector ::
    "('rhash, ('rhash, 'cq) relay_chain_data, 'm) lru_map \<Rightarrow> 'rhash para_digests \<Rightarrow> 'rhash relay_header \<Rightarrow> digest_item list \<Rightarrow> 'm \<Rightarrow> u8" where
  "last_selector lru pd rp logs m =
     (case find_core_info pd logs of
        Some s \<Rightarrow> s
      | None \<Rightarrow> (case Option.bind (lru_peek lru m (rh_hash rp)) last_claimed_core_selector of Some s \<Rightarrow> s | None \<Rightarrow> 0))"

lemma is_new_relay_parent_eq: "is_new_relay_parent pd rp number logs = ok_or () (relay_parent_new pd rp number logs)"
  by (cases "extract_relay_parent_storage_root pd logs")
     (auto simp: is_new_relay_parent_def relay_parent_new_def split: option.splits)

text \<open>
  C32: If the data of the relay parent can be fetched, the choice of a core has exactly these outcomes, whatever is cached. It fails if it cannot
  be told whether the relay parent is new. On a new relay parent the block is built for the first core of the claim queue; on the relay parent
  of its parent block for the core after that of the last block, which is taken from the core info of the parent, else from the
  selector claimed last in the cache, and is the first core if neither is there. Past the last core there is none. With distinct cores in the queue,
  the core is none of those at the smaller selectors.
\<close>

theorem cores_claimed_in_order:
  assumes "lru_ok lru" "cache_ok lru rc m" "fetchable rc (rh_hash rp) hdr"
  shows "case relay_parent_new pd rp number logs of
       None \<Rightarrow> determine_core lru rc pd rp number logs offset m = Err ()
     | Some new \<Rightarrow> \<exists>selector m'. selector = (if new then 0 else Suc (unat (last_selector lru pd rp logs m))) \<and> cache_ok lru rc m' \<and>
         determine_core lru rc pd rp number logs offset m =
           Ok (if selector < length (scheduled_cores rc rp offset)
               then Some \<lparr>core_selector = of_nat selector, claim_queue_offset = ucast offset,
                      core_index = scheduled_cores rc rp offset ! selector, number_of_cores = of_nat (length (scheduled_cores rc rp offset))\<rparr>
               else None, m') \<and>
         (selector < length (scheduled_cores rc rp offset) \<and> distinct (scheduled_cores rc rp offset) \<longrightarrow>
            scheduled_cores rc rp offset ! selector \<notin> set (take selector (scheduled_cores rc rp offset)))"
proof -
  let ?cs = "scheduled_cores rc rp offset"
  from assms(3) obtain d0 where d0: "update_for_relay_parent rc (rh_hash rp) = Ok d0" by (auto simp: fetchable_def)
  from get_mut_Ok [OF assms(1,2) d0] obtain d m1 where
    m1: "get_mut_relay_chain_data lru rc (rh_hash rp) m = Ok (d, m1)" "d\<lparr>last_claimed_core_selector := None\<rparr> = d0" "cache_ok lru rc m1"
      "lru_peek lru m1 (rh_hash rp) = Some d" "lru_peek lru m (rh_hash rp) \<in> {None, Some d}" .
  from get_mut_Ok [OF assms(1) m1(3) d0] m1(4) obtain m2 where
    m2: "get_mut_relay_chain_data lru rc (rh_hash rp) m1 = Ok (d, m2)" "cache_ok lru rc m2" by auto
  have cs: "claims_at_depth rc (claim_queue d) (unat offset) = ?cs"
    using m1(2) update_claim_queue [OF d0] by (auto simp: scheduled_cores_def)
  have last: "lru_peek lru m (rh_hash rp) = None \<Longrightarrow> last_claimed_core_selector d = None"
    using m1(1) d0 update_fresh [OF d0] lru_fresh [OF assms(1)] by (auto simp: get_mut_relay_chain_data_def Let_def)
  have fresh: "?cs ! k \<notin> set (take k ?cs)" if "k < length ?cs" "distinct ?cs" for k
    using that by (auto simp: in_set_conv_nth distinct_conv_nth)
  show ?thesis
  proof (cases "relay_parent_new pd rp number logs")
    case None
    then show ?thesis using m1(1) by (simp add: determine_core_def is_new_relay_parent_eq Let_def)
  next
    case (Some new)
    define k where "k = (if new then 0 else Suc (unat (last_selector lru pd rp logs m)))"
    have sel: "find_core_info pd logs = None \<Longrightarrow>
        last_selector lru pd rp logs m = (case last_claimed_core_selector d of None \<Rightarrow> 0 | Some s \<Rightarrow> s)"
      using m1(5) last by (auto simp: last_selector_def split: option.splits)
    have "determine_core lru rc pd rp number logs offset m =
        Ok (if k < length ?cs
            then Some \<lparr>core_selector = of_nat k, claim_queue_offset = ucast offset, core_index = ?cs ! k, number_of_cores = of_nat (length ?cs)\<rparr>
            else None, if new \<or> find_core_info pd logs \<noteq> None then m1 else m2)"
    proof (cases "find_core_info pd logs")
      case None
      then have "unat (last_selector lru pd rp logs m) = (case last_claimed_core_selector d of None \<Rightarrow> 0 | Some s \<Rightarrow> unat s)"
        using sel by (simp split: option.splits)
      then show ?thesis using None Some m1(1) m2(1) cs by (simp add: determine_core_def is_new_relay_parent_eq k_def Let_def)
    next
      case (Some s)
      then show ?thesis using \<open>relay_parent_new pd rp number logs = Some new\<close> m1(1) cs
        by (simp add: determine_core_def is_new_relay_parent_eq k_def last_selector_def Let_def)
    qed
    moreover have "cache_ok lru rc (if new \<or> find_core_info pd logs \<noteq> None then m1 else m2)" using m1(3) m2(2) by simp
    ultimately show ?thesis unfolding Some option.case using fresh [of k] k_def by (intro exI conjI impI) (assumption | blast)+
  qed
qed

section \<open>Concrete runs\<close>

text \<open>A cache that never evicts, and a relay chain whose blocks are numbered, with three cores for the parachain.\<close>

definition demo_lru :: "('k, 'v, 'k \<Rightarrow> 'v option) lru_map" where
  "demo_lru = \<lparr>lru_new = (\<lambda>_ _. None), lru_peek = (\<lambda>m. m),
     lru_get_or_insert = (\<lambda>k v m. case m k of None \<Rightarrow> m(k \<mapsto> v) | Some _ \<Rightarrow> m),
     lru_set = (\<lambda>k v m. if m k \<noteq> None then m(k \<mapsto> v) else m)\<rparr>"

lemma demo_lru_ok: "lru_ok demo_lru"
  by (auto simp: lru_ok_def demo_lru_def split: option.splits)

definition demo_relay_header :: "nat \<Rightarrow> nat relay_header" where
  "demo_relay_header n = \<lparr>rh_hash = n, rh_parent_hash = n - 1, rh_number = of_nat n, rh_state_root = 1000 + n,
     rh_babe_slot = Some (of_nat n), rh_epoch_change = (n = 3)\<rparr>"

definition demo_relay_with :: "(nat \<Rightarrow> nat \<Rightarrow> string + ('hdr \<times> 'hdr) option) \<Rightarrow> (nat, 'hdr, u32 list) relay_client" where
  "demo_relay_with search = \<lparr>relay_version = (\<lambda>_. Some (Some 1)), relay_scheduling_lookahead = (\<lambda>_. Some 3),
     SCHEDULING_LOOKAHEAD_RUNTIME_REQUIREMENT = 1, DEFAULT_SCHEDULING_LOOKAHEAD = 3,
     find_parent_for_building = search, relay_claim_queue = (\<lambda>_. Some [10, 11, 12]), default_claim_queue = [],
     relay_header_at = (\<lambda>n. Some (Some (demo_relay_header n))), relay_max_pov_size = (\<lambda>_. Some (Some 1000)),
     claims_at_depth = (\<lambda>q _. q)\<rparr>"

definition demo_relay :: "(nat, nat, u32 list) relay_client" where
  "demo_relay = demo_relay_with (\<lambda>_ _. Inr None)"

lemma demo_cache_ok: "cache_ok demo_lru demo_relay (\<lambda>_. None)"
  by (simp add: cache_ok_def demo_lru_def)

lemma demo_fetchable: "fetchable demo_relay n (demo_relay_header n)"
  by (simp add: fetchable_def update_for_relay_parent_def demo_relay_def demo_relay_with_def)

theorem relay_parent_found_witness:
  "\<exists>m. offset_relay_parent_find_descendants demo_lru demo_relay 9 2 (\<lambda>_. None) =
     Ok (Some \<lparr>rpd_relay_parent = demo_relay_header 7, rpd_descendants = [demo_relay_header 8, demo_relay_header 9]\<rparr>, m)"
proof -
  have parents: "rh_parent_hash (demo_relay_header 9) = 8" "rh_parent_hash (demo_relay_header 8) = 7"
    by (simp_all add: demo_relay_header_def)
  have "ancestry demo_relay (demo_relay_header 9) [demo_relay_header 8, demo_relay_header 7]"
    by (simp add: parents demo_fetchable)
  from relay_parent_found [OF demo_lru_ok demo_cache_ok demo_fetchable this, of 2]
  show ?thesis by (auto simp: demo_relay_header_def)
qed

text \<open>Digests that hold the relay parent in the first item and the core selector in the second.\<close>

definition demo_para_digests :: "nat para_digests" where
  "demo_para_digests = \<lparr>extract_relay_parent = (\<lambda>logs. case logs of OtherDigest [b] # _ \<Rightarrow> Some (unat b) | _ \<Rightarrow> None),
     extract_relay_parent_storage_root = (\<lambda>_. None),
     find_core_info = (\<lambda>logs. case logs of [_, OtherDigest [b]] \<Rightarrow> Some b | _ \<Rightarrow> None)\<rparr>"

theorem cores_claimed_in_order_witness:
  "(\<exists>c m. determine_core demo_lru demo_relay demo_para_digests (demo_relay_header 9) 4
       [OtherDigest [9], OtherDigest [1]] 0 (\<lambda>_. None) = Ok (Some c, m) \<and> core_index c = 12) \<and>
   (\<exists>c m. determine_core demo_lru demo_relay demo_para_digests (demo_relay_header 9) 4
       [OtherDigest [9]] 0 (\<lambda>_. None) = Ok (Some c, m) \<and> core_index c = 11)"
proof -
  have cores: "scheduled_cores demo_relay (demo_relay_header 9) 0 = [10, 11, 12]"
    by (simp add: scheduled_cores_def claim_queue_at_def demo_relay_def demo_relay_with_def)
  have new: "relay_parent_new demo_para_digests (demo_relay_header 9) 4 (OtherDigest [9] # logs) = Some False" for logs
    by (simp add: relay_parent_new_def demo_para_digests_def demo_relay_header_def)
  have sel: "last_selector demo_lru demo_para_digests (demo_relay_header 9) [OtherDigest [9], OtherDigest [1]] (\<lambda>_. None) = 1"
    "last_selector demo_lru demo_para_digests (demo_relay_header 9) [OtherDigest [9]] (\<lambda>_. None) = 0"
    by (simp_all add: last_selector_def demo_para_digests_def demo_lru_def)
  have "fetchable demo_relay (rh_hash (demo_relay_header 9)) (demo_relay_header 9)"
    using demo_fetchable [of 9] by (simp add: demo_relay_header_def)
  note claim = cores_claimed_in_order [OF demo_lru_ok demo_cache_ok this, where pd = demo_para_digests and number = 4 and offset = 0]
  show ?thesis
    using claim [of "[OtherDigest [9], OtherDigest [1]]"] claim [of "[OtherDigest [9]]"] by (auto simp: new sel cores numeral_2_eq_2)
qed

end
