(* ===== verification/Import_Queue.thy ===== *)
theory Import_Queue
  imports Nimbus_Client
begin

text \<open>
  \<^verbatim>\<open>client/consensus/nimbus-consensus/src/import_queue.rs\<close>: the verifier that checks the seal and the
  inherents of a received block, and the block import that sets its fork choice. The properties relate
  the verifier to the collator, which seals blocks, and to the executor of the runtime, which checks
  the seal again.
\<close>

section \<open>The verifier\<close>

text \<open>The author claimed by a consensus or a pre-runtime digest, whichever comes first.\<close>

fun verifier_claimed_author :: "digest_item list \<Rightarrow> u8 list option" where
  "verifier_claimed_author [] = None"
| "verifier_claimed_author (Consensus engine author_id # logs) =
     (if engine = NIMBUS_ENGINE_ID then Some author_id else verifier_claimed_author logs)"
| "verifier_claimed_author (PreRuntime engine author_id # logs) =
     (if engine = NIMBUS_ENGINE_ID then Some author_id else verifier_claimed_author logs)"
| "verifier_claimed_author (_ # logs) = verifier_claimed_author logs"

text \<open>
  The inherent checks: providers \<open>'idp\<close> for a parent block, the data \<open>'inh\<close> they create, the call
  \<open>check_inherents\<close> to the runtime, which returns no errors or a list of them, and the handling of an
  error by the providers (\<open>None\<close> when none of them knows it).
\<close>

record ('hash, 'body, 'ext, 'idp, 'inh) inherent_checks =
  create_inherent_data_providers :: "'hash \<Rightarrow> string + 'idp"
  idp_create_inherent_data :: "'idp \<Rightarrow> string + 'inh"
  check_inherents :: "'hash \<Rightarrow> 'body header \<times> 'ext \<Rightarrow> 'inh \<Rightarrow> string + (inherent_id \<times> u8 list) list option"
  idp_try_handle_error :: "'idp \<Rightarrow> inherent_id \<Rightarrow> u8 list \<Rightarrow> (string + unit) option"

fun handle_inherent_errors ::
    "(inherent_id \<Rightarrow> u8 list \<Rightarrow> (string + unit) option) \<Rightarrow> (inherent_id \<times> u8 list) list \<Rightarrow> (string, unit) result" where
  "handle_inherent_errors try_handle [] = Ok ()"
| "handle_inherent_errors try_handle ((i, e) # errors) =
     and_then (case try_handle i e of
                 Some r \<Rightarrow> from_sum r
               | None \<Rightarrow> Err (''Unhandled inherent error from `'' @ i @ ''`.''))
     (\<lambda>_. handle_inherent_errors try_handle errors)"

definition check_body ::
    "('nid, 'sig, 'hash, 'body) nimbus_client \<Rightarrow> ('hash, 'body, 'ext, 'idp, 'inh) inherent_checks \<Rightarrow> 'body header \<Rightarrow> 'ext option
      \<Rightarrow> (string, unit) result" where
  "check_body cl ic hdr body =
     (case body of
        None \<Rightarrow> Ok ()
      | Some inner_body \<Rightarrow>
          and_then (from_sum (create_inherent_data_providers ic (hdr_parent_hash cl hdr)))
          (\<lambda>idp. and_then (from_sum (idp_create_inherent_data ic idp))
          (\<lambda>inherent_data. and_then (from_sum (check_inherents ic (hdr_parent_hash cl hdr) (hdr, inner_body) inherent_data))
          (\<lambda>inherent_res. case inherent_res of
             None \<Rightarrow> Ok ()
           | Some errors \<Rightarrow> handle_inherent_errors (idp_try_handle_error ic idp) errors))))"

definition verify ::
    "('nid, 'sig, 'hash, 'body) nimbus_client \<Rightarrow> ('body, 'ext, 'sa, 'sc) import_lib
      \<Rightarrow> ('hash, 'body, 'ext, 'idp, 'inh) inherent_checks \<Rightarrow> ('body, 'ext, 'sa) block_import_params
      \<Rightarrow> (string, ('body, 'ext, 'sa) block_import_params) result" where
  "verify cl lib ic block_params =
     (if with_state lib block_params \<or> skip_execution_checks lib (state_action block_params)
      then Ok (block_params\<lparr>fork_choice := Some (CustomChoice (with_state lib block_params))\<rparr>)
      else
        let logs = digest_logs (bip_header block_params)
        in and_then (ok_or ''Block should have at least one digest on it'' (if logs = [] then None else Some (last logs)))
     (\<lambda>seal. let hdr = (bip_header block_params)\<lparr>digest_logs := butlast logs\<rparr>
        in and_then (ok_or ''HeaderUnsealed'' (as_nimbus_seal (sig_api (nc_crypto cl)) seal))
     (\<lambda>signature. and_then (ok_or ''Expected one consensus or pre-runtime digest that contains author id bytes''
        (verifier_claimed_author (digest_logs hdr)))
     (\<lambda>bytes. and_then (ok_or ''Invalid Nimbus ID (wrong length)'' (nimbus_from_slice (nc_crypto cl) bytes))
     (\<lambda>author. and_then (ensure (sig_verify (nc_crypto cl) author (header_hash (nc_crypto cl) hdr) signature)
        ''Block signature invalid'')
     (\<lambda>_. and_then (check_body cl ic hdr (bip_body block_params))
     (\<lambda>_. Ok (block_params\<lparr>bip_header := hdr, post_digests := post_digests block_params @ [seal],
            fork_choice := Some LongestChain\<rparr>))))))))"

section \<open>The block import\<close>

record nimbus_block_import =
  with_delayed_best_block :: bool
  dont_create_gap :: bool

definition nimbus_block_import_new :: "bool \<Rightarrow> bool \<Rightarrow> nimbus_block_import" where
  "nimbus_block_import_new delayed_best no_gap = \<lparr>with_delayed_best_block = delayed_best, dont_create_gap = no_gap\<rparr>"

text \<open>A block is checked by the import pipeline alone.\<close>

definition nimbus_check_block :: "('b \<Rightarrow> 'st \<Rightarrow> 'r) \<Rightarrow> nimbus_block_import \<Rightarrow> 'b \<Rightarrow> 'st \<Rightarrow> 'r" where
  "nimbus_check_block inner nbi block st = inner block st"

definition nimbus_import_block ::
    "(('body, 'ext, 'sa) block_import_params \<Rightarrow> 'st \<Rightarrow> 'r) \<Rightarrow> nimbus_block_import
      \<Rightarrow> ('body, 'ext, 'sa) block_import_params \<Rightarrow> 'st \<Rightarrow> 'r" where
  "nimbus_import_block inner nbi params =
     (let params = (if with_delayed_best_block nbi
                    then params\<lparr>fork_choice := Some (CustomChoice (bip_origin params = NetworkInitialSync))\<rparr> else params);
          params = (if dont_create_gap nbi \<and> bip_origin params = NetworkInitialSync
                    then params\<lparr>create_gap := False\<rparr> else params)
      in inner params)"

text \<open>The import queue: the verifier in front of the block import, whose result \<open>r\<close> it returns.\<close>

definition queue_import ::
    "('nid, 'sig, 'hash, 'body) nimbus_client \<Rightarrow> ('body, 'ext, 'sa, 'sc) import_lib
      \<Rightarrow> ('hash, 'body, 'ext, 'idp, 'inh) inherent_checks \<Rightarrow> nimbus_block_import
      \<Rightarrow> (('body, 'ext, 'sa) block_import_params \<Rightarrow> 'st \<Rightarrow> 'r)
      \<Rightarrow> ('body, 'ext, 'sa) block_import_params \<Rightarrow> 'st \<Rightarrow> (string, 'r) result" where
  "queue_import cl lib ic nbi inner params st =
     and_then (verify cl lib ic params) (\<lambda>params. Ok (nimbus_import_block inner nbi params st))"

section \<open>The verifier and the executor\<close>

text \<open>No digest that announces the author by a consensus item.\<close>

definition no_consensus_author :: "digest_item list \<Rightarrow> bool" where
  "no_consensus_author logs \<longleftrightarrow> (\<forall>d \<in> set logs. case d of Consensus e _ \<Rightarrow> e \<noteq> NIMBUS_ENGINE_ID | _ \<Rightarrow> True)"

lemma verifier_claimed_author_eq:
  "no_consensus_author logs \<Longrightarrow> verifier_claimed_author logs = claimed_author logs"
  by (induction logs rule: verifier_claimed_author.induct) (auto simp: no_consensus_author_def)

text \<open>A verified block, taken apart.\<close>

lemma verify_OkE:
  assumes "verify cl lib ic p = Ok q"
    and "\<not> with_state lib p" "\<not> skip_execution_checks lib (state_action p)"
  obtains seal_item signature bytes author hdr where
    "digest_logs (bip_header p) = digest_logs hdr @ [seal_item]"
    "hdr = (bip_header p)\<lparr>digest_logs := butlast (digest_logs (bip_header p))\<rparr>"
    "as_nimbus_seal (sig_api (nc_crypto cl)) seal_item = Some signature"
    "verifier_claimed_author (digest_logs hdr) = Some bytes" "nimbus_from_slice (nc_crypto cl) bytes = Some author"
    "sig_verify (nc_crypto cl) author (header_hash (nc_crypto cl) hdr) signature"
    "q = p\<lparr>bip_header := hdr, post_digests := post_digests p @ [seal_item], fork_choice := Some LongestChain\<rparr>"
    "check_body cl ic hdr (bip_body p) = Ok ()"
proof -
  have ne: "digest_logs (bip_header p) \<noteq> []" using assms by (auto simp: verify_def Let_def)
  let ?hdr = "(bip_header p)\<lparr>digest_logs := butlast (digest_logs (bip_header p))\<rparr>"
  have "digest_logs (bip_header p) = digest_logs ?hdr @ [last (digest_logs (bip_header p))]" using ne by simp
  moreover from assms ne obtain signature bytes author where
    "as_nimbus_seal (sig_api (nc_crypto cl)) (last (digest_logs (bip_header p))) = Some signature"
    "verifier_claimed_author (digest_logs ?hdr) = Some bytes" "nimbus_from_slice (nc_crypto cl) bytes = Some author"
    "sig_verify (nc_crypto cl) author (header_hash (nc_crypto cl) ?hdr) signature"
    "q = p\<lparr>bip_header := ?hdr, post_digests := post_digests p @ [last (digest_logs (bip_header p))],
       fork_choice := Some LongestChain\<rparr>"
    "check_body cl ic ?hdr (bip_body p) = Ok ()"
    by (auto simp: verify_def Let_def)
  ultimately show ?thesis by (rule that [OF _ refl])
qed

text \<open>Conversely, these conditions suffice.\<close>

lemma verify_OkI:
  assumes "\<not> with_state lib p" "\<not> skip_execution_checks lib (state_action p)"
    and "bip_header p = hdr\<lparr>digest_logs := digest_logs hdr @ [seal_item]\<rparr>"
    and "as_nimbus_seal (sig_api (nc_crypto cl)) seal_item = Some signature"
    and "verifier_claimed_author (digest_logs hdr) = Some bytes" "nimbus_from_slice (nc_crypto cl) bytes = Some author"
    and "sig_verify (nc_crypto cl) author (header_hash (nc_crypto cl) hdr) signature"
    and "check_body cl ic hdr (bip_body p) = Ok ()"
  shows "verify cl lib ic p =
     Ok (p\<lparr>bip_header := hdr, post_digests := post_digests p @ [seal_item], fork_choice := Some LongestChain\<rparr>)"
  using assms by (simp add: verify_def Let_def ensure_def)

text \<open>
  The runtime accepts the seal of every block that the verifier of the client accepts, and both strip
  it to the same header, as long as the author is not announced by a consensus digest.
\<close>

lemma verified_seal_accepted:
  assumes "verify cl lib ic p = Ok q"
    and "\<not> with_state lib p" "\<not> skip_execution_checks lib (state_action p)"
    and "no_consensus_author (digest_logs (bip_header p))"
  shows "verify_and_remove_seal (nc_crypto cl) (bip_header p) = Ok (bip_header q)"
proof -
  from assms(1-3) obtain seal_item signature bytes author hdr where
    v: "digest_logs (bip_header p) = digest_logs hdr @ [seal_item]"
    "hdr = (bip_header p)\<lparr>digest_logs := butlast (digest_logs (bip_header p))\<rparr>"
    "as_nimbus_seal (sig_api (nc_crypto cl)) seal_item = Some signature"
    "verifier_claimed_author (digest_logs hdr) = Some bytes" "nimbus_from_slice (nc_crypto cl) bytes = Some author"
    "sig_verify (nc_crypto cl) author (header_hash (nc_crypto cl) hdr) signature"
    "q = p\<lparr>bip_header := hdr, post_digests := post_digests p @ [seal_item], fork_choice := Some LongestChain\<rparr>"
    by (rule verify_OkE)
  have "no_consensus_author (digest_logs hdr)" using assms(4) v(1) by (simp add: no_consensus_author_def)
  with v(4) have "claimed_author (digest_logs hdr) = Some bytes" by (simp add: verifier_claimed_author_eq)
  moreover have "last (digest_logs (bip_header p)) = seal_item" "digest_logs (bip_header p) \<noteq> []" using v(1) by simp_all
  ultimately have "verify_and_remove_seal (nc_crypto cl) (bip_header p) = Ok hdr"
    using v(3,5,6) unfolding verify_and_remove_seal_def Let_def by (simp flip: v(2))
  then show ?thesis unfolding v(7) by simp
qed

section \<open>The collator and the verifier\<close>

text \<open>
  The assumptions on the keystore, the key type and the proposer: a signature of the keystore verifies
  under its key, the bytes of the author digest are those of the key, and the block of a proposer
  starts with the digests it was given.
\<close>

definition keystore_ok :: "('nid, 'sig, 'hash, 'body) nimbus_client \<Rightarrow> bool" where
  "keystore_ok cl \<longleftrightarrow>
     (\<forall>nid h raw sg. sign_with cl (to_raw_vec cl nid) h = Some (Some raw) \<longrightarrow> sig_try_from cl raw = Some sg \<longrightarrow>
        sig_verify (nc_crypto cl) nid h sg)"

definition client_codecs_ok :: "('nid, 'sig, 'hash, 'body) nimbus_client \<Rightarrow> bool" where
  "client_codecs_ok cl \<longleftrightarrow> codec_ok (nc_sig_codec cl) \<and> digest_api_ok (nc_sig_codec cl) (sig_api (nc_crypto cl)) \<and>
     (\<forall>nid. nimbus_from_slice (nc_crypto cl) (encode (nc_id_codec cl) nid) = Some nid)"

definition proposer_keeps_digests ::
    "('body, 'ext, 'sa, 'sc, 'st, 'pinh, 'inh, 'collation, 'rh) collator_services \<Rightarrow> bool" where
  "proposer_keeps_digests srv \<longleftrightarrow>
     (\<forall>parent inh logs dur limit hdr body changes.
        basic_propose srv parent inh logs dur limit = Inr ((hdr, body), changes) \<longrightarrow> (\<exists>rest. digest_logs hdr = logs @ rest))"

lemma seal_header_verifies:
  assumes "seal_header cl hdr (to_raw_vec cl author) = Ok d" "keystore_ok cl" "client_codecs_ok cl"
  shows "\<exists>sg. as_nimbus_seal (sig_api (nc_crypto cl)) d = Some sg \<and>
     sig_verify (nc_crypto cl) author (header_hash (nc_crypto cl) hdr) sg"
proof -
  from assms(1) obtain raw sg where s: "sign_with cl (to_raw_vec cl author) (header_hash (nc_crypto cl) hdr) = Some (Some raw)"
    "sig_try_from cl raw = Some sg" "d = nimbus_seal (nc_sig_codec cl) sg"
    by (auto simp: seal_header_def)
  have "decode (nc_sig_codec cl) (encode (nc_sig_codec cl) sg) = Some (sg, [])"
    using assms(3) append_Nil2 unfolding client_codecs_ok_def codec_ok_def by metis
  then have "as_nimbus_seal (sig_api (nc_crypto cl)) d = Some sg"
    using assms(3) s(3) by (simp add: client_codecs_ok_def digest_api_ok_def as_nimbus_seal_def nimbus_seal_def)
  moreover have "sig_verify (nc_crypto cl) author (header_hash (nc_crypto cl) hdr) sg"
    using assms(2) s(1,2) unfolding keystore_ok_def by blast
  ultimately show ?thesis by blast
qed

lemma seal_OkD:
  assumes "seal cl lib (pre, body) changes author = Ok params" "import_lib_ok lib"
  shows "\<exists>d. seal_header cl pre (to_raw_vec cl author) = Ok d \<and> bip_header params = pre \<and>
     post_digests params = [d] \<and> bip_body params = Some body \<and> bip_origin params = OwnBlock"
  using assms by (auto simp: seal_def import_lib_ok_def)

text \<open>The block that the collator returns is its proposal with one seal at the end.\<close>

lemma build_block_OkE:
  assumes "build_block_and_import cl lib srv parent claim extra inh dur limit st = (Ok (Some (hdr, body)), st')"
    and "import_lib_ok lib" "proposer_keeps_digests srv"
  obtains pre d rest where
    "hdr = pre\<lparr>digest_logs := digest_logs pre @ [d]\<rparr>" "seal_header cl pre (to_raw_vec cl (sc_author_id claim)) = Ok d"
    "digest_logs pre = nimbus_pre_digest (nc_id_codec cl) (sc_author_id claim) # rest"
proof -
  from assms(1) obtain pre b0 changes params inh' where b:
    "basic_propose srv parent inh' (nimbus_pre_digest (nc_id_codec cl) (sc_author_id claim) #
        (case extra of Some ds \<Rightarrow> ds | None \<Rightarrow> [])) dur limit = Inr ((pre, b0), changes)"
    "seal cl lib (pre, b0) changes (sc_author_id claim) = Ok params" "hdr = post_header lib params"
    by (fastforce simp: build_block_and_import_def build_sealed_block_def propose_def Let_def
        split: option.splits result.splits prod.splits sum.splits)
  obtain d where d: "seal_header cl pre (to_raw_vec cl (sc_author_id claim)) = Ok d"
    "bip_header params = pre" "post_digests params = [d]"
    using seal_OkD [OF b(2) assms(2)] by blast
  from b(1) assms(3) obtain rest where
    "digest_logs pre = (nimbus_pre_digest (nc_id_codec cl) (sc_author_id claim) #
        (case extra of Some ds \<Rightarrow> ds | None \<Rightarrow> [])) @ rest"
    unfolding proposer_keeps_digests_def by blast
  then show ?thesis using that [of pre d] d b(3) assms(2) by (simp add: import_lib_ok_def)
qed

text \<open>The seal is a valid signature of the claimed author, who is announced in front of the digest.\<close>

lemma built_block_parts:
  assumes "build_block_and_import cl lib srv parent claim extra inh dur limit st = (Ok (Some (hdr, body)), st')"
    and "import_lib_ok lib" "proposer_keeps_digests srv" "keystore_ok cl" "client_codecs_ok cl"
  obtains pre d sg where "hdr = pre\<lparr>digest_logs := digest_logs pre @ [d]\<rparr>"
    "as_nimbus_seal (sig_api (nc_crypto cl)) d = Some sg"
    "sig_verify (nc_crypto cl) (sc_author_id claim) (header_hash (nc_crypto cl) pre) sg"
    "verifier_claimed_author (digest_logs pre) = Some (encode (nc_id_codec cl) (sc_author_id claim))"
    "claimed_author (digest_logs pre) = Some (encode (nc_id_codec cl) (sc_author_id claim))"
    "nimbus_from_slice (nc_crypto cl) (encode (nc_id_codec cl) (sc_author_id claim)) = Some (sc_author_id claim)"
    "verify_and_remove_seal (nc_crypto cl) hdr = Ok pre"
proof -
  from assms(1-3) obtain pre d rest where b: "hdr = pre\<lparr>digest_logs := digest_logs pre @ [d]\<rparr>"
    "seal_header cl pre (to_raw_vec cl (sc_author_id claim)) = Ok d"
    "digest_logs pre = nimbus_pre_digest (nc_id_codec cl) (sc_author_id claim) # rest"
    by (rule build_block_OkE)
  obtain sg where sg: "as_nimbus_seal (sig_api (nc_crypto cl)) d = Some sg"
    "sig_verify (nc_crypto cl) (sc_author_id claim) (header_hash (nc_crypto cl) pre) sg"
    using seal_header_verifies [OF b(2) assms(4,5)] by blast
  let ?bytes = "encode (nc_id_codec cl) (sc_author_id claim)"
  have author: "verifier_claimed_author (digest_logs pre) = Some ?bytes" "claimed_author (digest_logs pre) = Some ?bytes"
    "nimbus_from_slice (nc_crypto cl) ?bytes = Some (sc_author_id claim)"
    using b(3) assms(5) by (simp_all add: nimbus_pre_digest_def client_codecs_ok_def)
  have "verify_and_remove_seal (nc_crypto cl) hdr = Ok pre"
    using b(1) sg author by (simp add: verify_and_remove_seal_def)
  then show ?thesis by (rule that [OF b(1) sg author])
qed

text \<open>
  C15: A block that the collator built and sealed for a claimed slot is accepted by the verifier of every
  node that agrees with its inherents, and the runtime accepts its seal; both recover the header as
  it was before sealing.
\<close>

theorem built_block_verifies:
  assumes "build_block_and_import cl lib srv parent claim extra inh dur limit st = (Ok (Some (hdr, body)), st')"
    and "import_lib_ok lib" "proposer_keeps_digests srv" "keystore_ok cl" "client_codecs_ok cl"
    and "bip_header p = hdr" "bip_body p = Some body" "\<not> with_state lib p" "\<not> skip_execution_checks lib (state_action p)"
    and "check_body cl ic (hdr\<lparr>digest_logs := butlast (digest_logs hdr)\<rparr>) (Some body) = Ok ()"
  shows "\<exists>q. verify cl lib ic p = Ok q \<and> bip_header q = hdr\<lparr>digest_logs := butlast (digest_logs hdr)\<rparr> \<and>
     verify_and_remove_seal (nc_crypto cl) hdr = Ok (bip_header q)"
proof -
  from assms(1-5) obtain pre d sg where b: "hdr = pre\<lparr>digest_logs := digest_logs pre @ [d]\<rparr>"
    and seal: "as_nimbus_seal (sig_api (nc_crypto cl)) d = Some sg"
      "sig_verify (nc_crypto cl) (sc_author_id claim) (header_hash (nc_crypto cl) pre) sg"
    and author: "verifier_claimed_author (digest_logs pre) = Some (encode (nc_id_codec cl) (sc_author_id claim))"
      "nimbus_from_slice (nc_crypto cl) (encode (nc_id_codec cl) (sc_author_id claim)) = Some (sc_author_id claim)"
    and executor: "verify_and_remove_seal (nc_crypto cl) hdr = Ok pre"
    by (rule built_block_parts)
  have pre: "hdr\<lparr>digest_logs := butlast (digest_logs hdr)\<rparr> = pre" using b by simp
  have "verify cl lib ic p =
     Ok (p\<lparr>bip_header := pre, post_digests := post_digests p @ [d], fork_choice := Some LongestChain\<rparr>)"
    by (rule verify_OkI [OF assms(8,9) _ seal(1) author seal(2)]) (use assms(6,7,10) b pre in simp_all)
  with executor pre show ?thesis by simp
qed

section \<open>Claims\<close>

lemma find_SomeD: "find P xs = Some x \<Longrightarrow> x \<in> set xs \<and> P x"
  by (auto simp: find_Some_iff)

lemma find_NoneD: "find P xs = None \<Longrightarrow> x \<in> set xs \<Longrightarrow> \<not> P x"
  by (simp add: find_None_iff)

text \<open>The condition under which the prediction of eligibility is used.\<close>

definition predicts :: "('nid, 'sig, 'hash, 'body) nimbus_client \<Rightarrow> 'body header \<Rightarrow> bool" where
  "predicts cl parent \<longleftrightarrow> hdr_number cl parent = 0 \<or>
     (\<exists>v. runtime_version cl (hdr_parent_hash cl parent) = Some v \<and> runtime_version cl (header_hash (nc_crypto cl) parent) = Some v)"

lemma claim_slot_predicts:
  "predicts cl parent \<Longrightarrow> claim_slot cl parent slot False =
     (case first_eligible_key cl parent slot of
        Some key \<Rightarrow> and_then (ok_or ''invalid nimbus id (wrong length)'' (nimbus_from_slice (nc_crypto cl) key)) (Ok \<circ> Some)
      | None \<Rightarrow> Ok None)"
  by (auto simp: predicts_def claim_slot_def)

text \<open>
  With prediction, a slot is claimed exactly if the keystore holds a key that the runtime finds
  eligible for it, and then with such a key; a claim never fails. (Prediction is skipped on request
  and in the first block after a runtime upgrade.)
\<close>

theorem slot_claimed_iff_eligible_key:
  assumes "predicts cl parent" "keystore_keys cl = Some keys"
  shows "\<exists>claim. claim_slot cl parent slot False = Ok claim \<and>
     (claim \<noteq> None \<longleftrightarrow> (\<exists>key \<in> set keys. \<exists>nid. nimbus_from_slice (nc_crypto cl) key = Some nid \<and>
        api_can_author cl (header_hash (nc_crypto cl) parent) nid slot parent = Some True)) \<and>
     (\<forall>nid. claim = Some nid \<longrightarrow> (\<exists>key \<in> set keys. nimbus_from_slice (nc_crypto cl) key = Some nid) \<and>
        api_can_author cl (header_hash (nc_crypto cl) parent) nid slot parent = Some True)"
proof -
  have el: "key_eligible cl parent slot key \<longleftrightarrow> (\<exists>nid. nimbus_from_slice (nc_crypto cl) key = Some nid \<and>
        api_can_author cl (header_hash (nc_crypto cl) parent) nid slot parent = Some True)" for key
    by (auto simp: key_eligible_def split: option.splits)
  have first: "first_eligible_key cl parent slot = find (key_eligible cl parent slot) keys"
    using assms(2) by (cases keys) (simp_all add: first_eligible_key_def)
  show ?thesis
  proof (cases "find (key_eligible cl parent slot) keys")
    case None
    then show ?thesis using find_NoneD [OF None] first claim_slot_predicts [OF assms(1)] by (auto simp: el)
  next
    case (Some key)
    from find_SomeD [OF this] obtain nid where "key \<in> set keys" "nimbus_from_slice (nc_crypto cl) key = Some nid"
      "api_can_author cl (header_hash (nc_crypto cl) parent) nid slot parent = Some True" by (auto simp: el)
    then show ?thesis using Some first claim_slot_predicts [OF assms(1)] by auto
  qed
qed

text \<open>
  The runtime API answers with the eligibility of the key's account: an author who claims a slot by
  prediction passes the authorship validation of the block.
\<close>

definition api_answers_filter ::
    "('nid, 'sig, 'hash, 'body) nimbus_client \<Rightarrow> ('nid \<Rightarrow> 'acct option) \<Rightarrow> ('acct \<Rightarrow> u32 \<Rightarrow> (unit, bool) result) \<Rightarrow> 'body header \<Rightarrow> bool" where
  "api_answers_filter cl lookup can_author parent \<longleftrightarrow>
     (\<forall>nid slot. api_can_author cl (header_hash (nc_crypto cl) parent) nid slot parent = Some True \<longrightarrow>
        can_author_nimbus lookup can_author nid slot = Ok True)"

lemma claim_slot_eligible:
  assumes "claim_slot cl parent slot False = Ok (Some nid)" "predicts cl parent"
  shows "api_can_author cl (header_hash (nc_crypto cl) parent) nid slot parent = Some True"
proof -
  from assms obtain key where "first_eligible_key cl parent slot = Some key" "nimbus_from_slice (nc_crypto cl) key = Some nid"
    by (auto simp: claim_slot_predicts split: option.splits)
  moreover from this have "key_eligible cl parent slot key"
    by (auto simp: first_eligible_key_def dest: find_SomeD split: option.splits if_splits)
  ultimately show ?thesis by (simp add: key_eligible_def split: option.splits)
qed

text \<open>
  A collator that claims a slot by the prediction of the runtime builds a block that the runtime
  accepts as its author: with the author digest of the claim in front and the inherent of the
  author-inherent pallet, authorship validation runs to its end and records the account of the claimed key,
  if the runtime then looks up and filters authors as it predicted.
\<close>

theorem claimed_slot_passes_validation:
  assumes "claim_slot cl parent slot False = Ok (Some nid)" "predicts cl parent"
    and "api_answers_filter cl lookup can_author parent"
    and "digest_api_ok c api" "decode_id (encode (nc_id_codec cl) nid) = Some nid" "ensure_none sys origin = Inr ()"
  shows "\<exists>t account. lookup nid = Some account \<and> Author t = Some account \<and>
     run_block_ai (as_pre_runtime api) decode_id lookup sys can_author slot
       (nimbus_pre_digest (nc_id_codec cl) nid # rest) [origin] s = Ok t"
proof -
  have "can_author_nimbus lookup can_author nid slot = Ok True"
    using claim_slot_eligible [OF assms(1,2)] assms(3) by (simp add: api_answers_filter_def)
  then obtain account where acct: "lookup nid = Some account" "can_author account slot = Ok True"
    by (auto simp: can_author_nimbus_def split: option.splits)
  have "as_pre_runtime api (nimbus_pre_digest (nc_id_codec cl) nid) = Some (NIMBUS_ENGINE_ID, encode (nc_id_codec cl) nid)"
    using assms(4) by (simp add: digest_api_ok_def nimbus_pre_digest_def)
  then have "on_initialize_ai (as_pre_runtime api) decode_id lookup (nimbus_pre_digest (nc_id_codec cl) nid # rest) s
      = Ok (s\<lparr>Author := Some account\<rparr>)"
    using acct(1) assms(5) by (simp add: on_initialize_ai_def List.map_filter_def)
  then show ?thesis using acct assms(6)
    by (simp add: run_block_ai_def kick_off_authorship_validation_def get_ai_def on_finalize_ai_def)
qed

section \<open>Fork choice\<close>

text \<open>
  On a parachain node, a block from the import queue becomes the best block only during the initial
  sync: the relay chain decides otherwise. Its seal was checked unless execution is skipped.
\<close>

theorem parachain_import_best_only_in_sync:
  assumes "queue_import cl lib ic nbi inner p st = Ok r" "with_delayed_best_block nbi"
  shows "\<exists>q. inner q st = r \<and> fork_choice q = Some (CustomChoice (bip_origin p = NetworkInitialSync)) \<and>
     bip_origin q = bip_origin p \<and>
     (with_state lib p \<or> skip_execution_checks lib (state_action p) \<or>
      (\<exists>seal_item signature bytes author. digest_logs (bip_header p) = digest_logs (bip_header q) @ [seal_item] \<and>
         as_nimbus_seal (sig_api (nc_crypto cl)) seal_item = Some signature \<and>
         verifier_claimed_author (digest_logs (bip_header q)) = Some bytes \<and> nimbus_from_slice (nc_crypto cl) bytes = Some author \<and>
         sig_verify (nc_crypto cl) author (header_hash (nc_crypto cl) (bip_header q)) signature))"
proof -
  from assms(1) obtain v where v: "verify cl lib ic p = Ok v" "nimbus_import_block inner nbi v st = r"
    by (auto simp: queue_import_def)
  define q where "q = (if dont_create_gap nbi \<and> bip_origin v = NetworkInitialSync
      then v\<lparr>fork_choice := Some (CustomChoice (bip_origin v = NetworkInitialSync)), create_gap := False\<rparr>
      else v\<lparr>fork_choice := Some (CustomChoice (bip_origin v = NetworkInitialSync))\<rparr>)"
  have q: "inner q st = r" "fork_choice q = Some (CustomChoice (bip_origin v = NetworkInitialSync))"
    "bip_origin q = bip_origin v" "bip_header q = bip_header v"
    using v(2) assms(2) by (auto simp: nimbus_import_block_def q_def)
  show ?thesis
  proof (cases "with_state lib p \<or> skip_execution_checks lib (state_action p)")
    case True
    then have "bip_origin v = bip_origin p" using v(1) by (auto simp: verify_def)
    then show ?thesis using True q by auto
  next
    case False
    then have "\<not> with_state lib p" "\<not> skip_execution_checks lib (state_action p)" by auto
    from verify_OkE [OF v(1) this] obtain seal_item signature bytes author hdr where h:
      "digest_logs (bip_header p) = digest_logs hdr @ [seal_item]"
      "hdr = (bip_header p)\<lparr>digest_logs := butlast (digest_logs (bip_header p))\<rparr>"
      "as_nimbus_seal (sig_api (nc_crypto cl)) seal_item = Some signature"
      "verifier_claimed_author (digest_logs hdr) = Some bytes" "nimbus_from_slice (nc_crypto cl) bytes = Some author"
      "sig_verify (nc_crypto cl) author (header_hash (nc_crypto cl) hdr) signature"
      "v = p\<lparr>bip_header := hdr, post_digests := post_digests p @ [seal_item], fork_choice := Some LongestChain\<rparr>"
      "check_body cl ic hdr (bip_body p) = Ok ()" .
    have e: "bip_header q = hdr" "bip_origin v = bip_origin p" using q(4) unfolding h(7) by simp_all
    show ?thesis
      by (intro exI [of _ q] conjI disjI2 exI [of _ seal_item] exI [of _ signature] exI [of _ bytes] exI [of _ author])
         (use q h(1,3-6) e in simp_all)
  qed
qed

section \<open>Concrete runs\<close>

text \<open>
  A client with one key: the hash of a header counts its digests, a signature is the sum of key and
  hash. It only shows that the assumptions can hold.
\<close>

definition demo_seal_crypto :: "(u8, u8, nat, nat) seal_crypto" where
  "demo_seal_crypto = \<lparr>nimbus_from_slice = (\<lambda>bs. if length bs = 1 then Some (hd bs) else None),
     sig_verify = (\<lambda>nid h sg. sg = nid + of_nat h), header_hash = (\<lambda>h. length (digest_logs h) + header_rest h),
     sig_api = demo_digest_api byte_codec\<rparr>"

definition demo_client :: "(u8, u8, nat, nat) nimbus_client" where
  "demo_client = \<lparr>nc_crypto = demo_seal_crypto, nc_id_codec = byte_codec, nc_sig_codec = byte_codec,
     to_raw_vec = (\<lambda>nid. [nid]), keystore_keys = Some [[3], [7]],
     sign_with = (\<lambda>k h. Some (Some [hd k + of_nat h])), sig_try_from = (\<lambda>bs. if length bs = 1 then Some (hd bs) else None),
     hdr_number = header_rest, hdr_parent_hash = (\<lambda>h. header_rest h - 1), runtime_version = (\<lambda>_. Some 1),
     api_can_author = (\<lambda>_ nid _ _. Some (nid = 7))\<rparr>"

definition demo_import_lib :: "(nat, nat list, bool option, unit) import_lib" where
  "demo_import_lib = \<lparr>params_new = (\<lambda>og h. \<lparr>bip_origin = og, bip_header = h, post_digests = [], bip_body = None,
       state_action = None, fork_choice = None, create_gap = True\<rparr>),
     post_header = (\<lambda>p. (bip_header p)\<lparr>digest_logs := digest_logs (bip_header p) @ post_digests p\<rparr>),
     with_state = (\<lambda>p. state_action p = Some True), skip_execution_checks = (\<lambda>a. a = Some False),
     apply_changes = (\<lambda>_. None)\<rparr>"

definition demo_services :: "(nat, nat list, bool option, unit, nat header list, unit, unit, nat, unit) collator_services" where
  "demo_services = \<lparr>proposer_init = (\<lambda>_. None), provide_paras_inherent = (\<lambda>_ i. Inr i),
     basic_propose = (\<lambda>parent _ logs _ _. Inr ((\<lparr>digest_logs = logs, header_rest = header_rest parent + 1\<rparr>, [1]), ())),
     import_block = (\<lambda>p st. (Inr (), bip_header p # st)), build_collation = (\<lambda>_ _. Some 1),
     paras_inherent_create_at = (\<lambda>_ _. Some ()), create_other_inherent_data = (\<lambda>_. Inr ()), replace_timestamp = (\<lambda>_ i. i)\<rparr>"

definition demo_inherent_checks :: "(nat, nat, nat list, unit, unit) inherent_checks" where
  "demo_inherent_checks = \<lparr>create_inherent_data_providers = (\<lambda>_. Inr ()), idp_create_inherent_data = (\<lambda>_. Inr ()),
     check_inherents = (\<lambda>_ _ _. Inr None), idp_try_handle_error = (\<lambda>_ _ _. None)\<rparr>"

definition demo_parent :: "nat header" where
  "demo_parent = \<lparr>digest_logs = [], header_rest = 4\<rparr>"

definition demo_received :: "nat header \<Rightarrow> (nat, nat list, bool option) block_import_params" where
  "demo_received h = (params_new demo_import_lib NetworkBroadcast h)\<lparr>bip_body := Some [1]\<rparr>"

definition demo_sealed :: "nat header" where
  "demo_sealed = \<lparr>digest_logs = [PreRuntime NIMBUS_ENGINE_ID [7], Seal NIMBUS_ENGINE_ID [13]], header_rest = 5\<rparr>"

lemmas client_demo_simps = demo_seal_crypto_def demo_client_def demo_import_lib_def demo_services_def
  demo_inherent_checks_def demo_parent_def demo_received_def demo_sealed_def byte_codec_def demo_digest_api_def

lemma demo_client_ok:
  "import_lib_ok demo_import_lib" "proposer_keeps_digests demo_services" "keystore_ok demo_client" "client_codecs_ok demo_client"
  by (auto simp: import_lib_ok_def proposer_keeps_digests_def keystore_ok_def client_codecs_ok_def codec_ok_def
      digest_api_ok_def client_demo_simps split: if_splits digest_item.splits)

lemma demo_build:
  "build_block_and_import demo_client demo_import_lib demo_services demo_parent (slot_claim_unchecked 7 0) None ((), ()) 1 1 []
     = (Ok (Some (demo_sealed, [1])), [demo_sealed\<lparr>digest_logs := [PreRuntime NIMBUS_ENGINE_ID [7]]\<rparr>])"
  by (simp add: build_block_and_import_def build_sealed_block_def propose_def seal_def seal_header_def slot_claim_unchecked_def client_demo_simps
      nimbus_pre_digest_def nimbus_seal_def)

theorem built_block_verifies_witness:
  "\<exists>q. verify demo_client demo_import_lib demo_inherent_checks (demo_received demo_sealed) = Ok q \<and>
     bip_header q = demo_sealed\<lparr>digest_logs := [PreRuntime NIMBUS_ENGINE_ID [7]]\<rparr> \<and>
     verify_and_remove_seal demo_seal_crypto demo_sealed = Ok (bip_header q)"
proof -
  have "check_body demo_client demo_inherent_checks (demo_sealed\<lparr>digest_logs := butlast (digest_logs demo_sealed)\<rparr>) (Some [1]) = Ok ()"
    by (simp add: check_body_def client_demo_simps)
  from built_block_verifies [OF demo_build demo_client_ok _ _ _ _ this, of "demo_received demo_sealed"]
  show ?thesis by (simp add: client_demo_simps)
qed

lemma verified_seal_accepted_demo:
  "\<exists>q. verify demo_client demo_import_lib demo_inherent_checks (demo_received demo_sealed) = Ok q \<and>
     verify_and_remove_seal demo_seal_crypto demo_sealed = Ok (bip_header q)"
proof -
  obtain q where q: "verify demo_client demo_import_lib demo_inherent_checks (demo_received demo_sealed) = Ok q"
    by (simp add: verify_def check_body_def as_nimbus_seal_def client_demo_simps)
  have "\<not> with_state demo_import_lib (demo_received demo_sealed)"
    "\<not> skip_execution_checks demo_import_lib (state_action (demo_received demo_sealed))"
    "no_consensus_author (digest_logs (bip_header (demo_received demo_sealed)))"
    by (simp_all add: client_demo_simps no_consensus_author_def)
  from verified_seal_accepted [OF q this] q show ?thesis by (simp add: client_demo_simps)
qed

text \<open>
  A block whose author is announced by a consensus digest only: the verifier accepts it, the executor of
  the runtime, which only reads pre-runtime digests, panics.
\<close>

lemma consensus_author_diverges:
  fixes h :: "nat header"
  defines "h \<equiv> \<lparr>digest_logs = [Consensus NIMBUS_ENGINE_ID [7], Seal NIMBUS_ENGINE_ID [13]], header_rest = 5\<rparr>"
  shows "is_ok (verify demo_client demo_import_lib demo_inherent_checks (demo_received h)) \<and>
     verify_and_remove_seal demo_seal_crypto h = Panic ''Expected pre-runtime digest that contains author id bytes''"
  by (simp add: h_def verify_def check_body_def verify_and_remove_seal_def as_nimbus_seal_def client_demo_simps)

theorem slot_claimed_iff_eligible_key_witness:
  "claim_slot demo_client demo_parent 9 False = Ok (Some 7)"
proof -
  have "predicts demo_client demo_parent" "keystore_keys demo_client = Some [[3], [7]]"
    by (simp_all add: predicts_def client_demo_simps)
  from slot_claimed_iff_eligible_key [OF this, of 9] obtain claim where
    c: "claim_slot demo_client demo_parent 9 False = Ok claim" and
    ex: "claim \<noteq> None \<longleftrightarrow> (\<exists>key \<in> set [[3], [7]]. \<exists>nid. nimbus_from_slice (nc_crypto demo_client) key = Some nid \<and>
        api_can_author demo_client (header_hash (nc_crypto demo_client) demo_parent) nid 9 demo_parent = Some True)" and
    el: "\<forall>nid. claim = Some nid \<longrightarrow> (\<exists>key \<in> set [[3], [7]]. nimbus_from_slice (nc_crypto demo_client) key = Some nid) \<and>
        api_can_author demo_client (header_hash (nc_crypto demo_client) demo_parent) nid 9 demo_parent = Some True"
    by (elim exE conjE) (rule that)
  have "claim \<noteq> None" unfolding ex by (simp add: demo_client_def demo_seal_crypto_def)
  moreover have "claim = Some nid \<Longrightarrow> nid = 7" for nid using el by (simp add: demo_client_def)
  ultimately show ?thesis using c by auto
qed

theorem claimed_slot_passes_validation_witness:
  "\<exists>t. Author t = Some 10 \<and>
     run_block_ai (as_pre_runtime (demo_digest_api byte_codec)) (\<lambda>bs. map_option fst (decode byte_codec bs)) ai_demo_lookup
       raw_system (\<lambda>a slot. Ok (a = 10)) 9 [nimbus_pre_digest byte_codec 7] [Unsigned] ai_demo_start = Ok t"
proof -
  have claim: "claim_slot demo_client demo_parent 9 False = Ok (Some 7)"
    by (simp add: claim_slot_def first_eligible_key_def key_eligible_def client_demo_simps)
  have "predicts demo_client demo_parent" by (simp add: predicts_def client_demo_simps)
  moreover have "api_answers_filter demo_client ai_demo_lookup (\<lambda>a slot. Ok (a = 10)) demo_parent"
    by (simp add: api_answers_filter_def can_author_nimbus_def ai_demo_lookup_def client_demo_simps)
  moreover have "digest_api_ok byte_codec (demo_digest_api byte_codec)"
    by (auto simp: digest_api_ok_def demo_digest_api_def)
  moreover have "map_option fst (decode byte_codec (encode (nc_id_codec demo_client) 7)) = Some 7"
    "ensure_none raw_system Unsigned = Inr ()"
    by (simp_all add: client_demo_simps raw_system_def)
  ultimately obtain t account where "ai_demo_lookup 7 = Some account" "Author t = Some account"
    "run_block_ai (as_pre_runtime (demo_digest_api byte_codec)) (\<lambda>bs. map_option fst (decode byte_codec bs)) ai_demo_lookup
       raw_system (\<lambda>a slot. Ok (a = 10)) 9 (nimbus_pre_digest (nc_id_codec demo_client) 7 # []) [Unsigned] ai_demo_start = Ok t"
    using claimed_slot_passes_validation [OF claim, of ai_demo_lookup "\<lambda>a slot. Ok (a = 10)" byte_codec
        "demo_digest_api byte_codec" "\<lambda>bs. map_option fst (decode byte_codec bs)" raw_system Unsigned "[]" ai_demo_start]
    by blast
  moreover have "nc_id_codec demo_client = byte_codec" by (simp add: demo_client_def)
  ultimately show ?thesis by (auto simp: ai_demo_lookup_def)
qed

theorem parachain_import_best_only_in_sync_witness:
  "\<exists>q. queue_import demo_client demo_import_lib demo_inherent_checks \<lparr>with_delayed_best_block = True, dont_create_gap = False\<rparr>
       (\<lambda>p st. p # st) (demo_received demo_sealed) [] = Ok [q] \<and> fork_choice q = Some (CustomChoice False)"
proof -
  let ?nbi = "\<lparr>with_delayed_best_block = True, dont_create_gap = False\<rparr>"
  obtain st where st: "queue_import demo_client demo_import_lib demo_inherent_checks ?nbi
       (\<lambda>p st. p # st) (demo_received demo_sealed) [] = Ok st"
    by (simp add: queue_import_def verify_def check_body_def as_nimbus_seal_def client_demo_simps)
  have "with_delayed_best_block ?nbi" by simp
  from parachain_import_best_only_in_sync [OF st this] obtain q where
    "[q] = st" "fork_choice q = Some (CustomChoice (bip_origin (demo_received demo_sealed) = NetworkInitialSync))"
    by (elim exE conjE) (rule that)
  then show ?thesis using st by (auto simp: demo_received_def demo_import_lib_def)
qed

end
