(* ===== verification/Collators.thy ===== *)
theory Collators
  imports Relay_Chain_Data Import_Queue Async_Backing
begin

text \<open>
  The collators of \<^verbatim>\<open>client/consensus/nimbus-consensus/src/collators\<close>: the relay chain driven one
  (\<^verbatim>\<open>basic.rs\<close>), the lookahead one (\<^verbatim>\<open>lookahead.rs\<close>) and of the slot based one the block builder and the block import
  (\<^verbatim>\<open>block_builder_task.rs\<close>, \<^verbatim>\<open>block_import.rs\<close>; the tasks that run them are in \<open>Slot_Based\<close>). Each is an endless loop over
  events; the definitions below are one round of the loop, from the event to the next one.
\<close>

section \<open>Rounds of a loop\<close>

text \<open>
  A round runs on the state of the loop and may end early: with \<^verbatim>\<open>continue\<close>, \<^verbatim>\<open>break\<close> or \<^verbatim>\<open>return\<close>, or with a
  panic. The state it has reached is kept in each case.
\<close>

datatype flow = Continue | Break | Return | Crash string

type_synonym ('s, 'a) round = "'s \<Rightarrow> (flow + 'a) \<times> 's"

definition r_ret :: "'a \<Rightarrow> ('s, 'a) round" where
  "r_ret a s = (Inr a, s)"

definition r_stop :: "flow \<Rightarrow> ('s, 'a) round" where
  "r_stop f s = (Inl f, s)"

definition r_bind :: "('s, 'a) round \<Rightarrow> ('a \<Rightarrow> ('s, 'b) round) \<Rightarrow> ('s, 'b) round" where
  "r_bind m k s = (case m s of (Inl f, s') \<Rightarrow> (Inl f, s') | (Inr a, s') \<Rightarrow> k a s')"

definition r_option :: "flow \<Rightarrow> 'a option \<Rightarrow> ('s, 'a) round" where
  "r_option f x = (case x of Some a \<Rightarrow> r_ret a | None \<Rightarrow> r_stop f)"

definition r_result :: "flow \<Rightarrow> ('e, 'a) result \<Rightarrow> ('s, 'a) round" where
  "r_result f r = (case r of Ok a \<Rightarrow> r_ret a | Err e \<Rightarrow> r_stop f | Panic m \<Rightarrow> r_stop (Crash m))"

definition r_get :: "('s \<Rightarrow> 'a) \<Rightarrow> ('s, 'a) round" where
  "r_get f s = (Inr (f s), s)"

definition r_modify :: "('s \<Rightarrow> 's) \<Rightarrow> ('s, unit) round" where
  "r_modify f s = (Inr (), f s)"

named_theorems round_iff \<open>when a step of a round goes on, and with what\<close>

lemma r_bind_iff [round_iff]: "r_bind m k s = (Inr b, t) \<longleftrightarrow> (\<exists>a s'. m s = (Inr a, s') \<and> k a s' = (Inr b, t))"
  by (auto simp: r_bind_def split: prod.splits sum.splits)

lemma r_simple_iff [round_iff]:
  "r_ret a s = (Inr b, t) \<longleftrightarrow> b = a \<and> t = s"
  "r_stop f s = (Inr b, t) \<longleftrightarrow> False"
  "r_option f x s = (Inr b, t) \<longleftrightarrow> x = Some b \<and> t = s"
  "r_result f r s = (Inr b, t) \<longleftrightarrow> r = Ok b \<and> t = s"
  "r_get g s = (Inr b, t) \<longleftrightarrow> b = g s \<and> t = s"
  "r_modify h s = (Inr u, t) \<longleftrightarrow> t = h s"
  by (auto simp: r_ret_def r_stop_def r_option_def r_result_def r_get_def r_modify_def split: option.splits result.splits)

lemmas round_defs = r_ret_def r_stop_def r_bind_def r_option_def r_result_def r_get_def r_modify_def

section \<open>What the collators share\<close>

text \<open>The limit of the PoV size: a percentage of the maximum, 85 by default, computed in 32 bits.\<close>

definition allowed_pov_size :: "u32 \<Rightarrow> u32 option \<Rightarrow> nat" where
  "allowed_pov_size max_size max_pov_percentage =
     unat (case max_pov_percentage of
             Some percentage \<Rightarrow> max_size * percentage div 100
           | None \<Rightarrow> max_size * 85 div 100)"

datatype core_state = Scheduled u32 | Occupied "u32 option" | Free

text \<open>The fields of the relay chain's host configuration that are read: the allowed ancestry and the candidate depth.\<close>

record host_config =
  allowed_ancestry_len :: u32
  max_candidate_depth :: u32

record ('rhash, 'collation, 'body, 'vch) submission =
  sub_relay_parent :: 'rhash
  sub_collation :: 'collation
  sub_parent_head :: "'body header"
  sub_validation_code_hash :: 'vch
  sub_core_index :: u32

text \<open>
  The environment of a collator: the client, the services (whose inherent data depend on the relay parent),
  the relay chain, and the configuration. \<open>ce_relay_slot_and_timestamp\<close> is a function of \<^verbatim>\<open>cumulus\<close>;
  \<open>ce_first_header\<close> is the header of the first block of a collation.
\<close>

record ('nid, 'sig, 'hash, 'body, 'ext, 'sa, 'sc, 'st, 'pinh, 'inh, 'collation, 'rhash, 'cq, 'vch, 'm) collator_env =
  ce_client :: "('nid, 'sig, 'hash, 'body) nimbus_client"
  ce_lib :: "('body, 'ext, 'sa, 'sc) import_lib"
  ce_services :: "'rhash relay_header \<Rightarrow> ('body, 'ext, 'sa, 'sc, 'st, 'pinh, 'inh, 'collation, 'rhash relay_header) collator_services"
  ce_relay :: "('rhash, 'body header, 'cq) relay_client"
  ce_lru :: "('rhash, ('rhash, 'cq) relay_chain_data, 'm) lru_map"
  ce_para_digests :: "'rhash para_digests"
  ce_slots :: slot_lib
  ce_relay_slot_and_timestamp :: "'rhash relay_header \<Rightarrow> duration \<Rightarrow> (u64 \<times> u64) option"
  ce_host_configuration :: "'rhash \<Rightarrow> host_config option option"
  ce_availability_cores :: "'rhash \<Rightarrow> core_state list option"
  ce_api_can_build_upon :: "'hash \<Rightarrow> 'hash \<Rightarrow> u64 \<Rightarrow> bool option"
  ce_segment_api_version :: "'hash \<Rightarrow> nat option option"
  ce_relay_parent_offset :: "'hash \<Rightarrow> u32 option"
  ce_provide_digests :: "'nid \<Rightarrow> 'hash \<Rightarrow> digest_item list"
  ce_code_hash_at :: "'hash \<Rightarrow> 'vch option"
  ce_first_header :: "'collation \<Rightarrow> 'body header option"
  ce_para_id :: u32
  ce_force_authoring :: bool
  ce_max_pov_percentage :: "u32 option"
  ce_authoring_duration :: duration
  ce_relay_slot_duration :: duration
  ce_slot_duration :: "u64 option"
  ce_state_keys :: "u8 list list"

record ('st, 'hash, 'rhash, 'collation, 'body, 'vch) collator_state =
  cst_client :: 'st
  cst_announced :: "'hash list"
  cst_submitted :: "('rhash, 'collation, 'body, 'vch) submission list"
  cst_helper :: backing_helper

text \<open>Sealing and importing a block inside a round: the state of the client is updated also when it fails.\<close>

definition r_client ::
    "('st \<Rightarrow> (string, 'a) result \<times> 'st) \<Rightarrow> (('st, 'hash, 'rhash, 'collation, 'body, 'vch) collator_state, (string, 'a) result) round" where
  "r_client f s = (let (r, st) = f (cst_client s) in (Inr r, s\<lparr>cst_client := st\<rparr>))"

text \<open>The slot of the parachain: from the timestamp of the relay slot if it has slots of its own.\<close>

definition slot_now_of :: "slot_lib \<Rightarrow> u64 option \<Rightarrow> u64 \<times> u64 \<Rightarrow> u64 \<times> u64" where
  "slot_now_of lib duration relay =
     (let (relay_slot, relay_timestamp) = relay
      in (case duration of
            Some slot_dur \<Rightarrow> (from_timestamp lib relay_timestamp slot_dur, relay_timestamp)
          | None \<Rightarrow> (relay_slot, relay_timestamp)))"

section \<open>The lookahead collator (\<^verbatim>\<open>lookahead.rs\<close>)\<close>

definition lookahead_can_build_upon ::
    "('nid, 'sig, 'hash, 'body) nimbus_client \<Rightarrow> ('hash \<Rightarrow> 'hash \<Rightarrow> u64 \<Rightarrow> bool option) \<Rightarrow> u64 \<Rightarrow> 'body header \<Rightarrow> u32 \<Rightarrow> 'hash \<Rightarrow> bool
      \<Rightarrow> (unit, 'nid option) result" where
  "lookahead_can_build_upon cl api_can_build_upon slot parent relay_parent_number included_block force_authoring =
     (case claim_slot cl parent relay_parent_number force_authoring of
        Ok (Some nimbus_id) \<Rightarrow>
          if header_hash (nc_crypto cl) parent \<noteq> included_block
          then (case api_can_build_upon (header_hash (nc_crypto cl) parent) included_block slot of
                  Some True \<Rightarrow> Ok (Some nimbus_id)
                | Some False \<Rightarrow> Ok None
                | None \<Rightarrow> Ok None)
          else Ok (Some nimbus_id)
      | Ok None \<Rightarrow> Ok None
      | Err e \<Rightarrow> Ok None
      | Panic m \<Rightarrow> Panic m)"

definition max_ancestry_lookback :: "('rhash \<Rightarrow> host_config option option) \<Rightarrow> 'rhash \<Rightarrow> nat" where
  "max_ancestry_lookback load_config relay_parent =
     (case load_config relay_parent of
        Some (Some config) \<Rightarrow> unat (allowed_ancestry_len config)
      | Some None \<Rightarrow> 0
      | None \<Rightarrow> 0)"

definition async_backing_depth :: "('rhash \<Rightarrow> host_config option option) \<Rightarrow> 'rhash \<Rightarrow> u32 option" where
  "async_backing_depth load_config relay_parent =
     (case load_config relay_parent of
        Some (Some config) \<Rightarrow> Some (max_candidate_depth config)
      | Some None \<Rightarrow> None
      | None \<Rightarrow> None)"

definition cores_scheduled_for_para ::
    "('rhash \<Rightarrow> host_config option option) \<Rightarrow> ('rhash \<Rightarrow> core_state list option) \<Rightarrow> 'rhash \<Rightarrow> u32 \<Rightarrow> u32 list" where
  "cores_scheduled_for_para load_config availability_cores relay_parent para_id =
     (let depth = (case async_backing_depth load_config relay_parent of Some d \<Rightarrow> d | None \<Rightarrow> 0)
      in (case availability_cores relay_parent of
            None \<Rightarrow> []
          | Some cores \<Rightarrow>
              List.map_filter
                (\<lambda>(index, core).
                   let core_para_id =
                     (case core of
                        Scheduled p \<Rightarrow> Some p
                      | Occupied next_up \<Rightarrow> if depth \<ge> 1 then next_up else None
                      | Free \<Rightarrow> None)
                   in if core_para_id = Some para_id then Some (of_nat index) else None)
                (zip [0..<length cores] cores)))"

text \<open>
  One pass of the inner loop. First the claim and the block on the parent: the validation code hash, the collation and
  the header of its block.
\<close>

definition lookahead_collation ::
    "('nid, 'sig, 'hash, 'body, 'ext, 'sa, 'sc, 'st, 'pinh, 'inh, 'collation, 'rhash, 'cq, 'vch, 'm) collator_env
      \<Rightarrow> 'rhash relay_header \<Rightarrow> u32 \<Rightarrow> u64 \<Rightarrow> u64 \<Rightarrow> 'hash \<Rightarrow> 'body header
      \<Rightarrow> (('st, 'hash, 'rhash, 'collation, 'body, 'vch) collator_state, 'vch \<times> 'collation \<times> 'body header) round" where
  "lookahead_collation env relay_hdr max_size slot_now timestamp included_block parent_header =
     (let cl = ce_client env; srv = ce_services env relay_hdr;
          parent_hash = header_hash (nc_crypto cl) parent_header
      in r_bind (r_result Break (lookahead_can_build_upon cl (ce_api_can_build_upon env) slot_now parent_header
           (rh_number relay_hdr) included_block (ce_force_authoring env)))
     (\<lambda>maybe_author. r_bind (r_option Break maybe_author)
     (\<lambda>author_id. r_bind (r_result Break (create_inherent_data srv parent_header (Some timestamp) (ce_state_keys env)))
     (\<lambda>inherent_data. r_bind (r_option Break (ce_code_hash_at env parent_hash))
     (\<lambda>validation_code_hash.
        let claim = slot_claim_unchecked author_id timestamp
        in r_bind (r_client (collate cl (ce_lib env) srv parent_header claim
             (Some (ce_provide_digests env author_id parent_hash)) inherent_data (ce_authoring_duration env)
             (allowed_pov_size max_size (ce_max_pov_percentage env))))
     (\<lambda>result. r_bind (r_result Break result)
     (\<lambda>maybe_collation. r_bind (r_option Break maybe_collation)
     (\<lambda>collation. r_bind (r_option Break (ce_first_header env collation))
     (\<lambda>new_block_header. r_ret (validation_code_hash, collation, new_block_header))))))))))"

text \<open>Then the block is announced and submitted, and becomes the new parent.\<close>

definition lookahead_build_one ::
    "('nid, 'sig, 'hash, 'body, 'ext, 'sa, 'sc, 'st, 'pinh, 'inh, 'collation, 'rhash, 'cq, 'vch, 'm) collator_env
      \<Rightarrow> 'rhash relay_header \<Rightarrow> u32 \<Rightarrow> u32 \<Rightarrow> u64 \<Rightarrow> u64 \<Rightarrow> 'hash \<Rightarrow> 'body header
      \<Rightarrow> (('st, 'hash, 'rhash, 'collation, 'body, 'vch) collator_state, 'body header) round" where
  "lookahead_build_one env relay_hdr core_idx max_size slot_now timestamp included_block parent_header =
     r_bind (lookahead_collation env relay_hdr max_size slot_now timestamp included_block parent_header)
     (\<lambda>(validation_code_hash, collation, new_block_header).
        r_bind (r_modify (\<lambda>s. s\<lparr>cst_announced := cst_announced s @ [header_hash (nc_crypto (ce_client env)) new_block_header],
          cst_submitted := cst_submitted s @ [\<lparr>sub_relay_parent = rh_hash relay_hdr, sub_collation = collation,
            sub_parent_head = parent_header, sub_validation_code_hash = validation_code_hash, sub_core_index = core_idx\<rparr>]\<rparr>))
     (\<lambda>_. r_ret new_block_header))"

text \<open>The loop \<^verbatim>\<open>for n_built in 0..2\<close>, left by \<^verbatim>\<open>break\<close>.\<close>

fun lookahead_build ::
    "('nid, 'sig, 'hash, 'body, 'ext, 'sa, 'sc, 'st, 'pinh, 'inh, 'collation, 'rhash, 'cq, 'vch, 'm) collator_env
      \<Rightarrow> 'rhash relay_header \<Rightarrow> u32 \<Rightarrow> u32 \<Rightarrow> u64 \<Rightarrow> u64 \<Rightarrow> 'hash \<Rightarrow> nat \<Rightarrow> 'body header
      \<Rightarrow> (('st, 'hash, 'rhash, 'collation, 'body, 'vch) collator_state, unit) round" where
  "lookahead_build env rph core_idx max_size slot_now timestamp included_block 0 parent_header s = (Inr (), s)"
| "lookahead_build env rph core_idx max_size slot_now timestamp included_block (Suc n) parent_header s =
     (case lookahead_build_one env rph core_idx max_size slot_now timestamp included_block parent_header s of
        (Inr new_parent, s') \<Rightarrow> lookahead_build env rph core_idx max_size slot_now timestamp included_block n new_parent s'
      | (Inl (Crash m), s') \<Rightarrow> (Inl (Crash m), s')
      | (Inl f, s') \<Rightarrow> (Inr (), s'))"

text \<open>A notification of a new relay block: the core, the PoV size, the slot and the parent to start from, then the loop.\<close>

definition lookahead_prepare ::
    "('nid, 'sig, 'hash, 'body, 'ext, 'sa, 'sc, 'st, 'pinh, 'inh, 'collation, 'rhash, 'cq, 'vch, 'm) collator_env
      \<Rightarrow> 'rhash relay_header \<Rightarrow> (('st, 'hash, 'rhash, 'collation, 'body, 'vch) collator_state,
          u32 \<times> u32 \<times> (u64 \<times> u64) \<times> 'body header \<times> 'body header) round" where
  "lookahead_prepare env relay_hdr =
     (let relay_parent = rh_hash relay_hdr; cl = ce_client env
      in r_bind (r_option Continue
           (case cores_scheduled_for_para (ce_host_configuration env) (ce_availability_cores env) relay_parent (ce_para_id env) of
              [] \<Rightarrow> None | core_idx # _ \<Rightarrow> Some core_idx))
     (\<lambda>core_idx. r_bind (r_option Continue
           (case relay_max_pov_size (ce_relay env) relay_parent of Some (Some pov_size) \<Rightarrow> Some pov_size | _ \<Rightarrow> None))
     (\<lambda>max_size. r_bind (r_option Continue
           (map_option (slot_now_of (ce_slots env) (ce_slot_duration env))
              (ce_relay_slot_and_timestamp env relay_hdr (ce_relay_slot_duration env))))
     (\<lambda>slot_and_timestamp. r_bind (r_option Continue
           (case find_parent_for_building (ce_relay env) relay_parent (max_ancestry_lookback (ce_host_configuration env) relay_parent) of
              Inr (Some found) \<Rightarrow> Some found | _ \<Rightarrow> None))
     (\<lambda>(included_header, initial_parent_header).
        r_bind (r_modify (\<lambda>s. s\<lparr>cst_helper := backing_update (keystore_keys cl) (fst slot_and_timestamp) (cst_helper s)\<rparr>))
     (\<lambda>_. r_ret (core_idx, max_size, slot_and_timestamp, included_header, initial_parent_header)))))))"

definition lookahead_notification ::
    "('nid, 'sig, 'hash, 'body, 'ext, 'sa, 'sc, 'st, 'pinh, 'inh, 'collation, 'rhash, 'cq, 'vch, 'm) collator_env
      \<Rightarrow> 'rhash relay_header \<Rightarrow> (('st, 'hash, 'rhash, 'collation, 'body, 'vch) collator_state, unit) round" where
  "lookahead_notification env relay_hdr =
     r_bind (lookahead_prepare env relay_hdr)
     (\<lambda>(core_idx, max_size, (slot_now, timestamp), included_header, initial_parent_header).
        lookahead_build env relay_hdr core_idx max_size slot_now timestamp
          (header_hash (nc_crypto (ce_client env)) included_header) 2 initial_parent_header)"

section \<open>The relay chain driven collator (\<^verbatim>\<open>basic.rs\<close>)\<close>

text \<open>
  A collation request: its relay parent, and from the persisted validation data the parent head, decoded, and the
  PoV size. \<open>br_block_status\<close> and \<open>br_code_available\<close> are the checks of the parent block before anything else.
\<close>

record ('rhash, 'body) basic_request =
  br_relay_parent :: 'rhash
  br_parent_head :: "'body header option"
  br_max_pov_size :: u32
  br_block_status :: bool
  br_code_available :: bool

record ('st, 'hash, 'rhash, 'collation, 'body, 'vch) basic_state =
  bas_last_processed_slot :: u64
  bas_last_relay_chain_block :: u32
  bas_collator :: "('st, 'hash, 'rhash, 'collation, 'body, 'vch) collator_state"
  bas_completed :: "'collation option list"

definition basic_reject :: "(('st, 'hash, 'rhash, 'collation, 'body, 'vch) basic_state, 'a) round" where
  "basic_reject = r_bind (r_modify (\<lambda>s. s\<lparr>bas_completed := bas_completed s @ [None]\<rparr>)) (\<lambda>_. r_stop Continue)"

text \<open>\<^verbatim>\<open>try_request!\<close>: an error completes the request without a collation.\<close>

definition basic_try :: "('e, 'a) result \<Rightarrow> (('st, 'hash, 'rhash, 'collation, 'body, 'vch) basic_state, 'a) round" where
  "basic_try r = (case r of Ok a \<Rightarrow> r_ret a | Err e \<Rightarrow> basic_reject | Panic m \<Rightarrow> r_stop (Crash m))"

definition basic_client ::
    "('st \<Rightarrow> (string, 'a) result \<times> 'st) \<Rightarrow> (('st, 'hash, 'rhash, 'collation, 'body, 'vch) basic_state, (string, 'a) result) round" where
  "basic_client f s = (let (r, st) = f (cst_client (bas_collator s))
     in (Inr r, s\<lparr>bas_collator := (bas_collator s)\<lparr>cst_client := st\<rparr>\<rparr>))"

definition basic_collation ::
    "('nid, 'sig, 'hash, 'body, 'ext, 'sa, 'sc, 'st, 'pinh, 'inh, 'collation, 'rhash, 'cq, 'vch, 'm) collator_env
      \<Rightarrow> ('rhash, 'body) basic_request \<Rightarrow> (('st, 'hash, 'rhash, 'collation, 'body, 'vch) basic_state, u64 \<times> u32) round" where
  "basic_collation env req =
     (let cl = ce_client env
      in r_bind (basic_try (ok_or () (br_parent_head req)))
     (\<lambda>parent_header. r_bind (r_option Continue (if br_block_status req then Some () else None))
     (\<lambda>_. r_bind (r_option Continue (if br_code_available req then Some () else None))
     (\<lambda>_. r_bind (basic_try (ok_or () (relay_header_at (ce_relay env) (br_relay_parent req))))
     (\<lambda>maybe_header. r_bind (r_option Continue maybe_header)
     (\<lambda>relay_hdr. r_bind (basic_try (claim_slot cl parent_header (rh_number relay_hdr) (ce_force_authoring env)))
     (\<lambda>claim. r_bind (r_option Continue claim)
     (\<lambda>nimbus_id. r_bind (r_option Continue
           (map_option (slot_now_of (ce_slots env) (ce_slot_duration env))
              (ce_relay_slot_and_timestamp env relay_hdr (ce_relay_slot_duration env))))
     (\<lambda>(slot_now, timestamp). r_bind (r_get (\<lambda>s. bas_last_processed_slot s \<ge> slot_now \<and>
            bas_last_relay_chain_block s < rh_number relay_hdr))
     (\<lambda>processed. r_bind (r_option Continue (if processed then None else Some ()))
     (\<lambda>_. let srv = ce_services env relay_hdr; parent_hash = header_hash (nc_crypto cl) parent_header
        in r_bind (basic_try (create_inherent_data srv parent_header (Some timestamp) (ce_state_keys env)))
     (\<lambda>inherent_data. r_bind (basic_client (collate cl (ce_lib env) srv parent_header (slot_claim_unchecked nimbus_id timestamp)
            (Some (ce_provide_digests env nimbus_id parent_hash)) inherent_data (ce_authoring_duration env)
            (allowed_pov_size (br_max_pov_size req) (ce_max_pov_percentage env))))
     (\<lambda>result. r_bind (basic_try result)
     (\<lambda>maybe_collation. r_bind
        (case maybe_collation of
           Some collation \<Rightarrow>
             r_bind (r_option Continue (ce_first_header env collation))
             (\<lambda>hdr. r_modify (\<lambda>s. s\<lparr>bas_completed := bas_completed s @ [Some collation],
                bas_collator := (bas_collator s)\<lparr>cst_announced := cst_announced (bas_collator s) @ [header_hash (nc_crypto cl) hdr]\<rparr>\<rparr>))
         | None \<Rightarrow> r_modify (\<lambda>s. s\<lparr>bas_completed := bas_completed s @ [None]\<rparr>))
     (\<lambda>_. r_ret (slot_now, rh_number relay_hdr))))))))))))))))"

definition basic_round ::
    "('nid, 'sig, 'hash, 'body, 'ext, 'sa, 'sc, 'st, 'pinh, 'inh, 'collation, 'rhash, 'cq, 'vch, 'm) collator_env
      \<Rightarrow> ('rhash, 'body) basic_request \<Rightarrow> (('st, 'hash, 'rhash, 'collation, 'body, 'vch) basic_state, unit) round" where
  "basic_round env req =
     r_bind (basic_collation env req)
     (\<lambda>(slot_now, number). r_modify (\<lambda>s. s\<lparr>bas_last_processed_slot := slot_now, bas_last_relay_chain_block := number\<rparr>))"

section \<open>The block builder (\<^verbatim>\<open>block_builder_task.rs\<close>)\<close>

text \<open>The message to the collation task.\<close>

record ('rhash, 'body, 'ext, 'vch) collator_message =
  cm_relay_parent :: 'rhash
  cm_parent_header :: "'body header"
  cm_candidate :: "'body header \<times> 'ext"
  cm_validation_code_hash :: 'vch
  cm_core_index :: u32
  cm_max_pov_size :: u32

record ('st, 'hash, 'rhash, 'collation, 'body, 'vch, 'm, 'ext) builder_state =
  bs_timer :: slot_timer
  bs_cache :: 'm
  bs_collator :: "('st, 'hash, 'rhash, 'collation, 'body, 'vch) collator_state"
  bs_messages :: "('rhash, 'body, 'ext, 'vch) collator_message list"

text \<open>
  Steps on the cache, on the timer and on the client inside a round. When a fetch fails, the code keeps what was inserted into the cache before it, here
  the cache stays as it was: the entries are those the relay chain answers in any case, so no later result depends on it (\<open>get_mut_Ok\<close>).
\<close>

definition b_cache :: "('m \<Rightarrow> (unit, 'a \<times> 'm) result) \<Rightarrow> (('st, 'hash, 'rhash, 'collation, 'body, 'vch, 'm, 'ext) builder_state, 'a) round" where
  "b_cache f s = (case f (bs_cache s) of
     Ok (a, m) \<Rightarrow> (Inr a, s\<lparr>bs_cache := m\<rparr>) | Err e \<Rightarrow> (Inl Continue, s) | Panic e \<Rightarrow> (Inl (Crash e), s))"

definition b_client ::
    "('st \<Rightarrow> (string, 'a) result \<times> 'st) \<Rightarrow> (('st, 'hash, 'rhash, 'collation, 'body, 'vch, 'm, 'ext) builder_state, (string, 'a) result) round" where
  "b_client f s = (let (r, st) = f (cst_client (bs_collator s))
     in (Inr r, s\<lparr>bs_collator := (bs_collator s)\<lparr>cst_client := st\<rparr>\<rparr>))"

text \<open>
  A round up to the claim of the slot. \<open>now\<close> is the clock when the wait begins, \<open>relay_best_hash\<close> and
  \<open>best_hash\<close> the best blocks of the relay chain and the parachain after it.
\<close>

definition builder_claim ::
    "('nid, 'sig, 'hash, 'body, 'ext, 'sa, 'sc, 'st, 'pinh, 'inh, 'collation, 'rhash, 'cq, 'vch, 'm) collator_env
      \<Rightarrow> duration \<Rightarrow> 'rhash option \<Rightarrow> 'hash
      \<Rightarrow> (('st, 'hash, 'rhash, 'collation, 'body, 'vch, 'm, 'ext) builder_state,
          'rhash relay_header relay_parent_data \<times> 'body header \<times> core \<times> u32 \<times> 'nid slot_claim) round" where
  "builder_claim env now relay_best_hash best_hash =
     (let cl = ce_client env; rc = ce_relay env; lru = ce_lru env
      in r_bind (r_get (\<lambda>s. wait_until_next_slot (ce_slots env) now (bs_timer s)))
     (\<lambda>waited. r_bind (r_result Return waited)
     (\<lambda>(sleep, timer). r_bind (r_modify (\<lambda>s. s\<lparr>bs_timer := timer\<rparr>))
     (\<lambda>_. r_bind (r_option Continue relay_best_hash)
     (\<lambda>relay_best. let relay_parent_offset = (case ce_relay_parent_offset env best_hash of Some n \<Rightarrow> n | None \<Rightarrow> 0)
        in r_bind (b_cache (offset_relay_parent_find_descendants lru rc relay_best relay_parent_offset))
     (\<lambda>found. r_bind (r_option Continue found)
     (\<lambda>rp_data. let relay_hdr = rpd_relay_parent rp_data; relay_parent = rh_hash relay_hdr
        in r_bind (r_option Continue (adjust_para_to_relay_parent_slot (ce_slots env) relay_hdr (ce_relay_slot_duration env)
             (slot_millis timer)))
     (\<lambda>para_slot. r_bind (r_option Continue (find_parent rc relay_parent))
     (\<lambda>(included_header, parent_header). r_bind (b_cache (determine_core lru rc (ce_para_digests env) relay_hdr
           (hdr_number cl parent_header) (digest_logs parent_header) relay_parent_offset))
     (\<lambda>maybe_core. r_bind (r_option Continue maybe_core)
     (\<lambda>core. r_bind (b_cache (get_mut_relay_chain_data lru rc relay_parent))
     (\<lambda>relay_data. r_bind (r_modify (\<lambda>s. s\<lparr>bs_timer := update_scheduling (ucast (number_of_cores core)) (bs_timer s)\<rparr>))
     (\<lambda>_. r_bind (r_option Continue (rh_babe_slot relay_hdr))
     (\<lambda>relay_slot. r_bind (r_modify (\<lambda>s. s\<lparr>bs_collator := (bs_collator s)\<lparr>cst_helper :=
             backing_update (keystore_keys cl) (si_slot para_slot) (cst_helper (bs_collator s))\<rparr>\<rparr>))
     (\<lambda>_. r_bind (r_result Continue (client_can_build_upon cl (ce_segment_api_version env) (ce_api_can_build_upon env)
             (si_slot para_slot) relay_slot (si_timestamp para_slot) (rh_number relay_hdr) parent_header
             (header_hash (nc_crypto cl) included_header) (ce_force_authoring env)))
     (\<lambda>maybe_claim. r_bind (r_option Continue maybe_claim)
     (\<lambda>claim. r_ret (rp_data, parent_header, core, max_pov_size relay_data, claim))))))))))))))))))"

text \<open>
  The rest of the round: inherent data, the time left, the block, its announcement, the claimed core, and the message.
  The clock is read at \<open>now1\<close> and \<open>now2\<close>; \<open>receiver_alive\<close> says whether the collation task still listens.
\<close>

definition builder_build ::
    "('nid, 'sig, 'hash, 'body, 'ext, 'sa, 'sc, 'st, 'pinh, 'inh, 'collation, 'rhash, 'cq, 'vch, 'm) collator_env
      \<Rightarrow> duration \<Rightarrow> duration \<Rightarrow> bool \<Rightarrow> 'rhash relay_header relay_parent_data \<Rightarrow> 'body header \<Rightarrow> core \<Rightarrow> u32 \<Rightarrow> 'nid slot_claim
      \<Rightarrow> (('st, 'hash, 'rhash, 'collation, 'body, 'vch, 'm, 'ext) builder_state, unit) round" where
  "builder_build env now1 now2 receiver_alive rp_data parent_header core max_size claim =
     (let cl = ce_client env; relay_hdr = rpd_relay_parent rp_data; srv = ce_services env relay_hdr;
          parent_hash = header_hash (nc_crypto cl) parent_header
      in r_bind (r_result Break (create_inherent_data_with_rp_offset srv parent_header (Some (sc_timestamp claim)) (Some rp_data)
             (ce_state_keys env)))
     (\<lambda>inherent_data. r_bind (r_option Break (ce_code_hash_at env parent_hash))
     (\<lambda>validation_code_hash. r_bind (r_get (\<lambda>s. timer_adjust_authoring_duration (ce_slots env) now1 now2
             (ce_authoring_duration env) (bs_timer s)))
     (\<lambda>adjusted. r_bind (r_result Continue adjusted)
     (\<lambda>maybe_duration. r_bind (r_option Continue maybe_duration)
     (\<lambda>adjusted_authoring_duration. r_bind (b_client (build_block_and_import cl (ce_lib env) srv parent_header claim
             (Some (ce_provide_digests env (sc_author_id claim) parent_hash)) inherent_data adjusted_authoring_duration
             (allowed_pov_size max_size (ce_max_pov_percentage env))))
     (\<lambda>result. r_bind (r_result Continue result)
     (\<lambda>maybe_candidate. r_bind (r_option Continue maybe_candidate)
     (\<lambda>candidate. r_bind (r_modify (\<lambda>s. s\<lparr>bs_collator := (bs_collator s)\<lparr>cst_announced :=
             cst_announced (bs_collator s) @ [header_hash (nc_crypto cl) (fst candidate)]\<rparr>\<rparr>))
     (\<lambda>_. r_bind (r_modify (\<lambda>s. s\<lparr>bs_cache := (case lru_peek (ce_lru env) (bs_cache s) (rh_hash relay_hdr) of
             Some d \<Rightarrow> lru_set (ce_lru env) (rh_hash relay_hdr) (d\<lparr>last_claimed_core_selector := Some (core_selector core)\<rparr>) (bs_cache s)
           | None \<Rightarrow> bs_cache s)\<rparr>))
     (\<lambda>_. if receiver_alive
          then r_modify (\<lambda>s. s\<lparr>bs_messages := bs_messages s @ [\<lparr>cm_relay_parent = rh_hash relay_hdr,
             cm_parent_header = parent_header, cm_candidate = candidate, cm_validation_code_hash = validation_code_hash,
             cm_core_index = core_index core, cm_max_pov_size = max_size\<rparr>]\<rparr>)
          else r_stop Return)))))))))))"

definition builder_round ::
    "('nid, 'sig, 'hash, 'body, 'ext, 'sa, 'sc, 'st, 'pinh, 'inh, 'collation, 'rhash, 'cq, 'vch, 'm) collator_env
      \<Rightarrow> duration \<Rightarrow> duration \<Rightarrow> duration \<Rightarrow> bool \<Rightarrow> 'rhash option \<Rightarrow> 'hash
      \<Rightarrow> (('st, 'hash, 'rhash, 'collation, 'body, 'vch, 'm, 'ext) builder_state, unit) round" where
  "builder_round env now now1 now2 receiver_alive relay_best_hash best_hash =
     r_bind (builder_claim env now relay_best_hash best_hash)
     (\<lambda>(rp_data, parent_header, core, max_size, claim).
        builder_build env now1 now2 receiver_alive rp_data parent_header core max_size claim)"

section \<open>The slot based block import (\<^verbatim>\<open>block_import.rs\<close>)\<close>

text \<open>
  \<open>execute\<close> runs the block on its parent and returns the storage changes and the proof, \<open>root_of\<close> is the storage
  root of the changes, \<open>is_apply_changes\<close> recognises \<^verbatim>\<open>StateAction::ApplyChanges\<close>. The channel holds the blocks with their proofs.
\<close>

record ('body, 'ext, 'sa, 'sc, 'proof, 'root) sbi_env =
  sbi_execute :: "'body header \<Rightarrow> 'ext \<Rightarrow> string + ('sc \<times> 'proof)"
  sbi_root_of :: "'sc \<Rightarrow> 'root"
  sbi_state_root :: "'body header \<Rightarrow> 'root"
  sbi_is_apply_changes :: "'sa \<Rightarrow> bool"
  sbi_apply_changes :: "'sc \<Rightarrow> 'sa"
  sbi_empty_body :: 'ext

text \<open>Checking a block passes to the pipeline, with its error in that of the consensus; \<open>None\<close> is a handle that waits for ever.\<close>

definition sbi_check_block :: "('err \<Rightarrow> string) \<Rightarrow> ('b \<Rightarrow> 'st \<Rightarrow> 'err + 'r) \<Rightarrow> 'b \<Rightarrow> 'st \<Rightarrow> string + 'r" where
  "sbi_check_block into_error inner block st = map_sum into_error (\<lambda>r. r) (inner block st)"

fun sbi_handle_next :: "('block \<times> 'proof) list \<Rightarrow> (('block \<times> 'proof) \<times> ('block \<times> 'proof) list) option" where
  "sbi_handle_next [] = None"
| "sbi_handle_next (x # xs) = Some (x, xs)"

lemma sbi_handle_next_iff: "sbi_handle_next waiting = Some (x, rest) \<longleftrightarrow> waiting = x # rest"
  by (cases waiting) auto

definition sbi_import_block ::
    "('body, 'ext, 'sa, 'sc, 'proof, 'root) sbi_env \<Rightarrow> bool
      \<Rightarrow> (('body, 'ext, 'sa) block_import_params \<Rightarrow> 'st \<Rightarrow> (string + unit) \<times> 'st)
      \<Rightarrow> ('body, 'ext, 'sa) block_import_params \<Rightarrow> (('body header \<times> 'ext) \<times> 'proof) list \<times> 'st
      \<Rightarrow> (string + unit) \<times> (('body header \<times> 'ext) \<times> 'proof) list \<times> 'st" where
  "sbi_import_block env sender_closed inner params cs =
     (let (channel, st) = cs
      in if \<not> sender_closed \<and> \<not> sbi_is_apply_changes env (state_action params) then
           (let body = (case bip_body params of Some b \<Rightarrow> b | None \<Rightarrow> sbi_empty_body env)
            in (case sbi_execute env (bip_header params) body of
                  Inl e \<Rightarrow> (Inl e, channel, st)
                | Inr (changes, proof) \<Rightarrow>
                    if sbi_state_root env (bip_header params) \<noteq> sbi_root_of env changes
                    then (Inl ''InvalidStateRoot'', channel, st)
                    else
                      let (r, st') = inner (params\<lparr>state_action := sbi_apply_changes env changes\<rparr>) st
                      in (r, channel @ [((bip_header params, body), proof)], st')))
         else let (r, st') = inner params st in (r, channel, st'))"

section \<open>Properties of the lookahead collator\<close>

text \<open>\<open>keeps f m\<close>: a round leaves the part \<open>f\<close> of the state as it is, however it ends.\<close>

definition keeps :: "('s \<Rightarrow> 'x) \<Rightarrow> ('s, 'a) round \<Rightarrow> bool" where
  "keeps f m \<longleftrightarrow> (\<forall>s. f (snd (m s)) = f s)"

named_theorems keeps_intros \<open>rounds that leave a part of the state as it is\<close>

lemma keeps_bind [keeps_intros]: "keeps f m \<Longrightarrow> (\<And>a. keeps f (k a)) \<Longrightarrow> keeps f (r_bind m k)"
  unfolding keeps_def r_bind_def by (auto split: prod.splits sum.splits) (metis snd_conv)+

lemma keeps_simple [keeps_intros]:
  "keeps f (r_ret a)" "keeps f (r_stop b)" "keeps f (r_option b x)" "keeps f (r_result b y)" "keeps f (r_get g)"
  by (auto simp: keeps_def round_defs split: option.splits result.splits)

lemma keeps_client [keeps_intros]: "keeps cst_submitted (r_client f)"
  by (auto simp: keeps_def r_client_def split: prod.splits)

lemma keepsD: "keeps f m \<Longrightarrow> m s = (r, t) \<Longrightarrow> f t = f s"
  unfolding keeps_def by (metis snd_conv)

lemma lookahead_collation_keeps: "keeps cst_submitted (lookahead_collation env rh ms slot ts inc parent)"
  unfolding lookahead_collation_def Let_def by (intro keeps_intros)

text \<open>The parent was accepted by the runtime or is the included block, and the slot was claimed on it.\<close>

lemma lookahead_build_one_cases:
  assumes "lookahead_build_one env rh core_idx ms slot ts inc parent s = (r, t)"
  obtains (stopped) f where "r = Inl f" "cst_submitted t = cst_submitted s"
    | (built) x new_parent nid where "r = Inr new_parent" "cst_submitted t = cst_submitted s @ [x]"
      "sub_relay_parent x = rh_hash rh" "sub_core_index x = core_idx" "sub_parent_head x = parent"
      "ce_first_header env (sub_collation x) = Some new_parent"
      "lookahead_can_build_upon (ce_client env) (ce_api_can_build_upon env) slot parent (rh_number rh) inc
         (ce_force_authoring env) = Ok (Some nid)"
proof -
  obtain r1 s1 where c: "lookahead_collation env rh ms slot ts inc parent s = (r1, s1)" by fastforce
  from keepsD [OF lookahead_collation_keeps c] have k: "cst_submitted s1 = cst_submitted s" .
  show ?thesis
  proof (cases r1)
    case (Inl f)
    with assms c have "r = Inl f" "t = s1" by (simp_all add: lookahead_build_one_def r_bind_def)
    with k show ?thesis by (intro stopped) simp_all
  next
    case (Inr y)
    obtain vch collation new_parent where y: "y = (vch, collation, new_parent)" by (cases y)
    from c Inr y have built_facts: "ce_first_header env collation = Some new_parent"
      "\<exists>nid. lookahead_can_build_upon (ce_client env) (ce_api_can_build_upon env) slot parent (rh_number rh) inc
         (ce_force_authoring env) = Ok (Some nid)"
      by (auto simp: lookahead_collation_def Let_def round_iff)
    from assms c Inr y have "r = Inr new_parent"
      "cst_submitted t = cst_submitted s @ [\<lparr>sub_relay_parent = rh_hash rh, sub_collation = collation,
            sub_parent_head = parent, sub_validation_code_hash = vch, sub_core_index = core_idx\<rparr>]"
      using k by (auto simp: lookahead_build_one_def r_bind_def r_modify_def r_ret_def)
    with built_facts show ?thesis using built by force
  qed
qed

text \<open>A sequence of submissions, each on the block of the one before, starting on \<open>parent\<close>.\<close>

fun submission_chain ::
    "('nid, 'sig, 'hash, 'body, 'ext, 'sa, 'sc, 'st, 'pinh, 'inh, 'collation, 'rhash, 'cq, 'vch, 'm) collator_env
      \<Rightarrow> 'body header \<Rightarrow> ('rhash, 'collation, 'body, 'vch) submission list \<Rightarrow> bool" where
  "submission_chain env parent [] \<longleftrightarrow> True"
| "submission_chain env parent (x # xs) \<longleftrightarrow> sub_parent_head x = parent \<and>
     (\<exists>p. ce_first_header env (sub_collation x) = Some p \<and> submission_chain env p xs)"

lemma lookahead_build_submits:
  assumes "lookahead_build env rh core_idx ms slot ts inc n parent s = (r, t)"
  shows "\<exists>new. cst_submitted t = cst_submitted s @ new \<and> length new \<le> n \<and> submission_chain env parent new \<and>
     (\<forall>x \<in> set new. sub_relay_parent x = rh_hash rh \<and> sub_core_index x = core_idx \<and>
        (\<exists>nid. lookahead_can_build_upon (ce_client env) (ce_api_can_build_upon env) slot (sub_parent_head x) (rh_number rh) inc
           (ce_force_authoring env) = Ok (Some nid)))"
  using assms
proof (induction n arbitrary: parent s)
  case (Suc n)
  obtain r1 s1 where one: "lookahead_build_one env rh core_idx ms slot ts inc parent s = (r1, s1)" by fastforce
  from one show ?case
  proof (cases rule: lookahead_build_one_cases)
    case (stopped f)
    then have "t = s1" using Suc.prems one by (cases f) auto
    then show ?thesis using stopped by (intro exI [of _ "[]"]) simp
  next
    case (built x new_parent nid)
    then have "lookahead_build env rh core_idx ms slot ts inc n new_parent s1 = (r, t)" using Suc.prems one by simp
    from Suc.IH [OF this] obtain new where "cst_submitted t = cst_submitted s1 @ new" "length new \<le> n"
      "submission_chain env new_parent new" "\<forall>x \<in> set new. sub_relay_parent x = rh_hash rh \<and> sub_core_index x = core_idx \<and>
        (\<exists>nid. lookahead_can_build_upon (ce_client env) (ce_api_can_build_upon env) slot (sub_parent_head x) (rh_number rh) inc
           (ce_force_authoring env) = Ok (Some nid))" by blast
    with built show ?thesis by (intro exI [of _ "x # new"]) auto
  qed
qed simp

lemma lookahead_can_build_upon_claims:
  assumes "lookahead_can_build_upon cl api slot parent number inc force = Ok (Some nid)"
  shows "claim_slot cl parent number force = Ok (Some nid) \<and>
     (header_hash (nc_crypto cl) parent = inc \<or> api (header_hash (nc_crypto cl) parent) inc slot = Some True)"
  using assms by (auto simp: lookahead_can_build_upon_def split: result.splits option.splits if_splits bool.splits)

lemma keeps_helper [keeps_intros]: "keeps cst_submitted (r_modify (\<lambda>s. s\<lparr>cst_helper := f s\<rparr>))"
  by (simp add: keeps_def r_modify_def)

lemma lookahead_prepare_keeps: "keeps cst_submitted (lookahead_prepare env rh)"
  unfolding lookahead_prepare_def Let_def case_prod_beta' by (intro keeps_intros)

lemma lookahead_prepare_Inr:
  assumes "lookahead_prepare env rh s = (Inr (core_idx, ms, (slot, ts), included, parent), s1)"
  shows "(\<exists>rest. cores_scheduled_for_para (ce_host_configuration env) (ce_availability_cores env) (rh_hash rh) (ce_para_id env)
        = core_idx # rest) \<and>
     map_option (slot_now_of (ce_slots env) (ce_slot_duration env))
       (ce_relay_slot_and_timestamp env rh (ce_relay_slot_duration env)) = Some (slot, ts) \<and>
     find_parent_for_building (ce_relay env) (rh_hash rh) (max_ancestry_lookback (ce_host_configuration env) (rh_hash rh))
       = Inr (Some (included, parent))"
  using assms by (auto simp: lookahead_prepare_def Let_def round_iff split: option.splits list.splits sum.splits)

text \<open>
  C20: For a new relay block, the lookahead collator submits at most two collations, all for that relay block and the
  first core scheduled for the parachain. The first is built on the parent that the client found, the second on the block
  of the first; the slot was claimed on each parent, and the runtime allowed to build upon it unless it is the included block.
\<close>

theorem lookahead_submits_chain:
  assumes "lookahead_notification env rh s = (r, t)" "cst_submitted t \<noteq> cst_submitted s"
  shows "\<exists>new core_idx slot ts included parent.
     cst_submitted t = cst_submitted s @ new \<and> length new \<le> 2 \<and> submission_chain env parent new \<and>
     find_parent_for_building (ce_relay env) (rh_hash rh) (max_ancestry_lookback (ce_host_configuration env) (rh_hash rh))
       = Inr (Some (included, parent)) \<and>
     (\<exists>rest. cores_scheduled_for_para (ce_host_configuration env) (ce_availability_cores env) (rh_hash rh) (ce_para_id env)
       = core_idx # rest) \<and>
     map_option (slot_now_of (ce_slots env) (ce_slot_duration env))
       (ce_relay_slot_and_timestamp env rh (ce_relay_slot_duration env)) = Some (slot, ts) \<and>
     (\<forall>x \<in> set new. sub_relay_parent x = rh_hash rh \<and> sub_core_index x = core_idx \<and>
        (\<exists>nid. claim_slot (ce_client env) (sub_parent_head x) (rh_number rh) (ce_force_authoring env) = Ok (Some nid)) \<and>
        (header_hash (nc_crypto (ce_client env)) (sub_parent_head x) = header_hash (nc_crypto (ce_client env)) included \<or>
         ce_api_can_build_upon env (header_hash (nc_crypto (ce_client env)) (sub_parent_head x))
           (header_hash (nc_crypto (ce_client env)) included) slot = Some True))"
proof -
  obtain r1 s1 where p: "lookahead_prepare env rh s = (r1, s1)" by fastforce
  from keepsD [OF lookahead_prepare_keeps p] have k: "cst_submitted s1 = cst_submitted s" .
  with assms p obtain core_idx ms slot ts included parent where r1: "r1 = Inr (core_idx, ms, (slot, ts), included, parent)"
    by (cases r1) (auto simp: lookahead_notification_def r_bind_def)
  with assms(1) p have b: "lookahead_build env rh core_idx ms slot ts (header_hash (nc_crypto (ce_client env)) included) 2 parent s1 = (r, t)"
    by (simp add: lookahead_notification_def r_bind_def)
  from lookahead_build_submits [OF b] obtain new where new: "cst_submitted t = cst_submitted s1 @ new" "length new \<le> 2"
    "submission_chain env parent new" "\<forall>x \<in> set new. sub_relay_parent x = rh_hash rh \<and> sub_core_index x = core_idx \<and>
      (\<exists>nid. lookahead_can_build_upon (ce_client env) (ce_api_can_build_upon env) slot (sub_parent_head x) (rh_number rh)
         (header_hash (nc_crypto (ce_client env)) included) (ce_force_authoring env) = Ok (Some nid))" by blast
  have "(\<exists>nid. claim_slot (ce_client env) (sub_parent_head x) (rh_number rh) (ce_force_authoring env) = Ok (Some nid)) \<and>
      (header_hash (nc_crypto (ce_client env)) (sub_parent_head x) = header_hash (nc_crypto (ce_client env)) included \<or>
       ce_api_can_build_upon env (header_hash (nc_crypto (ce_client env)) (sub_parent_head x))
         (header_hash (nc_crypto (ce_client env)) included) slot = Some True)" if "x \<in> set new" for x
    using new(4) that lookahead_can_build_upon_claims [of "ce_client env" "ce_api_can_build_upon env" slot] by fast
  with lookahead_prepare_Inr [OF p [unfolded r1]] show ?thesis
    by (elim conjE exE)
       (intro exI [of _ new] exI [of _ core_idx] exI [of _ slot] exI [of _ ts] exI [of _ included] exI [of _ parent] conjI ballI,
        use k new in simp_all)
qed

section \<open>Properties of the relay chain driven collator\<close>

text \<open>
  A sequence of requests; the log has the relay number and the slot of each request that was processed to its end.
\<close>

fun basic_run ::
    "('nid, 'sig, 'hash, 'body, 'ext, 'sa, 'sc, 'st, 'pinh, 'inh, 'collation, 'rhash, 'cq, 'vch, 'm) collator_env
      \<Rightarrow> ('rhash, 'body) basic_request list \<Rightarrow> ('st, 'hash, 'rhash, 'collation, 'body, 'vch) basic_state \<Rightarrow> (u32 \<times> u64) list" where
  "basic_run env [] s = []"
| "basic_run env (req # reqs) s =
     (case basic_round env req s of
        (Inr u, t) \<Rightarrow> (bas_last_relay_chain_block t, bas_last_processed_slot t) # basic_run env reqs t
      | (Inl (Crash m), t) \<Rightarrow> []
      | (Inl f, t) \<Rightarrow> basic_run env reqs t)"

abbreviation basic_marks :: "('st, 'hash, 'rhash, 'collation, 'body, 'vch) basic_state \<Rightarrow> u64 \<times> u32" where
  "basic_marks s \<equiv> (bas_last_processed_slot s, bas_last_relay_chain_block s)"

lemma keeps_basic [keeps_intros]:
  "keeps basic_marks (basic_client f)" "keeps basic_marks basic_reject" "keeps basic_marks (basic_try y)"
  "keeps basic_marks (r_modify (\<lambda>s. s\<lparr>bas_completed := g s, bas_collator := h s\<rparr>))"
  "keeps basic_marks (r_modify (\<lambda>s. s\<lparr>bas_completed := g s\<rparr>))"
  by (auto simp: keeps_def basic_client_def basic_reject_def basic_try_def round_defs split: prod.splits result.splits)

lemma basic_try_iff [round_iff]: "basic_try y s = (Inr b, t) \<longleftrightarrow> y = Ok b \<and> t = s"
  by (auto simp: basic_try_def basic_reject_def round_defs split: result.splits)

lemma basic_collation_keeps: "keeps basic_marks (basic_collation env req)"
  unfolding basic_collation_def Let_def case_prod_beta'
  by (intro keeps_intros) (auto intro!: keeps_intros split: option.splits)

text \<open>A round goes on to its end only for a later slot, or for a relay block that is not later.\<close>

lemma basic_collation_Inr:
  assumes "basic_collation env req s = (Inr (slot, number), t)"
  shows "bas_last_processed_slot s < slot \<or> number \<le> bas_last_relay_chain_block s"
  using assms unfolding basic_collation_def Let_def
  by (simp only: round_iff split: prod.splits) (auto simp: round_iff not_le split: if_splits)

lemma basic_round_marks:
  assumes "basic_round env req s = (r, t)"
  shows "(\<forall>f. r = Inl f \<longrightarrow> basic_marks t = basic_marks s) \<and>
     (r = Inr () \<longrightarrow> bas_last_processed_slot s < bas_last_processed_slot t \<or>
        bas_last_relay_chain_block t \<le> bas_last_relay_chain_block s)"
proof -
  obtain r1 s1 where c: "basic_collation env req s = (r1, s1)" by fastforce
  show ?thesis
  proof (cases r1)
    case (Inl f)
    with assms c have "r = Inl f" "t = s1" by (simp_all add: basic_round_def r_bind_def)
    with keepsD [OF basic_collation_keeps c] show ?thesis by simp
  next
    case (Inr y)
    obtain slot number where y: "y = (slot, number)" by (cases y)
    from basic_collation_Inr [OF c [unfolded Inr y]] show ?thesis
      using assms c Inr y by (auto simp: basic_round_def r_bind_def r_modify_def)
  qed
qed

text \<open>
  While the relay blocks of the requests it processes get higher, the relay chain driven collator never builds for a
  slot twice: the slots of the processed requests increase as well.
\<close>

theorem basic_one_block_per_slot:
  assumes "sorted_wrt (<) (bas_last_relay_chain_block s # map fst (basic_run env reqs s))"
  shows "sorted_wrt (<) (bas_last_processed_slot s # map snd (basic_run env reqs s))"
  using assms
proof (induction reqs arbitrary: s)
  case (Cons req reqs)
  obtain r t where round: "basic_round env req s = (r, t)" by fastforce
  note marks = basic_round_marks [OF round]
  show ?case
  proof (cases r)
    case (Inl f)
    with marks have "basic_marks t = basic_marks s" by blast
    then show ?thesis using Cons.IH [of t] Cons.prems round Inl by (cases f) auto
  next
    case (Inr u)
    with Cons.prems round have "bas_last_relay_chain_block s < bas_last_relay_chain_block t"
      and later: "sorted_wrt (<) (bas_last_relay_chain_block t # map fst (basic_run env reqs t))" by auto
    with marks Inr have "bas_last_processed_slot s < bas_last_processed_slot t" by auto
    with Cons.IH [OF later] show ?thesis using round Inr by auto
  qed
qed simp

section \<open>The slot of the collator and the slot of the runtime\<close>

lemma adjusted_slot:
  assumes "slot_lib_ok lib" "para_millis \<noteq> 0"
    and "adjust_para_to_relay_parent_slot lib relay_hdr relay_dur para_millis = Some info"
    and "rh_babe_slot relay_hdr = Some relay_slot" "(of_nat (as_millis relay_dur) :: u64) = ucast (relay_millis :: u32)"
  shows "si_slot info = from_timestamp lib (saturating_mul (ucast relay_millis) relay_slot) para_millis \<and>
     si_timestamp info div para_millis = si_slot info \<and>
     unat (si_timestamp info) \<le> unat relay_slot * unat relay_millis \<and>
     unat relay_slot * unat relay_millis < unat (si_timestamp info) + unat para_millis \<and>
     unat relay_slot * unat relay_millis < 2 ^ 64 \<and> (para_millis = ucast relay_millis \<longrightarrow> si_slot info = relay_slot)"
proof -
  let ?rm = "ucast relay_millis :: u64"
  from assms(3) obtain rt ts where ts: "slot_timestamp lib relay_slot ?rm = Some rt"
    "slot_timestamp lib (from_timestamp lib rt para_millis) para_millis = Some ts"
    "info = \<lparr>si_timestamp = ts, si_slot = from_timestamp lib rt para_millis\<rparr>"
    unfolding adjust_para_to_relay_parent_slot_def assms(4,5) Let_def by (auto split: option.splits)
  have rm: "unat ?rm = unat relay_millis" by (simp add: unsigned_ucast_eq unsigned_take_bit_eq take_bit_nat_eq_self_iff less_trans [OF unsigned_less])
  from ts(1) have rt: "unat relay_slot * unat ?rm < 2 ^ 64" "rt = relay_slot * ?rm"
    using assms(1) by (auto simp: slot_lib_ok_slot split: if_splits)
  then have urt: "unat rt = unat relay_slot * unat relay_millis" by (simp add: unat_mult_lem [THEN iffD1] rm)
  have sat: "saturating_mul ?rm relay_slot = rt" using rt by (simp add: saturating_mul_def mult.commute)
  let ?slot = "from_timestamp lib rt para_millis"
  have slot: "unat ?slot = unat rt div unat para_millis" using slot_lib_ok_timestamp [OF assms(1,2)] .
  have ts': "unat ?slot * unat para_millis < 2 ^ 64" "ts = ?slot * para_millis"
    using ts(2) assms(1) by (auto simp: slot_lib_ok_slot split: if_splits)
  then have uts: "unat ts = unat rt div unat para_millis * unat para_millis"
    by (simp add: unat_mult_lem [THEN iffD1] slot)
  have p: "0 < unat para_millis" using assms(2) by (simp add: unat_gt_0)
  have div: "ts div para_millis = ?slot"
    using p by (intro word_eqI_unat) (simp add: unat_div uts slot)
  have bounds: "unat ts \<le> unat rt" "unat rt < unat ts + unat para_millis"
    unfolding uts using p div_mult_mod_eq [of "unat rt" "unat para_millis"] mod_less_divisor [OF p, of "unat rt"] by linarith+
  have "?slot = relay_slot" if "para_millis = ?rm"
  proof (rule word_eqI_unat)
    have "unat para_millis = unat relay_millis" using that rm by simp
    then show "unat ?slot = unat relay_slot" unfolding slot urt using p by simp
  qed
  then show ?thesis using sat div bounds urt rt(1) rm by (simp add: ts(3))
qed

text \<open>
  The slot that the slot based collator derives from the relay parent is the one that the runtime's slot provider
  expects for the same relay slot, and the timestamp it puts into the block belongs to that slot and is
  less than one slot older than the relay slot. With slots of the length of the relay chain's,
  the block passes the check of its timestamp after the inherents.
\<close>

theorem collator_slot_accepted:
  assumes "slot_lib_ok lib" "para_millis \<noteq> 0"
    and "adjust_para_to_relay_parent_slot lib relay_hdr relay_dur para_millis = Some info"
    and "rh_babe_slot relay_hdr = Some relay_slot" "(of_nat (as_millis relay_dur) :: u64) = ucast relay_millis"
  shows "para_slot_get_and_verify (from_timestamp lib) relay_millis (si_slot info, para_millis) relay_slot = Ok (si_slot info) \<and>
     si_timestamp info div para_millis = si_slot info \<and>
     unat (si_timestamp info) \<le> unat relay_slot * unat relay_millis \<and>
     unat relay_slot * unat relay_millis < unat (si_timestamp info) + unat para_millis \<and>
     (para_millis = ucast relay_millis \<and> ab_SlotDuration cfg = para_millis \<and> SlotInfo s = Some (relay_slot, n) \<longrightarrow>
        post_inherents cfg (si_timestamp info) s = Ok ())"
  using adjusted_slot [OF assms] assms(2) by (auto simp: para_slot_get_and_verify_def post_inherents_def)

context unincluded_segment_api
begin

text \<open>A collator that asks a runtime with this contract.\<close>

lemma client_claims_on_empty_segment:
  assumes "claim_slot cl parent number force = Ok (Some nid)" "version (header_hash (nc_crypto cl) parent) = Some (Some v)"
    and "\<And>slot. api (header_hash (nc_crypto cl) parent) inc slot = Some (can_build c seg inc slot s)"
    and "0 < capacity c" "seg inc = 0" "\<And>l. latest s = Some l \<Longrightarrow> l < para_slot \<and> l < relay_slot"
  shows "client_can_build_upon cl version api para_slot relay_slot ts number parent inc force = Ok (Some (slot_claim_unchecked nid ts))"
  using assms(1-3) empty_segment [of c seg inc s, OF assms(4,5)] assms(6)
  by (simp add: client_can_build_upon_def Let_def)

lemma client_claim_allowed:
  assumes "client_can_build_upon cl version api para_slot relay_slot ts number parent inc force = Ok (Some claim)"
    and "header_hash (nc_crypto cl) parent \<noteq> inc" "version (header_hash (nc_crypto cl) parent) = Some (Some v)"
    and "\<And>slot. api (header_hash (nc_crypto cl) parent) inc slot = Some (can_build c seg inc slot s)" "latest s = Some l"
  shows "seg inc < capacity c \<and> l \<le> (if v > 1 then relay_slot else para_slot)"
proof -
  have "can_build c seg inc (if v > 1 then relay_slot else para_slot) s"
    using assms(1-4) by (auto simp: client_can_build_upon_def Let_def split: result.splits option.splits if_splits bool.splits)
  with not_backwards within_capacity assms(5) show ?thesis by blast
qed

end

text \<open>
  C34: The runtime counts relay slots, but its API is declared at version 1, for which the collator passes the parachain slot. A collator
  whose parachain slots are longer than relay slots therefore gets no claim on a parent that is not included yet, even with room in the
  unincluded segment: the parachain slot at the relay parent is below the last relay slot that the runtime stored.
\<close>

theorem long_slots_block_segment:
  assumes "slot_lib_ok lib" "para_millis \<noteq> 0"
    and "adjust_para_to_relay_parent_slot lib relay_hdr relay_dur para_millis = Some info"
    and "rh_babe_slot relay_hdr = Some relay_slot" "(of_nat (as_millis relay_dur) :: u64) = ucast (relay_millis :: u32)"
    and "SlotInfo s = Some (last_slot, authored)" "unat relay_slot * unat relay_millis < unat last_slot * unat para_millis"
    and "header_hash (nc_crypto cl) parent \<noteq> inc"
    and "\<And>slot. api (header_hash (nc_crypto cl) parent) inc slot = Some (can_build_upon cfg seg inc slot s)"
  shows "client_can_build_upon cl (\<lambda>_. Some (Some UnincludedSegmentApi_version)) api (si_slot info) relay_slot (si_timestamp info)
     number parent inc force \<noteq> Ok (Some claim)"
proof
  assume claim: "client_can_build_upon cl (\<lambda>_. Some (Some UnincludedSegmentApi_version)) api (si_slot info) relay_slot (si_timestamp info)
     number parent inc force = Ok (Some claim)"
  have "last_slot \<le> si_slot info"
    using hook_api.client_claim_allowed [OF claim assms(8) refl assms(9)] assms(6)
    by (simp add: UnincludedSegmentApi_version_def)
  then have "unat last_slot * unat para_millis \<le> unat (si_slot info) * unat para_millis"
    by (simp add: word_le_nat_alt)
  also have "\<dots> \<le> unat (si_timestamp info)"
    using adjusted_slot [OF assms(1-5)] by (metis div_times_less_eq_dividend unat_div)
  also have "\<dots> \<le> unat relay_slot * unat relay_millis"
    using adjusted_slot [OF assms(1-5)] by simp
  finally show False using assms(7) by simp
qed

section \<open>Properties of the slot based collator\<close>

lemma b_cache_iff [round_iff]:
  "b_cache f s = (Inr a, t) \<longleftrightarrow> (\<exists>m. f (bs_cache s) = Ok (a, m) \<and> t = s\<lparr>bs_cache := m\<rparr>)"
  by (auto simp: b_cache_def split: result.splits)

lemma b_client_iff [round_iff]:
  "b_client f s = (Inr r, t) \<longleftrightarrow> (\<exists>st. f (cst_client (bs_collator s)) = (r, st) \<and>
     t = s\<lparr>bs_collator := (bs_collator s)\<lparr>cst_client := st\<rparr>\<rparr>)"
  by (auto simp: b_client_def split: prod.splits)

lemma client_can_build_upon_claims:
  assumes "client_can_build_upon cl version api para_slot relay_slot ts number parent inc force = Ok (Some claim)"
  shows "claim_slot cl parent number force = Ok (Some (sc_author_id claim)) \<and> sc_timestamp claim = ts"
  using assms by (auto simp: client_can_build_upon_def slot_claim_unchecked_def Let_def
      split: result.splits option.splits if_splits bool.splits)

lemma builder_claim_Inr:
  assumes "builder_claim env now rbh bh s = (Inr (rp_data, parent, core, ms, claim), t)"
    and "lru_ok (ce_lru env)" "cache_ok (ce_lru env) (ce_relay env) (bs_cache s)"
  shows "(\<exists>offset. core_index core \<in> set (scheduled_cores (ce_relay env) (rpd_relay_parent rp_data) offset)) \<and>
     claim_slot (ce_client env) parent (rh_number (rpd_relay_parent rp_data)) (ce_force_authoring env) = Ok (Some (sc_author_id claim)) \<and>
     (\<exists>info. adjust_para_to_relay_parent_slot (ce_slots env) (rpd_relay_parent rp_data) (ce_relay_slot_duration env)
        (slot_millis (bs_timer s)) = Some info \<and> sc_timestamp claim = si_timestamp info) \<and> bs_messages t = bs_messages s"
proof -
  from assms(1) obtain m1 m2 offset info number logs para_slot relay_slot inc sleep timer best where
    f: "offset_relay_parent_find_descendants (ce_lru env) (ce_relay env) best offset (bs_cache s) = Ok (Some rp_data, m1)"
    "determine_core (ce_lru env) (ce_relay env) (ce_para_digests env) (rpd_relay_parent rp_data) number logs offset m1 = Ok (Some core, m2)"
    "client_can_build_upon (ce_client env) (ce_segment_api_version env) (ce_api_can_build_upon env) para_slot relay_slot
       (si_timestamp info) (rh_number (rpd_relay_parent rp_data)) parent inc (ce_force_authoring env) = Ok (Some claim)"
    "adjust_para_to_relay_parent_slot (ce_slots env) (rpd_relay_parent rp_data) (ce_relay_slot_duration env) (slot_millis timer) = Some info"
    "wait_until_next_slot (ce_slots env) now (bs_timer s) = Ok (sleep, timer)" "bs_messages t = bs_messages s"
    unfolding builder_claim_def Let_def case_prod_beta' by (auto simp: round_iff)
  from offset_relay_parent_keeps [OF assms(2,3) f(1)] have "cache_ok (ce_lru env) (ce_relay env) m1" .
  from determine_core_Ok [OF assms(2) this f(2)] have "core_index core \<in> set (scheduled_cores (ce_relay env) (rpd_relay_parent rp_data) offset)"
    by (metis core.select_convs(3) nth_mem)
  with client_can_build_upon_claims [OF f(3)] f(4,6) wait_keeps_durations [OF f(5)] show ?thesis by auto
qed

text \<open>
  Every message that the block builder sends to the collation task carries a block that the node sealed with the key it
  claimed the slot with: the runtime accepts the seal and reads that key as the author. The core is one of those scheduled
  for the parachain at the relay parent of the message, and the slot was claimed on the parent that the block is built on.
\<close>

lemma builder_message_sound:
  assumes "builder_round env now now1 now2 alive rbh bh s = (Inr (), t)"
    and "lru_ok (ce_lru env)" "cache_ok (ce_lru env) (ce_relay env) (bs_cache s)"
    and "import_lib_ok (ce_lib env)" "\<And>rh. proposer_keeps_digests (ce_services env rh)"
    and "keystore_ok (ce_client env)" "client_codecs_ok (ce_client env)"
  shows "\<exists>msg relay_hdr offset nid pre. bs_messages t = bs_messages s @ [msg] \<and> rh_hash relay_hdr = cm_relay_parent msg \<and>
     cm_core_index msg \<in> set (scheduled_cores (ce_relay env) relay_hdr offset) \<and>
     claim_slot (ce_client env) (cm_parent_header msg) (rh_number relay_hdr) (ce_force_authoring env) = Ok (Some nid) \<and>
     verify_and_remove_seal (nc_crypto (ce_client env)) (fst (cm_candidate msg)) = Ok pre \<and>
     claimed_author (digest_logs pre) = Some (encode (nc_id_codec (ce_client env)) nid)"
proof -
  from assms(1) obtain rp_data parent core ms claim s1 where
    c: "builder_claim env now rbh bh s = (Inr (rp_data, parent, core, ms, claim), s1)"
    and b: "builder_build env now1 now2 alive rp_data parent core ms claim s1 = (Inr (), t)"
    by (auto simp: builder_round_def round_iff)
  note claimed = builder_claim_Inr [OF c assms(2,3)]
  from b obtain msg candidate srv extra inh dur limit st st' where
    m: "bs_messages t = bs_messages s1 @ [msg]" "cm_relay_parent msg = rh_hash (rpd_relay_parent rp_data)"
    "cm_core_index msg = core_index core" "cm_parent_header msg = parent" "cm_candidate msg = candidate"
    "srv = ce_services env (rpd_relay_parent rp_data)"
    "build_block_and_import (ce_client env) (ce_lib env) srv parent claim extra inh dur limit st = (Ok (Some candidate), st')"
    unfolding builder_build_def Let_def by (auto simp: round_iff split: if_splits)
  obtain hdr body where cand: "candidate = (hdr, body)" by (cases candidate)
  from m(7) [unfolded cand] assms(4) assms(5) [of "rpd_relay_parent rp_data", folded m(6)] assms(6,7)
  obtain pre where "verify_and_remove_seal (nc_crypto (ce_client env)) hdr = Ok pre"
    "claimed_author (digest_logs pre) = Some (encode (nc_id_codec (ce_client env)) (sc_author_id claim))"
    by (rule built_block_parts)
  with claimed m cand show ?thesis by force
qed

text \<open>
  As long as the product fits 32 bits and the percentage is at most 100, the limit that the collators put on the PoV never
  exceeds the maximum of the relay chain; the default of 85 per cent keeps it below for every maximum up to 50 megabytes.
\<close>

theorem allowed_pov_size_bounded:
  assumes "percentage = (case max_pov_percentage of Some p \<Rightarrow> p | None \<Rightarrow> 85)"
    and "unat percentage \<le> 100" "unat max_size * unat percentage < 2 ^ 32"
  shows "allowed_pov_size max_size max_pov_percentage = unat max_size * unat percentage div 100 \<and>
     allowed_pov_size max_size max_pov_percentage \<le> unat max_size"
proof -
  have "unat (max_size * percentage) = unat max_size * unat percentage"
    using assms(3) by (simp add: unat_mult_lem [THEN iffD1])
  then have "unat (max_size * percentage div 100) = unat max_size * unat percentage div 100" by (simp add: unat_div)
  moreover have "allowed_pov_size max_size max_pov_percentage = unat (max_size * percentage div 100)"
    using assms(1) by (simp add: allowed_pov_size_def split: option.splits)
  moreover have "unat max_size * unat percentage div 100 \<le> unat max_size * 100 div 100"
    using assms(2) by (intro div_le_mono mult_le_mono2)
  ultimately show ?thesis by simp
qed

text \<open>With a percentage of 500 the product wraps for a PoV of ten megabytes: the limit falls below the maximum.\<close>

lemma allowed_pov_size_wraps: "allowed_pov_size 10485760 (Some 500) = 9479127"
  by (simp add: allowed_pov_size_def)

text \<open>
  When the slot based block import has to execute a block itself, it hands it on only if the execution gives the
  state root of the header, and then with the changes of that execution; the block and its proof go to the collation task.
\<close>

theorem executed_import_checks_root:
  assumes "\<not> sbi_is_apply_changes env (state_action p)" "sbi_import_block env False inner p (channel, st) = (Inr (), channel', st')"
  shows "\<exists>body changes evidence. body = (case bip_body p of Some b \<Rightarrow> b | None \<Rightarrow> sbi_empty_body env) \<and>
     sbi_execute env (bip_header p) body = Inr (changes, evidence) \<and> sbi_state_root env (bip_header p) = sbi_root_of env changes \<and>
     inner (p\<lparr>state_action := sbi_apply_changes env changes\<rparr>) st = (Inr (), st') \<and>
     channel' = channel @ [((bip_header p, body), evidence)]"
  using assms by (auto simp: sbi_import_block_def Let_def split: sum.splits prod.splits if_splits)

section \<open>Concrete runs\<close>

text \<open>
  A collator with the client of the import queue's runs: its blocks are built on block 4 of the parachain and relay blocks of
  the numbered relay chain, and a collation is the header of its block.
\<close>

definition demo_collator_services ::
    "(nat, nat list, bool option, unit, nat header list, unit, unit, nat header, nat relay_header) collator_services" where
  "demo_collator_services = \<lparr>proposer_init = (\<lambda>_. None), provide_paras_inherent = (\<lambda>_ i. Inr i),
     basic_propose = (\<lambda>parent _ logs _ _. Inr ((\<lparr>digest_logs = logs, header_rest = header_rest parent + 1\<rparr>, [1]), ())),
     import_block = (\<lambda>p st. (Inr (), bip_header p # st)), build_collation = (\<lambda>_ c. Some (fst c)),
     paras_inherent_create_at = (\<lambda>_ _. Some ()), create_other_inherent_data = (\<lambda>_. Inr ()), replace_timestamp = (\<lambda>_ i. i)\<rparr>"

definition demo_collator ::
    "(u8, u8, nat, nat, nat list, bool option, unit, nat header list, unit, unit, nat header, nat, u32 list, nat,
      nat \<Rightarrow> (nat, u32 list) relay_chain_data option) collator_env" where
  "demo_collator = \<lparr>ce_client = demo_client, ce_lib = demo_import_lib, ce_services = (\<lambda>_. demo_collator_services),
     ce_relay = demo_relay_with (\<lambda>_ _. Inr (Some (demo_parent, demo_parent))), ce_lru = demo_lru,
     ce_para_digests = demo_para_digests\<lparr>extract_relay_parent := (\<lambda>_. Some 0)\<rparr>, ce_slots = demo_slot_lib,
     ce_relay_slot_and_timestamp = (\<lambda>h _. map_option (\<lambda>s. (s, s * 6000)) (rh_babe_slot h)),
     ce_host_configuration = (\<lambda>_. Some (Some \<lparr>allowed_ancestry_len = 3, max_candidate_depth = 3\<rparr>)),
     ce_availability_cores = (\<lambda>_. Some [Free, Scheduled 1000]), ce_api_can_build_upon = (\<lambda>_ _ _. Some False),
     ce_segment_api_version = (\<lambda>_. Some (Some 2)), ce_relay_parent_offset = (\<lambda>_. None),
     ce_provide_digests = (\<lambda>_ _. []), ce_code_hash_at = (\<lambda>_. Some 1), ce_first_header = Some, ce_para_id = 1000,
     ce_force_authoring = False, ce_max_pov_percentage = None, ce_authoring_duration = from_millis 2000,
     ce_relay_slot_duration = from_millis 6000, ce_slot_duration = None, ce_state_keys = []\<rparr>"

definition demo_collator_state :: "(nat header list, nat, nat, nat header, nat, nat) collator_state" where
  "demo_collator_state = \<lparr>cst_client = [], cst_announced = [], cst_submitted = [], cst_helper = backing_helper_new\<rparr>"

definition demo_basic_state :: "(nat header list, nat, nat, nat header, nat, nat) basic_state" where
  "demo_basic_state = \<lparr>bas_last_processed_slot = 0, bas_last_relay_chain_block = 0, bas_collator = demo_collator_state,
     bas_completed = []\<rparr>"

definition demo_builder_state ::
    "(nat header list, nat, nat, nat header, nat, nat, nat \<Rightarrow> (nat, u32 list) relay_chain_data option, nat list) builder_state" where
  "demo_builder_state = \<lparr>bs_timer = tw_timer timer_start, bs_cache = (\<lambda>_. None), bs_collator = demo_collator_state, bs_messages = []\<rparr>"

lemmas collator_demo_simps = demo_collator_def demo_collator_state_def demo_collator_services_def client_demo_simps
  claim_slot_def first_eligible_key_def key_eligible_def slot_claim_unchecked_def
  build_block_and_import_def build_sealed_block_def propose_def seal_def seal_header_def nimbus_pre_digest_def nimbus_seal_def
  create_inherent_data_def create_inherent_data_with_rp_offset_def demo_relay_with_def demo_relay_header_def

theorem allowed_pov_size_bounded_witness:
  "allowed_pov_size 5242880 None = 4456448 \<and> allowed_pov_size 5242880 None \<le> 5242880"
  using allowed_pov_size_bounded [of 85 None 5242880] by simp

theorem executed_import_checks_root_witness:
  "\<exists>changes evidence. sbi_import_block \<lparr>sbi_execute = (\<lambda>h b. Inr (header_rest h, b)), sbi_root_of = (\<lambda>c. c),
       sbi_state_root = header_rest, sbi_is_apply_changes = (\<lambda>a. a \<noteq> None), sbi_apply_changes = Some, sbi_empty_body = []\<rparr> False
       (\<lambda>p st. (Inr (), state_action p # st)) \<lparr>bip_origin = NetworkBroadcast, bip_header = demo_parent, post_digests = [],
         bip_body = Some [1 :: nat], state_action = None, fork_choice = None, create_gap = True\<rparr> ([], [])
     = (Inr (), [((demo_parent, [1]), evidence)], [Some changes]) \<and> changes = 4"
proof -
  let ?env = "\<lparr>sbi_execute = (\<lambda>h b. Inr (header_rest h, b)), sbi_root_of = (\<lambda>c :: nat. c),
       sbi_state_root = header_rest, sbi_is_apply_changes = (\<lambda>a. a \<noteq> None), sbi_apply_changes = Some, sbi_empty_body = []\<rparr>"
  let ?p = "\<lparr>bip_origin = NetworkBroadcast, bip_header = demo_parent, post_digests = [],
         bip_body = Some [1 :: nat], state_action = None, fork_choice = None, create_gap = True\<rparr>"
  have a: "\<not> sbi_is_apply_changes ?env (state_action ?p)" by simp
  obtain ch st where run: "sbi_import_block ?env False (\<lambda>p st. (Inr (), state_action p # st)) ?p ([], []) = (Inr (), ch, st)"
    by (simp add: sbi_import_block_def Let_def)
  from executed_import_checks_root [OF a run] run show ?thesis by (auto simp: demo_parent_def)
qed

theorem collator_slot_accepted_witness:
  "\<exists>info. adjust_para_to_relay_parent_slot demo_slot_lib (demo_relay_header 9) (from_millis 6000) 12000 = Some info \<and>
     para_slot_get_and_verify (from_timestamp demo_slot_lib) 6000 (si_slot info, 12000) 9 = Ok (si_slot info) \<and>
     si_timestamp info div 12000 = si_slot info"
proof -
  obtain info where info: "adjust_para_to_relay_parent_slot demo_slot_lib (demo_relay_header 9) (from_millis 6000) 12000 = Some info"
    by (simp add: adjust_para_to_relay_parent_slot_def demo_relay_header_def demo_slot_lib_def)
  have "rh_babe_slot (demo_relay_header 9) = Some 9" "(of_nat (as_millis (from_millis 6000)) :: u64) = ucast (6000 :: u32)"
    by (simp_all add: demo_relay_header_def)
  from collator_slot_accepted [OF demo_slot_lib_ok _ info this] info show ?thesis by auto
qed

text \<open>The collator builds one block: its parent is the included block, and the runtime allows no second one.\<close>

lemma demo_can_build:
  "lookahead_can_build_upon demo_client (\<lambda>_ _ _. Some False) 9 demo_parent 9 (header_hash (nc_crypto demo_client) demo_parent) False = Ok (Some 7)"
  by (simp add: lookahead_can_build_upon_def claim_slot_def first_eligible_key_def key_eligible_def client_demo_simps)

lemma demo_cannot_build:
  "lookahead_can_build_upon demo_client (\<lambda>_ _ _. Some False) 9 demo_sealed 9 (header_hash (nc_crypto demo_client) demo_parent) False = Ok None"
  by (simp add: lookahead_can_build_upon_def claim_slot_def first_eligible_key_def key_eligible_def client_demo_simps)

lemma demo_collate:
  "collate demo_client demo_import_lib demo_collator_services demo_parent (slot_claim_unchecked 7 ts) (Some []) ((), ()) dur limit st
     = (Ok (Some demo_sealed), demo_sealed\<lparr>digest_logs := [PreRuntime NIMBUS_ENGINE_ID [7]]\<rparr> # st)"
  by (simp add: collate_def collator_demo_simps)

lemma demo_lookahead_collation:
  "lookahead_collation demo_collator (demo_relay_header 9) ms 9 ts (header_hash (nc_crypto demo_client) demo_parent) demo_parent s
     = (Inr (1, demo_sealed, demo_sealed), s\<lparr>cst_client := demo_sealed\<lparr>digest_logs := [PreRuntime NIMBUS_ENGINE_ID [7]]\<rparr> # cst_client s\<rparr>)"
proof -
  have "create_inherent_data demo_collator_services demo_parent (Some ts) [] = Ok ((), ())"
    by (simp add: create_inherent_data_def create_inherent_data_with_rp_offset_def demo_collator_services_def)
  then show ?thesis
    using demo_can_build demo_collate
    by (simp add: lookahead_collation_def round_defs r_client_def demo_collator_def demo_relay_header_def)
qed

lemma demo_lookahead_stops:
  "lookahead_collation demo_collator (demo_relay_header 9) ms 9 ts (header_hash (nc_crypto demo_client) demo_parent) demo_sealed s = (Inl Break, s)"
  using demo_cannot_build by (simp add: lookahead_collation_def round_defs demo_collator_def demo_relay_header_def)

lemma demo_lookahead_prepare:
  "\<exists>s. lookahead_prepare demo_collator (demo_relay_header 9) demo_collator_state = (Inr (1, 1000, (9, 54000), demo_parent, demo_parent), s) \<and>
     cst_submitted s = []"
  by (simp add: lookahead_prepare_def round_defs cores_scheduled_for_para_def async_backing_depth_def slot_now_of_def
      max_ancestry_lookback_def demo_collator_def demo_relay_with_def demo_relay_header_def demo_collator_state_def
      List.map_filter_def upt_rec)

theorem lookahead_submits_chain_witness:
  "\<exists>t new core_idx. lookahead_notification demo_collator (demo_relay_header 9) demo_collator_state = (Inr (), t) \<and>
     cst_submitted t = [new] \<and> sub_relay_parent new = 9 \<and> sub_core_index new = core_idx"
proof -
  from demo_lookahead_prepare obtain s where p: "lookahead_prepare demo_collator (demo_relay_header 9) demo_collator_state
      = (Inr (1, 1000, (9, 54000), demo_parent, demo_parent), s)" "cst_submitted s = []" by blast
  have cl: "ce_client demo_collator = demo_client" by (simp add: demo_collator_def)
  obtain t where t: "lookahead_notification demo_collator (demo_relay_header 9) demo_collator_state = (Inr (), t)"
    "length (cst_submitted t) = 1"
    using p by (simp add: lookahead_notification_def r_bind_def r_modify_def r_ret_def lookahead_build_one_def numeral_2_eq_2
        cl demo_lookahead_collation demo_lookahead_stops)
  then have "cst_submitted t \<noteq> cst_submitted demo_collator_state" by (auto simp: demo_collator_state_def)
  from lookahead_submits_chain [OF t(1) this] t(2) obtain new where
    "cst_submitted t = [new]" "sub_relay_parent new = rh_hash (demo_relay_header 9)"
    by (auto simp: demo_collator_state_def length_Suc_conv)
  with t(1) show ?thesis by (auto simp: demo_relay_header_def)
qed

text \<open>Two requests, for the relay blocks 9 and 10.\<close>

definition demo_request :: "nat \<Rightarrow> (nat, nat) basic_request" where
  "demo_request n = \<lparr>br_relay_parent = n, br_parent_head = Some demo_parent, br_max_pov_size = 1000, br_block_status = True,
     br_code_available = True\<rparr>"

lemma demo_claim: "claim_slot demo_client demo_parent n False = Ok (Some 7)"
  by (simp add: claim_slot_def first_eligible_key_def key_eligible_def client_demo_simps)

lemma demo_basic_round:
  assumes "\<not> (bas_last_processed_slot s \<ge> of_nat n \<and> bas_last_relay_chain_block s < of_nat n)"
  shows "\<exists>t. basic_round demo_collator (demo_request n) s = (Inr (), t) \<and> bas_last_processed_slot t = of_nat n \<and>
     bas_last_relay_chain_block t = of_nat n"
proof -
  have "create_inherent_data demo_collator_services demo_parent (Some ts) [] = Ok ((), ())" for ts
    by (simp add: create_inherent_data_def create_inherent_data_with_rp_offset_def demo_collator_services_def)
  then show ?thesis
    using assms demo_claim demo_collate
    by (simp add: basic_round_def basic_collation_def round_defs basic_try_def basic_client_def slot_now_of_def demo_request_def
        demo_collator_def demo_relay_with_def demo_relay_header_def)
qed

theorem basic_one_block_per_slot_witness:
  "map fst (basic_run demo_collator [demo_request 9, demo_request 10] demo_basic_state) = [9, 10] \<and>
   sorted_wrt (<) (0 # map snd (basic_run demo_collator [demo_request 9, demo_request 10] demo_basic_state))"
proof -
  have "\<not> (bas_last_processed_slot demo_basic_state \<ge> of_nat 9 \<and> bas_last_relay_chain_block demo_basic_state < of_nat 9)"
    by (simp add: demo_basic_state_def)
  from demo_basic_round [OF this] obtain t where t: "basic_round demo_collator (demo_request 9) demo_basic_state = (Inr (), t)"
    "bas_last_processed_slot t = 9" "bas_last_relay_chain_block t = 9" by auto
  then have "\<not> (bas_last_processed_slot t \<ge> of_nat 10 \<and> bas_last_relay_chain_block t < of_nat 10)" by simp
  from demo_basic_round [OF this] obtain u where u: "basic_round demo_collator (demo_request 10) t = (Inr (), u)"
    "bas_last_processed_slot u = 10" "bas_last_relay_chain_block u = 10" by auto
  have run: "map fst (basic_run demo_collator [demo_request 9, demo_request 10] demo_basic_state) = [9, 10]"
    using t u by simp
  have "sorted_wrt (<) (bas_last_relay_chain_block demo_basic_state #
      map fst (basic_run demo_collator [demo_request 9, demo_request 10] demo_basic_state))"
    unfolding run by (simp add: demo_basic_state_def)
  from basic_one_block_per_slot [OF this] run show ?thesis by (simp add: demo_basic_state_def)
qed

text \<open>One round of the block builder, from the start of its timer.\<close>

lemma demo_builder_services_ok: "proposer_keeps_digests (ce_services demo_collator rh)"
  by (auto simp: proposer_keeps_digests_def demo_collator_def demo_collator_services_def)

lemma demo_build_block:
  "build_block_and_import demo_client demo_import_lib demo_collator_services demo_parent (slot_claim_unchecked 7 ts) (Some []) ((), ()) dur limit st
     = (Ok (Some (demo_sealed, [1])), demo_sealed\<lparr>digest_logs := [PreRuntime NIMBUS_ENGINE_ID [7]]\<rparr> # st)"
  by (simp add: collator_demo_simps)

lemma builder_claim_demo:
  assumes "ce_relay env = demo_relay_with (\<lambda>_ _. Inr (Some (demo_parent, demo_parent)))" "ce_lru env = demo_lru"
    "ce_para_digests env = demo_para_digests\<lparr>extract_relay_parent := (\<lambda>_. Some 0)\<rparr>" "ce_slots env = demo_slot_lib"
    "ce_relay_parent_offset env = (\<lambda>_. None)" "ce_relay_slot_duration env = from_millis 6000"
    and "claim_slot (ce_client env) demo_parent 9 (ce_force_authoring env) = Ok (Some 7)" "hdr_number (ce_client env) demo_parent = 4"
    and "wait_until_next_slot demo_slot_lib now (bs_timer s) = Ok (sleep, timer)" "slot_millis timer = 6000" "bs_cache s = (\<lambda>_. None)"
  shows "\<exists>core t. builder_claim env now (Some 9) 4 s
     = (Inr (relay_parent_data_new (demo_relay_header 9), demo_parent, core, 1000, slot_claim_unchecked 7 54000), t) \<and>
     bs_timer t = update_scheduling 3 timer \<and> bs_messages t = bs_messages s"
proof -
  let ?rc = "demo_relay_with (\<lambda>_ _. Inr (Some (demo_parent, demo_parent)))"
  have get: "get_mut_relay_chain_data demo_lru ?rc 9 m =
      Ok (case m 9 of Some d \<Rightarrow> d | None \<Rightarrow> \<lparr>relay_parent_header = demo_relay_header 9, claim_queue = [10, 11, 12], max_pov_size = 1000,
          last_claimed_core_selector = None\<rparr>,
        m(9 \<mapsto> (case m 9 of Some d \<Rightarrow> d | None \<Rightarrow> \<lparr>relay_parent_header = demo_relay_header 9, claim_queue = [10, 11, 12], max_pov_size = 1000,
          last_claimed_core_selector = None\<rparr>)))" for m
    by (auto simp: get_mut_relay_chain_data_def update_for_relay_parent_def claim_queue_at_def demo_lru_def demo_relay_with_def
        split: option.splits)
  have hash: "rh_hash (demo_relay_header 9) = 9" "rh_babe_slot (demo_relay_header 9) = Some 9" "rh_number (demo_relay_header 9) = 9"
    by (simp_all add: demo_relay_header_def)
  have slot: "adjust_para_to_relay_parent_slot demo_slot_lib (demo_relay_header 9) (from_millis 6000) 6000
      = Some \<lparr>si_timestamp = 54000, si_slot = 9\<rparr>"
    by (simp add: adjust_para_to_relay_parent_slot_def demo_slot_lib_def hash)
  have "client_can_build_upon (ce_client env) v api 9 9 54000 9 demo_parent (header_hash (nc_crypto (ce_client env)) demo_parent)
      (ce_force_authoring env) = Ok (Some (slot_claim_unchecked 7 54000))" for v api
    by (simp add: client_can_build_upon_def assms(7))
  moreover have "find_parent ?rc h = Some (demo_parent, demo_parent)" "claims_at_depth ?rc q k = q" for h q k
    by (simp_all add: find_parent_def demo_relay_with_def)
  ultimately show ?thesis
    by (simp add: builder_claim_def Let_def round_defs b_cache_def assms(1-6) assms(8-11)
        offset_relay_parent_find_descendants_def get hash slot determine_core_def is_new_relay_parent_def demo_para_digests_def
        relay_parent_data_new_def)
qed

lemma demo_builder_claim:
  "\<exists>core t. builder_claim demo_collator (from_millis 1000) (Some 9) 4 demo_builder_state
     = (Inr (relay_parent_data_new (demo_relay_header 9), demo_parent, core, 1000, slot_claim_unchecked 7 54000), t) \<and>
     bs_timer t = update_scheduling 3 (tw_timer timer_running) \<and> bs_messages t = []"
proof -
  have "wait_until_next_slot demo_slot_lib (from_millis 1000) (bs_timer demo_builder_state) = Ok (from_millis 5000, tw_timer timer_running)"
    using timer_start_wait by (simp add: timer_start_def demo_builder_state_def)
  moreover have "slot_millis (tw_timer timer_running) = 6000"
    by (simp add: timer_running_def timer_start_def new_with_offset_def slot_millis_def slot_duration_def)
  moreover have "hdr_number demo_client demo_parent = 4" by (simp add: demo_client_def demo_parent_def)
  moreover have "bs_cache demo_builder_state = (\<lambda>_. None)" "bs_messages demo_builder_state = []" by (simp_all add: demo_builder_state_def)
  ultimately show ?thesis
    using builder_claim_demo [where env = demo_collator and s = demo_builder_state] demo_claim by (simp add: demo_collator_def)
qed

theorem long_slots_block_segment_witness:
  "\<exists>info. adjust_para_to_relay_parent_slot demo_slot_lib (demo_relay_header 9) (from_millis 6000) 12000 = Some info \<and>
     can_build_upon (ab_demo True) (\<lambda>_. 0) (header_hash (nc_crypto demo_client) demo_parent) 9 (ab_genesis\<lparr>SlotInfo := Some (8, 1)\<rparr>) \<and>
     client_can_build_upon demo_client (\<lambda>_. Some (Some UnincludedSegmentApi_version))
       (\<lambda>_ inc slot. Some (can_build_upon (ab_demo True) (\<lambda>_. 0) inc slot (ab_genesis\<lparr>SlotInfo := Some (8, 1)\<rparr>)))
       (si_slot info) 9 (si_timestamp info) 9 demo_sealed (header_hash (nc_crypto demo_client) demo_parent) False \<noteq> Ok (Some (slot_claim_unchecked 7 48000))"
proof -
  obtain info where info: "adjust_para_to_relay_parent_slot demo_slot_lib (demo_relay_header 9) (from_millis 6000) 12000 = Some info"
    by (simp add: adjust_para_to_relay_parent_slot_def demo_slot_lib_def demo_relay_header_def as_millis_def from_millis_def Let_def)
  have room: "can_build_upon (ab_demo True) (\<lambda>_. 0) (header_hash (nc_crypto demo_client) demo_parent) 9 (ab_genesis\<lparr>SlotInfo := Some (8, 1)\<rparr>)"
    by (simp add: can_build_upon_def ab_demo_def)
  have "header_hash (nc_crypto demo_client) demo_sealed \<noteq> header_hash (nc_crypto demo_client) demo_parent"
    by (simp add: client_demo_simps)
  from long_slots_block_segment [where relay_millis = 6000, OF demo_slot_lib_ok _ info _ _ _ _ this, of 9 "ab_genesis\<lparr>SlotInfo := Some (8, 1)\<rparr>" 8 1
      "\<lambda>_ inc slot. Some (can_build_upon (ab_demo True) (\<lambda>_. 0) inc slot (ab_genesis\<lparr>SlotInfo := Some (8, 1)\<rparr>))" "ab_demo True" "\<lambda>_. 0"
      9 False "slot_claim_unchecked 7 48000"]
  show ?thesis using info room by (auto simp: demo_relay_header_def as_millis_def from_millis_def)
qed

lemma demo_timer_adjust:
  "\<exists>d. timer_adjust_authoring_duration demo_slot_lib (from_millis 6000) (from_millis 6000) (from_millis 2000)
      (update_scheduling 3 (tw_timer timer_running)) = Ok (Some d)"
  by (simp add: timer_adjust_authoring_duration_def time_until_next_block_def compute_next_wake_up_time_def
      production_interval_def time_until_next_attempt_def time_until_next_slot_change_def compute_time_until_next_slot_change_def
      adjust_authoring_duration_def demo_slot_lib_def block_production_consts as_millis_def from_millis_def Let_def
      timer_running_def timer_start_def new_with_offset_def slot_millis_def slot_duration_def update_scheduling_def)

lemma demo_builder_round:
  "\<exists>t msg. builder_round demo_collator (from_millis 1000) (from_millis 6000) (from_millis 6000) True (Some 9) 4 demo_builder_state
       = (Inr (), t) \<and> bs_messages t = [msg] \<and> cm_candidate msg = (demo_sealed, [1]) \<and> cm_parent_header msg = demo_parent \<and>
       cm_relay_parent msg = 9"
proof -
  from demo_builder_claim obtain core s1 where
    c: "builder_claim demo_collator (from_millis 1000) (Some 9) 4 demo_builder_state
      = (Inr (relay_parent_data_new (demo_relay_header 9), demo_parent, core, 1000, slot_claim_unchecked 7 54000), s1)"
    and s1: "bs_timer s1 = update_scheduling 3 (tw_timer timer_running)" "bs_messages s1 = []" by blast
  have "create_inherent_data_with_rp_offset demo_collator_services demo_parent (Some ts) d [] = Ok ((), ())" for ts d
    by (simp add: create_inherent_data_with_rp_offset_def demo_collator_services_def)
  moreover from demo_timer_adjust obtain d where "timer_adjust_authoring_duration demo_slot_lib (from_millis 6000) (from_millis 6000)
      (from_millis 2000) (bs_timer s1) = Ok (Some d)" unfolding s1(1) by blast
  ultimately obtain t msg where "builder_build demo_collator (from_millis 6000) (from_millis 6000) True
      (relay_parent_data_new (demo_relay_header 9)) demo_parent core 1000 (slot_claim_unchecked 7 54000) s1 = (Inr (), t)"
    "bs_messages t = [msg]" "cm_candidate msg = (demo_sealed, [1])" "cm_parent_header msg = demo_parent" "cm_relay_parent msg = 9"
    using demo_build_block [of 54000] s1(2)
    by (auto simp: builder_build_def Let_def round_defs b_client_def demo_collator_def slot_claim_unchecked_def relay_parent_data_new_def
        demo_relay_header_def)
  with c show ?thesis by (auto simp: builder_round_def r_bind_def)
qed

end
