(* ===== verification/Slot_Based.thy ===== *)
theory Slot_Based
  imports Collators
begin

text \<open>
  The slot based collator as a whole (\<^verbatim>\<open>collators/slot_based\<close> of \<^verbatim>\<open>client/consensus/nimbus-consensus/src\<close>): the two tasks
  that \<^verbatim>\<open>mod.rs\<close> starts, the block builder and the collation task (\<^verbatim>\<open>collation_task.rs\<close>), with the channels
  between them and from the block import, and the export of proofs of validity (\<^verbatim>\<open>export_pov_to_path\<close> of \<^verbatim>\<open>lib.rs\<close>).
  The tasks run concurrently: the pipeline below is a step relation whose steps are a round of the builder, a message
  that the collation task takes, a block that is imported, and the end of the collation task. A round of
  the builder touches the channel only when it sends its message at the end, so it is one step.
\<close>

section \<open>The export of a proof of validity (\<^verbatim>\<open>lib.rs\<close>)\<close>

record 'rhash persisted_validation_data =
  pvd_parent_head :: "u8 list"
  pvd_relay_parent_number :: u32
  pvd_relay_parent_storage_root :: 'rhash
  pvd_max_pov_size :: u32

text \<open>The files of the node, by directory and name, and which operations on them succeed.\<close>

type_synonym files = "string \<times> string \<rightharpoonup> u8 list"

record file_system =
  fs_create_dir_all :: "string \<Rightarrow> files \<Rightarrow> bool"
  fs_create :: "string \<times> string \<Rightarrow> files \<Rightarrow> bool"
  fs_write :: "string \<times> string \<Rightarrow> u8 list \<Rightarrow> files \<Rightarrow> bool"

text \<open>
  What the collation task calls: the collator service, the codecs, the file system and the formats of hashes and numbers. A
  collation carries its proof of validity compressed or not; only a compressed one is exported.
\<close>

datatype 'pov maybe_compressed_pov = Raw 'pov | Compressed 'pov

record ('hash, 'rhash, 'body, 'ext, 'collation, 'bdata, 'pov) collation_env =
  co_build_collation :: "'body header \<Rightarrow> 'hash \<Rightarrow> 'body header \<times> 'ext \<Rightarrow> ('collation \<times> 'bdata) option"
  co_proof_of_validity :: "'collation \<Rightarrow> 'pov maybe_compressed_pov"
  co_blocks :: "'bdata \<Rightarrow> ('body header \<times> 'ext) list"
  co_pov_codec :: "'pov codec"
  co_pvd_codec :: "'rhash persisted_validation_data codec"
  co_encode_header :: "'body header \<Rightarrow> u8 list"
  co_show_hash :: "'hash \<Rightarrow> string"
  co_show_number :: "nat \<Rightarrow> string"
  co_files :: file_system
  co_export_pov :: "string option"

definition pov_file_name :: "('hash \<Rightarrow> string) \<Rightarrow> (nat \<Rightarrow> string) \<Rightarrow> 'hash \<Rightarrow> nat \<Rightarrow> string" where
  "pov_file_name show_hash show_number block_hash block_number =
     show_hash block_hash @ ''_'' @ show_number block_number @ ''.pov''"

text \<open>The codec panics when the file cannot be written.\<close>

definition export_pov_to_path ::
    "('hash, 'rhash, 'body, 'ext, 'collation, 'bdata, 'pov) collation_env \<Rightarrow> string \<Rightarrow> 'pov \<Rightarrow> 'hash \<Rightarrow> nat \<Rightarrow> 'body header
      \<Rightarrow> 'rhash \<Rightarrow> u32 \<Rightarrow> u32 \<Rightarrow> files \<Rightarrow> (unit, files) result" where
  "export_pov_to_path ce path pov block_hash block_number parent_header storage_root relay_number max_size files =
     (if \<not> fs_create_dir_all (co_files ce) path files then Ok files
      else
        let file = (path, pov_file_name (co_show_hash ce) (co_show_number ce) block_hash block_number)
        in if \<not> fs_create (co_files ce) file files then Ok files
           else
             let contents = encode (co_pov_codec ce) pov @
               encode (co_pvd_codec ce) \<lparr>pvd_parent_head = co_encode_header ce parent_header, pvd_relay_parent_number = relay_number,
                 pvd_relay_parent_storage_root = storage_root, pvd_max_pov_size = max_size\<rparr>
             in if fs_write (co_files ce) file contents files then Ok (files(file \<mapsto> contents))
                else Panic ''Codec outputs are infallible'')"

section \<open>The collation task (\<^verbatim>\<open>collation_task.rs\<close>)\<close>

record ('rhash, 'collation, 'body, 'vch) task_state =
  ts_submitted :: "('rhash, 'collation, 'body, 'vch) submission list"
  ts_files :: files

definition submission_of ::
    "('rhash, 'body, 'ext, 'vch) collator_message \<Rightarrow> 'collation \<Rightarrow> ('rhash, 'collation, 'body, 'vch) submission" where
  "submission_of message collation = \<lparr>sub_relay_parent = cm_relay_parent message, sub_collation = collation,
     sub_parent_head = cm_parent_header message, sub_validation_code_hash = cm_validation_code_hash message,
     sub_core_index = cm_core_index message\<rparr>"

text \<open>The branch that exports the proof of validity of a collation.\<close>

definition export_collation ::
    "('nid, 'sig, 'hash, 'body) nimbus_client \<Rightarrow> ('rhash \<Rightarrow> 'rhash relay_header option option)
      \<Rightarrow> ('hash, 'rhash, 'body, 'ext, 'collation, 'bdata, 'pov) collation_env
      \<Rightarrow> ('rhash, 'body, 'ext, 'vch) collator_message \<Rightarrow> 'collation \<Rightarrow> 'bdata \<Rightarrow> files \<Rightarrow> (unit, files) result" where
  "export_collation cl relay_header_of ce message collation block_data files =
     (case (co_proof_of_validity ce collation, co_export_pov ce) of
        (Compressed pov, Some pov_path) \<Rightarrow>
          (case relay_header_of (cm_relay_parent message) of
             Some (Some relay_hdr) \<Rightarrow>
               (case co_blocks ce block_data of
                  (hdr, _) # _ \<Rightarrow> export_pov_to_path ce pov_path pov (header_hash (nc_crypto cl) hdr) (hdr_number cl hdr)
                    (cm_parent_header message) (rh_state_root relay_hdr) (rh_number relay_hdr) (cm_max_pov_size message) files
                | [] \<Rightarrow> Ok files)
           | _ \<Rightarrow> Ok files)
      | _ \<Rightarrow> Ok files)"

definition handle_collation_message ::
    "('nid, 'sig, 'hash, 'body) nimbus_client \<Rightarrow> ('rhash \<Rightarrow> 'rhash relay_header option option)
      \<Rightarrow> ('hash, 'rhash, 'body, 'ext, 'collation, 'bdata, 'pov) collation_env
      \<Rightarrow> ('rhash, 'body, 'ext, 'vch) collator_message \<Rightarrow> ('rhash, 'collation, 'body, 'vch) task_state
      \<Rightarrow> (unit, ('rhash, 'collation, 'body, 'vch) task_state) result" where
  "handle_collation_message cl relay_header_of ce message s =
     (let hash = header_hash (nc_crypto cl) (fst (cm_candidate message))
      in (case co_build_collation ce (cm_parent_header message) hash (cm_candidate message) of
            None \<Rightarrow> Ok s
          | Some (collation, block_data) \<Rightarrow>
              and_then (export_collation cl relay_header_of ce message collation block_data (ts_files s))
              (\<lambda>files. Ok (s\<lparr>ts_submitted := ts_submitted s @ [submission_of message collation], ts_files := files\<rparr>))))"

text \<open>The loop of the task over the messages it gets until the channel closes.\<close>

fun run_collation_task ::
    "('nid, 'sig, 'hash, 'body) nimbus_client \<Rightarrow> ('rhash \<Rightarrow> 'rhash relay_header option option)
      \<Rightarrow> ('hash, 'rhash, 'body, 'ext, 'collation, 'bdata, 'pov) collation_env
      \<Rightarrow> ('rhash, 'body, 'ext, 'vch) collator_message list \<Rightarrow> ('rhash, 'collation, 'body, 'vch) task_state
      \<Rightarrow> (unit, ('rhash, 'collation, 'body, 'vch) task_state) result" where
  "run_collation_task cl relay_header_of ce [] s = Ok s"
| "run_collation_task cl relay_header_of ce (message # messages) s =
     and_then (handle_collation_message cl relay_header_of ce message s)
     (run_collation_task cl relay_header_of ce messages)"

section \<open>The pipeline (\<^verbatim>\<open>mod.rs\<close>)\<close>

text \<open>
  The channel between the tasks are the messages of the builder that the collation task has not taken yet. \<open>pl_imports\<close> is the channel of
  the block import; the client that blocks are imported into is the builder's. \<open>pl_sent\<close> and \<open>pl_handled\<close>
  record the messages ever sent and handled.
\<close>

record ('st, 'hash, 'rhash, 'collation, 'body, 'vch, 'm, 'ext, 'proof) pipeline =
  pl_builder :: "('st, 'hash, 'rhash, 'collation, 'body, 'vch, 'm, 'ext) builder_state"
  pl_builder_alive :: bool
  pl_task :: "('rhash, 'collation, 'body, 'vch) task_state"
  pl_task_alive :: bool
  pl_imports :: "(('body header \<times> 'ext) \<times> 'proof) list"
  pl_sent :: "('rhash, 'body, 'ext, 'vch) collator_message list"
  pl_handled :: "('rhash, 'body, 'ext, 'vch) collator_message list"

text \<open>
  The start of both tasks. Each asks the relay client for the overseer: without it the builder panics and the collation task returns.
\<close>

definition slot_based_run ::
    "('nid, 'sig, 'hash, 'body, 'ext, 'sa, 'sc, 'st, 'pinh, 'inh, 'collation, 'rhash, 'cq, 'vch, 'm) collator_env
      \<Rightarrow> duration \<Rightarrow> duration option \<Rightarrow> bool \<Rightarrow> bool \<Rightarrow> 'st \<Rightarrow> files
      \<Rightarrow> ('st, 'hash, 'rhash, 'collation, 'body, 'vch, 'm, 'ext, 'proof) pipeline" where
  "slot_based_run env slot_offset para_slot_dur builder_overseer task_overseer st files =
     \<lparr>pl_builder = \<lparr>bs_timer = new_with_offset slot_offset (ce_relay_slot_duration env) para_slot_dur,
        bs_cache = cache_new (ce_lru env),
        bs_collator = \<lparr>cst_client = st, cst_announced = [], cst_submitted = [], cst_helper = backing_helper_new\<rparr>, bs_messages = []\<rparr>,
      pl_builder_alive = builder_overseer, pl_task = \<lparr>ts_submitted = [], ts_files = files\<rparr>, pl_task_alive = task_overseer,
      pl_imports = [], pl_sent = [], pl_handled = []\<rparr>"

text \<open>The loop of the builder goes on after a round that ends normally or with \<^verbatim>\<open>continue\<close>.\<close>

fun goes_on :: "flow + unit \<Rightarrow> bool" where
  "goes_on (Inr u) = True"
| "goes_on (Inl Continue) = True"
| "goes_on (Inl Break) = False"
| "goes_on (Inl Return) = False"
| "goes_on (Inl (Crash m)) = False"

abbreviation pl_channel where "pl_channel p \<equiv> bs_messages (pl_builder p)"

definition set_channel ::
    "('rhash, 'body, 'ext, 'vch) collator_message list
      \<Rightarrow> ('st, 'hash, 'rhash, 'collation, 'body, 'vch, 'm, 'ext, 'proof) pipeline
      \<Rightarrow> ('st, 'hash, 'rhash, 'collation, 'body, 'vch, 'm, 'ext, 'proof) pipeline" where
  "set_channel messages p = p\<lparr>pl_builder := (pl_builder p)\<lparr>bs_messages := messages\<rparr>\<rparr>"

definition end_task ::
    "('st, 'hash, 'rhash, 'collation, 'body, 'vch, 'm, 'ext, 'proof) pipeline
      \<Rightarrow> ('st, 'hash, 'rhash, 'collation, 'body, 'vch, 'm, 'ext, 'proof) pipeline" where
  "end_task p = (set_channel [] p)\<lparr>pl_task_alive := False, pl_imports := []\<rparr>"

text \<open>The steps of the collation task: the end of the channel, a message of the builder, and a block of the import, which is dropped.\<close>

inductive task_step ::
    "('nid, 'sig, 'hash, 'body, 'ext, 'sa, 'sc, 'st, 'pinh, 'inh, 'collation, 'rhash, 'cq, 'vch, 'm) collator_env
      \<Rightarrow> ('hash, 'rhash, 'body, 'ext, 'collation, 'bdata, 'pov) collation_env
      \<Rightarrow> ('st, 'hash, 'rhash, 'collation, 'body, 'vch, 'm, 'ext, 'proof) pipeline
      \<Rightarrow> ('st, 'hash, 'rhash, 'collation, 'body, 'vch, 'm, 'ext, 'proof) pipeline \<Rightarrow> bool"
  for env ce where
    task_message: "pl_task_alive p \<Longrightarrow> pl_channel p = message # rest
      \<Longrightarrow> handle_collation_message (ce_client env) (relay_header_at (ce_relay env)) ce message (pl_task p) = Ok task
      \<Longrightarrow> task_step env ce p ((set_channel rest p)\<lparr>pl_task := task, pl_handled := pl_handled p @ [message]\<rparr>)"
  | task_crash: "pl_task_alive p \<Longrightarrow> pl_channel p = message # rest
      \<Longrightarrow> handle_collation_message (ce_client env) (relay_header_at (ce_relay env)) ce message (pl_task p) = Panic e
      \<Longrightarrow> task_step env ce p (end_task p)"
  | task_closed: "pl_task_alive p \<Longrightarrow> pl_channel p = [] \<Longrightarrow> \<not> pl_builder_alive p \<Longrightarrow> task_step env ce p (end_task p)"
  | task_import: "pl_task_alive p \<Longrightarrow> pl_imports p = x # xs \<Longrightarrow> task_step env ce p (p\<lparr>pl_imports := xs\<rparr>)"

text \<open>The steps of the pipeline: those of the task, a round of the builder, and a block that the node imports.\<close>

inductive pipeline_step ::
    "('nid, 'sig, 'hash, 'body, 'ext, 'sa, 'sc, 'st, 'pinh, 'inh, 'collation, 'rhash, 'cq, 'vch, 'm) collator_env
      \<Rightarrow> ('hash, 'rhash, 'body, 'ext, 'collation, 'bdata, 'pov) collation_env
      \<Rightarrow> ('body, 'ext, 'sa, 'sc, 'proof, 'root) sbi_env
      \<Rightarrow> ('st, 'hash, 'rhash, 'collation, 'body, 'vch, 'm, 'ext, 'proof) pipeline
      \<Rightarrow> ('st, 'hash, 'rhash, 'collation, 'body, 'vch, 'm, 'ext, 'proof) pipeline \<Rightarrow> bool"
  for env ce se where
    step_task: "task_step env ce p q \<Longrightarrow> pipeline_step env ce se p q"
  | step_build: "pl_builder_alive p
      \<Longrightarrow> builder_round env now now1 now2 (pl_task_alive p) relay_best best (pl_builder p) = (r, b)
      \<Longrightarrow> pipeline_step env ce se p (p\<lparr>pl_builder := b, pl_builder_alive := goes_on r,
            pl_sent := pl_sent p @ drop (length (pl_channel p)) (bs_messages b)\<rparr>)"
  | step_import: "sbi_import_block se (\<not> pl_task_alive p) inner params (pl_imports p, cst_client (bs_collator (pl_builder p))) = (r, imports, st)
      \<Longrightarrow> pipeline_step env ce se p (p\<lparr>pl_imports := imports,
            pl_builder := (pl_builder p)\<lparr>bs_collator := (bs_collator (pl_builder p))\<lparr>cst_client := st\<rparr>\<rparr>\<rparr>)"

section \<open>What a round of the builder leaves\<close>

text \<open>\<open>preserves P m\<close>: a round keeps \<open>P\<close>, however it ends.\<close>

definition preserves :: "('s \<Rightarrow> bool) \<Rightarrow> ('s, 'a) round \<Rightarrow> bool" where
  "preserves P m \<longleftrightarrow> (\<forall>s. P s \<longrightarrow> P (snd (m s)))"

named_theorems preserves_intros \<open>rounds that keep a property of the state\<close>

lemma preserves_bind [preserves_intros]: "preserves P m \<Longrightarrow> (\<And>a. preserves P (k a)) \<Longrightarrow> preserves P (r_bind m k)"
  unfolding preserves_def r_bind_def by (auto split: prod.splits sum.splits)

lemma preserves_simple [preserves_intros]:
  "preserves P (r_ret a)" "preserves P (r_stop b)" "preserves P (r_option b x)" "preserves P (r_result b y)" "preserves P (r_get g)"
  by (auto simp: preserves_def round_defs split: option.splits result.splits)

lemma preserves_modify [preserves_intros]: "(\<And>s. P s \<Longrightarrow> P (f s)) \<Longrightarrow> preserves P (r_modify f)"
  by (simp add: preserves_def r_modify_def)

lemma preservesD: "preserves P m \<Longrightarrow> m s = (r, t) \<Longrightarrow> P s \<Longrightarrow> P t"
  unfolding preserves_def by (metis snd_conv)

abbreviation b_cache_ok where "b_cache_ok env s \<equiv> cache_ok (ce_lru env) (ce_relay env) (bs_cache s)"

lemma preserves_b_cache [preserves_intros]:
  assumes "\<And>m a m'. cache_ok (ce_lru env) (ce_relay env) m \<Longrightarrow> f m = Ok (a, m') \<Longrightarrow> cache_ok (ce_lru env) (ce_relay env) m'"
  shows "preserves (b_cache_ok env) (b_cache f)"
  using assms by (auto simp: preserves_def b_cache_def split: result.splits)

lemma preserves_b_client [preserves_intros]: "preserves (b_cache_ok env) (b_client f)"
  by (auto simp: preserves_def b_client_def split: prod.splits)

lemma determine_core_keeps:
  assumes "lru_ok lru" "cache_ok lru rc m" "determine_core lru rc pd rp number logs offset m = Ok (c, m')"
  shows "cache_ok lru rc m'"
proof -
  from assms(3) obtain d m1 where m1: "get_mut_relay_chain_data lru rc (rh_hash rp) m = Ok (d, m1)"
    and rest: "m' = m1 \<or> (\<exists>d'. get_mut_relay_chain_data lru rc (rh_hash rp) m1 = Ok (d', m'))"
    unfolding determine_core_def Let_def by (fastforce split: if_splits option.splits)
  from get_mut_keeps [OF assms(1,2) m1] have "cache_ok lru rc m1" .
  with rest get_mut_keeps [OF assms(1)] show ?thesis by blast
qed

lemma cache_ok_claimed:
  assumes "lru_ok lru" "cache_ok lru rc m"
  shows "cache_ok lru rc (case lru_peek lru m h of
      Some d \<Rightarrow> lru_set lru h (d\<lparr>last_claimed_core_selector := c\<rparr>) m | None \<Rightarrow> m)"
proof (cases "lru_peek lru m h")
  case (Some d)
  have peek: "lru_peek lru (lru_set lru h (d\<lparr>last_claimed_core_selector := c\<rparr>) m) j =
      (if j = h then Some (d\<lparr>last_claimed_core_selector := c\<rparr>) else lru_peek lru m j)" for j
    using assms(1) Some unfolding lru_ok_def by auto
  show ?thesis using assms(2) Some by (auto simp: cache_ok_def peek)
qed (simp add: assms(2))

lemma builder_claim_preserves:
  assumes "lru_ok (ce_lru env)"
  shows "preserves (b_cache_ok env) (builder_claim env now rbh bh)"
  unfolding builder_claim_def Let_def case_prod_beta'
  by (intro preserves_intros)
     (auto dest: offset_relay_parent_keeps [OF assms] determine_core_keeps [OF assms] get_mut_keeps [OF assms])

lemma builder_build_preserves:
  assumes "lru_ok (ce_lru env)"
  shows "preserves (b_cache_ok env) (builder_build env now1 now2 alive rp parent core ms claim)"
  unfolding builder_build_def Let_def
  by (intro preserves_intros; cases alive; (intro preserves_intros)?; simp add: cache_ok_claimed [OF assms] preserves_intros)

lemma builder_round_preserves: "lru_ok (ce_lru env) \<Longrightarrow> preserves (b_cache_ok env) (builder_round env now now1 now2 alive rbh bh)"
  unfolding builder_round_def case_prod_beta'
  by (intro preserves_bind builder_claim_preserves builder_build_preserves)

text \<open>A round that does not come to its end sends nothing, and no round sends to a task that has ended.\<close>

lemma keeps_messages [keeps_intros]:
  "keeps bs_messages (b_cache f)" "keeps bs_messages (b_client g)"
  "keeps bs_messages (r_modify (\<lambda>s. s\<lparr>bs_timer := t s\<rparr>))" "keeps bs_messages (r_modify (\<lambda>s. s\<lparr>bs_collator := c s\<rparr>))"
  "keeps bs_messages (r_modify (\<lambda>s. s\<lparr>bs_cache := d s\<rparr>))"
  by (auto simp: keeps_def b_cache_def b_client_def r_modify_def split: result.splits prod.splits)

lemma builder_claim_keeps: "keeps bs_messages (builder_claim env now rbh bh)"
  unfolding builder_claim_def Let_def case_prod_beta' by (intro keeps_intros)

lemma builder_build_silent: "keeps bs_messages (builder_build env now1 now2 False rp parent core ms claim)"
  unfolding builder_build_def Let_def if_False by (intro keeps_intros)

lemma builder_round_silent: "keeps bs_messages (builder_round env now now1 now2 False rbh bh)"
  unfolding builder_round_def case_prod_beta' by (intro keeps_bind builder_claim_keeps builder_build_silent)

definition keeps_if_stopped :: "('s \<Rightarrow> 'x) \<Rightarrow> ('s, 'a) round \<Rightarrow> bool" where
  "keeps_if_stopped f m \<longleftrightarrow> (\<forall>s e t. m s = (Inl e, t) \<longrightarrow> f t = f s)"

lemma stopped_bind: "keeps f m \<Longrightarrow> (\<And>a. keeps_if_stopped f (k a)) \<Longrightarrow> keeps_if_stopped f (r_bind m k)"
  unfolding keeps_if_stopped_def keeps_def r_bind_def by (auto split: prod.splits sum.splits) (metis snd_conv)+

lemma stopped_modify: "keeps_if_stopped f (r_modify g)"
  by (simp add: keeps_if_stopped_def r_modify_def)

lemma builder_build_stopped: "keeps_if_stopped bs_messages (builder_build env now1 now2 True rp parent core ms claim)"
  unfolding builder_build_def Let_def if_True by (intro stopped_bind keeps_intros stopped_modify)

lemma builder_round_stopped:
  assumes "builder_round env now now1 now2 alive rbh bh s = (Inl e, t)"
  shows "bs_messages t = bs_messages s"
proof (cases alive)
  case True
  have "keeps_if_stopped bs_messages (builder_round env now now1 now2 True rbh bh)"
    unfolding builder_round_def case_prod_beta' by (intro stopped_bind builder_claim_keeps builder_build_stopped)
  with assms True show ?thesis by (auto simp: keeps_if_stopped_def)
next
  case False
  with assms have "builder_round env now now1 now2 False rbh bh s = (Inl e, t)" by simp
  from keepsD [OF builder_round_silent this] show ?thesis .
qed

text \<open>What every message promises, as proved for a round of the builder.\<close>

definition message_sound ::
    "('nid, 'sig, 'hash, 'body, 'ext, 'sa, 'sc, 'st, 'pinh, 'inh, 'collation, 'rhash, 'cq, 'vch, 'm) collator_env
      \<Rightarrow> ('rhash, 'body, 'ext, 'vch) collator_message \<Rightarrow> bool" where
  "message_sound env msg \<longleftrightarrow> (\<exists>relay_hdr offset nid pre. rh_hash relay_hdr = cm_relay_parent msg \<and>
     cm_core_index msg \<in> set (scheduled_cores (ce_relay env) relay_hdr offset) \<and>
     claim_slot (ce_client env) (cm_parent_header msg) (rh_number relay_hdr) (ce_force_authoring env) = Ok (Some nid) \<and>
     verify_and_remove_seal (nc_crypto (ce_client env)) (fst (cm_candidate msg)) = Ok pre \<and>
     claimed_author (digest_logs pre) = Some (encode (nc_id_codec (ce_client env)) nid))"

definition collator_env_ok ::
    "('nid, 'sig, 'hash, 'body, 'ext, 'sa, 'sc, 'st, 'pinh, 'inh, 'collation, 'rhash, 'cq, 'vch, 'm) collator_env \<Rightarrow> bool" where
  "collator_env_ok env \<longleftrightarrow> lru_ok (ce_lru env) \<and> import_lib_ok (ce_lib env) \<and> (\<forall>rh. proposer_keeps_digests (ce_services env rh)) \<and>
     keystore_ok (ce_client env) \<and> client_codecs_ok (ce_client env)"

lemma builder_round_messages:
  assumes "builder_round env now now1 now2 alive rbh bh s = (r, t)" "collator_env_ok env" "b_cache_ok env s"
  obtains "bs_messages t = bs_messages s"
    | msg where "alive" "r = Inr ()" "bs_messages t = bs_messages s @ [msg]" "message_sound env msg"
proof (cases r)
  case (Inl e)
  with assms(1) have "builder_round env now now1 now2 alive rbh bh s = (Inl e, t)" by simp
  from that(1) [OF builder_round_stopped [OF this]] show ?thesis .
next
  case (Inr u)
  with assms(1) have run: "builder_round env now now1 now2 alive rbh bh s = (Inr (), t)" by simp
  show ?thesis
  proof (cases alive)
    case True
    have "\<exists>msg. bs_messages t = bs_messages s @ [msg] \<and> message_sound env msg"
      using builder_message_sound [OF run] assms(2,3) unfolding collator_env_ok_def message_sound_def by blast
    with True Inr that(2) show ?thesis by auto
  next
    case False
    with run have "builder_round env now now1 now2 False rbh bh s = (Inr (), t)" by simp
    from that(1) [OF keepsD [OF builder_round_silent this]] show ?thesis .
  qed
qed

text \<open>The length of the parachain's slots is fixed when the tasks start.\<close>

lemma preserves_wait:
  assumes "\<And>s sleep timer. P s \<Longrightarrow> w s = Ok (sleep, timer) \<Longrightarrow> P (s\<lparr>bs_timer := timer\<rparr>)" "\<And>x. preserves P (k x)"
  shows "preserves P (r_bind (r_get w) (\<lambda>waited. r_bind (r_result f waited)
     (\<lambda>x. r_bind (r_modify (\<lambda>s. s\<lparr>bs_timer := snd x\<rparr>)) (\<lambda>_. k x))))"
  using assms by (auto simp: preserves_def round_defs split: result.splits)

abbreviation para_dur where "para_dur d s \<equiv> para_slot_duration (bs_timer s) = d"

lemma preserves_para_dur [preserves_intros]:
  "preserves (para_dur d) (b_cache f)" "preserves (para_dur d) (b_client g)"
  by (auto simp: preserves_def b_cache_def b_client_def split: result.splits prod.splits)

lemma builder_round_para_dur: "preserves (para_dur d) (builder_round env now now1 now2 alive rbh bh)"
proof -
  have "preserves (para_dur d) (builder_claim env now rbh bh)"
    unfolding builder_claim_def Let_def case_prod_beta'
    by (rule preserves_wait; (intro preserves_intros)?) (auto dest: wait_keeps_durations simp: update_scheduling_def)
  moreover have "preserves (para_dur d) (builder_build env now1 now2 alive rp parent core ms claim)" for rp parent core ms claim
    unfolding builder_build_def Let_def
    by (intro preserves_intros; cases alive; (intro preserves_intros)?; simp add: preserves_intros)
  ultimately show ?thesis unfolding builder_round_def case_prod_beta' by (intro preserves_bind)
qed

lemma pipeline_step_para_dur:
  assumes "pipeline_step env ce se p q"
  shows "para_slot_duration (bs_timer (pl_builder q)) = para_slot_duration (bs_timer (pl_builder p))"
  using assms
proof (cases rule: pipeline_step.cases)
  case step_task
  then show ?thesis by (cases rule: task_step.cases) (auto simp: set_channel_def end_task_def)
next
  case (step_build now now1 now2 rbh bh r b)
  from preservesD [OF builder_round_para_dur step_build(3) refl] show ?thesis by (simp add: step_build(1))
next
  case step_import
  then show ?thesis by simp
qed

section \<open>The channel that the pipeline implements\<close>

text \<open>
  The abstract component: a first-in first-out channel that carries sound messages while it is open. Its state is
  whether it is open, all messages ever sent, the messages in it and the messages taken out. Closing it loses what is in it.
\<close>

type_synonym 'm channel = "bool \<times> 'm list \<times> 'm list \<times> 'm list"

inductive channel_step :: "('m \<Rightarrow> bool) \<Rightarrow> 'm channel \<Rightarrow> 'm channel \<Rightarrow> bool" for ok where
  chan_send: "ok m \<Longrightarrow> channel_step ok (True, sent, q, d) (True, sent @ [m], q @ [m], d)"
| chan_take: "channel_step ok (True, sent, m # q, d) (True, sent, q, d @ [m])"
| chan_close: "channel_step ok (True, sent, q, d) (False, sent, [], d)"

inductive_simps channel_step_iff: "channel_step ok (b, sent, q, d) (b', sent', q', d')"

definition channel_init :: "'m channel \<Rightarrow> bool" where
  "channel_init c \<longleftrightarrow> (\<exists>b. c = (b, [], [], []))"

definition channel_of where
  "channel_of p = (pl_task_alive p, pl_sent p, pl_channel p, pl_handled p)"

text \<open>First in, first out: what was taken out is what was sent first, and an open channel holds all the rest in order.\<close>

definition channel_inv :: "('m \<Rightarrow> bool) \<Rightarrow> 'm channel \<Rightarrow> bool" where
  "channel_inv ok c = (case c of (b, sent, q, d) \<Rightarrow> (\<forall>m \<in> set sent. ok m) \<and>
     (if b then sent = d @ q else q = [] \<and> (\<exists>lost. sent = d @ lost)))"

interpretation channel: invariant_system channel_init "channel_step ok" "channel_inv ok" for ok
  by unfold_locales (auto simp: channel_init_def channel_inv_def elim!: channel_step.cases)

section \<open>The invariant of the pipeline\<close>

definition pipeline_start where
  "pipeline_start env files p \<longleftrightarrow> (\<exists>slot_offset para_slot_dur builder_overseer task_overseer st.
     p = slot_based_run env slot_offset para_slot_dur builder_overseer task_overseer st files)"

definition pipeline_inv where
  "pipeline_inv env ce files p \<longleftrightarrow> b_cache_ok env (pl_builder p) \<and>
     (\<exists>lost. pl_sent p = pl_handled p @ pl_channel p @ lost \<and>
        (lost \<noteq> [] \<longrightarrow> \<not> pl_task_alive p \<and>
           (\<exists>e. handle_collation_message (ce_client env) (relay_header_at (ce_relay env)) ce (hd lost) (pl_task p) = Panic e))) \<and>
     (\<not> pl_task_alive p \<longrightarrow> pl_channel p = []) \<and>
     run_collation_task (ce_client env) (relay_header_at (ce_relay env)) ce (pl_handled p) \<lparr>ts_submitted = [], ts_files = files\<rparr>
       = Ok (pl_task p)"

lemma run_collation_task_append:
  "run_collation_task cl rh ce (messages @ later) s =
     and_then (run_collation_task cl rh ce messages s) (run_collation_task cl rh ce later)"
proof (induction messages arbitrary: s)
  case (Cons m messages)
  show ?case by (cases "handle_collation_message cl rh ce m s") (simp_all add: Cons.IH)
qed simp

lemma start_inv: "lru_ok (ce_lru env) \<Longrightarrow> pipeline_start env files p \<Longrightarrow> pipeline_inv env ce files p"
  by (auto simp: pipeline_start_def slot_based_run_def pipeline_inv_def cache_ok_def cache_new_def lru_ok_def)

lemma task_step_inv:
  assumes "task_step env ce p q" "pipeline_inv env ce files p"
  shows "pipeline_inv env ce files q"
  using assms
proof (induction rule: task_step.induct)
  case (task_message p message rest task)
  then show ?case by (auto simp: pipeline_inv_def set_channel_def run_collation_task_append)
next
  case (task_crash p message rest e)
  then have "pl_sent p = pl_handled p @ message # rest" by (auto simp: pipeline_inv_def)
  with task_crash show ?case
    by (auto simp: pipeline_inv_def set_channel_def end_task_def intro!: exI [of _ "message # rest"])
next
  case (task_closed p)
  then show ?case by (auto simp: pipeline_inv_def set_channel_def end_task_def)
next
  case (task_import p x xs)
  then show ?case by (auto simp: pipeline_inv_def)
qed

lemma pipeline_step_inv:
  assumes "pipeline_step env ce se p q" "collator_env_ok env" "pipeline_inv env ce files p"
  shows "pipeline_inv env ce files q"
  using assms
proof (induction rule: pipeline_step.induct)
  case (step_build p now now1 now2 rbh bh r b)
  from step_build.prems have ok: "lru_ok (ce_lru env)" "b_cache_ok env (pl_builder p)"
    by (auto simp: collator_env_ok_def pipeline_inv_def)
  from preservesD [OF builder_round_preserves [OF ok(1)] step_build.hyps(2) ok(2)] have b: "b_cache_ok env b" .
  from step_build.hyps(2) step_build.prems(1) ok(2) show ?case
  proof (cases rule: builder_round_messages)
    case 1
    with b step_build.prems(2) show ?thesis by (auto simp: pipeline_inv_def)
  next
    case (2 msg)
    with b step_build.prems(2) show ?thesis by (auto simp: pipeline_inv_def)
  qed
next
  case (step_task p q)
  then show ?case using task_step_inv by blast
qed (auto simp: pipeline_inv_def)

lemma pipeline_step_channel:
  assumes "collator_env_ok env" "pipeline_inv env ce files p" "pipeline_step env ce se p q"
  shows "channel_of q = channel_of p \<or> channel_step (message_sound env) (channel_of p) (channel_of q)"
  using assms(3)
proof (cases rule: pipeline_step.cases)
  case step_task
  then show ?thesis
    by (cases rule: task_step.cases) (auto simp: channel_of_def set_channel_def end_task_def channel_step_iff)
next
  case (step_build now now1 now2 rbh bh r b)
  have ok: "b_cache_ok env (pl_builder p)" using assms(2) by (simp add: pipeline_inv_def)
  from step_build(3) assms(1) ok show ?thesis
    by (cases rule: builder_round_messages) (auto simp: channel_of_def step_build(1) channel_step_iff)
next
  case step_import
  then show ?thesis by (simp add: channel_of_def)
qed

interpretation pipeline: refinement_system
  "\<lambda>p. collator_env_ok env \<and> pipeline_start env files p" "pipeline_step env ce se"
  "\<lambda>p. collator_env_ok env \<and> pipeline_inv env ce files p"
  channel_init "channel_step (message_sound env)" channel_of
  for env files ce se
proof (unfold_locales, goal_cases)
  case (1 p)
  then show ?case by (auto simp: start_inv collator_env_ok_def)
next
  case (2 p q)
  then show ?case using pipeline_step_inv by blast
next
  case (3 p)
  then show ?case by (auto simp: pipeline_start_def slot_based_run_def channel_of_def channel_init_def)
next
  case (4 p q)
  then show ?case using pipeline_step_channel by blast
qed

abbreviation pipeline_reachable where
  "pipeline_reachable env ce se files \<equiv> reachable (pipeline_start env files) (pipeline_step env ce se)"

lemma reachable_inv:
  assumes "collator_env_ok env" "pipeline_reachable env ce se files p"
  shows "pipeline_inv env ce files p"
  using pipeline.invar_reachable [of env files ce se p] assms by simp

section \<open>Properties of the pipeline\<close>

lemma reachable_channel:
  assumes "collator_env_ok env" "pipeline_reachable env ce se files p"
  shows "channel_inv (message_sound env) (channel_of p)"
  by (rule pipeline.transfer_invariant [OF channel.invariant_system_axioms, of env files ce se]) (use assms in simp)

text \<open>
  C17: The channel between the block builder and the collation task is a first-in first-out channel of sound messages: whatever the
  order in which the two tasks and the block import take their steps, every step of the pipeline is no step or one step of the abstract channel,
  which sends a message, takes the oldest one or closes. So the messages handled are at every moment those sent
  first, in the order in which they were sent, and while the task lives the others wait in that order.
\<close>

theorem pipeline_refines_channel:
  assumes "collator_env_ok env" "pipeline_reachable env ce se files p"
  shows "reachable channel_init (channel_step (message_sound env)) (pl_task_alive p, pl_sent p, bs_messages (pl_builder p), pl_handled p) \<and>
     (\<forall>q. pipeline_step env ce se p q \<longrightarrow>
        (pl_task_alive q, pl_sent q, bs_messages (pl_builder q), pl_handled q)
          = (pl_task_alive p, pl_sent p, bs_messages (pl_builder p), pl_handled p) \<or>
        channel_step (message_sound env) (pl_task_alive p, pl_sent p, bs_messages (pl_builder p), pl_handled p)
          (pl_task_alive q, pl_sent q, bs_messages (pl_builder q), pl_handled q)) \<and>
     pl_handled p = take (length (pl_handled p)) (pl_sent p) \<and>
     (pl_task_alive p \<longrightarrow> bs_messages (pl_builder p) = drop (length (pl_handled p)) (pl_sent p))"
proof -
  have "reachable channel_init (channel_step (message_sound env)) (channel_of p)"
    using pipeline.refine_reachable [of env files ce se p] assms by simp
  moreover have "channel_of q = channel_of p \<or> channel_step (message_sound env) (channel_of p) (channel_of q)"
    if "pipeline_step env ce se p q" for q
    using pipeline_step_channel [OF assms(1) reachable_inv [OF assms] that] .
  moreover have "pl_handled p = take (length (pl_handled p)) (pl_sent p)"
    "pl_task_alive p \<longrightarrow> bs_messages (pl_builder p) = drop (length (pl_handled p)) (pl_sent p)"
    using reachable_channel [OF assms] by (auto simp: channel_inv_def channel_of_def split: if_splits)
  ultimately show ?thesis unfolding channel_of_def by blast
qed

lemma reachable_sound:
  assumes "collator_env_ok env" "pipeline_reachable env ce se files p" "m \<in> set (pl_handled p)"
  shows "message_sound env m"
  using reachable_channel [OF assms(1,2)] assms(3) by (auto simp: channel_inv_def channel_of_def split: if_splits)

text \<open>What the task submits, in terms of the messages it handled.\<close>

definition submissions_for where
  "submissions_for cl ce m = (case co_build_collation ce (cm_parent_header m) (header_hash (nc_crypto cl) (fst (cm_candidate m)))
     (cm_candidate m) of None \<Rightarrow> [] | Some (c, _) \<Rightarrow> [submission_of m c])"

lemma set_submissions_for: "sub \<in> set (submissions_for cl ce m) \<longleftrightarrow> (\<exists>c block_data. sub = submission_of m c \<and>
    co_build_collation ce (cm_parent_header m) (header_hash (nc_crypto cl) (fst (cm_candidate m))) (cm_candidate m) = Some (c, block_data))"
  by (cases "co_build_collation ce (cm_parent_header m) (header_hash (nc_crypto cl) (fst (cm_candidate m))) (cm_candidate m)")
     (auto simp: submissions_for_def)

lemma handle_submits:
  "handle_collation_message cl rh ce m s = Ok t \<Longrightarrow> ts_submitted t = ts_submitted s @ submissions_for cl ce m"
  by (auto simp: handle_collation_message_def submissions_for_def Let_def split: option.splits prod.splits)

lemma run_collation_task_submits:
  assumes "run_collation_task cl rh ce messages s = Ok t"
  shows "ts_submitted t = ts_submitted s @ concat (map (submissions_for cl ce) messages)"
  using assms
proof (induction messages arbitrary: s)
  case (Cons m messages)
  then obtain u where u: "handle_collation_message cl rh ce m s = Ok u" "run_collation_task cl rh ce messages u = Ok t" by auto
  from Cons.IH [OF u(2)] handle_submits [OF u(1)] show ?case by simp
qed simp

text \<open>
  C7: Every collation that the slot based collator ever submits, at any point of any interleaving of its tasks, is made from a
  block that the node sealed with the key it claimed the slot with (the runtime accepts the seal and reads that key as the
  author), for a core scheduled for the parachain at the relay parent of the submission; parent head,
  relay parent, core and validation code hash are those of the message that the builder sent for this block.
\<close>

theorem pipeline_submissions_sound:
  assumes "collator_env_ok env" "pipeline_reachable env ce se files p" "sub \<in> set (ts_submitted (pl_task p))"
  shows "\<exists>msg block_data relay_hdr offset nid pre. msg \<in> set (pl_sent p) \<and> sub = submission_of msg (sub_collation sub) \<and>
     co_build_collation ce (cm_parent_header msg) (header_hash (nc_crypto (ce_client env)) (fst (cm_candidate msg))) (cm_candidate msg)
       = Some (sub_collation sub, block_data) \<and>
     rh_hash relay_hdr = sub_relay_parent sub \<and> sub_core_index sub \<in> set (scheduled_cores (ce_relay env) relay_hdr offset) \<and>
     claim_slot (ce_client env) (sub_parent_head sub) (rh_number relay_hdr) (ce_force_authoring env) = Ok (Some nid) \<and>
     verify_and_remove_seal (nc_crypto (ce_client env)) (fst (cm_candidate msg)) = Ok pre \<and>
     claimed_author (digest_logs pre) = Some (encode (nc_id_codec (ce_client env)) nid)"
proof -
  from reachable_inv [OF assms(1,2)] have inv: "pipeline_inv env ce files p" .
  then have "run_collation_task (ce_client env) (relay_header_at (ce_relay env)) ce (pl_handled p)
      \<lparr>ts_submitted = [], ts_files = files\<rparr> = Ok (pl_task p)" by (simp add: pipeline_inv_def)
  from run_collation_task_submits [OF this] assms(3) obtain msg c block_data where
    m: "msg \<in> set (pl_handled p)" "sub = submission_of msg c"
    "co_build_collation ce (cm_parent_header msg) (header_hash (nc_crypto (ce_client env)) (fst (cm_candidate msg))) (cm_candidate msg)
      = Some (c, block_data)"
    by (auto simp: set_submissions_for)
  have sent: "msg \<in> set (pl_sent p)" using inv m(1) by (auto simp: pipeline_inv_def)
  from reachable_sound [OF assms(1,2) m(1), unfolded message_sound_def] m(2,3) sent show ?thesis
    by (elim exE conjE) (intro exI conjI; (assumption | simp add: submission_of_def))
qed

text \<open>
  C16: The concurrent pipeline computes what the collation task would compute alone: once the channel is empty, the submissions and
  the exported files are those of a run of the task over all messages that the builder has sent, in the order in which they were sent. If
  such a run panics, because a proof of validity cannot be written, the task has ended.
\<close>

theorem pipeline_is_sequential:
  assumes "collator_env_ok env" "pipeline_reachable env ce se files p" "bs_messages (pl_builder p) = []"
  shows "(case run_collation_task (ce_client env) (relay_header_at (ce_relay env)) ce (pl_sent p) \<lparr>ts_submitted = [], ts_files = files\<rparr> of
      Ok t \<Rightarrow> pl_task p = t \<and> pl_handled p = pl_sent p | Err e \<Rightarrow> False | Panic m \<Rightarrow> \<not> pl_task_alive p)"
proof -
  let ?run = "\<lambda>ms. run_collation_task (ce_client env) (relay_header_at (ce_relay env)) ce ms"
  from reachable_inv [OF assms(1,2)] obtain lost where l: "pl_sent p = pl_handled p @ lost"
    "?run (pl_handled p) \<lparr>ts_submitted = [], ts_files = files\<rparr> = Ok (pl_task p)"
    "lost \<noteq> [] \<Longrightarrow> \<not> pl_task_alive p \<and>
      (\<exists>e. handle_collation_message (ce_client env) (relay_header_at (ce_relay env)) ce (hd lost) (pl_task p) = Panic e)"
    using assms(3) by (auto simp: pipeline_inv_def)
  show ?thesis
  proof (cases lost)
    case Nil
    then show ?thesis using l by simp
  next
    case (Cons m rest)
    then show ?thesis using l by (auto simp: run_collation_task_append)
  qed
qed

text \<open>Every step of the collation task leaves it less to do.\<close>

definition task_work :: "('st, 'hash, 'rhash, 'collation, 'body, 'vch, 'm, 'ext, 'proof) pipeline \<Rightarrow> nat" where
  "task_work p = length (pl_channel p) + length (pl_imports p) + (if pl_task_alive p then 1 else 0)"

lemma task_step_works:
  assumes "task_step env ce p q"
  shows "task_work q < task_work p \<and> pl_sent q = pl_sent p \<and> pl_builder_alive q = pl_builder_alive p"
  using assms by (cases rule: task_step.cases) (auto simp: task_work_def set_channel_def end_task_def)

lemma task_run_bounded: "(task_step env ce ^^ n) p q \<Longrightarrow> n + task_work q \<le> task_work p"
proof (induction n arbitrary: q)
  case (Suc n)
  then obtain r where "(task_step env ce ^^ n) p r" "task_step env ce r q" by auto
  with Suc.IH [of r] task_step_works [of env ce r q] show ?case by simp
qed simp

lemma task_run_keeps: "(task_step env ce)\<^sup>*\<^sup>* p q \<Longrightarrow> pl_sent q = pl_sent p \<and> pl_builder_alive q = pl_builder_alive p"
  by (induction rule: rtranclp_induct) (simp_all add: task_step_works)

lemma task_not_stuck:
  assumes "\<nexists>q. task_step env ce p q" "pl_task_alive p"
  shows "pl_channel p = [] \<and> pl_builder_alive p"
proof -
  have no_err: "handle_collation_message cl rh ce m s \<noteq> Err e" for cl rh m s e
    by (auto simp: handle_collation_message_def export_collation_def export_pov_to_path_def Let_def and_then_Err_iff
        split: option.splits maybe_compressed_pov.splits list.splits if_splits)
  have "pl_channel p = []"
  proof (cases "pl_channel p")
    case (Cons m rest)
    then show ?thesis
      using assms task_message [OF assms(2) Cons] task_crash [OF assms(2) Cons] no_err
      by (cases "handle_collation_message (ce_client env) (relay_header_at (ce_relay env)) ce m (pl_task p)") blast+
  qed
  with assms task_closed show ?thesis by blast
qed

lemma task_run_reachable:
  assumes "(task_step env ce)\<^sup>*\<^sup>* p q" "pipeline_reachable env ce se files p"
  shows "pipeline_reachable env ce se files q"
  using assms by (induction rule: rtranclp_induct) (auto intro: reach_step step_task)

text \<open>
  C18: The collation task never gets stuck and never runs for ever on what it has been given: from any reachable state it takes at most as many steps as
  there are messages and imported blocks waiting, and one more; when it can take no more, the channel is empty, and the task only
  waits on while the builder lives. Unless writing a proof of validity fails, every message sent so far has then been handled.
\<close>

theorem collation_task_drains:
  assumes "collator_env_ok env" "pipeline_reachable env ce se files p"
  shows "(\<forall>n q. (task_step env ce ^^ n) p q \<longrightarrow> n \<le> length (bs_messages (pl_builder p)) + length (pl_imports p) + 1) \<and>
     (\<forall>q. (task_step env ce)\<^sup>*\<^sup>* p q \<and> (\<nexists>r. task_step env ce q r) \<longrightarrow>
        bs_messages (pl_builder q) = [] \<and> (pl_task_alive q \<longrightarrow> pl_builder_alive p) \<and>
        (\<forall>t. run_collation_task (ce_client env) (relay_header_at (ce_relay env)) ce (pl_sent p)
             \<lparr>ts_submitted = [], ts_files = files\<rparr> = Ok t \<longrightarrow> pl_handled q = pl_sent p \<and> pl_task q = t))"
proof (intro conjI allI impI; (elim conjE)?)
  fix n q assume "(task_step env ce ^^ n) p q"
  from task_run_bounded [OF this] show "n \<le> length (bs_messages (pl_builder p)) + length (pl_imports p) + 1"
    by (simp add: task_work_def split: if_splits)
next
  fix q assume run: "(task_step env ce)\<^sup>*\<^sup>* p q" "\<nexists>r. task_step env ce q r"
  note kept = task_run_keeps [OF run(1)] and reach = task_run_reachable [OF run(1) assms(2)]
  note inv = reachable_inv [OF assms(1) reach]
  show empty: "bs_messages (pl_builder q) = []"
    using task_not_stuck [OF run(2)] inv by (auto simp: pipeline_inv_def)
  show "pl_builder_alive p" if "pl_task_alive q" using task_not_stuck [OF run(2) that] kept by simp
  fix t assume "run_collation_task (ce_client env) (relay_header_at (ce_relay env)) ce (pl_sent p) \<lparr>ts_submitted = [], ts_files = files\<rparr> = Ok t"
  moreover from inv empty obtain lost where "pl_sent q = pl_handled q @ lost"
    "lost \<noteq> [] \<longrightarrow> (\<exists>e. handle_collation_message (ce_client env) (relay_header_at (ce_relay env)) ce (hd lost) (pl_task q) = Panic e)"
    "run_collation_task (ce_client env) (relay_header_at (ce_relay env)) ce (pl_handled q) \<lparr>ts_submitted = [], ts_files = files\<rparr> = Ok (pl_task q)"
    by (auto simp: pipeline_inv_def)
  ultimately have "lost = [] \<and> pl_task q = t" using kept by (cases lost) (auto simp: run_collation_task_append)
  with \<open>pl_sent q = pl_handled q @ lost\<close> kept show "pl_handled q = pl_sent p" "pl_task q = t" by simp_all
qed

section \<open>Exported proofs of validity\<close>

text \<open>The names of the files tell the blocks apart, if the printed hashes have one length.\<close>

lemma pov_file_name_inj:
  assumes "inj show_hash" "\<And>h. length (show_hash h) = n" "pov_file_name show_hash sn h k = pov_file_name show_hash sn h' k'"
  shows "h = h'"
  using assms unfolding pov_file_name_def by (metis append_eq_append_conv injD)

text \<open>
  The file that the collator exports for a block can be read back: decoding it gives the proof of validity and, in the
  rest of the file, the persisted validation data with the parent head, the relay parent's number and storage
  root and the maximal size. No other file changes, in particular none of another block.
\<close>

theorem exported_pov_roundtrip:
  assumes "codec_ok (co_pov_codec ce)" "\<And>d rest. decode (co_pvd_codec ce) (encode (co_pvd_codec ce) d @ rest) = Some (d, rest)"
    and "inj (co_show_hash ce)" "\<And>h. length (co_show_hash ce h) = 66"
    and "export_pov_to_path ce path pov hash number parent root relay_number max_size files = Ok files'" "files' \<noteq> files"
  shows "\<exists>contents rest. files' (path, pov_file_name (co_show_hash ce) (co_show_number ce) hash number) = Some contents \<and>
     decode (co_pov_codec ce) contents = Some (pov, rest) \<and>
     decode (co_pvd_codec ce) rest = Some (\<lparr>pvd_parent_head = co_encode_header ce parent, pvd_relay_parent_number = relay_number,
       pvd_relay_parent_storage_root = root, pvd_max_pov_size = max_size\<rparr>, []) \<and>
     (\<forall>h k. h \<noteq> hash \<longrightarrow> files' (path, pov_file_name (co_show_hash ce) (co_show_number ce) h k)
        = files (path, pov_file_name (co_show_hash ce) (co_show_number ce) h k)) \<and>
     (\<forall>d name. d \<noteq> path \<longrightarrow> files' (d, name) = files (d, name))"
proof -
  let ?pvd = "\<lparr>pvd_parent_head = co_encode_header ce parent, pvd_relay_parent_number = relay_number,
       pvd_relay_parent_storage_root = root, pvd_max_pov_size = max_size\<rparr>"
  let ?contents = "encode (co_pov_codec ce) pov @ encode (co_pvd_codec ce) ?pvd"
  from assms(5,6) have f: "files' = files((path, pov_file_name (co_show_hash ce) (co_show_number ce) hash number) \<mapsto> ?contents)"
    by (auto simp: export_pov_to_path_def Let_def split: if_splits)
  have "decode (co_pvd_codec ce) (encode (co_pvd_codec ce) ?pvd) = Some (?pvd, [])" using assms(2) [of ?pvd "[]"] by simp
  moreover have "pov_file_name (co_show_hash ce) (co_show_number ce) h k \<noteq> pov_file_name (co_show_hash ce) (co_show_number ce) hash number"
    if "h \<noteq> hash" for h k using pov_file_name_inj [OF assms(3,4)] that by blast
  ultimately show ?thesis using assms(1) by (simp add: f codec_ok_def)
qed

section \<open>Concrete runs\<close>

text \<open>A codec for the persisted validation data that writes numbers in unary, and a collation task that exports what it submits.\<close>

definition unary :: "nat \<Rightarrow> u8 list" where
  "unary n = replicate n 1 @ [0]"

fun un_unary :: "u8 list \<Rightarrow> (nat \<times> u8 list) option" where
  "un_unary [] = None"
| "un_unary (b # bs) = (if b = 0 then Some (0, bs) else map_option (apfst Suc) (un_unary bs))"

lemma un_unary [simp]: "un_unary (unary n @ rest) = Some (n, rest)"
  by (induction n) (simp_all add: unary_def)

definition demo_pvd_codec :: "nat persisted_validation_data codec" where
  "demo_pvd_codec = \<lparr>encode = (\<lambda>d. unary (unat (pvd_relay_parent_number d)) @ unary (pvd_relay_parent_storage_root d) @
       unary (unat (pvd_max_pov_size d)) @ unary (length (pvd_parent_head d)) @ pvd_parent_head d),
     decode = (\<lambda>bs. Option.bind (un_unary bs) (\<lambda>(n, bs). Option.bind (un_unary bs) (\<lambda>(r, bs). Option.bind (un_unary bs)
       (\<lambda>(m, bs). map_option (\<lambda>(k, bs). (\<lparr>pvd_parent_head = take k bs, pvd_relay_parent_number = of_nat n,
          pvd_relay_parent_storage_root = r, pvd_max_pov_size = of_nat m\<rparr>, drop k bs)) (un_unary bs))))),
     size_of = 0\<rparr>"

lemma demo_pvd_roundtrip: "decode demo_pvd_codec (encode demo_pvd_codec d @ rest) = Some (d, rest)"
  by (simp add: demo_pvd_codec_def)

definition demo_collation_env :: "('hash \<Rightarrow> string) \<Rightarrow> ('hash, nat, nat, nat list, nat header, (nat header \<times> nat list) list, u8) collation_env" where
  "demo_collation_env show_hash = \<lparr>co_build_collation = (\<lambda>_ _ c. Some (fst c, [c])), co_proof_of_validity = (\<lambda>_. Compressed 7),
     co_blocks = (\<lambda>d. d), co_pov_codec = byte_codec, co_pvd_codec = demo_pvd_codec, co_encode_header = (\<lambda>h. [of_nat (header_rest h)]),
     co_show_hash = show_hash, co_show_number = (\<lambda>n. replicate n CHR ''1''),
     co_files = \<lparr>fs_create_dir_all = (\<lambda>_ _. True), fs_create = (\<lambda>_ _. True), fs_write = (\<lambda>_ _ _. True)\<rparr>,
     co_export_pov = Some ''povs''\<rparr>"

theorem exported_pov_roundtrip_witness:
  "\<exists>files' contents rest. export_pov_to_path (demo_collation_env (\<lambda>b. replicate 66 (if b then CHR ''1'' else CHR ''0''))) ''povs'' 7 True 2
       demo_parent 3 9 1000 Map.empty = Ok files' \<and>
     files' (''povs'', replicate 66 CHR ''1'' @ ''_11.pov'') = Some contents \<and> decode byte_codec contents = Some (7, rest) \<and>
     decode demo_pvd_codec rest = Some (\<lparr>pvd_parent_head = [of_nat (header_rest demo_parent)], pvd_relay_parent_number = 9,
       pvd_relay_parent_storage_root = 3, pvd_max_pov_size = 1000\<rparr>, [])"
proof -
  let ?show = "\<lambda>b. replicate 66 (if b then CHR ''1'' else CHR ''0'')"
  let ?ce = "demo_collation_env ?show"
  obtain files' where f: "export_pov_to_path ?ce ''povs'' 7 True 2 demo_parent 3 9 1000 Map.empty = Ok files'" "files' \<noteq> Map.empty"
    by (simp add: export_pov_to_path_def demo_collation_env_def Let_def)
  have "codec_ok (co_pov_codec ?ce)" "inj (co_show_hash ?ce)" "\<And>h. length (co_show_hash ?ce h) = 66"
    by (auto simp: demo_collation_env_def byte_codec_ok inj_def replicate_eq_replicate)
  from exported_pov_roundtrip [OF this(1) _ this(2,3) f] f(1) show ?thesis
    by (simp add: demo_collation_env_def demo_pvd_roundtrip pov_file_name_def numeral_2_eq_2) blast
qed

text \<open>The builder sends one message, and the task handles it.\<close>

abbreviation "demo_collation \<equiv> demo_collation_env (\<lambda>h :: nat. replicate h CHR ''a'')"

definition demo_sbi :: "(nat, nat list, bool option, unit, unit, nat) sbi_env" where
  "demo_sbi = \<lparr>sbi_execute = (\<lambda>_ _. Inr ((), ())), sbi_root_of = (\<lambda>_. 0), sbi_state_root = (\<lambda>_. 0),
     sbi_is_apply_changes = (\<lambda>_. True), sbi_apply_changes = (\<lambda>_. None), sbi_empty_body = []\<rparr>"

definition demo_pipeline where
  "demo_pipeline = (slot_based_run demo_collator 0 None True True [] Map.empty ::
     (nat header list, nat, nat, nat header, nat, nat, nat \<Rightarrow> (nat, u32 list) relay_chain_data option, nat list, unit) pipeline)"

lemma demo_collator_env_ok: "collator_env_ok demo_collator"
  using demo_lru_ok demo_client_ok demo_builder_services_ok by (simp add: collator_env_ok_def demo_collator_def)

lemma demo_pipeline_sent:
  obtains p msg where "pipeline_reachable demo_collator demo_collation demo_sbi Map.empty p" "pl_channel p = [msg]"
    "pl_sent p = [msg]" "pl_task_alive p" "pl_imports p = []" "cm_candidate msg = (demo_sealed, [1])" "cm_relay_parent msg = 9"
    "pl_handled p = []" "pl_task p = \<lparr>ts_submitted = [], ts_files = Map.empty\<rparr>"
proof -
  have start: "pl_builder demo_pipeline = demo_builder_state" "pl_builder_alive demo_pipeline" "pl_task_alive demo_pipeline"
    "pl_sent demo_pipeline = []" "pl_handled demo_pipeline = []" "pl_imports demo_pipeline = []"
    "pl_task demo_pipeline = \<lparr>ts_submitted = [], ts_files = Map.empty\<rparr>"
    by (simp_all add: demo_pipeline_def slot_based_run_def demo_builder_state_def timer_start_def demo_collator_state_def
        cache_new_def demo_lru_def demo_collator_def)
  have init: "pipeline_reachable demo_collator demo_collation demo_sbi Map.empty demo_pipeline"
    by (rule reach_init) (unfold pipeline_start_def demo_pipeline_def, blast)
  from demo_builder_round obtain t msg where r: "builder_round demo_collator (from_millis 1000) (from_millis 6000) (from_millis 6000) True
      (Some 9) 4 demo_builder_state = (Inr (), t)" "bs_messages t = [msg]" "cm_candidate msg = (demo_sealed, [1])" "cm_relay_parent msg = 9"
    by blast
  have "bs_messages demo_builder_state = []" by (simp add: demo_builder_state_def)
  with step_build [of demo_pipeline demo_collator "from_millis 1000" "from_millis 6000" "from_millis 6000" "Some 9" 4 "Inr ()" t
      demo_collation demo_sbi] r(1,2) start
  have "pipeline_step demo_collator demo_collation demo_sbi demo_pipeline
      (demo_pipeline\<lparr>pl_builder := t, pl_builder_alive := True, pl_sent := [msg]\<rparr>)" by simp
  note built = reach_step [OF init this]
  show ?thesis by (rule that [OF built]) (use r start in simp_all)
qed

theorem pipeline_refines_channel_witness:
  "\<exists>msg. reachable channel_init (channel_step (message_sound demo_collator)) (True, [msg], [msg], [])"
proof -
  obtain p msg where p: "pipeline_reachable demo_collator demo_collation demo_sbi Map.empty p" "pl_channel p = [msg]" "pl_sent p = [msg]"
    "pl_task_alive p" "pl_handled p = []" by (rule demo_pipeline_sent)
  from pipeline_refines_channel [OF demo_collator_env_ok p(1), THEN conjunct1] p(2-5) show ?thesis by auto
qed

lemma demo_export: "\<exists>files'. export_collation cl rh (demo_collation_env show_hash) m c block_data files = Ok files'"
  by (auto simp: export_collation_def export_pov_to_path_def demo_collation_env_def Let_def split: option.splits list.splits)

lemma demo_pipeline_handled:
  obtains p msg where "pipeline_reachable demo_collator demo_collation demo_sbi Map.empty p" "pl_channel p = []"
    "pl_sent p = [msg]" "pl_task_alive p" "cm_candidate msg = (demo_sealed, [1])" "cm_relay_parent msg = 9"
    "ts_submitted (pl_task p) = [submission_of msg demo_sealed]"
proof -
  obtain p msg where p: "pipeline_reachable demo_collator demo_collation demo_sbi Map.empty p" "pl_channel p = [msg]"
    "pl_sent p = [msg]" "pl_task_alive p" "cm_candidate msg = (demo_sealed, [1])" "cm_relay_parent msg = 9"
    "pl_task p = \<lparr>ts_submitted = [], ts_files = Map.empty\<rparr>" by (rule demo_pipeline_sent)
  obtain t where t: "handle_collation_message (ce_client demo_collator) (relay_header_at (ce_relay demo_collator)) demo_collation msg (pl_task p) = Ok t"
    "ts_submitted t = [submission_of msg demo_sealed]"
    using p(5,7) demo_export [of "ce_client demo_collator" "relay_header_at (ce_relay demo_collator)" "\<lambda>h. replicate h CHR ''a''" msg demo_sealed
      "[(demo_sealed, [1])]" Map.empty]
    by (auto simp: handle_collation_message_def demo_collation_env_def Let_def)
  show ?thesis
    by (rule that [OF reach_step [OF p(1) step_task [OF task_message [OF p(4,2) t(1)]]]]) (use p t(2) in \<open>simp_all add: set_channel_def\<close>)
qed

theorem pipeline_submissions_sound_witness:
  "\<exists>p sub nid pre number. pipeline_reachable demo_collator demo_collation demo_sbi Map.empty p \<and> ts_submitted (pl_task p) = [sub] \<and>
     sub_relay_parent sub = 9 \<and> claim_slot demo_client (sub_parent_head sub) number False = Ok (Some nid) \<and>
     verify_and_remove_seal demo_seal_crypto demo_sealed = Ok pre \<and> claimed_author (digest_logs pre) = Some [nid]"
proof -
  obtain p msg where p: "pipeline_reachable demo_collator demo_collation demo_sbi Map.empty p" "pl_sent p = [msg]"
    "cm_candidate msg = (demo_sealed, [1])" "cm_relay_parent msg = 9" "ts_submitted (pl_task p) = [submission_of msg demo_sealed]"
    by (rule demo_pipeline_handled)
  have env: "ce_client demo_collator = demo_client" "ce_force_authoring demo_collator = False" "nc_crypto demo_client = demo_seal_crypto"
    "encode (nc_id_codec demo_client) nid = [nid]" for nid
    by (simp_all add: demo_collator_def demo_client_def byte_codec_def)
  have sub: "submission_of msg demo_sealed \<in> set (ts_submitted (pl_task p))" by (simp add: p(5))
  from pipeline_submissions_sound [OF demo_collator_env_ok p(1) sub, unfolded env] obtain msg' nid pre and relay_hdr :: "nat relay_header" where
    "msg' \<in> set (pl_sent p)" and
    s: "claim_slot demo_client (sub_parent_head (submission_of msg demo_sealed)) (rh_number relay_hdr) False = Ok (Some nid)"
    "verify_and_remove_seal demo_seal_crypto (fst (cm_candidate msg')) = Ok pre" "claimed_author (digest_logs pre) = Some [nid]"
    by blast
  then have "verify_and_remove_seal demo_seal_crypto demo_sealed = Ok pre" by (simp add: p(2,3))
  with s(1,3) p(1,4,5) show ?thesis
    by (intro exI [of _ p] exI [of _ "submission_of msg demo_sealed"] exI [of _ nid] exI [of _ pre]
        exI [of _ "rh_number relay_hdr"]) (simp add: submission_of_def)
qed

theorem pipeline_is_sequential_witness:
  "\<exists>p msg t. pipeline_reachable demo_collator demo_collation demo_sbi Map.empty p \<and> pl_sent p = [msg] \<and> pl_task p = t \<and>
     run_collation_task (ce_client demo_collator) (relay_header_at (ce_relay demo_collator)) demo_collation [msg]
       \<lparr>ts_submitted = [], ts_files = Map.empty\<rparr> = Ok t"
proof -
  obtain p msg where p: "pipeline_reachable demo_collator demo_collation demo_sbi Map.empty p" "pl_channel p = []" "pl_sent p = [msg]"
    "pl_task_alive p" by (rule demo_pipeline_handled)
  from pipeline_is_sequential [OF demo_collator_env_ok p(1,2)] p show ?thesis
    by (intro exI [of _ p] exI [of _ msg] exI [of _ "pl_task p"])
       (auto split: result.splits)
qed

theorem collation_task_drains_witness:
  "\<exists>p msg. pipeline_reachable demo_collator demo_collation demo_sbi Map.empty p \<and> pl_channel p = [msg] \<and>
     (\<forall>n q. (task_step demo_collator demo_collation ^^ n) p q \<longrightarrow> n \<le> 2)"
proof -
  obtain p msg where p: "pipeline_reachable demo_collator demo_collation demo_sbi Map.empty p" "pl_channel p = [msg]"
    "pl_imports p = []" by (rule demo_pipeline_sent)
  from collation_task_drains [OF demo_collator_env_ok p(1), THEN conjunct1] p(2,3)
  have "\<forall>n q. (task_step demo_collator demo_collation ^^ n) p q \<longrightarrow> n \<le> 2" by (simp add: numeral_2_eq_2)
  with p(1,2) show ?thesis by blast
qed

end
