(* ===== verification/Account_Set.thy ===== *)
theory Account_Set
  imports Author_Inherent
begin

text \<open>
  \<^verbatim>\<open>template/runtime/src/pallet_account_set.rs\<close>: the fixed set of authors of the template runtime,
  which provides both the first filter of the authorship pipeline and the account lookup.
\<close>

record ('nid, 'acct) as_pallet =
  StoredAccounts :: "'acct list"
  as_Mapping :: "'nid \<rightharpoonup> 'acct"

definition as_pallet_empty :: "('nid, 'acct) as_pallet" where
  "as_pallet_empty = \<lparr>StoredAccounts = [], as_Mapping = Map.empty\<rparr>"

definition genesis_build_as :: "('acct \<times> 'nid) list \<Rightarrow> ('nid, 'acct) as_pallet \<Rightarrow> ('nid, 'acct) as_pallet" where
  "genesis_build_as mapping s =
     fold (\<lambda>(account_id, author_id) s. s\<lparr>as_Mapping := (as_Mapping s)(author_id \<mapsto> account_id),
             StoredAccounts := StoredAccounts s @ [account_id]\<rparr>) mapping s"

definition get_as :: "('nid, 'acct) as_pallet \<Rightarrow> 'acct list" where
  "get_as s = StoredAccounts s"

definition can_author_as :: "('nid, 'acct) as_pallet \<Rightarrow> 'acct \<Rightarrow> u32 \<Rightarrow> (unit, bool) result" where
  "can_author_as s author slot = Ok (author \<in> set (StoredAccounts s))"

definition lookup_account_as :: "('nid, 'acct) as_pallet \<Rightarrow> 'nid \<Rightarrow> 'acct option" where
  "lookup_account_as s author = as_Mapping s author"

interpretation account_set: author_filter can_author_as "\<lambda>s. set (StoredAccounts s)" "\<lambda>_. True"
  by unfold_locales (auto simp: can_author_as_def ex_in_conv)

lemma genesis_build_as_stored:
  "StoredAccounts (genesis_build_as mapping s) = StoredAccounts s @ map fst mapping"
  by (induction mapping arbitrary: s) (auto simp: genesis_build_as_def)

lemma genesis_build_as_mapping:
  "as_Mapping (genesis_build_as mapping s) = as_Mapping s ++ map_of (rev (map (\<lambda>(a, n). (n, a)) mapping))"
  by (induction mapping arbitrary: s) (auto simp: genesis_build_as_def map_add_def fun_eq_iff split: option.splits)

text \<open>Every key that resolves to an account resolves to an author of the set, in every state built at genesis.\<close>

lemma genesis_lookup_is_author:
  assumes "lookup_account_as (genesis_build_as mapping as_pallet_empty) nid = Some a"
  shows "can_author_as (genesis_build_as mapping as_pallet_empty) a slot = Ok True"
proof -
  from assms have "map_of (rev (map (\<lambda>(a, n). (n, a)) mapping)) nid = Some a"
    by (simp add: lookup_account_as_def genesis_build_as_mapping as_pallet_empty_def)
  then have "(nid, a) \<in> set (map (\<lambda>(a, n). (n, a)) mapping)" by (auto dest: map_of_SomeD)
  then show ?thesis by (force simp: can_author_as_def genesis_build_as_stored)
qed

end
