(* ===== verification/Template_Runtime.thy ===== *)
theory Template_Runtime
  imports Import_Queue Account_Set Async_Backing Xcm_Primitives
begin

text \<open>
  \<^verbatim>\<open>template/runtime/src/lib.rs\<close>: the runtime that puts the pallets together. Of its configuration, the
  authorship pipeline is modelled (the account set, the slot filter with the collective flip randomness, the
  author inherent), the consensus hook and its constants, the prediction that collators ask for, the fee
  polynomial and the origins of free XCM execution. The rest of the
  configuration is in \<open>Template_Config\<close> and \<open>Template_Xcm\<close>; the collective flip pallet is a parameter.
\<close>

section \<open>Constants\<close>

definition MILLISECS_PER_BLOCK :: u64 where
  "MILLISECS_PER_BLOCK = 6000"

definition MILLIUNIT :: u128 where
  "MILLIUNIT = 1000000000"

definition TEMPLATE_RELAY_CHAIN_SLOT_DURATION_MILLIS :: u32 where
  "TEMPLATE_RELAY_CHAIN_SLOT_DURATION_MILLIS = 6000"

definition UNINCLUDED_SEGMENT_CAPACITY :: u32 where
  "UNINCLUDED_SEGMENT_CAPACITY = 1"

definition BLOCK_PROCESSING_VELOCITY :: u32 where
  "BLOCK_PROCESSING_VELOCITY = 1"

text \<open>The configuration of the async backing pallet, with the slot of the relay chain as the slot provider.\<close>

definition template_ab_config :: "(u64 \<Rightarrow> u64 \<Rightarrow> u64) \<Rightarrow> (nat \<Rightarrow> nat \<Rightarrow> 'w) \<Rightarrow> 'w ab_config" where
  "template_ab_config from_ts rw = \<lparr>AllowMultipleBlocksPerSlot = False, ab_SlotDuration = MILLISECS_PER_BLOCK,
     slot_from_timestamp = from_ts, reads_writes = rw,
     RELAY_CHAIN_SLOT_DURATION_MILLIS = TEMPLATE_RELAY_CHAIN_SLOT_DURATION_MILLIS,
     hook_V = BLOCK_PROCESSING_VELOCITY, hook_C = UNINCLUDED_SEGMENT_CAPACITY\<rparr>"

lemmas template_consts = MILLISECS_PER_BLOCK_def TEMPLATE_RELAY_CHAIN_SLOT_DURATION_MILLIS_def
  UNINCLUDED_SEGMENT_CAPACITY_def BLOCK_PROCESSING_VELOCITY_def template_ab_config_def

text \<open>The runtime APIs for collators: the offset of the relay parent and whether the unincluded segment has room.\<close>

definition template_relay_parent_offset :: u32 where
  "template_relay_parent_offset = 0"

definition template_api_can_build_upon ::
    "(u64 \<Rightarrow> u64 \<Rightarrow> u64) \<Rightarrow> (nat \<Rightarrow> nat \<Rightarrow> 'w) \<Rightarrow> ('hash \<Rightarrow> u32) \<Rightarrow> 'hash \<Rightarrow> u64 \<Rightarrow> ab_state \<Rightarrow> bool" where
  "template_api_can_build_upon from_ts rw segment_size_after included_hash slot s =
     can_build_upon (template_ab_config from_ts rw) segment_size_after included_hash slot s"

section \<open>Fees and barriers\<close>

text \<open>
  One coefficient of the fee polynomial; the fraction is in parts per billion, computed by
  \<^verbatim>\<open>Perbill::from_rational\<close> (the parameter \<open>from_rational\<close>).
\<close>

record weight_to_fee_coefficient =
  coeff_degree :: u8
  coeff_negative :: bool
  coeff_frac :: nat
  coeff_integer :: u128

definition WeightToFee_polynomial :: "(u128 \<Rightarrow> u128 \<Rightarrow> nat) \<Rightarrow> u64 \<Rightarrow> weight_to_fee_coefficient list" where
  "WeightToFee_polynomial from_rational extrinsic_base_ref_time =
     (let p = MILLIUNIT div 10;
          q = 100 * ucast extrinsic_base_ref_time
      in [\<lparr>coeff_degree = 1, coeff_negative = False, coeff_frac = from_rational (p mod q) q, coeff_integer = p div q\<rparr>])"

definition parent_or_parents_executive_plurality :: "location \<Rightarrow> bool" where
  "parent_or_parents_executive_plurality l =
     (parents l = 1 \<and> (case interior l of
        [] \<Rightarrow> True
      | [Plurality ExecutiveBody] \<Rightarrow> True
      | _ \<Rightarrow> False))"

section \<open>The authorship pipeline\<close>

text \<open>
  \<open>flip_on_initialize\<close> updates the material of the collective flip pallet with the number and the parent hash of
  the block; \<open>flip_random\<close> reads randomness from it.
\<close>

record ('hash, 'mat) flip_pallet =
  flip_on_initialize :: "u32 \<Rightarrow> 'hash \<Rightarrow> 'mat \<Rightarrow> 'mat"
  flip_random :: "u32 \<Rightarrow> 'mat \<Rightarrow> u8 list \<Rightarrow> u8 list"

record ('nid, 'acct, 'hash, 'mat) template_state =
  ts_number :: u32
  ts_parent_hash :: 'hash
  ts_digest :: "digest_item list"
  ts_material :: 'mat
  ts_inherent :: "'acct ai_state"
  ts_filter :: filter_state
  ts_authors :: "('nid, 'acct) as_pallet"
  ts_async :: ab_state

definition system_initialize ::
    "u32 \<Rightarrow> 'hash \<Rightarrow> digest_item list \<Rightarrow> ('nid, 'acct, 'hash, 'mat) template_state \<Rightarrow> ('nid, 'acct, 'hash, 'mat) template_state" where
  "system_initialize number parent_hash digest s = s\<lparr>ts_number := number, ts_parent_hash := parent_hash, ts_digest := digest\<rparr>"

definition flip_initialize ::
    "('hash, 'mat) flip_pallet \<Rightarrow> ('nid, 'acct, 'hash, 'mat) template_state \<Rightarrow> ('nid, 'acct, 'hash, 'mat) template_state" where
  "flip_initialize fl s = s\<lparr>ts_material := flip_on_initialize fl (ts_number s) (ts_parent_hash s) (ts_material s)\<rparr>"

text \<open>\<^verbatim>\<open>CanAuthor\<close> of the author inherent: the slot filter over the accounts of the account set.\<close>

definition template_can_author ::
    "('hash, 'mat) flip_pallet \<Rightarrow> ('nid, 'acct, 'hash, 'mat) template_state \<Rightarrow> 'acct \<Rightarrow> u32 \<Rightarrow> (unit, bool) result" where
  "template_can_author fl s = can_author_filter (flip_random fl (ts_number s) (ts_material s)) (ts_filter s) (get_as (ts_authors s))"

text \<open>The runtime API: the prediction runs in the state after the parent block, as if the next block had begun.\<close>

definition nimbus_api_can_author ::
    "('hash, 'mat) flip_pallet \<Rightarrow> ('body header \<Rightarrow> u32) \<Rightarrow> ('body header \<Rightarrow> 'hash) \<Rightarrow> ('nid, 'acct, 'hash, 'mat) template_state
      \<Rightarrow> 'nid \<Rightarrow> u32 \<Rightarrow> 'body header \<Rightarrow> (unit, bool) result" where
  "nimbus_api_can_author fl number_of hash_of s author slot parent_header =
     (let s1 = system_initialize (number_of parent_header + 1) (hash_of parent_header) (digest_logs parent_header) s;
          s2 = flip_initialize fl s1
      in can_author_nimbus (lookup_account_as (ts_authors s2)) (template_can_author fl s2) author slot)"

text \<open>
  The authorship part of a block, in the order of the runtime: the system and the hooks of the pallets, the
  consensus hook on the relay slot (inside the inherent of the parachain system), the inherents
  of the author inherent pallet, the check of the timestamp after the inherents, and
  the end of the block. \<open>slot\<close> is the number of the relay parent, which is the slot beacon. These are the steps of the pallets of this
  repository only: the whole block, in which the parachain system also checks the number of the relay parent and the timestamp pallet the minimum
  period, is \<open>run_runtime_block\<close> of \<open>Template_Config\<close>; it runs only if this part does.
\<close>

definition template_run_block ::
    "('hash, 'mat) flip_pallet \<Rightarrow> 'w ab_config \<Rightarrow> (digest_item \<Rightarrow> (engine_id \<times> u8 list) option) \<Rightarrow> (u8 list \<Rightarrow> 'nid option)
      \<Rightarrow> ('origin, 'acct, 'd) frame_system \<Rightarrow> u32 \<Rightarrow> 'hash \<Rightarrow> digest_item list \<Rightarrow> u32 \<Rightarrow> u64 \<Rightarrow> u64 \<Rightarrow> 'origin list
      \<Rightarrow> ('nid, 'acct, 'hash, 'mat) template_state
      \<Rightarrow> ((unit, 'd) dispatch_error, ('nid, 'acct, 'hash, 'mat) template_state) result" where
  "template_run_block fl ab pre_runtime_of decode_id sys number parent_hash logs slot relay_slot timestamp origins s =
     (let s1 = flip_initialize fl (system_initialize number parent_hash logs s)
      in and_then (map_err ModuleError (on_initialize_ai pre_runtime_of decode_id (lookup_account_as (ts_authors s1)) (ts_digest s1) (ts_inherent s1)))
     (\<lambda>ai1. and_then (map_err ModuleError (on_state_proof_inner ab relay_slot_get_and_verify relay_slot (ts_async s1)))
     (\<lambda>(_, async). and_then (run_inherents sys (template_can_author fl s1) slot origins ai1)
     (\<lambda>ai2. and_then (map_err ModuleError (post_inherents ab timestamp async))
     (\<lambda>_. and_then (map_err ModuleError (on_finalize_ai ai2))
     (\<lambda>ai3. Ok (s1\<lparr>ts_inherent := ai3, ts_async := async\<rparr>)))))))"

section \<open>The consensus hook of the template\<close>

text \<open>\<^verbatim>\<open>Slot::from_timestamp\<close>, as documented: the timestamp divided by the length of a slot.\<close>

definition from_timestamp_div :: "(u64 \<Rightarrow> u64 \<Rightarrow> u64) \<Rightarrow> bool" where
  "from_timestamp_div from_ts \<longleftrightarrow> (\<forall>t d. 0 < d \<longrightarrow> from_ts t d = t div d)"

lemma template_slot_fits:
  assumes "from_timestamp_div from_ts"
  shows "para_slot_fits (template_ab_config from_ts rw) relay_slot_get_and_verify slot \<longleftrightarrow> 6000 * unat slot < 2 ^ 64"
proof -
  have "slot \<le> saturating_mul 6000 slot div 6000 \<longleftrightarrow> 6000 * unat slot < 2 ^ 64"
    by (auto simp: word_le_nat_alt unat_div unat_saturating_mul min_def)
  then show ?thesis
    using assms by (simp add: para_slot_fits_def relay_slot_get_and_verify_def template_consts from_timestamp_div_def)
qed

lemma distinct_iff_count: "distinct xs \<longleftrightarrow> (\<forall>x. count_list xs x \<le> 1)"
proof (induction xs)
  case (Cons y ys)
  have "count_list (y # ys) y = Suc (count_list ys y)" "x \<noteq> y \<Longrightarrow> count_list (y # ys) x = count_list ys x" for x by simp_all
  then have "(\<forall>x. count_list (y # ys) x \<le> 1) \<longleftrightarrow> count_list ys y = 0 \<and> (\<forall>x. count_list ys x \<le> 1)"
    by (metis One_nat_def Suc_le_mono le_zero_eq le0)
  then show ?case using Cons by (simp add: count_list_0_iff)
qed simp

lemma strictly_sorted_iff_count:
  "sorted_wrt (<) (xs :: u64 list) \<longleftrightarrow> sorted xs \<and> (\<forall>x. count_list xs x \<le> 1)"
  by (simp only: strict_sorted_iff distinct_iff_count)

text \<open>
  With the constants of the template, the runtime accepts exactly the chains with one block per relay slot and
  increasing relay slots, up to the year in which the millisecond clock leaves 64 bits; it then knows the last slot.
\<close>

theorem template_blocks_accepted:
  assumes "from_timestamp_div from_ts"
  shows "(\<exists>t. run_state_proofs (template_ab_config from_ts rw) (\<lambda>_. relay_slot_get_and_verify) (map (Pair ()) slots) ab_genesis = Ok t) \<longleftrightarrow>
     sorted_wrt (<) slots \<and> (\<forall>x \<in> set slots. 6000 * unat x < 2 ^ 64)"
proof -
  have "unat (velocity (template_ab_config from_ts rw)) + 1 < 2 ^ 32" by (simp add: velocity_def template_consts)
  note accepted = run_from_genesis_iff [OF this, of "\<lambda>_. relay_slot_get_and_verify" "map (Pair ()) slots"]
  have "block_limit (template_ab_config from_ts rw) = 1" by (simp add: block_limit_def template_consts)
  then show ?thesis
    unfolding accepted by (simp add: proofs_spec_def template_slot_fits [OF assms] strictly_sorted_iff_count comp_def)
qed

text \<open>
  The API lets a collator build exactly when the parent is the included block and the slot is not before the last one:
  with a segment of one block there is no second block in flight. It does not refuse the last slot itself, which the hook does.
\<close>

lemma template_can_build_upon_iff:
  assumes "SlotInfo s = Some (last_slot, 1)"
  shows "template_api_can_build_upon from_ts rw segment_size_after included slot s \<longleftrightarrow>
     segment_size_after included = 0 \<and> last_slot \<le> slot"
proof -
  have "segment_size_after included < 1 \<longleftrightarrow> segment_size_after included = 0"
    by (simp add: word_less_nat_alt unat_eq_0)
  then show ?thesis
    using assms by (auto simp: template_api_can_build_upon_def can_build_upon_def velocity_def template_consts not_le)
qed

section \<open>The prediction of the runtime\<close>

text \<open>The state in which the prediction runs agrees with the begun block in all that the filter reads.\<close>

lemma prediction_state:
  "nimbus_api_can_author fl number_of hash_of s author slot parent =
     can_author_nimbus (lookup_account_as (ts_authors s))
       (template_can_author fl (flip_initialize fl (system_initialize (number_of parent + 1) (hash_of parent) logs s))) author slot"
  by (simp add: nimbus_api_can_author_def system_initialize_def flip_initialize_def template_can_author_def Let_def)

text \<open>The filter answers: it never panics.\<close>

lemma template_can_author_total: "\<exists>b. template_can_author fl s a slot = Ok b"
  using compute_subset_ok [of "flip_random fl (ts_number s) (ts_material s)" "ts_filter s" "get_as (ts_authors s)" slot]
  by (auto simp: template_can_author_def can_author_filter_def)

text \<open>The parts of a block other than its authorship, for a relay slot that has no block yet and a timestamp in it.\<close>

lemma template_hook_ok:
  assumes "from_timestamp_div from_ts" "6000 * unat relay_slot < 2 ^ 64" "timestamp div MILLISECS_PER_BLOCK = relay_slot"
    and "case SlotInfo s of None \<Rightarrow> True | Some (last_slot, _) \<Rightarrow> last_slot < relay_slot"
  shows "\<exists>r t. on_state_proof_inner (template_ab_config from_ts rw) relay_slot_get_and_verify relay_slot s = Ok (r, t) \<and>
     post_inherents (template_ab_config from_ts rw) timestamp t = Ok () \<and> SlotInfo t = Some (relay_slot, 1)"
proof -
  let ?cfg = "template_ab_config from_ts rw" and ?t = "s\<lparr>SlotInfo := Some (next_slot_info relay_slot (SlotInfo s))\<rparr>"
  have "next_slot_info relay_slot (SlotInfo s) = (relay_slot, 1)"
    using assms(4) by (auto simp: next_slot_info_def split: option.splits)
  moreover have "slot_accepted ?cfg relay_slot (SlotInfo s)" using assms(4) by (auto simp: slot_accepted_def split: option.splits)
  moreover have "para_slot_fits ?cfg relay_slot_get_and_verify relay_slot" using assms(2) template_slot_fits [OF assms(1)] by blast
  ultimately show ?thesis using assms(3)
    by (auto simp: on_state_proof_inner_Ok_iff post_inherents_def) (simp_all add: template_consts)
qed

text \<open>Prediction and block both come down to the account of the key and its eligibility in the begun block.\<close>

definition begun :: "('hash, 'mat) flip_pallet \<Rightarrow> u32 \<Rightarrow> 'hash \<Rightarrow> digest_item list \<Rightarrow> ('nid, 'acct, 'hash, 'mat) template_state
      \<Rightarrow> ('nid, 'acct, 'hash, 'mat) template_state" where
  "begun fl number parent_hash logs s = flip_initialize fl (system_initialize number parent_hash logs s)"

lemma begun_simps [simp]:
  "ts_authors (begun fl n h logs s) = ts_authors s" "ts_digest (begun fl n h logs s) = logs" "ts_async (begun fl n h logs s) = ts_async s"
  by (simp_all add: begun_def flip_initialize_def system_initialize_def)

lemma prediction_iff:
  "nimbus_api_can_author fl number_of hash_of s nid slot parent = Ok True \<longleftrightarrow>
     (\<exists>a. lookup_account_as (ts_authors s) nid = Some a \<and>
        template_can_author fl (begun fl (number_of parent + 1) (hash_of parent) logs s) a slot = Ok True)"
  unfolding prediction_state [where logs = logs] begun_def [symmetric] by (simp add: can_author_nimbus_def split: option.splits)

lemma first_digest_names_author:
  assumes "digest_api_ok c api" "decode_id (encode id_codec nid) = Some nid"
  shows "on_initialize_ai (as_pre_runtime api) decode_id lookup (nimbus_pre_digest id_codec nid # rest) ai =
      (case lookup nid of Some a \<Rightarrow> Ok (ai\<lparr>Author := Some a\<rparr>) | None \<Rightarrow> Panic ''No Account Mapped to this NimbusId'')"
proof -
  have "as_pre_runtime api (nimbus_pre_digest id_codec nid) = Some (NIMBUS_ENGINE_ID, encode id_codec nid)"
    using assms(1) by (simp add: digest_api_ok_def nimbus_pre_digest_def)
  then show ?thesis using assms(2) by (simp add: on_initialize_ai_def List.map_filter_def expect_def split: option.splits)
qed

lemma template_block_iff:
  assumes "from_timestamp_div from_ts" "6000 * unat relay_slot < 2 ^ 64" "timestamp div MILLISECS_PER_BLOCK = relay_slot"
    and "case SlotInfo (ts_async s) of None \<Rightarrow> True | Some (last_slot, _) \<Rightarrow> last_slot < relay_slot"
    and "digest_api_ok c api" "decode_id (encode id_codec nid) = Some nid" "ensure_none sys origin = Inr ()"
  shows "is_ok (template_run_block fl (template_ab_config from_ts rw) (as_pre_runtime api) decode_id sys n
       h (nimbus_pre_digest id_codec nid # rest) slot relay_slot timestamp [origin] s) \<longleftrightarrow>
     (\<exists>a. lookup_account_as (ts_authors s) nid = Some a \<and>
        template_can_author fl (begun fl n h (nimbus_pre_digest id_codec nid # rest) s) a slot = Ok True)"
proof (cases "lookup_account_as (ts_authors s) nid")
  case None
  then show ?thesis by (simp add: template_run_block_def begun_def [symmetric] Let_def first_digest_names_author [where decode_id = decode_id and nid = nid, OF assms(5,6)])
next
  case (Some a)
  let ?s1 = "begun fl n h (nimbus_pre_digest id_codec nid # rest) s"
  from template_hook_ok [OF assms(1-4)] obtain r t where hook:
    "on_state_proof_inner (template_ab_config from_ts rw) relay_slot_get_and_verify relay_slot (ts_async s) = Ok (r, t)"
    "post_inherents (template_ab_config from_ts rw) timestamp t = Ok ()" by blast
  obtain b where "template_can_author fl ?s1 a slot = Ok b" by (rule exE [OF template_can_author_total])
  then show ?thesis using Some assms(7)
    by (simp add: template_run_block_def begun_def [symmetric] Let_def first_digest_names_author [where decode_id = decode_id and nid = nid, OF assms(5,6)] hook
        kick_off_authorship_validation_def get_ai_def on_finalize_ai_def assert_that_def)
qed

text \<open>
  The prediction of the template runtime is exact: it says that a key may author on a parent block in a slot exactly if
  the block that this key builds there, with its digest in front, the inherent, a relay slot without a block
  and a timestamp in this slot, runs to its end.
\<close>

theorem template_prediction_exact:
  assumes "from_timestamp_div from_ts" "6000 * unat relay_slot < 2 ^ 64" "timestamp div MILLISECS_PER_BLOCK = relay_slot"
    and "case SlotInfo (ts_async s) of None \<Rightarrow> True | Some (last_slot, _) \<Rightarrow> last_slot < relay_slot"
    and "digest_api_ok c api" "decode_id (encode id_codec nid) = Some nid" "ensure_none sys origin = Inr ()"
  shows "nimbus_api_can_author fl number_of hash_of s nid slot parent = Ok True \<longleftrightarrow>
     is_ok (template_run_block fl (template_ab_config from_ts rw) (as_pre_runtime api) decode_id sys (number_of parent + 1)
       (hash_of parent) (nimbus_pre_digest id_codec nid # rest) slot relay_slot timestamp [origin] s)"
  unfolding template_block_iff [where decode_id = decode_id and nid = nid, OF assms] by (rule prediction_iff)

text \<open>
  A collator of the template chain that claims a slot by prediction can build: the block with its key as author, on that
  parent and with a fresh relay slot, runs to its end.
\<close>

theorem template_claim_builds:
  assumes "claim_slot cl parent slot False = Ok (Some nid)" "predicts cl parent"
    and "\<And>n. api_can_author cl (header_hash (nc_crypto cl) parent) n slot parent =
           (case nimbus_api_can_author fl number_of (header_hash (nc_crypto cl)) s n slot parent of Ok b \<Rightarrow> Some b | _ \<Rightarrow> None)"
    and "from_timestamp_div from_ts" "6000 * unat relay_slot < 2 ^ 64" "timestamp div MILLISECS_PER_BLOCK = relay_slot"
    and "case SlotInfo (ts_async s) of None \<Rightarrow> True | Some (last_slot, _) \<Rightarrow> last_slot < relay_slot"
    and "digest_api_ok c api" "decode_id (encode (nc_id_codec cl) nid) = Some nid" "ensure_none sys origin = Inr ()"
  shows "is_ok (template_run_block fl (template_ab_config from_ts rw) (as_pre_runtime api) decode_id sys (number_of parent + 1)
       (header_hash (nc_crypto cl) parent) (nimbus_pre_digest (nc_id_codec cl) nid # rest) slot relay_slot timestamp [origin] s)"
proof -
  have "nimbus_api_can_author fl number_of (header_hash (nc_crypto cl)) s nid slot parent = Ok True"
    using claim_slot_eligible [OF assms(1,2)] assms(3) [of nid] by (auto split: result.splits)
  then show ?thesis
    unfolding template_block_iff [where decode_id = decode_id and nid = nid, OF assms(4-10)] by (rule prediction_iff [THEN iffD1])
qed

section \<open>Fees\<close>

text \<open>
  The comment says that the base weight of an extrinsic costs a tenth of a milliunit. With \<^verbatim>\<open>Perbill::from_rational\<close> as
  documented (parts per billion, rounded down), it costs at most a thousandth of one.
\<close>

lemma base_weight_fee:
  assumes "\<And>a b. 0 < b \<Longrightarrow> a \<le> b \<Longrightarrow> from_rational a b = unat a * 10 ^ 9 div unat b"
    and "WeightToFee_polynomial from_rational base = [c]" "0 < base"
  shows "unat (coeff_integer c) * unat base + coeff_frac c * unat base div 10 ^ 9 \<le> unat MILLIUNIT div 1000"
proof -
  define q where "q = 100 * (ucast base :: u128)"
  have q: "unat q = 100 * unat base"
  proof -
    have "unat base < 2 ^ 64" using unsigned_less [of base] by simp
    then have "100 * unat base < 2 ^ 128" by simp
    then show ?thesis by (simp add: q_def unat_mult_lem [THEN iffD1] unsigned_ucast_eq take_bit_nat_eq_self)
  qed
  then have "0 < q" using assms(3) by (simp add: word_less_nat_alt)
  define p where "p = MILLIUNIT div 10"
  have p: "unat p = 10 ^ 8" by (simp add: p_def MILLIUNIT_def unat_div)
  have c: "unat (coeff_integer c) = 10 ^ 8 div (100 * unat base)"
    "coeff_frac c = (10 ^ 8 mod (100 * unat base)) * 10 ^ 9 div (100 * unat base)"
    using assms(1) [OF \<open>0 < q\<close>, of "p mod q"] assms(2,3) \<open>0 < q\<close> p q
    by (auto simp: WeightToFee_polynomial_def Let_def p_def [symmetric] q_def [symmetric] unat_div unat_mod word_le_nat_alt
        word_less_nat_alt)
  define r :: nat where "r = 10 ^ 8 mod (100 * unat base)"
  define x where "x = coeff_frac c * unat base div 10 ^ 9"
  have "x * 10 ^ 9 \<le> coeff_frac c * unat base" by (simp add: x_def)
  then have "100 * (x * 10 ^ 9) \<le> coeff_frac c * (100 * unat base)" by (simp add: mult.left_commute)
  also have "\<dots> \<le> r * 10 ^ 9" unfolding c(2) r_def by simp
  finally have "100 * x \<le> r" by simp
  moreover have "unat (coeff_integer c) * (100 * unat base) + r = 10 ^ 8" unfolding c(1) r_def by (rule div_mult_mod_eq)
  ultimately have "100 * (unat (coeff_integer c) * unat base + x) \<le> 10 ^ 8" by (simp add: algebra_simps)
  then have "unat (coeff_integer c) * unat base + x \<le> 10 ^ 6" by simp
  then show ?thesis by (simp add: x_def MILLIUNIT_def)
qed

section \<open>Concrete runs\<close>

definition template_flip :: "(nat, nat list) flip_pallet" where
  "template_flip = \<lparr>flip_on_initialize = (\<lambda>n h m. h # m), flip_random = (\<lambda>n m subject. [0, 0, 0, 0])\<rparr>"

definition template_demo :: "(u8, nat, nat, nat list) template_state" where
  "template_demo = \<lparr>ts_number = 4, ts_parent_hash = 0, ts_digest = [], ts_material = [], ts_inherent = ai_demo_start,
     ts_filter = filter_demo 1, ts_authors = genesis_build_as [(10, 7), (20, 3)] as_pallet_empty,
     ts_async = ab_genesis\<lparr>SlotInfo := Some (4, 1)\<rparr>\<rparr>"

lemma template_demo_prediction:
  "nimbus_api_can_author template_flip (\<lambda>_. 4) hash_of template_demo nid 9 demo_parent = Ok (nid = 7)"
  by (simp add: nimbus_api_can_author_def Let_def system_initialize_def flip_initialize_def template_demo_def template_flip_def
      can_author_nimbus_def lookup_account_as_def genesis_build_as_def as_pallet_empty_def template_can_author_def can_author_filter_def
      compute_pseudo_random_subset_def filter_demo_def get_as_def NonZeroU32_new_unchecked_def)

theorem template_prediction_exact_witness:
  "is_ok (template_run_block template_flip (template_ab_config (div) (\<lambda>r w. r + w)) (as_pre_runtime (demo_digest_api byte_codec))
      (\<lambda>bs. map_option fst (decode byte_codec bs)) raw_system 5 4 [nimbus_pre_digest byte_codec 7] 9 9 54321 [Unsigned] template_demo) \<and>
   \<not> is_ok (template_run_block template_flip (template_ab_config (div) (\<lambda>r w. r + w)) (as_pre_runtime (demo_digest_api byte_codec))
      (\<lambda>bs. map_option fst (decode byte_codec bs)) raw_system 5 4 [nimbus_pre_digest byte_codec 3] 9 9 54321 [Unsigned] template_demo)"
proof -
  have hyps: "from_timestamp_div (div)" "6000 * unat (9 :: u64) < 2 ^ 64" "(54321 :: u64) div MILLISECS_PER_BLOCK = 9"
    "case SlotInfo (ts_async template_demo) of None \<Rightarrow> True | Some (last_slot, _) \<Rightarrow> last_slot < 9"
    "digest_api_ok byte_codec (demo_digest_api byte_codec)" "ensure_none raw_system Unsigned = Inr ()"
    by (simp_all add: from_timestamp_div_def MILLISECS_PER_BLOCK_def template_demo_def raw_system_def)
       (simp add: digest_api_ok_def demo_digest_api_def)
  have "map_option fst (decode byte_codec (encode byte_codec nid)) = Some nid" for nid by (simp add: byte_codec_def)
  note exact = template_prediction_exact [where fl = template_flip and s = template_demo and parent = demo_parent and
      rest = "[]" and rw = "\<lambda>r w. r + w" and slot = 9 and number_of = "\<lambda>_. 4" and hash_of = "\<lambda>_. 4" and
      decode_id = "\<lambda>bs. map_option fst (decode byte_codec bs)" and id_codec = byte_codec, OF hyps(1-5) this hyps(6)]
  show ?thesis using exact [of 7] exact [of 3] by (simp add: template_demo_prediction)
qed

definition template_client :: "(u8, u8, nat, nat) nimbus_client" where
  "template_client = demo_client\<lparr>api_can_author := (\<lambda>h nid slot parent.
     case nimbus_api_can_author template_flip (\<lambda>_. 4) (header_hash demo_seal_crypto) template_demo nid slot parent of
       Ok b \<Rightarrow> Some b | _ \<Rightarrow> None)\<rparr>"

lemma template_client_claims: "predicts template_client demo_parent \<and> claim_slot template_client demo_parent 9 False = Ok (Some 7)"
proof -
  have fields: "nc_crypto template_client = demo_seal_crypto" "keystore_keys template_client = Some [[3], [7]]"
    "runtime_version template_client = (\<lambda>_. Some 1)" "api_can_author template_client h n 9 demo_parent = Some (n = 7)" for h n
    by (simp_all add: template_client_def demo_client_def template_demo_prediction)
  then have "predicts template_client demo_parent" by (simp add: predicts_def)
  then show ?thesis by (simp add: claim_slot_predicts first_eligible_key_def key_eligible_def fields demo_seal_crypto_def)
qed

theorem template_claim_builds_witness:
  "claim_slot template_client demo_parent 9 False = Ok (Some 7) \<and>
   is_ok (template_run_block template_flip (template_ab_config (div) (\<lambda>r w. r + w)) (as_pre_runtime (demo_digest_api byte_codec))
      (\<lambda>bs. map_option fst (decode byte_codec bs)) raw_system 5 4 [nimbus_pre_digest byte_codec 7] 9 9 54321 [Unsigned] template_demo)"
proof -
  have fields: "nc_crypto template_client = demo_seal_crypto" "nc_id_codec template_client = byte_codec"
    "keystore_keys template_client = Some [[3], [7]]" "hdr_number template_client = header_rest" "runtime_version template_client = (\<lambda>_. Some 1)"
    by (simp_all add: template_client_def demo_client_def)
  have api: "api_can_author template_client h n 9 demo_parent = Some (n = 7)" for h n
    by (simp add: template_client_def template_demo_prediction)
  note pred = template_client_claims [THEN conjunct1] and claim = template_client_claims [THEN conjunct2]
  have answers: "api_can_author template_client (header_hash (nc_crypto template_client) demo_parent) n 9 demo_parent =
      (case nimbus_api_can_author template_flip (\<lambda>_. 4) (header_hash (nc_crypto template_client)) template_demo n 9 demo_parent of
         Ok b \<Rightarrow> Some b | _ \<Rightarrow> None)" for n
    by (simp add: api template_demo_prediction)
  have hyps: "from_timestamp_div (div)" "6000 * unat (9 :: u64) < 2 ^ 64" "(54321 :: u64) div MILLISECS_PER_BLOCK = 9"
    "case SlotInfo (ts_async template_demo) of None \<Rightarrow> True | Some (last_slot, _) \<Rightarrow> last_slot < 9"
    "digest_api_ok byte_codec (demo_digest_api byte_codec)"
    "map_option fst (decode byte_codec (encode (nc_id_codec template_client) 7)) = Some 7" "ensure_none raw_system Unsigned = Inr ()"
    by (simp_all add: from_timestamp_div_def MILLISECS_PER_BLOCK_def template_demo_def raw_system_def fields byte_codec_def)
       (simp add: digest_api_ok_def demo_digest_api_def)
  have "header_hash (nc_crypto template_client) demo_parent = 4" by (simp add: fields demo_seal_crypto_def demo_parent_def)
  then show ?thesis
    using claim template_claim_builds [where rw = "\<lambda>r w. r + w" and rest = "[]" and decode_id = "\<lambda>bs. map_option fst (decode byte_codec bs)",
      OF claim pred answers hyps] by (simp add: fields)
qed

theorem template_blocks_accepted_witness:
  "(\<exists>t. run_state_proofs (template_ab_config (div) (\<lambda>r w. r + w)) (\<lambda>_. relay_slot_get_and_verify) (map (Pair ()) [4, 9]) ab_genesis = Ok t) \<and>
   \<not> (\<exists>t. run_state_proofs (template_ab_config (div) (\<lambda>r w. r + w)) (\<lambda>_. relay_slot_get_and_verify) (map (Pair ()) [4, 4]) ab_genesis = Ok t)"
proof -
  have "from_timestamp_div (div)" by (simp add: from_timestamp_div_def)
  note accepted = template_blocks_accepted [OF this, of "\<lambda>r w. r + w"]
  show ?thesis unfolding accepted by simp
qed

end
