(* ===== verification/Template_Config.thy ===== *)
theory Template_Config
  imports Template_Runtime
begin

text \<open>
  The configuration of the template runtime (\<^verbatim>\<open>template/runtime/src/lib.rs\<close>): its constants, the limits of a block, the list of pallets
  and the order of their hooks, the runtime APIs and the function that relay chain validators run. \<open>Template_Runtime\<close> has the authorship
  part of a block; here it is shown to be what the declared order of the pallets gives, and the limits and periods are shown
  to fit to each other. The executive, the ratios and the timestamp pallet of the SDK are parameters.
\<close>

section \<open>Constants\<close>

definition SLOT_DURATION :: u64 where
  "SLOT_DURATION = MILLISECS_PER_BLOCK"

definition MINUTES :: u32 where
  "MINUTES = 60000 div ucast MILLISECS_PER_BLOCK"

definition HOURS :: u32 where
  "HOURS = MINUTES * 60"

definition DAYS :: u32 where
  "DAYS = HOURS * 24"

definition UNIT :: u128 where
  "UNIT = 1000000000000"

definition MICROUNIT :: u128 where
  "MICROUNIT = 1000000"

definition EXISTENTIAL_DEPOSIT :: u128 where
  "EXISTENTIAL_DEPOSIT = MILLIUNIT"

definition PRIMARY_PROBABILITY :: "u64 \<times> u64" where
  "PRIMARY_PROBABILITY = (1, 4)"

definition MinimumPeriod :: u64 where
  "MinimumPeriod = SLOT_DURATION div 2"

definition TransactionByteFee :: u128 where
  "TransactionByteFee = 10 * MICROUNIT"

definition OperationalFeeMultiplier :: u8 where
  "OperationalFeeMultiplier = 5"

definition template_Period :: u32 where
  "template_Period = 6 * HOURS"

record runtime_version =
  spec_name :: string
  impl_name :: string
  authoring_version :: u32
  spec_version :: u32
  impl_version :: u32
  transaction_version :: u32
  system_version :: u8

definition VERSION :: runtime_version where
  "VERSION = \<lparr>spec_name = ''template-parachain'', impl_name = ''template-parachain'', authoring_version = 1, spec_version = 1,
     impl_version = 0, transaction_version = 1, system_version = 1\<rparr>"

definition native_version :: "runtime_version \<times> u32 set" where
  "native_version = (VERSION, {})"

lemmas config_consts = SLOT_DURATION_def MILLISECS_PER_BLOCK_def MINUTES_def HOURS_def DAYS_def UNIT_def MICROUNIT_def MILLIUNIT_def
  EXISTENTIAL_DEPOSIT_def MinimumPeriod_def TransactionByteFee_def template_Period_def

text \<open>Time in blocks: a day of blocks lasts a day of slots.\<close>

lemma block_times:
  "unat MINUTES * unat MILLISECS_PER_BLOCK = 60 * 1000" "unat HOURS * unat MILLISECS_PER_BLOCK = 60 * 60 * 1000"
  "unat DAYS * unat MILLISECS_PER_BLOCK = 24 * 60 * 60 * 1000" "unat template_Period * unat MILLISECS_PER_BLOCK = 6 * 60 * 60 * 1000"
  by (simp_all add: config_consts)

section \<open>The limits of a block\<close>

text \<open>
  \<^verbatim>\<open>Perbill\<close>: a ratio in parts per billion, and its product with a number, which is exact up to rounding and, for a ratio of
  at most one, not more than the number.
\<close>

record perbill_lib =
  from_percent :: "nat \<Rightarrow> nat"
  perbill_mul :: "nat \<Rightarrow> u64 \<Rightarrow> u64"

definition perbill_ok :: "perbill_lib \<Rightarrow> bool" where
  "perbill_ok pb \<longleftrightarrow> (\<forall>n \<le> 100. from_percent pb n = n * 10 ^ 7) \<and>
     (\<forall>p \<le> 10 ^ 9. \<forall>x. perbill_mul pb p x \<le> x \<and> unat (perbill_mul pb p x) * 10 ^ 9 < p * unat x + 10 ^ 9 \<and>
        p * unat x < unat (perbill_mul pb p x) * 10 ^ 9 + 10 ^ 9)"

definition perbill_mul_weight :: "perbill_lib \<Rightarrow> nat \<Rightarrow> weight \<Rightarrow> weight" where
  "perbill_mul_weight pb p w = from_parts (perbill_mul pb p (ref_time w)) (perbill_mul pb p (proof_size w))"

definition weight_saturating_div :: "weight \<Rightarrow> u64 \<Rightarrow> weight" where
  "weight_saturating_div w n = from_parts (ref_time w div n) (proof_size w div n)"

definition set_proof_size :: "u64 \<Rightarrow> weight \<Rightarrow> weight" where
  "set_proof_size n w = w\<lparr>proof_size := n\<rparr>"

definition AVERAGE_ON_INITIALIZE_RATIO :: "perbill_lib \<Rightarrow> nat" where
  "AVERAGE_ON_INITIALIZE_RATIO pb = from_percent pb 5"

definition NORMAL_DISPATCH_RATIO :: "perbill_lib \<Rightarrow> nat" where
  "NORMAL_DISPATCH_RATIO pb = from_percent pb 75"

definition MAXIMUM_BLOCK_WEIGHT :: "u64 \<Rightarrow> u32 \<Rightarrow> weight" where
  "MAXIMUM_BLOCK_WEIGHT ref_time_per_second max_pov_size =
     set_proof_size (ucast max_pov_size) (weight_saturating_div (from_parts ref_time_per_second (- 1)) 2)"

datatype dispatch_class = NormalClass | OperationalClass | MandatoryClass

text \<open>What the builders are given for each class; \<^verbatim>\<open>None\<close> is no limit.\<close>

record class_weights =
  base_extrinsic :: weight
  max_total :: "weight option"
  reserved :: "weight option"

record block_weights =
  base_block :: weight
  per_class :: "dispatch_class \<Rightarrow> class_weights"
  avg_block_initialization :: nat

definition RuntimeBlockLength :: "perbill_lib \<Rightarrow> dispatch_class \<Rightarrow> u64" where
  "RuntimeBlockLength pb c =
     (let max_length = 5 * 1024 * 1024
      in case c of NormalClass \<Rightarrow> perbill_mul pb (NORMAL_DISPATCH_RATIO pb) max_length | _ \<Rightarrow> max_length)"

definition RuntimeBlockWeights :: "perbill_lib \<Rightarrow> weight \<Rightarrow> weight \<Rightarrow> class_weights \<Rightarrow> weight \<Rightarrow> block_weights" where
  "RuntimeBlockWeights pb block_execution_weight extrinsic_base_weight class_default maximum =
     (let all = class_default\<lparr>base_extrinsic := extrinsic_base_weight\<rparr>
      in \<lparr>base_block = block_execution_weight,
          per_class = (\<lambda>c. case c of
              NormalClass \<Rightarrow> all\<lparr>max_total := Some (perbill_mul_weight pb (NORMAL_DISPATCH_RATIO pb) maximum)\<rparr>
            | OperationalClass \<Rightarrow> all\<lparr>max_total := Some maximum,
                reserved := Some (weight_sub maximum (perbill_mul_weight pb (NORMAL_DISPATCH_RATIO pb) maximum))\<rparr>
            | MandatoryClass \<Rightarrow> all),
          avg_block_initialization = AVERAGE_ON_INITIALIZE_RATIO pb\<rparr>)"

definition ReservedXcmpWeight :: "weight \<Rightarrow> weight" where
  "ReservedXcmpWeight maximum = weight_saturating_div maximum 4"

definition ReservedDmpWeight :: "weight \<Rightarrow> weight" where
  "ReservedDmpWeight maximum = weight_saturating_div maximum 4"

definition MessageQueueServiceWeight :: "perbill_lib \<Rightarrow> weight \<Rightarrow> weight" where
  "MessageQueueServiceWeight pb max_block = perbill_mul_weight pb (from_percent pb 35) max_block"

lemma perbill_le:
  assumes "perbill_ok pb" "n \<le> 100"
  shows "perbill_mul pb (from_percent pb n) x \<le> x"
    "unat (perbill_mul pb (from_percent pb n) x) * 100 < n * unat x + 100"
    "n * unat x < unat (perbill_mul pb (from_percent pb n) x) * 100 + 100"
proof -
  have p: "from_percent pb n = n * 10 ^ 7" "n * 10 ^ 7 \<le> 10 ^ 9" using assms by (simp_all add: perbill_ok_def)
  show "perbill_mul pb (from_percent pb n) x \<le> x"
    "unat (perbill_mul pb (from_percent pb n) x) * 100 < n * unat x + 100"
    "n * unat x < unat (perbill_mul pb (from_percent pb n) x) * 100 + 100"
    using assms(1) p unfolding perbill_ok_def by (auto dest!: spec [of _ "n * 10 ^ 7"] spec [of _ x])
qed

text \<open>
  The share of normal extrinsics and the part that is reserved for operational ones add up to the whole block, without wrap-around;
  the message queues, the downward and the sibling messages are left at most the parts they are meant to have.
\<close>

lemma block_budget:
  assumes "perbill_ok pb" and bw_def: "bw = RuntimeBlockWeights pb be eb cd maximum"
  shows "\<exists>normal rest. max_total (per_class bw NormalClass) = Some normal \<and> reserved (per_class bw OperationalClass) = Some rest \<and>
     unat (ref_time normal) + unat (ref_time rest) = unat (ref_time maximum) \<and>
     unat (proof_size normal) + unat (proof_size rest) = unat (proof_size maximum) \<and>
     unat (ref_time rest) * 4 < unat (ref_time maximum) + 4 \<and> unat (ref_time maximum) < unat (ref_time rest) * 4 + 4"
proof -
  let ?n = "perbill_mul_weight pb (NORMAL_DISPATCH_RATIO pb) maximum"
  have le: "ref_time ?n \<le> ref_time maximum" "proof_size ?n \<le> proof_size maximum"
    and share: "unat (ref_time ?n) * 100 < 75 * unat (ref_time maximum) + 100" "75 * unat (ref_time maximum) < unat (ref_time ?n) * 100 + 100"
    using perbill_le [OF assms(1), of 75] by (simp_all add: perbill_mul_weight_def NORMAL_DISPATCH_RATIO_def from_parts_def)
  have sub: "unat (ref_time (weight_sub maximum ?n)) = unat (ref_time maximum) - unat (ref_time ?n)"
    "unat (proof_size (weight_sub maximum ?n)) = unat (proof_size maximum) - unat (proof_size ?n)"
    using le by (simp_all add: weight_sub_def unat_sub)
  have "unat (ref_time ?n) \<le> unat (ref_time maximum)" "unat (proof_size ?n) \<le> unat (proof_size maximum)"
    using le by (simp_all add: word_le_nat_alt)
  then show ?thesis using share
    by (auto simp: bw_def RuntimeBlockWeights_def Let_def sub)
qed

lemma message_budget:
  assumes "perbill_ok pb"
  shows "unat (ref_time (ReservedXcmpWeight maximum)) + unat (ref_time (ReservedDmpWeight maximum)) \<le> unat (ref_time maximum) div 2"
    "unat (ref_time (MessageQueueServiceWeight pb maximum)) * 100 < 35 * unat (ref_time maximum) + 100"
    "AVERAGE_ON_INITIALIZE_RATIO pb = 5 * 10 ^ 7"
  using assms perbill_le(2) [OF assms, of 35]
  by (simp_all add: ReservedXcmpWeight_def ReservedDmpWeight_def weight_saturating_div_def MessageQueueServiceWeight_def perbill_mul_weight_def
      from_parts_def unat_div AVERAGE_ON_INITIALIZE_RATIO_def perbill_ok_def)

section \<open>The pallets and their order\<close>

datatype template_pallet = System | ParachainSystem | RandomnessCollectiveFlip | Timestamp | ParachainInfo | Balances
  | TransactionPayment | AuthorInherent | AuthorFilter | PotentialAuthorSet | NimbusAsyncBacking | XcmpQueue | PolkadotXcm
  | CumulusXcm | MessageQueue

definition construct_runtime :: "(template_pallet \<times> u8) list" where
  "construct_runtime =
     [(System, 0), (ParachainSystem, 1), (RandomnessCollectiveFlip, 2), (Timestamp, 3), (ParachainInfo, 4),
      (Balances, 10), (TransactionPayment, 11),
      (AuthorInherent, 20), (AuthorFilter, 21), (PotentialAuthorSet, 22), (NimbusAsyncBacking, 23),
      (XcmpQueue, 30), (PolkadotXcm, 31), (CumulusXcm, 32), (MessageQueue, 33)]"

text \<open>
  A block of the runtime: the executive initialises the system and then calls the hooks, the inherents and the hooks at the
  end of the block pallet by pallet, in the order in which \<^verbatim>\<open>construct_runtime!\<close> declares them. The state is that of
  the authorship pipeline, of the timestamp pallet, whose \<^verbatim>\<open>set\<close> is the parameter \<open>timestamp_set\<close> on the minimum period, the
  previous and the new timestamp, and of the parachain system. Its inherent \<^verbatim>\<open>set_validation_data\<close> first compares the number of the relay
  parent with that of the last block (\<open>check_associated_relay_number\<close>, configured as \<^verbatim>\<open>RelayNumberMonotonicallyIncreases\<close>), then calls the
  consensus hook; what it does after that with the capacity that the hook returns (the state proof, the room in the unincluded segment, the
  messages) is the parameter \<open>set_validation_data\<close> on the state \<open>'sys\<close> of that pallet, and may fail. At the end of the block it
  stores the number of the relay parent. The other pallets do not touch this state.
\<close>

record ('nid, 'acct, 'hash, 'mat, 'sys) runtime_state =
  rt_template :: "('nid, 'acct, 'hash, 'mat) template_state"
  rt_now :: u64
  rt_last_relay :: u32
  rt_system :: 'sys

record ('hash, 'origin) block_input =
  bi_number :: u32
  bi_parent_hash :: 'hash
  bi_logs :: "digest_item list"
  bi_slot :: u32
  bi_relay_slot :: u64
  bi_timestamp :: u64
  bi_origins :: "'origin list"

record ('nid, 'acct, 'hash, 'mat, 'origin, 'd, 'w, 'sys) runtime_env =
  re_flip :: "('hash, 'mat) flip_pallet"
  re_async :: "'w ab_config"
  re_pre_runtime_of :: "digest_item \<Rightarrow> (engine_id \<times> u8 list) option"
  re_decode_id :: "u8 list \<Rightarrow> 'nid option"
  re_sys :: "('origin, 'acct, 'd) frame_system"
  timestamp_set :: "u64 \<Rightarrow> u64 \<Rightarrow> u64 \<Rightarrow> (unit, unit) result"
  check_associated_relay_number :: "u32 \<Rightarrow> u32 \<Rightarrow> (unit, unit) result"
  set_validation_data :: "('hash, 'origin) block_input \<Rightarrow> u32 \<Rightarrow> 'sys \<Rightarrow> (unit, 'sys) result"

fun each_pallet :: "(template_pallet \<Rightarrow> 's \<Rightarrow> ('e, 's) result) \<Rightarrow> (template_pallet \<times> u8) list \<Rightarrow> 's \<Rightarrow> ('e, 's) result" where
  "each_pallet f [] s = Ok s"
| "each_pallet f ((p, i) # ps) s = and_then (f p s) (each_pallet f ps)"

definition on_template ::
    "(('nid, 'acct, 'hash, 'mat) template_state \<Rightarrow> ('e, ('nid, 'acct, 'hash, 'mat) template_state) result)
      \<Rightarrow> ('nid, 'acct, 'hash, 'mat, 'sys) runtime_state \<Rightarrow> ('e, ('nid, 'acct, 'hash, 'mat, 'sys) runtime_state) result" where
  "on_template f s = and_then (f (rt_template s)) (\<lambda>t. Ok (s\<lparr>rt_template := t\<rparr>))"

definition pallet_on_initialize ::
    "('nid, 'acct, 'hash, 'mat, 'origin, 'd, 'w, 'sys) runtime_env \<Rightarrow> template_pallet \<Rightarrow> ('nid, 'acct, 'hash, 'mat, 'sys) runtime_state
      \<Rightarrow> ((unit, 'd) dispatch_error, ('nid, 'acct, 'hash, 'mat, 'sys) runtime_state) result" where
  "pallet_on_initialize env p = (case p of
       RandomnessCollectiveFlip \<Rightarrow> on_template (\<lambda>s. Ok (flip_initialize (re_flip env) s))
     | AuthorInherent \<Rightarrow> on_template (\<lambda>s. and_then (map_err ModuleError (on_initialize_ai (re_pre_runtime_of env) (re_decode_id env)
           (lookup_account_as (ts_authors s)) (ts_digest s) (ts_inherent s))) (\<lambda>ai. Ok (s\<lparr>ts_inherent := ai\<rparr>)))
     | AuthorFilter \<Rightarrow> on_template (\<lambda>s. Ok (s\<lparr>ts_filter := on_initialize_filter False (ts_filter s)\<rparr>))
     | _ \<Rightarrow> Ok)"

definition pallet_inherents ::
    "('nid, 'acct, 'hash, 'mat, 'origin, 'd, 'w, 'sys) runtime_env \<Rightarrow> ('hash, 'origin) block_input \<Rightarrow> template_pallet
      \<Rightarrow> ('nid, 'acct, 'hash, 'mat, 'sys) runtime_state \<Rightarrow> ((unit, 'd) dispatch_error, ('nid, 'acct, 'hash, 'mat, 'sys) runtime_state) result" where
  "pallet_inherents env b p = (case p of
       ParachainSystem \<Rightarrow> (\<lambda>s. and_then (map_err ModuleError (check_associated_relay_number env (bi_slot b) (rt_last_relay s)))
         (\<lambda>_. and_then (map_err ModuleError
           (on_state_proof_inner (re_async env) relay_slot_get_and_verify (bi_relay_slot b) (ts_async (rt_template s))))
         (\<lambda>((_, capacity), async). and_then (map_err ModuleError (set_validation_data env b capacity (rt_system s)))
         (\<lambda>sys. Ok (s\<lparr>rt_template := (rt_template s)\<lparr>ts_async := async\<rparr>, rt_system := sys\<rparr>)))))
     | Timestamp \<Rightarrow> (\<lambda>s. and_then (map_err ModuleError (timestamp_set env MinimumPeriod (rt_now s) (bi_timestamp b)))
         (\<lambda>_. Ok (s\<lparr>rt_now := bi_timestamp b\<rparr>)))
     | AuthorInherent \<Rightarrow> on_template (\<lambda>s. and_then (run_inherents (re_sys env) (template_can_author (re_flip env) s) (bi_slot b)
           (bi_origins b) (ts_inherent s)) (\<lambda>ai. Ok (s\<lparr>ts_inherent := ai\<rparr>)))
     | _ \<Rightarrow> Ok)"

definition pallet_on_finalize :: "('hash, 'origin) block_input \<Rightarrow> template_pallet \<Rightarrow> ('nid, 'acct, 'hash, 'mat, 'sys) runtime_state
      \<Rightarrow> ((unit, 'd) dispatch_error, ('nid, 'acct, 'hash, 'mat, 'sys) runtime_state) result" where
  "pallet_on_finalize b p = (case p of
       ParachainSystem \<Rightarrow> (\<lambda>s. Ok (s\<lparr>rt_last_relay := bi_slot b\<rparr>))
     | AuthorInherent \<Rightarrow> on_template (\<lambda>s. and_then (map_err ModuleError (on_finalize_ai (ts_inherent s))) (\<lambda>ai. Ok (s\<lparr>ts_inherent := ai\<rparr>)))
     | _ \<Rightarrow> Ok)"

definition run_runtime_block ::
    "('nid, 'acct, 'hash, 'mat, 'origin, 'd, 'w, 'sys) runtime_env \<Rightarrow> ('hash, 'origin) block_input \<Rightarrow> ('nid, 'acct, 'hash, 'mat, 'sys) runtime_state
      \<Rightarrow> ((unit, 'd) dispatch_error, ('nid, 'acct, 'hash, 'mat, 'sys) runtime_state) result" where
  "run_runtime_block env b s =
     and_then (each_pallet (pallet_on_initialize env) construct_runtime
       (s\<lparr>rt_template := system_initialize (bi_number b) (bi_parent_hash b) (bi_logs b) (rt_template s)\<rparr>))
     (\<lambda>s. and_then (each_pallet (pallet_inherents env b) construct_runtime s)
     (\<lambda>s. and_then (map_err ModuleError (post_inherents (re_async env) (rt_now s) (ts_async (rt_template s))))
     (\<lambda>_. each_pallet (pallet_on_finalize b) construct_runtime s)))"

text \<open>The block of \<open>Template_Runtime\<close> on the same input.\<close>

definition authorship_block where
  "authorship_block env b = template_run_block (re_flip env) (re_async env) (re_pre_runtime_of env) (re_decode_id env) (re_sys env)
     (bi_number b) (bi_parent_hash b) (bi_logs b) (bi_slot b) (bi_relay_slot b) (bi_timestamp b) (bi_origins b)"

lemma and_then_assoc [simp]: "and_then (and_then r f) g = and_then r (\<lambda>a. and_then (f a) g)"
  by (cases r) simp_all

lemma pallet_indices_distinct: "distinct (map snd construct_runtime) \<and> distinct (map fst construct_runtime)"
  by (simp add: construct_runtime_def)

lemma template_update_order:
  "(s :: ('nid, 'acct, 'hash, 'mat) template_state)\<lparr>ts_async := a, ts_inherent := i\<rparr> = s\<lparr>ts_inherent := i, ts_async := a\<rparr>"
  by simp

lemma can_author_independent:
  "template_can_author fl (s\<lparr>ts_inherent := i, ts_async := a\<rparr>) = template_can_author fl s"
  "template_can_author fl (s\<lparr>ts_inherent := i, ts_filter := ts_filter s, ts_async := a\<rparr>) = template_can_author fl s"
  by (simp_all add: template_can_author_def fun_eq_iff)

lemma runtime_block_Ok_iff:
  "run_runtime_block env b s = Ok t \<longleftrightarrow>
     check_associated_relay_number env (bi_slot b) (rt_last_relay s) = Ok () \<and>
     set_validation_data env b (max (hook_C (re_async env)) 1) (rt_system s) = Ok (rt_system t) \<and>
     timestamp_set env MinimumPeriod (rt_now s) (bi_timestamp b) = Ok () \<and>
     authorship_block env b (rt_template s) = Ok (rt_template t) \<and> rt_now t = bi_timestamp b \<and> rt_last_relay t = bi_slot b"
  by (cases s; cases t)
     (auto simp: run_runtime_block_def construct_runtime_def pallet_on_initialize_def pallet_inherents_def pallet_on_finalize_def
       on_template_def authorship_block_def template_run_block_def Let_def on_initialize_filter_def can_author_independent
       template_update_order on_state_proof_inner_Ok_iff)

section \<open>Timestamps\<close>

text \<open>
  The timestamp pallet, as documented: after the first block, time advances by at least the minimum period. The collators of the
  template put the start of the slot into a block.
\<close>

definition timestamp_pallet_ok :: "('nid, 'acct, 'hash, 'mat, 'origin, 'd, 'w, 'sys) runtime_env \<Rightarrow> bool" where
  "timestamp_pallet_ok env \<longleftrightarrow>
     (\<forall>period prev now. timestamp_set env period prev now = Ok () \<longleftrightarrow> prev = 0 \<or> unat prev + unat period \<le> unat now)"

text \<open>\<^verbatim>\<open>RelayNumberMonotonicallyIncreases\<close>, as documented: the number of the relay parent increases from block to block.\<close>

definition relay_number_ok :: "('nid, 'acct, 'hash, 'mat, 'origin, 'd, 'w, 'sys) runtime_env \<Rightarrow> bool" where
  "relay_number_ok env \<longleftrightarrow> (\<forall>current previous. check_associated_relay_number env current previous = Ok () \<longleftrightarrow> previous < current)"

text \<open>The relay slot of a block has no block yet.\<close>

definition relay_slot_free :: "u64 \<Rightarrow> ('nid, 'acct, 'hash, 'mat, 'sys) runtime_state \<Rightarrow> bool" where
  "relay_slot_free slot s \<longleftrightarrow>
     (case SlotInfo (ts_async (rt_template s)) of None \<Rightarrow> True | Some (last_slot, _) \<Rightarrow> last_slot < slot)"

definition slot_start_block :: "('hash, 'origin) block_input \<Rightarrow> bool" where
  "slot_start_block b \<longleftrightarrow> unat (bi_timestamp b) = unat MILLISECS_PER_BLOCK * unat (bi_relay_slot b)"

definition runtime_start :: "('nid, 'acct, 'hash, 'mat, 'sys) runtime_state \<Rightarrow> bool" where
  "runtime_start s \<longleftrightarrow> SlotInfo (ts_async (rt_template s)) = None \<and> rt_now s = 0"

definition runtime_step where
  "runtime_step env s t \<longleftrightarrow> (\<exists>b. slot_start_block b \<and> run_runtime_block env b s = Ok t)"

definition now_is_slot_start :: "('nid, 'acct, 'hash, 'mat, 'sys) runtime_state \<Rightarrow> bool" where
  "now_is_slot_start s \<longleftrightarrow> (case SlotInfo (ts_async (rt_template s)) of
     None \<Rightarrow> rt_now s = 0 | Some (last_slot, _) \<Rightarrow> unat (rt_now s) = unat MILLISECS_PER_BLOCK * unat last_slot)"

lemma authorship_block_slot:
  assumes "authorship_block env b s = Ok t"
  shows "\<exists>n. SlotInfo (ts_async t) = Some (bi_relay_slot b, n)"
  using assms
  by (auto simp: authorship_block_def template_run_block_def Let_def on_state_proof_inner_Ok_iff next_slot_info_def slot_accepted_def
      split: option.splits if_splits)

lemma authorship_block_free:
  assumes "authorship_block env b (rt_template s) = Ok t" "re_async env = template_ab_config from_ts rw"
  shows "relay_slot_free (bi_relay_slot b) s"
  using assms
  by (auto simp: authorship_block_def template_run_block_def Let_def on_state_proof_inner_Ok_iff slot_accepted_def relay_slot_free_def
      flip_initialize_def system_initialize_def template_consts split: option.splits)

text \<open>A block runs exactly if every check of the parachain system and of the timestamp pallet passes and its authorship part runs.\<close>

lemma runtime_block_is_ok_iff:
  assumes "re_async env = template_ab_config from_ts rw" "relay_number_ok env"
  shows "is_ok (run_runtime_block env b s) \<longleftrightarrow> rt_last_relay s < bi_slot b \<and> is_ok (set_validation_data env b 1 (rt_system s)) \<and>
     timestamp_set env MinimumPeriod (rt_now s) (bi_timestamp b) = Ok () \<and> is_ok (authorship_block env b (rt_template s))"
    (is "_ \<longleftrightarrow> ?checks")
proof
  assume ?checks
  then obtain sys t where "set_validation_data env b 1 (rt_system s) = Ok sys" "authorship_block env b (rt_template s) = Ok t"
    by (auto simp: is_ok_iff)
  with \<open>?checks\<close> assms
  have "run_runtime_block env b s = Ok \<lparr>rt_template = t, rt_now = bi_timestamp b, rt_last_relay = bi_slot b, rt_system = sys\<rparr>"
    by (simp add: runtime_block_Ok_iff relay_number_ok_def template_consts)
  then show "is_ok (run_runtime_block env b s)" by simp
qed (use assms in \<open>auto simp: is_ok_iff runtime_block_Ok_iff relay_number_ok_def template_consts\<close>)

interpretation runtime_time: invariant_system runtime_start "runtime_step env" now_is_slot_start for env
proof unfold_locales
  show "now_is_slot_start t" if "now_is_slot_start s" "runtime_step env s t" for s t
  proof -
    from that(2) obtain b where b: "slot_start_block b" "authorship_block env b (rt_template s) = Ok (rt_template t)" "rt_now t = bi_timestamp b"
      by (auto simp: runtime_step_def runtime_block_Ok_iff)
    from authorship_block_slot [OF b(2)] b(1,3) show ?thesis by (auto simp: now_is_slot_start_def slot_start_block_def)
  qed
qed (simp add: runtime_start_def now_is_slot_start_def)

lemma slot_start_accepted:
  assumes "now_is_slot_start s" "slot_start_block b" "timestamp_pallet_ok env" "relay_slot_free (bi_relay_slot b) s"
  shows "timestamp_set env MinimumPeriod (rt_now s) (bi_timestamp b) = Ok ()"
proof (cases "SlotInfo (ts_async (rt_template s))")
  case None
  with assms(1,3) show ?thesis by (simp add: now_is_slot_start_def timestamp_pallet_ok_def)
next
  case (Some info)
  obtain last_slot n where info: "info = (last_slot, n)" by (cases info)
  from assms(4) Some info have "unat last_slot + 1 \<le> unat (bi_relay_slot b)" by (simp add: relay_slot_free_def word_less_nat_alt Suc_le_eq)
  then have "6000 * (unat last_slot + 1) \<le> 6000 * unat (bi_relay_slot b)" by (rule mult_le_mono2)
  with assms(1,2,3) Some info show ?thesis
    by (simp add: now_is_slot_start_def slot_start_block_def timestamp_pallet_ok_def config_consts)
qed

lemma slot_start_division:
  assumes "slot_start_block b"
  shows "6000 * unat (bi_relay_slot b) < 2 ^ 64" "bi_timestamp b div MILLISECS_PER_BLOCK = bi_relay_slot b"
proof -
  have "unat (bi_timestamp b) < 2 ^ 64" by (rule order_less_le_trans [OF unsigned_less]) simp
  then show "6000 * unat (bi_relay_slot b) < 2 ^ 64"
    using assms by (simp add: slot_start_block_def MILLISECS_PER_BLOCK_def)
  have "unat (bi_timestamp b div MILLISECS_PER_BLOCK) = unat (bi_relay_slot b)"
    using assms by (simp add: slot_start_block_def MILLISECS_PER_BLOCK_def unat_div)
  then show "bi_timestamp b div MILLISECS_PER_BLOCK = bi_relay_slot b" by (simp only: word_unat_eq_iff)
qed

lemma runtime_block_runs_if_predicted:
  assumes "reachable runtime_start (runtime_step env) s" "re_async env = template_ab_config from_ts rw" "from_timestamp_div from_ts"
    and "timestamp_pallet_ok env" "relay_number_ok env" "slot_start_block b"
    and "re_pre_runtime_of env = as_pre_runtime api" "digest_api_ok c api" "re_decode_id env (encode id_codec nid) = Some nid"
    and "bi_number b = number_of parent + 1" "bi_parent_hash b = hash_of parent" "bi_logs b = nimbus_pre_digest id_codec nid # rest"
    and "bi_origins b = [origin]" "ensure_none (re_sys env) origin = Inr ()"
  shows "is_ok (run_runtime_block env b s) \<longleftrightarrow>
     nimbus_api_can_author (re_flip env) number_of hash_of (rt_template s) nid (bi_slot b) parent = Ok True \<and>
     rt_last_relay s < bi_slot b \<and> relay_slot_free (bi_relay_slot b) s \<and> is_ok (set_validation_data env b 1 (rt_system s))"
proof (cases "relay_slot_free (bi_relay_slot b) s")
  case True
  have time: "timestamp_set env MinimumPeriod (rt_now s) (bi_timestamp b) = Ok ()"
    by (rule slot_start_accepted [OF runtime_time.invar_reachable [OF assms(1)] assms(6,4) True])
  have "is_ok (authorship_block env b (rt_template s)) \<longleftrightarrow>
      nimbus_api_can_author (re_flip env) number_of hash_of (rt_template s) nid (bi_slot b) parent = Ok True"
    unfolding authorship_block_def assms(2,7,10-13)
      template_block_iff [where decode_id = "re_decode_id env" and nid = nid, OF assms(3) slot_start_division [OF assms(6)]
        True [unfolded relay_slot_free_def] assms(8,9,14)]
    by (rule prediction_iff [symmetric])
  with True time show ?thesis unfolding runtime_block_is_ok_iff [OF assms(2,5)] by blast
next
  case False
  then have "\<not> is_ok (authorship_block env b (rt_template s))" using authorship_block_free [OF _ assms(2)] by (auto simp: is_ok_iff)
  with False show ?thesis unfolding runtime_block_is_ok_iff [OF assms(2,5)] by blast
qed


text \<open>
  The check of the async backing pallet alone does not keep the minimum period: timestamps in two successive slots may be closer,
  and then the timestamp pallet refuses the second block.
\<close>

lemma close_timestamps_refused:
  assumes "timestamp_pallet_ok env" "rt_now s = 5999" "bi_timestamp b = 6000"
  shows "bi_timestamp b div MILLISECS_PER_BLOCK = rt_now s div MILLISECS_PER_BLOCK + 1 \<and> \<not> is_ok (run_runtime_block env b s)"
  using assms by (auto simp: is_ok_iff runtime_block_Ok_iff timestamp_pallet_ok_def config_consts)

definition demo_runtime_env :: "(u8, nat, nat, nat list, raw_origin, string, nat, unit) runtime_env" where
  "demo_runtime_env = \<lparr>re_flip = template_flip, re_async = template_ab_config (div) (\<lambda>r w. r + w),
     re_pre_runtime_of = as_pre_runtime (demo_digest_api byte_codec), re_decode_id = (\<lambda>bs. map_option fst (decode byte_codec bs)),
     re_sys = raw_system, timestamp_set = (\<lambda>period prev now. assert_that (prev = 0 \<or> unat prev + unat period \<le> unat now) ''Timestamp''),
     check_associated_relay_number = (\<lambda>current previous. assert_that (previous < current) ''Relay chain block number''),
     set_validation_data = (\<lambda>b capacity sys. Ok sys)\<rparr>"

lemma demo_runtime_env_simps:
  "re_flip demo_runtime_env = template_flip" "re_sys demo_runtime_env = raw_system"
  "re_decode_id demo_runtime_env = (\<lambda>bs. map_option fst (decode byte_codec bs))"
  "re_async demo_runtime_env = template_ab_config (div) (\<lambda>r w. r + w)" "re_pre_runtime_of demo_runtime_env = as_pre_runtime (demo_digest_api byte_codec)"
  "timestamp_pallet_ok demo_runtime_env" "relay_number_ok demo_runtime_env" "set_validation_data demo_runtime_env b cap sys = Ok sys"
  by (simp_all add: demo_runtime_env_def timestamp_pallet_ok_def relay_number_ok_def assert_that_def)

definition demo_runtime_block :: "u8 \<Rightarrow> (nat, raw_origin) block_input" where
  "demo_runtime_block nid = \<lparr>bi_number = 5, bi_parent_hash = 4, bi_logs = [nimbus_pre_digest byte_codec nid], bi_slot = 9, bi_relay_slot = 9,
     bi_timestamp = 54000, bi_origins = [Unsigned]\<rparr>"

definition demo_runtime_state :: "(u8, nat, nat, nat list, unit) runtime_state" where
  "demo_runtime_state = \<lparr>rt_template = template_demo\<lparr>ts_async := ab_genesis\<rparr>, rt_now = 0, rt_last_relay = 0, rt_system = ()\<rparr>"


section \<open>Runtime APIs and validation\<close>

text \<open>
  The executive of the SDK and the entry points of its pallets that the runtime APIs pass on to; \<open>'st\<close> is the whole state of the chain.
  The APIs with a body of their own are in \<open>Template_Runtime\<close> and \<open>Template_Node\<close> (\<open>nimbus_api_can_author\<close>, \<open>template_api_can_build_upon\<close>,
  \<open>template_relay_parent_offset\<close>, \<open>template_genesis\<close>).
\<close>

record ('st, 'body, 'ext, 'hash, 'mode, 'app, 'data, 'checked, 'src, 'val, 'acct, 'uxt, 'info, 'fees, 'cinfo) executive =
  ex_execute_block :: "'body header \<Rightarrow> 'ext list \<Rightarrow> 'st \<Rightarrow> (unit, 'st) result"
  ex_execute_verified_block :: "'body header \<Rightarrow> 'ext list \<Rightarrow> 'st \<Rightarrow> (unit, 'st) result"
  ex_initialize_block :: "'body header \<Rightarrow> 'st \<Rightarrow> 'mode \<times> 'st"
  ex_apply_extrinsic :: "'ext \<Rightarrow> 'st \<Rightarrow> 'app \<times> 'st"
  ex_finalize_block :: "'st \<Rightarrow> 'body header \<times> 'st"
  create_extrinsics :: "'data \<Rightarrow> 'st \<Rightarrow> 'ext list"
  check_extrinsics :: "'data \<Rightarrow> 'body header \<Rightarrow> 'ext list \<Rightarrow> 'st \<Rightarrow> 'checked"
  ex_validate_transaction :: "'src \<Rightarrow> 'ext \<Rightarrow> 'hash \<Rightarrow> 'st \<Rightarrow> 'val"
  runtime_metadata :: "u8 list"
  runtime_metadata_at_version :: "u32 \<Rightarrow> u8 list option"
  runtime_metadata_versions :: "u32 list"
  ex_offchain_worker :: "'body header \<Rightarrow> 'st \<Rightarrow> 'st"
  session_keys_generate :: "u8 list \<Rightarrow> u8 list option \<Rightarrow> u8 list"
  decode_into_raw_public_keys :: "u8 list \<Rightarrow> (u8 list \<times> u8 list) list option"
  system_account_nonce :: "'acct \<Rightarrow> 'st \<Rightarrow> u32"
  payment_query_info :: "'uxt \<Rightarrow> u32 \<Rightarrow> 'st \<Rightarrow> 'info"
  payment_query_fee_details :: "'uxt \<Rightarrow> u32 \<Rightarrow> 'st \<Rightarrow> 'fees"
  payment_weight_to_fee :: "weight \<Rightarrow> u128"
  payment_length_to_fee :: "u32 \<Rightarrow> u128"
  system_collect_collation_info :: "'body header \<Rightarrow> 'st \<Rightarrow> 'cinfo"

record ('st, 'body, 'ext, 'hash, 'mode, 'app, 'data, 'checked, 'src, 'val, 'acct, 'uxt, 'info, 'fees, 'cinfo) runtime_apis =
  api_version :: Template_Config.runtime_version
  api_execute_block :: "'body header \<Rightarrow> 'ext list \<Rightarrow> 'st \<Rightarrow> (unit, 'st) result"
  api_initialize_block :: "'body header \<Rightarrow> 'st \<Rightarrow> 'mode \<times> 'st"
  api_apply_extrinsic :: "'ext \<Rightarrow> 'st \<Rightarrow> 'app \<times> 'st"
  api_finalize_block :: "'st \<Rightarrow> 'body header \<times> 'st"
  api_inherent_extrinsics :: "'data \<Rightarrow> 'st \<Rightarrow> 'ext list"
  api_check_inherents :: "'body header \<Rightarrow> 'ext list \<Rightarrow> 'data \<Rightarrow> 'st \<Rightarrow> 'checked"
  api_validate_transaction :: "'src \<Rightarrow> 'ext \<Rightarrow> 'hash \<Rightarrow> 'st \<Rightarrow> 'val"
  api_metadata :: "u8 list"
  api_metadata_at_version :: "u32 \<Rightarrow> u8 list option"
  api_metadata_versions :: "u32 list"
  api_offchain_worker :: "'body header \<Rightarrow> 'st \<Rightarrow> 'st"
  api_generate_session_keys :: "u8 list \<Rightarrow> u8 list option \<Rightarrow> u8 list"
  api_decode_session_keys :: "u8 list \<Rightarrow> (u8 list \<times> u8 list) list option"
  api_account_nonce :: "'acct \<Rightarrow> 'st \<Rightarrow> u32"
  api_query_info :: "'uxt \<Rightarrow> u32 \<Rightarrow> 'st \<Rightarrow> 'info"
  api_query_fee_details :: "'uxt \<Rightarrow> u32 \<Rightarrow> 'st \<Rightarrow> 'fees"
  api_query_weight_to_fee :: "weight \<Rightarrow> u128"
  api_query_length_to_fee :: "u32 \<Rightarrow> u128"
  api_collect_collation_info :: "'body header \<Rightarrow> 'st \<Rightarrow> 'cinfo"
  api_preset_names :: "string list"
  api_get_preset :: "string option \<Rightarrow> u8 list option"

definition impl_runtime_apis where
  "impl_runtime_apis ex get_preset = \<lparr>
     api_version = VERSION,
     api_execute_block = ex_execute_block ex,
     api_initialize_block = ex_initialize_block ex,
     api_apply_extrinsic = ex_apply_extrinsic ex,
     api_finalize_block = ex_finalize_block ex,
     api_inherent_extrinsics = create_extrinsics ex,
     api_check_inherents = (\<lambda>hdr body data. check_extrinsics ex data hdr body),
     api_validate_transaction = ex_validate_transaction ex,
     api_metadata = runtime_metadata ex,
     api_metadata_at_version = runtime_metadata_at_version ex,
     api_metadata_versions = runtime_metadata_versions ex,
     api_offchain_worker = ex_offchain_worker ex,
     api_generate_session_keys = session_keys_generate ex,
     api_decode_session_keys = decode_into_raw_public_keys ex,
     api_account_nonce = system_account_nonce ex,
     api_query_info = payment_query_info ex,
     api_query_fee_details = payment_query_fee_details ex,
     api_query_weight_to_fee = payment_weight_to_fee ex,
     api_query_length_to_fee = payment_length_to_fee ex,
     api_collect_collation_info = system_collect_collation_info ex,
     api_preset_names = [],
     api_get_preset = (\<lambda>id. get_preset id (\<lambda>_. None))\<rparr>"

text \<open>
  \<^verbatim>\<open>register_validate_block!\<close> names the block executor of the author inherent pallet on top of the executive: it checks and removes
  the seal, and hands the rest to the executive (\<^verbatim>\<open>execute_verified_block\<close> of \<^verbatim>\<open>exec.rs\<close>).
\<close>

definition validate_block where
  "validate_block crypto ex hdr body st =
     and_then (verify_and_remove_seal crypto hdr) (\<lambda>stripped. execute_verified_block (\<lambda>(hdr, body). ex_execute_verified_block ex hdr body st) (stripped, body))"

text \<open>
  C14: What relay chain validators run on a block that a node verified: if the first pre-runtime author digest names a key under which the
  seal is valid, they run the executive of the runtime on exactly the header that the verifier stripped and the node imports, and
  otherwise they refuse the block with a panic. Without a consensus author digest, which only the verifier reads, it is never refused.
\<close>

theorem validators_run_verified_block:
  assumes "verify cl lib ic p = Ok q"
    and "\<not> with_state lib p" "\<not> skip_execution_checks lib (state_action p)"
  shows "(if \<exists>bytes author signature. claimed_author (digest_logs (bip_header q)) = Some bytes \<and> nimbus_from_slice (nc_crypto cl) bytes = Some author \<and>
        as_nimbus_seal (sig_api (nc_crypto cl)) (last (digest_logs (bip_header p))) = Some signature \<and>
        sig_verify (nc_crypto cl) author (header_hash (nc_crypto cl) (bip_header q)) signature
      then validate_block (nc_crypto cl) ex (bip_header p) body st = ex_execute_verified_block ex (bip_header q) body st
      else \<exists>m. validate_block (nc_crypto cl) ex (bip_header p) body st = Panic m) \<and>
     (no_consensus_author (digest_logs (bip_header p)) \<longrightarrow>
        validate_block (nc_crypto cl) ex (bip_header p) body st = ex_execute_verified_block ex (bip_header q) body st)"
proof -
  from assms obtain seal_item signature bytes author hdr where
    v: "digest_logs (bip_header p) = digest_logs hdr @ [seal_item]"
    "hdr = (bip_header p)\<lparr>digest_logs := butlast (digest_logs (bip_header p))\<rparr>"
    "as_nimbus_seal (sig_api (nc_crypto cl)) seal_item = Some signature"
    "q = p\<lparr>bip_header := hdr, post_digests := post_digests p @ [seal_item], fork_choice := Some LongestChain\<rparr>"
    by (rule verify_OkE)
  have "validate_block (nc_crypto cl) ex (bip_header p) body st =
      (case Option.bind (claimed_author (digest_logs hdr)) (nimbus_from_slice (nc_crypto cl)) of
         Some author \<Rightarrow> if sig_verify (nc_crypto cl) author (header_hash (nc_crypto cl) hdr) signature
           then ex_execute_verified_block ex hdr body st else Panic ''Block signature invalid''
       | None \<Rightarrow> if claimed_author (digest_logs hdr) = None then Panic ''Expected pre-runtime digest that contains author id bytes''
           else Panic ''Expected claimed author to be a valid NimbusId.'')"
    unfolding validate_block_def verify_and_remove_seal_def Let_def v(2) [symmetric]
    by (simp add: v(1,3) execute_verified_block_def expect_def assert_that_def split: option.splits)
  then have "if \<exists>bytes author signature. claimed_author (digest_logs (bip_header q)) = Some bytes \<and> nimbus_from_slice (nc_crypto cl) bytes = Some author \<and>
        as_nimbus_seal (sig_api (nc_crypto cl)) (last (digest_logs (bip_header p))) = Some signature \<and>
        sig_verify (nc_crypto cl) author (header_hash (nc_crypto cl) (bip_header q)) signature
      then validate_block (nc_crypto cl) ex (bip_header p) body st = ex_execute_verified_block ex (bip_header q) body st
      else \<exists>m. validate_block (nc_crypto cl) ex (bip_header p) body st = Panic m"
    by (auto simp: v(1,3,4) split: option.splits bind_splits)
  moreover have "validate_block (nc_crypto cl) ex (bip_header p) body st = ex_execute_verified_block ex (bip_header q) body st"
    if "no_consensus_author (digest_logs (bip_header p))"
    using verified_seal_accepted [OF assms that] by (simp add: validate_block_def execute_verified_block_def)
  ultimately show ?thesis by blast
qed

definition demo_executive :: "(nat list, nat, nat, nat, unit, unit, unit, unit, unit, unit, nat, unit, unit, unit, unit) executive" where
  "demo_executive = \<lparr>ex_execute_block = (\<lambda>hdr body st. Ok (header_rest hdr # body @ st)),
     ex_execute_verified_block = (\<lambda>hdr body st. Ok (header_rest hdr # body @ st)), ex_initialize_block = (\<lambda>_ st. ((), st)),
     ex_apply_extrinsic = (\<lambda>_ st. ((), st)), ex_finalize_block = (\<lambda>st. (demo_parent, st)), create_extrinsics = (\<lambda>_ _. []),
     check_extrinsics = (\<lambda>_ _ _ _. ()), ex_validate_transaction = (\<lambda>_ _ _ _. ()), runtime_metadata = [],
     runtime_metadata_at_version = (\<lambda>_. None), runtime_metadata_versions = [], ex_offchain_worker = (\<lambda>_ st. st), session_keys_generate = (\<lambda>_ _. []),
     decode_into_raw_public_keys = (\<lambda>_. None), system_account_nonce = (\<lambda>_ _. 0),
     payment_query_info = (\<lambda>_ _ _. ()), payment_query_fee_details = (\<lambda>_ _ _. ()), payment_weight_to_fee = (\<lambda>_. 0), payment_length_to_fee = (\<lambda>_. 0),
     system_collect_collation_info = (\<lambda>_ _. ())\<rparr>"

theorem validators_run_verified_block_witness:
  "\<exists>q. verify demo_client demo_import_lib demo_inherent_checks (demo_received demo_sealed) = Ok q \<and>
     validate_block demo_seal_crypto demo_executive demo_sealed [1] [] = ex_execute_verified_block demo_executive (bip_header q) [1] []"
proof -
  obtain q where q: "verify demo_client demo_import_lib demo_inherent_checks (demo_received demo_sealed) = Ok q"
    by (simp add: verify_def check_body_def as_nimbus_seal_def client_demo_simps)
  have hyps: "\<not> with_state demo_import_lib (demo_received demo_sealed)"
    "\<not> skip_execution_checks demo_import_lib (state_action (demo_received demo_sealed))"
    "no_consensus_author (digest_logs (bip_header (demo_received demo_sealed)))"
    by (simp_all add: client_demo_simps no_consensus_author_def)
  from validators_run_verified_block [OF q hyps(1,2), of demo_executive "[1]" "[]"] hyps(3) q show ?thesis by (simp add: client_demo_simps)
qed

end
