(* ===== verification/Template_Xcm.thy ===== *)
theory Template_Xcm
  imports Template_Runtime Xcm_Precompiles
begin

text \<open>
  The XCM configuration of the template runtime (\<^verbatim>\<open>template/runtime/src/lib.rs\<close>): how locations become accounts and origins, which
  messages may execute, which assets are accepted from whom, and how messages are routed. The building blocks of
  \<^verbatim>\<open>staging_xcm_builder\<close> are parameters with their documented behaviour; the configuration is how the runtime puts them together.
\<close>

section \<open>The building blocks\<close>

datatype origin_kind = SovereignAccount | NativeKind | SuperuserKind | XcmKind

text \<open>
  The origins of the runtime: those of the system, of \<^verbatim>\<open>PolkadotXcm\<close> and of \<^verbatim>\<open>CumulusXcm\<close>, the pallets that are declared with an origin.
\<close>

datatype 'acct runtime_origin = RootOrigin | SignedOrigin 'acct | NoneOrigin | XcmOrigin location | RelayOrigin | SiblingParachainOrigin u32

text \<open>
  \<open>'msg\<close> are the XCM messages, \<open>'sent\<close> what a router delivers. The converters of locations into accounts answer \<^verbatim>\<open>None\<close> for a
  location they do not know; those into origins and the routers pass such a location on to the next of a tuple.
\<close>

record ('acct, 'msg, 'sent) xcm_builder =
  parent_is_preset :: "location \<Rightarrow> 'acct option"
  sibling_parachain_converts_via :: "location \<Rightarrow> 'acct option"
  account_id32_aliases :: "nat option \<Rightarrow> location \<Rightarrow> 'acct option"
  sovereign_signed_via_location :: "(location \<Rightarrow> 'acct option) \<Rightarrow> location \<Rightarrow> origin_kind \<Rightarrow> 'acct runtime_origin option"
  relay_chain_as_native :: "'acct runtime_origin \<Rightarrow> location \<Rightarrow> origin_kind \<Rightarrow> 'acct runtime_origin option"
  sibling_parachain_as_native :: "location \<Rightarrow> origin_kind \<Rightarrow> 'acct runtime_origin option"
  parent_as_superuser :: "location \<Rightarrow> origin_kind \<Rightarrow> 'acct runtime_origin option"
  signed_account_id32_as_native :: "nat option \<Rightarrow> location \<Rightarrow> origin_kind \<Rightarrow> 'acct runtime_origin option"
  xcm_passthrough :: "location \<Rightarrow> origin_kind \<Rightarrow> 'acct runtime_origin option"
  native_asset :: "xcm_asset \<Rightarrow> location \<Rightarrow> bool"
  is_concrete :: "location \<Rightarrow> xcm_asset \<Rightarrow> u128 option"
  take_weight_credit :: "location \<Rightarrow> 'msg \<Rightarrow> weight \<Rightarrow> weight \<Rightarrow> bool"
  allow_top_level_paid_execution_from :: "(location \<Rightarrow> bool) \<Rightarrow> location \<Rightarrow> 'msg \<Rightarrow> weight \<Rightarrow> weight \<Rightarrow> bool"
  allow_unpaid_execution_from :: "(location \<Rightarrow> bool) \<Rightarrow> location \<Rightarrow> 'msg \<Rightarrow> weight \<Rightarrow> weight \<Rightarrow> bool"
  parent_as_ump :: "location \<Rightarrow> 'msg \<Rightarrow> 'sent option"
  xcmp_queue :: "location \<Rightarrow> 'msg \<Rightarrow> 'sent option"
  signed_to_account_id32 :: "nat option \<Rightarrow> 'acct runtime_origin \<Rightarrow> location option"

fun first_some :: "('a \<Rightarrow> 'b option) list \<Rightarrow> 'a \<Rightarrow> 'b option" where
  "first_some [] a = None"
| "first_some (f # fs) a = (case f a of Some b \<Rightarrow> Some b | None \<Rightarrow> first_some fs a)"

section \<open>The configuration\<close>

definition RocLocation :: location where
  "RocLocation = location_new 1 []"

definition RelayNetwork :: "nat option" where
  "RelayNetwork = None"

definition RelayChainOrigin :: "'acct runtime_origin" where
  "RelayChainOrigin = RelayOrigin"

definition UniversalLocation :: "u32 \<Rightarrow> junction list" where
  "UniversalLocation parachain_id = [Parachain parachain_id]"

definition LocationToAccountId :: "('acct, 'msg, 'sent) xcm_builder \<Rightarrow> location \<Rightarrow> 'acct option" where
  "LocationToAccountId lib = first_some
     [parent_is_preset lib, sibling_parachain_converts_via lib, account_id32_aliases lib RelayNetwork]"

text \<open>The asset transactor: which amount of the balances pallet an asset is, if any.\<close>

definition LocalAssetTransactor :: "('acct, 'msg, 'sent) xcm_builder \<Rightarrow> xcm_asset \<Rightarrow> u128 option" where
  "LocalAssetTransactor lib = is_concrete lib RocLocation"

definition XcmOriginToTransactDispatchOrigin :: "('acct, 'msg, 'sent) xcm_builder \<Rightarrow> location \<Rightarrow> origin_kind \<Rightarrow> 'acct runtime_origin option" where
  "XcmOriginToTransactDispatchOrigin lib l k = first_some
     [\<lambda>(l, k). sovereign_signed_via_location lib (LocationToAccountId lib) l k,
      \<lambda>(l, k). relay_chain_as_native lib RelayChainOrigin l k,
      \<lambda>(l, k). sibling_parachain_as_native lib l k,
      \<lambda>(l, k). parent_as_superuser lib l k,
      \<lambda>(l, k). signed_account_id32_as_native lib RelayNetwork l k,
      \<lambda>(l, k). xcm_passthrough lib l k] (l, k)"

definition UnitWeightCost :: weight where
  "UnitWeightCost = from_parts 1000000000 1000000000"

definition MaxInstructions :: u32 where
  "MaxInstructions = 100"

definition MaxAssetsIntoHolding :: u32 where
  "MaxAssetsIntoHolding = 64"

text \<open>A tuple of barriers lets a message through if one of them does.\<close>

definition Barrier :: "('acct, 'msg, 'sent) xcm_builder \<Rightarrow> location \<Rightarrow> 'msg \<Rightarrow> weight \<Rightarrow> weight \<Rightarrow> bool" where
  "Barrier lib origin msg max_weight weight_credit \<longleftrightarrow>
     take_weight_credit lib origin msg max_weight weight_credit \<or>
     allow_top_level_paid_execution_from lib (\<lambda>_. True) origin msg max_weight weight_credit \<or>
     allow_unpaid_execution_from lib parent_or_parents_executive_plurality origin msg max_weight weight_credit"

definition XcmRouter :: "('acct, 'msg, 'sent) xcm_builder \<Rightarrow> location \<Rightarrow> 'msg \<Rightarrow> 'sent option" where
  "XcmRouter lib dest msg = first_some [\<lambda>(dest, msg). parent_as_ump lib dest msg, \<lambda>(dest, msg). xcmp_queue lib dest msg] (dest, msg)"

text \<open>The configuration of the executor. The handlers that are the unit type or the XCM pallet itself are left out.\<close>

record ('acct, 'msg, 'sent) xcm_config =
  xc_XcmSender :: "location \<Rightarrow> 'msg \<Rightarrow> 'sent option"
  xc_AssetTransactor :: "xcm_asset \<Rightarrow> u128 option"
  xc_OriginConverter :: "location \<Rightarrow> origin_kind \<Rightarrow> 'acct runtime_origin option"
  xc_IsReserve :: "xcm_asset \<Rightarrow> location \<Rightarrow> bool"
  xc_IsTeleporter :: "xcm_asset \<Rightarrow> location \<Rightarrow> bool"
  xc_UniversalLocation :: "junction list"
  xc_Barrier :: "location \<Rightarrow> 'msg \<Rightarrow> weight \<Rightarrow> weight \<Rightarrow> bool"
  xc_UnitWeightCost :: weight
  xc_MaxInstructions :: u32
  xc_MaxAssetsIntoHolding :: u32
  xc_UniversalAliases :: "location \<Rightarrow> junction \<Rightarrow> bool"
  xc_Aliasers :: "location \<Rightarrow> location \<Rightarrow> bool"

definition XcmConfig :: "('acct, 'msg, 'sent) xcm_builder \<Rightarrow> u32 \<Rightarrow> ('acct, 'msg, 'sent) xcm_config" where
  "XcmConfig lib parachain_id = \<lparr>xc_XcmSender = XcmRouter lib, xc_AssetTransactor = LocalAssetTransactor lib, xc_OriginConverter = XcmOriginToTransactDispatchOrigin lib,
     xc_IsReserve = native_asset lib, xc_IsTeleporter = native_asset lib, xc_UniversalLocation = UniversalLocation parachain_id,
     xc_Barrier = Barrier lib, xc_UnitWeightCost = UnitWeightCost, xc_MaxInstructions = MaxInstructions,
     xc_MaxAssetsIntoHolding = MaxAssetsIntoHolding, xc_UniversalAliases = (\<lambda>_ _. False), xc_Aliasers = (\<lambda>_ _. False)\<rparr>"

definition LocalOriginToLocation :: "('acct, 'msg, 'sent) xcm_builder \<Rightarrow> 'acct runtime_origin \<Rightarrow> location option" where
  "LocalOriginToLocation lib = signed_to_account_id32 lib RelayNetwork"

section \<open>The documented behaviour of the building blocks\<close>

text \<open>
  \<open>account_of\<close> is the account of 32 bytes, \<open>para_account\<close> and \<open>parent_account\<close> the sovereign accounts of a sibling and of the relay chain,
  which do not collide. \<open>pays\<close> says of a message that it buys its execution.
\<close>

fun sibling_of :: "location \<Rightarrow> u32 option" where
  "sibling_of l = (case interior l of [Parachain i] \<Rightarrow> if parents l = 1 then Some i else None | _ \<Rightarrow> None)"

fun local_account_of :: "nat option \<Rightarrow> location \<Rightarrow> H256 option" where
  "local_account_of net l = (case interior l of
     [AccountId32 n i] \<Rightarrow> if parents l = 0 \<and> (n = None \<or> n = net) then Some i else None | _ \<Rightarrow> None)"

definition xcm_accounts_ok :: "(H256 \<Rightarrow> 'acct) \<Rightarrow> (u32 \<Rightarrow> 'acct) \<Rightarrow> 'acct \<Rightarrow> ('acct, 'msg, 'sent) xcm_builder \<Rightarrow> bool" where
  "xcm_accounts_ok account_of para_account parent_account lib \<longleftrightarrow>
     inj para_account \<and> parent_account \<notin> range para_account \<and>
     (\<forall>l. parent_is_preset lib l = (if l = location_new 1 [] then Some parent_account else None)) \<and>
     (\<forall>l. sibling_parachain_converts_via lib l = map_option para_account (sibling_of l)) \<and>
     (\<forall>net l. account_id32_aliases lib net l = map_option account_of (local_account_of net l))"

definition xcm_origins_ok :: "(H256 \<Rightarrow> 'acct) \<Rightarrow> ('acct, 'msg, 'sent) xcm_builder \<Rightarrow> bool" where
  "xcm_origins_ok account_of lib \<longleftrightarrow>
     (\<forall>conv l k. sovereign_signed_via_location lib conv l k = (if k = SovereignAccount then map_option SignedOrigin (conv l) else None)) \<and>
     (\<forall>o' l k. relay_chain_as_native lib o' l k = (if k = NativeKind \<and> l = location_new 1 [] then Some o' else None)) \<and>
     (\<forall>l k. sibling_parachain_as_native lib l k = (if k = NativeKind then map_option SiblingParachainOrigin (sibling_of l) else None)) \<and>
     (\<forall>l k. parent_as_superuser lib l k = (if k = SuperuserKind \<and> l = location_new 1 [] then Some RootOrigin else None)) \<and>
     (\<forall>net l k. signed_account_id32_as_native lib net l k =
        (if k = NativeKind then map_option (SignedOrigin \<circ> account_of) (local_account_of net l) else None)) \<and>
     (\<forall>l k. xcm_passthrough lib l k = (if k = XcmKind then Some (XcmOrigin l) else None))"

definition xcm_barriers_ok :: "('msg \<Rightarrow> bool) \<Rightarrow> ('acct, 'msg, 'sent) xcm_builder \<Rightarrow> bool" where
  "xcm_barriers_ok pays lib \<longleftrightarrow>
     (\<forall>a l. native_asset lib a l \<longleftrightarrow> xa_id a = l) \<and>
     (\<forall>l a. is_concrete lib l a = (if xa_id a = l then Some (xa_amount a) else None)) \<and>
     (\<forall>l m w c. take_weight_credit lib l m w c \<longrightarrow> ref_time w \<le> ref_time c \<and> proof_size w \<le> proof_size c) \<and>
     (\<forall>f l m w c. allow_top_level_paid_execution_from lib f l m w c \<longrightarrow> f l \<and> pays m) \<and>
     (\<forall>f l m w c. allow_unpaid_execution_from lib f l m w c \<longrightarrow> f l)"

lemma XcmConfig_simps [simp]:
  "xc_OriginConverter (XcmConfig lib i) = XcmOriginToTransactDispatchOrigin lib" "xc_IsReserve (XcmConfig lib i) = native_asset lib"
  "xc_IsTeleporter (XcmConfig lib i) = native_asset lib" "xc_AssetTransactor (XcmConfig lib i) = LocalAssetTransactor lib"
  "xc_Barrier (XcmConfig lib i) = Barrier lib"
  by (simp_all add: XcmConfig_def)

text \<open>The converters as a table.\<close>

lemma location_to_account_id_iff:
  assumes "xcm_accounts_ok account_of para_account parent_account lib"
  shows "LocationToAccountId lib l = Some a \<longleftrightarrow>
     l = location_new 1 [] \<and> a = parent_account \<or> (\<exists>i. sibling_of l = Some i \<and> a = para_account i) \<or>
     (\<exists>k. local_account_of None l = Some k \<and> a = account_of k)"
  using assms
  by (cases l) (auto simp: xcm_accounts_ok_def LocationToAccountId_def RelayNetwork_def location_new_def
      split: option.splits list.splits junction.splits if_splits)

lemma dispatch_origin_iff:
  assumes "xcm_origins_ok account_of lib"
  shows "XcmOriginToTransactDispatchOrigin lib l k = Some org \<longleftrightarrow>
     k = SovereignAccount \<and> (\<exists>a. LocationToAccountId lib l = Some a \<and> org = SignedOrigin a) \<or>
     k = NativeKind \<and> l = location_new 1 [] \<and> org = RelayOrigin \<or>
     k = NativeKind \<and> (\<exists>i. sibling_of l = Some i \<and> org = SiblingParachainOrigin i) \<or>
     k = SuperuserKind \<and> l = location_new 1 [] \<and> org = RootOrigin \<or>
     k = NativeKind \<and> (\<exists>i. local_account_of None l = Some i \<and> org = SignedOrigin (account_of i)) \<or>
     k = XcmKind \<and> org = XcmOrigin l"
  using assms
  by (cases l; cases k) (auto simp: xcm_origins_ok_def XcmOriginToTransactDispatchOrigin_def RelayNetwork_def RelayChainOrigin_def
      location_new_def split: option.splits list.splits junction.splits if_splits)

section \<open>Who is trusted\<close>

lemma root_and_relay_only_parent:
  assumes "xcm_origins_ok account_of lib" "XcmOriginToTransactDispatchOrigin lib l k = Some org" "org = RootOrigin \<or> org = RelayOrigin"
  shows "l = location_new 1 []"
  using assms(2,3) unfolding dispatch_origin_iff [OF assms(1)] by auto

lemma parents_executive:
  "parent_or_parents_executive_plurality l \<Longrightarrow> l = location_new 1 [] \<or> l = location_new 1 [Plurality ExecutiveBody]"
  by (cases l) (auto simp: parent_or_parents_executive_plurality_def location_new_def split: list.splits junction.splits body_id.splits)

lemma remote_signer_sovereign:
  assumes "xcm_accounts_ok account_of para_account parent_account lib" "xcm_origins_ok account_of lib"
    and "XcmOriginToTransactDispatchOrigin lib l k = Some (SignedOrigin a)" "parents l = 1"
  shows "l = location_new 1 [] \<and> a = parent_account \<or> (\<exists>i. l = location_new 1 [Parachain i] \<and> a = para_account i)"
proof -
  have "local_account_of None l = None" using assms(4) by (auto split: list.splits junction.splits)
  with assms(3) have "l = location_new 1 [] \<and> a = parent_account \<or> (\<exists>i. sibling_of l = Some i \<and> a = para_account i)"
    unfolding dispatch_origin_iff [OF assms(2)] location_to_account_id_iff [OF assms(1)] by auto
  moreover have "sibling_of l = Some i \<Longrightarrow> l = location_new 1 [Parachain i]" for i
    by (cases l) (auto simp: location_new_def split: list.splits junction.splits if_splits)
  ultimately show ?thesis by blast
qed

text \<open>
  C21: The XCM configuration of the template trusts the relay chain alone: no other location is given the root origin or that of the relay
  chain, no asset of another location that is accepted as a reserve or a teleport reaches the balances, and every message that executes
  was paid for, is covered by weight credit or comes from the relay chain or its executive body. No two remote locations sign for the same
  account. The relay chain does have the root origin.
\<close>

theorem only_relay_chain_trusted:
  assumes "xcm_accounts_ok account_of para_account parent_account lib" "xcm_origins_ok account_of lib" "xcm_barriers_ok pays lib"
    and "cfg = XcmConfig lib parachain_id"
  shows "xc_OriginConverter cfg (location_new 1 []) SuperuserKind = Some RootOrigin \<and>
     (\<forall>l k org. xc_OriginConverter cfg l k = Some org \<longrightarrow> org = RootOrigin \<or> org = RelayOrigin \<longrightarrow> l = location_new 1 []) \<and>
     (\<forall>l asset. xc_IsReserve cfg asset l \<or> xc_IsTeleporter cfg asset l \<longrightarrow> xc_AssetTransactor cfg asset \<noteq> None \<longrightarrow> l = location_new 1 []) \<and>
     (\<forall>l msg w credit. xc_Barrier cfg l msg w credit \<longrightarrow> pays msg \<or> ref_time w \<le> ref_time credit \<or>
        l = location_new 1 [] \<or> l = location_new 1 [Plurality ExecutiveBody]) \<and>
     (\<forall>l k l' k' a. xc_OriginConverter cfg l k = Some (SignedOrigin a) \<longrightarrow> xc_OriginConverter cfg l' k' = Some (SignedOrigin a) \<longrightarrow>
        parents l = 1 \<longrightarrow> parents l' = 1 \<longrightarrow> l = l')"
proof -
  have root: "xc_OriginConverter cfg (location_new 1 []) SuperuserKind = Some RootOrigin"
    by (simp add: assms(4) dispatch_origin_iff [OF assms(2)])
  have origins: "l = location_new 1 []" if "xc_OriginConverter cfg l k = Some org" "org = RootOrigin \<or> org = RelayOrigin" for l k org
    using root_and_relay_only_parent [OF assms(2) _ that(2)] that(1) by (simp add: assms(4))
  have assets: "l = location_new 1 []"
    if "xc_IsReserve cfg asset l \<or> xc_IsTeleporter cfg asset l" "xc_AssetTransactor cfg asset \<noteq> None" for l asset
    using that assms(3) by (auto simp: assms(4) xcm_barriers_ok_def LocalAssetTransactor_def RocLocation_def split: if_splits)
  have barrier: "pays msg \<or> ref_time w \<le> ref_time credit \<or> l = location_new 1 [] \<or> l = location_new 1 [Plurality ExecutiveBody]"
    if "xc_Barrier cfg l msg w credit" for l msg w credit
    using that assms(3) parents_executive [of l] unfolding assms(4) XcmConfig_simps Barrier_def xcm_barriers_ok_def by blast
  have signers: "l = l'" if "xc_OriginConverter cfg l k = Some (SignedOrigin a)" "xc_OriginConverter cfg l' k' = Some (SignedOrigin a)"
    "parents l = 1" "parents l' = 1" for l k l' k' a
  proof -
    note sov = remote_signer_sovereign [OF assms(1,2)]
    have "inj para_account" "parent_account \<notin> range para_account" using assms(1) by (simp_all add: xcm_accounts_ok_def)
    with sov [of l k a] sov [of l' k' a] that show ?thesis by (auto simp: assms(4) dest: injD)
  qed
  show ?thesis using root origins assets barrier signers by blast
qed

text \<open>
  The comment on \<^verbatim>\<open>LocalOriginToLocation\<close> says that no local origin may send or execute XCM. With the documented conversion of signed
  origins, every signed account has a location, and may.
\<close>

lemma signed_origins_may_send:
  assumes "\<And>net a. signed_to_account_id32 lib net (SignedOrigin a) = Some (location_new 0 [AccountId32 net (bytes_of a)])"
  shows "LocalOriginToLocation lib (SignedOrigin a) = Some (location_new 0 [AccountId32 None (bytes_of a)])"
  using assms by (simp add: LocalOriginToLocation_def RelayNetwork_def)

text \<open>Messages leave for the relay chain and for siblings only.\<close>

lemma routed_iff:
  assumes "\<And>l m. parent_as_ump lib l m \<noteq> None \<longleftrightarrow> l = location_new 1 []" "\<And>l m. xcmp_queue lib l m \<noteq> None \<longleftrightarrow> sibling_of l \<noteq> None"
  shows "XcmRouter lib dest msg \<noteq> None \<longleftrightarrow> dest = location_new 1 [] \<or> (\<exists>i. dest = location_new 1 [Parachain i])"
proof -
  have "sibling_of dest \<noteq> None \<longleftrightarrow> (\<exists>i. dest = location_new 1 [Parachain i])"
    by (cases dest) (auto simp: location_new_def split: list.splits junction.splits if_splits)
  moreover have "XcmRouter lib dest msg \<noteq> None \<longleftrightarrow> parent_as_ump lib dest msg \<noteq> None \<or> xcmp_queue lib dest msg \<noteq> None"
    by (auto simp: XcmRouter_def split: option.splits)
  ultimately show ?thesis unfolding assms by blast
qed

text \<open>The documented building blocks over natural numbers as accounts, for a concrete configuration.\<close>

definition demo_xcm_builder :: "(nat, bool, location) xcm_builder" where
  "demo_xcm_builder = \<lparr>
     parent_is_preset = (\<lambda>l. if l = location_new 1 [] then Some 0 else None),
     sibling_parachain_converts_via = (\<lambda>l. map_option (\<lambda>i. Suc (unat i)) (sibling_of l)),
     account_id32_aliases = (\<lambda>net l. map_option unat (local_account_of net l)),
     sovereign_signed_via_location = (\<lambda>conv l k. if k = SovereignAccount then map_option SignedOrigin (conv l) else None),
     relay_chain_as_native = (\<lambda>org l k. if k = NativeKind \<and> l = location_new 1 [] then Some org else None),
     sibling_parachain_as_native = (\<lambda>l k. if k = NativeKind then map_option SiblingParachainOrigin (sibling_of l) else None),
     parent_as_superuser = (\<lambda>l k. if k = SuperuserKind \<and> l = location_new 1 [] then Some RootOrigin else None),
     signed_account_id32_as_native =
       (\<lambda>net l k. if k = NativeKind then map_option (SignedOrigin \<circ> unat) (local_account_of net l) else None),
     xcm_passthrough = (\<lambda>l k. if k = XcmKind then Some (XcmOrigin l) else None),
     native_asset = (\<lambda>a l. xa_id a = l), is_concrete = (\<lambda>l a. if xa_id a = l then Some (xa_amount a) else None),
     take_weight_credit = (\<lambda>_ _ w c. ref_time w \<le> ref_time c \<and> proof_size w \<le> proof_size c),
     allow_top_level_paid_execution_from = (\<lambda>f l m _ _. f l \<and> m), allow_unpaid_execution_from = (\<lambda>f l _ _ _. f l),
     parent_as_ump = (\<lambda>l _. if l = location_new 1 [] then Some l else None),
     xcmp_queue = (\<lambda>l _. if sibling_of l = None then None else Some l),
     signed_to_account_id32 = (\<lambda>net org. case org of SignedOrigin a \<Rightarrow> Some (location_new 0 [AccountId32 net (of_nat a)]) | _ \<Rightarrow> None)\<rparr>"

theorem only_relay_chain_trusted_witness:
  "\<not> xc_Barrier (XcmConfig demo_xcm_builder 1000) (location_new 1 [Parachain 2000]) False (from_parts 7 0) (from_parts 0 0) \<and>
   xc_OriginConverter (XcmConfig demo_xcm_builder 1000) (location_new 1 []) SuperuserKind = Some RootOrigin \<and>
   xc_OriginConverter (XcmConfig demo_xcm_builder 1000) (location_new 1 [Parachain 2000]) SuperuserKind \<noteq> Some RootOrigin"
proof -
  have "xcm_accounts_ok unat (\<lambda>i. Suc (unat i)) 0 demo_xcm_builder"
    by (auto simp: xcm_accounts_ok_def demo_xcm_builder_def inj_def word_unat_eq_iff)
  moreover have "xcm_origins_ok unat demo_xcm_builder" by (simp add: xcm_origins_ok_def demo_xcm_builder_def)
  moreover have "xcm_barriers_ok (\<lambda>m. m) demo_xcm_builder" by (simp add: xcm_barriers_ok_def demo_xcm_builder_def)
  ultimately have main: "xc_OriginConverter (XcmConfig demo_xcm_builder 1000) (location_new 1 []) SuperuserKind = Some RootOrigin \<and>
      (\<forall>l k org. xc_OriginConverter (XcmConfig demo_xcm_builder 1000) l k = Some org \<longrightarrow> org = RootOrigin \<or> org = RelayOrigin \<longrightarrow> l = location_new 1 []) \<and>
      (\<forall>l msg w credit. xc_Barrier (XcmConfig demo_xcm_builder 1000) l msg w credit \<longrightarrow> msg \<or> ref_time w \<le> ref_time credit \<or>
         l = location_new 1 [] \<or> l = location_new 1 [Plurality ExecutiveBody])"
    using only_relay_chain_trusted [OF _ _ _ refl, of unat "\<lambda>i. Suc (unat i)" 0 demo_xcm_builder "\<lambda>m. m" 1000] by blast
  have apart: "location_new 1 [Parachain 2000] \<noteq> location_new 1 []" "location_new 1 [Parachain 2000] \<noteq> location_new 1 [Plurality ExecutiveBody]"
    "\<not> ref_time (from_parts 7 0) \<le> ref_time (from_parts 0 0)" by (simp_all add: from_parts_def)
  from main apart show ?thesis by (simp del: location_new_eq_iff XcmConfig_simps) metis
qed

end
