(* ===== verification/Template_Node.thy ===== *)
theory Template_Node
  imports Template_Runtime Slot_Based
begin

text \<open>
  \<^verbatim>\<open>template/node/src\<close>: the node of the template chain. Its chain specifications and the genesis they give the runtime
  (\<^verbatim>\<open>chain_spec.rs\<close>), the command line (\<^verbatim>\<open>cli.rs\<close>, \<^verbatim>\<open>command.rs\<close>) and the services it starts (\<^verbatim>\<open>service.rs\<close>): the
  parameters of the import queue, of the slot based collator and of instant seal. The services of the SDK, the
  parser of the command line and the key derivation are parameters.
\<close>

section \<open>Chain specifications (\<^verbatim>\<open>chain_spec.rs\<close>)\<close>

record extensions =
  ext_relay_chain :: string
  ext_para_id :: u32

datatype json = JString string | JNumber nat

datatype chain_type = Development | LocalChain | Live | CustomChain string

record ('acct, 'nid) runtime_genesis =
  rg_balances :: "('acct \<times> u128) list"
  rg_dev_accounts :: "(u32 \<times> string option) option"
  rg_parachain_id :: u32
  rg_eligible_count :: NonZeroU32
  rg_mapping :: "('acct \<times> 'nid) list"

record ('acct, 'nid, 'code) chain_spec =
  spec_code :: 'code
  spec_extensions :: "extensions option"
  spec_name :: string
  spec_id :: string
  spec_properties :: "(string \<times> json) list"
  spec_protocol_id :: "string option"
  spec_chain_type :: chain_type
  spec_genesis :: "('acct, 'nid) runtime_genesis"

text \<open>The derivation of key pairs from a secret, and of an account from a public key.\<close>

record ('pub, 'acct, 'nid) key_lib =
  sr25519_from_string :: "string \<Rightarrow> 'pub option"
  nimbus_from_string :: "string \<Rightarrow> 'nid option"
  into_account :: "'pub \<Rightarrow> 'acct"

definition get_pair_from_seed :: "(string \<Rightarrow> 'p option) \<Rightarrow> string \<Rightarrow> ('e, 'p) result" where
  "get_pair_from_seed from_string seed = expect ''static values are valid; qed'' (from_string (''//'' @ seed))"

definition get_collator_keys_from_seed :: "('pub, 'acct, 'nid) key_lib \<Rightarrow> string \<Rightarrow> ('e, 'nid) result" where
  "get_collator_keys_from_seed kl seed = get_pair_from_seed (nimbus_from_string kl) seed"

definition get_account_id_from_seed :: "('pub, 'acct, 'nid) key_lib \<Rightarrow> string \<Rightarrow> ('e, 'acct) result" where
  "get_account_id_from_seed kl seed =
     and_then (get_pair_from_seed (sr25519_from_string kl) seed) (\<lambda>p. Ok (into_account kl p))"

text \<open>The elements of a list, evaluated from left to right.\<close>

fun collect_results :: "('a \<Rightarrow> ('e, 'b) result) \<Rightarrow> 'a list \<Rightarrow> ('e, 'b list) result" where
  "collect_results f [] = Ok []"
| "collect_results f (x # xs) = and_then (f x) (\<lambda>y. and_then (collect_results f xs) (\<lambda>ys. Ok (y # ys)))"

definition testnet_genesis :: "('acct \<times> 'nid) list \<Rightarrow> 'acct list \<Rightarrow> u32 \<Rightarrow> ('acct, 'nid) runtime_genesis" where
  "testnet_genesis authorities endowed_accounts para_id =
     \<lparr>rg_balances = map (\<lambda>k. (k, 2 ^ 60)) endowed_accounts, rg_dev_accounts = None, rg_parachain_id = para_id,
      rg_eligible_count = EligibilityValue_default, rg_mapping = authorities\<rparr>"

definition token_properties :: "(string \<times> json) list" where
  "token_properties = [(''tokenSymbol'', JString ''ROC''), (''tokenDecimals'', JNumber 12), (''ss58Format'', JNumber 42)]"

definition rococo_local :: extensions where
  "rococo_local = \<lparr>ext_relay_chain = ''rococo-local'', ext_para_id = 1000\<rparr>"

definition endowed_seeds :: "string list" where
  "endowed_seeds = [''Alice'', ''Bob'', ''Charlie'', ''Dave'', ''Eve'', ''Ferdie'', ''Alice//stash'', ''Bob//stash'', ''Charlie//stash'',
     ''Dave//stash'', ''Eve//stash'', ''Ferdie//stash'']"

definition collator_from_seed :: "('pub, 'acct, 'nid) key_lib \<Rightarrow> string \<Rightarrow> ('e, 'acct \<times> 'nid) result" where
  "collator_from_seed kl seed =
     and_then (get_account_id_from_seed kl seed) (\<lambda>a. and_then (get_collator_keys_from_seed kl seed) (\<lambda>n. Ok (a, n)))"

definition development_config :: "('pub, 'acct, 'nid) key_lib \<Rightarrow> 'code option \<Rightarrow> ('e, ('acct, 'nid, 'code) chain_spec) result" where
  "development_config kl wasm_binary =
     and_then (expect ''WASM binary was not built, please build it!'' wasm_binary)
     (\<lambda>code. and_then (collect_results (collator_from_seed kl) [''Alice''])
     (\<lambda>authorities. and_then (collect_results (get_account_id_from_seed kl) endowed_seeds)
     (\<lambda>endowed. Ok \<lparr>spec_code = code, spec_extensions = Some rococo_local, spec_name = ''Development'', spec_id = ''dev'',
        spec_properties = token_properties, spec_protocol_id = None, spec_chain_type = Development,
        spec_genesis = testnet_genesis authorities endowed 1000\<rparr>)))"

definition local_testnet_config :: "('pub, 'acct, 'nid) key_lib \<Rightarrow> 'code option \<Rightarrow> ('e, ('acct, 'nid, 'code) chain_spec) result" where
  "local_testnet_config kl wasm_binary =
     and_then (expect ''WASM binary was not built, please build it!'' wasm_binary)
     (\<lambda>code. and_then (collect_results (collator_from_seed kl) [''Alice'', ''Bob''])
     (\<lambda>authorities. and_then (collect_results (get_account_id_from_seed kl) endowed_seeds)
     (\<lambda>endowed. Ok \<lparr>spec_code = code, spec_extensions = Some rococo_local, spec_name = ''Local Testnet'', spec_id = ''local_testnet'',
        spec_properties = token_properties, spec_protocol_id = Some ''template-local'', spec_chain_type = LocalChain,
        spec_genesis = testnet_genesis authorities endowed 1000\<rparr>)))"

section \<open>The genesis state\<close>

text \<open>
  The runtime builds its first state from the genesis of the specification, pallet by pallet; the pallets without
  a genesis configuration start empty.
\<close>

definition filter_empty :: filter_state where
  "filter_empty = \<lparr>EligibleRatio = Half, EligibleCount = EligibilityValue_default, IsFakeAuthor = False, filter_events = []\<rparr>"

definition template_genesis :: "'hash \<Rightarrow> 'mat \<Rightarrow> ('acct, 'nid) runtime_genesis \<Rightarrow> ('nid, 'acct, 'hash, 'mat) template_state" where
  "template_genesis zero_hash no_material g =
     \<lparr>ts_number = 0, ts_parent_hash = zero_hash, ts_digest = [], ts_material = no_material,
      ts_inherent = \<lparr>Author = None, InherentIncluded = False\<rparr>,
      ts_filter = genesis_build_filter (rg_eligible_count g) filter_empty,
      ts_authors = genesis_build_as (rg_mapping g) as_pallet_empty, ts_async = ab_genesis\<rparr>"

section \<open>The command line (\<^verbatim>\<open>cli.rs\<close>, \<^verbatim>\<open>command.rs\<close>)\<close>

datatype benchmark_cmd = BenchPallet | BenchBlock | BenchStorage | BenchOverhead | BenchExtrinsic | BenchMachine

datatype subcommand = BuildSpec | CheckBlock | ExportBlocks | ExportState | ImportBlocks | Revert | PurgeChain
  | ExportGenesisState | ExportGenesisWasm "string option" | RunInstantSeal | Benchmark benchmark_cmd

record cli =
  cli_subcommand :: "subcommand option"
  cli_max_pov_percentage :: u8
  cli_full_pov_size :: bool
  cli_relay_chain_args :: "string list"

definition load_spec ::
    "('pub, 'acct, 'nid) key_lib \<Rightarrow> 'code option \<Rightarrow> (string \<Rightarrow> string + ('acct, 'nid, 'code) chain_spec) \<Rightarrow> string
      \<Rightarrow> (string, ('acct, 'nid, 'code) chain_spec) result" where
  "load_spec kl wasm_binary from_json_file chain =
     (if chain = ''dev'' then development_config kl wasm_binary
      else if chain = ''template-rococo'' then local_testnet_config kl wasm_binary
      else if chain = '''' \<or> chain = ''local'' then local_testnet_config kl wasm_binary
      else (case from_json_file chain of Inl e \<Rightarrow> Err e | Inr spec \<Rightarrow> Ok spec))"

text \<open>The configuration that the runner makes from the command line, and the command line of the relay chain node.\<close>

record ('acct, 'nid, 'code) node_config =
  cfg_chain_spec :: "('acct, 'nid, 'code) chain_spec"
  cfg_base_path :: string
  cfg_is_authority :: bool
  cfg_force_authoring :: bool
  cfg_offchain_worker :: bool

record 'base relay_chain_cli =
  rcc_base :: 'base
  rcc_chain_id :: "string option"
  rcc_base_path :: string

definition relay_chain_cli_new ::
    "(string list \<Rightarrow> 'base) \<Rightarrow> ('acct, 'nid, 'code) node_config \<Rightarrow> string list \<Rightarrow> 'base relay_chain_cli" where
  "relay_chain_cli_new parse_from para_config relay_chain_args =
     \<lparr>rcc_base = parse_from relay_chain_args,
      rcc_chain_id = map_option ext_relay_chain (spec_extensions (cfg_chain_spec para_config)),
      rcc_base_path = cfg_base_path para_config @ ''/polkadot''\<rparr>"

definition rcc_base_path_of :: "('base \<Rightarrow> (string, string option) result) \<Rightarrow> 'base relay_chain_cli \<Rightarrow> (string, string option) result" where
  "rcc_base_path_of shared_base_path rc =
     and_then (shared_base_path (rcc_base rc))
     (\<lambda>p. Ok (case p of Some p \<Rightarrow> Some p | None \<Rightarrow> Some (rcc_base_path rc)))"

definition rcc_chain_id_of :: "('base \<Rightarrow> bool \<Rightarrow> (string, string) result) \<Rightarrow> bool \<Rightarrow> 'base relay_chain_cli \<Rightarrow> (string, string) result" where
  "rcc_chain_id_of base_chain_id is_dev rc =
     and_then (base_chain_id (rcc_base rc) is_dev)
     (\<lambda>chain_id. Ok (if chain_id = [] then (case rcc_chain_id rc of Some c \<Rightarrow> c | None \<Rightarrow> []) else chain_id))"

text \<open>
  What a command line starts: a tool of the SDK on the specification, on the client of \<^verbatim>\<open>new_partial\<close> or on both databases, or one of
  the two nodes of \<^verbatim>\<open>service.rs\<close>.
\<close>

datatype ('acct, 'nid, 'code, 'pcfg) action =
    OnChainSpec "('acct, 'nid, 'code) chain_spec"
  | OnPartial
  | OnDatabases 'pcfg
  | OnMachine
  | StartInstantSeal "('acct, 'nid, 'code) node_config"
  | StartParachain "('acct, 'nid, 'code) node_config" 'pcfg u32 u8

record ('acct, 'nid, 'code, 'base, 'pcfg) node_env =
  ne_create_runner :: "(string, ('acct, 'nid, 'code) node_config) result"
  ne_load_spec :: "string \<Rightarrow> (string, ('acct, 'nid, 'code) chain_spec) result"
  ne_new_partial :: "('acct, 'nid, 'code) node_config \<Rightarrow> (string, unit) result"
  ne_parse_from :: "string list \<Rightarrow> 'base"
  ne_executable_name :: string
  ne_create_configuration :: "'base relay_chain_cli \<Rightarrow> string + 'pcfg"
  ne_runtime_benchmarks :: bool

definition polkadot_configuration ::
    "('acct, 'nid, 'code, 'base, 'pcfg) node_env \<Rightarrow> cli \<Rightarrow> ('acct, 'nid, 'code) node_config \<Rightarrow> (string, 'pcfg) result" where
  "polkadot_configuration ne cmd config =
     (case ne_create_configuration ne (relay_chain_cli_new (ne_parse_from ne) config (ne_executable_name ne # cli_relay_chain_args cmd)) of
        Inl err \<Rightarrow> Err (''Relay chain argument error: '' @ err)
      | Inr cfg \<Rightarrow> Ok cfg)"

definition pov_percentage :: "cli \<Rightarrow> u8" where
  "pov_percentage cmd = (if cli_full_pov_size cmd then 100 else cli_max_pov_percentage cmd)"

definition run_benchmark ::
    "('acct, 'nid, 'code, 'base, 'pcfg) node_env \<Rightarrow> ('acct, 'nid, 'code) node_config \<Rightarrow> benchmark_cmd
      \<Rightarrow> (string, ('acct, 'nid, 'code, 'pcfg) action) result" where
  "run_benchmark ne config cmd =
     (case cmd of
        BenchPallet \<Rightarrow>
          if ne_runtime_benchmarks ne then Ok (OnChainSpec (cfg_chain_spec config))
          else Err ''Benchmarking wasn't enabled when building the node.''
      | BenchBlock \<Rightarrow> and_then (ne_new_partial ne config) (\<lambda>_. Ok OnPartial)
      | BenchStorage \<Rightarrow>
          if ne_runtime_benchmarks ne then and_then (ne_new_partial ne config) (\<lambda>_. Ok OnPartial)
          else Err ''Compile with --features=runtime-benchmarks to enable storage benchmarks.''
      | BenchOverhead \<Rightarrow> Err ''Unsupported benchmarking command''
      | BenchExtrinsic \<Rightarrow> Err ''Unsupported benchmarking command''
      | BenchMachine \<Rightarrow> Ok OnMachine)"

definition run_parachain ::
    "('acct, 'nid, 'code, 'base, 'pcfg) node_env \<Rightarrow> cli \<Rightarrow> ('acct, 'nid, 'code) node_config
      \<Rightarrow> (string, ('acct, 'nid, 'code, 'pcfg) action) result" where
  "run_parachain ne cmd config =
     and_then (ok_or ''Could not find parachain ID in chain-spec.'' (map_option ext_para_id (spec_extensions (cfg_chain_spec config))))
     (\<lambda>para_id. and_then (polkadot_configuration ne cmd config)
     (\<lambda>polkadot_config. Ok (StartParachain config polkadot_config para_id (pov_percentage cmd))))"

definition run_node ::
    "('acct, 'nid, 'code, 'base, 'pcfg) node_env \<Rightarrow> cli \<Rightarrow> (string, ('acct, 'nid, 'code, 'pcfg) action) result" where
  "run_node ne cmd =
     and_then (ne_create_runner ne)
     (\<lambda>config. case cli_subcommand cmd of
        Some BuildSpec \<Rightarrow> Ok (OnChainSpec (cfg_chain_spec config))
      | Some CheckBlock \<Rightarrow> and_then (ne_new_partial ne config) (\<lambda>_. Ok OnPartial)
      | Some ExportBlocks \<Rightarrow> and_then (ne_new_partial ne config) (\<lambda>_. Ok OnPartial)
      | Some ExportState \<Rightarrow> and_then (ne_new_partial ne config) (\<lambda>_. Ok OnPartial)
      | Some ImportBlocks \<Rightarrow> and_then (ne_new_partial ne config) (\<lambda>_. Ok OnPartial)
      | Some Revert \<Rightarrow> and_then (ne_new_partial ne config) (\<lambda>_. Ok OnPartial)
      | Some PurgeChain \<Rightarrow> and_then (polkadot_configuration ne cmd config) (\<lambda>pcfg. Ok (OnDatabases pcfg))
      | Some ExportGenesisState \<Rightarrow> and_then (ne_new_partial ne config) (\<lambda>_. Ok OnPartial)
      | Some (ExportGenesisWasm chain) \<Rightarrow>
          and_then (ne_load_spec ne (case chain of Some c \<Rightarrow> c | None \<Rightarrow> [])) (\<lambda>spec. Ok (OnChainSpec spec))
      | Some RunInstantSeal \<Rightarrow> Ok (StartInstantSeal config)
      | Some (Benchmark b) \<Rightarrow> run_benchmark ne config b
      | None \<Rightarrow> run_parachain ne cmd config)"

section \<open>Services (\<^verbatim>\<open>service.rs\<close>)\<close>

text \<open>The import queue of \<^verbatim>\<open>new_partial\<close>.\<close>

definition template_block_import :: nimbus_block_import where
  "template_block_import = \<lparr>with_delayed_best_block = False, dont_create_gap = False\<rparr>"

datatype relay_chain_mode = ExternalRpc "string list" | Embedded

definition build_relay_chain_interface ::
    "(string list \<Rightarrow> string + 'iface) \<Rightarrow> (string + 'iface) \<Rightarrow> relay_chain_mode \<Rightarrow> string + 'iface" where
  "build_relay_chain_interface minimal_node_with_rpc inprocess_relay_chain mode =
     (case mode of ExternalRpc rpc_target_urls \<Rightarrow> minimal_node_with_rpc rpc_target_urls | Embedded \<Rightarrow> inprocess_relay_chain)"

text \<open>
  \<^verbatim>\<open>start_consensus\<close>: the parameters of the slot based collator, on top of the services of the node. No further digests,
  no further relay state keys, no export; the handle of a block import that is dropped at once.
\<close>

definition template_collator_env ::
    "('nid, 'sig, 'hash, 'body, 'ext, 'sa, 'sc, 'st, 'pinh, 'inh, 'collation, 'rhash, 'cq, 'vch, 'm) collator_env
      \<Rightarrow> u32 \<Rightarrow> bool \<Rightarrow> u8 \<Rightarrow> ('nid, 'sig, 'hash, 'body, 'ext, 'sa, 'sc, 'st, 'pinh, 'inh, 'collation, 'rhash, 'cq, 'vch, 'm) collator_env" where
  "template_collator_env services para_id force_authoring max_pov_percentage =
     services\<lparr>ce_provide_digests := provide_digests_unit, ce_para_id := para_id, ce_force_authoring := force_authoring,
       ce_max_pov_percentage := Some (ucast max_pov_percentage), ce_authoring_duration := from_millis 500,
       ce_relay_slot_duration := from_millis 6000, ce_state_keys := []\<rparr>"

definition start_consensus ::
    "('nid, 'sig, 'hash, 'body, 'ext, 'sa, 'sc, 'st, 'pinh, 'inh, 'collation, 'rhash, 'cq, 'vch, 'm) collator_env
      \<Rightarrow> ('hash, 'rhash, 'body, 'ext, 'collation, 'bdata, 'pov) collation_env \<Rightarrow> u32 \<Rightarrow> bool \<Rightarrow> u8 \<Rightarrow> bool \<Rightarrow> bool \<Rightarrow> 'st \<Rightarrow> files
      \<Rightarrow> ('hash, 'rhash, 'body, 'ext, 'collation, 'bdata, 'pov) collation_env
        \<times> ('st, 'hash, 'rhash, 'collation, 'body, 'vch, 'm, 'ext, 'proof) pipeline" where
  "start_consensus services ce para_id force_authoring max_pov_percentage builder_overseer task_overseer st files =
     (ce\<lparr>co_export_pov := None\<rparr>,
      slot_based_run (template_collator_env services para_id force_authoring max_pov_percentage)
        (from_millis 6000) (Some (from_millis 6000)) builder_overseer task_overseer st files)"

text \<open>
  \<^verbatim>\<open>start_node_impl\<close>: each service it starts may fail. The relay chain interface brings the collator key, which the command line
  guarantees for a validator. The result is the recovery profile and the collator, if one was started.
\<close>

datatype da_recovery_profile = CollatorProfile | FullNodeProfile

record ('iface, 'key) node_services =
  sv_new_partial :: "(string, unit) result"
  sv_minimal_node :: "string list \<Rightarrow> string + ('iface \<times> 'key option)"
  sv_inprocess :: "string + ('iface \<times> 'key option)"
  sv_build_network :: "(string, unit) result"
  sv_offchain_workers :: "(string, unit) result"
  sv_spawn_tasks :: "(string, unit) result"
  sv_overseer_handle :: "'iface \<Rightarrow> bool"
  sv_start_relay_chain_tasks :: "da_recovery_profile \<Rightarrow> (string, unit) result"

definition start_node_impl ::
    "('iface, 'key) node_services \<Rightarrow> (u32 \<Rightarrow> bool \<Rightarrow> u8 \<Rightarrow> 'key \<Rightarrow> 'p) \<Rightarrow> ('acct, 'nid, 'code) node_config \<Rightarrow> relay_chain_mode \<Rightarrow> u32 \<Rightarrow> u8
      \<Rightarrow> (string, da_recovery_profile \<times> 'p option) result" where
  "start_node_impl sv start config mode para_id max_pov_percentage =
     and_then (sv_new_partial sv)
     (\<lambda>_. and_then (case build_relay_chain_interface (sv_minimal_node sv) (sv_inprocess sv) mode of Inl e \<Rightarrow> Err e | Inr i \<Rightarrow> Ok i)
     (\<lambda>(iface, collator_key). let validator = cfg_is_authority config
        in and_then (sv_build_network sv)
     (\<lambda>_. and_then (sv_spawn_tasks sv)
     (\<lambda>_. and_then (ensure (sv_overseer_handle sv iface) ''overseer handle'')
     (\<lambda>_. let profile = (if validator then CollatorProfile else FullNodeProfile)
        in and_then (sv_start_relay_chain_tasks sv profile)
     (\<lambda>_. if validator
          then and_then (expect ''Command line arguments do not allow this. qed'' collator_key)
               (\<lambda>key. Ok (profile, Some (start para_id (cfg_force_authoring config) max_pov_percentage key)))
          else Ok (profile, None)))))))"

text \<open>
  The inherent data of an instant seal block: the mocked validation data of the parachain system. The go-ahead for
  an upgrade is given as soon as the parent block has new validation code.
\<close>

datatype upgrade_go_ahead = Abort | GoAhead

record ('dmsg, 'hmsg) mock_validation_data =
  mv_current_para_block :: u32
  mv_relay_offset :: u32
  mv_relay_parent_offset :: u32
  mv_relay_blocks_per_para_block :: u32
  mv_para_blocks_per_relay_epoch :: u32
  mv_raw_downward_messages :: "'dmsg list"
  mv_raw_horizontal_messages :: "'hmsg list"
  mv_para_id :: u32
  mv_upgrade_go_ahead :: "upgrade_go_ahead option"

definition instant_seal_inherents ::
    "('hash \<Rightarrow> 'hdr option option) \<Rightarrow> ('hash \<Rightarrow> 'hdr \<Rightarrow> string + 'vcode option) \<Rightarrow> u32 \<Rightarrow> 'dmsg list \<Rightarrow> 'hmsg list \<Rightarrow> 'hash
      \<Rightarrow> ('e, ('dmsg, 'hmsg) mock_validation_data) result" where
  "instant_seal_inherents header_of collect_collation_info para_id downward horizontal block =
     and_then (expect ''Header lookup should succeed'' (header_of block))
     (\<lambda>found. and_then (expect ''Header passed in as parent should be present in backend.'' found)
     (\<lambda>current_para_head.
        let should_send_go_ahead = (case collect_collation_info block current_para_head of
              Inr new_validation_code \<Rightarrow> new_validation_code \<noteq> None
            | Inl e \<Rightarrow> False)
        in Ok \<lparr>mv_current_para_block = 0, mv_relay_offset = 0, mv_relay_parent_offset = 0, mv_relay_blocks_per_para_block = 0,
             mv_para_blocks_per_relay_epoch = 0, mv_raw_downward_messages = downward, mv_raw_horizontal_messages = horizontal,
             mv_para_id = para_id, mv_upgrade_go_ahead = (if should_send_go_ahead then Some GoAhead else None)\<rparr>))"

text \<open>\<^verbatim>\<open>start_instant_seal_node\<close>: the services, the parachain id of the specification, and instant seal on an authority.\<close>

definition start_instant_seal_node ::
    "('iface, 'key) node_services \<Rightarrow> ('acct, 'nid, 'code) node_config \<Rightarrow> (string, u32 option) result" where
  "start_instant_seal_node sv config =
     and_then (sv_new_partial sv)
     (\<lambda>_. and_then (sv_build_network sv)
     (\<lambda>_. and_then (if cfg_offchain_worker config then sv_offchain_workers sv else Ok ())
     (\<lambda>_. and_then (ok_or ''Could not find parachain ID in chain-spec.'' (map_option ext_para_id (spec_extensions (cfg_chain_spec config))))
     (\<lambda>para_id. and_then (sv_spawn_tasks sv)
     (\<lambda>_. Ok (if cfg_is_authority config then Some para_id else None))))))"

section \<open>The chain from its genesis\<close>

text \<open>
  What every block and every change of the eligible count keeps: the authors are those of the genesis, and the eligible count is not zero.
\<close>

definition chain_inv :: "('acct \<times> 'nid) list \<Rightarrow> ('nid, 'acct, 'hash, 'mat) template_state \<Rightarrow> bool" where
  "chain_inv authorities s \<longleftrightarrow> ts_authors s = genesis_build_as authorities as_pallet_empty \<and> slot_filter_invar (ts_filter s)"

lemma run_block_keeps:
  assumes "template_run_block fl ab pre_runtime_of decode_id sys number parent_hash logs slot relay_slot timestamp origins s = Ok t"
  shows "ts_authors t = ts_authors s \<and> ts_filter t = ts_filter s"
  using assms by (auto simp: template_run_block_def flip_initialize_def system_initialize_def Let_def)

lemma set_eligible_keeps:
  assumes "chain_inv authorities s" "NonZeroU32_decode nz_codec input = Ok (new, rest)" "set_eligible sys origin new (ts_filter s) = Ok f"
  shows "chain_inv authorities (s\<lparr>ts_filter := f\<rparr>)"
proof -
  from assms(2,3) have "nz_get new \<noteq> 0" "f = (ts_filter s)\<lparr>EligibleCount := new, filter_events := filter_events (ts_filter s) @ [new]\<rparr>"
    by (auto simp: NonZeroU32_decode_def NonZeroU32_new_def set_eligible_def split: if_splits)
  with assms(1) show ?thesis by (simp add: chain_inv_def slot_filter_invar_def)
qed

lemma genesis_inv: "chain_inv authorities (template_genesis zero_hash no_material (testnet_genesis authorities endowed para_id))"
  by (simp add: chain_inv_def template_genesis_def testnet_genesis_def slot_filter_invar_def genesis_build_filter_def
      filter_empty_def EligibilityValue_default_def NonZeroU32_new_unchecked_def)

text \<open>Some authority of the genesis is eligible in every slot, and its key resolves to it.\<close>

lemma genesis_key_of_author:
  assumes "distinct (map snd authorities)" "a \<in> set (get_as (genesis_build_as authorities as_pallet_empty))"
  shows "\<exists>nid. (a, nid) \<in> set authorities \<and> lookup_account_as (genesis_build_as authorities as_pallet_empty) nid = Some a"
proof -
  have "a \<in> fst ` set authorities" using assms(2) by (simp add: get_as_def genesis_build_as_stored as_pallet_empty_def)
  then obtain nid where nid: "(a, nid) \<in> set authorities" by force
  let ?pairs = "rev (map (\<lambda>(a, n). (n, a)) authorities)"
  have "map fst ?pairs = rev (map snd authorities)" by (simp add: rev_map comp_def case_prod_beta)
  with assms(1) have "distinct (map fst ?pairs)" by simp
  moreover have "(nid, a) \<in> set ?pairs" using nid by force
  ultimately have "map_of ?pairs nid = Some a" by simp
  then show ?thesis using nid by (auto simp: lookup_account_as_def genesis_build_as_mapping as_pallet_empty_def)
qed

lemma some_authority_eligible:
  assumes "chain_inv authorities s" "authorities \<noteq> []" "distinct (map snd authorities)"
  shows "\<exists>a nid. (a, nid) \<in> set authorities \<and> lookup_account_as (ts_authors s) nid = Some a \<and>
     template_can_author fl (begun fl n h logs s) a slot = Ok True"
proof -
  let ?r = "flip_random fl (ts_number (begun fl n h logs s)) (ts_material (begun fl n h logs s))"
  have f: "ts_filter (begun fl n h logs s) = ts_filter s" by (simp add: begun_def flip_initialize_def system_initialize_def)
  have inv: "slot_filter_invar (ts_filter s)" and as: "ts_authors s = genesis_build_as authorities as_pallet_empty"
    using assms(1) by (simp_all add: chain_inv_def)
  have ne: "get_as (ts_authors s) \<noteq> []" using assms(2) by (simp add: as get_as_def genesis_build_as_stored)
  from can_author_filter_live [OF _ ne, of "ts_filter s" ?r slot] inv obtain a where
    a: "can_author_filter ?r (ts_filter s) (get_as (ts_authors s)) a slot = Ok True" by (auto simp: slot_filter_invar_def)
  from can_author_filter_sound [OF _ a] inv have "a \<in> set (get_as (ts_authors s))" by (simp add: slot_filter_invar_def)
  from genesis_key_of_author [OF assms(3) this [unfolded as]] a show ?thesis by (auto simp: template_can_author_def f as)
qed

section \<open>The collator of the node and its runtime\<close>

definition template_collator_start where
  "template_collator_start services ce para_id force max_pov files p \<longleftrightarrow> (\<exists>builder_overseer task_overseer st.
     p = snd (start_consensus services ce para_id force max_pov builder_overseer task_overseer st files))"

definition template_collator_inv where
  "template_collator_inv env ce files p \<longleftrightarrow> collator_env_ok env \<and> pipeline_inv env ce files p \<and>
     para_slot_duration (bs_timer (pl_builder p)) = Some (from_millis 6000)"

interpretation template_collator: invariant_system
  "\<lambda>p. collator_env_ok (template_collator_env services para_id force max_pov) \<and>
     template_collator_start services ce para_id force max_pov files p"
  "pipeline_step (template_collator_env services para_id force max_pov) ce' se"
  "template_collator_inv (template_collator_env services para_id force max_pov) ce' files"
  for services para_id force max_pov ce ce' se files
proof (unfold_locales, goal_cases)
  case (1 p)
  then obtain ob ot st where p: "p = slot_based_run (template_collator_env services para_id force max_pov)
      (from_millis 6000) (Some (from_millis 6000)) ob ot st files"
    by (auto simp: template_collator_start_def start_consensus_def)
  then have "pipeline_start (template_collator_env services para_id force max_pov) files p"
    unfolding pipeline_start_def by blast
  with 1 have "pipeline_inv (template_collator_env services para_id force max_pov) ce' files p"
    by (intro start_inv) (simp_all add: collator_env_ok_def)
  with 1 show ?case by (simp add: template_collator_inv_def p slot_based_run_def new_with_offset_def)
next
  case (2 p q)
  then show ?case
    using pipeline_step_inv pipeline_step_para_dur by (fastforce simp: template_collator_inv_def)
qed

text \<open>What the collator claims: a slot with an eligible key, and the start of the relay slot as timestamp.\<close>

lemma node_claim:
  assumes "collator_env_ok (template_collator_env services para_id False max_pov)" "slot_lib_ok (ce_slots services)"
    and "reachable (template_collator_start services ce para_id False max_pov files)
       (pipeline_step (template_collator_env services para_id False max_pov) ce' se) p"
    and "builder_claim (template_collator_env services para_id False max_pov) now relay_best best (pl_builder p)
       = (Inr (rp_data, parent, core, max_size, claim), b)"
    and "rh_babe_slot (rpd_relay_parent rp_data) = Some relay_slot"
  shows "claim_slot (ce_client services) parent (rh_number (rpd_relay_parent rp_data)) False = Ok (Some (sc_author_id claim)) \<and>
     unat (sc_timestamp claim) = unat MILLISECS_PER_BLOCK * unat relay_slot"
proof -
  let ?env = "template_collator_env services para_id False max_pov" and ?cl = "ce_client services"
  have env: "ce_client ?env = ?cl" "ce_force_authoring ?env = False" "ce_slots ?env = ce_slots services"
    "ce_relay_slot_duration ?env = from_millis 6000" by (simp_all add: template_collator_env_def)
  have inv: "template_collator_inv ?env ce' files p"
    by (rule template_collator.invar_reachable [where ce = ce]) (use assms(1,3) in simp)
  then have cache: "cache_ok (ce_lru ?env) (ce_relay ?env) (bs_cache (pl_builder p))" "lru_ok (ce_lru ?env)"
    and dur: "slot_millis (bs_timer (pl_builder p)) = 6000"
    by (simp_all add: template_collator_inv_def pipeline_inv_def collator_env_ok_def slot_millis_def slot_duration_def)
  from builder_claim_Inr [OF assms(4) cache(2,1), unfolded env dur] obtain info where
    claim: "claim_slot ?cl parent (rh_number (rpd_relay_parent rp_data)) False = Ok (Some (sc_author_id claim))"
    and info: "adjust_para_to_relay_parent_slot (ce_slots services) (rpd_relay_parent rp_data) (from_millis 6000) 6000 = Some info"
      "sc_timestamp claim = si_timestamp info" by blast
  have millis: "(6000 :: u64) \<noteq> 0" "(of_nat (as_millis (from_millis 6000)) :: u64) = ucast (6000 :: u32)" "(6000 :: u64) = ucast (6000 :: u32)"
    by simp_all
  from adjusted_slot [OF assms(2) millis(1) info(1) assms(5) millis(2)] millis(3)
  have "si_timestamp info div 6000 = relay_slot" "unat (si_timestamp info) \<le> unat relay_slot * unat (6000 :: u32)" by metis+
  then have "unat (si_timestamp info) div 6000 = unat relay_slot" "unat (si_timestamp info) \<le> 6000 * unat relay_slot"
    by (auto simp: unat_div)
  then have "unat (si_timestamp info) = 6000 * unat relay_slot" by linarith
  with claim info(2) show ?thesis by (simp add: MILLISECS_PER_BLOCK_def)
qed

text \<open>
  The collator that the template node starts and the template runtime agree: whenever the collator claims a slot in its
  running pipeline, the block with its key as author, on the parent it found, with the number of the relay parent as slot and the
  timestamp it computed, runs to its end in the runtime, if the relay slot of the relay parent has no block yet.
\<close>

theorem template_node_block_runs:
  assumes "collator_env_ok (template_collator_env services para_id False max_pov)" "slot_lib_ok (ce_slots services)"
    and "reachable (template_collator_start services ce para_id False max_pov files)
       (pipeline_step (template_collator_env services para_id False max_pov) ce' se) p"
    and "builder_claim (template_collator_env services para_id False max_pov) now relay_best best (pl_builder p)
       = (Inr (rp_data, parent, core, max_size, claim), b)"
    and "predicts (ce_client services) parent"
    and "\<And>n slot. api_can_author (ce_client services) (header_hash (nc_crypto (ce_client services)) parent) n slot parent =
       (case nimbus_api_can_author fl number_of (header_hash (nc_crypto (ce_client services))) s n slot parent of Ok b \<Rightarrow> Some b | _ \<Rightarrow> None)"
    and "rh_babe_slot (rpd_relay_parent rp_data) = Some relay_slot"
    and "case SlotInfo (ts_async s) of None \<Rightarrow> True | Some (last_slot, _) \<Rightarrow> last_slot < relay_slot"
    and "from_timestamp_div from_ts" "digest_api_ok c api"
    and "\<And>nid. decode_id (encode (nc_id_codec (ce_client services)) nid) = Some nid" "ensure_none sys origin = Inr ()"
  shows "is_ok (template_run_block fl (template_ab_config from_ts rw) (as_pre_runtime api) decode_id sys (number_of parent + 1)
     (header_hash (nc_crypto (ce_client services)) parent)
     (nimbus_pre_digest (nc_id_codec (ce_client services)) (sc_author_id claim) # rest)
     (rh_number (rpd_relay_parent rp_data)) relay_slot (sc_timestamp claim) [origin] s)"
proof -
  let ?cl = "ce_client services"
  from node_claim [OF assms(1-4,7)] have claim: "claim_slot ?cl parent (rh_number (rpd_relay_parent rp_data)) False = Ok (Some (sc_author_id claim))"
    and time: "unat (sc_timestamp claim) = 6000 * unat relay_slot" by (simp_all add: MILLISECS_PER_BLOCK_def)
  have "unat (sc_timestamp claim) < 2 ^ 64" by (rule order_less_le_trans [OF unsigned_less]) simp
  with time have fits: "6000 * unat relay_slot < 2 ^ 64" by simp
  have "unat (sc_timestamp claim div MILLISECS_PER_BLOCK) = unat relay_slot" using time by (simp add: MILLISECS_PER_BLOCK_def unat_div)
  then have slot: "sc_timestamp claim div MILLISECS_PER_BLOCK = relay_slot" by (simp only: word_unat_eq_iff)
  have "nimbus_api_can_author fl number_of (header_hash (nc_crypto ?cl)) s (sc_author_id claim) (rh_number (rpd_relay_parent rp_data)) parent = Ok True"
    using claim_slot_eligible [OF claim assms(5)] assms(6) by (auto split: result.splits)
  then show ?thesis
    unfolding template_block_iff [where decode_id = decode_id and nid = "sc_author_id claim", OF assms(9) fits slot assms(8,10,11,12)]
    by (rule prediction_iff [THEN iffD1])
qed

section \<open>Limits and modes of the node\<close>

text \<open>
  With a percentage of at most 100, as the documented range and the deprecated full size flag give, the node never allows
  blocks beyond the maximal PoV of the relay chain (up to 42 megabytes). The command line takes any percentage up to 255, though: above 100 the
  limit exceeds the maximum.
\<close>

theorem node_pov_limit:
  assumes "start = template_collator_env services para_id force (pov_percentage cmd)"
    and "unat max_size * unat (pov_percentage cmd) < 2 ^ 32"
  shows "allowed_pov_size max_size (ce_max_pov_percentage start) = unat max_size * unat (pov_percentage cmd) div 100 \<and>
     (pov_percentage cmd \<le> 100 \<longrightarrow> allowed_pov_size max_size (ce_max_pov_percentage start) \<le> unat max_size) \<and>
     (100 < pov_percentage cmd \<and> 100 \<le> max_size \<longrightarrow> unat max_size < allowed_pov_size max_size (ce_max_pov_percentage start))"
proof -
  let ?p = "unat (pov_percentage cmd)"
  have u: "unat (ucast (pov_percentage cmd) :: u32) = ?p"
    by (simp add: unsigned_ucast_eq unsigned_take_bit_eq take_bit_nat_eq_self_iff less_trans [OF unsigned_less])
  have "unat (max_size * ucast (pov_percentage cmd)) = unat max_size * ?p"
    using assms(2) u by (simp add: unat_mult_lem [THEN iffD1])
  then have e: "allowed_pov_size max_size (ce_max_pov_percentage start) = unat max_size * ?p div 100"
    by (simp add: assms(1) template_collator_env_def allowed_pov_size_def unat_div)
  moreover have "unat max_size * ?p div 100 \<le> unat max_size" if "pov_percentage cmd \<le> 100"
  proof -
    have "?p \<le> 100" using that by (simp add: word_le_nat_alt)
    then have "unat max_size * ?p div 100 \<le> unat max_size * 100 div 100" by (intro div_le_mono mult_le_mono2)
    then show ?thesis by simp
  qed
  moreover have "unat max_size < unat max_size * ?p div 100" if "100 < pov_percentage cmd" "100 \<le> max_size"
  proof -
    have p: "101 \<le> ?p" "100 \<le> unat max_size" using that by (simp_all add: word_less_nat_alt word_le_nat_alt)
    then have "(unat max_size + 1) * 100 \<le> unat max_size * 101" by simp
    also have "\<dots> \<le> unat max_size * ?p" using p(1) by (rule mult_le_mono2)
    finally have "unat max_size + 1 \<le> unat max_size * ?p div 100" by (simp add: less_eq_div_iff_mult_less_eq)
    then show ?thesis by simp
  qed
  ultimately show ?thesis by simp
qed

text \<open>
  C37: Instant seal on the template runtime gets stuck: the mocked relay chain never moves, as all its offsets are zero, so once a block has run, no
  further block with the mocked relay slot runs to its end, whoever its author and whatever its timestamp; and the first one runs only with a
  timestamp inside that constant slot. (\<open>mock_slot\<close> is the relay slot that the mock derives from the number of its relay parent.)
\<close>

theorem instant_seal_runs_once:
  assumes "\<And>m. mock_slot m = f (mv_relay_offset m + mv_relay_blocks_per_para_block m * mv_current_para_block m)"
    and "instant_seal_inherents header_of info para_id d1 h1 block1 = (Ok m1 :: ('e, ('dmsg, 'hmsg) mock_validation_data) result)"
    and "instant_seal_inherents header_of info para_id d2 h2 block2 = (Ok m2 :: ('e, ('dmsg, 'hmsg) mock_validation_data) result)"
    and "template_run_block fl (template_ab_config from_ts rw) pre decode_id sys n1 p1 logs1 slot1 (mock_slot m1) now1 origins1 s = Ok t"
  shows "now1 div MILLISECS_PER_BLOCK = mock_slot m1 \<and>
     \<not> is_ok (template_run_block fl (template_ab_config from_ts rw) pre decode_id sys n2 p2 logs2 slot2 (mock_slot m2) now2 origins2 t)"
proof -
  have same: "mock_slot m2 = mock_slot m1"
    using assms(1-3) by (auto simp: instant_seal_inherents_def Let_def)
  from assms(4) obtain s1 ai ai2 x async where first:
    "on_state_proof_inner (template_ab_config from_ts rw) relay_slot_get_and_verify (mock_slot m1) s1 = Ok (x, async)"
    "post_inherents (template_ab_config from_ts rw) now1 async = Ok ()" "ts_async t = async"
    by (auto simp: template_run_block_def Let_def)
  from first(1) have info: "SlotInfo async = Some (next_slot_info (mock_slot m1) (SlotInfo s1))"
    by (auto simp: on_state_proof_inner_Ok_iff)
  then obtain authored where i: "SlotInfo async = Some (mock_slot m1, authored)"
    by (auto simp: next_slot_info_def split: option.splits if_splits)
  have "now1 div MILLISECS_PER_BLOCK = mock_slot m1"
    using first(2) i by (auto simp: post_inherents_def template_consts)
  moreover have "\<not> is_ok (template_run_block fl (template_ab_config from_ts rw) pre decode_id sys n2 p2 logs2 slot2 (mock_slot m2) now2 origins2 t)"
  proof
    assume "is_ok (template_run_block fl (template_ab_config from_ts rw) pre decode_id sys n2 p2 logs2 slot2 (mock_slot m2) now2 origins2 t)"
    then obtain u where "template_run_block fl (template_ab_config from_ts rw) pre decode_id sys n2 p2 logs2 slot2 (mock_slot m2) now2 origins2 t = Ok u"
      by (auto simp: is_ok_iff)
    then obtain y async2 where "on_state_proof_inner (template_ab_config from_ts rw) relay_slot_get_and_verify (mock_slot m2) async = Ok (y, async2)"
      using first(3) by (auto simp: template_run_block_def flip_initialize_def system_initialize_def Let_def)
    then show False using i by (simp add: on_state_proof_inner_Ok_iff slot_accepted_def same template_consts)
  qed
  ultimately show ?thesis by blast
qed

text \<open>
  The import queue of the node imports every verified block of the network as a candidate for the best block, although in a parachain
  the relay chain decides and the queue has a mode for it.
\<close>

theorem template_imports_as_best:
  assumes "queue_import cl lib ic template_block_import inner p st = Ok r"
    and "\<not> with_state lib p" "\<not> skip_execution_checks lib (state_action p)"
  shows "\<exists>q. inner q st = r \<and> fork_choice q = Some LongestChain \<and> create_gap q = create_gap p"
proof -
  from assms(1) obtain v where v: "verify cl lib ic p = Ok v" "inner v st = r"
    by (auto simp: queue_import_def nimbus_import_block_def template_block_import_def)
  have "fork_choice v = Some LongestChain \<and> create_gap v = create_gap p"
    by (rule verify_OkE [OF v(1) assms(2,3)]) simp
  with v(2) show ?thesis by blast
qed

section \<open>Concrete runs\<close>

text \<open>Keys derived from their seeds: the number of characters of the seed.\<close>

definition demo_key_lib :: "(nat, nat, u8) key_lib" where
  "demo_key_lib = \<lparr>sr25519_from_string = (\<lambda>s. Some (length s)), nimbus_from_string = (\<lambda>s. Some (of_nat (length s))), into_account = (\<lambda>n. n)\<rparr>"

definition demo_authorities :: "(nat \<times> u8) list" where
  "demo_authorities = [(7, 7), (5, 5)]"

text \<open>The local testnet has Alice and Bob as authorities.\<close>

lemma local_testnet_authorities:
  "\<exists>spec. load_spec demo_key_lib (Some ()) (\<lambda>_. Inl []) ''local'' = Ok spec \<and> rg_mapping (spec_genesis spec) = demo_authorities \<and>
     length (rg_balances (spec_genesis spec)) = 12"
  by (simp add: load_spec_def local_testnet_config_def endowed_seeds_def collator_from_seed_def get_account_id_from_seed_def
      get_collator_keys_from_seed_def get_pair_from_seed_def demo_key_lib_def testnet_genesis_def demo_authorities_def)

lemmas demo_block_hyps = from_timestamp_div_def MILLISECS_PER_BLOCK_def raw_system_def digest_api_ok_def demo_digest_api_def byte_codec_def

lemma demo_block_env:
  "from_timestamp_div (div)" "digest_api_ok byte_codec (demo_digest_api byte_codec)" "ensure_none raw_system Unsigned = Inr ()"
  "map_option fst (decode byte_codec (encode byte_codec nid)) = Some nid"
  by (simp_all add: demo_block_hyps)

definition node_services_demo where
  "node_services_demo = demo_collator\<lparr>ce_client := template_client\<rparr>"

lemma node_services_demo_ok: "collator_env_ok (template_collator_env node_services_demo 1000 False 50)"
  using demo_lru_ok demo_client_ok demo_builder_services_ok
  by (simp add: collator_env_ok_def template_collator_env_def node_services_demo_def demo_collator_def template_client_def
      keystore_ok_def client_codecs_ok_def)

theorem node_pov_limit_witness:
  "\<exists>env cmd. env = template_collator_env node_services_demo 1000 False (pov_percentage cmd) \<and> cli_max_pov_percentage cmd = 200 \<and>
     5242880 < allowed_pov_size 5242880 (ce_max_pov_percentage env)"
proof -
  define cmd where "cmd = \<lparr>cli_subcommand = None, cli_max_pov_percentage = 200, cli_full_pov_size = False, cli_relay_chain_args = []\<rparr>"
  have "unat (5242880 :: u32) * unat (pov_percentage cmd) < 2 ^ 32" "100 < pov_percentage cmd"
    by (simp_all add: pov_percentage_def cmd_def)
  with node_pov_limit [OF refl this(1), of node_services_demo 1000 False] show ?thesis
    by (intro exI [of _ "template_collator_env node_services_demo 1000 False (pov_percentage cmd)"] exI [of _ cmd]) (simp add: cmd_def)
qed

theorem instant_seal_runs_once_witness:
  "\<exists>m t. instant_seal_inherents (\<lambda>h. Some (Some h)) (\<lambda>_ _. Inr (None :: unit option)) 1000 [] [] (0 :: nat)
       = (Ok m :: (unit, (nat, nat) mock_validation_data) result) \<and>
     template_run_block template_flip (template_ab_config (div) (\<lambda>r w. r + w)) (as_pre_runtime (demo_digest_api byte_codec))
       (\<lambda>bs. map_option fst (decode byte_codec bs)) raw_system 5 4 [nimbus_pre_digest byte_codec 7] 9 9 54321 [Unsigned] template_demo = Ok t \<and>
     \<not> is_ok (template_run_block template_flip (template_ab_config (div) (\<lambda>r w. r + w)) (as_pre_runtime (demo_digest_api byte_codec))
       (\<lambda>bs. map_option fst (decode byte_codec bs)) raw_system 6 5 [nimbus_pre_digest byte_codec 7] 10 9 54322 [Unsigned] t)"
proof -
  let ?seal = "instant_seal_inherents (\<lambda>h. Some (Some h)) (\<lambda>_ _. Inr (None :: unit option)) 1000 [] [] (0 :: nat)
      :: (unit, (nat, nat) mock_validation_data) result"
  obtain m where m: "?seal = Ok m" by (simp add: instant_seal_inherents_def)
  have hyps: "6000 * unat (9 :: u64) < 2 ^ 64" "(54321 :: u64) div MILLISECS_PER_BLOCK = 9"
    "case SlotInfo (ts_async template_demo) of None \<Rightarrow> True | Some (last_slot, _) \<Rightarrow> last_slot < 9"
    by (simp_all add: MILLISECS_PER_BLOCK_def template_demo_def)
  have "\<exists>a. lookup_account_as (ts_authors template_demo) 7 = Some a \<and>
      template_can_author template_flip (begun template_flip 5 4 [nimbus_pre_digest byte_codec 7] template_demo) a 9 = Ok True"
    using prediction_iff [where number_of = "\<lambda>_. 4" and hash_of = "\<lambda>_. 4" and parent = demo_parent and nid = 7 and slot = 9 and
        s = template_demo and fl = template_flip and logs = "[nimbus_pre_digest byte_codec 7]"] template_demo_prediction [of "\<lambda>_. 4" 7]
    by simp
  with template_block_iff [where decode_id = "\<lambda>bs. map_option fst (decode byte_codec bs)" and nid = 7 and rest = "[]" and
      rw = "\<lambda>r w. r + w" and fl = template_flip and n = 5 and h = 4 and slot = 9, OF demo_block_env(1) hyps demo_block_env(2,4,3)]
  obtain t where t: "template_run_block template_flip (template_ab_config (div) (\<lambda>r w. r + w)) (as_pre_runtime (demo_digest_api byte_codec))
       (\<lambda>bs. map_option fst (decode byte_codec bs)) raw_system 5 4 [nimbus_pre_digest byte_codec 7] 9 ((\<lambda>_. 9) m) 54321 [Unsigned] template_demo = Ok t"
    by (auto simp: is_ok_iff)
  have "(\<lambda>_. 9 :: u64) k = (\<lambda>_. 9) (mv_relay_offset k + mv_relay_blocks_per_para_block k * mv_current_para_block k)"
    for k :: "(nat, nat) mock_validation_data" by simp
  from instant_seal_runs_once [OF this m m t, of 6 5 "[nimbus_pre_digest byte_codec 7]" 10 54322 "[Unsigned]"] m t show ?thesis
    by (intro exI [of _ m] exI [of _ t]) simp
qed

end
