(* ===== verification/Template_Services.thy ===== *)
theory Template_Services
  imports Template_Node Template_Config
begin

text \<open>
  The rest of the template node (\<^verbatim>\<open>template/node/src\<close>): the command line interfaces of the node and of its relay chain (\<^verbatim>\<open>command.rs\<close>), the
  services that every command shares (\<^verbatim>\<open>new_partial\<close> of \<^verbatim>\<open>service.rs\<close>), the RPC module (\<^verbatim>\<open>rpc.rs\<close>) and \<^verbatim>\<open>main.rs\<close>. The command line of
  the SDK, its services and its RPC modules are parameters.
\<close>

section \<open>Command line interfaces\<close>

type_synonym u16 = "16 word"

record cli_info =
  cli_impl_name :: string
  cli_impl_version :: string
  cli_description :: string
  cli_author :: string
  cli_support_url :: string
  cli_copyright_start_year :: int

definition newline :: string where
  "newline = [char_of (10 :: nat)]"

definition template_description :: "string \<Rightarrow> string" where
  "template_description executable_name =
     ''Parachain Collator Template'' @ newline @ newline @
     ''The command-line arguments provided first will be passed to the parachain node, while the arguments provided after -- will be passed to the relay chain node.''
     @ newline @ newline @ executable_name @ '' <parachain-args> -- <relay-chain-args>''"

definition Cli_info :: "string \<Rightarrow> string \<Rightarrow> string \<Rightarrow> cli_info" where
  "Cli_info executable_name version authors = \<lparr>cli_impl_name = ''Parachain Collator Template'', cli_impl_version = version,
     cli_description = template_description executable_name, cli_author = authors,
     cli_support_url = ''https://github.com/Moonsong-Labs/moonkit/issues/new'', cli_copyright_start_year = 2020\<rparr>"

definition RelayChainCli_info :: "string \<Rightarrow> string \<Rightarrow> string \<Rightarrow> cli_info" where
  "RelayChainCli_info executable_name version authors = \<lparr>cli_impl_name = ''Parachain Collator Template'', cli_impl_version = version,
     cli_description = template_description executable_name, cli_author = authors,
     cli_support_url = ''https://github.com/Moonsong-Labs/moonkit/issues/new'', cli_copyright_start_year = 2020\<rparr>"

definition RelayChainCli_load_spec :: "(string list \<Rightarrow> string \<Rightarrow> (string, 'spec) result) \<Rightarrow> string \<Rightarrow> string \<Rightarrow> (string, 'spec) result" where
  "RelayChainCli_load_spec polkadot_load_spec executable_name chain = polkadot_load_spec [executable_name] chain"

text \<open>The ports that the relay chain node listens to by default.\<close>

record listen_ports =
  p2p_listen_port :: u16
  rpc_listen_port :: u16
  prometheus_listen_port :: u16

definition RelayChainCli_ports :: listen_ports where
  "RelayChainCli_ports = \<lparr>p2p_listen_port = 30334, rpc_listen_port = 9945, prometheus_listen_port = 9616\<rparr>"

text \<open>
  \<^verbatim>\<open>CliConfiguration\<close>: what a configuration is made from. The relay chain answers with its own command, except for the base path and the
  chain, which default to those that \<open>relay_chain_cli_new\<close> derives from the configuration of the parachain, and for \<^verbatim>\<open>init\<close>.
\<close>

record ('shared, 'import, 'net, 'keystore, 'spec, 'pool) cli_configuration =
  shared_params :: 'shared
  import_params :: "'import option"
  network_params :: "'net option"
  keystore_params :: "'keystore option"
  cc_base_path :: "(string, string option) result"
  cc_rpc_addr :: "u16 \<Rightarrow> (string, string list option) result"
  cc_prometheus_config :: "u16 \<Rightarrow> 'spec \<Rightarrow> (string, string option) result"
  cc_init :: "string \<Rightarrow> string \<Rightarrow> (string, unit) result"
  cc_chain_id :: "bool \<Rightarrow> (string, string) result"
  cc_role :: "bool \<Rightarrow> (string, bool) result"
  cc_transaction_pool :: "bool \<Rightarrow> (string, 'pool) result"
  cc_rpc_methods :: "(string, string) result"
  cc_rpc_max_connections :: "(string, u32) result"
  cc_rpc_cors :: "bool \<Rightarrow> (string, string list option) result"
  cc_default_heap_pages :: "(string, u64 option) result"
  cc_force_authoring :: "(string, bool) result"
  cc_disable_grandpa :: "(string, bool) result"
  cc_max_runtime_instances :: "(string, nat option) result"
  cc_announce_block :: "(string, bool) result"
  cc_telemetry_endpoints :: "'spec \<Rightarrow> (string, string list option) result"

definition RelayChainCli_configuration ::
    "('shared \<Rightarrow> (string, string option) result)
      \<Rightarrow> ('shared, 'import, 'net, 'keystore, 'spec, 'pool) cli_configuration relay_chain_cli
      \<Rightarrow> ('shared, 'import, 'net, 'keystore, 'spec, 'pool) cli_configuration" where
  "RelayChainCli_configuration base_path_of rc =
     (let base = rcc_base rc
      in \<lparr>shared_params = shared_params base,
          import_params = import_params base,
          network_params = network_params base,
          keystore_params = keystore_params base,
          cc_base_path = rcc_base_path_of (\<lambda>b. base_path_of (shared_params b)) rc,
          cc_rpc_addr = (\<lambda>default_listen_port. cc_rpc_addr base default_listen_port),
          cc_prometheus_config = (\<lambda>default_listen_port chain_spec. cc_prometheus_config base default_listen_port chain_spec),
          cc_init = (\<lambda>support_url impl_version. Panic ''PolkadotCli is never initialized; qed''),
          cc_chain_id = (\<lambda>is_dev. rcc_chain_id_of cc_chain_id is_dev rc),
          cc_role = (\<lambda>is_dev. cc_role base is_dev),
          cc_transaction_pool = (\<lambda>is_dev. cc_transaction_pool base is_dev),
          cc_rpc_methods = cc_rpc_methods base,
          cc_rpc_max_connections = cc_rpc_max_connections base,
          cc_rpc_cors = (\<lambda>is_dev. cc_rpc_cors base is_dev),
          cc_default_heap_pages = cc_default_heap_pages base,
          cc_force_authoring = cc_force_authoring base,
          cc_disable_grandpa = cc_disable_grandpa base,
          cc_max_runtime_instances = cc_max_runtime_instances base,
          cc_announce_block = cc_announce_block base,
          cc_telemetry_endpoints = (\<lambda>chain_spec. cc_telemetry_endpoints base chain_spec)\<rparr>)"

section \<open>The shared services (\<^verbatim>\<open>service.rs\<close>)\<close>

text \<open>\<^verbatim>\<open>TemplateRuntimeExecutor\<close>: native calls go to the runtime that is compiled in.\<close>

definition executor_dispatch :: "(string \<Rightarrow> u8 list \<Rightarrow> u8 list option) \<Rightarrow> string \<Rightarrow> u8 list \<Rightarrow> u8 list option" where
  "executor_dispatch runtime_dispatch meth data = runtime_dispatch meth data"

definition executor_native_version :: "Template_Config.runtime_version \<times> u32 set" where
  "executor_native_version = native_version"

datatype heap_alloc_strategy = DefaultHeapAlloc | StaticHeapAlloc u64

record executor_config =
  ec_telemetry_endpoints :: "string list option"
  ec_default_heap_pages :: "u64 option"
  ec_is_authority :: bool

record ('tel, 'client, 'keystore, 'pool, 'queue) partial_lib =
  telemetry_worker_new :: "nat \<Rightarrow> string list \<Rightarrow> (string, 'tel) result"
  new_full_parts :: "'tel option \<Rightarrow> heap_alloc_strategy \<Rightarrow> (string, 'client \<times> 'keystore) result"
  build_transaction_pool :: "bool \<Rightarrow> 'client \<Rightarrow> 'pool"
  build_import_queue :: "nimbus_block_import \<Rightarrow> 'client \<Rightarrow> (string, 'queue) result"

record ('tel, 'client, 'keystore, 'pool, 'queue) partial_components =
  pc_client :: 'client
  pc_keystore :: 'keystore
  pc_transaction_pool :: 'pool
  pc_import_queue :: 'queue
  pc_telemetry :: "'tel option"

text \<open>
  A telemetry worker only if there are endpoints, with a buffer of sixteen messages; the heap of the runtime as configured; then
  the client, the transaction pool and the import queue.
\<close>

definition new_partial ::
    "('tel, 'client, 'keystore, 'pool, 'queue) partial_lib \<Rightarrow> executor_config
      \<Rightarrow> (string, ('tel, 'client, 'keystore, 'pool, 'queue) partial_components) result" where
  "new_partial lib config =
     and_then (case ec_telemetry_endpoints config of
         None \<Rightarrow> Ok None
       | Some endpoints \<Rightarrow> if endpoints = [] then Ok None else and_then (telemetry_worker_new lib 16 endpoints) (\<lambda>t. Ok (Some t)))
     (\<lambda>telemetry. let heap_pages = (case ec_default_heap_pages config of None \<Rightarrow> DefaultHeapAlloc | Some h \<Rightarrow> StaticHeapAlloc h)
      in and_then (new_full_parts lib telemetry heap_pages)
     (\<lambda>(client, keystore). let transaction_pool = build_transaction_pool lib (ec_is_authority config) client
      in and_then (build_import_queue lib template_block_import client)
     (\<lambda>import_queue. Ok \<lparr>pc_client = client, pc_keystore = keystore, pc_transaction_pool = transaction_pool, pc_import_queue = import_queue,
         pc_telemetry = telemetry\<rparr>)))"

definition start_parachain_node where
  "start_parachain_node sv start config mode para_id max_pov_percentage = start_node_impl sv start config mode para_id max_pov_percentage"

section \<open>RPC (\<^verbatim>\<open>rpc.rs\<close>) and \<^verbatim>\<open>main.rs\<close>\<close>

text \<open>\<open>merge\<close> adds the methods of a module, and fails on a name that is already taken; a module is the map of its methods.\<close>

record ('client, 'pool) full_deps =
  fd_client :: 'client
  fd_pool :: 'pool

definition create_full ::
    "((string \<rightharpoonup> 'meth) \<Rightarrow> (string \<rightharpoonup> 'meth) \<Rightarrow> (string, string \<rightharpoonup> 'meth) result) \<Rightarrow> ('client \<Rightarrow> 'pool \<Rightarrow> string \<rightharpoonup> 'meth) \<Rightarrow> ('client \<Rightarrow> string \<rightharpoonup> 'meth)
      \<Rightarrow> ('client, 'pool) full_deps \<Rightarrow> (string, string \<rightharpoonup> 'meth) result" where
  "create_full merge system_rpc transaction_payment_rpc deps =
     and_then (merge Map.empty (system_rpc (fd_client deps) (fd_pool deps)))
     (\<lambda>m. merge m (transaction_payment_rpc (fd_client deps)))"

definition main_template where
  "main_template ne cmd = run_node ne cmd"

section \<open>What the node starts\<close>

text \<open>
  The RPC module has exactly the methods of both parts, and cannot be built if they share a name.
\<close>

definition merge_ok :: "((string \<rightharpoonup> 'meth) \<Rightarrow> (string \<rightharpoonup> 'meth) \<Rightarrow> (string, string \<rightharpoonup> 'meth) result) \<Rightarrow> bool" where
  "merge_ok merge \<longleftrightarrow> (\<forall>m n. if dom m \<inter> dom n = {} then merge m n = Ok (m ++ n) else \<not> is_ok (merge m n))"

lemma rpc_methods:
  assumes "merge_ok merge" and m: "m = system_rpc (fd_client deps) (fd_pool deps)" and n: "n = transaction_payment_rpc (fd_client deps)"
  shows "create_full merge system_rpc transaction_payment_rpc deps = Ok rpc \<longleftrightarrow> dom m \<inter> dom n = {} \<and> rpc = m ++ n"
proof -
  have "if dom m \<inter> dom n = {} then merge m n = Ok (m ++ n) else \<not> is_ok (merge m n)" "merge Map.empty m = Ok m"
    using assms(1) unfolding merge_ok_def by (blast, auto dest!: spec [of _ Map.empty] spec [of _ m])
  then show ?thesis by (auto simp: create_full_def is_ok_iff m n split: if_splits)
qed

text \<open>
  The relay chain node never shares its database with the parachain node unless it is told to: its base path lies below that of
  the parachain.
\<close>

lemma relay_database_below:
  assumes "rc = relay_chain_cli_new parse_from config args" "base_path_of (shared_params (rcc_base rc)) = Ok None"
  shows "cc_base_path (RelayChainCli_configuration base_path_of rc) = Ok (Some (cfg_base_path config @ ''/polkadot''))"
  using assms by (simp add: RelayChainCli_configuration_def Let_def rcc_base_path_of_def relay_chain_cli_new_def)

lemma relay_chain_of_spec:
  assumes "rc = relay_chain_cli_new parse_from config args" "spec_extensions (cfg_chain_spec config) = Some ext"
    and "cc_chain_id (rcc_base rc) is_dev = Ok []"
  shows "cc_chain_id (RelayChainCli_configuration base_path_of rc) is_dev = Ok (ext_relay_chain ext)"
  using assms by (simp add: RelayChainCli_configuration_def Let_def rcc_chain_id_of_def relay_chain_cli_new_def)

text \<open>A node without telemetry endpoints never starts a telemetry worker; every command shares the import queue that imports as best.\<close>

lemma new_partial_Ok:
  assumes "new_partial lib config = Ok pc"
  shows "build_import_queue lib template_block_import (pc_client pc) = Ok (pc_import_queue pc) \<and>
     (pc_telemetry pc = None \<longleftrightarrow> ec_telemetry_endpoints config = None \<or> ec_telemetry_endpoints config = Some [])"
  using assms by (auto simp: new_partial_def Let_def split: option.splits if_splits)

section \<open>The chain from its genesis\<close>

text \<open>
  The template chain: blocks that run through all pallets to their end, with any author, relay parent and timestamp, and the call of the slot
  filter, which the template does not expose but a chain derived from it may: it sets the eligible count to a decoded, hence non-zero, value.
\<close>

definition chain_genesis ::
    "'hash \<Rightarrow> 'mat \<Rightarrow> 'sys \<Rightarrow> ('acct, 'nid) runtime_genesis \<Rightarrow> ('nid, 'acct, 'hash, 'mat, 'sys) runtime_state" where
  "chain_genesis zero_hash no_material sys g =
     \<lparr>rt_template = template_genesis zero_hash no_material g, rt_now = 0, rt_last_relay = 0, rt_system = sys\<rparr>"

inductive chain_step ::
    "('nid, 'acct, 'hash, 'mat, 'origin, 'd, 'w, 'sys) runtime_env \<Rightarrow> u32 codec
      \<Rightarrow> ('nid, 'acct, 'hash, 'mat, 'sys) runtime_state \<Rightarrow> ('nid, 'acct, 'hash, 'mat, 'sys) runtime_state \<Rightarrow> bool"
  for env nz_codec where
    chain_block: "run_runtime_block env b s = Ok t \<Longrightarrow> chain_step env nz_codec s t"
  | chain_set_eligible: "NonZeroU32_decode nz_codec input = Ok (new, rest) \<Longrightarrow>
      set_eligible (re_sys env) origin new (ts_filter (rt_template s)) = Ok f \<Longrightarrow>
      chain_step env nz_codec s (s\<lparr>rt_template := (rt_template s)\<lparr>ts_filter := f\<rparr>\<rparr>)"

text \<open>The time of the last block lies in its relay slot.\<close>

definition now_in_slot :: "('nid, 'acct, 'hash, 'mat, 'sys) runtime_state \<Rightarrow> bool" where
  "now_in_slot s \<longleftrightarrow> (case SlotInfo (ts_async (rt_template s)) of
     None \<Rightarrow> rt_now s = 0 | Some (last_slot, _) \<Rightarrow> rt_now s div MILLISECS_PER_BLOCK = last_slot)"

lemma runtime_block_keeps:
  assumes "chain_inv authorities (rt_template s)" "run_runtime_block env b s = Ok t" "re_async env = template_ab_config from_ts rw"
    "from_timestamp_div from_ts"
  shows "chain_inv authorities (rt_template t) \<and> now_in_slot t"
proof -
  from assms(2) have a: "authorship_block env b (rt_template s) = Ok (rt_template t)" "rt_now t = bi_timestamp b"
    by (simp_all add: runtime_block_Ok_iff)
  from run_block_keeps [OF a(1) [unfolded authorship_block_def]] assms(1) have "chain_inv authorities (rt_template t)"
    by (simp add: chain_inv_def)
  moreover obtain n where n: "SlotInfo (ts_async (rt_template t)) = Some (bi_relay_slot b, n)" using authorship_block_slot [OF a(1)] by blast
  from a(1) have "post_inherents (re_async env) (bi_timestamp b) (ts_async (rt_template t)) = Ok ()"
    by (auto simp: authorship_block_def template_run_block_def Let_def dest: arg_cong [where f = ts_async])
  with n assms(3,4) have "bi_timestamp b div MILLISECS_PER_BLOCK = bi_relay_slot b"
    by (auto simp: post_inherents_def template_consts)
  ultimately show ?thesis using n a(2) by (simp add: now_in_slot_def)
qed

interpretation template_chain: invariant_system
  "\<lambda>s. re_async env = template_ab_config from_ts rw \<and> from_timestamp_div from_ts \<and>
     s = chain_genesis zero_hash no_material sys0 (testnet_genesis authorities endowed para_id)"
  "chain_step env nz_codec"
  "\<lambda>s. re_async env = template_ab_config from_ts rw \<and> from_timestamp_div from_ts \<and> chain_inv authorities (rt_template s) \<and> now_in_slot s"
  for env from_ts rw zero_hash no_material sys0 authorities endowed para_id nz_codec
proof (unfold_locales, goal_cases)
  case (1 s)
  have "now_in_slot (chain_genesis zero_hash no_material sys0 (testnet_genesis authorities endowed para_id))"
    by (simp add: now_in_slot_def chain_genesis_def template_genesis_def ab_genesis_def)
  with 1 show ?case by (simp add: chain_genesis_def genesis_inv)
next
  case (2 s t)
  from 2(2,1) show ?case
  proof cases
    case (chain_block b)
    with 2(1) runtime_block_keeps [OF _ chain_block] show ?thesis by blast
  next
    case (chain_set_eligible input new rest origin f)
    then show ?thesis using 2(1) set_eligible_keeps [OF _ chain_set_eligible(2,3)] by (auto simp: now_in_slot_def split: option.splits)
  qed
qed

text \<open>
  In a later relay slot there is always a time that keeps the minimum period: the last millisecond of the slot.
\<close>

lemma slot_end_late_enough:
  assumes "now_in_slot s" "relay_slot_free relay_slot s" "6000 * (unat relay_slot + 1) < 2 ^ 64"
  defines "now \<equiv> 6000 * relay_slot + 5999"
  shows "now div MILLISECS_PER_BLOCK = relay_slot" "rt_now s = 0 \<or> unat (rt_now s) + unat MinimumPeriod \<le> unat now"
proof -
  have now: "unat now = 6000 * unat relay_slot + 5999"
    using assms(3) unfolding now_def by (subst unat_add_lem [THEN iffD1]; subst unat_mult_lem [THEN iffD1]; simp add: unat_mult_lem [THEN iffD1])
  then have "unat (now div MILLISECS_PER_BLOCK) = unat relay_slot" by (simp add: MILLISECS_PER_BLOCK_def unat_div)
  then show "now div MILLISECS_PER_BLOCK = relay_slot" by (simp only: word_unat_eq_iff)
  show "rt_now s = 0 \<or> unat (rt_now s) + unat MinimumPeriod \<le> unat now"
  proof (cases "SlotInfo (ts_async (rt_template s))")
    case (Some info)
    obtain last_slot n where info: "info = (last_slot, n)" by (cases info)
    have "unat (rt_now s) div 6000 = unat last_slot"
      using assms(1) Some info by (auto simp: now_in_slot_def MILLISECS_PER_BLOCK_def unat_div)
    moreover have "unat last_slot < unat relay_slot" using assms(2) Some info by (simp add: relay_slot_free_def word_less_nat_alt)
    ultimately have "unat (rt_now s) \<le> 6000 * unat relay_slot + 2999" by (simp add: div_less_iff_less_mult)
    then show ?thesis unfolding now by (simp add: config_consts)
  qed (use assms(1) in \<open>simp add: now_in_slot_def\<close>)
qed



section \<open>The collator of the node and the whole runtime\<close>



end
