(* ===== verification/Weights.thy ===== *)
theory Weights
  imports Frame_Interfaces
begin

text \<open>
  The weights that the pallets charge: the benchmarked ones of the six \<^verbatim>\<open>weights.rs\<close> files, each in two implementations
  (\<^verbatim>\<open>SubstrateWeight\<close> with the database weights of the runtime, and the unit type with those of RocksDB), and those that the
  pallets write down themselves. The database weights are a parameter. The locale \<open>charged_calls\<close> is the contract between a
  pallet and its weights: a call changes no more storage entries than its weight pays writes for.
\<close>

section \<open>Author mapping (\<^verbatim>\<open>pallets/author-mapping/src/weights.rs\<close>)\<close>

record am_weight_info =
  w_am_add_association :: weight
  w_am_update_association :: weight
  w_am_clear_association :: weight
  w_am_remove_keys :: weight
  w_am_set_keys :: weight

definition am_SubstrateWeight :: "db_weight \<Rightarrow> am_weight_info" where
  "am_SubstrateWeight db = \<lparr>
     w_am_add_association =
       weight_saturating_add (weight_saturating_add (from_parts 39892000 7798) (reads db 2)) (writes db 3),
     w_am_update_association =
       weight_saturating_add (weight_saturating_add (from_parts 30445000 6590) (reads db 2)) (writes db 3),
     w_am_clear_association =
       weight_saturating_add (weight_saturating_add (from_parts 40798000 7952) (reads db 2)) (writes db 3),
     w_am_remove_keys =
       weight_saturating_add (weight_saturating_add (from_parts 44830000 11605) (reads db 3)) (writes db 3),
     w_am_set_keys =
       weight_saturating_add (weight_saturating_add (from_parts 34125000 10243) (reads db 3)) (writes db 3)\<rparr>"

definition am_unit_WeightInfo :: "db_weight \<Rightarrow> am_weight_info" where
  "am_unit_WeightInfo db = \<lparr>
     w_am_add_association =
       weight_saturating_add (weight_saturating_add (from_parts 39892000 7798) (reads db 2)) (writes db 3),
     w_am_update_association =
       weight_saturating_add (weight_saturating_add (from_parts 30445000 6590) (reads db 2)) (writes db 3),
     w_am_clear_association =
       weight_saturating_add (weight_saturating_add (from_parts 40798000 7952) (reads db 2)) (writes db 3),
     w_am_remove_keys =
       weight_saturating_add (weight_saturating_add (from_parts 44830000 11605) (reads db 3)) (writes db 3),
     w_am_set_keys =
       weight_saturating_add (weight_saturating_add (from_parts 34125000 10243) (reads db 3)) (writes db 3)\<rparr>"

section \<open>Author inherent (\<^verbatim>\<open>pallets/author-inherent/src/weights.rs\<close>)\<close>

record ai_weight_info =
  w_ai_kick_off_authorship_validation :: weight

definition ai_SubstrateWeight :: "db_weight \<Rightarrow> ai_weight_info" where
  "ai_SubstrateWeight db = \<lparr>
     w_ai_kick_off_authorship_validation =
       weight_saturating_add (weight_saturating_add (from_parts 26398000 10418) (reads db 6)) (writes db 2)\<rparr>"

definition ai_unit_WeightInfo :: "db_weight \<Rightarrow> ai_weight_info" where
  "ai_unit_WeightInfo db = \<lparr>
     w_ai_kick_off_authorship_validation =
       weight_saturating_add (weight_saturating_add (from_parts 26398000 10418) (reads db 6)) (writes db 1)\<rparr>"

section \<open>Author slot filter (\<^verbatim>\<open>pallets/author-slot-filter/src/weights.rs\<close>)\<close>

record sf_weight_info =
  w_sf_set_eligible :: weight

definition sf_SubstrateWeight :: "db_weight \<Rightarrow> sf_weight_info" where
  "sf_SubstrateWeight db = \<lparr>
     w_sf_set_eligible = weight_saturating_add (from_parts 12823000 0) (writes db 1)\<rparr>"

definition sf_unit_WeightInfo :: "db_weight \<Rightarrow> sf_weight_info" where
  "sf_unit_WeightInfo db = \<lparr>
     w_sf_set_eligible = weight_saturating_add (from_parts 12823000 0) (writes db 1)\<rparr>"

section \<open>Foreign asset creator (\<^verbatim>\<open>pallets/foreign-asset-creator/src/weights.rs\<close>)\<close>

record fac_weight_info =
  w_fac_create_foreign_asset :: weight
  w_fac_change_existing_asset_type :: weight
  w_fac_remove_existing_asset_type :: weight
  w_fac_destroy_foreign_asset :: weight

definition fac_SubstrateWeight :: "db_weight \<Rightarrow> fac_weight_info" where
  "fac_SubstrateWeight db = \<lparr>
     w_fac_create_foreign_asset =
       weight_saturating_add (weight_saturating_add (from_parts 17366000 3673) (reads db 2)) (writes db 3),
     w_fac_change_existing_asset_type =
       weight_saturating_add (weight_saturating_add (from_parts 14153000 3654) (reads db 1)) (writes db 3),
     w_fac_remove_existing_asset_type =
       weight_saturating_add (weight_saturating_add (from_parts 12184000 3654) (reads db 1)) (writes db 2),
     w_fac_destroy_foreign_asset =
       weight_saturating_add (weight_saturating_add (from_parts 18635000 3894) (reads db 2)) (writes db 3)\<rparr>"

definition fac_unit_WeightInfo :: "db_weight \<Rightarrow> fac_weight_info" where
  "fac_unit_WeightInfo db = \<lparr>
     w_fac_create_foreign_asset =
       weight_saturating_add (weight_saturating_add (from_parts 17366000 3673) (reads db 2)) (writes db 3),
     w_fac_change_existing_asset_type =
       weight_saturating_add (weight_saturating_add (from_parts 14153000 3654) (reads db 1)) (writes db 3),
     w_fac_remove_existing_asset_type =
       weight_saturating_add (weight_saturating_add (from_parts 12184000 3654) (reads db 1)) (writes db 2),
     w_fac_destroy_foreign_asset =
       weight_saturating_add (weight_saturating_add (from_parts 18635000 3894) (reads db 2)) (writes db 3)\<rparr>"

section \<open>Relay storage roots (\<^verbatim>\<open>pallets/relay-storage-roots/src/weights.rs\<close>)\<close>

record rsr_weight_info =
  w_rsr_set_relay_storage_root :: weight

definition rsr_SubstrateWeight :: "db_weight \<Rightarrow> rsr_weight_info" where
  "rsr_SubstrateWeight db = \<lparr>
     w_rsr_set_relay_storage_root =
       weight_saturating_add (weight_saturating_add (from_parts 35800000 3987) (reads db 3)) (writes db 3)\<rparr>"

definition rsr_unit_WeightInfo :: "db_weight \<Rightarrow> rsr_weight_info" where
  "rsr_unit_WeightInfo db = \<lparr>
     w_rsr_set_relay_storage_root =
       weight_saturating_add (weight_saturating_add (from_parts 35800000 3987) (reads db 3)) (writes db 3)\<rparr>"

section \<open>Randomness (\<^verbatim>\<open>pallets/randomness/src/weights.rs\<close>)\<close>

record rand_weight_info =
  w_rand_set_babe_randomness_results :: weight
  w_rand_on_initialize :: weight
  w_rand_request_randomness :: weight
  w_rand_prepare_fulfillment :: "u32 \<Rightarrow> weight"
  w_rand_finish_fulfillment :: weight
  w_rand_increase_fee :: weight
  w_rand_execute_request_expiration :: weight

definition rand_SubstrateWeight :: "db_weight \<Rightarrow> rand_weight_info" where
  "rand_SubstrateWeight db = \<lparr>
     w_rand_set_babe_randomness_results =
       weight_saturating_add (weight_saturating_add (from_parts 22704000 9405) (reads db 4)) (writes db 3),
     w_rand_on_initialize =
       weight_saturating_add (weight_saturating_add (from_parts 1191969000 14980) (reads db 5)) (writes db 2),
     w_rand_request_randomness =
       weight_saturating_add (weight_saturating_add (from_parts 57236000 12448) (reads db 4)) (writes db 5),
     w_rand_prepare_fulfillment = (\<lambda>x.
       weight_saturating_add (weight_saturating_add (from_parts 13619602 7754) (weight_saturating_mul (from_parts 301030 0) (ucast x))) (reads db 2)),
     w_rand_finish_fulfillment =
       weight_saturating_add (weight_saturating_add (from_parts 43277000 11049) (reads db 3)) (writes db 4),
     w_rand_increase_fee =
       weight_saturating_add (weight_saturating_add (from_parts 40462000 10429) (reads db 3)) (writes db 3),
     w_rand_execute_request_expiration =
       weight_saturating_add (weight_saturating_add (from_parts 45761000 14704) (reads db 4)) (writes db 4)\<rparr>"

definition rand_unit_WeightInfo :: "db_weight \<Rightarrow> rand_weight_info" where
  "rand_unit_WeightInfo db = \<lparr>
     w_rand_set_babe_randomness_results =
       weight_saturating_add (weight_saturating_add (from_parts 22704000 9405) (reads db 4)) (writes db 3),
     w_rand_on_initialize =
       weight_saturating_add (weight_saturating_add (from_parts 1191969000 14980) (reads db 5)) (writes db 2),
     w_rand_request_randomness =
       weight_saturating_add (weight_saturating_add (from_parts 57236000 12448) (reads db 4)) (writes db 5),
     w_rand_prepare_fulfillment = (\<lambda>x.
       weight_saturating_add (weight_saturating_add (from_parts 13619602 7754) (weight_saturating_mul (from_parts 301030 0) (ucast x))) (reads db 2)),
     w_rand_finish_fulfillment =
       weight_saturating_add (weight_saturating_add (from_parts 43277000 11049) (reads db 3)) (writes db 4),
     w_rand_increase_fee =
       weight_saturating_add (weight_saturating_add (from_parts 40462000 10429) (reads db 3)) (writes db 3),
     w_rand_execute_request_expiration =
       weight_saturating_add (weight_saturating_add (from_parts 45761000 14704) (reads db 4)) (writes db 4)\<rparr>"

section \<open>Weights written in the pallets\<close>

text \<open>The hooks and calls of the pallets that name their database accesses.\<close>

definition ai_on_initialize_weight :: "db_weight \<Rightarrow> weight" where
  "ai_on_initialize_weight db = reads_and_writes db 1 2"

definition sf_on_initialize_weight :: "db_weight \<Rightarrow> weight" where
  "sf_on_initialize_weight db = writes db 1"

definition em_on_initialize_weight :: "db_weight \<Rightarrow> weight" where
  "em_on_initialize_weight db = reads_and_writes db 1 1"

definition em_paused_to_normal_weight :: "db_weight \<Rightarrow> weight" where
  "em_paused_to_normal_weight db = reads_and_writes db 1 2"

definition em_fast_authorize_upgrade_weight :: "weight \<Rightarrow> db_weight \<Rightarrow> weight" where
  "em_fast_authorize_upgrade_weight authorize_upgrade db = weight_saturating_add authorize_upgrade (reads db 1)"

definition ab_set_relay_parent_offset_weight :: "db_weight \<Rightarrow> weight" where
  "ab_set_relay_parent_offset_weight db = writes db 1"

text \<open>Maintenance mode adds the raw costs, with the arithmetic of \<^verbatim>\<open>u64\<close>.\<close>

definition mm_enter_weight :: "db_weight \<Rightarrow> u64" where
  "mm_enter_weight db = db_read db + 3 * db_write db"

definition mm_resume_weight :: "db_weight \<Rightarrow> u64" where
  "mm_resume_weight db = db_read db + 3 * db_write db"

definition rand_on_initialize_weight :: "rand_weight_info \<Rightarrow> db_weight \<Rightarrow> bool \<Rightarrow> weight" where
  "rand_on_initialize_weight wi db first_block = (if first_block then reads_and_writes db 1 2 else w_rand_on_initialize wi)"

definition rsr_on_initialize_weight :: "rsr_weight_info \<Rightarrow> weight" where
  "rsr_on_initialize_weight wi = w_rsr_set_relay_storage_root wi"

section \<open>What a weight pays for\<close>

lemmas weight_ops = weight_saturating_add_def weight_saturating_mul_def from_parts_def

lemma pays_writes:
  assumes "db_weight_ok db" "unat n * unat (db_write db) < 2 ^ 64"
  shows "unat n * unat (db_write db) \<le> unat (ref_time (weight_saturating_add w (writes db n)))"
    "unat n * unat (db_write db) \<le> unat (ref_time (writes db n))"
    "unat n * unat (db_write db) \<le> unat (ref_time (reads_and_writes db r n))"
  using assms by (auto simp: db_weight_ok_def weight_ops unat_arith_ops mult.commute min_def)

definition db_weight_small :: "db_weight \<Rightarrow> bool" where
  "db_weight_small db \<longleftrightarrow> unat (db_read db) < 2 ^ 60 \<and> unat (db_write db) < 2 ^ 60"

text \<open>A few writes do not saturate.\<close>

lemma pays_few_writes:
  assumes "db_weight_ok db" "db_weight_small db" "unat n \<le> 8"
  shows "unat n * unat (db_write db) \<le> unat (ref_time (weight_saturating_add w (writes db n)))"
    "unat n * unat (db_write db) \<le> unat (ref_time (writes db n))"
    "unat n * unat (db_write db) \<le> unat (ref_time (reads_and_writes db r n))"
proof -
  have "unat n * unat (db_write db) \<le> 8 * unat (db_write db)" using assms(3) by simp
  also have "\<dots> < 2 ^ 64" using assms(2) by (simp add: db_weight_small_def)
  finally have few: "unat n * unat (db_write db) < 2 ^ 64" .
  show "unat n * unat (db_write db) \<le> unat (ref_time (weight_saturating_add w (writes db n)))"
    "unat n * unat (db_write db) \<le> unat (ref_time (writes db n))"
    "unat n * unat (db_write db) \<le> unat (ref_time (reads_and_writes db r n))"
    by (rule pays_writes [OF assms(1) few])+
qed

text \<open>
  Calls with their weights: \<open>written\<close> is the set of storage entries in which two states differ, \<open>bound\<close> the number of writes in
  the weight of a call.
\<close>

fun run_calls :: "('call \<Rightarrow> 's \<Rightarrow> 's option) \<Rightarrow> 'call list \<Rightarrow> 's \<Rightarrow> 's option" where
  "run_calls run [] s = Some s"
| "run_calls run (c # cs) s = (case run c s of Some t \<Rightarrow> run_calls run cs t | None \<Rightarrow> None)"

locale charged_calls =
  fixes run :: "'call \<Rightarrow> 's \<Rightarrow> 's option"
    and written :: "'s \<Rightarrow> 's \<Rightarrow> 'k set"
    and charge :: "db_weight \<Rightarrow> 'call \<Rightarrow> weight"
    and bound :: "'call \<Rightarrow> u64"
  assumes pays: "db_weight_ok db \<Longrightarrow> db_weight_small db \<Longrightarrow>
      unat (bound c) * unat (db_write db) \<le> unat (ref_time (charge db c))"
    and bounded: "run c s = Some t \<Longrightarrow> finite (written s t) \<and> card (written s t) \<le> unat (bound c)"
    and unwritten: "written s s = {}"
    and composed: "written s u \<subseteq> written s t \<union> written t u"
begin

lemma call_paid:
  assumes "run c s = Some t" "db_weight_ok db" "db_weight_small db"
  shows "card (written s t) * unat (db_write db) \<le> unat (ref_time (charge db c))"
  using pays [OF assms(2,3), of c] bounded [OF assms(1)] by (meson le_trans mult_le_mono1)

lemma calls_written:
  assumes "run_calls run cs s = Some t"
  shows "finite (written s t) \<and> card (written s t) \<le> (\<Sum>c\<leftarrow>cs. unat (bound c))"
  using assms
proof (induction cs arbitrary: s)
  case Nil
  then show ?case by (simp add: unwritten)
next
  case (Cons c cs)
  then obtain u where u: "run c s = Some u" "run_calls run cs u = Some t" by (auto split: option.splits)
  note first = bounded [OF u(1)] and rest = Cons.IH [OF u(2)]
  have "card (written s t) \<le> card (written s u \<union> written u t)"
    using first rest composed by (intro card_mono) auto
  also have "\<dots> \<le> card (written s u) + card (written u t)" by (rule card_Un_le)
  finally have "card (written s t) \<le> unat (bound c) + (\<Sum>c\<leftarrow>cs. unat (bound c))" using first rest by linarith
  moreover have "finite (written s t)"
    using first rest composed by (meson finite_UnI finite_subset)
  ultimately show ?case by simp
qed

text \<open>A sequence of calls changes no more entries than their weights pay for.\<close>

lemma calls_paid:
  assumes "run_calls run cs s = Some t" "db_weight_ok db" "db_weight_small db"
  shows "finite (written s t) \<and> card (written s t) * unat (db_write db) \<le> (\<Sum>c\<leftarrow>cs. unat (ref_time (charge db c)))"
proof -
  have "card (written s t) * unat (db_write db) \<le> (\<Sum>c\<leftarrow>cs. unat (bound c)) * unat (db_write db)"
    using calls_written [OF assms(1)] by simp
  also have "\<dots> = (\<Sum>c\<leftarrow>cs. unat (bound c) * unat (db_write db))" by (simp add: sum_list_mult_const)
  also have "\<dots> \<le> (\<Sum>c\<leftarrow>cs. unat (ref_time (charge db c)))"
    by (rule sum_list_mono) (rule pays [OF assms(2,3)])
  finally show ?thesis using calls_written [OF assms(1)] by simp
qed

end

section \<open>The two implementations\<close>

text \<open>
  With the database weights of RocksDB the two implementations of the benchmarked weights are the same for five of the pallets;
  the weight of the author inherent has a write more in one of them than in the other, and than its comment counts.
\<close>

lemma weight_infos_agree:
  "am_SubstrateWeight = am_unit_WeightInfo" "sf_SubstrateWeight = sf_unit_WeightInfo" "fac_SubstrateWeight = fac_unit_WeightInfo"
  "rsr_SubstrateWeight = rsr_unit_WeightInfo" "rand_SubstrateWeight = rand_unit_WeightInfo"
  by (simp_all add: fun_eq_iff am_SubstrateWeight_def am_unit_WeightInfo_def sf_SubstrateWeight_def sf_unit_WeightInfo_def
      fac_SubstrateWeight_def fac_unit_WeightInfo_def rsr_SubstrateWeight_def rsr_unit_WeightInfo_def
      rand_SubstrateWeight_def rand_unit_WeightInfo_def)

lemma author_inherent_weights_differ:
  assumes "db_weight_ok db" "db_weight_small db" "unat (db_read db) < 2 ^ 50"
  shows "unat (ref_time (w_ai_kick_off_authorship_validation (ai_SubstrateWeight db))) =
     unat (ref_time (w_ai_kick_off_authorship_validation (ai_unit_WeightInfo db))) + unat (db_write db)"
  using assms
  by (simp add: ai_SubstrateWeight_def ai_unit_WeightInfo_def db_weight_ok_def db_weight_small_def weight_ops unat_arith_ops min_def)

text \<open>Preparing a fulfilment costs the same for every word that is asked for; no number of words saturates the weight.\<close>

lemma prepare_fulfillment_weight:
  assumes "db_weight_ok db" "unat (db_read db) < 2 ^ 60"
  shows "unat (ref_time (w_rand_prepare_fulfillment (rand_SubstrateWeight db) x)) =
     13619602 + 301030 * unat x + 2 * unat (db_read db)"
proof -
  have small: "unat x < 2 ^ 32" using unsigned_less [of x] by simp
  moreover have "unat (ucast x :: u64) = unat x"
    unfolding unsigned_ucast_eq using small by (intro take_bit_nat_eq_self) simp
  ultimately show ?thesis
    using assms by (simp add: rand_SubstrateWeight_def db_weight_ok_def weight_ops unat_arith_ops min_def)
qed

end
