(* ===== verification/Weight_Coverage.thy ===== *)
theory Weight_Coverage
  imports Weights Author_Mapping Author_Inherent Author_Filters Foreign_Asset_Creator Relay_Storage_Roots Maintenance_Mode
    Async_Backing Randomness_Correct
begin

text \<open>
  The pallets against the weights they charge (\<open>Weights\<close>): the storage entries that a call or a hook changes, and that the weight pays for
  a write of each of them. A balance or an asset that a call changes through another pallet counts as one entry; events are not
  counted, as in the benchmarks.
\<close>

section \<open>Changed entries\<close>

definition changed :: "('k \<Rightarrow> 'v) \<Rightarrow> ('k \<Rightarrow> 'v) \<Rightarrow> 'k set" where
  "changed m m' = {k. m k \<noteq> m' k}"

lemma changed_simps [simp]:
  "changed m m = {}" "k \<in> changed m m' \<longleftrightarrow> m k \<noteq> m' k" "changed m (m(k := v)) = (if m k = v then {} else {k})"
  by (auto simp: changed_def)

lemma changed_composed: "changed m m'' \<subseteq> changed m m' \<union> changed m' m''"
  by (auto simp: changed_def)

text \<open>A set with at most the listed elements.\<close>

lemma card_within:
  assumes "A \<subseteq> set xs"
  shows "finite A \<and> card A \<le> length xs"
  using assms card_length [of xs] card_mono [of "set xs" A] finite_subset [of A "set xs"] by force

definition ok_state :: "('e, 's) result \<Rightarrow> 's option" where
  "ok_state r = (case r of Ok s \<Rightarrow> Some s | _ \<Rightarrow> None)"

lemma ok_state_Some [simp]: "ok_state r = Some s \<longleftrightarrow> r = Ok s"
  by (auto simp: ok_state_def split: result.splits)

section \<open>Author mapping\<close>

datatype ('nid, 'acct) am_entry = MappingEntry 'nid | LookupEntry 'acct | DepositEntry

definition am_written :: "('nid, 'acct, 'keys, 'cur) am_state \<Rightarrow> ('nid, 'acct, 'keys, 'cur) am_state \<Rightarrow> ('nid, 'acct) am_entry set" where
  "am_written s t = MappingEntry ` changed (MappingWithDeposit s) (MappingWithDeposit t) \<union>
     LookupEntry ` changed (NimbusLookup s) (NimbusLookup t) \<union> (if am_currency s = am_currency t then {} else {DepositEntry})"

primrec am_call_weight :: "am_weight_info \<Rightarrow> 'nid am_call \<Rightarrow> weight" where
  "am_call_weight wi (AddAssociation n) = w_am_add_association wi"
| "am_call_weight wi (UpdateAssociation old new) = w_am_update_association wi"
| "am_call_weight wi (ClearAssociation n) = w_am_clear_association wi"
| "am_call_weight wi RemoveKeys = w_am_remove_keys wi"
| "am_call_weight wi (SetKeys ks) = w_am_set_keys wi"

definition am_run where
  "am_run cfg oc s = ok_state (am_dispatch cfg (fst oc) (snd oc) s)"

lemma register_keys_written:
  "register_keys cfg n a ks s = Ok t \<Longrightarrow> am_written s t \<subseteq> set [MappingEntry n, LookupEntry a, DepositEntry]"
  by (auto simp: register_keys_def enact_registration_def deposit_event_am_def am_written_def Let_def changed_def split: sum.splits if_splits)

lemma rm_keys_written:
  "rm_keys cfg n a s = Ok t \<Longrightarrow> am_written s t \<subseteq> set [MappingEntry n, LookupEntry a, DepositEntry]"
  by (auto simp: rm_keys_def deposit_event_am_def am_written_def changed_def split: option.splits if_splits)

lemma rotate_keys_written:
  "rotate_keys cfg old new a ks s = Ok t \<Longrightarrow> am_written s t \<subseteq> set [MappingEntry old, MappingEntry new, LookupEntry a]"
  by (auto simp: rotate_keys_def deposit_event_am_def am_written_def changed_def split: option.splits if_splits)

lemma am_ops_card:
  "register_keys cfg n a ks s = Ok t \<Longrightarrow> finite (am_written s t) \<and> card (am_written s t) \<le> 3"
  "rm_keys cfg n a s = Ok t \<Longrightarrow> finite (am_written s t) \<and> card (am_written s t) \<le> 3"
  "rotate_keys cfg old n a ks s = Ok t \<Longrightarrow> finite (am_written s t) \<and> card (am_written s t) \<le> 3"
  by (drule register_keys_written rm_keys_written rotate_keys_written, drule card_within, simp)+

lemma am_dispatch_written:
  "am_dispatch cfg origin c s = Ok t \<Longrightarrow> finite (am_written s t) \<and> card (am_written s t) \<le> 3"
  by (cases c)
     (auto simp: add_association_def update_association_def clear_association_def remove_keys_def set_keys_def
       dest: am_ops_card split: option.splits)

interpretation am_charged: charged_calls "am_run cfg" am_written "\<lambda>db oc. am_call_weight (am_SubstrateWeight db) (snd oc)" "\<lambda>_. 3"
  for cfg
proof unfold_locales
  show "unat (3 :: u64) * unat (db_write db) \<le> unat (ref_time (am_call_weight (am_SubstrateWeight db) (snd oc)))"
    if "db_weight_ok db" "db_weight_small db" for db and oc :: "'o \<times> 'n am_call"
    using pays_few_writes(1) [OF that, of 3] by (cases "snd oc") (simp_all add: am_SubstrateWeight_def)
qed (auto simp: am_run_def am_written_def changed_def dest!: am_dispatch_written)

section \<open>Foreign assets\<close>

text \<open>The calls of the pallet, and their dispatch.\<close>

datatype ('acct, 'id, 'fa, 'bal) fac_call =
    CreateForeignAsset 'fa 'id 'acct bool 'bal
  | ChangeExistingAssetType 'id 'fa
  | RemoveExistingAssetType 'id
  | DestroyForeignAsset 'id

primrec fac_dispatch where
  "fac_dispatch cfg origin (CreateForeignAsset f a admin suff bal) = create_foreign_asset cfg origin f a admin suff bal"
| "fac_dispatch cfg origin (ChangeExistingAssetType a f) = change_existing_asset_type cfg origin a f"
| "fac_dispatch cfg origin (RemoveExistingAssetType a) = remove_existing_asset_type cfg origin a"
| "fac_dispatch cfg origin (DestroyForeignAsset a) = destroy_foreign_asset cfg origin a"

primrec fac_call_weight :: "fac_weight_info \<Rightarrow> ('acct, 'id, 'fa, 'bal) fac_call \<Rightarrow> weight" where
  "fac_call_weight wi (CreateForeignAsset f a admin suff bal) = w_fac_create_foreign_asset wi"
| "fac_call_weight wi (ChangeExistingAssetType a f) = w_fac_change_existing_asset_type wi"
| "fac_call_weight wi (RemoveExistingAssetType a) = w_fac_remove_existing_asset_type wi"
| "fac_call_weight wi (DestroyForeignAsset a) = w_fac_destroy_foreign_asset wi"

primrec fac_call_writes :: "('acct, 'id, 'fa, 'bal) fac_call \<Rightarrow> u64" where
  "fac_call_writes (CreateForeignAsset f a admin suff bal) = 3"
| "fac_call_writes (ChangeExistingAssetType a f) = 3"
| "fac_call_writes (RemoveExistingAssetType a) = 2"
| "fac_call_writes (DestroyForeignAsset a) = 3"

datatype ('id, 'fa) fac_entry = ForeignAssetEntry 'id | AssetIdEntry 'fa | AssetEntry

definition fac_written :: "('id, 'fa, 'fs, 'hs) fac_state \<Rightarrow> ('id, 'fa, 'fs, 'hs) fac_state \<Rightarrow> ('id, 'fa) fac_entry set" where
  "fac_written s t = ForeignAssetEntry ` changed (AssetIdToForeignAsset s) (AssetIdToForeignAsset t) \<union>
     AssetIdEntry ` changed (ForeignAssetToAssetId s) (ForeignAssetToAssetId t) \<union>
     (if fac_fungibles s = fac_fungibles t then {} else {AssetEntry})"

definition fac_run where
  "fac_run cfg oc s = ok_state (fac_dispatch cfg (fst oc) (snd oc) s)"

lemmas fac_ops_defs = create_foreign_asset_def change_existing_asset_type_def remove_existing_asset_type_def
  destroy_foreign_asset_def fac_deposit_def fac_written_def changed_def

lemma create_within:
  "create_foreign_asset cfg origin f a admin suff bal s = Ok t \<Longrightarrow> fac_written s t \<subseteq> set [ForeignAssetEntry a, AssetIdEntry f, AssetEntry]"
  by (auto simp: fac_ops_defs split: if_splits)

lemma change_within:
  "change_existing_asset_type cfg origin a f s = Ok t \<Longrightarrow>
     fac_written s t \<subseteq> set [ForeignAssetEntry a, AssetIdEntry f, AssetIdEntry (the (AssetIdToForeignAsset s a))]"
  by (auto simp: fac_ops_defs split: if_splits)

lemma remove_within:
  "remove_existing_asset_type cfg origin a s = Ok t \<Longrightarrow>
     fac_written s t \<subseteq> set [ForeignAssetEntry a, AssetIdEntry (the (AssetIdToForeignAsset s a))]"
  by (auto simp: fac_ops_defs split: if_splits)

lemma destroy_within:
  "destroy_foreign_asset cfg origin a s = Ok t \<Longrightarrow>
     fac_written s t \<subseteq> set [ForeignAssetEntry a, AssetIdEntry (the (AssetIdToForeignAsset s a)), AssetEntry]"
  by (auto simp: fac_ops_defs split: if_splits)

lemma fac_ops_card:
  "create_foreign_asset cfg origin f a admin suff bal s = Ok t \<Longrightarrow> finite (fac_written s t) \<and> card (fac_written s t) \<le> 3"
  "change_existing_asset_type cfg origin a f s = Ok t \<Longrightarrow> finite (fac_written s t) \<and> card (fac_written s t) \<le> 3"
  "remove_existing_asset_type cfg origin a s = Ok t \<Longrightarrow> finite (fac_written s t) \<and> card (fac_written s t) \<le> 2"
  "destroy_foreign_asset cfg origin a s = Ok t \<Longrightarrow> finite (fac_written s t) \<and> card (fac_written s t) \<le> 3"
  by (drule create_within change_within remove_within destroy_within, drule card_within, simp)+

lemma fac_dispatch_written:
  "fac_dispatch cfg origin c s = Ok t \<Longrightarrow> finite (fac_written s t) \<and> card (fac_written s t) \<le> unat (fac_call_writes c)"
  by (cases c) (auto dest: fac_ops_card)

interpretation fac_charged: charged_calls "fac_run cfg" fac_written "\<lambda>db oc. fac_call_weight (fac_SubstrateWeight db) (snd oc)"
    "\<lambda>oc. fac_call_writes (snd oc)"
  for cfg
proof unfold_locales
  show "unat (fac_call_writes (snd oc)) * unat (db_write db) \<le> unat (ref_time (fac_call_weight (fac_SubstrateWeight db) (snd oc)))"
    if "db_weight_ok db" "db_weight_small db" for db and oc :: "'o \<times> ('xacct, 'xid, 'xfa, 'xbal) fac_call"
    using pays_few_writes(1) [OF that, of 3] pays_few_writes(1) [OF that, of 2]
    by (cases "snd oc") (simp_all add: fac_SubstrateWeight_def)
qed (auto simp: fac_run_def fac_written_def changed_def dest!: fac_dispatch_written)

section \<open>Relay storage roots\<close>

text \<open>The pallet charges in \<^verbatim>\<open>on_initialize\<close> for what it writes in \<^verbatim>\<open>on_finalize\<close>.\<close>

datatype rsr_entry = RootEntry u32 | KeysEntry

definition rsr_written :: "rsr_state \<Rightarrow> rsr_state \<Rightarrow> rsr_entry set" where
  "rsr_written s t = RootEntry ` changed (RelayStorageRoot s) (RelayStorageRoot t) \<union>
     (if RelayStorageRootKeys s = RelayStorageRootKeys t then {} else {KeysEntry})"

lemma rsr_finalize_written:
  "finite (rsr_written s (on_finalize_rsr mx r s)) \<and> card (rsr_written s (on_finalize_rsr mx r s)) \<le> 3"
proof -
  have "rsr_written s (on_finalize_rsr mx r s) \<subseteq>
      set [RootEntry (rc_number r), RootEntry (hd (RelayStorageRootKeys s @ [rc_number r])), KeysEntry]"
    by (auto simp: rsr_written_def on_finalize_rsr_def set_relay_storage_root_def Let_def changed_def
        split: if_splits list.splits prod.splits)
  from card_within [OF this] show ?thesis by simp
qed

interpretation rsr_charged: charged_calls "\<lambda>r s. Some (on_finalize_rsr mx r s)" rsr_written
    "\<lambda>db _. rsr_on_initialize_weight (rsr_SubstrateWeight db)" "\<lambda>_. 3"
  for mx
proof unfold_locales
  show "unat (3 :: u64) * unat (db_write db) \<le> unat (ref_time (rsr_on_initialize_weight (rsr_SubstrateWeight db)))"
    if "db_weight_ok db" "db_weight_small db" for db
    using pays_few_writes(1) [OF that, of 3] by (simp add: rsr_SubstrateWeight_def rsr_on_initialize_weight_def)
qed (use rsr_finalize_written in \<open>auto simp: rsr_written_def changed_def\<close>)

section \<open>Author inherent\<close>

datatype ai_entry = AuthorEntry | IncludedEntry

definition ai_written :: "'acct ai_state \<Rightarrow> 'acct ai_state \<Rightarrow> ai_entry set" where
  "ai_written s t = (if Author s = Author t then {} else {AuthorEntry}) \<union>
     (if InherentIncluded s = InherentIncluded t then {} else {IncludedEntry})"

lemma ai_written_cases:
  "on_initialize_ai pre dec lookup logs s = Ok t \<Longrightarrow> ai_written s t \<subseteq> set [AuthorEntry]"
  "on_finalize_ai s = Ok t \<Longrightarrow> ai_written s t \<subseteq> set [IncludedEntry]"
  "kick_off_authorship_validation sys can_author slot origin s = Ok t \<Longrightarrow> ai_written s t \<subseteq> set [IncludedEntry]"
  by (auto simp: on_initialize_ai_def on_finalize_ai_def kick_off_authorship_validation_def ai_written_def Let_def
      split: option.splits if_splits)

text \<open>The weight of \<^verbatim>\<open>on_initialize\<close> pays for both hooks of the pallet; that of the inherent for the inherent, in both implementations.\<close>

lemma author_inherent_hooks_paid:
  assumes "on_initialize_ai pre dec lookup logs s = Ok t" "on_finalize_ai u = Ok v" "db_weight_ok db" "db_weight_small db"
  shows "(card (ai_written s t) + card (ai_written u v)) * unat (db_write db) \<le> unat (ref_time (ai_on_initialize_weight db))"
proof -
  have "card (ai_written s t) + card (ai_written u v) \<le> unat (2 :: u64)"
    using card_within [OF ai_written_cases(1) [OF assms(1)]] card_within [OF ai_written_cases(2) [OF assms(2)]] by simp
  then have "(card (ai_written s t) + card (ai_written u v)) * unat (db_write db) \<le> unat (2 :: u64) * unat (db_write db)"
    by (rule mult_le_mono1)
  also have "\<dots> \<le> unat (ref_time (ai_on_initialize_weight db))"
    unfolding ai_on_initialize_weight_def by (rule pays_few_writes(3) [OF assms(3,4)]) simp
  finally show ?thesis .
qed

lemma author_inherent_paid:
  assumes "kick_off_authorship_validation sys can_author slot origin s = Ok t" "db_weight_ok db" "db_weight_small db"
    and "wi \<in> {ai_SubstrateWeight db, ai_unit_WeightInfo db}"
  shows "card (ai_written s t) * unat (db_write db) \<le> unat (ref_time (w_ai_kick_off_authorship_validation wi))"
proof -
  have "card (ai_written s t) \<le> 1" using card_within [OF ai_written_cases(3) [OF assms(1)]] by simp
  then have "card (ai_written s t) * unat (db_write db) \<le> unat (db_write db)" by simp
  also have "\<dots> \<le> unat (ref_time (w_ai_kick_off_authorship_validation wi))"
    using assms(4) pays_few_writes(1) [OF assms(2,3), of 1 "weight_saturating_add (from_parts 26398000 10418) (reads db 6)"]
      pays_few_writes(1) [OF assms(2,3), of 2 "weight_saturating_add (from_parts 26398000 10418) (reads db 6)"]
    by (auto simp: ai_SubstrateWeight_def ai_unit_WeightInfo_def intro: le_trans [rotated])
  finally show ?thesis .
qed

section \<open>Switches and settings\<close>

datatype mode_entry = ModeEntry | XcmEntry

definition mm_written :: "('xs, 'd) mm_state \<Rightarrow> ('xs, 'd) mm_state \<Rightarrow> mode_entry set" where
  "mm_written s t = (if MaintenanceMode s = MaintenanceMode t then {} else {ModeEntry}) \<union> (if mm_xcm s = mm_xcm t then {} else {XcmEntry})"

text \<open>The two calls of maintenance mode; the first component tells whether it is entered.\<close>

definition mm_run where
  "mm_run cfg oc s = ok_state (if fst oc then enter_maintenance_mode cfg (snd oc) s else resume_normal_operation cfg (snd oc) s)"

definition mm_call_weight :: "db_weight \<Rightarrow> bool \<times> 'origin \<Rightarrow> weight" where
  "mm_call_weight db oc = from_parts (if fst oc then mm_enter_weight db else mm_resume_weight db) 0"

lemma mode_entries_two: "finite (A :: mode_entry set) \<and> card A \<le> 2"
proof -
  have "A \<subseteq> set [ModeEntry, XcmEntry]" using mode_entry.exhaust by auto
  from card_within [OF this] show ?thesis by simp
qed

interpretation mm_charged: charged_calls "mm_run cfg" mm_written mm_call_weight "\<lambda>_. 2" for cfg
proof unfold_locales
  show "unat (2 :: u64) * unat (db_write db) \<le> unat (ref_time (mm_call_weight db oc))"
    if small: "db_weight_small db" for db and oc :: "bool \<times> 'xorigin"
  proof -
    have "unat (db_read db + 3 * db_write db) = unat (db_read db) + 3 * unat (db_write db)"
      using small by (simp add: db_weight_small_def unat_word_ariths)
    then show ?thesis by (simp add: mm_call_weight_def mm_enter_weight_def mm_resume_weight_def from_parts_def)
  qed
qed (use mode_entries_two in \<open>auto simp: mm_written_def\<close>)

text \<open>The calls and hooks that change one entry and are charged at least one write.\<close>

lemma setting_calls_paid:
  assumes "db_weight_ok db" "db_weight_small db"
  shows "unat (db_write db) \<le> unat (ref_time (w_sf_set_eligible (sf_SubstrateWeight db)))"
    "unat (db_write db) \<le> unat (ref_time (sf_on_initialize_weight db))"
    "unat (db_write db) \<le> unat (ref_time (ab_set_relay_parent_offset_weight db))"
    "unat (db_write db) \<le> unat (ref_time (em_on_initialize_weight db))"
    "unat (db_write db) \<le> unat (ref_time (em_paused_to_normal_weight db))"
    "set_eligible sys origin new f = Ok g \<Longrightarrow> EligibleRatio g = EligibleRatio f \<and> IsFakeAuthor g = IsFakeAuthor f"
    "set_relay_parent_offset sys origin off a = Ok b \<Longrightarrow> SlotInfo b = SlotInfo a"
    "paused_to_normal cfg origin e = Ok e' \<Longrightarrow> em_system e' = em_system e"
    "check_associated_relay_number cfg now before e = Ok e' \<Longrightarrow> em_system e' = em_system e"
  using pays_few_writes [OF assms, of 1] pays_few_writes(3) [OF assms, of 2 1]
  by (auto simp: sf_SubstrateWeight_def sf_on_initialize_weight_def ab_set_relay_parent_offset_weight_def em_on_initialize_weight_def
      em_paused_to_normal_weight_def set_eligible_def set_relay_parent_offset_def paused_to_normal_def check_associated_relay_number_def
      intro: le_trans [rotated] split: if_splits)

section \<open>Randomness\<close>

datatype rand_entry = RequestEntry u64 | ResultEntry request_type | RequestCountEntry | LocalOutputEntry | RelayEpochEntry
  | InherentEntry | NotFirstBlockEntry | PreviousOutputEntry | AccountEntry

definition entry_if :: "bool \<Rightarrow> 'k \<Rightarrow> 'k set" where
  "entry_if b k = (if b then {k} else {})"

definition rand_written :: "('h, 'cur) rand_state \<Rightarrow> ('h, 'cur) rand_state \<Rightarrow> rand_entry set" where
  "rand_written s t = RequestEntry ` changed (Requests s) (Requests t) \<union>
     ResultEntry ` changed (RandomnessResults s) (RandomnessResults t) \<union>
     entry_if (RequestCount s \<noteq> RequestCount t) RequestCountEntry \<union>
     entry_if (LocalVrfOutput s \<noteq> LocalVrfOutput t) LocalOutputEntry \<union>
     entry_if (RelayEpoch s \<noteq> RelayEpoch t) RelayEpochEntry \<union>
     entry_if (RandInherentIncluded s \<noteq> RandInherentIncluded t) InherentEntry \<union>
     entry_if (NotFirstBlock s \<noteq> NotFirstBlock t) NotFirstBlockEntry \<union>
     entry_if (PreviousLocalVrfOutput s \<noteq> PreviousLocalVrfOutput t) PreviousOutputEntry \<union>
     entry_if (rand_currency s \<noteq> rand_currency t) AccountEntry"

lemma entry_if_simps [simp]:
  "entry_if False k = {}" "entry_if True k = {k}" "entry_if b k \<subseteq> A \<longleftrightarrow> (b \<longrightarrow> k \<in> A)" "x \<in> entry_if b k \<longleftrightarrow> b \<and> x = k"
  by (auto simp: entry_if_def)

lemma set_babe_updates:
  assumes "set_babe_randomness_results cfg origin epoch rand s = Ok t"
  shows "\<exists>v. t = s\<lparr>RandomnessResults := (RandomnessResults s)(BabeEpoch epoch := v), RelayEpoch := epoch, RandInherentIncluded := Some ()\<rparr>"
proof -
  let ?k = "BabeEpoch epoch"
  have "\<exists>v. (if RelayEpoch s < epoch
      then case RandomnessResults s ?k of
             Some r \<Rightarrow> (case rand of Some rnd \<Rightarrow> (RandomnessResults s)(?k \<mapsto> r\<lparr>randomness := Some rnd\<rparr>) | None \<Rightarrow> RandomnessResults s)
           | None \<Rightarrow> RandomnessResults s
      else RandomnessResults s) = (RandomnessResults s)(?k := v)"
    by (cases "RelayEpoch s < epoch"; cases "RandomnessResults s ?k"; cases rand) (simp_all; metis fun_upd_triv)+
  with assms show ?thesis by (auto simp: set_babe_randomness_results_def Let_def)
qed

lemma set_babe_written:
  assumes "set_babe_randomness_results cfg origin epoch rand s = Ok t"
  shows "rand_written s t \<subseteq> set [ResultEntry (BabeEpoch epoch), RelayEpochEntry, InherentEntry]"
proof -
  from set_babe_updates [OF assms] obtain v where
    "t = s\<lparr>RandomnessResults := (RandomnessResults s)(BabeEpoch epoch := v), RelayEpoch := epoch, RandInherentIncluded := Some ()\<rparr>" ..
  then show ?thesis by (simp add: rand_written_def)
qed

lemma set_local_output_written:
  "rand_written s (set_local_output rnd s) \<subseteq> set [LocalOutputEntry, ResultEntry (Local (block_number s))]"
  by (cases "RandomnessResults s (Local (block_number s))") (simp_all add: set_local_output_def rand_written_def Let_def)

lemma rand_initialize_written:
  assumes "on_initialize_rand cfg lib lookup logs fake s = Ok t"
  shows "\<exists>k. rand_written s t \<subseteq> set [LocalOutputEntry, k]"
proof (cases "NotFirstBlock s = None")
  case True
  with assms have "t = s\<lparr>NotFirstBlock := Some (), LocalVrfOutput := Some (hash_default cfg)\<rparr>" by (simp add: on_initialize_rand_def)
  then have "rand_written s t \<subseteq> set [LocalOutputEntry, NotFirstBlockEntry]" by (simp add: rand_written_def)
  then show ?thesis ..
next
  case False
  with assms obtain rnd where "t = set_local_output rnd s"
    by (auto simp: on_initialize_rand_def verify_and_set_output_def)
  with set_local_output_written [of s rnd] show ?thesis by metis
qed

lemma rand_finalize_written:
  assumes "on_finalize_rand s = Ok t"
  shows "rand_written s t = insert InherentEntry (entry_if (LocalVrfOutput s \<noteq> Some (PreviousLocalVrfOutput s)) PreviousOutputEntry)"
proof -
  from assms obtain out where "LocalVrfOutput s = Some out" "RandInherentIncluded s \<noteq> None"
    "t = s\<lparr>RandInherentIncluded := None, PreviousLocalVrfOutput := out\<rparr>"
    by (auto simp: on_finalize_rand_def)
  then show ?thesis by (cases "out = PreviousLocalVrfOutput s") (auto simp: rand_written_def)
qed

text \<open>The inherent and the first hook of the randomness pallet are paid for.\<close>

lemma randomness_inherent_paid:
  assumes "set_babe_randomness_results cfg origin epoch rand s = Ok t" "db_weight_ok db" "db_weight_small db"
  shows "card (rand_written s t) * unat (db_write db) \<le> unat (ref_time (w_rand_set_babe_randomness_results (rand_SubstrateWeight db)))"
proof -
  have "card (rand_written s t) \<le> unat (3 :: u64)" using card_within [OF set_babe_written [OF assms(1)]] by simp
  then have "card (rand_written s t) * unat (db_write db) \<le> unat (3 :: u64) * unat (db_write db)" by (rule mult_le_mono1)
  also have "\<dots> \<le> unat (ref_time (w_rand_set_babe_randomness_results (rand_SubstrateWeight db)))"
    using pays_few_writes(1) [OF assms(2,3), of 3] by (simp add: rand_SubstrateWeight_def)
  finally show ?thesis .
qed

lemma randomness_initialize_paid:
  assumes "on_initialize_rand cfg lib lookup logs fake s = Ok t" "db_weight_ok db" "db_weight_small db"
  shows "card (rand_written s t) * unat (db_write db)
     \<le> unat (ref_time (rand_on_initialize_weight (rand_SubstrateWeight db) db (NotFirstBlock s = None)))"
proof -
  from rand_initialize_written [OF assms(1)] obtain k where "rand_written s t \<subseteq> set [LocalOutputEntry, k]" ..
  from card_within [OF this] have "card (rand_written s t) \<le> unat (2 :: u64)" by simp
  then have "card (rand_written s t) * unat (db_write db) \<le> unat (2 :: u64) * unat (db_write db)" by (rule mult_le_mono1)
  also have "\<dots> \<le> unat (ref_time (rand_on_initialize_weight (rand_SubstrateWeight db) db (NotFirstBlock s = None)))"
    using pays_few_writes(1) [OF assms(2,3), of 2] pays_few_writes(3) [OF assms(2,3), of 2]
    by (simp add: rand_SubstrateWeight_def rand_on_initialize_weight_def)
  finally show ?thesis .
qed

text \<open>
  The second hook is not: in the first block the hooks change four entries, which are charged as two writes. \<open>on_finalize\<close> of this pallet
  writes two entries in every block that no weight counts, where the author inherent counts those of its own.
\<close>

theorem randomness_finalize_unpaid:
  assumes "on_initialize_rand cfg lib lookup logs fake s = Ok t" "NotFirstBlock s = None" "LocalVrfOutput s \<noteq> Some (hash_default cfg)"
    and "on_finalize_rand u = Ok v" "LocalVrfOutput u \<noteq> Some (PreviousLocalVrfOutput u)"
    and "db_weight_ok db" "db_weight_small db" "unat (db_read db) < 2 * unat (db_write db)"
  shows "card (rand_written u v) = 2 \<and>
     unat (ref_time (rand_on_initialize_weight wi db (NotFirstBlock s = None)))
       < (card (rand_written s t) + card (rand_written u v)) * unat (db_write db)"
proof -
  have "rand_written u v = {InherentEntry, PreviousOutputEntry}"
    unfolding rand_finalize_written [OF assms(4)] using assms(5) by auto
  then have uv: "card (rand_written u v) = 2" by simp
  have "t = s\<lparr>NotFirstBlock := Some (), LocalVrfOutput := Some (hash_default cfg)\<rparr>"
    using assms(1,2) by (simp add: on_initialize_rand_def)
  then have "rand_written s t = {LocalOutputEntry, NotFirstBlockEntry}"
    using assms(2,3) by (auto simp: rand_written_def)
  then have st: "card (rand_written s t) = 2" by simp
  have "unat (ref_time (rand_on_initialize_weight wi db True)) \<le> unat (db_read db) + 2 * unat (db_write db)"
    using assms(6,7) by (simp add: rand_on_initialize_weight_def db_weight_ok_def db_weight_small_def unat_arith_ops min_def)
  then show ?thesis using uv st assms(2,8) by simp
qed

theorem randomness_finalize_unpaid_witness:
  "\<exists>t v. on_initialize_rand rd_cfg rd_lib (\<lambda>_. None) [] False rd_genesis = Ok t \<and>
     on_finalize_rand (t\<lparr>RandInherentIncluded := Some ()\<rparr>) = Ok v \<and>
     unat (ref_time (rand_on_initialize_weight (rand_SubstrateWeight (flat_db_weight 25 100)) (flat_db_weight 25 100) True))
       < (card (rand_written rd_genesis t) + card (rand_written (t\<lparr>RandInherentIncluded := Some ()\<rparr>) v)) * 100"
proof -
  let ?t = "rd_genesis\<lparr>NotFirstBlock := Some (), LocalVrfOutput := Some 5\<rparr>"
  let ?u = "?t\<lparr>RandInherentIncluded := Some ()\<rparr>"
  have t: "on_initialize_rand rd_cfg rd_lib (\<lambda>_. None) [] False rd_genesis = Ok ?t"
    by (simp add: on_initialize_rand_def rd_genesis_def rd_cfg_def)
  obtain v where v: "on_finalize_rand ?u = Ok v" by (simp add: on_finalize_rand_def)
  have hyps: "NotFirstBlock rd_genesis = None" "LocalVrfOutput rd_genesis \<noteq> Some (hash_default rd_cfg)"
    "LocalVrfOutput ?u \<noteq> Some (PreviousLocalVrfOutput ?u)" "db_weight_small (flat_db_weight 25 100)"
    "unat (db_read (flat_db_weight 25 100)) < 2 * unat (db_write (flat_db_weight 25 100))"
    by (simp_all add: rd_genesis_def rd_cfg_def db_weight_small_def flat_db_weight_def)
  from randomness_finalize_unpaid [OF t hyps(1,2) v hyps(3) flat_db_weight_ok(1) hyps(4,5), of "rand_SubstrateWeight (flat_db_weight 25 100)"] t v hyps(1) show ?thesis
    by (intro exI [of _ ?t] exI [of _ v]) simp
qed

section \<open>Blocks of calls\<close>

text \<open>
  C31: However many calls of the author mapping pallet succeed one after the other, the storage entries in which the final state differs
  from the first, registrations, lookups and deposits, are no more than the writes that the weights of the calls pay for.
\<close>

theorem author_mapping_writes_paid:
  assumes "run_calls (am_run cfg) calls s = Some t" "db_weight_ok db" "db_weight_small db"
  shows "finite (am_written s t) \<and>
     card (am_written s t) * unat (db_write db) \<le> (\<Sum>c\<leftarrow>calls. unat (ref_time (am_call_weight (am_SubstrateWeight db) (snd c))))"
  by (rule am_charged.calls_paid [OF assms])

theorem author_mapping_writes_paid_witness:
  "\<exists>t. run_calls (am_run am_demo_cfg) [(Signed 1, AddAssociation 7), (Signed 1, UpdateAssociation 7 8)] am_demo_start = Some t \<and>
     MappingEntry 8 \<in> am_written am_demo_start t \<and> card (am_written am_demo_start t) * 100 \<le> 70338200"
proof -
  let ?calls = "[(Signed 1, AddAssociation 7), (Signed 1, UpdateAssociation 7 8)] :: (raw_origin \<times> u8 am_call) list"
  obtain t where t: "run_calls (am_run am_demo_cfg) ?calls am_demo_start = Some t" "MappingWithDeposit t 8 \<noteq> None"
    by (simp add: am_run_def ok_state_def am_demo)
  have "db_weight_small (flat_db_weight 25 100)" by (simp add: db_weight_small_def flat_db_weight_def)
  from author_mapping_writes_paid [OF t(1) flat_db_weight_ok(1) this] t show ?thesis
    by (auto simp: am_written_def am_demo_start_def am_SubstrateWeight_def weight_ops flat_db_weight_def saturating_add_def saturating_mul_def)
qed

text \<open>
  The same of the foreign assets: both maps and the asset itself.
\<close>

theorem foreign_asset_writes_paid:
  assumes "run_calls (fac_run cfg) calls s = Some t" "db_weight_ok db" "db_weight_small db"
  shows "finite (fac_written s t) \<and>
     card (fac_written s t) * unat (db_write db) \<le> (\<Sum>c\<leftarrow>calls. unat (ref_time (fac_call_weight (fac_SubstrateWeight db) (snd c))))"
  by (rule fac_charged.calls_paid [OF assms])

text \<open>And of the relay storage roots: over any blocks, the entries that finalisation changes are charged at their initialisation.\<close>

lemma relay_roots_writes_paid:
  assumes "db_weight_ok db" "db_weight_small db"
  shows "card (rsr_written s (run_finalize mx blocks s)) * unat (db_write db)
     \<le> length blocks * unat (ref_time (rsr_on_initialize_weight (rsr_SubstrateWeight db)))"
proof -
  have "run_calls (\<lambda>r s. Some (on_finalize_rsr mx r s)) blocks s = Some (run_finalize mx blocks s)"
    by (induction blocks arbitrary: s) (simp_all add: run_finalize_def)
  from rsr_charged.calls_paid [OF this assms] show ?thesis by (simp add: sum_list_triv)
qed

end
