(* ===== verification/Spec2Isabelle.thy ===== *)
theory Spec2Isabelle
  imports Author_Mapping Author_Filters Author_Inherent Randomness_Correct Async_Backing Relay_Storage_Roots
    Foreign_Asset_Creator Maintenance_Mode Migrations Assets_Erc20 Call_Permit Batch Proxy
    Xcm_Precompiles Precompile_Storage Collators Slot_Based Template_Runtime Template_Config Template_Xcm Template_Node
    Template_Services Weight_Coverage
begin

text \<open>
  \<^bold>\<open>Moonkit: a verification development of its pallets, primitives, precompiles and client\<close>

  Moonkit is a library of Substrate building blocks for parachains. Its parts, with the theory that
  models them (paths below \<^verbatim>\<open>src/\<close>):

  \<^item> \<^emph>\<open>Who may author a block.\<close> Authors sign headers with a nimbus key; the digest formats are in
    \<^verbatim>\<open>primitives/nimbus-primitives\<close> and \<^verbatim>\<open>primitives/session-keys\<close> (\<open>Nimbus_Primitives\<close>).
    \<^verbatim>\<open>pallets/author-mapping\<close> (\<open>Author_Mapping\<close>) maps nimbus keys to accounts and VRF keys against a
    deposit. \<^verbatim>\<open>pallets/author-inherent\<close> (\<open>Author_Inherent\<close>, with the block executor of \<^verbatim>\<open>exec.rs\<close>) finds
    the author of a block, checks the seal and asks a filter whether the author may build in the
    slot. The filters are \<^verbatim>\<open>pallets/author-slot-filter\<close> and \<^verbatim>\<open>pallets/aura-style-filter\<close>
    (\<open>Author_Filters\<close>) and the account set of the template (\<open>Account_Set\<close>); the interface \<^verbatim>\<open>CanAuthor\<close> between
    the two is a locale.
  \<^item> \<^emph>\<open>When a block may be built.\<close> \<^verbatim>\<open>pallets/async-backing\<close> (\<open>Async_Backing\<close>): the consensus hook that
    limits the blocks per relay slot, \<^verbatim>\<open>can_build_upon\<close>, the slot providers and the timestamp check. The contract of the
    runtime API in \<^verbatim>\<open>primitives/async-backing\<close> is a locale there.
  \<^item> \<^emph>\<open>The collator node\<close> (\<^verbatim>\<open>client/consensus/nimbus-consensus\<close>). \<open>Nimbus_Client\<close>: keys, slot claims, seals,
    block building, inherent data (\<^verbatim>\<open>lib.rs\<close>, \<^verbatim>\<open>collators.rs\<close>, \<^verbatim>\<open>collator.rs\<close>, \<^verbatim>\<open>proposer.rs\<close>, \<^verbatim>\<open>manual_seal.rs\<close>);
    \<open>Import_Queue\<close>: the verifier and the import of received blocks; \<open>Slot_Timer\<close> and \<open>Relay_Chain_Data\<close>:
    when the slot based collator wakes up, and which relay parent and core it builds for; \<open>Collators\<close>: a round of
    the lookahead, the relay chain driven and the slot based collator, and the block import of the latter; \<open>Slot_Based\<close>: the slot
    based collator as a whole, its two tasks and the block import running concurrently over their channels
    (\<^verbatim>\<open>slot_based/mod.rs\<close>, \<^verbatim>\<open>collation_task.rs\<close>), and the export of proofs of validity to files.
  \<^item> \<^emph>\<open>A runtime.\<close> \<^verbatim>\<open>template/runtime\<close>. \<open>Template_Runtime\<close>: the authorship pipeline and the consensus hook as the
    template configures them, and the prediction that collators ask for; \<open>Template_Config\<close>: its constants and block limits, the pallets in the order
    of \<^verbatim>\<open>construct_runtime!\<close> and a block that runs through all of them, the runtime APIs and the function that relay chain validators run;
    \<open>Template_Xcm\<close>: its XCM configuration.
  \<^item> \<^emph>\<open>A node.\<close> \<^verbatim>\<open>template/node\<close> . \<open>Template_Node\<close>: the chain specifications and the genesis of the runtime, the dispatch of the
    command line, the start of the parachain node with the collator it configures, and of the instant seal node; \<open>Template_Services\<close>: the
    command line interfaces of the node and of its relay chain, the services that all commands share, the RPC module, and the chain that
    starts from the genesis of the node and runs whole blocks of the runtime.
  \<^item> \<^emph>\<open>Randomness.\<close> \<^verbatim>\<open>pallets/randomness\<close>: \<open>Randomness\<close> holds the model (requests, fulfilment,
    expiration, the BABE inherent, the VRF verification of each block), \<open>Randomness_Correct\<close> the
    transition system of the pallet and its theorems.
  \<^item> \<^emph>\<open>Relay data.\<close> \<^verbatim>\<open>pallets/relay-storage-roots\<close> (\<open>Relay_Storage_Roots\<close>): a bounded window of relay
    storage roots.
  \<^item> \<^emph>\<open>Assets and XCM.\<close> \<^verbatim>\<open>pallets/foreign-asset-creator\<close> (\<open>Foreign_Asset_Creator\<close>);
    \<^verbatim>\<open>primitives/xcm\<close> (\<open>Xcm_Primitives\<close>: location generators, token address matchers, the interface
    that suspends XCM); \<^verbatim>\<open>pallets/maintenance-mode\<close> and \<^verbatim>\<open>pallets/emergency-para-xcm\<close>
    (\<open>Maintenance_Mode\<close>): the switches that stop XCM.
  \<^item> \<^emph>\<open>Upgrades.\<close> \<^verbatim>\<open>pallets/migrations\<close> (\<open>Migrations\<close>): the migrations of a runtime upgrade.
  \<^item> \<^emph>\<open>EVM precompiles.\<close> \<^verbatim>\<open>precompiles/balances-erc20\<close> (\<open>Erc20_Balances\<close>), \<^verbatim>\<open>precompiles/assets-erc20\<close>
    (\<open>Assets_Erc20\<close>), \<^verbatim>\<open>precompiles/call-permit\<close> (\<open>Call_Permit\<close>), \<^verbatim>\<open>precompiles/batch\<close> (\<open>Batch\<close>),
    \<^verbatim>\<open>precompiles/proxy\<close> (\<open>Proxy\<close>), \<^verbatim>\<open>precompiles/pallet-xcm\<close> and \<^verbatim>\<open>precompiles/xcm-utils\<close> (\<open>Xcm_Precompiles\<close>).
    The storage that several of them keep below generated prefixes is in \<open>Precompile_Storage\<close>.
  \<^item> \<^emph>\<open>Weights.\<close> The \<^verbatim>\<open>weights.rs\<close> of six pallets and the weights that pallets write down themselves (\<open>Weights\<close>), and what they pay for
    (\<open>Weight_Coverage\<close>).

  \<^bold>\<open>How the code is modelled.\<close> The storage of a pallet is a record with a field per storage item, named
  after it, together with the events it deposited and the state of the pallets it calls. A
  dispatchable, hook or helper is a function of the same name on that record (with a suffix where
  several pallets have one: \<open>on_initialize_rand\<close>); it returns a \<open>result\<close> of \<open>Moonkit_Prelude\<close>: a value, an
  error (a pallet error, or an error of another pallet) or a panic, since a panic in a hook or an
  inherent makes the block invalid and is an outcome the theorems speak about. A failed dispatchable
  is rolled back by FRAME, so an error carries no state, except where the source itself goes on
  after a failure. Integers are words of the width of the source; \<open>checked_add\<close> and the saturating
  operations are those of the prelude, an unchecked operation wraps as in a release build. Maps are
  partial functions, with a default where the storage item has one.

  The precompiles run in a state and error monad (\<open>Evm_Interfaces\<close>) over a \<open>world\<close>: the handle of the
  EVM (gas and logs, an abstract type with the operations of \<open>precompile_handle\<close>) and the state of the
  chain. A failing precompile is reverted by the EVM.

  The tasks of the client never end. They are modelled one round at a time (one notification, request or wake-up), in
  a state monad with the ways a round can stop (\<open>flow\<close> in \<open>Collators\<close>: \<^verbatim>\<open>continue\<close>, \<^verbatim>\<open>break\<close>, \<^verbatim>\<open>return\<close>, a panic);
  sequences of rounds are lists or reachable states. The two tasks of the slot based collator and its block import are a step relation
  (\<open>pipeline_step\<close> in \<open>Slot_Based\<close>) whose steps are whole rounds, interleaved in any order. What a round sends is part of its state: announced and
  submitted blocks, messages to the collation task and to the relay chain. Durations are nanoseconds, as natural
  numbers; the clock is an argument.

  \<^bold>\<open>What is a parameter.\<close> Code outside the repository is an argument of the definitions that use it:
  the origin checks, currencies, codecs and hashes of FRAME (\<open>Frame_Interfaces\<close>), the fungibles and assets pallets,
  the proxy pallet, \<^verbatim>\<open>pallet_xcm\<close> and the XCM executor, the relay chain state and client, the keystore, the
  proposer and the import pipeline of the SDK, schnorrkel, the EVM and its cryptography. What the theorems
  need of them is a named hypothesis (\<open>reservable_ok\<close>, \<open>transfer_ok\<close>, \<open>codec_ok\<close>, \<open>digest_api_ok\<close>,
  \<open>from_timestamp_ok\<close>, \<open>proxy_pallet_ok\<close>, \<open>assets_pallet_ok\<close>, \<open>calls_keep_nonces\<close>, \<open>slot_lib_ok\<close>, \<open>lru_ok\<close>, \<open>import_lib_ok\<close>,
  \<open>keystore_ok\<close>, \<open>proposer_keeps_digests\<close>, \<open>timestamp_pallet_ok\<close>, \<open>relay_number_ok\<close>, \<open>pause_xcm_ok\<close>, \<open>perbill_ok\<close>, \<open>xcm_accounts_ok\<close>, \<open>xcm_origins_ok\<close>, \<open>xcm_barriers_ok\<close>,
  \<open>storage_lib_ok\<close>, \<open>db_weight_ok\<close>), and every theorem with hypotheses has a
  witness that applies it to concrete instances. Hash functions are not assumed to be injective: the
  replay theorem on call permits asks that the hash does not collide on the byte strings that the code hashes for the permit at
  its two nonces (\<open>no_collision\<close>), with an injective encoding of arguments (\<open>abi_ok\<close>).

  \<^bold>\<open>Interfaces.\<close> \<open>invariant_system\<close> (\<open>Moonkit_Prelude\<close>) is a transition system with an invariant, and is
  interpreted for author-mapping, randomness, relay storage roots, foreign assets, proxies, the slot timer, the
  backing group helper, the pipeline of the slot based collator, the chain of the template node and the time of the template runtime; \<open>refinement_system\<close> extends it with a
  specification and an abstraction, and is interpreted for the pipeline and a first-in first-out channel; \<open>unincluded_segment_api\<close>
  (\<open>Async_Backing\<close>) is what a collator may rely on when it asks the runtime, with the lemmas of the client in \<open>Collators\<close>;
  \<open>permit_scheme\<close> (\<open>Evm_Interfaces\<close>) is a scheme of signed messages with nonces, interpreted for
  the permits of both ERC20 precompiles and call permits, whose replay theorems are its lemmas; the spending bounds of the
  two ERC20 precompiles are lemmas of the locale \<open>allowance_ledger\<close>; \<open>storage_map\<close> (\<open>Precompile_Storage\<close>) is a map
  kept in the raw storage, interpreted for approvals and nonces; \<open>charged_calls\<close> (\<open>Weights\<close>) is the contract between the calls of a pallet and
  their weights, interpreted for four pallets in \<open>Weight_Coverage\<close>; the author filters, the slot
  providers, the location matchers and the queue-paused query are locales with an interpretation per
  implementation.

  \<^bold>\<open>What is shown\<close>, by component:

  \<^item> author mapping: consistency of the two maps (but for keys that the genesis gives to two accounts) and coverage of the deposits
    in every reachable state, no interference between accounts, round trips of registration and key encoding;
  \<^item> author filters and inherent: the eligible subset is a partition of the right size and monotone in
    the count, round robin is fair, a valid block is attributed to the account behind its first author digest, which is eligible, and carries the
    mandatory inherent, the seal check is exact;
  \<^item> async backing: an exact characterisation of the accepted block sequences, agreement with
    \<^verbatim>\<open>can_build_upon\<close>, monotone slots, timestamps within the slot;
  \<^item> client: a block that a collator builds is accepted by the verifier of other nodes and by the executor of the
    runtime, the verifier accepts nothing the executor refuses (but for consensus digests), slots are claimed exactly with
    eligible keys, slots are reported in order and blocks finished before their slot ends, the core of a block is the one after the last that was claimed,
    the relay parent search ends, what the lookahead collator submits is a chain of claimed blocks;
  \<^item> slot based collator: the pipeline implements a first-in first-out channel, with the messages handled a prefix of those sent, computes what the sequential composition of its
    tasks computes, the collation task handles all that was sent and then ends, every submitted collation is a sealed block on a
    scheduled core for a claimed slot; an exported proof of validity can be read back; the documented table of block times; parachain slots longer than
    relay slots keep it from building ahead, since the API is asked at version 1;
  \<^item> template node: from its genesis the chain never stalls: on every relay parent the parachain system accepts, some authority's block runs through
    the whole runtime; a block for a slot that its collator claims is refused only for its relay parent, never for its author or its
    timestamp; and instant seal runs at most one block;
  \<^item> template runtime: its prediction is exact for the authorship part of a block, and for a block through all pallets, with the timestamp
    pallet and the check of the relay parent's number, together with the conditions on the relay parent; a claimed slot leads to a block that runs to its end, one block per relay slot; validators of the relay chain run exactly the block
    that nodes import, or panic if a consensus digest misled the verifier; only the relay chain is trusted with root, minting and free execution; the limits of a block add up;
  \<^item> randomness: exact reference counts, coverage of all pending deposits and fees, every due local
    request can be fulfilled, expirations pay out what was locked, every block past the first is
    verified against the VRF key of the author digest before its VRF digest;
  \<^item> relay storage roots: refinement to the window of the latest distinct relay numbers;
  \<^item> foreign assets: soundness of the lookup, bijection under fresh associations, round trip;
  \<^item> maintenance and emergency: both modes take effect, the emergency pause is a latch, exactness of
    the relay number check up to wrap-around;
  \<^item> migrations: pending migrations run exactly once and in order, upgrades are idempotent;
  \<^item> precompiles: spending is bounded by approvals over any sequence of calls, permits cannot be
    replayed, a dispatched permit runs the signed call, the three batch modes, proxied calls are
    authorised, XCM transfers move exactly the named tokens, prices per second follow the trader; the maps of all instances are disjoint
    parts of one storage;
  \<^item> weights: the calls of author mapping, foreign assets, maintenance mode and the hooks of relay storage roots and author inherent write no
    more entries than their weights pay for, over any sequence of calls;
  \<^item> this theory: the author and the VRF key of a block belong to one registration, token addresses
    resolve uniquely, the interplay of upgrades, maintenance mode and emergency pause with XCM.

  Lemmas without a property of their own record behaviour that deviates from comments or intention,
  for instance \<open>add_association_orphans_first_key\<close>, \<open>duplicate_genesis_key\<close>, \<open>change_to_same_type_loses_asset\<close>,
  \<open>overclaimed_cost_breaks_cover\<close>, \<open>stale_author_reused\<close>, \<open>two_author_digests_split\<close>, \<open>fee_index_is_of_sorted_list\<close>,
  \<open>consensus_author_diverges\<close>, \<open>base_weight_fee\<close>, \<open>node_pov_limit\<close>, \<open>template_imports_as_best\<close>, \<open>randomness_finalize_unpaid\<close>,
  \<open>author_inherent_weights_differ\<close>, \<open>request_fmt_hides_contract\<close>, \<open>signed_origins_may_send\<close> and \<open>close_timestamps_refused\<close>.

  \<^bold>\<open>Bounds.\<close> No definition uses fuel: every loop of the modelled code runs over a list or counts down and is a
  structural recursion or a fold, so totality is by construction. The theorems on the slot timer are for a clock below
  \<open>2 ^ 62\<close> milliseconds, far beyond any date, so that no slot arithmetic wraps. Other concrete sizes only occur in the witnesses.

  \<^bold>\<open>Not modelled.\<close> Benchmarks, mocks and tests, which only set up states and call the code; logging; the generation of metadata. In the slot based
  collator a panic while a proof of validity is written leaves no partial file in the model, and messages only get lost after such a
  panic. Of the template runtime, the associated types by which it configures pallets from outside the repository, where they only name types
  of the SDK, and the hooks of those pallets, which do not touch the state of the pallets modelled here (of the parachain system the consensus
  hook and the check of the relay parent's number are modelled, and what else it checks of the validation data is the parameter
  \<open>set_validation_data\<close>); \<open>template_run_block\<close> of \<open>Template_Runtime\<close> is the authorship part of a block alone, \<open>run_runtime_block\<close> of
  \<open>Template_Config\<close> the whole block. Between the hooks of a block \<open>run_runtime_block\<close> runs the inherents and no other extrinsics. Of the template node, the construction of
  SDK services, which are parameters with the ways they fail.
\<close>

section \<open>Authorship: one registration behind the author and the VRF key\<close>

text \<open>
  The author-inherent pallet reads the first author digest, the randomness pallet the last one before
  the VRF digest. \<open>author_digests\<close> are the author digests of a block.
\<close>

definition author_digests :: "(engine_id \<times> u8 list) list \<Rightarrow> u8 list list" where
  "author_digests ds = map snd (filter (\<lambda>d. fst d = NIMBUS_ENGINE_ID) ds)"

lemma find_author_digest:
  assumes "find_author decode_id lookup ds = Ok (Some a)"
  shows "\<exists>data rest nid. author_digests ds = data # rest \<and> decode_id data = Some nid \<and> lookup nid = Some a"
  using assms by (induction ds) (auto simp: author_digests_def split: if_splits)

lemma find_vrf_digest_key:
  assumes "find_vrf_digest lib lookup ds k = Ok (dg, Some vk)"
  shows "k = Some vk \<or> (\<exists>data nid. data \<in> set (author_digests ds) \<and> nimbus_decode lib data = Some nid \<and> lookup nid = Some vk)"
  using assms
proof (induction ds arbitrary: k)
  case (Cons d ds)
  obtain engine data where d: "d = (engine, data)" by (cases d)
  consider "engine = VRF_ENGINE_ID" | "engine \<noteq> VRF_ENGINE_ID" "engine = NIMBUS_ENGINE_ID"
    | "engine \<noteq> VRF_ENGINE_ID" "engine \<noteq> NIMBUS_ENGINE_ID" by blast
  then show ?case
  proof cases
    case 1
    with Cons.prems show ?thesis by (auto simp: d split: option.splits)
  next
    case 2
    with Cons.prems obtain nid vk' where nid: "nimbus_decode lib data = Some nid" "lookup nid = Some vk'"
      and rest: "find_vrf_digest lib lookup ds (Some vk') = Ok (dg, Some vk)"
      by (auto simp: d split: option.splits)
    have "data \<in> set (author_digests (d # ds))" "set (author_digests ds) \<subseteq> set (author_digests (d # ds))"
      using 2 by (auto simp: d author_digests_def)
    with Cons.IH [OF rest] nid show ?thesis by blast
  next
    case 3
    then have "author_digests (d # ds) = author_digests ds" by (simp add: d author_digests_def)
    with 3 Cons.prems Cons.IH [of k] show ?thesis by (simp add: d)
  qed
qed simp

text \<open>
  C29: In a block with one author digest, the author recorded by the author-inherent pallet and the VRF
  key under which the randomness pallet verifies the block come from one registration of the author
  mapping: the key is the one this very account registered.
\<close>

theorem author_and_vrf_key_of_one_registration:
  assumes "length (author_digests ds) = 1"
    and "find_author (nimbus_decode lib) (account_id_of s) ds = Ok (Some a)"
    and "find_vrf_digest lib (keys_of s) ds None = Ok (dg, Some vk)"
  shows "\<exists>nid info. MappingWithDeposit s nid = Some info \<and> account info = a \<and> keys info = vk"
proof -
  from find_author_digest [OF assms(2)] obtain data nid where data: "author_digests ds = [data]"
    "nimbus_decode lib data = Some nid" "account_id_of s nid = Some a"
    using assms(1) by auto
  from find_vrf_digest_key [OF assms(3)] data(1,2) have "keys_of s nid = Some vk" by auto
  with data(3) obtain info where "MappingWithDeposit s nid = Some info" "account info = a" "keys info = vk"
    by (auto simp: account_id_of_def keys_of_def)
  then show ?thesis by blast
qed

definition two_registrations :: "(u8, nat, u8, unit) am_state" where
  "two_registrations = \<lparr>MappingWithDeposit = [1 \<mapsto> \<lparr>account = 10, deposit = 0, keys = 21\<rparr>,
       2 \<mapsto> \<lparr>account = 20, deposit = 0, keys = 22\<rparr>],
     NimbusLookup = [10 \<mapsto> 1, 20 \<mapsto> 2], am_currency = (), am_events = []\<rparr>"

lemmas two_registrations_simps = two_registrations_def account_id_of_def keys_of_def rd_lib_def NIMBUS_ENGINE_ID_def
  VRF_ENGINE_ID_def byte_codec_def demo_pre_digest_codec_def author_digests_def

theorem author_and_vrf_key_of_one_registration_witness:
  "\<exists>nid info. MappingWithDeposit two_registrations nid = Some info \<and> account info = 10 \<and> keys info = 21"
proof (rule author_and_vrf_key_of_one_registration)
  let ?ds = "[(NIMBUS_ENGINE_ID, [1]), (VRF_ENGINE_ID, [42, 1])]"
  show "length (author_digests ?ds) = 1" by (simp add: two_registrations_simps)
  show "find_author (nimbus_decode rd_lib) (account_id_of two_registrations) ?ds = Ok (Some 10)"
    by (simp add: two_registrations_simps)
  show "find_vrf_digest rd_lib (keys_of two_registrations) ?ds None =
      Ok (the (pre_digest_decode rd_lib [42, 1]), Some 21)"
    by (simp add: two_registrations_simps)
qed

text \<open>
  With two author digests the two pallets disagree: the author is the account of the first, the VRF
  key that of the second.
\<close>

theorem two_author_digests_split:
  "find_author (nimbus_decode rd_lib) (account_id_of two_registrations)
     [(NIMBUS_ENGINE_ID, [1]), (NIMBUS_ENGINE_ID, [2]), (VRF_ENGINE_ID, [42, 1])] = Ok (Some 10) \<and>
   (\<exists>dg. find_vrf_digest rd_lib (keys_of two_registrations)
     [(NIMBUS_ENGINE_ID, [1]), (NIMBUS_ENGINE_ID, [2]), (VRF_ENGINE_ID, [42, 1])] None = Ok (dg, Some 22))"
  by (simp add: two_registrations_simps)

section \<open>Token addresses and foreign assets\<close>

text \<open>
  While foreign assets are only associated with fresh locations, a runtime that resolves token
  addresses by its own balances address, then the foreign assets, then ERC20 contracts never
  resolves two addresses to one location, if no foreign asset is registered at the location of one
  of these pallets.
\<close>

theorem token_addresses_resolve_uniquely:
  assumes "reachable (\<lambda>s. \<exists>fs hs. s = fac_empty fs hs) (fac_fresh_step cfg) s"
    and "inj into_h160" "injective_on_some (map_option snd \<circ> to_asset_id)"
    and "\<forall>i l. fac_convert_back s i = Some l \<longrightarrow> l \<noteq> location_new 0 [PalletInstance (of_nat self_index)] \<and>
          (\<forall>k. l \<noteq> location_new 0 [PalletInstance (of_nat erc20_index), AccountKey20 None k])"
    and "tuple_convert [single_address_convert from_h160 ADDRESS self_index,
           foreign_asset_convert to_asset_id (fac_convert_back s),
           erc20_pallet_convert into_h160 erc20_index] a = Some l"
    and "tuple_convert [single_address_convert from_h160 ADDRESS self_index,
           foreign_asset_convert to_asset_id (fac_convert_back s),
           erc20_pallet_convert into_h160 erc20_index] b = Some l"
  shows "a = b"
proof -
  have inv: "inverse_maps (ForeignAssetToAssetId s) (fac_convert_back s)"
    using fac_fresh.invar_reachable [OF assms(1)] 
    by (simp add: fac_inverse_def fac_convert_back_def [abs_def])
  have "injective_on_some (fac_convert_back s)"
    unfolding injective_on_some_def using inverse_maps_iff [OF inv] by (metis option.inject)
  from token_locations_injective [OF assms(2,3) this assms(4,5,6)] show ?thesis .
qed

definition loc_demo_config :: "(raw_origin, nat, nat, location, nat, nat list, unit, string) fac_config" where
  "loc_demo_config = \<lparr>ForeignAssetCreatorOrigin = ensure_root raw_system,
     ForeignAssetModifierOrigin = ensure_root raw_system, ForeignAssetDestroyerOrigin = ensure_root raw_system,
     fungibles_create = (\<lambda>a admin suf bal fs. Inr (a # fs)), fungibles_start_destroy = (\<lambda>a owner fs. Inr fs),
     on_asset_created = on_asset_created_unit, on_asset_destroyed = on_asset_destroyed_unit\<rparr>"

theorem token_addresses_resolve_uniquely_witness:
  "tuple_convert [single_address_convert (\<lambda>h. h) 2050 3,
      foreign_asset_convert (\<lambda>a. None) (fac_convert_back (fac_empty [] () :: (nat, location, nat list, unit) fac_state)),
      erc20_pallet_convert (\<lambda>h. h) 4] 7
   \<noteq> tuple_convert [single_address_convert (\<lambda>h. h) 2050 3,
      foreign_asset_convert (\<lambda>a. None) (fac_convert_back (fac_empty [] () :: (nat, location, nat list, unit) fac_state)),
      erc20_pallet_convert (\<lambda>h. h) 4] (8 :: H160)"
proof
  let ?s = "fac_empty [] () :: (nat, location, nat list, unit) fac_state"
  let ?m = "tuple_convert [single_address_convert (\<lambda>h. h) 2050 3,
      foreign_asset_convert (\<lambda>a. None) (fac_convert_back ?s), erc20_pallet_convert (\<lambda>h. h) 4] :: H160 \<Rightarrow> location option"
  assume eq: "?m 7 = ?m 8"
  obtain l where l: "?m 7 = Some l"
    by (simp add: single_address_convert_def foreign_asset_convert_def erc20_pallet_convert_def Let_def)
  have r: "reachable (\<lambda>s. \<exists>fs hs. s = fac_empty fs hs) (fac_fresh_step loc_demo_config) ?s"
    by (rule reach_init) blast
  have "(7 :: H160) = 8"
    by (rule token_addresses_resolve_uniquely [OF r, of "\<lambda>h. h" "\<lambda>a. None" 3 4 "\<lambda>h. h" 2050 7 l 8])
       (use l eq in \<open>simp_all add: injective_on_some_def fac_convert_back_def fac_empty_def inj_def\<close>)
  then show False by simp
qed

section \<open>Stopping XCM\<close>

text \<open>
  With the emergency pallet in front of the maintenance pallet, the message queue is told that
  every queue is paused exactly while the chain is in maintenance or in the emergency pause.
\<close>

theorem queues_paused_in_either_mode:
  "em_is_paused (mm_is_paused m) e origin \<longleftrightarrow> MaintenanceMode m \<or> Mode e = Paused"
proof (cases "MaintenanceMode m \<or> Mode e = Paused")
  case True
  from mm_query.wrapped_paused [OF this] show ?thesis using True by simp
next
  case False
  then have "Mode e = Normal" by (cases "Mode e") auto
  then have "em_is_paused (mm_is_paused m) e origin = mm_is_paused m origin"
    by (simp add: mm_query.wrapped_transparent)
  with False show ?thesis by (simp add: mm_is_paused_def)
qed

text \<open>
  One chain with both pallets on one executor: the storage of the maintenance mode pallet is part of the state that migrations may change, and
  the executor of the migrations pallet is the one that the maintenance mode pallet calls.
\<close>

definition in_maintenance_pallet ::
    "(('xs, 'd) mm_state \<Rightarrow> ('e, ('xs, 'd) mm_state) result) \<Rightarrow> (('xs, 'd) mm_state, 'xs, 'd) mg_state
      \<Rightarrow> ('e, (('xs, 'd) mm_state, 'xs, 'd) mg_state) result" where
  "in_maintenance_pallet call s =
     and_then (call ((mg_chain s)\<lparr>mm_xcm := mg_xcm s\<rparr>)) (\<lambda>m. Ok (s\<lparr>mg_chain := m, mg_xcm := mm_xcm m\<rparr>))"

text \<open>The block of a runtime upgrade, in the order of the executive.\<close>

definition upgrade_block :: "('st, 'xs, 'd) mg_config \<Rightarrow> ('st, 'xs, 'd) mg_state \<Rightarrow> ('st, 'xs, 'd) mg_state" where
  "upgrade_block cfg s = on_finalize_mg cfg (snd (on_initialize_mg cfg (snd (on_runtime_upgrade cfg s))))"

text \<open>
  The executor, as documented: after a call to suspend it is suspended and after a call to resume it is not, whether or not the call
  reports that it already was.
\<close>

definition pause_xcm_ok :: "('xs, 'd) pause_xcm \<Rightarrow> ('xs \<Rightarrow> bool) \<Rightarrow> bool" where
  "pause_xcm_ok pm suspended \<longleftrightarrow>
     (\<forall>x. suspended (snd (suspend_xcm_execution pm x)) \<and> \<not> suspended (snd (resume_xcm_execution pm x)))"

lemma run_pending_keeps:
  assumes "\<forall>m \<in> set ms. \<forall>w st. P st \<longrightarrow> P (snd (migrate m w st))" "P st"
  shows "P (snd (run_pending avail ms (w, st)))"
  using assms
proof (induction ms arbitrary: w st)
  case (Cons m ms)
  let ?av = "if ref_time avail > ref_time w then weight_sub avail w else weight_zero"
  obtain c st' where m: "migrate m ?av st = (c, st')" by (cases "migrate m ?av st")
  with Cons.prems have "P st'" by (metis list.set_intros(1) snd_conv)
  with Cons.IH [of st'] Cons.prems(1) m show ?case by simp
qed simp

lemma pending_subset: "set (pending marked ms) \<subseteq> set ms"
  by (induction marked ms rule: pending.induct) auto

lemma upgrade_block_effect:
  shows "mg_chain (upgrade_block cfg s) = mg_chain (snd (on_runtime_upgrade cfg s))"
    "mg_xcm (upgrade_block cfg s) = snd (resume_xcm_execution (mg_XcmExecutionManager cfg)
       (snd (suspend_xcm_execution (mg_XcmExecutionManager cfg) (mg_xcm s))))"
proof -
  have "ShouldPauseXcm (snd (on_runtime_upgrade cfg s))" "mg_xcm (snd (on_runtime_upgrade cfg s)) = mg_xcm s"
    using on_runtime_upgrade_effect [of cfg s "fst (on_runtime_upgrade cfg s)" "snd (on_runtime_upgrade cfg s)"] by simp_all
  then show "mg_chain (upgrade_block cfg s) = mg_chain (snd (on_runtime_upgrade cfg s))"
    "mg_xcm (upgrade_block cfg s) = snd (resume_xcm_execution (mg_XcmExecutionManager cfg)
       (snd (suspend_xcm_execution (mg_XcmExecutionManager cfg) (mg_xcm s))))"
    by (auto simp: upgrade_block_def on_initialize_mg_def on_finalize_mg_def mg_deposit_def Let_def split: prod.splits sum.splits)
qed

text \<open>
  C40: A runtime upgrade while the chain is in maintenance mode ends the suspension of XCM execution that maintenance mode asked for: after
  entering maintenance mode the executor is suspended, and after the block of an upgrade whose migrations leave the mode alone the chain is still in
  maintenance mode, with its message queues paused, but the executor is not suspended any more.
\<close>

theorem upgrade_resumes_xcm_in_maintenance:
  assumes "pause_xcm_ok (XcmExecutionManager mm_cfg) suspended" "mg_XcmExecutionManager cfg = XcmExecutionManager mm_cfg"
    and "\<forall>migration \<in> set (MigrationsList cfg). \<forall>w m. MaintenanceMode m \<longrightarrow> MaintenanceMode (snd (migrate migration w m))"
    and "in_maintenance_pallet (enter_maintenance_mode mm_cfg origin) s = Ok s1"
  shows "MaintenanceMode (mg_chain s1) \<and> suspended (mg_xcm s1) \<and>
     MaintenanceMode (mg_chain (upgrade_block cfg s1)) \<and> mm_is_paused (mg_chain (upgrade_block cfg s1)) queue \<and>
     \<not> suspended (mg_xcm (upgrade_block cfg s1))"
proof -
  have entered: "MaintenanceMode (mg_chain s1)" "mg_xcm s1 = snd (suspend_xcm_execution (XcmExecutionManager mm_cfg) (mg_xcm s))"
    using assms(4)
    by (auto simp: in_maintenance_pallet_def enter_maintenance_mode_def do_enter_maintenance_mode_def mm_deposit_def Let_def
        split: prod.splits sum.splits)
  then have suspended: "suspended (mg_xcm s1)" using assms(1) by (simp add: pause_xcm_ok_def)
  let ?p = "pending (MigrationState s1) (MigrationsList cfg)"
  have "\<forall>migration \<in> set ?p. \<forall>w m. MaintenanceMode m \<longrightarrow> MaintenanceMode (snd (migrate migration w m))"
    using assms(3) pending_subset [of "MigrationState s1" "MigrationsList cfg"] by blast
  from run_pending_keeps [OF this entered(1)] have "MaintenanceMode (mg_chain (snd (on_runtime_upgrade cfg s1)))"
    using on_runtime_upgrade_effect [of cfg s1 "fst (on_runtime_upgrade cfg s1)" "snd (on_runtime_upgrade cfg s1)"] by simp
  moreover have "\<not> suspended (mg_xcm (upgrade_block cfg s1))"
    using assms(1,2) by (simp add: upgrade_block_effect(2) pause_xcm_ok_def)
  ultimately show ?thesis using entered(1) suspended by (simp add: upgrade_block_effect(1) mm_is_paused_def)
qed

definition mg_demo_chain :: "((bool, string) mm_state, bool, string) mg_state" where
  "mg_demo_chain = \<lparr>FullyUpgraded = True, MigrationState = (\<lambda>_. False), ShouldPauseXcm = False, mg_chain = mm_demo_normal, mg_xcm = False,
     mg_events = []\<rparr>"

definition mg_demo_upgrade :: "((bool, string) mm_state, bool, string) mg_config" where
  "mg_demo_upgrade = \<lparr>MigrationsList = [\<lparr>friendly_name = [1], migrate = (\<lambda>w m. (weight_zero, m\<lparr>mm_events := []\<rparr>)),
       mig_pre_upgrade = default_pre_upgrade, mig_post_upgrade = default_post_upgrade\<rparr>],
     mg_XcmExecutionManager = pause_flag, max_block = from_parts 1000 1000, db_reads = (\<lambda>n. from_parts (of_nat n) 0),
     db_writes = (\<lambda>n. from_parts (of_nat n) 0), db_reads_writes = (\<lambda>r w. from_parts (of_nat (r + w)) 0)\<rparr>"

theorem upgrade_resumes_xcm_in_maintenance_witness:
  "\<exists>s1. in_maintenance_pallet (enter_maintenance_mode mm_demo Root) mg_demo_chain = Ok s1 \<and> mg_xcm s1 \<and>
     MaintenanceMode (mg_chain (upgrade_block mg_demo_upgrade s1)) \<and> \<not> mg_xcm (upgrade_block mg_demo_upgrade s1)"
proof -
  obtain s1 where s1: "in_maintenance_pallet (enter_maintenance_mode mm_demo Root) mg_demo_chain = Ok s1"
    by (simp add: in_maintenance_pallet_def enter_maintenance_mode_def mm_demo_def mm_demo_normal_def raw_system_def mg_demo_chain_def)
  have hyps: "pause_xcm_ok (XcmExecutionManager mm_demo) (\<lambda>x. x)" "mg_XcmExecutionManager mg_demo_upgrade = XcmExecutionManager mm_demo"
    "\<forall>migration \<in> set (MigrationsList mg_demo_upgrade). \<forall>w m. MaintenanceMode m \<longrightarrow> MaintenanceMode (snd (migrate migration w m))"
    by (simp_all add: pause_xcm_ok_def mm_demo_def pause_flag_def mg_demo_upgrade_def)
  from upgrade_resumes_xcm_in_maintenance [OF hyps s1, where queue = "()"] s1 show ?thesis by (intro exI [of _ s1]) simp
qed

end
